(* ===== verification/Prelude.thy ===== *)
theory Prelude
  imports Main "HOL-Library.Word" "HOL-Library.AList" "HOL-Library.Sublist"
begin

text \<open>
  Shared vocabulary of the development: the named fact collections, Go's 64-bit integers, Go's
  maps as association lists whose order is the (arbitrary) iteration order, results of fallible
  calls as sums, and the list lemmas that more than one component uses.
\<close>

named_theorems model_unfold \<open>definitions that a component proof unfolds as a group\<close>
named_theorems gomap_simps \<open>lookup, update and delete on Go maps\<close>
named_theorems keeps_inv \<open>every operation keeps the invariant of its component\<close>

section \<open>Go's int64\<close>

type_synonym i64 = "64 word"

text \<open>
  Go's \<open>int\<close> and \<open>int64\<close> are 64-bit two's complement values on the supported (Linux, 64-bit)
  hosts: \<open>+\<close> and \<open>-\<close> on words wrap as Go's do, and comparisons read the signed value.
\<close>

abbreviation i64_lt :: "i64 \<Rightarrow> i64 \<Rightarrow> bool" where
  "i64_lt a b \<equiv> sint a < sint b"

abbreviation i64_le :: "i64 \<Rightarrow> i64 \<Rightarrow> bool" where
  "i64_le a b \<equiv> sint a \<le> sint b"

lemma sint_i64_upper: "sint (a :: i64) < 2 ^ 63"
  using sint_lt [of a] by simp

lemma sint_i64_lower: "- (2 ^ 63) \<le> sint (a :: i64)"
  using sint_ge [of a] by simp

lemma sint_small: "- (2 ^ 63) \<le> x \<Longrightarrow> x < 2 ^ 63 \<Longrightarrow> sint (of_int x :: i64) = x"
  by (simp add: sint_sbintrunc' signed_take_bit_int_eq_self)

text \<open>Signed addition is exact as long as the mathematical sum fits in 64 bits.\<close>

lemma sint_i64_add:
  assumes "- (2 ^ 63) \<le> sint a + sint b" and "sint a + sint b < 2 ^ 63"
  shows "sint (a + b :: i64) = sint a + sint b"
  using assms by (simp add: sint_word_ariths signed_take_bit_int_eq_self)

lemma sint_i64_sub:
  assumes "- (2 ^ 63) \<le> sint a - sint b" and "sint a - sint b < 2 ^ 63"
  shows "sint (a - b :: i64) = sint a - sint b"
  using assms by (simp add: sint_word_ariths signed_take_bit_int_eq_self)

section \<open>Counting the threads in a state\<close>

definition count_if :: "('a \<Rightarrow> bool) \<Rightarrow> 'a list \<Rightarrow> int" where
  "count_if P xs = int (length (filter P xs))"

lemma count_if_Nil [simp]: "count_if P [] = 0"
  by (simp add: count_if_def)

lemma count_if_Cons [simp]: "count_if P (x # xs) = (if P x then 1 else 0) + count_if P xs"
  by (simp add: count_if_def)

lemma count_if_nonneg [simp]: "0 \<le> count_if P xs"
  by (simp add: count_if_def)

lemma count_if_upd [simp]:
  "i < length xs \<Longrightarrow>
   count_if P (xs[i := x]) = count_if P xs - (if P (xs ! i) then 1 else 0) + (if P x then 1 else 0)"
  by (induction xs arbitrary: i) (auto split: nat.splits)

lemma count_if_pos: "i < length xs \<Longrightarrow> P (xs ! i) \<Longrightarrow> 0 < count_if P xs"
  by (auto simp: count_if_def) (metis filter_empty_conv nth_mem)

lemma count_if_zero_iff: "count_if P xs = 0 \<longleftrightarrow> (\<forall>x \<in> set xs. \<not> P x)"
  by (auto simp: count_if_def filter_empty_conv)

lemma count_if_mono: "(\<And>x. P x \<Longrightarrow> Q x) \<Longrightarrow> count_if P xs \<le> count_if Q xs"
  by (induction xs) auto

section \<open>Go maps\<close>

text \<open>
  A Go map is an association list with distinct keys. Ranging over a Go map visits the entries in
  an unspecified order; here that order is the list's, and theorems hold for every list.
\<close>

type_synonym ('k, 'v) gomap = "('k \<times> 'v) list"

definition wf_gomap :: "('k, 'v) gomap \<Rightarrow> bool" where
  "wf_gomap m \<longleftrightarrow> distinct (map fst m)"

abbreviation gomap_get :: "('k, 'v) gomap \<Rightarrow> 'k \<Rightarrow> 'v option" where
  "gomap_get m k \<equiv> map_of m k"

abbreviation gomap_put :: "'k \<Rightarrow> 'v \<Rightarrow> ('k, 'v) gomap \<Rightarrow> ('k, 'v) gomap" where
  "gomap_put k v m \<equiv> AList.update k v m"

abbreviation gomap_del :: "'k \<Rightarrow> ('k, 'v) gomap \<Rightarrow> ('k, 'v) gomap" where
  "gomap_del k m \<equiv> AList.delete k m"

abbreviation gomap_has :: "('k, 'v) gomap \<Rightarrow> 'k \<Rightarrow> bool" where
  "gomap_has m k \<equiv> map_of m k \<noteq> None"

text \<open>Reading a missing key yields the zero value of the element type.\<close>

definition gomap_or :: "('k, 'v) gomap \<Rightarrow> 'k \<Rightarrow> 'v \<Rightarrow> 'v" where
  "gomap_or m k z = (case map_of m k of None \<Rightarrow> z | Some v \<Rightarrow> v)"

lemma wf_gomap_Nil [simp]: "wf_gomap []"
  by (simp add: wf_gomap_def)

lemma wf_gomap_put [simp]: "wf_gomap m \<Longrightarrow> wf_gomap (gomap_put k v m)"
  by (simp add: wf_gomap_def distinct_update)

lemma wf_gomap_del [simp]: "wf_gomap m \<Longrightarrow> wf_gomap (gomap_del k m)"
  by (simp add: wf_gomap_def distinct_delete)

lemma wf_gomap_filter [simp]: "wf_gomap m \<Longrightarrow> wf_gomap (filter P m)"
  by (induction m) (auto simp: wf_gomap_def)

lemma gomap_get_put [simp, gomap_simps]:
  "gomap_get (gomap_put k v m) k' = (if k' = k then Some v else gomap_get m k')"
  by (simp add: update_conv)

lemma gomap_get_del [simp, gomap_simps]:
  "gomap_get (gomap_del k m) k' = (if k' = k then None else gomap_get m k')"
  by (simp add: delete_conv)

lemma gomap_put_fresh: "gomap_get m k = None \<Longrightarrow> gomap_put k v m = m @ [(k, v)]"
  by (induction m) auto

lemma gomap_del_filter: "gomap_del k m = filter (\<lambda>(k', _). k \<noteq> k') m"
  by (simp add: AList.delete_eq)

lemma wf_gomap_Cons:
  "wf_gomap ((k, v) # m) \<longleftrightarrow> gomap_get m k = None \<and> wf_gomap m"
  by (auto simp: wf_gomap_def map_of_eq_None_iff)

lemma gomap_get_in: "wf_gomap m \<Longrightarrow> (k, v) \<in> set m \<longleftrightarrow> gomap_get m k = Some v"
  by (simp add: wf_gomap_def)

lemma gomap_get_filter:
  assumes "wf_gomap m"
  shows "gomap_get (filter (\<lambda>(k, v). P k v) m) k =
    (case gomap_get m k of None \<Rightarrow> None | Some v \<Rightarrow> if P k v then Some v else None)"
  using assms by (induction m) (auto simp: wf_gomap_Cons split: option.splits)

section \<open>Systems with an invariant\<close>

text \<open>
  A component whose operations are steps on a shared state promises an invariant: it holds in
  every start state and every step keeps it. What follows for the reachable states is proved
  here once, and each concurrent component interprets the locale.
\<close>

definition reaches :: "('s \<Rightarrow> bool) \<Rightarrow> ('s \<Rightarrow> 's \<Rightarrow> bool) \<Rightarrow> 's \<Rightarrow> bool" where
  "reaches start step s \<longleftrightarrow> (\<exists>s0. start s0 \<and> rtranclp step s0 s)"

lemma reaches_start: "start s \<Longrightarrow> reaches start step s"
  by (auto simp: reaches_def)

lemma reaches_step: "reaches start step s \<Longrightarrow> step s s' \<Longrightarrow> reaches start step s'"
  by (auto simp: reaches_def intro: rtranclp.rtrancl_into_rtrancl)

locale invariant_system =
  fixes start :: "'s \<Rightarrow> bool"
    and step :: "'s \<Rightarrow> 's \<Rightarrow> bool"
    and inv :: "'s \<Rightarrow> bool"
  assumes inv_start: "start s \<Longrightarrow> inv s"
    and inv_step: "step s s' \<Longrightarrow> inv s \<Longrightarrow> inv s'"
begin

lemma inv_steps: "rtranclp step s s' \<Longrightarrow> inv s \<Longrightarrow> inv s'"
  by (induction rule: rtranclp_induct) (auto intro: inv_step)

lemma inv_reachable: "reaches start step s \<Longrightarrow> inv s"
  by (auto simp: reaches_def intro: inv_steps inv_start)

end

end
