(* ===== verification/Go_Float.thy ===== *)
theory Go_Float
  imports Prelude Complex_Main "HOL-Library.Log_Nat"
begin

text \<open>
  Go's \<open>float64\<close>: IEEE 754 binary64 values, with addition and integer conversion rounded to the
  nearest representable value, ties to even. A nonzero finite value is kept as the rational it
  denotes, and the two zeros, the two infinities and NaN are constructors of their own, so that
  comparisons with NaN are false and overflow gives an infinity as in the language.
\<close>

datatype float64 = FNaN | FInf bool | FZero bool | FNum rat

section \<open>Rounding\<close>

definition pow2 :: "int \<Rightarrow> rat" where
  "pow2 e = (if 0 \<le> e then 2 ^ nat e else 1 / 2 ^ nat (- e))"

definition rat_exp :: "rat \<Rightarrow> int" where
  "rat_exp q = (let (a, b) = quotient_of \<bar>q\<bar>; e = bitlen a - bitlen b
     in if of_int b * pow2 e \<le> of_int a then e else e - 1)"

definition round_even :: "rat \<Rightarrow> int" where
  "round_even q = (let f = \<lfloor>q\<rfloor>; r = q - of_int f
     in if r < 1 / 2 then f else if 1 / 2 < r then f + 1 else if even f then f else f + 1)"

definition round64 :: "rat \<Rightarrow> float64" where
  "round64 q =
     (if q = 0 then FZero False
      else let e = max (rat_exp q - 52) (- 1074); m = round_even (q / pow2 e);
               v = of_int m * pow2 e
        in if m = 0 then FZero (q < 0) else if 2 ^ 1024 \<le> \<bar>v\<bar> then FInf (q < 0) else FNum v)"

definition f64_of_int :: "int \<Rightarrow> float64" where
  "f64_of_int n = round64 (of_int n)"

section \<open>Reading, comparing, adding\<close>

fun f64_finite :: "float64 \<Rightarrow> bool" where
  "f64_finite FNaN = False"
| "f64_finite (FInf _) = False"
| "f64_finite _ = True"

fun f64_val :: "float64 \<Rightarrow> rat" where
  "f64_val (FNum q) = q"
| "f64_val _ = 0"

fun f64_lt :: "float64 \<Rightarrow> float64 \<Rightarrow> bool" where
  "f64_lt FNaN _ = False"
| "f64_lt _ FNaN = False"
| "f64_lt (FInf a) (FInf b) = (a \<and> \<not> b)"
| "f64_lt (FInf a) _ = a"
| "f64_lt _ (FInf b) = (\<not> b)"
| "f64_lt x y = (f64_val x < f64_val y)"

fun f64_eq :: "float64 \<Rightarrow> float64 \<Rightarrow> bool" where
  "f64_eq FNaN _ = False"
| "f64_eq _ FNaN = False"
| "f64_eq (FInf a) (FInf b) = (a = b)"
| "f64_eq (FInf _) _ = False"
| "f64_eq _ (FInf _) = False"
| "f64_eq x y = (f64_val x = f64_val y)"

definition f64_le :: "float64 \<Rightarrow> float64 \<Rightarrow> bool" where
  "f64_le x y \<longleftrightarrow> f64_lt x y \<or> f64_eq x y"

fun f64_add :: "float64 \<Rightarrow> float64 \<Rightarrow> float64" where
  "f64_add FNaN _ = FNaN"
| "f64_add _ FNaN = FNaN"
| "f64_add (FInf a) (FInf b) = (if a = b then FInf a else FNaN)"
| "f64_add (FInf a) _ = FInf a"
| "f64_add _ (FInf b) = FInf b"
| "f64_add (FZero a) (FZero b) = FZero (a \<and> b)"
| "f64_add x y = round64 (f64_val x + f64_val y)"

text \<open>
  Division of finite operands; the quotient of a nonzero value by zero is an infinity and zero by
  zero is NaN. A zero dividend keeps the sign rule of the standard.
\<close>

fun f64_neg :: "float64 \<Rightarrow> bool" where
  "f64_neg (FNum q) = (q < 0)"
| "f64_neg (FZero s) = s"
| "f64_neg (FInf s) = s"
| "f64_neg FNaN = False"

fun f64_div :: "float64 \<Rightarrow> float64 \<Rightarrow> float64" where
  "f64_div FNaN _ = FNaN"
| "f64_div _ FNaN = FNaN"
| "f64_div (FInf _) (FInf _) = FNaN"
| "f64_div (FInf a) y = FInf (a \<noteq> f64_neg y)"
| "f64_div x (FInf b) = FZero (f64_neg x \<noteq> b)"
| "f64_div (FZero _) (FZero _) = FNaN"
| "f64_div (FZero a) (FNum q) = FZero (a \<noteq> (q < 0))"
| "f64_div (FNum q) (FZero b) = FInf ((q < 0) \<noteq> b)"
| "f64_div (FNum p) (FNum q) = round64 (p / q)"

lemma f64_lt_finite:
  "f64_finite x \<Longrightarrow> f64_finite y \<Longrightarrow> f64_lt x y \<longleftrightarrow> f64_val x < f64_val y"
  by (cases x; cases y) auto

lemma f64_le_finite:
  "f64_finite x \<Longrightarrow> f64_finite y \<Longrightarrow> f64_le x y \<longleftrightarrow> f64_val x \<le> f64_val y"
  by (cases x; cases y) (auto simp: f64_le_def)

lemma f64_lt_irrefl [simp]: "\<not> f64_lt x x"
  by (cases x) auto

lemma f64_lt_trans: "f64_lt x y \<Longrightarrow> f64_lt y z \<Longrightarrow> f64_lt x z"
  by (cases x; cases y; cases z) auto

lemma f64_lt_zero_le: "\<not> f64_lt x (FZero False) \<Longrightarrow> f64_finite x \<Longrightarrow> 0 \<le> f64_val x"
  by (cases x) auto

lemma f64_add_finite_not_nan: "f64_finite x \<Longrightarrow> f64_finite y \<Longrightarrow> f64_add x y \<noteq> FNaN"
  by (cases x; cases y) (auto simp: round64_def Let_def)

end
