(* ===== verification/Go_Strings.thy ===== *)
theory Go_Strings
  imports Prelude "HOL-Library.Char_ord" "HOL-Library.List_Lexorder"
begin

text \<open>
  The part of Go's \<open>strings\<close> package the modelled code calls. A Go string is a byte string, here
  a \<open>char list\<close>: \<open>TrimSpace\<close> strips the UTF-8 encodings of the Unicode space characters from both
  ends, \<open>ToLower\<close> maps ASCII letters and the two code points outside ASCII whose lower case is an
  ASCII letter, \<open>Split\<close> cuts at every occurrence of a one-byte separator,
  and \<open>sort.Strings\<close> is \<open>sort\<close> under the lexicographic order of the bytes.
\<close>

section \<open>Whitespace\<close>

definition byte :: "char \<Rightarrow> nat" where
  "byte c = of_char c"

definition ascii_space :: "char \<Rightarrow> bool" where
  "ascii_space c \<longleftrightarrow> byte c \<in> {9, 10, 11, 12, 13, 32}"

text \<open>
  \<open>unicode.IsSpace\<close> beyond ASCII: U+0085, U+00A0, U+1680, U+2000 to U+200A, U+2028, U+2029,
  U+202F, U+205F and U+3000, given by the bytes of their UTF-8 encodings.
\<close>

definition space2 :: "nat \<Rightarrow> nat \<Rightarrow> bool" where
  "space2 a b \<longleftrightarrow> a = 194 \<and> (b = 133 \<or> b = 160)"

definition space3 :: "nat \<Rightarrow> nat \<Rightarrow> nat \<Rightarrow> bool" where
  "space3 a b c \<longleftrightarrow>
     (a = 225 \<and> b = 154 \<and> c = 128) \<or>
     (a = 226 \<and> b = 128 \<and> (128 \<le> c \<and> c \<le> 138 \<or> c = 168 \<or> c = 169 \<or> c = 175)) \<or>
     (a = 226 \<and> b = 129 \<and> c = 159) \<or>
     (a = 227 \<and> b = 128 \<and> c = 128)"

fun trim_left :: "string \<Rightarrow> string" where
  "trim_left [] = []"
| "trim_left [a] = (if ascii_space a then [] else [a])"
| "trim_left [a, b] =
     (if ascii_space a then trim_left [b]
      else if space2 (byte a) (byte b) then [] else [a, b])"
| "trim_left (a # b # c # s) =
     (if ascii_space a then trim_left (b # c # s)
      else if space2 (byte a) (byte b) then trim_left (c # s)
      else if space3 (byte a) (byte b) (byte c) then trim_left s
      else a # b # c # s)"

text \<open>The same on the reversed string, where the bytes of an encoding come last first.\<close>

fun trim_right_rev :: "string \<Rightarrow> string" where
  "trim_right_rev [] = []"
| "trim_right_rev [a] = (if ascii_space a then [] else [a])"
| "trim_right_rev [b, a] =
     (if ascii_space b then trim_right_rev [a]
      else if space2 (byte a) (byte b) then [] else [b, a])"
| "trim_right_rev (c # b # a # s) =
     (if ascii_space c then trim_right_rev (b # a # s)
      else if space2 (byte b) (byte c) then trim_right_rev (a # s)
      else if space3 (byte a) (byte b) (byte c) then trim_right_rev s
      else c # b # a # s)"

definition TrimSpace :: "string \<Rightarrow> string" where
  "TrimSpace s = rev (trim_right_rev (rev (trim_left s)))"

lemma trim_right_rev_suffix: "suffix (trim_right_rev s) s"
  by (induction s rule: trim_right_rev.induct) (auto intro: suffix_ConsI)

lemma trim_right_rev_not_longer [simp]: "length u > length s \<Longrightarrow> trim_right_rev s \<noteq> u"
  using suffix_length_le [OF trim_right_rev_suffix, of s] by auto

lemma length_trim_left: "length (trim_left s) \<le> length s"
  by (induction s rule: trim_left.induct) auto

lemma trim_left_not_longer [simp]: "length u > length s \<Longrightarrow> trim_left s \<noteq> u"
  using length_trim_left [of s] by auto

lemma trim_left_keeps_prefix: "trim_left (p @ q) = p @ q \<Longrightarrow> trim_left p = p"
proof (cases p rule: trim_left.cases)
  case (2 a)
  then show "trim_left (p @ q) = p @ q \<Longrightarrow> ?thesis"
    by (cases q rule: trim_left.cases) (auto split: if_splits)
next
  case (3 a b)
  then show "trim_left (p @ q) = p @ q \<Longrightarrow> ?thesis"
    by (cases q) (auto split: if_splits)
qed (auto split: if_splits)

lemma trim_left_idem [simp]: "trim_left (trim_left s) = trim_left s"
  by (induction s rule: trim_left.induct) auto

lemma trim_right_rev_idem [simp]: "trim_right_rev (trim_right_rev s) = trim_right_rev s"
  by (induction s rule: trim_right_rev.induct) auto

lemma TrimSpace_prefix: "prefix (TrimSpace s) (trim_left s)"
  using trim_right_rev_suffix [of "rev (trim_left s)"]
  by (simp add: TrimSpace_def suffix_to_prefix)

lemma TrimSpace_idem [simp]: "TrimSpace (TrimSpace s) = TrimSpace s"
proof -
  obtain q where "trim_left s = TrimSpace s @ q"
    using TrimSpace_prefix by (auto simp: prefix_def)
  then have "trim_left (TrimSpace s) = TrimSpace s"
    by (metis trim_left_idem trim_left_keeps_prefix)
  then show ?thesis by (simp add: TrimSpace_def)
qed

lemma TrimSpace_Nil [simp]: "TrimSpace [] = []"
  by (simp add: TrimSpace_def)

section \<open>Case, prefixes, suffixes, splitting\<close>

definition lower_ascii :: "char \<Rightarrow> char" where
  "lower_ascii c = (if 65 \<le> byte c \<and> byte c \<le> 90 then char_of (byte c + 32) else c)"

definition upper_ascii :: "char \<Rightarrow> char" where
  "upper_ascii c = (if 97 \<le> byte c \<and> byte c \<le> 122 then char_of (byte c - 32) else c)"

text \<open>
  The Kelvin sign U+212A (bytes 226 132 170) lowers to \<open>k\<close> and U+0130 (bytes 196 176) to \<open>i\<close>.
  Other code points outside ASCII are left as they are, which is enough for comparing the result
  with ASCII constants.
\<close>

fun ToLower :: "string \<Rightarrow> string" where
  "ToLower [] = []"
| "ToLower (a # b # c # s) =
     (if byte a = 226 \<and> byte b = 132 \<and> byte c = 170 then CHR ''k'' # ToLower s
      else if byte a = 196 \<and> byte b = 176 then CHR ''i'' # ToLower (c # s)
      else lower_ascii a # ToLower (b # c # s))"
| "ToLower [a, b] =
     (if byte a = 196 \<and> byte b = 176 then ''i'' else [lower_ascii a, lower_ascii b])"
| "ToLower [a] = [lower_ascii a]"

definition HasPrefix :: "string \<Rightarrow> string \<Rightarrow> bool" where
  "HasPrefix s p \<longleftrightarrow> take (length p) s = p"

definition HasSuffix :: "string \<Rightarrow> string \<Rightarrow> bool" where
  "HasSuffix s p \<longleftrightarrow> HasPrefix (rev s) (rev p)"

definition TrimPrefix :: "string \<Rightarrow> string \<Rightarrow> string" where
  "TrimPrefix s p = (if HasPrefix s p then drop (length p) s else s)"

fun Split :: "string \<Rightarrow> char \<Rightarrow> string list" where
  "Split [] d = [[]]"
| "Split (c # s) d =
     (if c = d then [] # Split s d
      else (case Split s d of [] \<Rightarrow> [[c]] | w # ws \<Rightarrow> (c # w) # ws))"

fun Join :: "string list \<Rightarrow> char \<Rightarrow> string" where
  "Join [] d = []"
| "Join [w] d = w"
| "Join (w # v # ws) d = w @ d # Join (v # ws) d"

lemma HasPrefix_append [simp]: "HasPrefix (p @ s) p"
  by (simp add: HasPrefix_def)

lemma HasPrefix_iff: "HasPrefix s p \<longleftrightarrow> (\<exists>t. s = p @ t)"
  by (metis HasPrefix_append HasPrefix_def append_take_drop_id)

lemma HasPrefix_Nil [simp]: "HasPrefix s []"
  by (simp add: HasPrefix_def)

lemma Split_nonempty [simp]: "Split s d \<noteq> []"
  by (induction s) (auto split: list.splits)

lemma Join_Cons: "ws \<noteq> [] \<Longrightarrow> Join (w # ws) d = w @ d # Join ws d"
  by (cases ws) auto

lemma Join_Cons_Cons: "Join ((c # w) # ws) d = c # Join (w # ws) d"
  by (cases ws) auto

text \<open>Splitting and joining at the same separator is the identity.\<close>

lemma Join_Split [simp]: "Join (Split s d) d = s"
  by (induction s) (auto simp: Join_Cons Join_Cons_Cons split: list.splits)

lemma Split_no_sep: "w \<in> set (Split s d) \<Longrightarrow> d \<notin> set w"
  by (induction s arbitrary: w) (fastforce split: if_splits list.splits)+

lemma Split_single: "d \<notin> set s \<Longrightarrow> Split s d = [s]"
  by (induction s) auto

lemma Split_append_sep: "Split (u @ d # v) d = Split u d @ Split v d"
  by (induction u) (auto split: list.splits)

lemma Split_Join:
  assumes "ws \<noteq> []" and "\<And>w. w \<in> set ws \<Longrightarrow> d \<notin> set w"
  shows "Split (Join ws d) d = ws"
  using assms
proof (induction ws d rule: Join.induct)
  case (3 w v ws d)
  then have "Split (Join (v # ws) d) d = v # ws" by simp
  moreover have "Split w d = [w]" using 3(3) by (simp add: Split_single)
  ultimately show ?case by (simp add: Split_append_sep)
qed (auto simp: Split_single)

text \<open>\<open>strings.SplitN\<close>: at most \<open>n\<close> pieces, the last one unsplit.\<close>

fun cut :: "string \<Rightarrow> char \<Rightarrow> (string \<times> string) option" where
  "cut [] d = None"
| "cut (c # s) d =
     (if c = d then Some ([], s)
      else (case cut s d of None \<Rightarrow> None | Some (a, b) \<Rightarrow> Some (c # a, b)))"

fun SplitN :: "string \<Rightarrow> char \<Rightarrow> nat \<Rightarrow> string list" where
  "SplitN s d 0 = []"
| "SplitN s d (Suc 0) = [s]"
| "SplitN s d (Suc (Suc n)) =
     (case cut s d of None \<Rightarrow> [s] | Some (a, b) \<Rightarrow> a # SplitN b d (Suc n))"

lemma cut_append: "d \<notin> set a \<Longrightarrow> cut (a @ d # b) d = Some (a, b)"
  by (induction a) auto

lemma cut_Some: "cut s d = Some (a, b) \<Longrightarrow> s = a @ d # b \<and> d \<notin> set a"
  by (induction s arbitrary: a) (auto split: if_splits option.splits)

lemma cut_None: "cut s d = None \<longleftrightarrow> d \<notin> set s"
  by (induction s) (auto split: option.splits)

section \<open>Decimal numbers\<close>

fun nat_digits :: "nat \<Rightarrow> string" where
  "nat_digits n = (if n < 10 then [char_of (48 + n)]
     else nat_digits (n div 10) @ [char_of (48 + n mod 10)])"

declare nat_digits.simps [simp del]

text \<open>\<open>%d\<close> and \<open>strconv.Itoa\<close>.\<close>

definition Itoa :: "int \<Rightarrow> string" where
  "Itoa i = (if i < 0 then CHR ''-'' # nat_digits (nat (- i)) else nat_digits (nat i))"

lemma nat_digits_nonempty [simp]: "nat_digits n \<noteq> []"
  by (subst nat_digits.simps) simp

definition digit :: "char \<Rightarrow> bool" where
  "digit c \<longleftrightarrow> 48 \<le> byte c \<and> byte c \<le> 57"

definition digits_val :: "string \<Rightarrow> int" where
  "digits_val s = foldl (\<lambda>n c. 10 * n + (int (byte c) - 48)) 0 s"

lemma byte_digit: "n < 10 \<Longrightarrow> byte (char_of (48 + n :: nat)) = 48 + n"
  by (simp add: byte_def)

lemma digits_val_append: "digits_val (s @ [c]) = 10 * digits_val s + (int (byte c) - 48)"
  by (simp add: digits_val_def)

lemma nat_digits_spec: "list_all digit (nat_digits n) \<and> digits_val (nat_digits n) = int n"
proof (induction n rule: nat_digits.induct)
  case (1 n)
  show ?case
  proof (cases "n < 10")
    case True
    then show ?thesis by (subst (1 2) nat_digits.simps) (simp add: digit_def byte_digit digits_val_def)
  next
    case False
    have "byte (char_of (48 + n mod 10)) = 48 + n mod 10" "n mod 10 \<le> 9"
      using byte_digit [of "n mod 10"] by simp_all
    then have "digit (char_of (48 + n mod 10))" "int (byte (char_of (48 + n mod 10))) - 48 = int (n mod 10)"
      by (simp_all add: digit_def)
    moreover have "10 * int (n div 10) + int (n mod 10) = int n"
      by (metis int_ops(7) mult_div_mod_eq of_nat_add of_nat_numeral)
    ultimately show ?thesis
      using 1 False by (subst (1 2) nat_digits.simps) (simp add: digits_val_append)
  qed
qed

text \<open>An optional sign, and the value if it fits in 64 bits.\<close>

definition signed_val :: "string \<Rightarrow> (string \<Rightarrow> int option) \<Rightarrow> int option" where
  "signed_val s magnitude =
     (let v = (case s of [] \<Rightarrow> None
        | c # s' \<Rightarrow> if c = CHR ''-'' then map_option uminus (magnitude s')
            else if c = CHR ''+'' then magnitude s' else magnitude s)
      in case v of None \<Rightarrow> None
         | Some n \<Rightarrow> if - (2 ^ 63) \<le> n \<and> n < 2 ^ 63 then Some n else None)"

text \<open>\<open>strconv.Atoi\<close>: the whole string is a decimal number.\<close>

definition Atoi :: "string \<Rightarrow> int option" where
  "Atoi s = signed_val s (\<lambda>t. if t \<noteq> [] \<and> list_all digit t then Some (digits_val t) else None)"

text \<open>
  \<open>fmt.Sscanf\<close> with the single verb \<open>%d\<close>: leading white space other than a line feed is skipped
  and whatever follows the digits is ignored.
\<close>

definition Sscanf_d :: "string \<Rightarrow> int option" where
  "Sscanf_d s =
     (let t = trim_left s
      in if CHR 0x0A \<in> set (take (length s - length t) s) then None
         else signed_val t (\<lambda>u. let ds = takeWhile digit u
                in if ds = [] then None else Some (digits_val ds)))"

section \<open>Searching and replacing\<close>

fun Contains :: "string \<Rightarrow> string \<Rightarrow> bool" where
  "Contains [] t = (t = [])"
| "Contains (c # s) t = (HasPrefix (c # s) t \<or> Contains s t)"

text \<open>\<open>strings.ReplaceAll\<close> of a two-byte pattern by one byte.\<close>

fun ReplaceAll2 :: "string \<Rightarrow> char \<Rightarrow> char \<Rightarrow> char \<Rightarrow> string" where
  "ReplaceAll2 (c # d # s) a b r =
     (if c = a \<and> d = b then r # ReplaceAll2 s a b r else c # ReplaceAll2 (d # s) a b r)"
| "ReplaceAll2 s a b r = s"

text \<open>\<open>strings.FieldsFunc\<close>: the maximal nonempty runs of bytes that are no separator.\<close>

fun split_func :: "string \<Rightarrow> (char \<Rightarrow> bool) \<Rightarrow> string list" where
  "split_func [] sep = [[]]"
| "split_func (c # s) sep =
     (case split_func s sep of [] \<Rightarrow> [] | w # ws \<Rightarrow> if sep c then [] # w # ws else (c # w) # ws)"

definition FieldsFunc :: "string \<Rightarrow> (char \<Rightarrow> bool) \<Rightarrow> string list" where
  "FieldsFunc s sep = filter (\<lambda>w. w \<noteq> []) (split_func s sep)"

definition TrimSuffix :: "string \<Rightarrow> string \<Rightarrow> string" where
  "TrimSuffix s t = (if HasSuffix s t then take (length s - length t) s else s)"

end
