(* ===== verification/Telemetry.thy ===== *)
theory Telemetry
  imports Go_Float Go_Strings
begin

text \<open>
  The host telemetry that admission reads (\<open>src/internal/heartbeat/capacity.go\<close>): the statistics
  record, the pressure bands, and the aggregation of the raw readings. What \<open>/proc\<close>, the cgroup
  files and \<open>statfs\<close> answer is the record \<open>raw_host\<close>, an input of the model.
\<close>

record HostDiskStats =
  dk_Mount :: string
  dk_TotalBytes :: i64
  dk_AvailableBytes :: i64
  dk_Pressure :: string

record PressureStall =
  psi_SomeAvg10 :: float64
  psi_SomeAvg60 :: float64
  psi_SomeAvg300 :: float64
  psi_SomeTotalUsec :: i64
  psi_FullAvg10 :: float64
  psi_FullAvg60 :: float64
  psi_FullAvg300 :: float64
  psi_FullTotalUsec :: i64

record HostSystemStats =
  st_CPUCount :: i64
  st_CPUQuotaCores :: float64
  st_CPULoad1m :: float64
  st_CPULoad5m :: float64
  st_CPULoad15m :: float64
  st_MemoryTotalBytes :: i64
  st_MemoryFreeBytes :: i64
  st_MemoryAvailableBytes :: i64
  st_MemoryUsedBytes :: i64
  st_MemoryLimitBytes :: i64
  st_MemoryUsageBytes :: i64
  st_MemoryPressure :: string
  st_MemoryEvents :: "(string, i64) gomap"
  st_PressureStalls :: "(string, PressureStall) gomap"
  st_CgroupControllers :: "string list"
  st_CgroupEnforcement :: string
  st_TasksCurrent :: i64
  st_TasksLimit :: i64
  st_DiskTotalBytes :: i64
  st_DiskAvailableBytes :: i64
  st_DiskPressure :: string
  st_DiskMount :: string
  st_DiskFilesystems :: "HostDiskStats list"

definition zero_stats :: HostSystemStats where
  "zero_stats = \<lparr>st_CPUCount = 0, st_CPUQuotaCores = FZero False, st_CPULoad1m = FZero False,
     st_CPULoad5m = FZero False, st_CPULoad15m = FZero False, st_MemoryTotalBytes = 0,
     st_MemoryFreeBytes = 0, st_MemoryAvailableBytes = 0, st_MemoryUsedBytes = 0,
     st_MemoryLimitBytes = 0, st_MemoryUsageBytes = 0, st_MemoryPressure = [],
     st_MemoryEvents = [], st_PressureStalls = [], st_CgroupControllers = [],
     st_CgroupEnforcement = [], st_TasksCurrent = 0, st_TasksLimit = 0, st_DiskTotalBytes = 0,
     st_DiskAvailableBytes = 0, st_DiskPressure = [], st_DiskMount = [], st_DiskFilesystems = []\<rparr>"

section \<open>Pressure bands\<close>

definition memoryPressure :: "i64 \<Rightarrow> i64 \<Rightarrow> string" where
  "memoryPressure availableBytes totalBytes =
     (if sint totalBytes \<le> 0 then ''unknown''
      else let ratio = f64_div (f64_of_int (sint availableBytes)) (f64_of_int (sint totalBytes))
        in if f64_lt ratio (round64 (1 / 10)) then ''critical''
           else if f64_lt ratio (round64 (1 / 5)) then ''warning'' else ''normal'')"

definition diskPressure :: "i64 \<Rightarrow> i64 \<Rightarrow> string" where
  "diskPressure availableBytes totalBytes =
     (if sint totalBytes \<le> 0 then ''unknown''
      else let ratio = f64_div (f64_of_int (sint availableBytes)) (f64_of_int (sint totalBytes))
        in if f64_lt ratio (round64 (1 / 20)) then ''critical''
           else if f64_lt ratio (round64 (1 / 10)) then ''warning'' else ''normal'')"

section \<open>Aggregation\<close>

record raw_host =
  raw_NumCPU :: i64
  raw_MemInfo :: "(i64 \<times> i64) option"
  raw_CPUQuota :: float64
  raw_Load :: "float64 \<times> float64 \<times> float64"
  raw_MemoryLimit :: i64
  raw_MemoryUsage :: i64
  raw_MemoryEvents :: "(string, i64) gomap"
  raw_Stalls :: "(string, PressureStall) gomap"
  raw_Enforcement :: "string list \<times> string"
  raw_Tasks :: "i64 \<times> i64"
  raw_Disks :: "HostDiskStats list"

definition take_disk :: "HostSystemStats \<Rightarrow> HostDiskStats \<Rightarrow> HostSystemStats" where
  "take_disk stats disk =
     (if st_DiskMount stats = [] \<or> i64_lt (dk_AvailableBytes disk) (st_DiskAvailableBytes stats)
      then stats\<lparr>st_DiskMount := dk_Mount disk, st_DiskTotalBytes := dk_TotalBytes disk,
             st_DiskAvailableBytes := dk_AvailableBytes disk,
             st_DiskPressure := dk_Pressure disk\<rparr>
      else stats)"

fun pick_disk :: "HostSystemStats \<Rightarrow> HostDiskStats list \<Rightarrow> HostSystemStats" where
  "pick_disk stats [] = stats"
| "pick_disk stats (disk # disks) = pick_disk (take_disk stats disk) disks"

definition with_meminfo :: "HostSystemStats \<Rightarrow> (i64 \<times> i64) option \<Rightarrow> HostSystemStats" where
  "with_meminfo stats info =
     (case info of None \<Rightarrow> stats
      | Some (memTotal, memFree) \<Rightarrow>
          stats\<lparr>st_MemoryTotalBytes := memTotal, st_MemoryFreeBytes := memFree,
            st_MemoryAvailableBytes := memFree,
            st_MemoryUsedBytes := (if i64_lt (memTotal - memFree) 0 then 0 else memTotal - memFree),
            st_MemoryPressure := memoryPressure memFree memTotal\<rparr>)"

definition ReadHostSystemStatsForPaths :: "raw_host \<Rightarrow> HostSystemStats" where
  "ReadHostSystemStatsForPaths raw =
     (let stats = with_meminfo (zero_stats\<lparr>st_CPUCount := raw_NumCPU raw\<rparr>) (raw_MemInfo raw);
          (l1, l5, l15) = raw_Load raw;
          stats = stats\<lparr>st_CPUQuotaCores := raw_CPUQuota raw, st_CPULoad1m := l1,
            st_CPULoad5m := l5, st_CPULoad15m := l15, st_MemoryLimitBytes := raw_MemoryLimit raw,
            st_MemoryUsageBytes := raw_MemoryUsage raw, st_MemoryEvents := raw_MemoryEvents raw,
            st_PressureStalls := raw_Stalls raw,
            st_CgroupControllers := fst (raw_Enforcement raw),
            st_CgroupEnforcement := snd (raw_Enforcement raw),
            st_TasksCurrent := fst (raw_Tasks raw), st_TasksLimit := snd (raw_Tasks raw),
            st_DiskFilesystems := raw_Disks raw\<rparr>
      in pick_disk stats (raw_Disks raw))"

section \<open>The reported disk is the fullest one\<close>

text \<open>The disk the statistics currently report.\<close>

definition reports_disk :: "HostSystemStats \<Rightarrow> HostDiskStats \<Rightarrow> bool" where
  "reports_disk stats d \<longleftrightarrow> st_DiskMount stats = dk_Mount d \<and>
     st_DiskTotalBytes stats = dk_TotalBytes d \<and>
     st_DiskAvailableBytes stats = dk_AvailableBytes d \<and> st_DiskPressure stats = dk_Pressure d"

lemma take_disk_mount: "dk_Mount disk \<noteq> [] \<Longrightarrow> st_DiskMount (take_disk stats disk) \<noteq> []"
  by (simp add: take_disk_def)

lemma take_disk_least:
  "i64_le (st_DiskAvailableBytes (take_disk stats disk)) (dk_AvailableBytes disk)"
  "st_DiskMount stats \<noteq> [] \<Longrightarrow>
   i64_le (st_DiskAvailableBytes (take_disk stats disk)) (st_DiskAvailableBytes stats)"
  by (auto simp: take_disk_def)

lemma take_disk_reports:
  "reports_disk (take_disk stats disk) disk \<or> take_disk stats disk = stats \<and> st_DiskMount stats \<noteq> []"
  by (auto simp: take_disk_def reports_disk_def)

lemma pick_disk_le_start:
  assumes "st_DiskMount stats \<noteq> []" and "\<forall>d \<in> set disks. dk_Mount d \<noteq> []"
  shows "i64_le (st_DiskAvailableBytes (pick_disk stats disks)) (st_DiskAvailableBytes stats)"
  using assms
proof (induction disks arbitrary: stats)
  case (Cons disk disks)
  then show ?case
    using take_disk_least(2) [of stats disk] take_disk_mount [of disk stats] by fastforce
qed simp

lemma pick_disk_least:
  assumes "\<forall>d \<in> set disks. dk_Mount d \<noteq> []" and "d \<in> set disks"
  shows "i64_le (st_DiskAvailableBytes (pick_disk stats disks)) (dk_AvailableBytes d)"
  using assms
proof (induction disks arbitrary: stats)
  case (Cons disk disks)
  have "i64_le (st_DiskAvailableBytes (pick_disk (take_disk stats disk) disks)) (dk_AvailableBytes disk)"
    using Cons.prems take_disk_mount [of disk stats] take_disk_least(1) [of stats disk]
      pick_disk_le_start [of "take_disk stats disk" disks] by fastforce
  then show ?case using Cons by auto
qed simp

lemma pick_disk_kept:
  "(\<exists>d \<in> set disks. reports_disk (pick_disk stats disks) d) \<or> pick_disk stats disks = stats"
proof (induction disks arbitrary: stats)
  case (Cons disk disks)
  show ?case
    using Cons.IH [of "take_disk stats disk"] take_disk_reports [of stats disk] by auto
qed simp

lemma pick_disk_from:
  assumes "disks \<noteq> []" and "st_DiskMount stats = []"
  shows "\<exists>d \<in> set disks. reports_disk (pick_disk stats disks) d"
proof (cases disks)
  case (Cons disk ds)
  then have "reports_disk (take_disk stats disk) disk"
    using take_disk_reports [of stats disk] assms(2) by auto
  then show ?thesis
    using pick_disk_kept [of ds "take_disk stats disk"] Cons by auto
qed (use assms in simp)

end
