(* ===== verification/Admission.thy ===== *)
theory Admission
  imports Telemetry
begin

text \<open>
  Host-local admission (\<open>src/internal/resource/admission.go\<close>): the policy configuration, the tool
  classifier, the pressure verdict, and the permit coordinator. \<open>AcquireClass\<close> is a loop that many
  goroutines run at once; every stretch it runs under \<open>c.mu\<close> is one atomic step on the shared
  \<open>Coordinator\<close> record, and \<open>acq_step\<close> interleaves the goroutines.
\<close>

section \<open>Errors\<close>

record AdmissionError =
  ae_Code :: string
  ae_Class :: string
  ae_Pressure :: string
  ae_Reason :: string
  ae_RetryAfterMs :: int

record RequestError =
  re_Code :: string
  re_Field :: string
  re_Reason :: string

record ReconcileError =
  rc_Code :: string
  rc_Reason :: string

text \<open>
  The error values of the package: its own three types, the error of a done context, and an error
  of the operating system or of the JSON codec.
\<close>

datatype GoError =
    ErrAdmission AdmissionError
  | ErrRequest RequestError
  | ErrReconcile ReconcileError
  | ErrCtx string
  | ErrIO string

section \<open>Policy\<close>

definition ClassControl :: string where "ClassControl = ''control''"
definition ClassNormal :: string where "ClassNormal = ''normal''"
definition ClassHeavy :: string where "ClassHeavy = ''heavy''"

lemma class_distinct [simp]:
  "ClassControl \<noteq> ClassNormal" "ClassControl \<noteq> ClassHeavy" "ClassNormal \<noteq> ClassHeavy"
  "ClassNormal \<noteq> ClassControl" "ClassHeavy \<noteq> ClassControl" "ClassHeavy \<noteq> ClassNormal"
  by (simp_all add: ClassControl_def ClassNormal_def ClassHeavy_def)

definition HostResourcePolicyRevision :: string where
  "HostResourcePolicyRevision = ''opute-host-resource-policy.v2''"

definition EnforcementEnforced :: string where "EnforcementEnforced = ''enforced''"
definition EnforcementUnsupported :: string where "EnforcementUnsupported = ''unsupported''"
definition EnforcementUnknown :: string where "EnforcementUnknown = ''unknown''"

text \<open>
  The policy. \<open>LockDir\<close> and \<open>DiskPaths\<close> only name files; the two callbacks are inputs of the
  operations that call them. Durations are nanoseconds.
\<close>

record Config =
  cf_LockDir :: string
  cf_MaxNormal :: int
  cf_MaxHeavy :: int
  cf_MaxQueued :: int
  cf_MinAvailableMemoryBytes :: i64
  cf_MinAvailableDiskBytes :: i64
  cf_DiskPaths :: "string list"
  cf_PolicyRevision :: string
  cf_EnforcementMode :: string
  cf_FailClosedOnUnknown :: bool
  cf_CPUCapacityCores :: float64
  cf_MemoryCapacityBytes :: i64
  cf_DiskCapacityBytes :: i64
  cf_TaskCapacity :: i64
  cf_ReservationTTL :: int
  cf_TenantID :: string

definition fifteen_minutes :: int where
  "fifteen_minutes = 15 * 60 * 1000000000"

definition DefaultConfig :: "string \<Rightarrow> Config" where
  "DefaultConfig lockDir = \<lparr>cf_LockDir = lockDir, cf_MaxNormal = 2, cf_MaxHeavy = 1,
     cf_MaxQueued = 16, cf_MinAvailableMemoryBytes = 0, cf_MinAvailableDiskBytes = 0,
     cf_DiskPaths = [''/''], cf_PolicyRevision = HostResourcePolicyRevision,
     cf_EnforcementMode = [], cf_FailClosedOnUnknown = False, cf_CPUCapacityCores = FZero False,
     cf_MemoryCapacityBytes = 0, cf_DiskCapacityBytes = 0, cf_TaskCapacity = 0,
     cf_ReservationTTL = fifteen_minutes, cf_TenantID = []\<rparr>"

text \<open>The counters of the coordinator; \<open>notify\<close> is the number of the current channel.\<close>

record Coordinator =
  co_config :: Config
  co_normalActive :: int
  co_heavyActive :: int
  co_queued :: int
  co_heavyQueued :: int
  co_notify :: nat

text \<open>
  \<open>NewCoordinator\<close> with the directory \<open>tmp\<close> it falls back to; creating the two host locks can
  fail, which is the argument \<open>lockErr\<close>.
\<close>

definition normalize_config :: "string \<Rightarrow> Config \<Rightarrow> Config" where
  "normalize_config tmp config =
     (let config = (if cf_MaxNormal config \<le> 0 then config\<lparr>cf_MaxNormal := 2\<rparr> else config);
          config = (if cf_MaxHeavy config \<le> 0 then config\<lparr>cf_MaxHeavy := 1\<rparr> else config);
          config = (if cf_MaxQueued config \<le> 0 then config\<lparr>cf_MaxQueued := 16\<rparr> else config);
          config = (if cf_DiskPaths config = [] then config\<lparr>cf_DiskPaths := [''/'']\<rparr> else config);
          config = (if TrimSpace (cf_PolicyRevision config) = []
            then config\<lparr>cf_PolicyRevision := HostResourcePolicyRevision\<rparr> else config);
          config = (if cf_ReservationTTL config \<le> 0
            then config\<lparr>cf_ReservationTTL := fifteen_minutes\<rparr> else config)
      in if TrimSpace (cf_LockDir config) = [] then config\<lparr>cf_LockDir := tmp\<rparr> else config)"

definition NewCoordinator :: "string \<Rightarrow> string option \<Rightarrow> Config \<Rightarrow> string + Coordinator" where
  "NewCoordinator tmp lockErr config =
     (case lockErr of Some err \<Rightarrow> Inl err
      | None \<Rightarrow> Inr \<lparr>co_config = normalize_config tmp config, co_normalActive = 0,
          co_heavyActive = 0, co_queued = 0, co_heavyQueued = 0, co_notify = 0\<rparr>)"

section \<open>Classification by name\<close>

definition isHeavyTool :: "string \<Rightarrow> bool" where
  "isHeavyTool name \<longleftrightarrow> name \<in> set [''install_host_agent'', ''run_runtime_recipe'',
     ''run_tunnel_recipe'', ''opute.provider.install'', ''opute.provider.reload'',
     ''opute.provider.teardown'']"

definition ClassifyTool :: "string \<Rightarrow> string" where
  "ClassifyTool tool =
     (let name = ToLower (TrimSpace tool)
      in if name = [] \<or> name = ''health'' \<or> name = ''ping'' \<or> name = ''host_agent_heartbeat'' \<or>
            name = ''register_host_agent'' \<or> name = ''get_host_health'' \<or>
            name = ''cancel_operation'' \<or> name = ''get_host_info'' \<or> name = ''get_local_status'' \<or>
            name = ''list_vms'' \<or> name = ''list_clusters'' \<or> name = ''list_agents'' \<or>
            name = ''get_agent'' \<or> name = ''inspect_container_storage'' \<or>
            name = ''detect_host_platform'' \<or> HasPrefix name ''get_'' \<or>
            HasPrefix name ''list_'' \<or> HasPrefix name ''check_''
         then ClassControl
         else if isHeavyTool name then ClassHeavy else ClassNormal)"

section \<open>Pressure\<close>

record PressureSnapshot =
  ps_Pressure :: string
  ps_Reason :: string
  ps_MemoryAvailableBytes :: i64
  ps_DiskAvailableBytes :: i64
  ps_DiskPressure :: string
  ps_NormalInFlight :: int
  ps_HeavyInFlight :: int
  ps_Queued :: int
  ps_CheckedAt :: int
  ps_MemoryEvents :: "(string, i64) gomap"
  ps_PressureStalls :: "(string, PressureStall) gomap"
  ps_CgroupControllers :: "string list"
  ps_CgroupEnforcement :: string
  ps_TasksCurrent :: i64
  ps_TasksLimit :: i64

definition normalizeEnforcement :: "string \<Rightarrow> string" where
  "normalizeEnforcement value =
     (let v = ToLower (TrimSpace value)
      in if v = EnforcementEnforced then EnforcementEnforced
         else if v = EnforcementUnsupported then EnforcementUnsupported
         else if v = EnforcementUnknown then EnforcementUnknown else [])"

definition below_floor :: "i64 \<Rightarrow> i64 \<Rightarrow> bool" where
  "below_floor least available \<longleftrightarrow> i64_lt 0 least \<and> i64_lt 0 available \<and> i64_lt available least"

definition memory_verdict :: "Config \<Rightarrow> HostSystemStats \<Rightarrow> string \<times> string" where
  "memory_verdict config stats =
     (if st_MemoryPressure stats = ''critical'' \<or>
         below_floor (cf_MinAvailableMemoryBytes config) (st_MemoryAvailableBytes stats)
      then (''critical'', ''available memory is below the host admission threshold'')
      else if st_MemoryPressure stats = ''warning'' then (''warning'', ''available memory is low'')
      else (''normal'', []))"

definition disk_verdict :: "Config \<Rightarrow> HostSystemStats \<Rightarrow> string \<times> string \<Rightarrow> string \<times> string" where
  "disk_verdict config stats verdict =
     (if st_DiskPressure stats = ''critical'' \<or>
         below_floor (cf_MinAvailableDiskBytes config) (st_DiskAvailableBytes stats)
      then (''critical'', ''available disk is below the host admission threshold'')
      else if fst verdict \<noteq> ''critical'' \<and> st_DiskPressure stats = ''warning''
      then (''warning'', ''available disk is low'')
      else verdict)"

text \<open>
  \<open>probe\<close> is the answer of the configured \<open>EnforcementProbe\<close>, None when the policy has none, and
  \<open>now\<close> the clock reading.
\<close>

definition pressure :: "Config \<Rightarrow> HostSystemStats \<Rightarrow> string option \<Rightarrow> int \<Rightarrow> PressureSnapshot" where
  "pressure config stats probe now =
     (let enforcement = (case probe of None \<Rightarrow> st_CgroupEnforcement stats
            | Some answer \<Rightarrow> let probed = normalizeEnforcement answer
                in if probed \<noteq> [] then probed else st_CgroupEnforcement stats);
          (level, reason) = disk_verdict config stats (memory_verdict config stats)
      in \<lparr>ps_Pressure = level, ps_Reason = reason,
          ps_MemoryAvailableBytes = st_MemoryAvailableBytes stats,
          ps_DiskAvailableBytes = st_DiskAvailableBytes stats,
          ps_DiskPressure = st_DiskPressure stats, ps_NormalInFlight = 0, ps_HeavyInFlight = 0,
          ps_Queued = 0, ps_CheckedAt = now, ps_MemoryEvents = st_MemoryEvents stats,
          ps_PressureStalls = st_PressureStalls stats,
          ps_CgroupControllers = st_CgroupControllers stats,
          ps_CgroupEnforcement = enforcement, ps_TasksCurrent = st_TasksCurrent stats,
          ps_TasksLimit = st_TasksLimit stats\<rparr>)"

section \<open>The counters\<close>

definition canReserve :: "Coordinator \<Rightarrow> string \<Rightarrow> bool" where
  "canReserve c class \<longleftrightarrow>
     (if class = ClassHeavy
      then co_heavyActive c < cf_MaxHeavy (co_config c) \<and> co_normalActive c = 0
      else co_heavyActive c = 0 \<and> co_normalActive c < cf_MaxNormal (co_config c) \<and>
           co_heavyQueued c = 0)"

definition reserve :: "Coordinator \<Rightarrow> string \<Rightarrow> Coordinator" where
  "reserve c class =
     (if class = ClassHeavy then c\<lparr>co_heavyActive := co_heavyActive c + 1\<rparr>
      else c\<lparr>co_normalActive := co_normalActive c + 1\<rparr>)"

definition signal :: "Coordinator \<Rightarrow> Coordinator" where
  "signal c = c\<lparr>co_notify := Suc (co_notify c)\<rparr>"

definition release :: "Coordinator \<Rightarrow> string \<Rightarrow> Coordinator" where
  "release c class =
     signal (if class = ClassHeavy then c\<lparr>co_heavyActive := co_heavyActive c - 1\<rparr>
       else c\<lparr>co_normalActive := co_normalActive c - 1\<rparr>)"

definition dequeue :: "Coordinator \<Rightarrow> string \<Rightarrow> Coordinator" where
  "dequeue c class =
     (let c = (if 0 < co_queued c then c\<lparr>co_queued := co_queued c - 1\<rparr> else c)
      in if class = ClassHeavy \<and> 0 < co_heavyQueued c
         then c\<lparr>co_heavyQueued := co_heavyQueued c - 1\<rparr> else c)"

lemmas counter_defs = canReserve_def reserve_def signal_def release_def dequeue_def

end
