(* ===== verification/Permits.thy ===== *)
theory Permits
  imports Admission
begin

text \<open>
  \<open>Coordinator.AcquireClass\<close> as a concurrent program
  (\<open>src/internal/resource/admission.go\<close>). A goroutine is at one of the program points of the loop;
  a step moves one goroutine across one stretch that the code runs without interruption, which is
  either a stretch under \<open>c.mu\<close> or one that touches no shared state.
\<close>

section \<open>Program points\<close>

datatype outcome = Refused GoError | Finished

datatype point =
    Idle string                      \<comment> \<open>about to call with this class\<close>
  | AtLoop string                    \<comment> \<open>at the head of the loop\<close>
  | Checked string PressureSnapshot  \<comment> \<open>pressure read, about to take the mutex\<close>
  | Reserved string                  \<comment> \<open>counted, acquiring the host lock\<close>
  | Waiting string nat               \<comment> \<open>queued on a channel\<close>
  | Holding string                   \<comment> \<open>the permit is with the caller\<close>
  | Exempt                           \<comment> \<open>control class: an empty release function\<close>
  | Over outcome

fun counts_normal :: "point \<Rightarrow> bool" where
  "counts_normal (Reserved cl) = (cl \<noteq> ClassHeavy)"
| "counts_normal (Holding cl) = (cl \<noteq> ClassHeavy)"
| "counts_normal _ = False"

fun counts_heavy :: "point \<Rightarrow> bool" where
  "counts_heavy (Reserved cl) = (cl = ClassHeavy)"
| "counts_heavy (Holding cl) = (cl = ClassHeavy)"
| "counts_heavy _ = False"

fun is_waiting :: "point \<Rightarrow> bool" where
  "is_waiting (Waiting _ _) = True"
| "is_waiting _ = False"

fun heavy_waiting :: "point \<Rightarrow> bool" where
  "heavy_waiting (Waiting cl _) = (cl = ClassHeavy)"
| "heavy_waiting _ = False"

section \<open>The stretches of the loop\<close>

definition acquire_begin :: "string \<Rightarrow> point" where
  "acquire_begin class = (if class = ClassControl then Exempt else AtLoop class)"

definition acquire_check :: "string \<Rightarrow> PressureSnapshot \<Rightarrow> point" where
  "acquire_check class p =
     (if class = ClassHeavy \<and> ps_Pressure p = ''critical''
      then Over (Refused (ErrAdmission \<lparr>ae_Code = ''host_resource_pressure'', ae_Class = class,
        ae_Pressure = ps_Pressure p, ae_Reason = ps_Reason p, ae_RetryAfterMs = 5000\<rparr>))
      else Checked class p)"

definition acquire_enter :: "Coordinator \<Rightarrow> string \<Rightarrow> PressureSnapshot \<Rightarrow> Coordinator \<times> point" where
  "acquire_enter c class p =
     (if canReserve c class then (reserve c class, Reserved class)
      else if cf_MaxQueued (co_config c) \<le> co_queued c
      then (c, Over (Refused (ErrAdmission \<lparr>ae_Code = ''host_capacity_saturated'',
        ae_Class = class, ae_Pressure = ps_Pressure p,
        ae_Reason = ''host admission queue is full'', ae_RetryAfterMs = 1000\<rparr>)))
      else (let c = c\<lparr>co_queued := co_queued c + 1\<rparr>;
                c = (if class = ClassHeavy then c\<lparr>co_heavyQueued := co_heavyQueued c + 1\<rparr> else c)
            in (c, Waiting class (co_notify c))))"

definition acquire_lock :: "Coordinator \<Rightarrow> string \<Rightarrow> string option \<Rightarrow> Coordinator \<times> point" where
  "acquire_lock c class lockErr =
     (case lockErr of None \<Rightarrow> (c, Holding class)
      | Some err \<Rightarrow> (release c class, Over (Refused (ErrIO err))))"

definition acquire_cancel :: "Coordinator \<Rightarrow> string \<Rightarrow> string \<Rightarrow> Coordinator \<times> point" where
  "acquire_cancel c class err = (signal (dequeue c class), Over (Refused (ErrCtx err)))"

definition acquire_wake :: "Coordinator \<Rightarrow> string \<Rightarrow> Coordinator \<times> point" where
  "acquire_wake c class = (dequeue c class, AtLoop class)"

definition permit_release :: "Coordinator \<Rightarrow> string \<Rightarrow> Coordinator \<times> point" where
  "permit_release c class = (release c class, Over Finished)"

section \<open>Interleaving\<close>

type_synonym system = "Coordinator \<times> point list"

inductive acq_step :: "system \<Rightarrow> system \<Rightarrow> bool" where
  step_begin: "i < length ts \<Longrightarrow> ts ! i = Idle cl \<Longrightarrow>
     acq_step (c, ts) (c, ts[i := acquire_begin cl])"
| step_check: "i < length ts \<Longrightarrow> ts ! i = AtLoop cl \<Longrightarrow>
     acq_step (c, ts) (c, ts[i := acquire_check cl (pressure (co_config c) stats probe now)])"
| step_enter: "i < length ts \<Longrightarrow> ts ! i = Checked cl p \<Longrightarrow> acquire_enter c cl p = (c', t) \<Longrightarrow>
     acq_step (c, ts) (c', ts[i := t])"
| step_lock: "i < length ts \<Longrightarrow> ts ! i = Reserved cl \<Longrightarrow> acquire_lock c cl lockErr = (c', t) \<Longrightarrow>
     acq_step (c, ts) (c', ts[i := t])"
| step_cancel: "i < length ts \<Longrightarrow> ts ! i = Waiting cl n \<Longrightarrow> acquire_cancel c cl err = (c', t) \<Longrightarrow>
     acq_step (c, ts) (c', ts[i := t])"
| step_wake: "i < length ts \<Longrightarrow> ts ! i = Waiting cl n \<Longrightarrow> n < co_notify c \<Longrightarrow>
     acquire_wake c cl = (c', t) \<Longrightarrow> acq_step (c, ts) (c', ts[i := t])"
| step_release: "i < length ts \<Longrightarrow> ts ! i = Holding cl \<Longrightarrow> permit_release c cl = (c', t) \<Longrightarrow>
     acq_step (c, ts) (c', ts[i := t])"

inductive_cases acq_stepE: "acq_step (c, ts) s'"

lemmas segment_defs = acquire_begin_def acquire_check_def acquire_enter_def acquire_lock_def
  acquire_cancel_def acquire_wake_def permit_release_def

fun acq_start :: "system \<Rightarrow> bool" where
  "acq_start (c, ts) \<longleftrightarrow> (\<exists>tmp config. NewCoordinator tmp None config = Inr c) \<and>
     (\<forall>t \<in> set ts. \<exists>cl. t = Idle cl)"

abbreviation acq_reachable :: "system \<Rightarrow> bool" where
  "acq_reachable \<equiv> reaches acq_start acq_step"

section \<open>The counters count\<close>

definition counters_ok :: "system \<Rightarrow> bool" where
  "counters_ok s \<longleftrightarrow> (case s of (c, ts) \<Rightarrow>
     co_normalActive c = count_if counts_normal ts \<and>
     co_heavyActive c = count_if counts_heavy ts \<and>
     co_queued c = count_if is_waiting ts \<and>
     co_heavyQueued c = count_if heavy_waiting ts)"

definition limits_ok :: "system \<Rightarrow> bool" where
  "limits_ok s \<longleftrightarrow> (case s of (c, ts) \<Rightarrow>
     0 < cf_MaxNormal (co_config c) \<and> 0 < cf_MaxHeavy (co_config c) \<and>
     0 < cf_MaxQueued (co_config c) \<and>
     co_normalActive c \<le> cf_MaxNormal (co_config c) \<and>
     co_heavyActive c \<le> cf_MaxHeavy (co_config c) \<and>
     co_queued c \<le> cf_MaxQueued (co_config c) \<and>
     (co_normalActive c = 0 \<or> co_heavyActive c = 0))"

definition channels_ok :: "system \<Rightarrow> bool" where
  "channels_ok s \<longleftrightarrow> (case s of (c, ts) \<Rightarrow>
     \<forall>i < length ts. \<forall>cl n. ts ! i = Waiting cl n \<longrightarrow> n \<le> co_notify c)"

lemma waiting_counted:
  assumes "counters_ok (c, ts)" and "i < length ts" and "ts ! i = Waiting cl n"
  shows "0 < co_queued c" and "cl = ClassHeavy \<Longrightarrow> 0 < co_heavyQueued c"
  using assms count_if_pos [of i ts is_waiting] count_if_pos [of i ts heavy_waiting]
  by (auto simp: counters_ok_def)

lemma counters_ok_step:
  assumes "acq_step s s'" and "counters_ok s"
  shows "counters_ok s'"
  using assms
proof (induction rule: acq_step.induct)
  case (step_cancel i ts cl n c err c' t)
  then show ?case using waiting_counted [OF step_cancel(4,1,2)]
    by (auto simp: counters_ok_def segment_defs counter_defs Let_def)
next
  case (step_wake i ts cl n c c' t)
  then show ?case using waiting_counted [OF step_wake(5,1,2)]
    by (auto simp: counters_ok_def segment_defs counter_defs Let_def)
qed (auto simp: counters_ok_def segment_defs counter_defs Let_def split: if_splits option.splits)

lemma limits_ok_step:
  assumes "acq_step s s'" and "counters_ok s" and "limits_ok s"
  shows "limits_ok s'"
  using assms
proof (induction rule: acq_step.induct)
  case (step_lock i ts cl c lockErr c' t)
  then show ?case
    by (auto simp: limits_ok_def counters_ok_def segment_defs counter_defs split: option.splits)
      (use count_if_pos [of i ts counts_normal] count_if_pos [of i ts counts_heavy] in auto)
next
  case (step_release i ts cl c c' t)
  then show ?case
    by (auto simp: limits_ok_def counters_ok_def segment_defs counter_defs)
      (use count_if_pos [of i ts counts_normal] count_if_pos [of i ts counts_heavy] in auto)
qed (auto simp: limits_ok_def counters_ok_def segment_defs counter_defs Let_def
    split: if_splits option.splits)

lemma channels_ok_step:
  assumes "acq_step s s'" and "channels_ok s"
  shows "channels_ok s'"
  using assms
  by (induction rule: acq_step.induct)
    (auto simp: channels_ok_def segment_defs counter_defs Let_def nth_list_update
      split: if_splits option.splits)

definition permits_inv :: "system \<Rightarrow> bool" where
  "permits_inv s \<longleftrightarrow> counters_ok s \<and> limits_ok s \<and> channels_ok s"

lemma normalize_config_limits:
  "0 < cf_MaxNormal (normalize_config tmp config)"
  "0 < cf_MaxHeavy (normalize_config tmp config)"
  "0 < cf_MaxQueued (normalize_config tmp config)"
  by (simp_all add: normalize_config_def Let_def)

lemma permits_inv_start:
  assumes "acq_start s"
  shows "permits_inv s"
proof -
  obtain c ts tmp config where s: "s = (c, ts)" and c: "NewCoordinator tmp None config = Inr c"
    and idle: "\<forall>t \<in> set ts. \<exists>cl. t = Idle cl"
    using assms by (cases s) auto
  have "count_if P ts = 0" if "\<And>cl. \<not> P (Idle cl)" for P
    using idle that by (auto simp: count_if_zero_iff)
  moreover have "ts ! i \<noteq> Waiting cl n" if "i < length ts" for i cl n
    using idle that nth_mem by fastforce
  ultimately show ?thesis
    using c normalize_config_limits [of tmp config]
    by (auto simp: s permits_inv_def counters_ok_def limits_ok_def channels_ok_def
        NewCoordinator_def)
qed

interpretation permits: invariant_system acq_start acq_step permits_inv
proof unfold_locales
  show "permits_inv s" if "acq_start s" for s
    using that by (rule permits_inv_start)
  show "permits_inv s'" if "acq_step s s'" and "permits_inv s" for s s'
    using that counters_ok_step limits_ok_step channels_ok_step by (auto simp: permits_inv_def)
qed

section \<open>What the permits guarantee\<close>

text \<open>
  A run that all the examples below share: a normal call holds a permit, a heavy call queues behind
  it, and a second normal call queues behind the heavy one.
\<close>

definition demo_config :: Config where
  "demo_config = normalize_config ''/tmp/opute'' (DefaultConfig ''/run/lock'')"

definition demo_c :: "int \<Rightarrow> int \<Rightarrow> int \<Rightarrow> nat \<Rightarrow> Coordinator" where
  "demo_c normal queued heavyQueued channel = \<lparr>co_config = demo_config,
     co_normalActive = normal, co_heavyActive = 0, co_queued = queued,
     co_heavyQueued = heavyQueued, co_notify = channel\<rparr>"

definition calm :: PressureSnapshot where
  "calm = pressure demo_config zero_stats None 0"

definition tight :: PressureSnapshot where
  "tight = pressure demo_config (zero_stats\<lparr>st_MemoryPressure := ''critical''\<rparr>) None 0"

lemma demo_limits [simp]:
  "cf_MaxNormal demo_config = 2" "cf_MaxHeavy demo_config = 1" "cf_MaxQueued demo_config = 16"
  by (simp_all add: demo_config_def normalize_config_def DefaultConfig_def Let_def)

lemma demo_c_simps [simp]:
  "co_config (demo_c n q h k) = demo_config" "co_normalActive (demo_c n q h k) = n"
  "co_heavyActive (demo_c n q h k) = 0" "co_queued (demo_c n q h k) = q"
  "co_heavyQueued (demo_c n q h k) = h" "co_notify (demo_c n q h k) = k"
  by (simp_all add: demo_c_def)

lemma calm_pressure [simp]: "ps_Pressure calm = ''normal''"
  by (simp add: calm_def pressure_def memory_verdict_def disk_verdict_def zero_stats_def
      below_floor_def)

lemma tight_pressure [simp]: "ps_Pressure tight = ''critical''"
  by (simp add: tight_def pressure_def memory_verdict_def disk_verdict_def below_floor_def
      zero_stats_def)

text \<open>
  A scheduler's choice, and the step it makes when the chosen goroutine can move: a run given by
  its moves is computed and its steps are steps of the relation.
\<close>

datatype move =
    MBegin nat | MCheck nat HostSystemStats | MEnter nat | MLock nat | MWake nat | MRelease nat

definition move_to :: "point list \<Rightarrow> nat \<Rightarrow> Coordinator \<times> point \<Rightarrow> system option" where
  "move_to ts i r = Some (fst r, ts[i := snd r])"

fun acq_exec :: "move \<Rightarrow> system \<Rightarrow> system option" where
  "acq_exec (MBegin i) (c, ts) = (if i < length ts then
     (case ts ! i of Idle cl \<Rightarrow> move_to ts i (c, acquire_begin cl) | _ \<Rightarrow> None) else None)"
| "acq_exec (MCheck i stats) (c, ts) = (if i < length ts then
     (case ts ! i of AtLoop cl \<Rightarrow>
        move_to ts i (c, acquire_check cl (pressure (co_config c) stats None 0))
      | _ \<Rightarrow> None) else None)"
| "acq_exec (MEnter i) (c, ts) = (if i < length ts then
     (case ts ! i of Checked cl p \<Rightarrow> move_to ts i (acquire_enter c cl p) | _ \<Rightarrow> None) else None)"
| "acq_exec (MLock i) (c, ts) = (if i < length ts then
     (case ts ! i of Reserved cl \<Rightarrow> move_to ts i (acquire_lock c cl None) | _ \<Rightarrow> None) else None)"
| "acq_exec (MWake i) (c, ts) = (if i < length ts then
     (case ts ! i of Waiting cl n \<Rightarrow>
        if n < co_notify c then move_to ts i (acquire_wake c cl) else None | _ \<Rightarrow> None) else None)"
| "acq_exec (MRelease i) (c, ts) = (if i < length ts then
     (case ts ! i of Holding cl \<Rightarrow> move_to ts i (permit_release c cl) | _ \<Rightarrow> None) else None)"

lemma acq_exec_step: "acq_exec m s = Some s' \<Longrightarrow> acq_step s s'"
  by (cases "(m, s)" rule: acq_exec.cases)
    (auto simp: move_to_def split: if_splits point.splits intro: acq_step.intros)

fun acq_run :: "move list \<Rightarrow> system \<Rightarrow> system option" where
  "acq_run [] s = Some s"
| "acq_run (m # ms) s = (case acq_exec m s of None \<Rightarrow> None | Some s' \<Rightarrow> acq_run ms s')"

lemma acq_run_steps: "acq_run ms s = Some s' \<Longrightarrow> rtranclp acq_step s s'"
  by (induction ms arbitrary: s)
    (auto split: option.splits dest: acq_exec_step intro: converse_rtranclp_into_rtranclp)

definition demo_start :: system where
  "demo_start = (demo_c 0 0 0 0, [Idle ClassNormal, Idle ClassHeavy, Idle ClassNormal])"

lemma demo_start_reachable: "acq_reachable demo_start"
proof (rule reaches_start)
  have "NewCoordinator ''/tmp/opute'' None (DefaultConfig ''/run/lock'') = Inr (demo_c 0 0 0 0)"
    by (simp add: NewCoordinator_def demo_c_def demo_config_def)
  then show "acq_start demo_start" by (auto simp: demo_start_def)
qed

lemma demo_run_reachable: "acq_run ms demo_start = Some s \<Longrightarrow> acq_reachable s"
  using demo_start_reachable acq_run_steps [of ms demo_start s]
  by (auto simp: reaches_def intro: rtranclp_trans)

lemma demo_calm [simp]: "pressure demo_config zero_stats None 0 = calm"
  by (simp add: calm_def)

lemma demo_tight [simp]:
  "pressure demo_config (zero_stats\<lparr>st_MemoryPressure := ''critical''\<rparr>) None 0 = tight"
  by (simp add: tight_def)

lemma demo_c_update [simp]:
  "(demo_c n q h k)\<lparr>co_normalActive := n'\<rparr> = demo_c n' q h k"
  "(demo_c n q h k)\<lparr>co_queued := q'\<rparr> = demo_c n q' h k"
  "(demo_c n q h k)\<lparr>co_heavyQueued := h'\<rparr> = demo_c n q h' k"
  "(demo_c n q h k)\<lparr>co_notify := k'\<rparr> = demo_c n q h k'"
  by (simp_all add: demo_c_def)

definition contention :: "move list" where
  "contention = [MBegin 0, MCheck 0 zero_stats, MEnter 0, MLock 0,
     MBegin 1, MCheck 1 zero_stats, MEnter 1, MBegin 2, MCheck 2 zero_stats, MEnter 2]"

lemma contention_run:
  "acq_run contention demo_start =
     Some (demo_c 1 2 1 0, [Holding ClassNormal, Waiting ClassHeavy 0, Waiting ClassNormal 0])"
  by (simp add: contention_def demo_start_def move_to_def segment_defs counter_defs Let_def)

definition drop_wakeup :: "move list" where
  "drop_wakeup = contention @ [MRelease 0, MWake 2, MCheck 2 zero_stats, MEnter 2,
     MWake 1, MCheck 1 (zero_stats\<lparr>st_MemoryPressure := ''critical''\<rparr>)]"

definition pressure_refusal :: point where
  "pressure_refusal = Over (Refused (ErrAdmission \<lparr>ae_Code = ''host_resource_pressure'',
     ae_Class = ClassHeavy, ae_Pressure = ''critical'', ae_Reason = ps_Reason tight,
     ae_RetryAfterMs = 5000\<rparr>))"

lemma acq_run_append:
  "acq_run (xs @ ys) s = (case acq_run xs s of None \<Rightarrow> None | Some s' \<Rightarrow> acq_run ys s')"
  by (induction xs arbitrary: s) (auto split: option.splits)

lemma drop_wakeup_run:
  "acq_run drop_wakeup demo_start =
     Some (demo_c 0 1 0 1, [Over Finished, pressure_refusal, Waiting ClassNormal 1])"
  by (simp add: drop_wakeup_def acq_run_append contention_run move_to_def segment_defs
      counter_defs Let_def pressure_refusal_def)

text \<open>
  C1: permits are exclusive and bounded. In every reachable interleaving of \<open>AcquireClass\<close> calls
  and releases, the number of goroutines that have been granted a normal (heavy) permit is at most
  \<open>MaxNormal\<close> (\<open>MaxHeavy\<close>), the two kinds never hold permits together, and at most \<open>MaxQueued\<close>
  callers wait.
\<close>

theorem permits_exclusive:
  assumes "acq_reachable (c, ts)"
  shows "count_if counts_normal ts \<le> cf_MaxNormal (co_config c) \<and>
    count_if counts_heavy ts \<le> cf_MaxHeavy (co_config c) \<and>
    (count_if counts_normal ts = 0 \<or> count_if counts_heavy ts = 0) \<and>
    count_if is_waiting ts \<le> cf_MaxQueued (co_config c)"
  using permits.inv_reachable [OF assms]
  by (auto simp: permits_inv_def counters_ok_def limits_ok_def)

theorem permits_exclusive_witness:
  "acq_reachable (demo_c 1 2 1 0, [Holding ClassNormal, Waiting ClassHeavy 0, Waiting ClassNormal 0])
   \<and> count_if counts_normal [Holding ClassNormal, Waiting ClassHeavy 0, Waiting ClassNormal 0] \<le> 2"
  using demo_run_reachable [OF contention_run]
    permits_exclusive [OF demo_run_reachable [OF contention_run]] by simp

text \<open>
  No permit and no queue slot leaks. When no goroutine is between being granted and being
  released, and none waits, all four counters of the coordinator are back to zero, whichever
  errors, cancellations and refusals happened on the way.
\<close>

theorem permits_no_leak:
  assumes "acq_reachable (c, ts)"
    and "\<forall>t \<in> set ts. \<not> counts_normal t \<and> \<not> counts_heavy t \<and> \<not> is_waiting t"
  shows "co_normalActive c = 0 \<and> co_heavyActive c = 0 \<and> co_queued c = 0 \<and> co_heavyQueued c = 0"
proof -
  have "count_if heavy_waiting ts \<le> count_if is_waiting ts"
    by (rule count_if_mono) (auto elim: heavy_waiting.elims)
  moreover have "count_if is_waiting ts = 0" "count_if counts_normal ts = 0"
    "count_if counts_heavy ts = 0"
    using assms(2) by (auto simp: count_if_zero_iff)
  moreover have "0 \<le> count_if heavy_waiting ts" by simp
  ultimately show ?thesis
    using permits.inv_reachable [OF assms(1)] by (auto simp: permits_inv_def counters_ok_def)
qed

theorem permits_no_leak_witness:
  "co_normalActive (demo_c 0 0 0 0) = 0 \<and> co_queued (demo_c 0 0 0 0) = 0"
  using permits_no_leak [of "demo_c 0 0 0 0" "[Idle ClassNormal, Idle ClassHeavy, Idle ClassNormal]"]
    demo_start_reachable by (simp add: demo_start_def)

text \<open>
  C39: releasing a permit wakes every waiter. After a release, each goroutine that was waiting can
  leave its channel and retry.
\<close>

theorem release_wakes_waiters:
  assumes "acq_reachable (c, ts)" and "i < length ts" and "ts ! i = Holding cl"
    and "j < length ts" and "ts ! j = Waiting cl' n" and "permit_release c cl = (c', t)"
  shows "acq_step (c', ts[i := t]) (dequeue c' cl', ts[i := t, j := AtLoop cl'])"
proof -
  have "n \<le> co_notify c"
    using permits.inv_reachable [OF assms(1)] assms(4,5)
    by (auto simp: permits_inv_def channels_ok_def)
  moreover have "co_notify c' = Suc (co_notify c)"
    using assms(6) by (auto simp: permit_release_def counter_defs)
  moreover have "i \<noteq> j" using assms(3,5) by auto
  ultimately show ?thesis
    using acq_step.step_wake [of j "ts[i := t]" cl' n c'] assms(4,5)
    by (simp add: acquire_wake_def)
qed

theorem release_wakes_waiters_witness:
  "acq_step (demo_c 0 2 1 1, [Over Finished, Waiting ClassHeavy 0, Waiting ClassNormal 0])
     (demo_c 0 1 1 1, [Over Finished, Waiting ClassHeavy 0, AtLoop ClassNormal])"
  using release_wakes_waiters [OF demo_run_reachable [OF contention_run], of 0 ClassNormal 2
      ClassNormal 0 "demo_c 0 2 1 1" "Over Finished"]
  by (simp add: permit_release_def counter_defs Let_def)

text \<open>
  A wake-up can be lost. A heavy caller that has been woken leaves the queue without signalling;
  when it is then refused for memory pressure, a normal caller that queued behind it keeps waiting
  although nothing is active, nothing else is queued and \<open>canReserve\<close> would grant it a permit. From
  that reachable state the only step is the cancellation of the waiter's own context.
\<close>

theorem wakeup_lost:
  "acq_reachable (demo_c 0 1 0 1, [Over Finished, pressure_refusal, Waiting ClassNormal 1]) \<and>
   canReserve (demo_c 0 1 0 1) ClassNormal \<and>
   acq_step (demo_c 0 1 0 1, [Over Finished, pressure_refusal, Waiting ClassNormal 1]) s' =
     (\<exists>err. s' = (signal (dequeue (demo_c 0 1 0 1) ClassNormal),
        [Over Finished, pressure_refusal, Over (Refused (ErrCtx err))]))"
  (is "_ \<and> _ \<and> acq_step (?c, ?ts) s' = ?cancelled")
proof (intro conjI iffI)
  show "acq_reachable (?c, ?ts)"
    using demo_run_reachable [OF drop_wakeup_run] .
  show "canReserve ?c ClassNormal" by (simp add: canReserve_def)
  assume "acq_step (?c, ?ts) s'"
  then show ?cancelled
    by (cases rule: acq_stepE)
      (auto simp: pressure_refusal_def acquire_cancel_def less_Suc_eq)
next
  assume ?cancelled
  then show "acq_step (?c, ?ts) s'"
    using acq_step.step_cancel [of 2 ?ts ClassNormal 1 ?c]
    by (auto simp: acquire_cancel_def)
qed

end
