(* ===== verification/Resource_URI.thy ===== *)
theory Resource_URI
  imports Go_Strings
begin

text \<open>
  Tenant-scoped resource identities (\<open>src/internal/resourceid/resourceid.go\<close>): the set of known
  kinds, validation, parsing and printing.
\<close>

section \<open>Identities\<close>

definition TypeHostService :: string where "TypeHostService = ''host-service''"

definition knownTypes :: "string list" where
  "knownTypes = [''vm'', ''container'', ''pod'', ''host'', ''cluster'', ''postgres-service'',
     ''sqlite-database'', ''database'', ''tunnel'', ''llm-runtime'', ''model'', TypeHostService,
     ''sql-connector'', ''oci-registry'', ''service-domain'', ''service'', ''network'',
     ''storage'', ''image'', ''profile'', ''cloudflared'', ''language'', ''embedding'',
     ''operation'', ''plan'']"

record URI =
  uri_ResourceType :: string
  uri_TenantID :: string
  uri_ResourceID :: string

datatype uri_error = ErrInvalidURI string | ErrUnknownType string

definition lower_letter :: "char \<Rightarrow> bool" where
  "lower_letter c \<longleftrightarrow> 97 \<le> byte c \<and> byte c \<le> 122"

definition segment_char :: "char \<Rightarrow> bool" where
  "segment_char c \<longleftrightarrow> lower_letter c \<or> 48 \<le> byte c \<and> byte c \<le> 57 \<or> byte c = 45"

text \<open>The anchored pattern \<^verbatim>\<open>^[a-z][a-z0-9-]{0,31}$\<close>.\<close>

definition segmentPattern :: "string \<Rightarrow> bool" where
  "segmentPattern s \<longleftrightarrow>
     (case s of [] \<Rightarrow> False | c # cs \<Rightarrow> lower_letter c \<and> length cs \<le> 31 \<and> list_all segment_char cs)"

definition uri_String :: "URI \<Rightarrow> string" where
  "uri_String u = uri_ResourceType u @ '':'' @ uri_TenantID u @ '':'' @ uri_ResourceID u"

definition blank_char :: "char \<Rightarrow> bool" where
  "blank_char c \<longleftrightarrow> byte c \<in> {13, 10, 9, 32}"

definition uri_Validate :: "URI \<Rightarrow> uri_error option" where
  "uri_Validate u =
     (if uri_ResourceType u \<notin> set knownTypes then Some (ErrUnknownType (uri_ResourceType u))
      else if \<not> segmentPattern (uri_ResourceType u) \<or> \<not> segmentPattern (uri_TenantID u)
      then Some (ErrInvalidURI ''type and tenant must match [a-z][a-z0-9-]{0,31}'')
      else if TrimSpace (uri_ResourceID u) = [] \<or> list_ex blank_char (uri_ResourceID u)
      then Some (ErrInvalidURI ''resource id is empty or contains whitespace'')
      else None)"

definition IsKnownType :: "string \<Rightarrow> bool" where
  "IsKnownType resourceType \<longleftrightarrow> TrimSpace resourceType \<in> set knownTypes"

definition checked_uri :: "URI \<Rightarrow> uri_error + URI" where
  "checked_uri u = (case uri_Validate u of Some err \<Rightarrow> Inl err | None \<Rightarrow> Inr u)"

definition Parse :: "string \<Rightarrow> uri_error + URI" where
  "Parse value =
     (case SplitN (TrimSpace value) (CHR '':'') 3 of
        [a, b, c] \<Rightarrow> checked_uri \<lparr>uri_ResourceType = a, uri_TenantID = b, uri_ResourceID = c\<rparr>
      | _ \<Rightarrow> Inl (ErrInvalidURI ''expected resource-type:tenant-id:resource-id''))"

definition New :: "string \<Rightarrow> string \<Rightarrow> string \<Rightarrow> uri_error + URI" where
  "New resourceType tenantID resourceID =
     checked_uri \<lparr>uri_ResourceType = TrimSpace resourceType, uri_TenantID = TrimSpace tenantID,
       uri_ResourceID = resourceID\<rparr>"

definition KnownTypes :: "string list" where
  "KnownTypes = sort knownTypes"

section \<open>Printing and parsing\<close>

lemma segment_no_colon: "segmentPattern s \<Longrightarrow> CHR '':'' \<notin> set s"
  by (auto simp: segmentPattern_def lower_letter_def segment_char_def byte_def list_all_iff
      split: list.splits)

lemma trim_left_letter: "lower_letter c \<Longrightarrow> trim_left (c # s) = c # s"
  by (cases s rule: trim_left.cases)
    (auto simp: lower_letter_def ascii_space_def space2_def space3_def)

lemma trim_right_colon:
  assumes "trim_right_rev s = s" and "s \<noteq> []" and "c = CHR '':''"
  shows "trim_right_rev (s @ c # r) = s @ c # r"
proof (cases s rule: trim_right_rev.cases)
  case (2 a)
  then show ?thesis using assms
    by (cases r) (auto simp: space2_def space3_def byte_def split: if_splits)
next
  case (3 b a)
  then show ?thesis using assms
    by (auto simp: space3_def byte_def split: if_splits)
next
  case (4 c b a s')
  then show ?thesis using assms by (auto split: if_splits)
qed (use assms in simp)

lemma TrimSpace_fixed_right: "TrimSpace s = s \<Longrightarrow> trim_right_rev (rev s) = rev s"
  by (metis TrimSpace_def rev_rev_ident trim_right_rev_idem)

text \<open>Printing a valid identity and splitting the text again gives its three parts.\<close>

lemma uri_String_parts:
  assumes "uri_Validate u = None" and "TrimSpace (uri_ResourceID u) = uri_ResourceID u"
  shows "SplitN (TrimSpace (uri_String u)) (CHR '':'') 3 =
    [uri_ResourceType u, uri_TenantID u, uri_ResourceID u]"
proof -
  have ty: "segmentPattern (uri_ResourceType u)" and te: "segmentPattern (uri_TenantID u)"
    and id: "uri_ResourceID u \<noteq> []"
    using assms(1) by (auto simp: uri_Validate_def split: if_splits)
  obtain c cs where rt: "uri_ResourceType u = c # cs" and c: "lower_letter c"
    using ty by (auto simp: segmentPattern_def split: list.splits)
  have "trim_left (uri_String u) = uri_String u"
    by (simp add: uri_String_def rt trim_left_letter [OF c])
  moreover have "trim_right_rev (rev (uri_String u)) = rev (uri_String u)"
    using trim_right_colon [OF TrimSpace_fixed_right [OF assms(2)], of "CHR '':''"] id
    by (simp add: uri_String_def)
  ultimately have trim: "TrimSpace (uri_String u) = uri_String u"
    by (simp add: TrimSpace_def)
  have "cut (uri_String u) (CHR '':'') =
      Some (uri_ResourceType u, uri_TenantID u @ '':'' @ uri_ResourceID u)"
    using cut_append [OF segment_no_colon [OF ty]] by (simp add: uri_String_def)
  moreover have "cut (uri_TenantID u @ '':'' @ uri_ResourceID u) (CHR '':'') =
      Some (uri_TenantID u, uri_ResourceID u)"
    using cut_append [OF segment_no_colon [OF te]] by simp
  ultimately show ?thesis by (simp add: trim numeral_3_eq_3)
qed

text \<open>
  Printing and parsing are inverse. An identity that \<open>New\<close> accepts, and whose resource id has
  no surrounding white space, is returned unchanged by \<open>Parse\<close> on its text, so distinct identities
  have distinct texts.
\<close>

theorem parse_print:
  assumes "New resourceType tenantID resourceID = Inr u"
    and "TrimSpace resourceID = resourceID"
  shows "Parse (uri_String u) = Inr u"
proof -
  have "uri_Validate u = None" and "uri_ResourceID u = resourceID"
    using assms(1) by (auto simp: New_def checked_uri_def split: option.splits)
  then show ?thesis
    using uri_String_parts [of u] assms(2) by (cases u) (simp add: Parse_def checked_uri_def)
qed

theorem parse_print_witness:
  "Parse ''model:acme:qwen3:8b'' =
     Inr \<lparr>uri_ResourceType = ''model'', uri_TenantID = ''acme'', uri_ResourceID = ''qwen3:8b''\<rparr>"
proof -
  have new: "New '' model'' ''acme'' ''qwen3:8b'' =
      Inr \<lparr>uri_ResourceType = ''model'', uri_TenantID = ''acme'', uri_ResourceID = ''qwen3:8b''\<rparr>"
    by code_simp
  have "TrimSpace ''qwen3:8b'' = ''qwen3:8b''" by code_simp
  from parse_print [OF new this] show ?thesis by (simp add: uri_String_def)
qed

text \<open>
  Every identity that \<open>Parse\<close> returns is valid: its kind is known, its tenant matches the
  segment pattern, and its resource id is not blank and contains no tab, line break or space.
\<close>

theorem parse_valid:
  assumes "Parse value = Inr u"
  shows "uri_ResourceType u \<in> set KnownTypes \<and> segmentPattern (uri_TenantID u) \<and>
    TrimSpace (uri_ResourceID u) \<noteq> [] \<and> \<not> list_ex blank_char (uri_ResourceID u)"
  using assms
  by (auto simp: Parse_def checked_uri_def uri_Validate_def KnownTypes_def
      split: list.splits option.splits if_splits)

theorem parse_valid_witness:
  "uri_ResourceType \<lparr>uri_ResourceType = ''vm'', uri_TenantID = ''t1'', uri_ResourceID = ''a''\<rparr>
     \<in> set KnownTypes"
proof -
  have "Parse ''vm:t1:a'' =
      Inr \<lparr>uri_ResourceType = ''vm'', uri_TenantID = ''t1'', uri_ResourceID = ''a''\<rparr>"
    by code_simp
  from parse_valid [OF this] show ?thesis by blast
qed

text \<open>
  The white space hypothesis is needed. \<open>Validate\<close> rejects only tab, line feed, carriage return
  and space in a resource id, while \<open>Parse\<close> trims every Unicode space: an id that ends in a
  vertical tab is a valid identity whose text parses to a different identity.
\<close>

theorem parse_print_vertical_tab:
  "New ''vm'' ''acme'' [CHR ''a'', CHR 0x0B] =
     Inr \<lparr>uri_ResourceType = ''vm'', uri_TenantID = ''acme'', uri_ResourceID = [CHR ''a'', CHR 0x0B]\<rparr>
   \<and> Parse (uri_String \<lparr>uri_ResourceType = ''vm'', uri_TenantID = ''acme'',
        uri_ResourceID = [CHR ''a'', CHR 0x0B]\<rparr>) =
     Inr \<lparr>uri_ResourceType = ''vm'', uri_TenantID = ''acme'', uri_ResourceID = ''a''\<rparr>"
  by code_simp

end
