(* ===== verification/Reservations.thy ===== *)
theory Reservations
  imports Admission Resource_URI
begin

text \<open>
  Durable capacity reservations (\<open>src/internal/resource/service.go\<close>). The reservation file, the
  permit counters, the closed flag, the id sequence and the lease cells shared by inherited
  reservations are the record \<open>Store\<close>. Every operation holds the exclusive reservation lock while
  it reads, changes and writes the file, so an operation is one atomic step; what the lock, the file
  system, the clock, the context and the telemetry answer during a call is the record \<open>io\<close>, indexed
  by the position of the question in the code.
\<close>

section \<open>Requests, reservations, records\<close>

record AdmissionRequest =
  rq_CPUCores :: float64
  rq_MemoryBytes :: i64
  rq_DiskBytes :: i64
  rq_Tasks :: i64
  rq_Class :: string
  rq_Operation :: string
  rq_AgentID :: string
  rq_OperationID :: string
  rq_TaskID :: string
  rq_ResourceURI :: string
  rq_GenerationID :: string
  rq_ParentReservationID :: string

definition zero_request :: AdmissionRequest where
  "zero_request = \<lparr>rq_CPUCores = FZero False, rq_MemoryBytes = 0, rq_DiskBytes = 0, rq_Tasks = 0,
     rq_Class = [], rq_Operation = [], rq_AgentID = [], rq_OperationID = [], rq_TaskID = [],
     rq_ResourceURI = [], rq_GenerationID = [], rq_ParentReservationID = []\<rparr>"

text \<open>
  A reservation handle. \<open>rv_renewed\<close> is the pointer to the shared lease cell, given by the cell's
  number; times are nanoseconds since the epoch.
\<close>

record Reservation =
  rv_ID :: string
  rv_Request :: AdmissionRequest
  rv_CreatedAt :: int
  rv_ExpiresAt :: int
  rv_inherited :: bool
  rv_renewed :: "nat option"

text \<open>
  A stored time stamp is what \<open>time.Parse\<close> makes of the stored text: an instant, or a text it
  rejects. Formatting an instant with \<open>RFC3339Nano\<close> and parsing it gives the instant back.
\<close>

datatype stamp = Instant int | Unparsable string

record persistedReservation =
  pr_ID :: string
  pr_Request :: AdmissionRequest
  pr_CreatedAt :: stamp
  pr_ExpiresAt :: stamp

type_synonym records = "(string, persistedReservation) gomap"

record ResourceLimits =
  li_CPUCores :: float64
  li_MemoryBytes :: i64
  li_DiskBytes :: i64
  li_Tasks :: i64

record ResourceUsage =
  us_CPUCores :: float64
  us_MemoryBytes :: i64
  us_MemoryAvailableBytes :: i64
  us_DiskBytes :: i64
  us_DiskAvailableBytes :: i64
  us_Tasks :: i64

record ReservationTotals =
  to_Count :: int
  to_CPUCores :: float64
  to_MemoryBytes :: i64
  to_DiskBytes :: i64
  to_Tasks :: i64

record QueueState =
  qs_Queued :: int
  qs_HeavyQueued :: int
  qs_NormalActive :: int
  qs_HeavyActive :: int

record CapacitySnapshot =
  sn_Pressure :: PressureSnapshot
  sn_PolicyRevision :: string
  sn_ObservedLimits :: ResourceLimits
  sn_EffectiveLimits :: ResourceLimits
  sn_CurrentUsage :: ResourceUsage
  sn_Reservations :: ReservationTotals
  sn_Queue :: QueueState
  sn_Enforcement :: string

section \<open>The shared state and the answers of the environment\<close>

datatype reservation_file = FileMissing | FileEmpty | FileCorrupt | FileRecords records

record Store =
  so_coord :: Coordinator
  so_closed :: bool
  so_file :: reservation_file
  so_cells :: "nat \<Rightarrow> int"
  so_nextCell :: nat
  so_sequence :: "64 word"

record io =
  io_ctx :: "nat \<Rightarrow> string option"
  io_now :: "nat \<Rightarrow> int"
  io_lock :: "nat \<Rightarrow> GoError option"
  io_readErr :: "nat \<Rightarrow> string option"
  io_writeErr :: "string option"
  io_stats :: "nat \<Rightarrow> HostSystemStats"
  io_probe :: "string option"

abbreviation so_config :: "Store \<Rightarrow> Config" where
  "so_config w \<equiv> co_config (so_coord w)"

abbreviation reqErr :: "string \<Rightarrow> string \<Rightarrow> string \<Rightarrow> GoError" where
  "reqErr code field reason \<equiv> ErrRequest \<lparr>re_Code = code, re_Field = field, re_Reason = reason\<rparr>"

text \<open>\<open>Reservation.expiry\<close>: the shared cell once it has been set, the admission value until then.\<close>

definition expiry :: "Store \<Rightarrow> Reservation \<Rightarrow> int" where
  "expiry w r =
     (case rv_renewed r of
        Some cell \<Rightarrow> if 0 < so_cells w cell then so_cells w cell else rv_ExpiresAt r
      | None \<Rightarrow> rv_ExpiresAt r)"

definition readReservations :: "Store \<Rightarrow> string option \<Rightarrow> GoError + records" where
  "readReservations w readErr =
     (case so_file w of
        FileMissing \<Rightarrow> Inr []
      | file \<Rightarrow>
          (case readErr of Some err \<Rightarrow> Inl (ErrIO err)
           | None \<Rightarrow>
               (case file of
                  FileRecords records \<Rightarrow> Inr records
                | FileCorrupt \<Rightarrow> Inl (ErrIO ''read host resource reservations'')
                | _ \<Rightarrow> Inr [])))"

text \<open>
  \<open>json.MarshalIndent\<close> rejects a NaN or infinite number; every other record can be encoded. The new
  contents replace the old file by one rename, so a failed write leaves the old file in place.
\<close>

definition encodable :: "records \<Rightarrow> bool" where
  "encodable records \<longleftrightarrow> (\<forall>(id, record) \<in> set records. f64_finite (rq_CPUCores (pr_Request record)))"

definition writeReservations :: "Store \<Rightarrow> records \<Rightarrow> string option \<Rightarrow> Store \<times> GoError option" where
  "writeReservations w records writeErr =
     (if records = [] then
        (if so_file w = FileMissing then (w, None)
         else (case writeErr of Some err \<Rightarrow> (w, Some (ErrIO err))
               | None \<Rightarrow> (w\<lparr>so_file := FileMissing\<rparr>, None)))
      else if \<not> encodable records then (w, Some (ErrIO ''json: unsupported value''))
      else (case writeErr of Some err \<Rightarrow> (w, Some (ErrIO err))
            | None \<Rightarrow> (w\<lparr>so_file := FileRecords records\<rparr>, None)))"

section \<open>Accounting\<close>

definition DefaultCostForClass :: "string \<Rightarrow> AdmissionRequest" where
  "DefaultCostForClass class =
     (if class = ClassHeavy
      then zero_request\<lparr>rq_Class := class, rq_CPUCores := FNum 2, rq_MemoryBytes := push_bit 30 2,
        rq_Tasks := 8\<rparr>
      else if class = ClassNormal
      then zero_request\<lparr>rq_Class := class, rq_CPUCores := FNum (1 / 4),
        rq_MemoryBytes := push_bit 20 256, rq_Tasks := 1\<rparr>
      else zero_request\<lparr>rq_Class := ClassControl\<rparr>)"

text \<open>
  The three integer costs are checked in the order in which Go ranges over the map literal, which
  is unspecified; \<open>order\<close> lists the fields in that order.
\<close>

datatype cost_field = FieldMemory | FieldDisk | FieldTasks

fun cost_of :: "AdmissionRequest \<Rightarrow> cost_field \<Rightarrow> string \<times> i64" where
  "cost_of request FieldMemory = (''memoryBytes'', rq_MemoryBytes request)"
| "cost_of request FieldDisk = (''diskBytes'', rq_DiskBytes request)"
| "cost_of request FieldTasks = (''tasks'', rq_Tasks request)"

definition validateAdmissionRequest :: "cost_field list \<Rightarrow> AdmissionRequest \<Rightarrow> GoError option" where
  "validateAdmissionRequest order request =
     (if f64_lt (rq_CPUCores request) (FZero False)
      then Some (reqErr ''host_resource_request_invalid'' ''cpuCores''
        ''resource cost cannot be negative'')
      else (case find (\<lambda>(field, value). i64_lt value 0) (map (cost_of request) order) of
          Some (field, value) \<Rightarrow> Some (reqErr ''host_resource_request_invalid'' field
            ''resource cost cannot be negative'')
        | None \<Rightarrow>
            if rq_Class request \<in> {ClassControl, ClassNormal, ClassHeavy} then None
            else Some (reqErr ''host_resource_request_invalid'' ''class''
              ''class must be control, normal, or heavy'')))"

definition observedMemoryUsage :: "HostSystemStats \<Rightarrow> i64" where
  "observedMemoryUsage stats =
     (if i64_lt (st_MemoryUsageBytes stats) (st_MemoryUsedBytes stats)
      then st_MemoryUsedBytes stats else st_MemoryUsageBytes stats)"

definition add_totals :: "ReservationTotals \<Rightarrow> persistedReservation \<Rightarrow> ReservationTotals" where
  "add_totals totals record = (let request = pr_Request record in
     \<lparr>to_Count = to_Count totals + 1,
      to_CPUCores = f64_add (to_CPUCores totals) (rq_CPUCores request),
      to_MemoryBytes = to_MemoryBytes totals + rq_MemoryBytes request,
      to_DiskBytes = to_DiskBytes totals + rq_DiskBytes request,
      to_Tasks = to_Tasks totals + rq_Tasks request\<rparr>)"

definition reservationTotals :: "records \<Rightarrow> ReservationTotals" where
  "reservationTotals records =
     foldl (\<lambda>totals (id, record). add_totals totals record)
       \<lparr>to_Count = 0, to_CPUCores = FZero False, to_MemoryBytes = 0, to_DiskBytes = 0, to_Tasks = 0\<rparr>
       records"

definition class_is :: "string \<Rightarrow> string \<times> persistedReservation \<Rightarrow> bool" where
  "class_is class entry \<longleftrightarrow> rq_Class (pr_Request (snd entry)) = class"

text \<open>\<open>reservationClassCounts\<close>: the normal and the heavy records.\<close>

definition reservationClassCounts :: "records \<Rightarrow> int \<times> int" where
  "reservationClassCounts records =
     (count_if (class_is ClassNormal) records, count_if (class_is ClassHeavy) records)"

definition expired :: "int \<Rightarrow> persistedReservation \<Rightarrow> bool" where
  "expired now record =
     (case pr_ExpiresAt record of Instant expires \<Rightarrow> \<not> now < expires | Unparsable _ \<Rightarrow> False)"

definition removeExpired :: "records \<Rightarrow> int \<Rightarrow> records \<times> bool" where
  "removeExpired records now =
     (filter (\<lambda>(id, record). \<not> expired now record) records,
      list_ex (\<lambda>(id, record). expired now record) records)"

definition clamp_i64 :: "i64 \<Rightarrow> i64 \<Rightarrow> i64" where
  "clamp_i64 capacity limit =
     (if i64_lt 0 capacity \<and> (i64_le limit 0 \<or> i64_lt capacity limit) then capacity else limit)"

definition effectiveLimits :: "Config \<Rightarrow> HostSystemStats \<Rightarrow> ResourceLimits" where
  "effectiveLimits config stats =
     (let cpu = (if f64_le (st_CPUQuotaCores stats) (FZero False)
            then f64_of_int (sint (st_CPUCount stats)) else st_CPUQuotaCores stats);
          memory = (if i64_le (st_MemoryLimitBytes stats) 0
            then st_MemoryTotalBytes stats else st_MemoryLimitBytes stats);
          capacity = cf_CPUCapacityCores config
      in \<lparr>li_CPUCores = (if f64_lt (FZero False) capacity \<and>
              (f64_le cpu (FZero False) \<or> f64_lt capacity cpu) then capacity else cpu),
          li_MemoryBytes = clamp_i64 (cf_MemoryCapacityBytes config) memory,
          li_DiskBytes = clamp_i64 (cf_DiskCapacityBytes config) (st_DiskTotalBytes stats),
          li_Tasks = clamp_i64 (cf_TaskCapacity config) (st_TasksLimit stats)\<rparr>)"

text \<open>The class rule of \<open>fits\<close>: heavy work runs alone, normal work yields to queued heavy work.\<close>

definition class_fits :: "Coordinator \<Rightarrow> string \<Rightarrow> records \<Rightarrow> bool" where
  "class_fits c class records =
     (let (normal, heavy) = reservationClassCounts records in
      if class = ClassHeavy
      then \<not> (cf_MaxHeavy (co_config c) \<le> heavy \<or> 0 < normal \<or> 0 < co_heavyActive c \<or>
              0 < co_normalActive c)
      else if class = ClassNormal
      then \<not> (0 < heavy \<or> 0 < co_heavyActive c \<or>
              cf_MaxNormal (co_config c) \<le> normal + co_normalActive c \<or> 0 < co_heavyQueued c)
      else True)"

definition fits :: "Coordinator \<Rightarrow> AdmissionRequest \<Rightarrow> records \<Rightarrow> PressureSnapshot \<Rightarrow>
    HostSystemStats \<Rightarrow> bool" where
  "fits c request records p stats =
     (class_fits c (rq_Class request) records \<and>
      (let config = co_config c; limits = effectiveLimits config stats;
           totals = reservationTotals records;
           memory = li_MemoryBytes limits - observedMemoryUsage stats;
           disk = li_DiskBytes limits - (st_DiskTotalBytes stats - st_DiskAvailableBytes stats)
       in \<not> (f64_lt (FZero False) (li_CPUCores limits) \<and>
             f64_lt (li_CPUCores limits) (f64_add (to_CPUCores totals) (rq_CPUCores request))) \<and>
          \<not> (i64_lt 0 (li_MemoryBytes limits) \<and>
             (i64_lt memory 0 \<or>
              i64_lt memory (to_MemoryBytes totals + rq_MemoryBytes request))) \<and>
          \<not> (i64_lt 0 (li_DiskBytes limits) \<and>
             (i64_lt disk 0 \<or> i64_lt disk (to_DiskBytes totals + rq_DiskBytes request))) \<and>
          \<not> (i64_lt 0 (li_Tasks limits) \<and>
             i64_lt (li_Tasks limits)
               (to_Tasks totals + rq_Tasks request + st_TasksCurrent stats)) \<and>
          \<not> below_floor (cf_MinAvailableMemoryBytes config) (ps_MemoryAvailableBytes p) \<and>
          \<not> below_floor (cf_MinAvailableDiskBytes config) (ps_DiskAvailableBytes p)))"

section \<open>Ownership\<close>

definition sameReservationScope :: "AdmissionRequest \<Rightarrow> AdmissionRequest \<Rightarrow> bool" where
  "sameReservationScope left right \<longleftrightarrow>
     \<not> (rq_AgentID left \<noteq> rq_AgentID right \<and> (rq_AgentID left \<noteq> [] \<or> rq_AgentID right \<noteq> [])) \<and>
     \<not> (rq_TaskID left \<noteq> rq_TaskID right \<and> (rq_TaskID left \<noteq> [] \<or> rq_TaskID right \<noteq> []))"

definition sameReservationOwner :: "AdmissionRequest \<Rightarrow> AdmissionRequest \<Rightarrow> bool" where
  "sameReservationOwner left right \<longleftrightarrow> sameReservationScope left right \<and>
     \<not> (rq_OperationID left \<noteq> rq_OperationID right \<and>
        (rq_OperationID left \<noteq> [] \<or> rq_OperationID right \<noteq> []))"

definition reservationOwnerCanInherit :: "AdmissionRequest \<Rightarrow> AdmissionRequest \<Rightarrow> bool" where
  "reservationOwnerCanInherit parent nested \<longleftrightarrow> rq_AgentID parent = rq_AgentID nested \<and>
     \<not> (rq_TaskID parent \<noteq> [] \<and> rq_TaskID parent \<noteq> rq_TaskID nested)"

definition ReservationFromContext :: "Reservation option \<Rightarrow> Reservation option" where
  "ReservationFromContext held =
     (case held of Some r \<Rightarrow> if TrimSpace (rv_ID r) \<noteq> [] then Some r else None | None \<Rightarrow> None)"

definition virtual_id :: "string \<Rightarrow> bool" where
  "virtual_id rid \<longleftrightarrow> rid = ''control'' \<or> rid = ''unmanaged''"

section \<open>Admission\<close>

definition validateParentReservation :: "io \<Rightarrow> Store \<Rightarrow> Reservation \<Rightarrow> GoError option" where
  "validateParentReservation env w parent =
     (if virtual_id (rv_ID parent) then None
      else case io_ctx env 1 of Some err \<Rightarrow> Some (ErrCtx err) | None \<Rightarrow>
      case io_lock env 0 of Some err \<Rightarrow> Some err | None \<Rightarrow>
      case io_ctx env 2 of Some err \<Rightarrow> Some (ErrCtx err) | None \<Rightarrow>
      case readReservations w (io_readErr env 0) of Inl err \<Rightarrow> Some err | Inr records \<Rightarrow>
      case gomap_get records (rv_ID parent) of
        None \<Rightarrow> Some (reqErr ''host_reservation_expired'' []
          ''the parent reservation is no longer held'')
      | Some record \<Rightarrow>
          if \<not> sameReservationOwner (pr_Request record) (rv_Request parent)
          then Some (reqErr ''host_reservation_owner_mismatch'' []
            ''parent reservation owner does not match its durable record'')
          else case pr_ExpiresAt record of
              Instant expires \<Rightarrow> if io_now env 1 < expires then None
                else Some (reqErr ''host_reservation_expired'' []
                  ''the parent reservation has expired'')
            | Unparsable _ \<Rightarrow> Some (reqErr ''host_reservation_expired'' []
                ''the parent reservation has expired''))"

text \<open>
  The branch of \<open>Admit\<close> for a context that carries a reservation: None when the request goes on to
  admit capacity of its own.
\<close>

definition admit_nested :: "io \<Rightarrow> Store \<Rightarrow> Reservation \<Rightarrow> AdmissionRequest \<Rightarrow>
    (GoError + Reservation) option" where
  "admit_nested env w parent request =
     (if rq_ParentReservationID request \<noteq> [] \<and> rq_ParentReservationID request \<noteq> rv_ID parent
      then Some (Inl (reqErr ''host_reservation_parent_mismatch'' []
        ''request parent reservation does not match the reservation in context''))
      else if io_now env 0 < expiry w parent
      then (if \<not> reservationOwnerCanInherit (rv_Request parent) request
        then Some (Inl (reqErr ''host_reservation_owner_mismatch'' []
          ''nested reservation owner does not match the reservation in context''))
        else case validateParentReservation env w parent of Some err \<Rightarrow> Some (Inl err) | None \<Rightarrow>
          case io_ctx env 3 of Some err \<Rightarrow> Some (Inl (ErrCtx err)) | None \<Rightarrow>
          Some (Inr (parent\<lparr>rv_Request := request, rv_inherited := True\<rparr>)))
      else if rq_ParentReservationID request \<noteq> []
      then Some (Inl (reqErr ''host_reservation_expired'' [] ''the parent reservation has expired''))
      else None)"

definition newReservationID :: "int \<Rightarrow> 64 word \<Rightarrow> string" where
  "newReservationID nano sequence =
     ''host-reservation-'' @ Itoa nano @ ''-'' @ Itoa (uint sequence)"

definition admissionError :: "AdmissionRequest \<Rightarrow> PressureSnapshot \<Rightarrow> string \<Rightarrow> string \<Rightarrow> GoError" where
  "admissionError request p code reason = ErrAdmission \<lparr>ae_Code = code, ae_Class = rq_Class request,
     ae_Pressure = ps_Pressure p, ae_Reason = reason, ae_RetryAfterMs = 1000\<rparr>"

text \<open>A refusal writes back the file when expired records were dropped, ignoring write errors.\<close>

definition write_if :: "bool \<Rightarrow> Store \<Rightarrow> records \<Rightarrow> string option \<Rightarrow> Store" where
  "write_if changed w records writeErr =
     (if changed then fst (writeReservations w records writeErr) else w)"

text \<open>The part of \<open>Admit\<close> under the reservation lock.\<close>

definition admit_locked :: "io \<Rightarrow> Store \<Rightarrow> AdmissionRequest \<Rightarrow> records \<Rightarrow>
    Store \<times> (GoError + Reservation)" where
  "admit_locked env w request stored =
     (let config = so_config w; now = io_now env 4;
          (records, changed) = removeExpired stored now;
          p = pressure config (io_stats env 0) (io_probe env) (io_now env 5)
      in if rq_Class request = ClassHeavy \<and> ps_Pressure p = ''critical''
         then (write_if changed w records (io_writeErr env),
           Inl (admissionError request p ''host_resource_pressure'' (ps_Reason p)))
         else if cf_FailClosedOnUnknown config \<and> rq_Class request \<noteq> ClassControl \<and>
             ps_CgroupEnforcement p \<noteq> EnforcementEnforced
         then (write_if changed w records (io_writeErr env),
           Inl (admissionError request p ''host_resource_enforcement_unknown''
             ''workload cgroup enforcement is not verified''))
         else if \<not> fits (so_coord w) request records p (io_stats env 1)
         then (write_if changed w records (io_writeErr env),
           Inl (admissionError request p ''host_capacity_saturated''
             ''declared resource cost exceeds effective host capacity''))
         else
           (let sequence = so_sequence w + 1; cell = so_nextCell w;
                rid = newReservationID (io_now env 6) sequence;
                expires = now + cf_ReservationTTL config;
                reservation = \<lparr>rv_ID = rid, rv_Request = request, rv_CreatedAt = now,
                  rv_ExpiresAt = expires, rv_inherited = False, rv_renewed = Some cell\<rparr>;
                record = \<lparr>pr_ID = rid, pr_Request = request, pr_CreatedAt = Instant now,
                  pr_ExpiresAt = Instant expires\<rparr>;
                w = w\<lparr>so_sequence := sequence, so_nextCell := Suc cell,
                  so_cells := (so_cells w)(cell := 0)\<rparr>;
                (w', failed) = writeReservations w (gomap_put rid record records)
                  (io_writeErr env)
            in case failed of Some err \<Rightarrow> (w', Inl err) | None \<Rightarrow> (w', Inr reservation)))"

definition free_of_charge :: "AdmissionRequest \<Rightarrow> bool" where
  "free_of_charge request \<longleftrightarrow> rq_Class request = ClassControl \<and>
     f64_eq (rq_CPUCores request) (FZero False) \<and> rq_MemoryBytes request = 0 \<and>
     rq_DiskBytes request = 0 \<and> rq_Tasks request = 0"

definition admit_own :: "io \<Rightarrow> Store \<Rightarrow> AdmissionRequest \<Rightarrow> Store \<times> (GoError + Reservation)" where
  "admit_own env w request =
     (if free_of_charge request
      then (w, Inr \<lparr>rv_ID = ''control'', rv_Request = request, rv_CreatedAt = io_now env 2,
        rv_ExpiresAt = io_now env 3 + cf_ReservationTTL (so_config w), rv_inherited = False,
        rv_renewed = None\<rparr>)
      else case io_ctx env 4 of Some err \<Rightarrow> (w, Inl (ErrCtx err)) | None \<Rightarrow>
      case io_lock env 1 of Some err \<Rightarrow> (w, Inl err) | None \<Rightarrow>
      case readReservations w (io_readErr env 1) of Inl err \<Rightarrow> (w, Inl err)
      | Inr records \<Rightarrow> admit_locked env w request records)"

definition default_class :: "AdmissionRequest \<Rightarrow> AdmissionRequest" where
  "default_class request =
     (if rq_Class request = [] then request\<lparr>rq_Class := ClassNormal\<rparr> else request)"

definition Admit :: "io \<Rightarrow> cost_field list \<Rightarrow> Store \<Rightarrow> Reservation option \<Rightarrow> AdmissionRequest \<Rightarrow>
    Store \<times> (GoError + Reservation)" where
  "Admit env order w held request =
     (if so_closed w
      then (w, Inl (reqErr ''host_resource_unavailable'' [] ''resource service is closed''))
      else case io_ctx env 0 of Some err \<Rightarrow> (w, Inl (ErrCtx err)) | None \<Rightarrow>
      let request = default_class request in
      case validateAdmissionRequest order request of Some err \<Rightarrow> (w, Inl err) | None \<Rightarrow>
      case ReservationFromContext held of None \<Rightarrow> admit_own env w request
      | Some parent \<Rightarrow>
          (case admit_nested env w parent request of Some result \<Rightarrow> (w, result)
           | None \<Rightarrow> admit_own env w request))"

text \<open>\<open>Admit\<close> on a nil coordinator: nothing is managed.\<close>

definition Admit_nil :: "io \<Rightarrow> AdmissionRequest \<Rightarrow> Reservation" where
  "Admit_nil env request = \<lparr>rv_ID = ''unmanaged'', rv_Request = request,
     rv_CreatedAt = io_now env 0, rv_ExpiresAt = io_now env 1, rv_inherited = False,
     rv_renewed = None\<rparr>"

section \<open>Binding, releasing, renewing, reclaiming\<close>

definition no_record :: "Reservation \<Rightarrow> bool" where
  "no_record r \<longleftrightarrow> rv_ID r = [] \<or> virtual_id (rv_ID r)"

definition bind_record :: "Reservation \<Rightarrow> string \<Rightarrow> string \<Rightarrow> persistedReservation \<Rightarrow>
    GoError + persistedReservation" where
  "bind_record r operationID taskID record =
     (let stored = pr_Request record in
      if rq_AgentID stored \<noteq> rq_AgentID (rv_Request r) \<or>
         (rq_OperationID stored \<noteq> [] \<and> rq_OperationID stored \<noteq> operationID)
      then Inl (reqErr ''host_reservation_owner_mismatch'' []
        ''reservation ownership does not match the binding operation'')
      else if TrimSpace (rq_TaskID stored) \<noteq> [] \<and> rq_TaskID stored \<noteq> taskID
      then Inl (reqErr ''host_reservation_owner_mismatch'' []
        ''reservation is already bound to another task'')
      else Inr (record\<lparr>pr_Request := stored\<lparr>rq_OperationID := operationID,
        rq_TaskID := taskID\<rparr>\<rparr>))"

definition BindReservationTask :: "io \<Rightarrow> Store \<Rightarrow> Reservation \<Rightarrow> string \<Rightarrow> string \<Rightarrow>
    Store \<times> Reservation \<times> GoError option" where
  "BindReservationTask env w r operationID taskID =
     (let operationID = TrimSpace operationID; taskID = TrimSpace taskID;
          request = rv_Request r in
      if no_record r then (w, r, None)
      else if operationID = [] then (w, r, Some (reqErr ''host_reservation_operation_invalid''
        ''operationId'' ''durable operation identity is required''))
      else if taskID = [] then (w, r, Some (reqErr ''host_reservation_task_invalid''
        ''taskId'' ''durable task identity is required''))
      else if rq_OperationID request \<noteq> [] \<and> rq_OperationID request \<noteq> operationID
      then (w, r, Some (reqErr ''host_reservation_owner_mismatch'' []
        ''reservation is already bound to another operation''))
      else if rq_TaskID request \<noteq> [] \<and> rq_TaskID request \<noteq> taskID
      then (w, r, Some (reqErr ''host_reservation_owner_mismatch'' []
        ''reservation is already bound to another task''))
      else case io_lock env 0 of Some err \<Rightarrow> (w, r, Some err) | None \<Rightarrow>
      case readReservations w (io_readErr env 0) of Inl err \<Rightarrow> (w, r, Some err)
      | Inr records \<Rightarrow>
      case gomap_get records (rv_ID r) of
        None \<Rightarrow> (w, r, Some (reqErr ''host_reservation_expired'' []
          ''the reservation being bound is no longer held''))
      | Some record \<Rightarrow>
      case bind_record r operationID taskID record of Inl err \<Rightarrow> (w, r, Some err)
      | Inr record \<Rightarrow>
          (let (w', failed) = writeReservations w (gomap_put (rv_ID r) record records)
             (io_writeErr env)
           in case failed of Some err \<Rightarrow> (w', r, Some err)
              | None \<Rightarrow> (w', r\<lparr>rv_Request := request\<lparr>rq_OperationID := operationID,
                  rq_TaskID := taskID\<rparr>\<rparr>, None)))"

definition Release :: "io \<Rightarrow> Store \<Rightarrow> Reservation \<Rightarrow> Store \<times> GoError option" where
  "Release env w r =
     (if rv_inherited r \<or> no_record r then (w, None)
      else case io_lock env 0 of Some err \<Rightarrow> (w, Some err) | None \<Rightarrow>
      case readReservations w (io_readErr env 0) of Inl err \<Rightarrow> (w, Some err) | Inr records \<Rightarrow>
      case gomap_get records (rv_ID r) of None \<Rightarrow> (w, None)
      | Some record \<Rightarrow>
          if \<not> sameReservationOwner (pr_Request record) (rv_Request r)
          then (w, Some (reqErr ''host_reservation_owner_mismatch'' []
            ''reservation ownership does not match the releasing operation''))
          else writeReservations w (gomap_del (rv_ID r) records) (io_writeErr env))"

definition Renew :: "io \<Rightarrow> Store \<Rightarrow> Reservation \<Rightarrow> Store \<times> GoError option" where
  "Renew env w r =
     (if rv_inherited r \<or> no_record r then (w, None)
      else case io_lock env 0 of Some err \<Rightarrow> (w, Some err) | None \<Rightarrow>
      case readReservations w (io_readErr env 0) of Inl err \<Rightarrow> (w, Some err) | Inr records \<Rightarrow>
      case gomap_get records (rv_ID r) of
        None \<Rightarrow> (w, Some (reqErr ''host_reservation_expired'' []
          ''the reservation being renewed is no longer held''))
      | Some record \<Rightarrow>
          if \<not> sameReservationOwner (pr_Request record) (rv_Request r)
          then (w, Some (reqErr ''host_reservation_owner_mismatch'' []
            ''reservation ownership does not match the renewing operation''))
          else
            (let expires = io_now env 0 + cf_ReservationTTL (so_config w);
                 record = record\<lparr>pr_ExpiresAt := Instant expires\<rparr>;
                 (w', failed) = writeReservations w (gomap_put (rv_ID r) record records)
                   (io_writeErr env)
             in case failed of Some err \<Rightarrow> (w', Some err)
                | None \<Rightarrow>
                    (case rv_renewed r of None \<Rightarrow> (w', None)
                     | Some cell \<Rightarrow> (w'\<lparr>so_cells := (so_cells w')(cell := expires)\<rparr>, None))))"

definition reclaims :: "string list \<Rightarrow> persistedReservation \<Rightarrow> bool" where
  "reclaims taskIDs record \<longleftrightarrow> (let taskID = TrimSpace (rq_TaskID (pr_Request record))
     in taskID \<noteq> [] \<and> taskID \<in> set taskIDs)"

definition ReclaimTerminalTaskReservations :: "io \<Rightarrow> Store \<Rightarrow> string list \<Rightarrow>
    Store \<times> int \<times> GoError option" where
  "ReclaimTerminalTaskReservations env w taskIDs =
     (if taskIDs = [] then (w, 0, None)
      else case io_lock env 0 of Some err \<Rightarrow> (w, 0, Some err) | None \<Rightarrow>
      case readReservations w (io_readErr env 0) of Inl err \<Rightarrow> (w, 0, Some err) | Inr records \<Rightarrow>
      let removed = count_if (\<lambda>(rid, record). reclaims taskIDs record) records in
      if removed = 0 then (w, 0, None)
      else (let (w', failed) = writeReservations w
              (filter (\<lambda>(rid, record). \<not> reclaims taskIDs record) records) (io_writeErr env)
            in (w', removed, failed)))"

text \<open>
  \<open>Close\<close>: later admissions are refused, and the waiters of the permit queue are woken once.
\<close>

definition Close :: "Store \<Rightarrow> Store" where
  "Close w = (if so_closed w then w
     else w\<lparr>so_closed := True, so_coord := signal (so_coord w)\<rparr>)"

section \<open>Snapshots and reconciliation\<close>

definition enforcementFor :: "Config \<Rightarrow> PressureSnapshot \<Rightarrow> string" where
  "enforcementFor config p =
     (if cf_EnforcementMode config \<in> {EnforcementEnforced, EnforcementUnsupported, EnforcementUnknown}
      then cf_EnforcementMode config
      else if ps_CgroupEnforcement p \<noteq> [] then ps_CgroupEnforcement p
      else EnforcementUnknown)"

definition zero_limits :: ResourceLimits where
  "zero_limits = \<lparr>li_CPUCores = FZero False, li_MemoryBytes = 0, li_DiskBytes = 0, li_Tasks = 0\<rparr>"

definition capacitySnapshot :: "io \<Rightarrow> Store \<Rightarrow> PressureSnapshot \<Rightarrow> Store \<times> CapacitySnapshot" where
  "capacitySnapshot env w p =
     (let config = so_config w in
      case io_lock env 0 of
        Some err \<Rightarrow> (w, \<lparr>sn_Pressure = p, sn_PolicyRevision = cf_PolicyRevision config,
          sn_ObservedLimits = zero_limits, sn_EffectiveLimits = zero_limits,
          sn_CurrentUsage = \<lparr>us_CPUCores = FZero False, us_MemoryBytes = 0,
            us_MemoryAvailableBytes = 0, us_DiskBytes = 0, us_DiskAvailableBytes = 0, us_Tasks = 0\<rparr>,
          sn_Reservations = reservationTotals [],
          sn_Queue = \<lparr>qs_Queued = 0, qs_HeavyQueued = 0, qs_NormalActive = 0, qs_HeavyActive = 0\<rparr>,
          sn_Enforcement = enforcementFor config p\<rparr>)
      | None \<Rightarrow>
          (let stored = (case readReservations w (io_readErr env 0) of Inl err \<Rightarrow> []
                 | Inr records \<Rightarrow> records);
               (records, changed) = removeExpired stored (io_now env 1);
               w = write_if changed w records (io_writeErr env);
               stats = io_stats env 1
           in (w, \<lparr>sn_Pressure = p, sn_PolicyRevision = cf_PolicyRevision config,
             sn_ObservedLimits = \<lparr>li_CPUCores = st_CPUQuotaCores stats,
               li_MemoryBytes = st_MemoryLimitBytes stats, li_DiskBytes = st_DiskTotalBytes stats,
               li_Tasks = st_TasksLimit stats\<rparr>,
             sn_EffectiveLimits = effectiveLimits config stats,
             sn_CurrentUsage = \<lparr>us_CPUCores = FZero False,
               us_MemoryBytes = observedMemoryUsage stats,
               us_MemoryAvailableBytes = st_MemoryAvailableBytes stats,
               us_DiskBytes = st_DiskTotalBytes stats - st_DiskAvailableBytes stats,
               us_DiskAvailableBytes = st_DiskAvailableBytes stats,
               us_Tasks = st_TasksCurrent stats\<rparr>,
             sn_Reservations = reservationTotals records,
             sn_Queue = \<lparr>qs_Queued = ps_Queued p, qs_HeavyQueued = co_heavyQueued (so_coord w),
               qs_NormalActive = ps_NormalInFlight p, qs_HeavyActive = ps_HeavyInFlight p\<rparr>,
             sn_Enforcement = enforcementFor config p\<rparr>)))"

definition Snapshot :: "io \<Rightarrow> Store \<Rightarrow> Store \<times> CapacitySnapshot" where
  "Snapshot env w =
     (let p = pressure (so_config w) (io_stats env 0) (io_probe env) (io_now env 0);
          c = so_coord w
      in capacitySnapshot env w (p\<lparr>ps_NormalInFlight := co_normalActive c,
           ps_HeavyInFlight := co_heavyActive c, ps_Queued := co_queued c\<rparr>))"

text \<open>
  \<open>Reconcile\<close>: the concrete backend is the argument \<open>backend\<close>, None when none is mounted; it answers
  with an error of its own type, the text of another error, or success.
\<close>

definition Reconcile :: "io \<Rightarrow> Store \<Rightarrow> (URI \<Rightarrow> (ReconcileError + string) option) option \<Rightarrow>
    string \<Rightarrow> string \<Rightarrow> Store \<times> (GoError + CapacitySnapshot)" where
  "Reconcile env w backend policyRevision targetURI =
     (let config = so_config w;
          fail = (\<lambda>code reason. (w, Inl (ErrReconcile \<lparr>rc_Code = code, rc_Reason = reason\<rparr>))) in
      case io_ctx env 0 of Some err \<Rightarrow> (w, Inl (ErrCtx err)) | None \<Rightarrow>
      if TrimSpace policyRevision = [] \<or> policyRevision \<noteq> cf_PolicyRevision config
      then fail ''host_resource_policy_revision_mismatch''
        ''requested policy revision is not the installed revision''
      else case Parse targetURI of
        Inl err \<Rightarrow> fail ''host_resource_target_invalid''
          ''target must be an exact host-service URI''
      | Inr parsed \<Rightarrow>
          if uri_ResourceType parsed \<noteq> TypeHostService
          then fail ''host_resource_target_invalid'' ''target must be an exact host-service URI''
          else if cf_TenantID config \<noteq> [] \<and> uri_TenantID parsed \<noteq> cf_TenantID config
          then fail ''host_resource_target_foreign_tenant''
            ''target host-service URI belongs to another tenant''
          else case backend of
              None \<Rightarrow> fail ''host_resource_reconcile_unsupported''
                ''the concrete host resource policy backend is not mounted''
            | Some run \<Rightarrow>
                (case run parsed of
                   Some (Inl err) \<Rightarrow> (w, Inl (ErrReconcile err))
                 | Some (Inr text) \<Rightarrow> fail ''host_resource_reconcile_failed'' text
                 | None \<Rightarrow> (let (w', snapshot) = Snapshot env w in (w', Inr snapshot))))"

end
