(* ===== verification/Reservation_Laws.thy ===== *)
theory Reservation_Laws
  imports Reservations Permits
begin

text \<open>
  What the reservation service promises: which records each operation leaves in the file, the
  invariant of the file (well-formed, priced, and never heavy beside normal), the capacity bounds
  of an admission, and who may release, renew or inherit a reservation.
\<close>

section \<open>Reading and writing the file\<close>

definition records_of :: "Store \<Rightarrow> records" where
  "records_of w = (case so_file w of FileRecords records \<Rightarrow> records | _ \<Rightarrow> [])"

lemma readReservations_ok: "readReservations w e = Inr records \<Longrightarrow> records = records_of w"
  by (auto simp: readReservations_def records_of_def split: reservation_file.splits option.splits)

lemma writeReservations_ok:
  "writeReservations w records e = (w', None) \<Longrightarrow>
   records_of w' = records \<and> so_coord w' = so_coord w \<and> so_cells w' = so_cells w \<and>
   so_nextCell w' = so_nextCell w \<and> so_closed w' = so_closed w \<and> encodable records"
  by (auto simp: writeReservations_def records_of_def encodable_def
      split: if_splits option.splits reservation_file.splits)

lemma writeReservations_fail:
  "writeReservations w records e = (w', Some err) \<Longrightarrow> w' = w"
  by (auto simp: writeReservations_def split: if_splits option.splits)

lemma writeReservations_cases:
  assumes "writeReservations w records e = (w', failed)"
  obtains "failed = None" "records_of w' = records" "so_coord w' = so_coord w"
    "so_cells w' = so_cells w" "so_nextCell w' = so_nextCell w" "so_closed w' = so_closed w"
    "encodable records"
  | err where "failed = Some err" "w' = w"
  using assms writeReservations_ok writeReservations_fail by (cases failed) blast+

lemma write_coord [simp]: "so_coord (fst (writeReservations w records e)) = so_coord w"
  by (auto simp: writeReservations_def split: option.splits)

lemma write_if_cases:
  "records_of (write_if changed w records e) = records_of w \<or>
   records_of (write_if changed w records e) = records"
  "so_coord (write_if changed w records e) = so_coord w"
  using writeReservations_ok writeReservations_fail
  by (auto simp: write_if_def) (metis option.exhaust prod.collapse)+

lemma records_of_update [simp]:
  "records_of (w\<lparr>so_sequence := q\<rparr>) = records_of w"
  "records_of (w\<lparr>so_nextCell := n\<rparr>) = records_of w"
  "records_of (w\<lparr>so_cells := f\<rparr>) = records_of w"
  "records_of (w\<lparr>so_closed := b\<rparr>) = records_of w"
  "records_of (w\<lparr>so_coord := c\<rparr>) = records_of w"
  by (simp_all add: records_of_def)

section \<open>What an admission does\<close>

definition live :: "Store \<Rightarrow> int \<Rightarrow> records" where
  "live w now = filter (\<lambda>(rid, record). \<not> expired now record) (records_of w)"

lemma removeExpired_fst: "fst (removeExpired (records_of w) now) = live w now"
  by (simp add: removeExpired_def live_def)

definition admitted_record :: "io \<Rightarrow> Store \<Rightarrow> AdmissionRequest \<Rightarrow> persistedReservation" where
  "admitted_record env w request =
     \<lparr>pr_ID = newReservationID (io_now env 6) (so_sequence w + 1), pr_Request = request,
      pr_CreatedAt = Instant (io_now env 4),
      pr_ExpiresAt = Instant (io_now env 4 + cf_ReservationTTL (so_config w))\<rparr>"

definition admitted_handle :: "io \<Rightarrow> Store \<Rightarrow> AdmissionRequest \<Rightarrow> Reservation" where
  "admitted_handle env w request =
     \<lparr>rv_ID = newReservationID (io_now env 6) (so_sequence w + 1), rv_Request = request,
      rv_CreatedAt = io_now env 4,
      rv_ExpiresAt = io_now env 4 + cf_ReservationTTL (so_config w), rv_inherited = False,
      rv_renewed = Some (so_nextCell w)\<rparr>"

definition admits :: "io \<Rightarrow> Store \<Rightarrow> AdmissionRequest \<Rightarrow> bool" where
  "admits env w request \<longleftrightarrow>
     (let p = pressure (so_config w) (io_stats env 0) (io_probe env) (io_now env 5)
      in \<not> (rq_Class request = ClassHeavy \<and> ps_Pressure p = ''critical'') \<and>
         \<not> (cf_FailClosedOnUnknown (so_config w) \<and> rq_Class request \<noteq> ClassControl \<and>
            ps_CgroupEnforcement p \<noteq> EnforcementEnforced) \<and>
         fits (so_coord w) request (live w (io_now env 4)) p (io_stats env 1))"

lemma admit_locked_cases:
  assumes "admit_locked env w request (records_of w) = (w', res)"
  obtains r where "res = Inr r" "r = admitted_handle env w request" "admits env w request"
    "records_of w' = gomap_put (rv_ID r) (admitted_record env w request) (live w (io_now env 4))"
    "so_coord w' = so_coord w" "so_cells w' = (so_cells w)(so_nextCell w := 0)"
    "so_nextCell w' = Suc (so_nextCell w)" "so_closed w' = so_closed w"
    "encodable (records_of w')"
  | err where "res = Inl err" "records_of w' = records_of w \<or> records_of w' = live w (io_now env 4)"
    "so_coord w' = so_coord w"
proof -
  let ?p = "pressure (so_config w) (io_stats env 0) (io_probe env) (io_now env 5)"
  obtain records changed where re: "removeExpired (records_of w) (io_now env 4) = (records, changed)"
    by fastforce
  then have records: "records = live w (io_now env 4)"
    using removeExpired_fst [of w "io_now env 4"] by simp
  show thesis
  proof (cases "admits env w request")
    case False
    then have "\<exists>err. res = Inl err \<and> w' = write_if changed w records (io_writeErr env)"
      using assms re
      by (auto simp: admit_locked_def admits_def Let_def records split: if_splits)
    then show thesis using that(2) write_if_cases [of changed w records "io_writeErr env"] records
      by blast
  next
    case True
    let ?w = "w\<lparr>so_sequence := so_sequence w + 1, so_nextCell := Suc (so_nextCell w),
      so_cells := (so_cells w)(so_nextCell w := 0)\<rparr>"
    let ?put = "gomap_put (rv_ID (admitted_handle env w request)) (admitted_record env w request) records"
    obtain v failed where wr: "writeReservations ?w ?put (io_writeErr env) = (v, failed)"
      by fastforce
    have eq: "(w', res) =
        (case failed of Some err \<Rightarrow> (v, Inl err) | None \<Rightarrow> (v, Inr (admitted_handle env w request)))"
      using True assms re wr
      by (auto simp: admit_locked_def admits_def Let_def records admitted_handle_def
          admitted_record_def split: option.splits)
    from wr show thesis
    proof (cases rule: writeReservations_cases)
      case 1
      then show thesis using eq True that(1) records by auto
    next
      case (2 err)
      then show thesis using eq that(2) by auto
    qed
  qed
qed

text \<open>The four ways an admission can end.\<close>

lemma Admit_cases:
  assumes "Admit env order w held request = (w', res)"
  obtains (Inherited) parent where "held = Some parent" "w' = w"
    "io_now env 0 < expiry w parent" "validateParentReservation env w parent = None"
    "reservationOwnerCanInherit (rv_Request parent) (default_class request)"
    "res = Inr (parent\<lparr>rv_Request := default_class request, rv_inherited := True\<rparr>)"
  | (Free) r where "w' = w" "free_of_charge (default_class request)" "res = Inr r"
    "rv_ID r = ''control''" "rv_inherited r = False"
  | (Fresh) r where "res = Inr r" "r = admitted_handle env w (default_class request)"
    "admits env w (default_class request)"
    "validateAdmissionRequest order (default_class request) = None"
    "records_of w' = gomap_put (rv_ID r) (admitted_record env w (default_class request))
       (live w (io_now env 4))"
    "so_coord w' = so_coord w" "so_cells w' = (so_cells w)(so_nextCell w := 0)"
    "so_nextCell w' = Suc (so_nextCell w)" "\<not> so_closed w" "so_closed w' = so_closed w"
    "encodable (records_of w')"
  | (Refused) err where "res = Inl err"
    "records_of w' = records_of w \<or> records_of w' = live w (io_now env 4)"
    "so_coord w' = so_coord w"
proof -
  let ?rq = "default_class request"
  have step: "so_closed w \<or> (\<exists>err. io_ctx env 0 = Some err) \<or>
      (\<exists>err. validateAdmissionRequest order ?rq = Some err) \<Longrightarrow> \<exists>err. res = Inl err \<and> w' = w"
    using assms by (cases "so_closed w"; cases "io_ctx env 0") (auto simp: Admit_def Let_def)
  consider (a) parent where "held = Some parent" "admit_nested env w parent ?rq = Some res" "w' = w"
    | (b) "admit_own env w ?rq = (w', res)" "validateAdmissionRequest order ?rq = None" "\<not> so_closed w"
    | (c) err where "res = Inl err" "w' = w"
  proof (cases "so_closed w \<or> io_ctx env 0 \<noteq> None \<or> validateAdmissionRequest order ?rq \<noteq> None")
    case True
    then show ?thesis using step that(3) by auto
  next
    case False
    then have own: "(w', res) = (case ReservationFromContext held of None \<Rightarrow> admit_own env w ?rq
      | Some parent \<Rightarrow> (case admit_nested env w parent ?rq of Some result \<Rightarrow> (w, result)
           | None \<Rightarrow> admit_own env w ?rq))"
      using assms by (simp add: Admit_def Let_def)
    show ?thesis
    proof (cases "ReservationFromContext held")
      case None
      then show ?thesis using own False that(2) by simp
    next
      case (Some parent)
      then have "held = Some parent"
        by (auto simp: ReservationFromContext_def split: option.splits if_splits)
      then show ?thesis using own False Some that(1,2)
        by (cases "admit_nested env w parent ?rq") auto
    qed
  qed
  then show thesis
  proof cases
    case a
    then show thesis using Inherited Refused
      by (auto simp: admit_nested_def split: if_splits option.splits)
  next
    case b
    then consider (free) "free_of_charge ?rq" | (err) err where "res = Inl err" "w' = w"
      | (locked) "admit_locked env w ?rq (records_of w) = (w', res)"
      by (auto simp: admit_own_def split: if_splits option.splits sum.splits
          dest: readReservations_ok)
    then show thesis
    proof cases
      case free
      then show thesis using b(1) Free by (auto simp: admit_own_def)
    next
      case err
      then show thesis using Refused by simp
    next
      case locked
      then show thesis
        using b(2,3) Fresh Refused by (cases rule: admit_locked_cases) blast+
    qed
  next
    case c
    then show thesis using Refused by simp
  qed
qed

text \<open>The environment answers every question of a call without a fault.\<close>

definition faultless :: "io \<Rightarrow> bool" where
  "faultless env \<longleftrightarrow> (\<forall>i. io_ctx env i = None \<and> io_lock env i = None \<and> io_readErr env i = None) \<and>
     io_writeErr env = None"

lemma read_faultless:
  "so_file w \<noteq> FileCorrupt \<Longrightarrow> readReservations w None = Inr (records_of w)"
  by (auto simp: readReservations_def records_of_def split: reservation_file.splits)

lemma write_faultless:
  "encodable records \<Longrightarrow> \<exists>w'. writeReservations w records None = (w', None)"
  by (simp add: writeReservations_def)

lemma Admit_fresh:
  assumes "faultless env" and "\<not> so_closed w" and "so_file w \<noteq> FileCorrupt"
    and "validateAdmissionRequest order (default_class request) = None"
    and "\<not> free_of_charge (default_class request)" and "admits env w (default_class request)"
    and "encodable (gomap_put (rv_ID (admitted_handle env w (default_class request)))
      (admitted_record env w (default_class request)) (live w (io_now env 4)))"
  shows "\<exists>w'. Admit env order w None request =
    (w', Inr (admitted_handle env w (default_class request)))"
proof -
  let ?rq = "default_class request"
  have "Admit env order w None request = admit_locked env w ?rq (records_of w)"
    using assms(1-5) read_faultless [OF assms(3)]
    by (simp add: Admit_def ReservationFromContext_def admit_own_def faultless_def)
  moreover obtain w' res where res: "admit_locked env w ?rq (records_of w) = (w', res)"
    by fastforce
  moreover have "res = Inr (admitted_handle env w ?rq)"
  proof -
    let ?w = "w\<lparr>so_sequence := so_sequence w + 1, so_nextCell := Suc (so_nextCell w),
      so_cells := (so_cells w)(so_nextCell w := 0)\<rparr>"
    obtain v where "writeReservations ?w (gomap_put (rv_ID (admitted_handle env w ?rq))
        (admitted_record env w ?rq) (live w (io_now env 4))) None = (v, None)"
      using write_faultless [OF assms(7)] by blast
    then show ?thesis
      using res assms(1,6) removeExpired_fst [of w "io_now env 4"]
      by (auto simp: admit_locked_def admits_def Let_def faultless_def admitted_handle_def
          admitted_record_def split_beta split: if_splits)
  qed
  ultimately show ?thesis by simp
qed

section \<open>The invariant of the file\<close>

definition priced :: "AdmissionRequest \<Rightarrow> bool" where
  "priced request \<longleftrightarrow> f64_finite (rq_CPUCores request) \<and> 0 \<le> f64_val (rq_CPUCores request) \<and>
     0 \<le> sint (rq_MemoryBytes request) \<and> 0 \<le> sint (rq_DiskBytes request) \<and>
     0 \<le> sint (rq_Tasks request) \<and> rq_Class request \<in> {ClassControl, ClassNormal, ClassHeavy}"

definition classes_ok :: "Config \<Rightarrow> records \<Rightarrow> bool" where
  "classes_ok config records \<longleftrightarrow>
     (case reservationClassCounts records of (normal, heavy) \<Rightarrow>
        heavy \<le> cf_MaxHeavy config \<and> normal \<le> cf_MaxNormal config \<and> (normal = 0 \<or> heavy = 0))"

definition records_inv :: "Config \<Rightarrow> records \<Rightarrow> bool" where
  "records_inv config records \<longleftrightarrow> wf_gomap records \<and>
     (\<forall>(rid, record) \<in> set records. pr_ID record = rid \<and> priced (pr_Request record)) \<and>
     classes_ok config records"

lemma count_if_le_0 [simp]: "count_if P xs \<le> 0 \<longleftrightarrow> count_if P xs = 0"
  using count_if_nonneg [of P xs] by linarith

lemma classes_ok_fewer:
  assumes "classes_ok config records"
    and "\<And>cl. count_if (class_is cl) records' \<le> count_if (class_is cl) records"
  shows "classes_ok config records'"
  using assms(1) assms(2) [of ClassNormal] assms(2) [of ClassHeavy]
  by (auto simp: classes_ok_def reservationClassCounts_def)

lemma count_if_filter_le: "count_if P (filter Q xs) \<le> count_if P xs"
  by (induction xs) auto

lemma count_if_put_le:
  "count_if (class_is cl) (gomap_put k r m) \<le>
     count_if (class_is cl) m + (if rq_Class (pr_Request r) = cl then 1 else 0)"
  by (induction m) (auto simp: class_is_def)

lemma count_if_put_same:
  "gomap_get m k = Some r \<Longrightarrow> rq_Class (pr_Request r') = rq_Class (pr_Request r) \<Longrightarrow>
   count_if (class_is cl) (gomap_put k r' m) = count_if (class_is cl) m"
  by (induction m) (auto simp: class_is_def split: if_splits)

lemma records_inv_Nil [simp]:
  "0 \<le> cf_MaxHeavy config \<Longrightarrow> 0 \<le> cf_MaxNormal config \<Longrightarrow> records_inv config []"
  by (simp add: records_inv_def classes_ok_def reservationClassCounts_def)

lemma records_inv_filter: "records_inv config m \<Longrightarrow> records_inv config (filter P m)"
  using classes_ok_fewer [of config m "filter P m"] count_if_filter_le
  by (auto simp: records_inv_def)

lemma records_inv_del: "records_inv config m \<Longrightarrow> records_inv config (gomap_del k m)"
  by (simp add: gomap_del_filter records_inv_filter)

lemma set_put_subset: "set (gomap_put k v m) \<subseteq> insert (k, v) (set m)"
  by (induction m) auto

lemma records_inv_put:
  assumes "records_inv config m" and "pr_ID r = k" and "priced (pr_Request r)"
    and "classes_ok config (gomap_put k r m)"
  shows "records_inv config (gomap_put k r m)"
  using assms set_put_subset [of k r m] by (auto simp: records_inv_def)

lemma records_inv_put_same:
  assumes "records_inv config m" and "gomap_get m k = Some r" and "pr_ID r' = pr_ID r"
    and "priced (pr_Request r')" and "rq_Class (pr_Request r') = rq_Class (pr_Request r)"
  shows "records_inv config (gomap_put k r' m)"
proof (rule records_inv_put)
  show "pr_ID r' = k"
    using assms(1-3) by (auto simp: records_inv_def dest: map_of_SomeD)
  show "classes_ok config (gomap_put k r' m)"
    using assms(1,2,5) classes_ok_fewer [of config m] count_if_put_same [OF assms(2,5)]
    by (auto simp: records_inv_def)
qed (use assms in auto)

lemma records_inv_get: "records_inv config m \<Longrightarrow> gomap_get m k = Some r \<Longrightarrow> priced (pr_Request r)"
  by (auto simp: records_inv_def dest: map_of_SomeD)

section \<open>Every operation keeps it\<close>

definition store_inv :: "Store \<Rightarrow> bool" where
  "store_inv w \<longleftrightarrow> records_inv (so_config w) (records_of w) \<and> 0 \<le> co_normalActive (so_coord w) \<and>
     0 < cf_MaxNormal (so_config w) \<and> 0 < cf_MaxHeavy (so_config w)"

lemma store_inv_write:
  assumes "store_inv w" and "writeReservations w records e = (w', failed)"
    and "records_inv (so_config w) records"
  shows "store_inv w'"
  using assms(2) by (cases rule: writeReservations_cases) (use assms in \<open>auto simp: store_inv_def\<close>)

definition all_costs :: "cost_field list" where
  "all_costs = [FieldMemory, FieldDisk, FieldTasks]"

lemma validate_priced:
  assumes "validateAdmissionRequest order request = None" and "set order = set all_costs"
    and "f64_finite (rq_CPUCores request)"
  shows "priced request"
proof -
  have "find (\<lambda>(field, value). i64_lt value 0) (map (cost_of request) order) = None"
    using assms(1) by (auto simp: validateAdmissionRequest_def split: if_splits option.splits)
  then have "\<forall>f \<in> set order. \<not> i64_lt (snd (cost_of request f)) 0"
    by (auto simp: find_None_iff split_beta)
  then show ?thesis
    using assms f64_lt_zero_le [of "rq_CPUCores request"]
    by (auto simp: all_costs_def priced_def validateAdmissionRequest_def
        split: if_splits option.splits)
qed

lemma live_inv: "store_inv w \<Longrightarrow> records_inv (so_config w) (live w now)"
  by (simp add: store_inv_def live_def records_inv_filter)

lemma class_fits_ok:
  assumes "class_fits c (rq_Class (pr_Request r)) m" and "classes_ok (co_config c) m"
    and "0 \<le> co_normalActive c"
  shows "classes_ok (co_config c) (gomap_put k r m)"
  using assms count_if_put_le [of ClassNormal k r m] count_if_put_le [of ClassHeavy k r m]
  by (auto simp: classes_ok_def class_fits_def reservationClassCounts_def not_less
      split: if_splits)

lemma Admit_inv [keeps_inv]:
  assumes "Admit env order w held request = (w', res)" and "set order = set all_costs"
    and inv: "store_inv w"
  shows "store_inv w'"
  using assms(1)
proof (cases rule: Admit_cases)
  case (Fresh r)
  let ?rq = "default_class request" and ?m = "live w (io_now env 4)"
  let ?rec = "admitted_record env w ?rq"
  have "(rv_ID r, ?rec) \<in> set (records_of w')"
    using Fresh(5) by (metis gomap_get_put map_of_SomeD)
  then have "f64_finite (rq_CPUCores ?rq)"
    using Fresh(11) by (auto simp: encodable_def admitted_record_def)
  then have priced: "priced (pr_Request ?rec)"
    using validate_priced [OF Fresh(4) assms(2)] by (simp add: admitted_record_def)
  have "class_fits (so_coord w) (rq_Class (pr_Request ?rec)) ?m"
    using Fresh(3) by (auto simp: admits_def fits_def admitted_record_def Let_def)
  then have "classes_ok (so_config w) (gomap_put (rv_ID r) ?rec ?m)"
    using live_inv [OF inv, of "io_now env 4"] inv
    by (intro class_fits_ok) (auto simp: records_inv_def store_inv_def)
  then have "records_inv (so_config w) (records_of w')"
    unfolding Fresh(5)
    using live_inv [OF inv] priced Fresh(2)
    by (intro records_inv_put) (auto simp: admitted_record_def admitted_handle_def)
  then show ?thesis using inv Fresh(6) by (simp add: store_inv_def)
next
  case (Refused err)
  then show ?thesis using inv live_inv [OF inv, of "io_now env 4"] by (auto simp: store_inv_def)
qed (use inv in auto)

text \<open>What the other operations do when they succeed, and that they change nothing when they fail.\<close>

lemma bind_record_ok:
  "bind_record r operationID taskID record = Inr record' \<Longrightarrow>
   record' = record\<lparr>pr_Request := (pr_Request record)\<lparr>rq_OperationID := operationID,
     rq_TaskID := taskID\<rparr>\<rparr>"
  by (auto simp: bind_record_def Let_def split: if_splits)

lemma Bind_cases:
  assumes "BindReservationTask env w r operationID taskID = (w', r', failed)"
  obtains (Bound) rec rec' where "failed = None" "gomap_get (records_of w) (rv_ID r) = Some rec"
    "bind_record r (TrimSpace operationID) (TrimSpace taskID) rec = Inr rec'"
    "records_of w' = gomap_put (rv_ID r) rec' (records_of w)" "so_coord w' = so_coord w"
    "TrimSpace operationID \<noteq> []" "TrimSpace taskID \<noteq> []"
    "r' = r\<lparr>rv_Request := (rv_Request r)\<lparr>rq_OperationID := TrimSpace operationID,
       rq_TaskID := TrimSpace taskID\<rparr>\<rparr>"
  | (Unchanged) "w' = w" "r' = r" "failed \<noteq> None \<or> no_record r"
proof -
  consider (a) "w' = w" "r' = r" "failed \<noteq> None \<or> no_record r"
    | (b) rec rec' where "gomap_get (records_of w) (rv_ID r) = Some rec"
      "bind_record r (TrimSpace operationID) (TrimSpace taskID) rec = Inr rec'"
      "TrimSpace operationID \<noteq> []" "TrimSpace taskID \<noteq> []"
      "(w', r', failed) = (let (w', failed) =
           writeReservations w (gomap_put (rv_ID r) rec' (records_of w)) (io_writeErr env)
         in case failed of Some err \<Rightarrow> (w', r, Some err)
            | None \<Rightarrow> (w', r\<lparr>rv_Request := (rv_Request r)\<lparr>rq_OperationID := TrimSpace operationID,
                rq_TaskID := TrimSpace taskID\<rparr>\<rparr>, None))"
    using assms unfolding BindReservationTask_def Let_def
    by (cases "io_lock env 0"; auto split: if_splits option.splits sum.splits dest: readReservations_ok; metis)
  then show thesis
  proof cases
    case b
    obtain v e where wr: "writeReservations w (gomap_put (rv_ID r) rec' (records_of w))
        (io_writeErr env) = (v, e)" by fastforce
    then show thesis
    proof (cases rule: writeReservations_cases)
      case 1
      then show thesis using b wr Bound by auto
    next
      case (2 err)
      then show thesis using b wr Unchanged by auto
    qed
  qed (use Unchanged in auto)
qed

lemma Release_cases:
  assumes "Release env w r = (w', failed)"
  obtains (Released) rec where "failed = None" "gomap_get (records_of w) (rv_ID r) = Some rec"
    "sameReservationOwner (pr_Request rec) (rv_Request r)" "\<not> rv_inherited r"
    "records_of w' = gomap_del (rv_ID r) (records_of w)" "so_coord w' = so_coord w"
  | (Unchanged) "w' = w"
proof -
  consider (a) "w' = w"
    | (b) rec where "gomap_get (records_of w) (rv_ID r) = Some rec"
      "sameReservationOwner (pr_Request rec) (rv_Request r)" "\<not> rv_inherited r"
      "writeReservations w (gomap_del (rv_ID r) (records_of w)) (io_writeErr env) = (w', failed)"
    using assms unfolding Release_def
    by (auto split: if_splits option.splits sum.splits dest: readReservations_ok)
  then show thesis
  proof cases
    case b
    from b(4) show thesis using b(1-3) Released Unchanged
      by (cases rule: writeReservations_cases) auto
  qed (use Unchanged in auto)
qed

lemma Renew_cases:
  assumes "Renew env w r = (w', failed)"
  obtains (Renewed) rec where "failed = None" "gomap_get (records_of w) (rv_ID r) = Some rec"
    "sameReservationOwner (pr_Request rec) (rv_Request r)" "\<not> rv_inherited r"
    "records_of w' = gomap_put (rv_ID r)
       (rec\<lparr>pr_ExpiresAt := Instant (io_now env 0 + cf_ReservationTTL (so_config w))\<rparr>)
       (records_of w)"
    "so_coord w' = so_coord w"
    "so_cells w' = (case rv_renewed r of None \<Rightarrow> so_cells w
       | Some cell \<Rightarrow> (so_cells w)(cell := io_now env 0 + cf_ReservationTTL (so_config w)))"
  | (Unchanged) "w' = w" "failed \<noteq> None \<or> rv_inherited r \<or> no_record r"
proof -
  let ?expires = "io_now env 0 + cf_ReservationTTL (so_config w)"
  consider (a) "w' = w" "failed \<noteq> None \<or> rv_inherited r \<or> no_record r"
    | (b) rec where "gomap_get (records_of w) (rv_ID r) = Some rec"
      "sameReservationOwner (pr_Request rec) (rv_Request r)" "\<not> rv_inherited r"
      "(w', failed) = (let (w', failed) = writeReservations w
           (gomap_put (rv_ID r) (rec\<lparr>pr_ExpiresAt := Instant ?expires\<rparr>) (records_of w))
           (io_writeErr env)
         in case failed of Some err \<Rightarrow> (w', Some err)
            | None \<Rightarrow> (case rv_renewed r of None \<Rightarrow> (w', None)
                | Some cell \<Rightarrow> (w'\<lparr>so_cells := (so_cells w')(cell := ?expires)\<rparr>, None)))"
    using assms unfolding Renew_def Let_def
    by (cases "io_lock env 0"; auto split: if_splits option.splits sum.splits dest: readReservations_ok; metis)
  then show thesis
  proof cases
    case b
    obtain v e where wr: "writeReservations w (gomap_put (rv_ID r)
        (rec\<lparr>pr_ExpiresAt := Instant ?expires\<rparr>) (records_of w)) (io_writeErr env) = (v, e)"
      by fastforce
    then show thesis
    proof (cases rule: writeReservations_cases)
      case 1
      then show thesis using b wr Renewed by (auto split: option.splits)
    next
      case (2 err)
      then show thesis using b wr Unchanged by auto
    qed
  qed (use Unchanged in auto)
qed

lemma Reclaim_cases:
  assumes "ReclaimTerminalTaskReservations env w taskIDs = (w', n, failed)"
  obtains (Reclaimed) "failed = None"
    "records_of w' = filter (\<lambda>(rid, rec). \<not> reclaims taskIDs rec) (records_of w)"
    "n = count_if (\<lambda>(rid, rec). reclaims taskIDs rec) (records_of w)"
    "so_coord w' = so_coord w"
  | (Unchanged) "w' = w" "failed \<noteq> None"
proof -
  let ?m = "filter (\<lambda>(rid, rec). \<not> reclaims taskIDs rec) (records_of w)"
  let ?n = "count_if (\<lambda>(rid, rec). reclaims taskIDs rec) (records_of w)"
  have none: "?m = records_of w" if "?n = 0"
    using that by (force simp: count_if_zero_iff intro!: filter_True)
  have no_ids: "?n = 0" if "taskIDs = []"
    using that by (auto simp: count_if_zero_iff reclaims_def)
  consider (a) "w' = w" "failed \<noteq> None" | (z) "w' = w" "failed = None" "n = 0" "?n = 0"
    | (b) "n = ?n" "writeReservations w ?m (io_writeErr env) = (w', failed)"
    using assms no_ids unfolding ReclaimTerminalTaskReservations_def Let_def
    by (cases "io_lock env 0"; auto split: if_splits option.splits sum.splits prod.splits dest: readReservations_ok; metis)
  then show thesis
  proof cases
    case b
    from b(2) show thesis using b(1) Reclaimed Unchanged
      by (cases rule: writeReservations_cases) auto
  next
    case z
    then show thesis using none Reclaimed by auto
  qed (use Unchanged in auto)
qed

lemma Snapshot_cases:
  assumes "Snapshot env w = (w', snapshot)"
  shows "(records_of w' = records_of w \<or> records_of w' = live w (io_now env 1)) \<and>
    so_coord w' = so_coord w"
proof -
  obtain p where cs: "capacitySnapshot env w p = (w', snapshot)"
    using assms by (auto simp: Snapshot_def Let_def)
  show ?thesis
  proof (cases "io_lock env 0")
    case None
    let ?stored = "case readReservations w (io_readErr env 0) of Inl err \<Rightarrow> [] | Inr records \<Rightarrow> records"
    obtain records changed where re: "removeExpired ?stored (io_now env 1) = (records, changed)"
      by fastforce
    then have w': "w' = write_if changed w records (io_writeErr env)"
      using cs None by (auto simp: capacitySnapshot_def Let_def)
    show ?thesis
    proof (cases "readReservations w (io_readErr env 0)")
      case (Inl err)
      then show ?thesis using re w' by (auto simp: removeExpired_def write_if_def)
    next
      case (Inr m)
      then show ?thesis
        using re w' readReservations_ok [OF Inr] write_if_cases [of changed w records]
          removeExpired_fst [of w "io_now env 1"] by auto
    qed
  qed (use cs in \<open>auto simp: capacitySnapshot_def Let_def\<close>)
qed

lemma Reconcile_cases:
  "Reconcile env w backend policyRevision targetURI = (w', res) \<Longrightarrow>
   w' = w \<or> (\<exists>snapshot. Snapshot env w = (w', snapshot))"
  unfolding Reconcile_def Let_def
  by (auto split: if_splits option.splits sum.splits prod.splits)

lemma Bind_inv [keeps_inv]:
  assumes "BindReservationTask env w r operationID taskID = (w', r', failed)" and "store_inv w"
  shows "store_inv w'"
  using assms(1)
proof (cases rule: Bind_cases)
  case (Bound rec rec')
  have "records_inv (so_config w) (gomap_put (rv_ID r) rec' (records_of w))"
    using assms(2) Bound(2) bind_record_ok [OF Bound(3)] records_inv_get [of _ _ _ rec]
    by (intro records_inv_put_same [of _ _ _ rec]) (auto simp: store_inv_def priced_def)
  then show ?thesis using assms(2) Bound(4,5) by (simp add: store_inv_def)
qed (use assms in simp)

lemma Release_inv [keeps_inv]:
  assumes "Release env w r = (w', failed)" and "store_inv w"
  shows "store_inv w'"
  using assms(1)
  by (cases rule: Release_cases) (use assms in \<open>auto simp: store_inv_def records_inv_del\<close>)

lemma Renew_inv [keeps_inv]:
  assumes "Renew env w r = (w', failed)" and "store_inv w"
  shows "store_inv w'"
  using assms(1)
proof (cases rule: Renew_cases)
  case (Renewed rec)
  then have "records_inv (so_config w) (records_of w')"
    using assms(2) records_inv_get [of _ _ _ rec]
    by (auto simp: store_inv_def intro!: records_inv_put_same [of _ _ _ rec])
  then show ?thesis using assms(2) Renewed(6) by (simp add: store_inv_def)
qed (use assms in simp)

lemma Reclaim_inv [keeps_inv]:
  assumes "ReclaimTerminalTaskReservations env w taskIDs = (w', n, failed)" and "store_inv w"
  shows "store_inv w'"
  using assms(1)
  by (cases rule: Reclaim_cases) (use assms in \<open>auto simp: store_inv_def records_inv_filter\<close>)

lemma Snapshot_inv [keeps_inv]:
  assumes "Snapshot env w = (w', snapshot)" and "store_inv w"
  shows "store_inv w'"
  using Snapshot_cases [OF assms(1)] assms(2) live_inv [OF assms(2), of "io_now env 1"]
  by (auto simp: store_inv_def)

lemma Reconcile_inv [keeps_inv]:
  assumes "Reconcile env w backend policyRevision targetURI = (w', res)" and "store_inv w"
  shows "store_inv w'"
  using Reconcile_cases [OF assms(1)] Snapshot_inv assms(2) by blast

end
