(* ===== verification/Reservation_System.thy ===== *)
theory Reservation_System
  imports Reservation_Laws
begin

text \<open>
  The host as a whole: the reservation service and the permit coordinator share one \<open>Coordinator\<close>.
  A step is one atomic stretch of \<open>AcquireClass\<close> or one operation of the reservation service, with
  any request and any answers of the environment. The theorems hold in every reachable state, or
  for one call in any state that satisfies the invariant.
\<close>

section \<open>Steps of the host\<close>

type_synonym host = "Store \<times> point list"

inductive host_step :: "host \<Rightarrow> host \<Rightarrow> bool" where
  host_permit: "acq_step (so_coord w, ts) (c', ts') \<Longrightarrow> host_step (w, ts) (w\<lparr>so_coord := c'\<rparr>, ts')"
| host_admit: "set order = set all_costs \<Longrightarrow> Admit env order w held request = (w', res) \<Longrightarrow>
     host_step (w, ts) (w', ts)"
| host_bind: "BindReservationTask env w r operationID taskID = (w', r', failed) \<Longrightarrow>
     host_step (w, ts) (w', ts)"
| host_release: "Release env w r = (w', failed) \<Longrightarrow> host_step (w, ts) (w', ts)"
| host_renew: "Renew env w r = (w', failed) \<Longrightarrow> host_step (w, ts) (w', ts)"
| host_reclaim: "ReclaimTerminalTaskReservations env w taskIDs = (w', n, failed) \<Longrightarrow>
     host_step (w, ts) (w', ts)"
| host_snapshot: "Snapshot env w = (w', snapshot) \<Longrightarrow> host_step (w, ts) (w', ts)"
| host_reconcile: "Reconcile env w backend policyRevision targetURI = (w', outcome) \<Longrightarrow>
     host_step (w, ts) (w', ts)"
| host_close: "host_step (w, ts) (Close w, ts)"

fun host_start :: "host \<Rightarrow> bool" where
  "host_start (w, ts) \<longleftrightarrow> acq_start (so_coord w, ts) \<and> so_file w = FileMissing \<and> \<not> so_closed w"

definition host_inv :: "host \<Rightarrow> bool" where
  "host_inv h \<longleftrightarrow> permits_inv (so_coord (fst h), snd h) \<and> store_inv (fst h)"

lemma acq_step_config: "acq_step s s' \<Longrightarrow> co_config (fst s') = co_config (fst s)"
  by (induction rule: acq_step.induct)
    (auto simp: segment_defs counter_defs Let_def split: if_splits option.splits)

lemma permits_inv_store:
  assumes "permits_inv (c, ts)" and "records_inv (co_config c) (records_of w)" and "so_coord w = c"
  shows "store_inv w"
  using assms by (auto simp: store_inv_def permits_inv_def counters_ok_def limits_ok_def)

lemma host_inv_start: "host_start h \<Longrightarrow> host_inv h"
proof (cases h)
  case (Pair w ts)
  assume "host_start h"
  then have "permits_inv (so_coord w, ts)" and "records_of w = []"
    using permits_inv_start by (auto simp: Pair records_of_def)
  moreover have "records_inv (so_config w) []"
    using calculation(1) by (auto simp: permits_inv_def limits_ok_def)
  ultimately show ?thesis using permits_inv_store by (auto simp: host_inv_def Pair)
qed

lemma permits_inv_signal: "permits_inv (c, ts) \<Longrightarrow> permits_inv (signal c, ts)"
  by (auto simp: permits_inv_def counters_ok_def limits_ok_def channels_ok_def signal_def
      intro: le_SucI)

lemma op_coord:
  "Admit env order w held request = (w', res) \<Longrightarrow> so_coord w' = so_coord w"
  "BindReservationTask env w r operationID taskID = (w', r', failed) \<Longrightarrow> so_coord w' = so_coord w"
  "Release env w r = (w', e) \<Longrightarrow> so_coord w' = so_coord w"
  "Renew env w r = (w', e) \<Longrightarrow> so_coord w' = so_coord w"
  "ReclaimTerminalTaskReservations env w taskIDs = (w', n, e) \<Longrightarrow> so_coord w' = so_coord w"
  "Snapshot env w = (w', snapshot) \<Longrightarrow> so_coord w' = so_coord w"
  subgoal by (erule Admit_cases) auto
  subgoal by (erule Bind_cases) auto
  subgoal by (erule Release_cases) auto
  subgoal by (erule Renew_cases) auto
  subgoal by (erule Reclaim_cases) auto
  subgoal by (drule Snapshot_cases) auto
  done

lemma host_inv_step:
  assumes "host_step h h'" and "host_inv h"
  shows "host_inv h'"
  using assms
proof (induction rule: host_step.induct)
  case (host_permit w ts c' ts')
  then have p: "permits_inv (c', ts')"
    using permits.inv_step by (auto simp: host_inv_def)
  moreover have "co_config c' = so_config w"
    using acq_step_config [OF host_permit(1)] by simp
  ultimately show ?case
    using host_permit(2) permits_inv_store [OF p, of "w\<lparr>so_coord := c'\<rparr>"]
    by (auto simp: host_inv_def store_inv_def)
next
  case (host_reconcile env w backend policyRevision targetURI w' outcome ts)
  then show ?case
    using Reconcile_cases [OF host_reconcile(1)] Reconcile_inv [OF host_reconcile(1)] op_coord(6)
    by (fastforce simp: host_inv_def)
next
  case (host_close w ts)
  then show ?case
    using permits_inv_signal [of "so_coord w" ts]
    by (auto simp: host_inv_def Close_def store_inv_def signal_def)
qed (auto simp: host_inv_def dest: op_coord keeps_inv)

interpretation host: invariant_system host_start host_step host_inv
  by unfold_locales (auto intro: host_inv_start host_inv_step)

section \<open>A concrete host\<close>

text \<open>A fresh store, an environment without faults, and one admitted normal request.\<close>

definition demo_stats :: HostSystemStats where
  "demo_stats = zero_stats\<lparr>st_MemoryTotalBytes := 8192\<rparr>"

definition demo_env :: io where
  "demo_env = \<lparr>io_ctx = (\<lambda>_. None), io_now = (\<lambda>_. 1000), io_lock = (\<lambda>_. None),
     io_readErr = (\<lambda>_. None), io_writeErr = None, io_stats = (\<lambda>_. demo_stats), io_probe = None\<rparr>"

definition demo_store :: Store where
  "demo_store = \<lparr>so_coord = demo_c 0 0 0 0, so_closed = False, so_file = FileMissing,
     so_cells = (\<lambda>_. 0), so_nextCell = 0, so_sequence = 0\<rparr>"

definition demo_request :: AdmissionRequest where
  "demo_request = zero_request\<lparr>rq_Class := ClassNormal, rq_AgentID := ''agent-1'',
     rq_MemoryBytes := 1\<rparr>"

definition demo_handle :: Reservation where
  "demo_handle = admitted_handle demo_env demo_store demo_request"

definition demo_records :: records where
  "demo_records = [(rv_ID demo_handle, admitted_record demo_env demo_store demo_request)]"

definition demo_admitted :: Store where
  "demo_admitted = demo_store\<lparr>so_sequence := 1, so_nextCell := 1,
     so_file := FileRecords demo_records\<rparr>"

lemma demo_env_simps [simp]:
  "io_ctx demo_env i = None" "io_now demo_env i = 1000" "io_lock demo_env i = None"
  "io_readErr demo_env i = None" "io_writeErr demo_env = None" "io_stats demo_env i = demo_stats"
  "io_probe demo_env = None"
  by (simp_all add: demo_env_def)

lemma demo_default [simp]: "default_class demo_request = demo_request"
  by (simp add: default_class_def demo_request_def zero_request_def ClassNormal_def)

lemma demo_valid: "validateAdmissionRequest all_costs demo_request = None"
  by (simp add: validateAdmissionRequest_def all_costs_def demo_request_def zero_request_def)

lemma demo_pressure [simp]:
  "ps_Pressure (pressure demo_config demo_stats None now) = ''normal''"
  "ps_MemoryAvailableBytes (pressure demo_config demo_stats None now) = 0"
  "ps_DiskAvailableBytes (pressure demo_config demo_stats None now) = 0"
  by (simp_all add: pressure_def memory_verdict_def disk_verdict_def demo_stats_def zero_stats_def
      below_floor_def)

lemma demo_config_more [simp]:
  "cf_FailClosedOnUnknown demo_config = False" "cf_CPUCapacityCores demo_config = FZero False"
  "cf_MemoryCapacityBytes demo_config = 0" "cf_DiskCapacityBytes demo_config = 0"
  "cf_TaskCapacity demo_config = 0" "cf_ReservationTTL demo_config = fifteen_minutes"
  by (simp_all add: demo_config_def normalize_config_def DefaultConfig_def Let_def
      fifteen_minutes_def)

lemma demo_limits_memory:
  "effectiveLimits demo_config demo_stats = zero_limits\<lparr>li_MemoryBytes := 8192\<rparr>"
  by (simp add: effectiveLimits_def demo_stats_def zero_stats_def zero_limits_def clamp_i64_def
      f64_le_def f64_of_int_def round64_def)

lemma demo_usage [simp]: "observedMemoryUsage demo_stats = 0"
  by (simp add: observedMemoryUsage_def demo_stats_def zero_stats_def)

lemma demo_fits: "fits (demo_c 0 0 0 0) demo_request [] (pressure demo_config demo_stats None now) demo_stats"
  by (simp add: fits_def class_fits_def reservationClassCounts_def demo_limits_memory
      zero_limits_def demo_request_def zero_request_def below_floor_def reservationTotals_def)

lemma demo_admit:
  "Admit demo_env all_costs demo_store None demo_request = (demo_admitted, Inr demo_handle)"
proof -
  have "\<not> free_of_charge demo_request" by (simp add: free_of_charge_def demo_request_def)
  moreover have "f64_finite (rq_CPUCores demo_request)"
    by (simp add: demo_request_def zero_request_def)
  moreover have "rq_Class demo_request \<noteq> ClassHeavy" by (simp add: demo_request_def)
  ultimately show ?thesis
    using demo_valid demo_fits [of 1000]
    by (simp add: Admit_def ReservationFromContext_def admit_own_def admit_locked_def Let_def
        demo_store_def readReservations_def removeExpired_def writeReservations_def encodable_def
        demo_admitted_def demo_handle_def demo_records_def admitted_handle_def
        admitted_record_def fun_upd_def)
qed

lemma demo_start_host: "host_start (demo_store, [])"
proof -
  have "NewCoordinator ''/tmp/opute'' None (DefaultConfig ''/run/lock'') = Inr (demo_c 0 0 0 0)"
    by (simp add: NewCoordinator_def demo_c_def demo_config_def)
  then show ?thesis by (auto simp: demo_store_def)
qed

lemma demo_reachable: "reaches host_start host_step (demo_admitted, [])"
proof -
  have "reaches host_start host_step (demo_store, [])"
    by (rule reaches_start) (rule demo_start_host)
  then show ?thesis
    by (rule reaches_step) (rule host_step.host_admit [OF refl demo_admit])
qed

lemma demo_records_of [simp]: "records_of demo_admitted = demo_records" "records_of demo_store = []"
  by (simp_all add: demo_admitted_def demo_store_def records_of_def)

lemma demo_inv: "store_inv demo_admitted" "store_inv demo_store"
  using host.inv_reachable [OF demo_reachable] host_inv_start [OF demo_start_host]
  by (auto simp: host_inv_def)

section \<open>Exclusive, priced records\<close>

text \<open>
  C2: reserved capacity is exclusive across the host. In every reachable state the durable records
  hold at most \<open>MaxHeavy\<close> heavy and at most \<open>MaxNormal\<close> normal reservations, never both kinds at once,
  every record carries non-negative finite costs and is filed under its own id, whatever the callers
  request, whichever writes fail and however the operations interleave.
\<close>

theorem reservations_exclusive:
  assumes "reaches host_start host_step (w, ts)"
  shows "records_inv (so_config w) (records_of w)"
  using host.inv_reachable [OF assms] by (auto simp: host_inv_def store_inv_def)

theorem reservations_exclusive_witness:
  "records_of demo_admitted \<noteq> [] \<and> records_inv (so_config demo_admitted) (records_of demo_admitted)"
  using reservations_exclusive [OF demo_reachable] by (simp add: demo_records_def)

section \<open>Capacity\<close>

text \<open>
  Memory, disk and tasks are summed in 64-bit integers. One dimension of the sum: the cost it reads
  from a request and the total it accumulates.
\<close>

locale cost_dimension =
  fixes cost :: "AdmissionRequest \<Rightarrow> i64"
    and total :: "ReservationTotals \<Rightarrow> i64"
  assumes total_zero: "total (reservationTotals []) = 0"
    and total_add: "total (add_totals t r) = total t + cost (pr_Request r)"
begin

lemma total_foldl:
  "total (foldl (\<lambda>t (rid, r). add_totals t r) t m) = total t + (\<Sum>(rid, r) \<leftarrow> m. cost (pr_Request r))"
  by (induction m arbitrary: t) (auto simp: total_add)

lemma total_sum: "total (reservationTotals m) = (\<Sum>(rid, r) \<leftarrow> m. cost (pr_Request r))"
  using total_foldl [of "reservationTotals []" m] total_zero by (simp add: reservationTotals_def)

lemma sint_sum:
  assumes "\<forall>(rid, r) \<in> set m. 0 \<le> sint (cost (pr_Request r))"
    and "(\<Sum>(rid, r) \<leftarrow> m. sint (cost (pr_Request r))) < 2 ^ 63"
  shows "sint (\<Sum>(rid, r) \<leftarrow> m. cost (pr_Request r)) = (\<Sum>(rid, r) \<leftarrow> m. sint (cost (pr_Request r)))"
  using assms
proof (induction m)
  case (Cons e m)
  obtain rid r where e: "e = (rid, r)" by fastforce
  have nonneg: "0 \<le> (\<Sum>(rid, r) \<leftarrow> m. sint (cost (pr_Request r)))"
    using Cons.prems(1) by (intro sum_list_nonneg) auto
  then have IH: "sint (\<Sum>(rid, r) \<leftarrow> m. cost (pr_Request r)) =
      (\<Sum>(rid, r) \<leftarrow> m. sint (cost (pr_Request r)))"
    using Cons by (auto simp: e)
  then show ?case using Cons.prems nonneg by (simp add: e sint_i64_add)
qed simp

text \<open>The accumulated total is the true sum as long as the true sum fits in 64 bits.\<close>

lemma total_exact:
  assumes "\<forall>(rid, r) \<in> set m. 0 \<le> sint (cost (pr_Request r))"
    and "(\<Sum>(rid, r) \<leftarrow> m. sint (cost (pr_Request r))) < 2 ^ 63"
  shows "sint (total (reservationTotals m)) = (\<Sum>(rid, r) \<leftarrow> m. sint (cost (pr_Request r)))"
  using sint_sum [OF assms] by (simp add: total_sum)

end

interpretation memory: cost_dimension rq_MemoryBytes to_MemoryBytes
  by unfold_locales (simp_all add: reservationTotals_def add_totals_def Let_def)

interpretation disk: cost_dimension rq_DiskBytes to_DiskBytes
  by unfold_locales (simp_all add: reservationTotals_def add_totals_def Let_def)

interpretation tasks: cost_dimension rq_Tasks to_Tasks
  by unfold_locales (simp_all add: reservationTotals_def add_totals_def Let_def)

definition reserved :: "(AdmissionRequest \<Rightarrow> i64) \<Rightarrow> records \<Rightarrow> int" where
  "reserved cost m = (\<Sum>(rid, r) \<leftarrow> m. sint (cost (pr_Request r)))"

lemma reserved_put_fresh:
  "gomap_get m k = None \<Longrightarrow> reserved cost (gomap_put k r m) = reserved cost m + sint (cost (pr_Request r))"
  by (simp add: reserved_def gomap_put_fresh)

text \<open>
  C38: an admission stays within the observed host capacity, where that capacity is known. When an admission hands
  out a fresh reservation of its own (not an inherited one, not the virtual control reservation), the effective
  memory limit is known (positive), the observed usage is not negative, and the reserved bytes of all records fit in
  64 bits, then their true sum together with the observed usage does not exceed the effective memory limit. With an
  unknown limit (zero or less) the code checks no memory, and nothing is claimed.
\<close>

theorem admit_within_memory:
  assumes "store_inv w" and "set order = set all_costs"
    and "Admit env order w held request = (w', Inr r)" and "rv_ID r \<noteq> ''control''"
    and "\<not> rv_inherited r"
    and "gomap_get (live w (io_now env 4)) (rv_ID r) = None"
    and "limits = effectiveLimits (so_config w) (io_stats env 1)"
    and "usage = observedMemoryUsage (io_stats env 1)"
    and "0 < sint (li_MemoryBytes limits)" and "0 \<le> sint usage"
    and "reserved rq_MemoryBytes (records_of w') < 2 ^ 63"
  shows "reserved rq_MemoryBytes (records_of w') + sint usage \<le> sint (li_MemoryBytes limits)"
  using assms(3)
proof (cases rule: Admit_cases)
  case (Fresh r')
  let ?m = "live w (io_now env 4)" and ?rq = "default_class request"
  have r: "r' = r" "records_of w' = gomap_put (rv_ID r) (admitted_record env w ?rq) ?m"
    using Fresh by auto
  have sum: "reserved rq_MemoryBytes (records_of w') =
      reserved rq_MemoryBytes ?m + sint (rq_MemoryBytes ?rq)"
    using reserved_put_fresh [OF assms(6)] r(2) by (simp add: admitted_record_def)
  have "store_inv w'" using Admit_inv [OF assms(3,2,1)] .
  then have "records_inv (so_config w') (records_of w')" by (simp add: store_inv_def)
  then have "priced ?rq"
    using records_inv_get [of "so_config w'" "records_of w'" "rv_ID r"]
    by (simp add: r(2) admitted_record_def)
  then have rq: "0 \<le> sint (rq_MemoryBytes ?rq)" by (simp add: priced_def)
  have pos: "\<forall>(rid, p) \<in> set ?m. 0 \<le> sint (rq_MemoryBytes (pr_Request p))"
    using live_inv [OF assms(1), of "io_now env 4"] by (auto simp: records_inv_def priced_def)
  then have nonneg: "0 \<le> reserved rq_MemoryBytes ?m"
    by (auto simp: reserved_def intro!: sum_list_nonneg)
  then have "sint (to_MemoryBytes (reservationTotals ?m)) = reserved rq_MemoryBytes ?m"
    using memory.total_exact [OF pos] assms(11) sum rq by (simp add: reserved_def)
  then have "sint (to_MemoryBytes (reservationTotals ?m) + rq_MemoryBytes ?rq) =
      reserved rq_MemoryBytes (records_of w')"
    using sum assms(11) nonneg rq by (simp add: sint_i64_add)
  moreover have "sint (li_MemoryBytes limits - usage) = sint (li_MemoryBytes limits) - sint usage"
    using assms(9,10) sint_i64_upper [of "li_MemoryBytes limits"] sint_i64_upper [of usage]
    by (intro sint_i64_sub) auto
  moreover have "\<not> i64_lt (li_MemoryBytes limits - usage)
      (to_MemoryBytes (reservationTotals ?m) + rq_MemoryBytes ?rq)"
    using Fresh(3) assms(7-9) by (auto simp: admits_def fits_def Let_def)
  ultimately show ?thesis by simp
next
  case (Inherited parent)
  then show ?thesis using assms(5) by simp
next
  case (Free r')
  then show ?thesis using assms(4) by simp
qed simp

lemma demo_live [simp]: "live demo_store now = []" "live demo_admitted 1000 = demo_records"
  by (simp_all add: live_def) (simp_all add: demo_records_def expired_def admitted_record_def
      demo_store_def fifteen_minutes_def)

theorem admit_within_memory_witness:
  "reserved rq_MemoryBytes (records_of demo_admitted) \<le> 8192"
  using admit_within_memory [OF demo_inv(2) refl demo_admit, of "zero_limits\<lparr>li_MemoryBytes := 8192\<rparr>" 0]
  by (simp add: demo_handle_def admitted_handle_def newReservationID_def demo_limits_memory
      demo_records_def reserved_def admitted_record_def demo_request_def demo_store_def)

definition huge_request :: AdmissionRequest where
  "huge_request = demo_request\<lparr>rq_MemoryBytes := 9223372036854775807\<rparr>"

text \<open>
  Without the 64-bit hypothesis the bound fails. The sum of the live reservations and of a request
  close to the largest 64-bit integer wraps to a negative number, so \<open>fits\<close> accepts a request for
  more memory than any host has while another reservation is live.
\<close>

theorem admit_overflow:
  "\<exists>w' r. Admit demo_env all_costs demo_admitted None huge_request = (w', Inr r) \<and>
     records_of w' = gomap_put (rv_ID r) (admitted_record demo_env demo_admitted huge_request)
       demo_records \<and>
     sint (rq_MemoryBytes huge_request) = 9223372036854775807 \<and>
     li_MemoryBytes (effectiveLimits (so_config demo_admitted) (io_stats demo_env 1)) = 8192"
proof -
  have coord: "so_coord demo_admitted = demo_c 0 0 0 0"
    by (simp add: demo_admitted_def demo_store_def)
  have dflt: "default_class huge_request = huge_request"
    by (simp add: default_class_def huge_request_def demo_request_def ClassNormal_def)
  have "fits (demo_c 0 0 0 0) huge_request demo_records
      (pressure demo_config demo_stats None 1000) demo_stats"
    by (simp add: fits_def class_fits_def reservationClassCounts_def demo_limits_memory
        zero_limits_def huge_request_def demo_request_def zero_request_def below_floor_def
        reservationTotals_def demo_records_def add_totals_def admitted_record_def class_is_def)
  then have "admits demo_env demo_admitted huge_request"
    using coord by (simp add: admits_def huge_request_def demo_request_def)
  moreover have "validateAdmissionRequest all_costs huge_request = None"
    by (simp add: validateAdmissionRequest_def all_costs_def huge_request_def demo_request_def
        zero_request_def)
  moreover have "\<not> free_of_charge huge_request"
    by (simp add: free_of_charge_def huge_request_def)
  moreover have "encodable (gomap_put (rv_ID (admitted_handle demo_env demo_admitted huge_request))
      (admitted_record demo_env demo_admitted huge_request) (live demo_admitted (io_now demo_env 4)))"
    using set_put_subset
    by (fastforce simp: encodable_def demo_records_def admitted_record_def huge_request_def
        demo_request_def zero_request_def)
  ultimately obtain w' where admit: "Admit demo_env all_costs demo_admitted None huge_request =
      (w', Inr (admitted_handle demo_env demo_admitted huge_request))"
    using Admit_fresh [of demo_env demo_admitted all_costs huge_request]
    by (auto simp: dflt faultless_def demo_admitted_def demo_store_def)
  moreover have "records_of w' = gomap_put
      (rv_ID (admitted_handle demo_env demo_admitted huge_request))
      (admitted_record demo_env demo_admitted huge_request) demo_records"
    using admit by (cases rule: Admit_cases) (auto simp: dflt admitted_handle_def
      newReservationID_def)
  ultimately show ?thesis
    by (auto simp: coord demo_limits_memory huge_request_def)
qed

end
