(* ===== verification/Reservation_Ownership.thy ===== *)
theory Reservation_Ownership
  imports Reservation_System
begin

text \<open>
  Who may use, extend and give back a reservation: the life of a record from admission through
  binding, inheritance and renewal to its release, its expiry or its reclamation after a restart.
\<close>

section \<open>Owners\<close>

lemma sameReservationOwner_iff:
  "sameReservationOwner left right \<longleftrightarrow> rq_AgentID left = rq_AgentID right \<and>
     rq_TaskID left = rq_TaskID right \<and> rq_OperationID left = rq_OperationID right"
  by (auto simp: sameReservationOwner_def sameReservationScope_def)

lemma live_get:
  "store_inv w \<Longrightarrow> gomap_get (live w now) rid =
     (case gomap_get (records_of w) rid of None \<Rightarrow> None
      | Some p \<Rightarrow> if \<not> expired now p then Some p else None)"
  unfolding live_def by (rule gomap_get_filter) (simp add: store_inv_def records_inv_def)

lemma gomap_del_put_fresh:
  assumes "gomap_get m k = None"
  shows "gomap_del k (gomap_put k v m) = m"
proof -
  have "gomap_del k m = m" using assms
    by (force simp: gomap_del_filter map_of_eq_None_iff intro!: filter_True)
  then show ?thesis by (simp add: gomap_put_fresh [OF assms] gomap_del_filter)
qed

section \<open>Admission and release\<close>

text \<open>
  Admission is complete. When the service is open, the environment has no fault, the request is
  valid with a finite cost and fits, the call returns a handle of its own and the record it names is
  stored under the handle's id with a lease of one TTL.
\<close>

theorem admit_completes:
  assumes "store_inv w" and "faultless env" and "\<not> so_closed w" and "so_file w \<noteq> FileCorrupt"
    and "validateAdmissionRequest order (default_class request) = None"
    and "\<not> free_of_charge (default_class request)" and "f64_finite (rq_CPUCores request)"
    and "admits env w (default_class request)"
  shows "\<exists>w' r. Admit env order w None request = (w', Inr r) \<and> \<not> rv_inherited r \<and>
    rv_Request r = default_class request \<and> (\<exists>p. gomap_get (records_of w') (rv_ID r) = Some p \<and>
      pr_Request p = default_class request \<and>
      pr_ExpiresAt p = Instant (io_now env 4 + cf_ReservationTTL (so_config w)))"
proof -
  let ?rq = "default_class request"
  let ?r = "admitted_handle env w ?rq" and ?p = "admitted_record env w ?rq"
  have "encodable (live w (io_now env 4))"
    using live_inv [OF assms(1), of "io_now env 4"]
    by (auto simp: encodable_def records_inv_def priced_def)
  moreover have "f64_finite (rq_CPUCores (pr_Request ?p))"
    using assms(7) by (simp add: admitted_record_def default_class_def)
  ultimately have "encodable (gomap_put (rv_ID ?r) ?p (live w (io_now env 4)))"
    using set_put_subset [of "rv_ID ?r" ?p] by (fastforce simp: encodable_def)
  then obtain w' where admit: "Admit env order w None request = (w', Inr ?r)"
    using Admit_fresh [OF assms(2-6,8)] by blast
  then have "records_of w' = gomap_put (rv_ID ?r) ?p (live w (io_now env 4))"
    using assms(6) by (cases rule: Admit_cases) auto
  with admit show ?thesis
    by (intro exI [of _ w'] exI [of _ ?r]) (simp add: admitted_handle_def admitted_record_def)
qed

theorem admit_completes_witness:
  "\<exists>w' r. Admit demo_env all_costs demo_store None demo_request = (w', Inr r) \<and> \<not> rv_inherited r"
proof -
  have "so_coord demo_store = demo_c 0 0 0 0" by (simp add: demo_store_def)
  moreover have "rq_Class demo_request \<noteq> ClassHeavy" by (simp add: demo_request_def)
  ultimately have "admits demo_env demo_store demo_request"
    using demo_fits [of 1000] by (simp add: admits_def)
  then show ?thesis
    using admit_completes [of demo_store demo_env all_costs demo_request] demo_inv(2) demo_valid
    by (auto simp: faultless_def demo_store_def free_of_charge_def demo_request_def
        zero_request_def default_class_def ClassNormal_def ClassControl_def)
qed

text \<open>
  A refused admission takes nothing away. Whatever the reason of the refusal, every record that
  has not expired is still stored, and no record was added or changed.
\<close>

theorem admit_refused_keeps_live:
  assumes "store_inv w" and "Admit env order w held request = (w', Inl err)"
    and "gomap_get (records_of w) rid = Some p"
  shows "gomap_get (records_of w') rid = Some p \<or>
    expired (io_now env 4) p \<and> gomap_get (records_of w') rid = None"
  using assms(2)
  by (cases rule: Admit_cases) (auto simp: live_get [OF assms(1)] assms(3) split: if_splits)

theorem admit_refused_keeps_live_witness:
  "gomap_get (records_of (fst (Admit demo_env all_costs (Close demo_admitted) None demo_request)))
     (rv_ID demo_handle) \<noteq> None"
proof -
  have "store_inv (Close demo_admitted)"
    using demo_inv(1) by (auto simp: Close_def store_inv_def signal_def)
  moreover have "\<exists>err. Admit demo_env all_costs (Close demo_admitted) None demo_request =
      (Close demo_admitted, Inl err)"
    by (simp add: Admit_def Close_def demo_admitted_def demo_store_def)
  moreover have "records_of (Close demo_admitted) = demo_records"
    by (simp add: Close_def demo_admitted_def demo_store_def records_of_def)
  ultimately show ?thesis
    using admit_refused_keeps_live [of "Close demo_admitted" demo_env all_costs None demo_request
        "Close demo_admitted" _ "rv_ID demo_handle"]
    by (auto simp: demo_records_def)
qed

text \<open>
  Only its owner removes a reservation. If a release makes a stored record disappear, then the
  handle names that record, is not an inherited view, and belongs to the same agent, task and
  operation as the record.
\<close>

theorem release_only_owner:
  assumes "Release env w r = (w', failed)" and "gomap_get (records_of w) rid = Some p"
    and "gomap_get (records_of w') rid \<noteq> Some p"
  shows "rid = rv_ID r \<and> \<not> rv_inherited r \<and> rq_AgentID (pr_Request p) = rq_AgentID (rv_Request r) \<and>
    rq_TaskID (pr_Request p) = rq_TaskID (rv_Request r) \<and>
    rq_OperationID (pr_Request p) = rq_OperationID (rv_Request r)"
  using assms(1)
  by (cases rule: Release_cases)
    (use assms(2,3) in \<open>auto simp: sameReservationOwner_iff split: if_splits\<close>)

lemma Release_own:
  assumes "faultless env" and "so_file w \<noteq> FileCorrupt" and "\<not> rv_inherited r" and "\<not> no_record r"
    and "gomap_get (records_of w) (rv_ID r) = Some p"
    and "sameReservationOwner (pr_Request p) (rv_Request r)"
    and "encodable (records_of w)"
  shows "\<exists>w'. Release env w r = (w', None) \<and> records_of w' = gomap_del (rv_ID r) (records_of w)"
proof -
  have "encodable (gomap_del (rv_ID r) (records_of w))"
    using assms(7) by (auto simp: encodable_def gomap_del_filter)
  then obtain w' where wr: "writeReservations w (gomap_del (rv_ID r) (records_of w)) None = (w', None)"
    using write_faultless by blast
  then have "Release env w r = (w', None)"
    using assms(1-6) read_faultless [OF assms(2)]
    by (simp add: Release_def faultless_def)
  then show ?thesis using writeReservations_ok [OF wr] by blast
qed

lemma store_inv_encodable: "store_inv w \<Longrightarrow> encodable (records_of w)"
  by (auto simp: store_inv_def records_inv_def encodable_def priced_def)

lemma demo_handle_real: "\<not> rv_inherited demo_handle" "\<not> no_record demo_handle"
  by (simp_all add: demo_handle_def admitted_handle_def no_record_def virtual_id_def
      newReservationID_def)

lemma demo_release:
  "\<exists>w'. Release demo_env demo_admitted demo_handle = (w', None) \<and> records_of w' = []"
  using Release_own [of demo_env demo_admitted demo_handle] demo_handle_real
    store_inv_encodable [OF demo_inv(1)]
  by (auto simp: faultless_def demo_admitted_def demo_store_def demo_records_def records_of_def
      sameReservationOwner_iff demo_handle_def admitted_handle_def admitted_record_def)

theorem release_only_owner_witness:
  "rq_AgentID (rv_Request demo_handle) = ''agent-1'' \<and> \<not> rv_inherited demo_handle"
proof -
  obtain w' where "Release demo_env demo_admitted demo_handle = (w', None)" "records_of w' = []"
    using demo_release by blast
  then show ?thesis
    using release_only_owner [of demo_env demo_admitted demo_handle w' None "rv_ID demo_handle"
        "admitted_record demo_env demo_store demo_request"]
    by (simp add: demo_records_def admitted_record_def demo_request_def)
qed

text \<open>
  Admitting and releasing is a round trip. Releasing a fresh handle in an environment without
  faults leaves exactly the records that were live when it was admitted.
\<close>

theorem admit_release_roundtrip:
  assumes "store_inv w" and "set order = set all_costs"
    and "Admit env order w held request = (w', Inr r)" and "\<not> rv_inherited r"
    and "\<not> no_record r" and "gomap_get (live w (io_now env 4)) (rv_ID r) = None"
    and "faultless env'"
  shows "\<exists>w''. Release env' w' r = (w'', None) \<and> records_of w'' = live w (io_now env 4)"
  using assms(3)
proof (cases rule: Admit_cases)
  case (Fresh r')
  let ?p = "admitted_record env w (default_class request)"
  have get: "gomap_get (records_of w') (rv_ID r) = Some ?p" using Fresh by simp
  then have "so_file w' \<noteq> FileCorrupt" by (auto simp: records_of_def split: reservation_file.splits)
  moreover have "sameReservationOwner (pr_Request ?p) (rv_Request r)"
    using Fresh by (simp add: sameReservationOwner_iff admitted_record_def admitted_handle_def)
  moreover have "gomap_del (rv_ID r) (records_of w') = live w (io_now env 4)"
    using Fresh gomap_del_put_fresh [OF assms(6)] by simp
  ultimately show ?thesis
    using Release_own [OF assms(7) _ assms(4,5) get] store_inv_encodable
      Admit_inv [OF assms(3,2,1)] by metis
qed (use assms(4,5) in \<open>auto simp: no_record_def virtual_id_def\<close>)

theorem admit_release_roundtrip_witness:
  "\<exists>w''. Release demo_env demo_admitted demo_handle = (w'', None) \<and> records_of w'' = []"
  using admit_release_roundtrip [OF demo_inv(2) refl demo_admit] demo_handle_real
  by (simp add: faultless_def)

section \<open>Inheritance and binding\<close>

text \<open>
  Capacity is inherited only from a live record of the same agent. When a nested admission
  returns an inherited view, nothing was written, and the reservation in the context is either one
  of the two virtual ones or is backed by a stored record that has not expired, that the context's
  handle owns, and whose agent is the agent of the nested request; a task identity on the parent
  must be the task of the nested request.
\<close>

theorem inherit_needs_live_owner:
  assumes "Admit env order w (Some parent) request = (w', Inr r)" and "rv_inherited r"
    and "\<not> virtual_id (rv_ID parent)"
  shows "w' = w \<and> rv_ID r = rv_ID parent \<and> rq_AgentID (rv_Request parent) = rq_AgentID request \<and>
    (rq_TaskID (rv_Request parent) = [] \<or> rq_TaskID (rv_Request parent) = rq_TaskID request) \<and>
    (\<exists>p expires. gomap_get (records_of w) (rv_ID parent) = Some p \<and>
       pr_ExpiresAt p = Instant expires \<and> io_now env 1 < expires \<and>
       sameReservationOwner (pr_Request p) (rv_Request parent))"
  using assms(1)
proof (cases rule: Admit_cases)
  case (Inherited parent')
  have "\<exists>p expires. gomap_get (records_of w) (rv_ID parent) = Some p \<and>
       pr_ExpiresAt p = Instant expires \<and> io_now env 1 < expires \<and>
       sameReservationOwner (pr_Request p) (rv_Request parent)"
    using Inherited(1,4) assms(3)
    by (auto simp: validateParentReservation_def dest!: readReservations_ok
        split: option.splits sum.splits if_splits stamp.splits)
  moreover have "rq_AgentID (default_class request) = rq_AgentID request"
    "rq_TaskID (default_class request) = rq_TaskID request"
    by (simp_all add: default_class_def)
  ultimately show ?thesis
    using Inherited by (auto simp: reservationOwnerCanInherit_def)
qed (use assms(2) in \<open>auto simp: admitted_handle_def\<close>)

text \<open>A store that holds one record under a short id, and the handle that owns it.\<close>

definition held_handle :: Reservation where
  "held_handle = \<lparr>rv_ID = ''r1'', rv_Request = demo_request, rv_CreatedAt = 500,
     rv_ExpiresAt = 5000, rv_inherited = False, rv_renewed = Some 0\<rparr>"

definition held_record :: persistedReservation where
  "held_record = \<lparr>pr_ID = ''r1'', pr_Request = demo_request, pr_CreatedAt = Instant 500,
     pr_ExpiresAt = Instant 5000\<rparr>"

definition held_store :: Store where
  "held_store = demo_store\<lparr>so_file := FileRecords [(''r1'', held_record)], so_nextCell := 1\<rparr>"

lemma held_records [simp]: "records_of held_store = [(''r1'', held_record)]"
  by (simp add: held_store_def records_of_def)

lemma held_coord [simp]: "so_coord held_store = demo_c 0 0 0 0"
  by (simp add: held_store_def demo_store_def)

lemma held_inv: "store_inv held_store"
  by (simp add: store_inv_def records_inv_def wf_gomap_def classes_ok_def
      reservationClassCounts_def held_record_def class_is_def priced_def demo_request_def
      zero_request_def)

lemma held_handle_simps [simp]:
  "rv_ID held_handle = ''r1''" "rv_Request held_handle = demo_request"
  "\<not> rv_inherited held_handle" "\<not> no_record held_handle" "pr_Request held_record = demo_request"
  "pr_ExpiresAt held_record = Instant 5000" "rv_renewed held_handle = Some 0"
  by (simp_all add: held_handle_def held_record_def no_record_def virtual_id_def)

lemma held_inherit:
  "Admit demo_env all_costs held_store (Some held_handle) demo_request =
     (held_store, Inr (held_handle\<lparr>rv_Request := demo_request, rv_inherited := True\<rparr>))"
proof -
  have "TrimSpace ''r1'' = ''r1''" by code_simp
  then have "ReservationFromContext (Some held_handle) = Some held_handle"
    by (simp add: ReservationFromContext_def)
  moreover have "validateParentReservation demo_env held_store held_handle = None"
    by (simp add: validateParentReservation_def virtual_id_def sameReservationOwner_iff
        readReservations_def held_store_def)
  moreover have "1000 < expiry held_store held_handle"
    by (simp add: expiry_def held_handle_def held_store_def demo_store_def)
  moreover have "rq_ParentReservationID demo_request = []"
    by (simp add: demo_request_def zero_request_def)
  moreover have "\<not> so_closed held_store" by (simp add: held_store_def demo_store_def)
  ultimately show ?thesis
    using demo_valid by (simp add: Admit_def admit_nested_def reservationOwnerCanInherit_def)
qed

theorem inherit_needs_live_owner_witness:
  "gomap_get (records_of held_store) ''r1'' \<noteq> None \<and> rq_AgentID demo_request = ''agent-1''"
  using inherit_needs_live_owner [OF held_inherit]
  by (auto simp: virtual_id_def demo_request_def)

text \<open>
  Binding hands the record over. After a successful binding the stored record and the returned
  handle carry the same trimmed operation and task identity, the record's cost, class and lease are
  unchanged, and the returned handle can release the record.
\<close>

theorem bind_then_release:
  assumes "store_inv w" and "BindReservationTask env w r operationID taskID = (w', r', None)"
    and "\<not> no_record r" and "\<not> rv_inherited r"
    and "gomap_get (records_of w) (rv_ID r) = Some p"
    and "TrimSpace operationID \<noteq> []" and "TrimSpace taskID \<noteq> []" and "faultless env'"
  shows "\<exists>p' w''. gomap_get (records_of w') (rv_ID r) = Some p' \<and>
      p' = p\<lparr>pr_Request := (pr_Request p)\<lparr>rq_OperationID := TrimSpace operationID,
        rq_TaskID := TrimSpace taskID\<rparr>\<rparr> \<and>
      Release env' w' r' = (w'', None) \<and> gomap_get (records_of w'') (rv_ID r) = None"
  using assms(2)
proof (cases rule: Bind_cases)
  case (Bound q p')
  have p': "p' = p\<lparr>pr_Request := (pr_Request p)\<lparr>rq_OperationID := TrimSpace operationID,
        rq_TaskID := TrimSpace taskID\<rparr>\<rparr>"
    using bind_record_ok [OF Bound(3)] Bound(2) assms(5) by simp
  have agent: "rq_AgentID (pr_Request p) = rq_AgentID (rv_Request r)"
    using Bound(2,3) assms(5) by (auto simp: bind_record_def Let_def split: if_splits)
  have get: "gomap_get (records_of w') (rv_ID r') = Some p'" using Bound by simp
  moreover have "\<not> rv_inherited r'" "\<not> no_record r'"
    using assms(3,4) Bound(8) by (simp_all add: no_record_def)
  moreover have "sameReservationOwner (pr_Request p') (rv_Request r')"
    using p' agent Bound(8) by (simp add: sameReservationOwner_iff)
  moreover have "so_file w' \<noteq> FileCorrupt"
    using get by (auto simp: records_of_def split: reservation_file.splits)
  ultimately obtain w'' where "Release env' w' r' = (w'', None)"
      "records_of w'' = gomap_del (rv_ID r') (records_of w')"
    using Release_own [OF assms(8), of w' r' p'] store_inv_encodable
      Bind_inv [OF assms(2,1)] by blast
  then show ?thesis using p' get Bound(8) by (intro exI [of _ p'] exI [of _ w'']) simp
next
  case Unchanged
  then show ?thesis using assms(3) by simp
qed

lemma held_bind:
  "\<exists>w' r'. BindReservationTask demo_env held_store held_handle ''op'' ''task'' = (w', r', None)"
proof -
  have trim: "TrimSpace ''op'' = ''op''" "TrimSpace ''task'' = ''task''" by code_simp+
  have "bind_record held_handle ''op'' ''task'' held_record =
      Inr (held_record\<lparr>pr_Request := demo_request\<lparr>rq_OperationID := ''op'', rq_TaskID := ''task''\<rparr>\<rparr>)"
    by (simp add: bind_record_def demo_request_def zero_request_def)
  moreover have "readReservations held_store None = Inr [(''r1'', held_record)]"
    by (simp add: readReservations_def held_store_def)
  moreover have "rq_OperationID demo_request = []" "rq_TaskID demo_request = []"
    "f64_finite (rq_CPUCores demo_request)"
    by (simp_all add: demo_request_def zero_request_def)
  ultimately show ?thesis
    by (simp add: BindReservationTask_def Let_def trim writeReservations_def encodable_def)
qed

theorem bind_then_release_witness:
  "\<exists>w' r' w''. BindReservationTask demo_env held_store held_handle ''op'' ''task'' = (w', r', None) \<and>
     Release demo_env w' r' = (w'', None) \<and> gomap_get (records_of w'') ''r1'' = None"
proof -
  have trim: "TrimSpace ''op'' = ''op''" "TrimSpace ''task'' = ''task''" by code_simp+
  obtain w' r' where bind:
    "BindReservationTask demo_env held_store held_handle ''op'' ''task'' = (w', r', None)"
    using held_bind by blast
  show ?thesis
    using bind_then_release [OF held_inv bind, of held_record demo_env] bind
    by (auto simp: trim faultless_def)
qed

section \<open>Leases\<close>

text \<open>
  Renewing extends the one lease that all views share. A successful renewal of a stored
  reservation moves the stored expiry to one TTL from now, and every view that was inherited from it
  reads the same new expiry, because the views share the lease cell.
\<close>

theorem renew_extends_views:
  assumes "Renew env w r = (w', None)" and "\<not> rv_inherited r" and "\<not> no_record r"
    and "rv_renewed r = Some cell" and "view = r\<lparr>rv_Request := nested, rv_inherited := True\<rparr>"
    and "0 < io_now env 0 + cf_ReservationTTL (so_config w)"
  shows "expiry w' view = io_now env 0 + cf_ReservationTTL (so_config w) \<and>
    (\<exists>p. gomap_get (records_of w) (rv_ID r) = Some p \<and> gomap_get (records_of w') (rv_ID r) =
       Some (p\<lparr>pr_ExpiresAt := Instant (io_now env 0 + cf_ReservationTTL (so_config w))\<rparr>))"
  using assms(1)
  by (cases rule: Renew_cases) (use assms(2-6) in \<open>auto simp: expiry_def\<close>)

lemma held_renew: "\<exists>w'. Renew demo_env held_store held_handle = (w', None)"
proof -
  have "readReservations held_store None = Inr [(''r1'', held_record)]"
    by (simp add: readReservations_def held_store_def)
  moreover have "f64_finite (rq_CPUCores demo_request)"
    by (simp add: demo_request_def zero_request_def)
  ultimately show ?thesis
    by (simp add: Renew_def Let_def sameReservationOwner_iff writeReservations_def encodable_def)
qed

theorem renew_extends_views_witness:
  "\<exists>w'. Renew demo_env held_store held_handle = (w', None) \<and>
     expiry w' (held_handle\<lparr>rv_Request := demo_request, rv_inherited := True\<rparr>) =
       1000 + fifteen_minutes"
proof -
  obtain w' where renew: "Renew demo_env held_store held_handle = (w', None)"
    using held_renew by blast
  show ?thesis
    using renew_extends_views [OF renew _ _ _ refl, of 0 demo_request] renew
    by (auto simp: fifteen_minutes_def)
qed

lemma no_record_renew:
  assumes "faultless env" and "so_file w \<noteq> FileCorrupt" and "\<not> rv_inherited r" and "\<not> no_record r"
    and "gomap_get (records_of w) (rv_ID r) = None"
  shows "Renew env w r = (w, Some (reqErr ''host_reservation_expired'' []
      ''the reservation being renewed is no longer held''))"
  using assms read_faultless [OF assms(2)] by (simp add: Renew_def faultless_def)

text \<open>
  An expired or released reservation is not resurrected. Renewing or binding a handle whose record
  is gone changes nothing and reports \<open>host_reservation_expired\<close>.
\<close>

theorem no_resurrection:
  assumes "faultless env" and "so_file w \<noteq> FileCorrupt" and "\<not> rv_inherited r" and "\<not> no_record r"
    and "gomap_get (records_of w) (rv_ID r) = None"
  shows "Renew env w r = (w, Some (reqErr ''host_reservation_expired'' []
      ''the reservation being renewed is no longer held'')) \<and>
    (BindReservationTask env w r operationID taskID = (w', r', failed) \<longrightarrow>
       w' = w \<and> r' = r \<and> failed \<noteq> None)"
proof -
  have "w' = w \<and> r' = r \<and> failed \<noteq> None"
    if "BindReservationTask env w r operationID taskID = (w', r', failed)"
    using that by (cases rule: Bind_cases) (use assms in auto)
  then show ?thesis using no_record_renew [OF assms] by simp
qed

theorem no_resurrection_witness:
  "snd (Renew demo_env demo_store held_handle) \<noteq> None"
  using no_resurrection [of demo_env demo_store held_handle]
  by (simp add: faultless_def demo_store_def records_of_def)

text \<open>
  The restart sweep removes exactly the records of terminal tasks. A successful reclamation keeps
  every record whose trimmed task id is empty or not listed, removes every other one, and reports how
  many it removed; a failed one changes nothing.
\<close>

theorem reclaim_exact:
  assumes "store_inv w" and "ReclaimTerminalTaskReservations env w taskIDs = (w', n, failed)"
    and "gomap_get (records_of w) rid = Some p"
  shows "if failed = None
    then gomap_get (records_of w') rid =
        (if TrimSpace (rq_TaskID (pr_Request p)) \<noteq> [] \<and>
            TrimSpace (rq_TaskID (pr_Request p)) \<in> set taskIDs then None else Some p) \<and>
      n = count_if (\<lambda>(rid, p). reclaims taskIDs p) (records_of w)
    else w' = w"
  using assms(2)
proof (cases rule: Reclaim_cases)
  case Reclaimed
  have "gomap_get (records_of w') rid = (if reclaims taskIDs p then None else Some p)"
    unfolding Reclaimed(2) using assms(1,3)
    by (subst gomap_get_filter) (auto simp: store_inv_def records_inv_def)
  then show ?thesis using Reclaimed(1,3) reclaims_def [of taskIDs p] by (simp add: Let_def)
qed auto

theorem reclaim_exact_witness:
  "gomap_get (records_of (fst (ReclaimTerminalTaskReservations demo_env held_store [''task-9'']))) ''r1''
     = Some held_record"
proof -
  have "TrimSpace (rq_TaskID (pr_Request held_record)) = []"
    by (simp add: demo_request_def zero_request_def)
  moreover have "ReclaimTerminalTaskReservations demo_env held_store [''task-9''] = (held_store, 0, None)"
    using calculation by (simp add: ReclaimTerminalTaskReservations_def readReservations_def
        held_store_def reclaims_def)
  ultimately show ?thesis
    using reclaim_exact [OF held_inv, of demo_env "[''task-9'']" held_store 0 None "''r1''" held_record]
    by simp
qed

text \<open>
  Closing stops admission and keeps ownership. After \<open>Close\<close> every admission is refused with
  \<open>host_resource_unavailable\<close> and changes nothing, and the records are those of the open service.
\<close>

theorem close_refuses:
  "Admit env order (Close w) held request =
     (Close w, Inl (reqErr ''host_resource_unavailable'' [] ''resource service is closed'')) \<and>
   records_of (Close w) = records_of w \<and> Close (Close w) = Close w"
  by (simp add: Admit_def Close_def records_of_def)

end
