(* ===== verification/Lease.thy ===== *)
theory Lease
  imports Reservation_Ownership
begin

text \<open>
  The lease of a durable run (\<open>src/internal/hostmcp/reservation_lease.go\<close>). A lifecycle call offers
  the reservation it was admitted with, the run it starts may claim it, and exactly one of the two
  gives it back. The launcher, the run and the run's keep-alive goroutine move independently; a step
  is one stretch under the lease's mutex or one call of the reservation service.
\<close>

section \<open>The operations\<close>

record lease =
  le_reservation :: Reservation
  le_claimed :: bool
  le_released :: bool

definition newReservationLease :: "Reservation option \<Rightarrow> lease option" where
  "newReservationLease reservation =
     (case reservation of None \<Rightarrow> None
      | Some r \<Rightarrow> Some \<lparr>le_reservation = r, le_claimed = False, le_released = False\<rparr>)"

text \<open>Claiming succeeds once, and not after the reservation was given back.\<close>

definition claimReservationLease :: "lease \<Rightarrow> lease \<times> bool" where
  "claimReservationLease l =
     (if le_claimed l \<or> le_released l then (l, False) else (l\<lparr>le_claimed := True\<rparr>, True))"

text \<open>\<open>finish\<close> up to the unlock: whether the caller goes on to release the reservation.\<close>

definition finish_mark :: "lease \<Rightarrow> lease \<times> bool" where
  "finish_mark l = (if le_released l then (l, False) else (l\<lparr>le_released := True\<rparr>, True))"

definition bindTask :: "io \<Rightarrow> Store \<Rightarrow> lease \<Rightarrow> string \<Rightarrow> string \<Rightarrow> Store \<times> lease \<times> GoError option" where
  "bindTask env w l operationID taskID =
     (if rq_TaskID (rv_Request (le_reservation l)) \<noteq> [] then (w, l, None)
      else (let (w', r', failed) = BindReservationTask env w (le_reservation l) operationID taskID
            in (w', l\<lparr>le_reservation := r'\<rparr>, failed)))"

section \<open>The three actors\<close>

datatype launcher = LWorking | LUnclaimed | LReleasing | LDone
datatype runner = RNone | RRunning | RReleasing | RDone
datatype keeper = KOff | KTicking | KRenewing | KStopped

record lease_sys =
  ls_lease :: lease
  ls_store :: Store
  ls_launcher :: launcher
  ls_runner :: runner
  ls_keeper :: keeper
  ls_releases :: nat    \<comment> \<open>calls of \<open>Release\<close> made so far\<close>

inductive lease_step :: "lease_sys \<Rightarrow> lease_sys \<Rightarrow> bool" where
  run_claims: "ls_runner s = RNone \<Longrightarrow> claimReservationLease (ls_lease s) = (l, True) \<Longrightarrow>
     lease_step s (s\<lparr>ls_lease := l, ls_runner := RRunning, ls_keeper := KTicking\<rparr>)"
| run_binds: "ls_runner s = RRunning \<Longrightarrow>
     bindTask env (ls_store s) (ls_lease s) operationID taskID = (w', l, failed) \<Longrightarrow>
     lease_step s (s\<lparr>ls_store := w', ls_lease := l\<rparr>)"
| run_finishes: "ls_runner s = RRunning \<Longrightarrow> finish_mark (ls_lease s) = (l, mine) \<Longrightarrow>
     lease_step s (s\<lparr>ls_lease := l, ls_runner := (if mine then RReleasing else RDone)\<rparr>)"
| run_releases: "ls_runner s = RReleasing \<Longrightarrow>
     Release env (ls_store s) (le_reservation (ls_lease s)) = (w', failed) \<Longrightarrow>
     lease_step s (s\<lparr>ls_store := w', ls_runner := RDone, ls_releases := Suc (ls_releases s)\<rparr>)"
| call_returns: "ls_launcher s = LWorking \<Longrightarrow>
     lease_step s (s\<lparr>ls_launcher := (if le_claimed (ls_lease s) then LDone else LUnclaimed)\<rparr>)"
| call_finishes: "ls_launcher s = LUnclaimed \<Longrightarrow> finish_mark (ls_lease s) = (l, mine) \<Longrightarrow>
     lease_step s (s\<lparr>ls_lease := l, ls_launcher := (if mine then LReleasing else LDone)\<rparr>)"
| call_releases: "ls_launcher s = LReleasing \<Longrightarrow>
     Release env (ls_store s) (le_reservation (ls_lease s)) = (w', failed) \<Longrightarrow>
     lease_step s (s\<lparr>ls_store := w', ls_launcher := LDone, ls_releases := Suc (ls_releases s)\<rparr>)"
| tick: "ls_keeper s = KTicking \<Longrightarrow>
     lease_step s (s\<lparr>ls_keeper := (if le_released (ls_lease s) then KStopped else KRenewing)\<rparr>)"
| tick_renews: "ls_keeper s = KRenewing \<Longrightarrow>
     Renew env (ls_store s) (le_reservation (ls_lease s)) = (w', failed) \<Longrightarrow>
     lease_step s (s\<lparr>ls_store := w', ls_keeper := (if failed = None then KTicking else KStopped)\<rparr>)"
| run_context_ends: "ls_keeper s = KTicking \<Longrightarrow> lease_step s (s\<lparr>ls_keeper := KStopped\<rparr>)"

definition lease_start :: "lease_sys \<Rightarrow> bool" where
  "lease_start s \<longleftrightarrow> (\<exists>r. newReservationLease (Some r) = Some (ls_lease s)) \<and>
     ls_launcher s = LWorking \<and> ls_runner s = RNone \<and> ls_keeper s = KOff \<and> ls_releases s = 0"

section \<open>Given back at most once\<close>

definition pending_release :: "lease_sys \<Rightarrow> nat" where
  "pending_release s = (if ls_launcher s = LReleasing then 1 else 0) +
     (if ls_runner s = RReleasing then 1 else 0)"

definition lease_inv :: "lease_sys \<Rightarrow> bool" where
  "lease_inv s \<longleftrightarrow>
     ls_releases s + pending_release s = (if le_released (ls_lease s) then 1 else 0) \<and>
     (ls_runner s \<noteq> RNone \<longrightarrow> le_claimed (ls_lease s))"

lemma bindTask_flags:
  "bindTask env w l operationID taskID = (w', l', failed) \<Longrightarrow>
   le_claimed l' = le_claimed l \<and> le_released l' = le_released l"
  by (auto simp: bindTask_def split: if_splits prod.splits)

lemma lease_inv_step:
  assumes "lease_step s s'" and "lease_inv s"
  shows "lease_inv s'"
  using assms
  by (induction rule: lease_step.induct)
    (auto simp: lease_inv_def pending_release_def claimReservationLease_def finish_mark_def
      dest: bindTask_flags split: if_splits)

lemma lease_inv_start: "lease_start s \<Longrightarrow> lease_inv s"
  by (clarsimp simp: lease_start_def lease_inv_def pending_release_def newReservationLease_def)
    (metis lease.select_convs(3))

interpretation leases: invariant_system lease_start lease_step lease_inv
  by unfold_locales (fact lease_inv_start, fact lease_inv_step)

text \<open>
  The reservation of a lease is given back at most once. However the launching call, the run and
  the renewals interleave, \<open>Release\<close> is called at most once, and it has been called, or is about to
  be called by exactly one of the two, precisely when the lease is marked released.
\<close>

theorem lease_released_once:
  assumes "reaches lease_start lease_step s"
  shows "ls_releases s \<le> 1 \<and>
    ls_releases s + pending_release s = (if le_released (ls_lease s) then 1 else 0)"
  using leases.inv_reachable [OF assms] by (simp add: lease_inv_def split: if_splits)


definition demo_lease_start :: lease_sys where
  "demo_lease_start = \<lparr>ls_lease = \<lparr>le_reservation = held_handle, le_claimed = False, le_released = False\<rparr>,
     ls_store = held_store, ls_launcher = LWorking, ls_runner = RNone, ls_keeper = KOff,
     ls_releases = 0\<rparr>"

text \<open>The run claims and finishes, and the launching call returns, without releasing.\<close>

definition demo_lease_run :: lease_sys where
  "demo_lease_run = demo_lease_start\<lparr>ls_runner := RReleasing, ls_keeper := KTicking, ls_launcher := LDone,
     ls_lease := \<lparr>le_reservation = held_handle, le_claimed = True, le_released = True\<rparr>\<rparr>"

lemma demo_lease_reached: "reaches lease_start lease_step demo_lease_run"
proof -
  let ?s0 = demo_lease_start
  let ?l1 = "(ls_lease ?s0)\<lparr>le_claimed := True\<rparr>"
  let ?s1 = "?s0\<lparr>ls_lease := ?l1, ls_runner := RRunning, ls_keeper := KTicking\<rparr>"
  have "reaches lease_start lease_step ?s0"
    by (rule reaches_start) (simp add: lease_start_def demo_lease_start_def newReservationLease_def)
  moreover have "lease_step ?s0 ?s1"
    by (rule run_claims) (simp_all add: demo_lease_start_def claimReservationLease_def)
  moreover have "lease_step ?s1 (?s1\<lparr>ls_launcher := LDone\<rparr>)"
    using call_returns [of ?s1] by (simp add: demo_lease_start_def)
  moreover have "lease_step (?s1\<lparr>ls_launcher := LDone\<rparr>) demo_lease_run"
    using run_finishes [of "?s1\<lparr>ls_launcher := LDone\<rparr>" "?l1\<lparr>le_released := True\<rparr>" True]
    by (simp add: demo_lease_start_def demo_lease_run_def finish_mark_def)
  ultimately show ?thesis by (meson reaches_step)
qed

theorem lease_released_once_witness:
  "ls_releases demo_lease_run \<le> 1 \<and> ls_releases demo_lease_run + pending_release demo_lease_run = 1"
  using lease_released_once [OF demo_lease_reached] by (simp add: demo_lease_run_def)

section \<open>What a lease needs of the reservation service\<close>

text \<open>
  The three calls a lease makes, as relations between the service's states, and the one law the lease
  relies on: none of them creates a record.
\<close>

locale reservation_service =
  fixes stored :: "'w \<Rightarrow> string \<Rightarrow> bool"
    and releases renews binds :: "'w \<Rightarrow> 'w \<Rightarrow> bool"
  assumes release_adds_none: "releases w w' \<Longrightarrow> stored w' rid \<Longrightarrow> stored w rid"
    and renew_adds_none: "renews w w' \<Longrightarrow> stored w' rid \<Longrightarrow> stored w rid"
    and bind_adds_none: "binds w w' \<Longrightarrow> stored w' rid \<Longrightarrow> stored w rid"
begin

definition call :: "'w \<Rightarrow> 'w \<Rightarrow> bool" where
  "call w w' \<longleftrightarrow> releases w w' \<or> renews w w' \<or> binds w w'"

lemma gone_stays_gone: "rtranclp call w w' \<Longrightarrow> \<not> stored w rid \<Longrightarrow> \<not> stored w' rid"
  by (induction rule: rtranclp_induct)
    (auto simp: call_def dest: release_adds_none renew_adds_none bind_adds_none)

end

definition has_record :: "Store \<Rightarrow> string \<Rightarrow> bool" where
  "has_record w rid \<longleftrightarrow> gomap_get (records_of w) rid \<noteq> None"

definition release_call :: "Store \<Rightarrow> Store \<Rightarrow> bool" where
  "release_call w w' \<longleftrightarrow> (\<exists>env r failed. Release env w r = (w', failed))"

definition renew_call :: "Store \<Rightarrow> Store \<Rightarrow> bool" where
  "renew_call w w' \<longleftrightarrow> (\<exists>env r failed. Renew env w r = (w', failed))"

definition bind_call :: "Store \<Rightarrow> Store \<Rightarrow> bool" where
  "bind_call w w' \<longleftrightarrow> (\<exists>env r op task r' failed. BindReservationTask env w r op task = (w', r', failed))"

lemma Release_adds_none: "Release env w r = (w', failed) \<Longrightarrow> has_record w' rid \<Longrightarrow> has_record w rid"
  by (erule Release_cases) (auto simp: has_record_def split: if_splits)

lemma Renew_adds_none: "Renew env w r = (w', failed) \<Longrightarrow> has_record w' rid \<Longrightarrow> has_record w rid"
  by (erule Renew_cases) (auto simp: has_record_def split: if_splits)

lemma Bind_adds_none:
  "BindReservationTask env w r op task = (w', r', failed) \<Longrightarrow> has_record w' rid \<Longrightarrow> has_record w rid"
  by (erule Bind_cases) (auto simp: has_record_def split: if_splits)

interpretation host_records: reservation_service has_record release_call renew_call bind_call
  by unfold_locales
    (auto simp: release_call_def renew_call_def bind_call_def
      dest: Release_adds_none Renew_adds_none Bind_adds_none)

lemma service_calls:
  "Release env w r = (w', failed) \<Longrightarrow> host_records.call w w'"
  "Renew env w r = (w', failed) \<Longrightarrow> host_records.call w w'"
  "BindReservationTask env w r op task = (w', r', failed) \<Longrightarrow> host_records.call w w'"
  unfolding host_records.call_def release_call_def renew_call_def bind_call_def by blast+

lemma bindTask_calls:
  "bindTask env w l op task = (w', l', failed) \<Longrightarrow> rtranclp host_records.call w w'"
  by (auto simp: bindTask_def split: if_splits prod.splits dest!: service_calls(3))

lemma lease_step_calls:
  assumes "lease_step s s'"
  shows "rtranclp host_records.call (ls_store s) (ls_store s')"
  using assms
  by (induction rule: lease_step.induct) (auto dest: service_calls bindTask_calls)

lemma lease_run_calls:
  "rtranclp lease_step s s' \<Longrightarrow> rtranclp host_records.call (ls_store s) (ls_store s')"
  by (induction rule: rtranclp_induct) (auto dest: lease_step_calls)

text \<open>
  A renewal racing with the release does not bring the reservation back. Once the record of a
  reservation is gone, no continuation of the launching call, the run and the keep-alive goroutine
  stores a record under its id again, in particular not a renewal that was decided before the release
  and reaches the service after it.
\<close>

theorem lease_no_resurrection:
  assumes "rtranclp lease_step s s'" and "gomap_get (records_of (ls_store s)) rid = None"
  shows "gomap_get (records_of (ls_store s')) rid = None"
  using host_records.gone_stays_gone [OF lease_run_calls [OF assms(1)]] assms(2)
  by (simp add: has_record_def)

theorem lease_no_resurrection_witness:
  "\<exists>w. lease_step (demo_lease_start\<lparr>ls_store := demo_store, ls_keeper := KRenewing\<rparr>)
         (demo_lease_start\<lparr>ls_store := w, ls_keeper := KStopped\<rparr>) \<and>
       gomap_get (records_of w) ''r1'' = None"
proof -
  let ?s = "demo_lease_start\<lparr>ls_store := demo_store, ls_keeper := KRenewing\<rparr>"
  obtain w failed where renew: "Renew demo_env demo_store held_handle = (w, Some failed)"
    using no_record_renew [of demo_env demo_store held_handle]
    by (auto simp: faultless_def demo_store_def records_of_def)
  have step: "lease_step ?s (demo_lease_start\<lparr>ls_store := w, ls_keeper := KStopped\<rparr>)"
    using tick_renews [of ?s demo_env w "Some failed"] renew by (simp add: demo_lease_start_def)
  show ?thesis
    using lease_no_resurrection [OF r_into_rtranclp [of lease_step, OF step], of "''r1''"] step
    by (auto simp: demo_lease_start_def demo_store_def records_of_def)
qed

end
