(* ===== verification/Json.thy ===== *)
theory Json
  imports Go_Strings Go_Float
begin

text \<open>
  Values of Go's type \<open>any\<close> as the JSON decoder builds them, and what the plan engine uses of
  \<open>encoding/json\<close> and \<open>fmt\<close>. A decoded number is a \<open>float64\<close>; the other numeric types that
  \<open>number\<close> accepts are represented by the \<open>float64\<close> it converts them to. A \<open>[]string\<close> and a nil
  \<open>map[string]any\<close>, which only values built in the process contain, have constructors of their own.
  Object keys are distinct, and the order of an object is the order in which Go ranges over the map.
\<close>

datatype any =
    ANil
  | ABool bool
  | AFloat float64
  | AStr string
  | AStrs "string list"
  | ASlice "any list"
  | AMap "(string \<times> any) list"
  | ANilMap

type_synonym fields = "(string \<times> any) list"

text \<open>A field of type \<open>map[string]any\<close>: \<open>None\<close> is the nil map.\<close>

type_synonym anymap = "fields option"

definition map_any :: "anymap \<Rightarrow> any" where
  "map_any m = (case m of None \<Rightarrow> ANilMap | Some fs \<Rightarrow> AMap fs)"

definition entries :: "anymap \<Rightarrow> fields" where
  "entries m = (case m of None \<Rightarrow> [] | Some fs \<Rightarrow> fs)"

text \<open>The type assertion \<open>value.(map[string]any)\<close>.\<close>

fun as_map :: "any \<Rightarrow> anymap option" where
  "as_map (AMap fs) = Some (Some fs)"
| "as_map ANilMap = Some None"
| "as_map _ = None"

text \<open>The same assertion on a map lookup, with a missing key or another type giving a nil map.\<close>

definition sub_map :: "anymap \<Rightarrow> string \<Rightarrow> anymap option" where
  "sub_map m k = (case gomap_get (entries m) k of None \<Rightarrow> None | Some v \<Rightarrow> as_map v)"

definition map_or_nil :: "anymap option \<Rightarrow> anymap" where
  "map_or_nil m = (case m of None \<Rightarrow> None | Some m' \<Rightarrow> m')"

fun as_string :: "any \<Rightarrow> string option" where
  "as_string (AStr s) = Some s"
| "as_string _ = None"

fun as_bool :: "any \<Rightarrow> bool option" where
  "as_bool (ABool b) = Some b"
| "as_bool _ = None"

definition lookup :: "anymap \<Rightarrow> string \<Rightarrow> any" where
  "lookup m k = (case gomap_get (entries m) k of None \<Rightarrow> ANil | Some v \<Rightarrow> v)"

fun number :: "any \<Rightarrow> float64 option" where
  "number (AFloat f) = Some f"
| "number _ = None"

section \<open>Encoding\<close>

text \<open>
  \<open>json.Marshal\<close> fails on a NaN or an infinity. Two encodings are the same text exactly when the
  values agree up to the order of the keys, which \<open>canon\<close> sorts: the encoder prints the shortest
  decimal that reads back as the same \<open>float64\<close>, and its string escapes are injective on UTF-8.
\<close>

fun marshalable :: "any \<Rightarrow> bool" and marshalable_list :: "any list \<Rightarrow> bool"
  and marshalable_fields :: "fields \<Rightarrow> bool" where
  "marshalable (AFloat f) = f64_finite f"
| "marshalable (ASlice xs) = marshalable_list xs"
| "marshalable (AMap fs) = marshalable_fields fs"
| "marshalable _ = True"
| "marshalable_list [] = True"
| "marshalable_list (x # xs) = (marshalable x \<and> marshalable_list xs)"
| "marshalable_fields [] = True"
| "marshalable_fields ((k, v) # fs) = (marshalable v \<and> marshalable_fields fs)"

fun canon :: "any \<Rightarrow> any" and canon_list :: "any list \<Rightarrow> any list"
  and canon_fields :: "fields \<Rightarrow> fields" where
  "canon (AStrs ss) = ASlice (map AStr ss)"
| "canon (ASlice xs) = ASlice (canon_list xs)"
| "canon (AMap fs) = AMap (sort_key fst (canon_fields fs))"
| "canon ANilMap = ANil"
| "canon v = v"
| "canon_list [] = []"
| "canon_list (x # xs) = canon x # canon_list xs"
| "canon_fields [] = []"
| "canon_fields ((k, v) # fs) = (k, canon v) # canon_fields fs"

definition jsonEqual :: "any \<Rightarrow> any \<Rightarrow> bool" where
  "jsonEqual l r \<longleftrightarrow> marshalable l \<and> marshalable r \<and> canon l = canon r"

section \<open>Printing\<close>

definition pow10 :: "int \<Rightarrow> rat" where
  "pow10 e = (if 0 \<le> e then 10 ^ nat e else 1 / 10 ^ nat (- e))"

function int_digits :: "int \<Rightarrow> string" where
  "int_digits n = (if n < 10 then [char_of (48 + n)]
     else int_digits (n div 10) @ [char_of (48 + n mod 10)])"
  by pat_completeness auto

termination int_digits
  by (relation "measure nat") auto

declare int_digits.simps [simp del]

text \<open>The exponent \<open>e\<close> with \<open>10 ^ e \<le> q < 10 ^ (e + 1)\<close>, for positive \<open>q\<close>.\<close>

definition dec_exp :: "rat \<Rightarrow> int" where
  "dec_exp q = (if 1 \<le> q then int (length (int_digits \<lfloor>q\<rfloor>)) - 1
     else - int (length (int_digits (\<lceil>1 / q\<rceil> - 1))))"

text \<open>The decimal with \<open>n\<close> digits closest to \<open>q\<close> among those that round back to it.\<close>

definition digits_n :: "rat \<Rightarrow> nat \<Rightarrow> (int \<times> int) option" where
  "digits_n q n =
     (let e = dec_exp q - int n + 1; s = q / pow10 e; lo = \<lfloor>s\<rfloor>; hi = lo + 1;
          ok = (\<lambda>c. round64 (of_int c * pow10 e) = FNum q)
      in if ok lo \<and> (\<not> ok hi \<or> s - of_int lo \<le> of_int hi - s) then Some (lo, e)
         else if ok hi then Some (hi, e) else None)"

fun shortest_from :: "rat \<Rightarrow> nat \<Rightarrow> nat \<Rightarrow> int \<times> int" where
  "shortest_from q n 0 = (0, 0)"
| "shortest_from q n (Suc left) =
     (case digits_n q n of Some d \<Rightarrow> d | None \<Rightarrow> shortest_from q (Suc n) left)"

definition strip_zeros :: "string \<Rightarrow> string" where
  "strip_zeros s = rev (dropWhile (\<lambda>c. c = CHR ''0'') (rev s))"

text \<open>\<open>%v\<close> of a \<open>float64\<close>: the shortest digits in format \<open>g\<close>, with an exponent below -4 and from 6 on.\<close>

definition exp_text :: "int \<Rightarrow> string" where
  "exp_text e = CHR ''e'' # (if e < 0 then CHR ''-'' else CHR ''+'') #
     (let d = int_digits \<bar>e\<bar> in if length d < 2 then CHR ''0'' # d else d)"

definition sprint_pos :: "rat \<Rightarrow> string" where
  "sprint_pos q =
     (let (c, e) = shortest_from q 1 17; all = int_digits c; ds = strip_zeros all;
          x = int (length all) - 1 + e
      in if x < - 4 \<or> 6 \<le> x
         then hd ds # (if tl ds = [] then [] else CHR ''.'' # tl ds) @ exp_text x
         else if x < 0 then ''0.'' @ replicate (nat (- x - 1)) (CHR ''0'') @ ds
         else if int (length ds) \<le> x + 1
           then ds @ replicate (nat (x + 1) - length ds) (CHR ''0'')
         else take (nat (x + 1)) ds @ CHR ''.'' # drop (nat (x + 1)) ds)"

fun sprint_float :: "float64 \<Rightarrow> string" where
  "sprint_float FNaN = ''NaN''"
| "sprint_float (FInf neg) = (if neg then ''-Inf'' else ''+Inf'')"
| "sprint_float (FZero neg) = (if neg then ''-0'' else ''0'')"
| "sprint_float (FNum q) = (if q < 0 then CHR ''-'' # sprint_pos (- q) else sprint_pos q)"

text \<open>\<open>fmt.Sprint\<close>: maps print their keys in sorted order.\<close>

fun sprint :: "any \<Rightarrow> string" and sprint_list :: "any list \<Rightarrow> string list"
  and sprint_fields :: "fields \<Rightarrow> (string \<times> string) list" where
  "sprint ANil = ''<nil>''"
| "sprint (ABool b) = (if b then ''true'' else ''false'')"
| "sprint (AFloat f) = sprint_float f"
| "sprint (AStr s) = s"
| "sprint (AStrs ss) = CHR ''['' # Join ss (CHR '' '') @ '']''"
| "sprint (ASlice xs) = CHR ''['' # Join (sprint_list xs) (CHR '' '') @ '']''"
| "sprint (AMap fs) = ''map['' @ Join (map (\<lambda>(k, t). k @ CHR '':'' # t) (sort_key fst (sprint_fields fs)))
     (CHR '' '') @ '']''"
| "sprint ANilMap = ''map[]''"
| "sprint_list [] = []"
| "sprint_list (x # xs) = sprint x # sprint_list xs"
| "sprint_fields [] = []"
| "sprint_fields ((k, v) # fs) = (k, sprint v) # sprint_fields fs"

section \<open>Laws of equality\<close>

lemma jsonEqual_refl: "jsonEqual v v \<longleftrightarrow> marshalable v"
  by (simp add: jsonEqual_def)

lemma jsonEqual_sym: "jsonEqual l r \<Longrightarrow> jsonEqual r l"
  by (simp add: jsonEqual_def)

lemma jsonEqual_trans: "jsonEqual l r \<Longrightarrow> jsonEqual r t \<Longrightarrow> jsonEqual l t"
  by (simp add: jsonEqual_def)

lemma jsonEqual_string [simp]: "jsonEqual (AStr a) (AStr b) \<longleftrightarrow> a = b"
  by (simp add: jsonEqual_def)

lemma entries_simps [simp]: "entries None = []" "entries (Some fs) = fs"
  by (simp_all add: entries_def)

lemma map_any_simps [simp]: "map_any None = ANilMap" "map_any (Some fs) = AMap fs"
  by (simp_all add: map_any_def)

lemma as_map_map_any [simp]: "as_map (map_any m) = Some m"
  by (cases m) simp_all

lemma as_map_Some: "as_map v = Some m \<longleftrightarrow> v = map_any m"
  by (cases v; cases m) auto

end
