(* ===== verification/Plan_Types.thy ===== *)
theory Plan_Types
  imports Json
begin

text \<open>
  The plan document, the run state and the errors of the plan engine
  (\<open>src/internal/plan/schema.go\<close>). A field holding a pointer is an option, a Go map field is an
  association list in iteration order (a nil \<open>map[string]any\<close> is \<open>None\<close>), and \<open>int\<close> fields are
  integers: the only arithmetic on them stays below \<open>2 ^ 24\<close> once a document is validated.
\<close>

section \<open>Errors\<close>

text \<open>
  An error value keeps the format and the arguments it was built from; the text is determined by
  them. \<open>Wrapf\<close> is \<open>fmt.Errorf\<close> with a \<open>%w\<close> verb, so \<open>errors.Is\<close> looks through it. The message fields
  of the run state hold an error where the code holds its text, and \<open>None\<close> for the empty text.
\<close>

datatype PlanError =
    Errorf string "any list"
  | Wrapf string "any list" PlanError
  | ErrWaitReached
  | ErrWaitExpired
  | ErrResumeConflict
  | ErrContext string    \<comment> \<open>\<open>ctx.Err()\<close>\<close>
  | ErrOther string      \<comment> \<open>an error of the dispatcher, the sink or the encoder\<close>

fun errors_Is :: "PlanError \<Rightarrow> PlanError \<Rightarrow> bool" where
  "errors_Is (Wrapf f args e) target = (Wrapf f args e = target \<or> errors_Is e target)"
| "errors_Is e target = (e = target)"

text \<open>
  A time field of a document or a state, kept as what \<open>time.Parse\<close> makes of its RFC 3339 text: no
  text, a point in time in nanoseconds, or a text that does not parse.
\<close>

datatype timestamp = NoTime | Time int | BadTime string

section \<open>The document\<close>

record Retry =
  rt_MaxAttempts :: int
  rt_BackoffMs :: int
  rt_BackoffFactor :: int

record Defaults =
  df_TimeoutMs :: int
  df_Retry :: Retry
  df_MaxPasses :: int

record Converge =
  cv_MaxPasses :: int
  cv_AbortOnExhaustion :: bool
  cv_MaxConcurrency :: int

record TargetRef =
  tr_HostRef :: string
  tr_ResourceRef :: string

record WaitTrigger =
  wt_Kind :: string
  wt_Type :: string

record ContextDelta =
  cd_Name :: string
  cd_Value :: string
  cd_Schema :: anymap
  cd_Provenance :: string
  cd_Secret :: bool

record WaitSpec =
  wa_Trigger :: WaitTrigger
  wa_Correlation :: anymap
  wa_InputSchema :: anymap
  wa_SchemaRevision :: string
  wa_ExpiresAt :: timestamp
  wa_ExpiresInMs :: int
  wa_ContextDelta :: "ContextDelta list"

record Action =
  ac_Tool :: string
  ac_Args :: anymap

record Recovery =
  rec_Tool :: string
  rec_Args :: anymap
  rec_MaxAttempts :: int

datatype Assertion =
  Assertion (as_Path: string) (as_Op: string) (as_Value: any) (as_Assertions: "Assertion list")

record Validation =
  va_Tool :: string
  va_Args :: anymap
  va_Assert :: "Assertion list"
  va_PollIntervalMs :: int
  va_TimeoutMs :: int

record ForEach =
  fe_Source :: string
  fe_Path :: string
  fe_As :: string
  fe_Filter :: "Assertion list"

record Node =
  nd_ID :: string
  nd_DependsOn :: "string list"
  nd_When :: "Assertion list"
  nd_Target :: "TargetRef option"
  nd_Action :: "Action option"
  nd_Wait :: "WaitSpec option"
  nd_Validate :: "Validation option"
  nd_Recover :: "Recovery option"
  nd_Compensate :: "Action option"
  nd_Retry :: Retry
  nd_TimeoutMs :: int
  nd_ContinueOnFailure :: bool
  nd_ForEach :: "ForEach option"

record Document =
  doc_ContractVersion :: string
  doc_PlanID :: string
  doc_Generation :: int
  doc_IdempotencyKey :: string
  doc_CatalogRevision :: string
  doc_Variables :: anymap
  doc_Defaults :: Defaults
  doc_Converge :: Converge
  doc_Nodes :: "Node list"

record Capability =
  cp_Name :: string
  cp_InputSchema :: anymap
  cp_OutputSchema :: anymap
  cp_Effect :: string
  cp_Idempotent :: bool

definition ContractVersion :: string where "ContractVersion = ''host-plan.v1''"

definition maxNodes :: nat where "maxNodes = 256"
definition maxFanOut :: nat where "maxFanOut = 64"
definition maxTotalAttempts :: int where "maxTotalAttempts = 256"
definition maxPasses :: int where "maxPasses = 32"

section \<open>The run state\<close>

text \<open>\<open>StatusNone\<close> is the zero value, which reading a missing map entry yields.\<close>

datatype NodeStatus =
    StatusNone | StatusPending | StatusSkipped | StatusSatisfied | StatusApplied | StatusFailed
  | StatusUnknown | StatusCompensated | StatusCompensationFailed | StatusWaiting | StatusExpired

definition RunStatusWaiting :: string where "RunStatusWaiting = ''waiting''"
definition RunStatusExpired :: string where "RunStatusExpired = ''expired''"

record NodeRunState =
  ns_ID :: string
  ns_Status :: NodeStatus
  ns_Attempts :: int
  ns_Output :: any
  ns_Observed :: any
  ns_Expected :: any
  ns_Error :: "PlanError option"
  ns_StartedAt :: timestamp
  ns_CompletedAt :: timestamp

record WaitState =
  ws_NodeID :: string
  ws_WaitID :: string
  ws_WaitRevision :: int
  ws_SchemaRevision :: string
  ws_Trigger :: WaitTrigger
  ws_Correlation :: anymap
  ws_InputSchema :: anymap
  ws_ExpiresAt :: timestamp
  ws_Status :: string

record ContextEntry =
  ce_Name :: string
  ce_Value :: any
  ce_Schema :: anymap
  ce_SchemaRevision :: string
  ce_ProducerNode :: string
  ce_Source :: string
  ce_Secret :: bool
  ce_RecordedAt :: timestamp

record ResumeRequest =
  rr_WaitNodeID :: string
  rr_WaitRevision :: int
  rr_SchemaRevision :: string
  rr_Correlation :: anymap
  rr_Input :: anymap
  rr_Source :: string

record RunState =
  rs_RunID :: string
  rs_PlanID :: string
  rs_Generation :: int
  rs_Status :: string
  rs_Nodes :: "(string, NodeRunState) gomap"
  rs_Outputs :: "(string, any) gomap"
  rs_Context :: "(string, ContextEntry) gomap"
  rs_ContextHistory :: "ContextEntry list"
  rs_Wait :: "WaitState option"
  rs_Error :: "PlanError option"

text \<open>Zero values: what a composite literal leaves in the fields it does not name.\<close>

definition zero_retry :: Retry where
  "zero_retry = \<lparr>rt_MaxAttempts = 0, rt_BackoffMs = 0, rt_BackoffFactor = 0\<rparr>"

definition zero_node_state :: NodeRunState where
  "zero_node_state = \<lparr>ns_ID = [], ns_Status = StatusNone, ns_Attempts = 0, ns_Output = ANil,
     ns_Observed = ANil, ns_Expected = ANil, ns_Error = None, ns_StartedAt = NoTime,
     ns_CompletedAt = NoTime\<rparr>"

definition node_state :: "string \<Rightarrow> NodeStatus \<Rightarrow> PlanError option \<Rightarrow> NodeRunState" where
  "node_state i status err = zero_node_state\<lparr>ns_ID := i, ns_Status := status, ns_Error := err\<rparr>"

definition nodeByID :: "Document \<Rightarrow> string \<Rightarrow> Node option" where
  "nodeByID doc i = find (\<lambda>n. nd_ID n = i) (doc_Nodes doc)"

definition attemptsFor :: "Node \<Rightarrow> Document \<Rightarrow> int" where
  "attemptsFor node doc =
     (let attempts = (if rt_MaxAttempts (nd_Retry node) \<le> 0
        then rt_MaxAttempts (df_Retry (doc_Defaults doc)) else rt_MaxAttempts (nd_Retry node))
      in if attempts \<le> 0 then 1 else attempts)"

lemma attemptsFor_pos [simp]: "1 \<le> attemptsFor node doc"
  by (simp add: attemptsFor_def Let_def)

end
