(* ===== verification/Plan_Assert.thy ===== *)
theory Plan_Assert
  imports Plan_Types
begin

text \<open>
  Assertions over JSON evidence (\<open>src/internal/plan/assert.go\<close>): JSON pointers, the operators and
  their evaluation on nested arrays. Matching a regular expression is the \<open>regexp\<close> package's; it is
  a parameter \<open>matches\<close> that takes the pattern and the text and gives \<open>None\<close> for a pattern that
  does not compile.
\<close>

type_synonym regexp = "string \<Rightarrow> string \<Rightarrow> bool option"

section \<open>JSON pointers\<close>

definition unescape :: "string \<Rightarrow> string" where
  "unescape raw = ReplaceAll2 (ReplaceAll2 raw (CHR ''~'') (CHR ''1'') (CHR ''/''))
     (CHR ''~'') (CHR ''0'') (CHR ''~'')"

definition step_into :: "any \<Rightarrow> string \<Rightarrow> any option" where
  "step_into current part =
     (case current of
        ASlice xs \<Rightarrow>
          (case Atoi part of None \<Rightarrow> None
           | Some index \<Rightarrow> if index < 0 \<or> int (length xs) \<le> index then None else Some (xs ! nat index))
      | _ \<Rightarrow> (case as_map current of None \<Rightarrow> None | Some m \<Rightarrow> gomap_get (entries m) part))"

fun follow :: "any \<Rightarrow> string list \<Rightarrow> any option" where
  "follow current [] = Some current"
| "follow current (raw # parts) =
     (case step_into current (unescape raw) of None \<Rightarrow> None | Some next_value \<Rightarrow> follow next_value parts)"

text \<open>The value, or \<open>None\<close> when the pointer leads nowhere.\<close>

definition resolveJSONPointer :: "any \<Rightarrow> string \<Rightarrow> PlanError + any option" where
  "resolveJSONPointer value pointer =
     (if pointer = [] \<or> pointer = ''/'' then Inr (Some value)
      else if \<not> HasPrefix pointer ''/''
      then Inl (Errorf (''JSON pointer must start with '' @ [CHR 0x27, CHR ''/'', CHR 0x27] @ '': %q'')
             [AStr pointer])
      else Inr (follow value (Split (tl pointer) (CHR ''/''))))"

section \<open>Operators\<close>

fun isEmpty :: "any \<Rightarrow> bool" where
  "isEmpty ANil = True"
| "isEmpty (AStr s) = (TrimSpace s = [])"
| "isEmpty (ASlice xs) = (xs = [])"
| "isEmpty (AMap fs) = (fs = [])"
| "isEmpty ANilMap = True"
| "isEmpty _ = False"

record AssertionFailure =
  af_Assertion :: Assertion
  af_Observed :: any
  af_Expected :: any
  af_Message :: PlanError

definition compare_numbers :: "string \<Rightarrow> float64 \<Rightarrow> float64 \<Rightarrow> bool \<times> string" where
  "compare_numbers op left right =
     (if op = ''gt'' then (f64_lt right left, ''value is not greater than expected'')
      else if op = ''gte'' then (f64_le right left, ''value is less than expected'')
      else if op = ''lt'' then (f64_lt left right, ''value is not less than expected'')
      else (f64_le left right, ''value is greater than expected''))"

definition assert_contains :: "any \<Rightarrow> any \<Rightarrow> bool \<times> string" where
  "assert_contains observed expected =
     (case observed of
        AStr text \<Rightarrow>
          (Contains text (case expected of AStr needle \<Rightarrow> needle | _ \<Rightarrow> []),
           ''string does not contain expected value'')
      | ASlice xs \<Rightarrow>
          if list_ex (\<lambda>item. jsonEqual item expected) xs then (True, [])
          else (False, ''collection does not contain expected value'')
      | _ \<Rightarrow> (False, ''collection does not contain expected value''))"

definition assert_matches :: "regexp \<Rightarrow> any \<Rightarrow> any \<Rightarrow> bool \<times> string" where
  "assert_matches matches observed expected =
     (case (observed, expected) of
        (AStr text, AStr pattern) \<Rightarrow>
          (matches pattern text = Some True, ''value does not match expected pattern'')
      | _ \<Rightarrow> (False, ''matches requires string values''))"

text \<open>
  \<open>observed\<close> is \<open>None\<close> when the pointer led nowhere; the code then passes nil as the value.
\<close>

definition value_or_nil :: "any option \<Rightarrow> any" where
  "value_or_nil v = (case v of None \<Rightarrow> ANil | Some x \<Rightarrow> x)"

function (sequential) EvaluateAssertions :: "regexp \<Rightarrow> any \<Rightarrow> Assertion list \<Rightarrow> AssertionFailure option"
  and evaluateAssertion :: "regexp \<Rightarrow> Assertion \<Rightarrow> any option \<Rightarrow> bool \<times> string" where
  "EvaluateAssertions matches value [] = None"
| "EvaluateAssertions matches value (a # as) =
     (case resolveJSONPointer value (as_Path a) of
        Inl err \<Rightarrow> Some \<lparr>af_Assertion = a, af_Observed = ANil, af_Expected = ANil, af_Message = err\<rparr>
      | Inr observed \<Rightarrow>
          (case evaluateAssertion matches a observed of (ok, message) \<Rightarrow>
             if ok then EvaluateAssertions matches value as
             else Some \<lparr>af_Assertion = a, af_Observed = value_or_nil observed,
                        af_Expected = as_Value a, af_Message = Errorf message []\<rparr>))"
| "evaluateAssertion matches (Assertion path op expected nested) found =
     (let observed = value_or_nil found in
      if op = ''exists'' then (found \<noteq> None, ''expected value to exist'')
      else if op = ''notExists'' then (found = None, ''expected value not to exist'')
      else if op = ''empty'' then (found = None \<or> isEmpty observed, ''expected value to be empty'')
      else if op = ''notEmpty''
        then (found \<noteq> None \<and> \<not> isEmpty observed, ''expected value to be non-empty'')
      else if op = ''eq'' then (found \<noteq> None \<and> jsonEqual observed expected, ''values are not equal'')
      else if op = ''ne'' then (found = None \<or> \<not> jsonEqual observed expected, ''values are equal'')
      else if op = ''gt'' \<or> op = ''gte'' \<or> op = ''lt'' \<or> op = ''lte'' then
        (case (number observed, number expected) of
           (Some left, Some right) \<Rightarrow> compare_numbers op left right
         | _ \<Rightarrow> (False, ''comparison requires numeric values''))
      else if op = ''contains'' then assert_contains observed expected
      else if op = ''matches'' then assert_matches matches observed expected
      else if op = ''all'' \<or> op = ''any'' then
        (case observed of
           ASlice xs \<Rightarrow>
             let matched = length (filter (\<lambda>item. EvaluateAssertions matches item nested = None) xs)
             in if op = ''all'' then (matched = length xs, ''not every array element matched'')
                else (0 < matched, ''no array element matched'')
         | _ \<Rightarrow> (False, op @ '' requires an array''))
      else (False, ''unsupported assertion operator '' @ op))"
  by pat_completeness auto

termination
  by (relation "measure (\<lambda>x. case x of Inl (_, _, as) \<Rightarrow> 2 * size_list size as | Inr (_, a, _) \<Rightarrow> 2 * size a + 1)")
    auto

end
