(* ===== verification/Plan_Interpolate.thy ===== *)
theory Plan_Interpolate
  imports Plan_Assert
begin

text \<open>
  References and their interpolation (\<open>src/internal/plan/interpolate.go\<close>). A string is cut into
  the pieces that the pattern \<open>\${...}\<close> matches and the bytes between them; a value that is one
  reference becomes the referenced value, any other string has the printed values spliced in.
\<close>

section \<open>The reference pattern\<close>

datatype piece = Text char | Ref string

definition match_ref :: "string \<Rightarrow> (string \<times> string) option" where
  "match_ref s =
     (case s of c # d # t \<Rightarrow>
        if c = CHR ''$'' \<and> d = CHR ''{'' then
          (let body = takeWhile (\<lambda>x. x \<noteq> CHR ''}'') t; rest = dropWhile (\<lambda>x. x \<noteq> CHR ''}'') t
           in if body = [] \<or> rest = [] then None else Some (body, tl rest))
        else None
      | _ \<Rightarrow> None)"

lemma match_ref_shorter: "match_ref s = Some (body, rest) \<Longrightarrow> length rest < length s"
  by (auto simp: match_ref_def Let_def split: list.splits if_splits)
    (metis length_dropWhile_le le_imp_less_Suc less_SucI diff_le_self order.strict_trans1)

function pieces :: "string \<Rightarrow> piece list" where
  "pieces [] = []"
| "pieces (c # s) =
     (case match_ref (c # s) of Some (body, rest) \<Rightarrow> Ref body # pieces rest
      | None \<Rightarrow> Text c # pieces s)"
  by pat_completeness auto

termination pieces
  by (relation "measure length") (auto dest: match_ref_shorter)

fun refs :: "piece list \<Rightarrow> string list" where
  "refs [] = []"
| "refs (Ref r # ps) = r # refs ps"
| "refs (Text _ # ps) = refs ps"

text \<open>The first match spans the whole text.\<close>

definition isWholeReference :: "any \<Rightarrow> bool" where
  "isWholeReference value =
     (case value of AStr text \<Rightarrow> (case pieces text of [Ref _] \<Rightarrow> True | _ \<Rightarrow> False) | _ \<Rightarrow> False)"

section \<open>Resolving a reference\<close>

record EvalContext =
  ev_Variables :: anymap
  ev_NodeOutput :: "(string, any) gomap"
  ev_Item :: anymap
  ev_Input :: anymap
  ev_Context :: anymap

definition unresolved :: "string \<Rightarrow> PlanError" where
  "unresolved reference = Errorf ''unresolved interpolation reference %q'' [AStr reference]"

definition step_dotted :: "any \<Rightarrow> string \<Rightarrow> any option" where
  "step_dotted current part =
     (case current of
        ASlice xs \<Rightarrow>
          (case Sscanf_d part of None \<Rightarrow> None
           | Some index \<Rightarrow> if index < 0 \<or> int (length xs) \<le> index then None else Some (xs ! nat index))
      | _ \<Rightarrow> (case as_map current of None \<Rightarrow> None | Some m \<Rightarrow> gomap_get (entries m) part))"

fun walk_dotted :: "any \<Rightarrow> string list \<Rightarrow> any option" where
  "walk_dotted current [] = Some current"
| "walk_dotted current (part # parts) =
     (case step_dotted current part of None \<Rightarrow> None | Some v \<Rightarrow> walk_dotted v parts)"

definition dotted_sep :: "char \<Rightarrow> bool" where
  "dotted_sep c \<longleftrightarrow> c = CHR ''.'' \<or> c = CHR ''/''"

definition resolveDottedPath :: "any \<Rightarrow> string \<Rightarrow> string \<Rightarrow> PlanError + any" where
  "resolveDottedPath base path reference =
     (if path = [] then Inr base
      else case walk_dotted base (FieldsFunc (TrimPrefix path ''/'') dotted_sep) of
             None \<Rightarrow> Inl (unresolved reference) | Some v \<Rightarrow> Inr v)"

definition resolve_output :: "any \<Rightarrow> string \<Rightarrow> string \<Rightarrow> PlanError + any" where
  "resolve_output base path reference =
     (if HasPrefix path ''output''
      then (let path' = TrimPrefix (TrimPrefix path ''output'') ''.''
            in if path' = [] then Inr base else resolveDottedPath base path' reference)
      else resolveDottedPath base path reference)"

definition resolveReference :: "string \<Rightarrow> EvalContext \<Rightarrow> PlanError + any" where
  "resolveReference reference ctx =
     (let parts = SplitN reference (CHR ''.'') 3; path = Join (tl parts) (CHR ''.'') in
      if length parts < 2 then Inl (Errorf ''invalid interpolation reference %q'' [AStr reference])
      else if hd parts = ''vars'' then resolveDottedPath (map_any (ev_Variables ctx)) path reference
      else if hd parts = ''item'' then resolveDottedPath (map_any (ev_Item ctx)) path reference
      else if hd parts = ''input'' then resolveDottedPath (map_any (ev_Input ctx)) path reference
      else if hd parts = ''context'' then resolveDottedPath (map_any (ev_Context ctx)) path reference
      else if hd parts = ''nodes'' then
        (if length parts < 3 \<or> parts ! 2 = []
         then Inl (Errorf ''node interpolation must include output: %q'' [AStr reference])
         else case gomap_get (ev_NodeOutput ctx) (parts ! 1) of
                None \<Rightarrow> Inl (Errorf ''unresolved node interpolation %q'' [AStr reference])
              | Some base \<Rightarrow> resolve_output base (parts ! 2) reference)
      else Inl (Errorf ''unknown interpolation root %q'' [AStr (hd parts)]))"

section \<open>Interpolating a value\<close>

fun splice :: "EvalContext \<Rightarrow> piece list \<Rightarrow> PlanError + string" where
  "splice ctx [] = Inr []"
| "splice ctx (Text c # ps) =
     (case splice ctx ps of Inl e \<Rightarrow> Inl e | Inr s \<Rightarrow> Inr (c # s))"
| "splice ctx (Ref r # ps) =
     (case resolveReference r ctx of Inl e \<Rightarrow> Inl e
      | Inr v \<Rightarrow> (case splice ctx ps of Inl e \<Rightarrow> Inl e | Inr s \<Rightarrow> Inr (sprint v @ s)))"

definition interpolate_string :: "EvalContext \<Rightarrow> string \<Rightarrow> PlanError + any" where
  "interpolate_string ctx text =
     (case pieces text of
        [Ref r] \<Rightarrow> resolveReference r ctx
      | ps \<Rightarrow> if refs ps = [] then Inr (AStr text)
              else (case splice ctx ps of Inl e \<Rightarrow> Inl e | Inr s \<Rightarrow> Inr (AStr s)))"

fun interpolateValue :: "EvalContext \<Rightarrow> any \<Rightarrow> PlanError + any"
  and interpolate_list :: "EvalContext \<Rightarrow> any list \<Rightarrow> PlanError + any list"
  and interpolate_fields :: "EvalContext \<Rightarrow> fields \<Rightarrow> PlanError + fields" where
  "interpolateValue ctx (AMap fs) =
     (case interpolate_fields ctx fs of Inl e \<Rightarrow> Inl e | Inr fs' \<Rightarrow> Inr (AMap fs'))"
| "interpolateValue ctx ANilMap = Inr (AMap [])"
| "interpolateValue ctx (ASlice xs) =
     (case interpolate_list ctx xs of Inl e \<Rightarrow> Inl e | Inr xs' \<Rightarrow> Inr (ASlice xs'))"
| "interpolateValue ctx (AStr text) = interpolate_string ctx text"
| "interpolateValue ctx v = Inr v"
| "interpolate_list ctx [] = Inr []"
| "interpolate_list ctx (x # xs) =
     (case interpolateValue ctx x of Inl e \<Rightarrow> Inl e
      | Inr v \<Rightarrow> (case interpolate_list ctx xs of Inl e \<Rightarrow> Inl e | Inr vs \<Rightarrow> Inr (v # vs)))"
| "interpolate_fields ctx [] = Inr []"
| "interpolate_fields ctx ((k, x) # fs) =
     (case interpolateValue ctx x of Inl e \<Rightarrow> Inl e
      | Inr v \<Rightarrow> (case interpolate_fields ctx fs of Inl e \<Rightarrow> Inl e | Inr fs' \<Rightarrow> Inr ((k, v) # fs')))"

definition InterpolateArgs :: "anymap \<Rightarrow> EvalContext \<Rightarrow> PlanError + anymap" where
  "InterpolateArgs args ctx =
     (case interpolateValue ctx (map_any args) of Inl e \<Rightarrow> Inl e
      | Inr v \<Rightarrow> (case as_map v of
            None \<Rightarrow> Inl (Errorf ''interpolated arguments are not an object'' [])
          | Some m \<Rightarrow> Inr m))"

end
