(* ===== verification/Plan_Schema.thy ===== *)
theory Plan_Schema
  imports Plan_Interpolate
begin

text \<open>
  JSON schemas and value validation (\<open>src/internal/plan/schema.go\<close>): the bounded schemas of a wait,
  \<open>ValidateJSON\<close> with its type unions, enumerations and nested objects and arrays, and the schema
  queries that the static reference check uses.
\<close>

section \<open>Sizes\<close>

fun asize :: "any \<Rightarrow> nat" and asize_list :: "any list \<Rightarrow> nat" and asize_fields :: "fields \<Rightarrow> nat" where
  "asize (ASlice xs) = Suc (asize_list xs)"
| "asize (AStrs ss) = Suc (2 * length ss)"
| "asize (AMap fs) = Suc (asize_fields fs)"
| "asize _ = 1"
| "asize_list [] = 0"
| "asize_list (x # xs) = Suc (asize x + asize_list xs)"
| "asize_fields [] = 0"
| "asize_fields ((k, v) # fs) = Suc (asize v + asize_fields fs)"

lemma asize_get: "gomap_get fs k = Some v \<Longrightarrow> asize v < asize_fields fs"
  by (induction fs) (auto split: if_splits)

lemma asize_strings: "asize_list (map AStr ss) = 2 * length ss"
  by (induction ss) auto

lemma asize_as_map: "as_map v = Some m \<Longrightarrow> asize_fields (entries m) < asize v"
  by (cases v) auto

lemma asize_sub_map: "sub_map m k = Some m' \<Longrightarrow> asize_fields (entries m') < asize_fields (entries m)"
  by (auto simp: sub_map_def split: option.splits dest!: asize_get asize_as_map)

section \<open>Reading a schema\<close>

fun only_strings :: "any list \<Rightarrow> string list" where
  "only_strings [] = []"
| "only_strings (AStr s # xs) = s # only_strings xs"
| "only_strings (_ # xs) = only_strings xs"

definition schemaType :: "anymap \<Rightarrow> string" where
  "schemaType schema =
     (case schema of None \<Rightarrow> ''unknown''
      | Some fs \<Rightarrow>
        (case gomap_get fs ''type'' of
           Some (AStr t) \<Rightarrow> if t = [] then ''unknown'' else t
         | Some (ASlice xs) \<Rightarrow> Join (only_strings xs) (CHR ''|'')
         | _ \<Rightarrow> ''unknown''))"

fun stringSlice :: "any \<Rightarrow> string list" where
  "stringSlice (AStrs ss) = ss"
| "stringSlice (ASlice xs) = only_strings xs"
| "stringSlice _ = []"

fun schemaTypes :: "any \<Rightarrow> string list" where
  "schemaTypes (AStr t) = (if t = [] then [] else [t])"
| "schemaTypes (AStrs ss) = ss"
| "schemaTypes (ASlice xs) = only_strings xs"
| "schemaTypes _ = []"

text \<open>All elements must be strings, or the slice is not read at all.\<close>

definition stringOrAnySlice :: "any \<Rightarrow> string list option" where
  "stringOrAnySlice value =
     (case value of AStrs ss \<Rightarrow> Some ss
      | ASlice xs \<Rightarrow> if list_all (\<lambda>x. as_string x \<noteq> None) xs then Some (only_strings xs) else None
      | _ \<Rightarrow> None)"

definition anySlice :: "any \<Rightarrow> any list option" where
  "anySlice value =
     (case value of ASlice xs \<Rightarrow> Some xs | AStrs ss \<Rightarrow> Some (map AStr ss) | _ \<Rightarrow> None)"

lemma asize_anySlice: "anySlice v = Some xs \<Longrightarrow> asize_list xs < asize v"
  by (auto simp: anySlice_def asize_strings split: any.splits)

fun schemaAt_from :: "anymap \<Rightarrow> string list \<Rightarrow> anymap option" where
  "schemaAt_from current [] = (if entries current = [] then None else Some current)"
| "schemaAt_from current (part # path) =
     (case sub_map (map_or_nil (sub_map current ''properties'')) part of None \<Rightarrow> None
      | Some next_schema \<Rightarrow> schemaAt_from next_schema path)"

definition schemaAt :: "anymap \<Rightarrow> string list \<Rightarrow> anymap option" where
  "schemaAt schema path = schemaAt_from schema path"

definition schemaAtOrSelf :: "anymap \<Rightarrow> string list \<Rightarrow> anymap option" where
  "schemaAtOrSelf schema path =
     (if path = [] then (if entries schema = [] then None else Some schema) else schemaAt schema path)"

definition schemasCompatible :: "anymap \<Rightarrow> anymap \<Rightarrow> bool" where
  "schemasCompatible producer consumer =
     (schemaType producer = ''unknown'' \<or> schemaType consumer = ''unknown'' \<or>
      schemaType producer \<in> set (Split (schemaType consumer) (CHR ''|'')))"

section \<open>Bounded schemas\<close>

definition validateBoundedSchema :: "anymap \<Rightarrow> int \<Rightarrow> PlanError option" where
  "validateBoundedSchema schema depth =
     (if 8 < depth then Some (Errorf ''schema nesting exceeds limit'' [])
      else if schemaType schema = [] then Some (Errorf ''schema type is required'' [])
      else None)"

definition undeclared_required :: "anymap \<Rightarrow> fields \<Rightarrow> PlanError option" where
  "undeclared_required schema properties =
     (case find (\<lambda>r. \<not> gomap_has properties r) (stringSlice (lookup schema ''required'')) of
        None \<Rightarrow> None
      | Some r \<Rightarrow> Some (Errorf ''required property %q is not declared'' [AStr r]))"

function (sequential) validateBoundedInputSchema :: "anymap \<Rightarrow> int \<Rightarrow> PlanError option"
  and bounded_properties :: "fields \<Rightarrow> int \<Rightarrow> PlanError option" where
  "validateBoundedInputSchema schema depth =
     (case validateBoundedSchema schema depth of Some e \<Rightarrow> Some e | None \<Rightarrow>
      if schemaType schema \<noteq> ''object'' then Some (Errorf ''schema must have type object'' [])
      else if as_bool (lookup schema ''additionalProperties'') \<noteq> Some False
      then Some (Errorf ''schema must set additionalProperties: false'' [])
      else case sub_map schema ''properties'' of
             None \<Rightarrow> Some (Errorf ''schema properties are required'' [])
           | Some properties \<Rightarrow>
               if 32 < length (entries properties)
               then Some (Errorf ''schema has too many properties'' [])
               else (case bounded_properties (entries properties) depth of
                       Some e \<Rightarrow> Some e
                     | None \<Rightarrow> undeclared_required schema (entries properties)))"
| "bounded_properties [] depth = None"
| "bounded_properties ((name, raw) # rest) depth =
     (if TrimSpace name = [] then Some (Errorf ''schema property names must be non-empty'' [])
      else case as_map raw of
             None \<Rightarrow> Some (Errorf ''schema property %q must be an object'' [AStr name])
           | Some property \<Rightarrow>
               (case (if schemaType property = ''object''
                      then validateBoundedInputSchema property (depth + 1) else None) of
                  Some e \<Rightarrow> Some (Wrapf ''property %q: %w'' [AStr name] e)
                | None \<Rightarrow> bounded_properties rest depth))"
  by pat_completeness auto

termination
  by (relation "measure (\<lambda>x. case x of Inl (m, _) \<Rightarrow> 2 * asize_fields (entries m) + 1
        | Inr (fs, _) \<Rightarrow> 2 * asize_fields fs)")
    (auto dest!: asize_sub_map asize_as_map)

section \<open>Validating a value\<close>

fun f64_integral :: "float64 \<Rightarrow> bool" where
  "f64_integral FNaN = False"
| "f64_integral (FNum q) = (of_int \<lfloor>q\<rfloor> = q)"
| "f64_integral _ = True"

definition check_string :: "anymap \<Rightarrow> any \<Rightarrow> PlanError option" where
  "check_string schema value =
     (case as_string value of None \<Rightarrow> Some (Errorf ''expected string, got %T'' [value])
      | Some text \<Rightarrow>
        (case number (lookup schema ''minLength'') of
           Some minimum \<Rightarrow> if f64_lt (f64_of_int (int (length text))) minimum
             then Some (Errorf ''string is shorter than %g'' [AFloat minimum]) else None
         | None \<Rightarrow> None))"

definition check_pattern :: "regexp \<Rightarrow> anymap \<Rightarrow> any \<Rightarrow> PlanError option" where
  "check_pattern matches schema value =
     (case (as_string (lookup schema ''pattern''), as_string value) of
        (Some pattern, Some text) \<Rightarrow>
          (case matches pattern text of
             None \<Rightarrow> Some (Wrapf ''invalid schema pattern: %w'' [] (ErrOther ''regexp''))
           | Some True \<Rightarrow> None
           | Some False \<Rightarrow> Some (Errorf ''string does not match pattern'' []))
      | _ \<Rightarrow> None)"

definition check_scalar :: "regexp \<Rightarrow> string \<Rightarrow> anymap \<Rightarrow> any \<Rightarrow> PlanError option" where
  "check_scalar matches t schema value =
     (if t = ''string'' then
        (case check_string schema value of Some e \<Rightarrow> Some e
         | None \<Rightarrow> check_pattern matches schema value)
      else if t = ''integer'' then
        (if (case number value of None \<Rightarrow> False | Some f \<Rightarrow> f64_integral f) then None
         else Some (Errorf ''expected integer, got %T''
           [AFloat (case number value of None \<Rightarrow> FZero False | Some f \<Rightarrow> f)]))
      else if t = ''number'' then
        (if number value = None then Some (Errorf ''expected number, got %T'' [value]) else None)
      else if t = ''boolean'' then
        (if as_bool value = None then Some (Errorf ''expected boolean, got %T'' [value]) else None)
      else None)"

definition check_minimum :: "anymap \<Rightarrow> any \<Rightarrow> PlanError option" where
  "check_minimum schema value =
     (case number (lookup schema ''minimum'') of None \<Rightarrow> None
      | Some minimum \<Rightarrow>
        if (case number value of None \<Rightarrow> True | Some actual \<Rightarrow> f64_lt actual minimum)
        then Some (Errorf ''number is below minimum %g'' [AFloat minimum]) else None)"

definition check_enum :: "anymap \<Rightarrow> any \<Rightarrow> PlanError option" where
  "check_enum schema value =
     (case stringOrAnySlice (lookup schema ''enum'') of
        Some enum \<Rightarrow> if list_ex (\<lambda>c. jsonEqual (AStr c) value) enum then None
          else Some (Errorf ''value %v is not in enum'' [value])
      | None \<Rightarrow> None)"

definition check_const :: "anymap \<Rightarrow> any \<Rightarrow> PlanError option" where
  "check_const schema value =
     (case gomap_get (entries schema) ''const'' of None \<Rightarrow> None
      | Some constant \<Rightarrow> if jsonEqual constant value then None
          else Some (Errorf ''value %v does not equal const %v'' [value, constant]))"

definition missing_required :: "anymap \<Rightarrow> fields \<Rightarrow> PlanError option" where
  "missing_required schema object =
     (case stringOrAnySlice (lookup schema ''required'') of None \<Rightarrow> None
      | Some required \<Rightarrow>
        (case find (\<lambda>r. \<not> gomap_has object r) required of None \<Rightarrow> None
         | Some r \<Rightarrow> Some (Errorf ''missing required property %q'' [AStr r])))"

definition too_few_items :: "anymap \<Rightarrow> any list \<Rightarrow> PlanError option" where
  "too_few_items schema array =
     (case number (lookup schema ''minItems'') of None \<Rightarrow> None
      | Some minimum \<Rightarrow> if f64_lt (f64_of_int (int (length array))) minimum
          then Some (Errorf ''array has %d items, minimum is %g''
            [AFloat (f64_of_int (int (length array))), AFloat minimum]) else None)"

definition or_else :: "PlanError option \<Rightarrow> PlanError option \<Rightarrow> PlanError option" where
  "or_else a b = (case a of Some e \<Rightarrow> Some e | None \<Rightarrow> b)"

lemma or_else_None [simp]: "or_else a b = None \<longleftrightarrow> a = None \<and> b = None"
  by (cases a) (simp_all add: or_else_def)

lemma or_else_cong [fundef_cong]:
  "a = a' \<Longrightarrow> (a' = None \<Longrightarrow> b = b') \<Longrightarrow> or_else a b = or_else a' b'"
  by (cases a') (simp_all add: or_else_def)

definition with_type :: "anymap \<Rightarrow> string \<Rightarrow> anymap" where
  "with_type schema t = Some (gomap_put ''type'' (AStr t) (entries schema))"

definition types_of :: "anymap \<Rightarrow> string list" where
  "types_of schema = schemaTypes (lookup schema ''type'')"

lemma types_with_type: "length (types_of (with_type schema t)) \<le> 1"
  by (simp add: types_of_def with_type_def lookup_def)

function (sequential) ValidateJSON :: "regexp \<Rightarrow> anymap \<Rightarrow> any \<Rightarrow> PlanError option"
  and validate_union :: "regexp \<Rightarrow> anymap \<Rightarrow> string list \<Rightarrow> PlanError option \<Rightarrow> any \<Rightarrow> PlanError option"
  and validate_fields :: "regexp \<Rightarrow> anymap \<Rightarrow> fields \<Rightarrow> PlanError option"
  and validate_items :: "regexp \<Rightarrow> anymap \<Rightarrow> nat \<Rightarrow> any list \<Rightarrow> PlanError option" where
  "ValidateJSON matches schema value =
     (if entries schema = [] \<or> isWholeReference value then None
      else or_else (check_enum schema value) (or_else (check_const schema value)
       (case types_of schema of
          [] \<Rightarrow> None
        | [t] \<Rightarrow> or_else
            (if t = ''object'' then
               (case as_map value of None \<Rightarrow> Some (Errorf ''expected object, got %T'' [value])
                | Some object \<Rightarrow> or_else (missing_required schema (entries object))
                    (validate_fields matches schema (entries object)))
             else if t = ''array'' then
               (case anySlice value of None \<Rightarrow> Some (Errorf ''expected array, got %T'' [value])
                | Some array \<Rightarrow> or_else (too_few_items schema array)
                    (case sub_map schema ''items'' of None \<Rightarrow> None
                     | Some items \<Rightarrow> validate_items matches items 0 array))
             else check_scalar matches t schema value)
            (check_minimum schema value)
        | t # u # ts \<Rightarrow> validate_union matches schema (t # u # ts) None value)))"
| "validate_union matches schema [] last_error value = last_error"
| "validate_union matches schema (t # ts) last_error value =
     (case ValidateJSON matches (with_type schema t) value of None \<Rightarrow> None
      | Some e \<Rightarrow> validate_union matches schema ts (Some e) value)"
| "validate_fields matches schema [] = None"
| "validate_fields matches schema ((key, child) # rest) =
     or_else
       (case sub_map (map_or_nil (sub_map schema ''properties'')) key of
          Some property \<Rightarrow> map_option (Wrapf ''property %q: %w'' [AStr key])
            (ValidateJSON matches property child)
        | None \<Rightarrow> if as_bool (lookup schema ''additionalProperties'') = Some False
            then Some (Errorf ''unknown property %q'' [AStr key]) else None)
       (validate_fields matches schema rest)"
| "validate_items matches items index [] = None"
| "validate_items matches items index (x # xs) =
     or_else (map_option (Wrapf ''item %d: %w'' [AFloat (f64_of_int (int index))])
         (ValidateJSON matches items x))
       (validate_items matches items (Suc index) xs)"
  by pat_completeness auto

termination
  by (relation "inv_image (less_than <*lex*> less_than <*lex*> less_than)
     (\<lambda>x. case x of
        Inl (Inl (_, schema, v)) \<Rightarrow> (asize v, if 1 < length (types_of schema) then 2 else 0, 0)
      | Inl (Inr (_, _, ts, _, v)) \<Rightarrow> (asize v, 1, length ts)
      | Inr (Inl (_, _, fs)) \<Rightarrow> (asize_fields fs, 3, length fs)
      | Inr (Inr (_, _, _, xs)) \<Rightarrow> (asize_list xs, 3, length xs))")
    (use types_with_type in \<open>auto dest: asize_as_map asize_anySlice simp: not_less [symmetric]\<close>)

declare ValidateJSON.simps [simp del]
declare validateBoundedInputSchema.simps [simp del]

lemma ValidateJSON_no_schema [simp]: "ValidateJSON matches None value = None"
  by (simp add: ValidateJSON.simps)

end
