(* ===== verification/Plan_References.thy ===== *)
theory Plan_References
  imports Plan_Schema
begin

text \<open>
  The static check of references (\<open>src/internal/plan/schema.go\<close>): the ancestors of every node, the
  references a value may contain, and the types a whole-value reference produces.
\<close>

section \<open>Ancestors\<close>

definition parents_map :: "Node list \<Rightarrow> (string, string list) gomap" where
  "parents_map ns = foldl (\<lambda>m n. gomap_put (nd_ID n) (nd_DependsOn n) m) [] ns"

text \<open>
  The recursive closure \<open>visit\<close>, with the calls still to make as an explicit list: a parent that was
  not seen is marked and its own parents come next.
\<close>

function visit :: "(string, string list) gomap \<Rightarrow> string list \<Rightarrow> string list \<Rightarrow> string list" where
  "visit parents [] seen = seen"
| "visit parents (p # ps) seen =
     (if p \<in> set seen then visit parents ps seen
      else visit parents (gomap_or parents p [] @ ps) (p # seen))"
  by pat_completeness auto

definition reachable_names :: "(string, string list) gomap \<Rightarrow> string list \<Rightarrow> string set" where
  "reachable_names parents ws = (\<Union>(k, ps) \<in> set parents. set ps) \<union> set ws"

lemma finite_reachable_names [simp]: "finite (reachable_names parents ws)"
  by (auto simp: reachable_names_def)

lemma parents_reachable: "set (gomap_or parents p []) \<subseteq> (\<Union>(k, ps) \<in> set parents. set ps)"
proof (cases "gomap_get parents p")
  case (Some ps)
  then have "(p, ps) \<in> set parents" by (rule map_of_SomeD)
  then show ?thesis using Some by (auto simp: gomap_or_def)
qed (simp add: gomap_or_def)

termination visit
proof (relation "inv_image (less_than <*lex*> less_than)
    (\<lambda>(parents, ws, seen). (card (reachable_names parents ws - set seen), length ws))", goal_cases)
  case 1
  show ?case by auto
next
  case (2 parents p ps seen)
  have "card (reachable_names parents ps - set seen) \<le> card (reachable_names parents (p # ps) - set seen)"
    by (rule card_mono) (auto simp: reachable_names_def)
  then show ?case by auto
next
  case (3 parents p ps seen)
  let ?ws = "gomap_or parents p [] @ ps"
  have sub: "reachable_names parents ?ws \<subseteq> reachable_names parents (p # ps)"
    using parents_reachable by (fastforce simp: reachable_names_def)
  have "card (reachable_names parents ?ws - set (p # seen)) <
      card (reachable_names parents (p # ps) - set seen)"
    by (rule psubset_card_mono) (use 3 sub in \<open>auto simp: reachable_names_def\<close>)
  then show ?case by simp
qed

definition graphAncestors :: "Document \<Rightarrow> (string, string list) gomap" where
  "graphAncestors doc =
     foldl (\<lambda>m n. gomap_put (nd_ID n)
         (visit (parents_map (doc_Nodes doc)) (gomap_or (parents_map (doc_Nodes doc)) (nd_ID n) []) []) m)
       [] (doc_Nodes doc)"

section \<open>References\<close>

text \<open>The first declared context delta of an ancestor wait with the given name.\<close>

fun find_delta :: "string list \<Rightarrow> string \<Rightarrow> Node list \<Rightarrow> ContextDelta option" where
  "find_delta ancestors name [] = None"
| "find_delta ancestors name (n # ns) =
     (case (if nd_ID n \<in> set ancestors then nd_Wait n else None) of
        None \<Rightarrow> find_delta ancestors name ns
      | Some w \<Rightarrow> (case find (\<lambda>d. cd_Name d = name) (wa_ContextDelta w) of
            Some d \<Rightarrow> Some d | None \<Rightarrow> find_delta ancestors name ns))"

definition referenceSchema :: "string \<Rightarrow> Document \<Rightarrow> Node \<Rightarrow> anymap option" where
  "referenceSchema reference doc node =
     (let parts = Split reference (CHR ''.'') in
      if length parts < 2 then None
      else if hd parts = ''input'' then
        (case nd_Wait node of None \<Rightarrow> None | Some w \<Rightarrow> schemaAt (wa_InputSchema w) (tl parts))
      else if hd parts = ''context'' then
        (case find_delta (gomap_or (graphAncestors doc) (nd_ID node) []) (parts ! 1) (doc_Nodes doc) of
           None \<Rightarrow> None
         | Some d \<Rightarrow> schemaAtOrSelf (cd_Schema d) (drop 2 parts))
      else None)"

definition strip_whole :: "string \<Rightarrow> string" where
  "strip_whole reference = (case pieces reference of [Ref r] \<Rightarrow> r | _ \<Rightarrow> reference)"

definition validateReference :: "string \<Rightarrow> Document \<Rightarrow> Node \<Rightarrow> (string, string list) gomap \<Rightarrow> bool \<Rightarrow>
    PlanError option" where
  "validateReference whole doc node ancestors allowItem =
     (let reference = strip_whole whole; parts = Split reference (CHR ''.'') in
      if length parts < 2 \<or> TrimSpace (parts ! 1) = []
      then Some (Errorf ''invalid interpolation reference %q'' [AStr reference])
      else if hd parts = ''vars'' then
        (if gomap_has (entries (doc_Variables doc)) (parts ! 1) then None
         else Some (Errorf ''variable %q is not declared'' [AStr (parts ! 1)]))
      else if hd parts = ''item'' then
        (if allowItem then None
         else Some (Errorf ''item reference %q is only valid inside forEach'' [AStr reference]))
      else if hd parts = ''nodes'' then
        (if length parts < 3 \<or> parts ! 1 \<notin> set (gomap_or ancestors (nd_ID node) [])
         then Some (Errorf ''node reference %q must target a declared dependency'' [AStr reference])
         else None)
      else if hd parts = ''input'' then
        (case nd_Wait node of
           None \<Rightarrow> Some (Errorf ''input reference %q is only valid in its wait context'' [AStr reference])
         | Some w \<Rightarrow> if schemaAt (wa_InputSchema w) (tl parts) = None
             then Some (Errorf ''input reference %q is not declared by the wait schema'' [AStr reference])
             else None)
      else if hd parts = ''context'' then
        (if referenceSchema reference doc node = None
         then Some (Errorf ''context reference %q has no declared dependency producer'' [AStr reference])
         else None)
      else Some (Errorf ''unknown interpolation root %q'' [AStr (hd parts)]))"

definition first_error :: "('a \<Rightarrow> PlanError option) \<Rightarrow> 'a list \<Rightarrow> PlanError option" where
  "first_error f xs = foldr (\<lambda>x rest. or_else (f x) rest) xs None"

lemma first_error_simps [simp]:
  "first_error f [] = None" "first_error f (x # xs) = or_else (f x) (first_error f xs)"
  by (simp_all add: first_error_def)

lemma first_error_None: "first_error f xs = None \<longleftrightarrow> (\<forall>x \<in> set xs. f x = None)"
  by (induction xs) auto

text \<open>The references that occur in a value, in the order in which they are checked.\<close>

fun refs_in :: "any \<Rightarrow> string list" and refs_in_list :: "any list \<Rightarrow> string list"
  and refs_in_fields :: "fields \<Rightarrow> string list" where
  "refs_in (AMap fs) = refs_in_fields fs"
| "refs_in (ASlice xs) = refs_in_list xs"
| "refs_in (AStr text) = refs (pieces text)"
| "refs_in _ = []"
| "refs_in_list [] = []"
| "refs_in_list (x # xs) = refs_in x @ refs_in_list xs"
| "refs_in_fields [] = []"
| "refs_in_fields ((k, v) # fs) = refs_in v @ refs_in_fields fs"

definition validateInterpolations :: "any \<Rightarrow> Document \<Rightarrow> Node \<Rightarrow> (string, string list) gomap \<Rightarrow>
    PlanError option" where
  "validateInterpolations value doc node ancestors =
     first_error (\<lambda>r. validateReference r doc node ancestors (nd_ForEach node \<noteq> None)) (refs_in value)"

section \<open>The types of references\<close>

definition producer_schema :: "(string, Capability) gomap \<Rightarrow> Node \<Rightarrow> anymap" where
  "producer_schema capabilities producer =
     (let output = (\<lambda>tool. case gomap_get capabilities tool of None \<Rightarrow> None | Some c \<Rightarrow> cp_OutputSchema c);
          acted = (case nd_Action producer of None \<Rightarrow> None | Some a \<Rightarrow> output (ac_Tool a))
      in case acted of Some fs \<Rightarrow> Some fs
         | None \<Rightarrow> (case nd_Validate producer of None \<Rightarrow> None | Some v \<Rightarrow> output (va_Tool v)))"

definition check_produced :: "string \<Rightarrow> anymap \<Rightarrow> anymap \<Rightarrow> PlanError option" where
  "check_produced typed produced schema =
     (if entries schema \<noteq> [] \<and> \<not> schemasCompatible produced schema
      then Some (Errorf ''reference %q produces %s but target expects %s''
        [AStr typed, AStr (schemaType produced), AStr (schemaType schema)]) else None)"

definition reference_type :: "string \<Rightarrow> string \<Rightarrow> anymap \<Rightarrow> Document \<Rightarrow> Node \<Rightarrow>
    (string, Capability) gomap \<Rightarrow> PlanError option" where
  "reference_type typed r schema doc node capabilities =
     (if HasPrefix r ''input.'' \<or> HasPrefix r ''context.'' then
        (case referenceSchema r doc node of
           None \<Rightarrow> Some (Errorf ''reference %q has no declared input or context producer'' [AStr typed])
         | Some produced \<Rightarrow> check_produced typed produced schema)
      else if \<not> HasPrefix r ''nodes.'' then None
      else let parts = Split r (CHR ''.'') in
        if length parts < 3 then None
        else case nodeByID doc (parts ! 1) of
               None \<Rightarrow> Some (Errorf ''producer node %q is not declared'' [AStr (parts ! 1)])
             | Some producer \<Rightarrow>
                 (let path = drop 2 parts;
                      path' = (if path \<noteq> [] \<and> hd path = ''output'' then tl path else path)
                  in case schemaAt (producer_schema capabilities producer) path' of
                       None \<Rightarrow> Some (Errorf ''reference %q has no typed producer output schema'' [AStr typed])
                     | Some produced \<Rightarrow> check_produced typed produced schema))"

text \<open>The walk over a value; \<open>check\<close> is the check of one whole-value reference against a schema.\<close>

fun walk_types :: "(string \<Rightarrow> string \<Rightarrow> anymap \<Rightarrow> PlanError option) \<Rightarrow> any \<Rightarrow> anymap \<Rightarrow> PlanError option"
  and walk_fields :: "(string \<Rightarrow> string \<Rightarrow> anymap \<Rightarrow> PlanError option) \<Rightarrow> fields \<Rightarrow> anymap \<Rightarrow> PlanError option"
  and walk_items :: "(string \<Rightarrow> string \<Rightarrow> anymap \<Rightarrow> PlanError option) \<Rightarrow> nat \<Rightarrow> any list \<Rightarrow> anymap \<Rightarrow>
    PlanError option" where
  "walk_types check (AMap fs) schema = walk_fields check fs (map_or_nil (sub_map schema ''properties''))"
| "walk_types check (ASlice xs) schema = walk_items check 0 xs (map_or_nil (sub_map schema ''items''))"
| "walk_types check (AStr typed) schema =
     (case pieces typed of [Ref r] \<Rightarrow> check typed r schema | _ \<Rightarrow> None)"
| "walk_types check _ schema = None"
| "walk_fields check [] properties = None"
| "walk_fields check ((key, child) # fs) properties =
     or_else (map_option (Wrapf ''property %q: %w'' [AStr key])
         (walk_types check child (map_or_nil (sub_map properties key))))
       (walk_fields check fs properties)"
| "walk_items check index [] items = None"
| "walk_items check index (child # xs) items =
     or_else (map_option (Wrapf ''item %d: %w'' [AFloat (f64_of_int (int index))])
         (walk_types check child items))
       (walk_items check (Suc index) xs items)"

definition walkReferenceTypes :: "any \<Rightarrow> anymap \<Rightarrow> Document \<Rightarrow> Node \<Rightarrow> (string, Capability) gomap \<Rightarrow>
    PlanError option" where
  "walkReferenceTypes value schema doc node caps =
     walk_types (\<lambda>typed r target. reference_type typed r target doc node caps) value schema"

definition validateReferenceTypes :: "anymap \<Rightarrow> anymap \<Rightarrow> Document \<Rightarrow> Node \<Rightarrow> (string, Capability) gomap \<Rightarrow>
    PlanError option" where
  "validateReferenceTypes args schema doc node caps =
     walkReferenceTypes (map_any args) schema doc node caps"

end
