(* ===== verification/Plan_Graph_Laws.thy ===== *)
theory Plan_Graph_Laws
  imports Plan_Graph
begin

text \<open>
  The graph algorithms meet their specification: the builder accepts exactly the documents with
  distinct ids and known, unrepeated dependencies, both orders decide acyclicity of the dependency
  relation, and the levels are a schedule.
\<close>

section \<open>Precedence relations\<close>

text \<open>
  A finite set of items with, for each, the items it must wait for. The items that can ever be
  scheduled are the accessible part of the relation; a set that only grows by items whose
  predecessors it contains, and that cannot grow any more, is exactly that part.
\<close>

locale precedence =
  fixes ids :: "'a set" and deps :: "'a \<Rightarrow> 'a set"
  assumes finite_ids: "finite ids" and deps_ids: "deps i \<subseteq> ids"
begin

definition rel :: "('a \<times> 'a) set" where
  "rel = {(d, i). i \<in> ids \<and> d \<in> deps i}"

definition schedulable :: "'a set" where
  "schedulable = ids \<inter> Wellfounded.acc rel"

definition closed :: "'a set \<Rightarrow> bool" where
  "closed R \<longleftrightarrow> (\<forall>i \<in> ids. deps i \<subseteq> R \<longrightarrow> i \<in> R)"

lemma grows:
  assumes "R \<subseteq> schedulable" and "X \<subseteq> ids" and "\<And>i. i \<in> X \<Longrightarrow> deps i \<subseteq> R"
  shows "R \<union> X \<subseteq> schedulable"
proof -
  have "i \<in> Wellfounded.acc rel" if "i \<in> X" for i
  proof (rule accI)
    show "d \<in> Wellfounded.acc rel" if "(d, i) \<in> rel" for d
      using that assms(1) assms(3) [OF \<open>i \<in> X\<close>] unfolding rel_def schedulable_def by blast
  qed
  then show ?thesis using assms(1,2) unfolding schedulable_def by blast
qed

lemma stuck:
  assumes "R \<subseteq> schedulable" and "closed R"
  shows "R = schedulable"
proof -
  have "i \<in> ids \<longrightarrow> i \<in> R" if "i \<in> Wellfounded.acc rel" for i
    using that
  proof (rule acc_induct)
    fix x
    assume "\<forall>y. (y, x) \<in> rel \<longrightarrow> y \<in> ids \<longrightarrow> y \<in> R"
    then show "x \<in> ids \<longrightarrow> x \<in> R"
      using assms(2) deps_ids [of x] unfolding closed_def rel_def by blast
  qed
  then show ?thesis using assms(1) unfolding schedulable_def by blast
qed

lemma finite_rel: "finite rel"
proof (rule finite_subset)
  show "rel \<subseteq> ids \<times> ids" using deps_ids by (auto simp: rel_def)
qed (simp add: finite_ids)

lemma all_schedulable: "schedulable = ids \<longleftrightarrow> acyclic rel"
proof
  assume all: "schedulable = ids"
  have "x \<in> Wellfounded.acc rel" for x
  proof (cases "x \<in> ids")
    case False
    then have "(y, x) \<notin> rel" for y by (simp add: rel_def)
    then show ?thesis by (rule accI [OF notE])
  qed (use all in \<open>simp add: schedulable_def, blast\<close>)
  then show "acyclic rel" by (blast intro: acc_wfI wf_acyclic)
next
  assume "acyclic rel"
  then have "wf rel" using finite_rel finite_acyclic_wf by blast
  then show "schedulable = ids" using acc_wfD by (fastforce simp: schedulable_def)
qed

end

section \<open>The dependency relation of a document\<close>

definition node_ids :: "Document \<Rightarrow> string set" where
  "node_ids doc = nd_ID ` set (doc_Nodes doc)"

definition deps_of :: "Document \<Rightarrow> string \<Rightarrow> string set" where
  "deps_of doc i =
     {d \<in> node_ids doc. \<exists>n \<in> set (doc_Nodes doc). nd_ID n = i \<and> d \<in> set (nd_DependsOn n)}"

interpretation plan: precedence "node_ids doc" "deps_of doc" for doc
  by unfold_locales (auto simp: node_ids_def deps_of_def)

definition dependency :: "Document \<Rightarrow> (string \<times> string) set" where
  "dependency doc = {(d, nd_ID n) | d n. n \<in> set (doc_Nodes doc) \<and> d \<in> set (nd_DependsOn n)}"

definition well_formed :: "Document \<Rightarrow> bool" where
  "well_formed doc \<longleftrightarrow> distinct (map nd_ID (doc_Nodes doc)) \<and>
     (\<forall>n \<in> set (doc_Nodes doc). distinct (nd_DependsOn n) \<and> set (nd_DependsOn n) \<subseteq> node_ids doc)"

lemma dependency_rel:
  assumes "well_formed doc"
  shows "plan.rel doc = dependency doc"
proof (intro equalityI subrelI)
  show "(d, i) \<in> dependency doc" if "(d, i) \<in> plan.rel doc" for d i
    using that unfolding plan.rel_def dependency_def deps_of_def by auto
next
  fix d i
  assume "(d, i) \<in> dependency doc"
  then obtain n where n: "n \<in> set (doc_Nodes doc)" "i = nd_ID n" "d \<in> set (nd_DependsOn n)"
    unfolding dependency_def by auto
  then have "d \<in> node_ids doc" using assms unfolding well_formed_def by auto
  then show "(d, i) \<in> plan.rel doc"
    using n unfolding plan.rel_def deps_of_def by (auto simp: node_ids_def)
qed

section \<open>The builder\<close>

definition graph_of :: "Node list \<Rightarrow> Node list \<Rightarrow> graphData \<Rightarrow> bool" where
  "graph_of all ns g \<longleftrightarrow>
     gr_nodes g = map (\<lambda>n. (nd_ID n, n)) all \<and>
     map fst (gr_indegree g) = map nd_ID all \<and>
     (\<forall>i \<in> nd_ID ` set all. gomap_or (gr_indegree g) i 0 =
        (\<Sum>n \<leftarrow> ns. if nd_ID n = i then int (length (nd_DependsOn n)) else 0)) \<and>
     (\<forall>d. gomap_or (gr_dependents g) d [] =
        concat (map (\<lambda>n. map (\<lambda>_. nd_ID n) (filter (\<lambda>x. x = d) (nd_DependsOn n))) ns))"

lemma add_nodes_ok:
  "add_nodes ns g = Inr g' \<longleftrightarrow>
     distinct (map nd_ID ns) \<and> (\<forall>n \<in> set ns. \<not> gomap_has (gr_nodes g) (nd_ID n)) \<and>
     g' = g\<lparr>gr_nodes := fold (\<lambda>n. gomap_put (nd_ID n) n) ns (gr_nodes g),
            gr_indegree := fold (\<lambda>n. gomap_put (nd_ID n) 0) ns (gr_indegree g)\<rparr>"
  by (induction ns arbitrary: g) (auto simp: image_iff)

lemma fold_put_fresh:
  "distinct (map f ns) \<Longrightarrow> \<forall>n \<in> set ns. gomap_get m (f n) = None \<Longrightarrow>
   fold (\<lambda>n. gomap_put (f n) (v n)) ns m = m @ map (\<lambda>n. (f n, v n)) ns"
proof (induction ns arbitrary: m)
  case (Cons n ns)
  then have "gomap_put (f n) (v n) m = m @ [(f n, v n)]" by (simp add: gomap_put_fresh)
  moreover have "\<forall>k \<in> set ns. gomap_get (m @ [(f n, v n)]) (f k) = None"
    using Cons.prems by (auto simp: map_add_def) (metis image_eqI)
  ultimately show ?case using Cons.IH [of "m @ [(f n, v n)]"] Cons.prems by simp
qed simp

lemma map_of_const0: "map_of (map (\<lambda>n. (f n, 0 :: int)) ns) i = (if i \<in> f ` set ns then Some 0 else None)"
  by (induction ns) auto

lemma add_nodes_start:
  "add_nodes ns \<lparr>gr_nodes = [], gr_indegree = [], gr_dependents = []\<rparr> = Inr g \<longleftrightarrow>
     distinct (map nd_ID ns) \<and>
     g = \<lparr>gr_nodes = map (\<lambda>n. (nd_ID n, n)) ns, gr_indegree = map (\<lambda>n. (nd_ID n, 0)) ns,
          gr_dependents = []\<rparr>"
  using fold_put_fresh [of nd_ID ns "[]" "\<lambda>n. n"] fold_put_fresh [of nd_ID ns "[]" "\<lambda>n. 0"]
  by (auto simp: add_nodes_ok)

lemma put_same_keys:
  "gomap_has m k \<Longrightarrow> map fst (gomap_put k v m) = map fst m"
  by (induction m) auto

lemma gomap_or_put [simp]: "gomap_or (gomap_put k v m) k' z = (if k' = k then v else gomap_or m k' z)"
  by (simp add: gomap_or_def)

lemma add_edge_simps [simp]:
  "gr_nodes (add_edge i d g) = gr_nodes g"
  "gomap_or (gr_indegree (add_edge i d g)) j 0 =
     gomap_or (gr_indegree g) j 0 + (if j = i then 1 else 0)"
  "gomap_or (gr_dependents (add_edge i d g)) e [] =
     gomap_or (gr_dependents g) e [] @ (if e = d then [i] else [])"
  "gomap_has (gr_indegree g) i \<Longrightarrow> map fst (gr_indegree (add_edge i d g)) = map fst (gr_indegree g)"
  by (auto simp: add_edge_def put_same_keys)

lemma has_iff: "gomap_has m k \<longleftrightarrow> k \<in> set (map fst m)"
  by (auto simp: map_of_eq_None_iff)

lemma add_dependencies_error:
  "(\<exists>e. add_dependencies i ds seen g = Inl e) \<longleftrightarrow>
     \<not> (distinct ds \<and> set ds \<inter> set seen = {} \<and> set ds \<subseteq> fst ` set (gr_nodes g))"
  by (induction ds arbitrary: seen g) (auto simp: map_of_eq_None_iff)

lemma add_dependencies_ok:
  "add_dependencies i ds seen g = Inr g' \<Longrightarrow> gomap_has (gr_indegree g) i \<Longrightarrow>
   gr_nodes g' = gr_nodes g \<and> map fst (gr_indegree g') = map fst (gr_indegree g) \<and>
   (\<forall>j. gomap_or (gr_indegree g') j 0 =
      gomap_or (gr_indegree g) j 0 + (if j = i then int (length ds) else 0)) \<and>
   (\<forall>e. gomap_or (gr_dependents g') e [] =
      gomap_or (gr_dependents g) e [] @ map (\<lambda>_. i) (filter (\<lambda>x. x = e) ds))"
proof (induction ds arbitrary: seen g)
  case (Cons d ds)
  have "gomap_has (gr_indegree (add_edge i d g)) i"
    using Cons.prems(2) by (simp add: add_edge_def)
  then show ?case
    using Cons.IH [of "d # seen" "add_edge i d g"] Cons.prems by (auto split: if_splits)
qed simp

lemma graph_of_step:
  assumes "graph_of all ns g" and "add_dependencies (nd_ID n) (nd_DependsOn n) [] g = Inr g'"
    and "n \<in> set all"
  shows "graph_of all (ns @ [n]) g'"
proof -
  have "gomap_has (gr_indegree g) (nd_ID n)"
    using assms(1,3) unfolding has_iff by (simp add: graph_of_def)
  note ok = add_dependencies_ok [OF assms(2) this]
  show ?thesis
    using assms(1) ok unfolding graph_of_def by (auto simp: if_distrib)
qed

lemma add_edges_ok:
  "graph_of all done g \<Longrightarrow> set ns \<subseteq> set all \<Longrightarrow> add_edges ns g = Inr g' \<Longrightarrow>
   graph_of all (done @ ns) g'"
proof (induction ns arbitrary: g "done")
  case (Cons n ns)
  then show ?case
    using graph_of_step [of all "done" g n] by (fastforce split: sum.splits)
qed simp

lemma add_edges_error:
  "graph_of all done g \<Longrightarrow> set ns \<subseteq> set all \<Longrightarrow>
   (\<exists>e. add_edges ns g = Inl e) \<longleftrightarrow>
   \<not> (\<forall>n \<in> set ns. distinct (nd_DependsOn n) \<and> set (nd_DependsOn n) \<subseteq> nd_ID ` set all)"
proof (induction ns arbitrary: g "done")
  case (Cons n ns)
  have keys: "fst ` set (gr_nodes g) = nd_ID ` set all"
    using Cons.prems(1) by (auto simp: graph_of_def image_iff)
  show ?case
  proof (cases "add_dependencies (nd_ID n) (nd_DependsOn n) [] g")
    case (Inl e)
    then show ?thesis
      using add_dependencies_error [of "nd_ID n" "nd_DependsOn n" "[]" g] keys by auto
  next
    case (Inr g')
    then show ?thesis
      using add_dependencies_error [of "nd_ID n" "nd_DependsOn n" "[]" g] keys
        Cons.IH [OF graph_of_step [OF Cons.prems(1) Inr]] Cons.prems(2) by auto
  qed
qed simp

lemma graph_of_start:
  "graph_of ns [] \<lparr>gr_nodes = map (\<lambda>n. (nd_ID n, n)) ns, gr_indegree = map (\<lambda>n. (nd_ID n, 0)) ns,
     gr_dependents = []\<rparr>"
  by (auto simp: graph_of_def gomap_or_def map_of_const0)

lemma buildGraph_cases:
  "distinct (map nd_ID (doc_Nodes doc)) \<Longrightarrow>
   buildGraph doc = add_edges (doc_Nodes doc) \<lparr>gr_nodes = map (\<lambda>n. (nd_ID n, n)) (doc_Nodes doc),
       gr_indegree = map (\<lambda>n. (nd_ID n, 0)) (doc_Nodes doc), gr_dependents = []\<rparr>"
  using add_nodes_start [THEN iffD2, OF conjI [OF _ refl], of "doc_Nodes doc"]
  by (simp add: buildGraph_def)

lemma buildGraph_distinct: "buildGraph doc = Inr g \<Longrightarrow> distinct (map nd_ID (doc_Nodes doc))"
  using add_nodes_start [of "doc_Nodes doc"] by (auto simp: buildGraph_def split: sum.splits)

lemma buildGraph_ok: "buildGraph doc = Inr g \<Longrightarrow> graph_of (doc_Nodes doc) (doc_Nodes doc) g"
  using add_edges_ok [OF graph_of_start subset_refl, of "doc_Nodes doc" g]
    buildGraph_distinct [of doc g] buildGraph_cases [of doc] by simp

lemma buildGraph_accepts: "(\<exists>g. buildGraph doc = Inr g) \<longleftrightarrow> well_formed doc"
proof (cases "distinct (map nd_ID (doc_Nodes doc))")
  case True
  have "(\<exists>g. buildGraph doc = Inr g) \<longleftrightarrow> \<not> (\<exists>e. buildGraph doc = Inl e)"
    by (cases "buildGraph doc") auto
  then show ?thesis
    using True add_edges_error [OF graph_of_start subset_refl, of "doc_Nodes doc"]
      buildGraph_cases [OF True]
    by (simp add: well_formed_def node_ids_def)
next
  case False
  then show ?thesis using buildGraph_distinct [of doc] by (auto simp: well_formed_def)
qed

end
