(* ===== verification/Plan_Schedule.thy ===== *)
theory Plan_Schedule
  imports Plan_Graph_Laws "HOL-Library.Multiset"
begin

text \<open>
  What the two graph algorithms compute: the queue algorithm counts the schedulable nodes, the level
  algorithm lists them in maximal levels, and both succeed exactly on acyclic documents.
\<close>

section \<open>The graph as sets\<close>

definition graph_spec :: "Document \<Rightarrow> graphData \<Rightarrow> bool" where
  "graph_spec doc g \<longleftrightarrow>
     gr_nodes g = map (\<lambda>n. (nd_ID n, n)) (doc_Nodes doc) \<and>
     distinct (map fst (gr_indegree g)) \<and> set (map fst (gr_indegree g)) = node_ids doc \<and>
     (\<forall>i \<in> node_ids doc. gomap_or (gr_indegree g) i 0 = int (card (deps_of doc i))) \<and>
     (\<forall>d. distinct (gomap_or (gr_dependents g) d []) \<and>
        set (gomap_or (gr_dependents g) d []) = {i \<in> node_ids doc. d \<in> deps_of doc i})"

lemma sum_list_none:
  "k \<notin> f ` set ns \<Longrightarrow> (\<Sum>x \<leftarrow> ns. if f x = k then h x else (0 :: int)) = 0"
  by (induction ns) auto

lemma sum_list_one:
  "distinct (map f ns) \<Longrightarrow> n \<in> set ns \<Longrightarrow>
   (\<Sum>x \<leftarrow> ns. if f x = f n then h x else (0 :: int)) = h n"
  by (induction ns) (auto simp: sum_list_none)

lemma deps_of_node:
  assumes "well_formed doc" and "n \<in> set (doc_Nodes doc)"
  shows "deps_of doc (nd_ID n) = set (nd_DependsOn n)"
proof -
  have "m = n" if "m \<in> set (doc_Nodes doc)" "nd_ID m = nd_ID n" for m
    using assms that unfolding well_formed_def distinct_map by (auto dest: inj_onD)
  then show ?thesis
    using assms unfolding deps_of_def well_formed_def by blast
qed

lemma concat_singletons:
  "distinct ds \<Longrightarrow> map (\<lambda>_. i) (filter (\<lambda>x. x = d) ds) = (if d \<in> set ds then [i] else [])"
  by (induction ds) (auto simp: filter_empty_conv)

lemma dependents_list:
  "\<forall>n \<in> set ns. distinct (nd_DependsOn n) \<Longrightarrow>
   concat (map (\<lambda>n. map (\<lambda>_. nd_ID n) (filter (\<lambda>x. x = d) (nd_DependsOn n))) ns) =
   map nd_ID (filter (\<lambda>n. d \<in> set (nd_DependsOn n)) ns)"
  by (induction ns) (auto simp: concat_singletons)

lemma graph_of_spec:
  assumes "well_formed doc" and "graph_of (doc_Nodes doc) (doc_Nodes doc) g"
  shows "graph_spec doc g"
proof -
  have distinct: "distinct (map nd_ID (doc_Nodes doc))"
    and deps: "\<forall>n \<in> set (doc_Nodes doc). distinct (nd_DependsOn n)"
    using assms(1) by (auto simp: well_formed_def)
  have "gomap_or (gr_indegree g) (nd_ID n) 0 = int (card (deps_of doc (nd_ID n)))"
    if n: "n \<in> set (doc_Nodes doc)" for n
    using assms n sum_list_one [OF distinct n, of "\<lambda>n. int (length (nd_DependsOn n))"] deps
    by (simp add: graph_of_def deps_of_node distinct_card)
  moreover have "set (map nd_ID (filter (\<lambda>n. d \<in> set (nd_DependsOn n)) (doc_Nodes doc))) =
      {i \<in> node_ids doc. d \<in> deps_of doc i}" for d
    using deps_of_node [OF assms(1)] by (auto simp: node_ids_def)
  moreover have "distinct (map nd_ID (filter (\<lambda>n. d \<in> set (nd_DependsOn n)) (doc_Nodes doc)))" for d
    using distinct by (simp add: distinct_map inj_on_def)
  ultimately show ?thesis
    using assms distinct dependents_list [OF deps]
    by (simp add: graph_spec_def graph_of_def node_ids_def)
qed

lemma buildGraph_spec: "buildGraph doc = Inr g \<Longrightarrow> graph_spec doc g"
  using buildGraph_accepts buildGraph_ok graph_of_spec by blast

section \<open>Counting down\<close>

lemma gomap_or_decrement [simp]:
  "gomap_or (decrement d m) i 0 = gomap_or m i 0 - (if i = d then 1 else 0)"
  by (simp add: decrement_def)

lemma gomap_or_fold_decrement:
  "gomap_or (fold decrement xs m) i 0 = gomap_or m i 0 - int (count_list xs i)"
  by (induction xs arbitrary: m) auto

lemma keys_fold_decrement:
  "set xs \<subseteq> set (map fst m) \<Longrightarrow> map fst (fold decrement xs m) = map fst m"
proof (induction xs arbitrary: m)
  case (Cons x xs)
  have "map fst (decrement x m) = map fst m"
    unfolding decrement_def using Cons.prems by (intro put_same_keys) (auto simp: map_of_eq_None_iff)
  then show ?case using Cons.prems Cons.IH [of "decrement x m"] by (metis fold_simps(2) list.set_intros(2) set_map subset_iff)
qed simp

lemma fold_del_filter: "fold gomap_del xs m = filter (\<lambda>(k, v). k \<notin> set xs) m"
proof (induction xs arbitrary: m)
  case (Cons x xs)
  then show ?case by (auto simp: gomap_del_filter filter_filter intro!: filter_cong)
qed simp

lemma gomap_or_get: "k \<in> set (map fst m) \<Longrightarrow> gomap_get m k = Some (gomap_or m k z)"
  using has_iff [of m k] by (auto simp: gomap_or_def)

lemma zero_degree_set:
  "distinct (map fst m) \<Longrightarrow>
   set (zero_degree m) = {i \<in> set (map fst m). gomap_or m i 0 = 0} \<and> distinct (zero_degree m)"
proof -
  assume wf: "distinct (map fst m)"
  have "i \<in> fst ` {kv \<in> set m. snd kv = 0} \<longleftrightarrow> i \<in> fst ` set m \<and> gomap_or m i 0 = 0" for i
    using wf by (force simp: gomap_or_def)
  moreover have "distinct (map fst (filter (\<lambda>(i, degree). degree = 0) m))"
    using wf by (rule distinct_map_filter)
  ultimately show ?thesis by (auto simp: zero_degree_def case_prod_beta)
qed

section \<open>The level algorithm\<close>

definition ready :: "Document \<Rightarrow> string set \<Rightarrow> string set" where
  "ready doc R = {i \<in> node_ids doc. i \<notin> R \<and> deps_of doc i \<subseteq> R}"

text \<open>A list of levels, each of which holds all nodes that are ready after the ones before it.\<close>

fun scheduled :: "Document \<Rightarrow> string set \<Rightarrow> Node list list \<Rightarrow> bool" where
  "scheduled doc R [] = (node_ids doc \<subseteq> R)"
| "scheduled doc R (l # ls) =
     (set l \<subseteq> set (doc_Nodes doc) \<and> distinct (map nd_ID l) \<and> nd_ID ` set l = ready doc R \<and>
      scheduled doc (R \<union> ready doc R) ls)"

definition counts :: "Document \<Rightarrow> string set \<Rightarrow> (string, int) gomap \<Rightarrow> bool" where
  "counts doc R m \<longleftrightarrow> distinct (map fst m) \<and> set (map fst m) = node_ids doc - R \<and>
     (\<forall>i \<in> node_ids doc - R. gomap_or m i 0 = int (card (deps_of doc i - R))) \<and>
     (\<forall>i \<in> R. deps_of doc i \<subseteq> R)"

lemma finite_deps [simp]: "finite (deps_of doc i)"
  by (simp add: deps_of_def node_ids_def)

lemma counts_ready:
  assumes "counts doc R m"
  shows "set (zero_degree m) = ready doc R" and "distinct (zero_degree m)"
proof -
  have "card (deps_of doc i - R) = 0 \<longleftrightarrow> deps_of doc i \<subseteq> R" for i by auto
  then show "set (zero_degree m) = ready doc R"
    using assms zero_degree_set [of m] by (auto simp: counts_def ready_def)
qed (use assms zero_degree_set in \<open>simp add: counts_def\<close>)

lemma count_list_distinct: "distinct xs \<Longrightarrow> count_list xs i = (if i \<in> set xs then 1 else 0)"
  by (induction xs) auto

lemma count_concat_dependents:
  assumes "graph_spec doc g" and "distinct is" and "i \<in> node_ids doc"
  shows "count_list (concat (map (\<lambda>d. gomap_or (gr_dependents g) d []) is)) i =
    card (deps_of doc i \<inter> set is)"
  using assms(2)
proof (induction "is")
  case (Cons d "is")
  have "distinct (gomap_or (gr_dependents g) d [])"
    and "set (gomap_or (gr_dependents g) d []) = {i \<in> node_ids doc. d \<in> deps_of doc i}"
    using assms(1) by (simp_all add: graph_spec_def)
  then have "count_list (gomap_or (gr_dependents g) d []) i = (if d \<in> deps_of doc i then 1 else 0)"
    using assms(3) by (simp add: count_list_distinct)
  then show ?case using Cons by (simp add: Int_insert_right)
qed simp

lemma counts_step:
  assumes "graph_spec doc g" and "counts doc R m" and "is = zero_degree m"
  shows "counts doc (R \<union> ready doc R)
    (fold decrement (concat (map (\<lambda>i. gomap_or (gr_dependents g) i []) is)) (fold gomap_del is m))"
proof -
  let ?xs = "concat (map (\<lambda>i. gomap_or (gr_dependents g) i []) is)"
  let ?m = "fold gomap_del is m"
  let ?R = "R \<union> ready doc R"
  have "is": "set is = ready doc R" "distinct is" using counts_ready [OF assms(2)] assms(3) by auto
  have m: "distinct (map fst m)" "fst ` set m = node_ids doc - R"
    "\<And>i. i \<in> node_ids doc - R \<Longrightarrow> gomap_or m i 0 = int (card (deps_of doc i - R))"
    "\<And>i. i \<in> R \<Longrightarrow> deps_of doc i \<subseteq> R"
    using assms(2) by (simp_all add: counts_def)
  have "fst ` set ?m = fst ` set m - set is" by (force simp: fold_del_filter)
  then have keys: "set (map fst ?m) = node_ids doc - ?R" using m(2) "is"(1) by auto
  have xs: "set ?xs \<subseteq> set (map fst ?m)"
  proof
    fix i assume "i \<in> set ?xs"
    then obtain d where "d \<in> ready doc R" "i \<in> node_ids doc" "d \<in> deps_of doc i"
      using assms(1) "is"(1) by (auto simp: graph_spec_def)
    then show "i \<in> set (map fst ?m)" unfolding keys using m(4) by (auto simp: ready_def)
  qed
  have "gomap_or (fold decrement ?xs ?m) i 0 = int (card (deps_of doc i - ?R))"
    if i: "i \<in> node_ids doc - ?R" for i
  proof -
    have "gomap_or ?m i 0 = gomap_or m i 0"
      using i "is"(1) m(1) by (simp add: gomap_or_def fold_del_filter gomap_get_filter wf_gomap_def
          split: option.splits)
    moreover have "deps_of doc i - R = (deps_of doc i - ?R) \<union> (deps_of doc i \<inter> ready doc R)"
      by (auto simp: ready_def)
    then have "card (deps_of doc i - R) =
        card (deps_of doc i - ?R) + card (deps_of doc i \<inter> ready doc R)"
      by (subst card_Un_disjoint [symmetric]) auto
    ultimately show ?thesis
      using count_concat_dependents [OF assms(1) "is"(2), of i] "is"(1) m(3) [of i] i
      by (simp add: gomap_or_fold_decrement)
  qed
  moreover have "distinct (map fst ?m)"
    using m(1) by (simp add: fold_del_filter distinct_map_filter)
  moreover have "\<forall>i \<in> ?R. deps_of doc i \<subseteq> ?R" using m(4) unfolding ready_def by blast
  moreover have "map fst (fold decrement ?xs ?m) = map fst ?m" by (rule keys_fold_decrement [OF xs])
  ultimately show ?thesis using keys unfolding counts_def by auto
qed

lemma level_nodes:
  assumes "graph_spec doc g" and "well_formed doc" and "set is \<subseteq> node_ids doc" and "distinct is"
  shows "map nd_ID (map (node_or_zero (gr_nodes g)) is) = is"
    and "set (map (node_or_zero (gr_nodes g)) is) \<subseteq> set (doc_Nodes doc)"
proof -
  have "node_or_zero (gr_nodes g) i \<in> set (doc_Nodes doc) \<and> nd_ID (node_or_zero (gr_nodes g) i) = i"
    if i: "i \<in> set is" for i
  proof -
    obtain n where "n \<in> set (doc_Nodes doc)" "nd_ID n = i"
      using i assms(3) unfolding node_ids_def by blast
    then have "gomap_get (map (\<lambda>n. (nd_ID n, n)) (doc_Nodes doc)) i = Some n"
      using assms(2) by (intro map_of_is_SomeI) (auto simp: well_formed_def comp_def)
    then show ?thesis
      using assms(1) \<open>n \<in> set (doc_Nodes doc)\<close> \<open>nd_ID n = i\<close>
      by (simp add: node_or_zero_def gomap_or_def graph_spec_def)
  qed
  then show "map nd_ID (map (node_or_zero (gr_nodes g)) is) = is"
    and "set (map (node_or_zero (gr_nodes g)) is) \<subseteq> set (doc_Nodes doc)"
    by (auto simp: map_idI)
qed

lemma finite_node_ids [simp]: "finite (node_ids doc)"
  by (simp add: node_ids_def)

lemma ready_stuck:
  assumes "R \<subseteq> plan.schedulable doc" and "ready doc R = {}"
  shows "R = plan.schedulable doc"
  using assms by (intro plan.stuck) (auto simp: plan.closed_def ready_def)

lemma ready_grows:
  assumes "R \<subseteq> plan.schedulable doc"
  shows "R \<union> ready doc R \<subseteq> plan.schedulable doc"
  using assms by (intro plan.grows) (auto simp: ready_def)

lemma schedulable_ids: "plan.schedulable doc \<subseteq> node_ids doc"
  by (auto simp: plan.schedulable_def)

lemma levels_loop_spec:
  assumes "well_formed doc"
  shows "graph_spec doc g \<Longrightarrow> counts doc R m \<Longrightarrow> R \<subseteq> plan.schedulable doc \<Longrightarrow>
    remaining = card (node_ids doc - R) \<Longrightarrow>
    (case levels_loop g m remaining levels of
       Inl e \<Rightarrow> e = cycle_error \<and> plan.schedulable doc \<noteq> node_ids doc
     | Inr out \<Rightarrow> plan.schedulable doc = node_ids doc \<and>
         (\<exists>ls. out = levels @ ls \<and> scheduled doc R ls))"
proof (induction g m remaining levels arbitrary: R rule: levels_loop.induct)
  case (1 g m remaining levels)
  let ?is = "zero_degree m"
  note ready = counts_ready [OF 1(3)]
  consider (finished) "remaining = 0" | (stuck) "remaining \<noteq> 0" "?is = []" | (more) "remaining \<noteq> 0" "?is \<noteq> []"
    by blast
  then show ?case
  proof cases
    case finished
    then have "node_ids doc \<subseteq> R" using 1(5) by auto
    moreover have "levels_loop g m remaining levels = Inr levels"
      using finished by (subst levels_loop.simps) simp
    ultimately show ?thesis using 1(4) schedulable_ids [of doc] by auto
  next
    case stuck
    then have "R = plan.schedulable doc" using ready_stuck [OF 1(4)] ready by simp
    moreover have "levels_loop g m remaining levels = Inl cycle_error"
      using stuck by (subst levels_loop.simps) simp
    ultimately show ?thesis using stuck(1) 1(5) by auto
  next
    case more
    let ?xs = "concat (map (\<lambda>i. gomap_or (gr_dependents g) i []) ?is)"
    let ?level = "map (node_or_zero (gr_nodes g)) ?is"
    have "node_ids doc - R = (node_ids doc - (R \<union> ready doc R)) \<union> ready doc R"
      by (auto simp: ready_def)
    then have "card (node_ids doc - R) = card (node_ids doc - (R \<union> ready doc R)) + length ?is"
      using ready distinct_card [OF ready(2)]
      by (subst card_Un_disjoint [symmetric, of _ "ready doc R", THEN trans [rotated]])
        (auto simp: ready_def)
    then have rest: "remaining - length ?is = card (node_ids doc - (R \<union> ready doc R))"
      using 1(5) by simp
    have level: "set ?level \<subseteq> set (doc_Nodes doc)" "map nd_ID ?level = ?is"
      using level_nodes [OF 1(2) assms, of ?is] ready by (auto simp: ready_def)
    then have ids: "distinct (map nd_ID ?level)" "nd_ID ` set ?level = ready doc R"
      using ready by (simp_all flip: set_map)
    have step: "levels_loop g m remaining levels = levels_loop g
        (fold decrement ?xs (fold gomap_del ?is m)) (remaining - length ?is) (levels @ [?level])"
      using more by (simp add: levels_loop.simps [of g m remaining levels] Let_def)
    show ?thesis
      using 1(1) [OF more(1) refl more(2) 1(2) counts_step [OF 1(2,3) refl] ready_grows [OF 1(4)] rest]
        level(1) ids
      unfolding step by (auto split: sum.splits)
  qed
qed

section \<open>The queue algorithm\<close>

definition queue_inv :: "Document \<Rightarrow> string set \<Rightarrow> (string, int) gomap \<Rightarrow> string list \<Rightarrow> bool" where
  "queue_inv doc P m queue \<longleftrightarrow> P \<subseteq> plan.schedulable doc \<and> distinct queue \<and>
     set queue = ready doc P \<and> (\<forall>i \<in> P. deps_of doc i \<subseteq> P) \<and>
     (\<forall>i \<in> node_ids doc. gomap_or m i 0 = int (card (deps_of doc i - P)))"

lemma release_dependents_filter:
  "distinct ds \<Longrightarrow> release_dependents ds m queue =
     (fold decrement ds m, queue @ filter (\<lambda>d. gomap_or m d 0 = 1) ds)"
proof (induction ds arbitrary: m queue)
  case (Cons d ds)
  have "filter (\<lambda>e. gomap_or (decrement d m) e 0 = 1) ds = filter (\<lambda>e. gomap_or m e 0 = 1) ds"
    using Cons.prems by (intro filter_cong) auto
  then show ?case using Cons by (simp add: Let_def)
qed simp

lemma card_minus_insert:
  "finite A \<Longrightarrow> x \<in> A \<Longrightarrow> x \<notin> B \<Longrightarrow> card (A - B) = Suc (card (A - insert x B))"
  by (metis Diff_iff Diff_insert card_Suc_Diff1 finite_Diff)

lemma card_one: "finite A \<Longrightarrow> x \<in> A \<Longrightarrow> card A = 1 \<longleftrightarrow> A \<subseteq> {x}"
  by (auto simp: card_1_singleton_iff)

lemma queue_step:
  assumes "graph_spec doc g" and "queue_inv doc P m (i # queue)"
    and "release_dependents (gomap_or (gr_dependents g) i []) m queue = (m', queue')"
  shows "queue_inv doc (insert i P) m' queue'" and "i \<in> plan.schedulable doc" and "i \<notin> P"
proof -
  let ?ds = "gomap_or (gr_dependents g) i []"
  have ds: "distinct ?ds" "set ?ds = {j \<in> node_ids doc. i \<in> deps_of doc j}"
    using assms(1) by (simp_all add: graph_spec_def)
  have q: "P \<subseteq> plan.schedulable doc" "distinct (i # queue)" "set (i # queue) = ready doc P"
    "\<And>j. j \<in> P \<Longrightarrow> deps_of doc j \<subseteq> P"
    "\<And>j. j \<in> node_ids doc \<Longrightarrow> gomap_or m j 0 = int (card (deps_of doc j - P))"
    using assms(2) by (simp_all add: queue_inv_def)
  have i: "i \<in> node_ids doc" "i \<notin> P" "deps_of doc i \<subseteq> P" using q(3) by (auto simp: ready_def)
  have m': "m' = fold decrement ?ds m" "queue' = queue @ filter (\<lambda>d. gomap_or m d 0 = 1) ?ds"
    using assms(3) release_dependents_filter [OF ds(1)] by simp_all
  have "gomap_or m' j 0 = int (card (deps_of doc j - insert i P))" if j: "j \<in> node_ids doc" for j
  proof -
    have "gomap_or m' j 0 =
        int (card (deps_of doc j - P)) - (if i \<in> deps_of doc j then 1 else 0)"
      using count_list_distinct [OF ds(1), of j] unfolding ds(2) m'(1) gomap_or_fold_decrement
      by (simp add: q(5) [OF j] j)
    moreover have "deps_of doc j - insert i P = deps_of doc j - P" if "i \<notin> deps_of doc j"
      using that by blast
    ultimately show ?thesis
      using card_minus_insert [OF finite_deps _ i(2), of doc j] by (cases "i \<in> deps_of doc j") simp_all
  qed
  moreover have one: "gomap_or m j 0 = 1 \<longleftrightarrow> deps_of doc j \<subseteq> insert i P" if "j \<in> set ?ds" for j
    using that q(5) [of j] ds(2) i(2) card_one [of "deps_of doc j - P" i] by auto
  have new: "set (filter (\<lambda>d. gomap_or m d 0 = 1) ?ds) = {j \<in> set ?ds. deps_of doc j \<subseteq> insert i P}"
    using one by auto
  moreover have "set queue' = ready doc (insert i P)"
  proof -
    have "i \<notin> deps_of doc j" if "j \<in> P" for j using q(4) [OF that] i(2) by auto
    then show ?thesis
      using q(2,3) i new unfolding m'(2) set_append ds(2) ready_def by auto
  qed
  moreover have "distinct queue'"
    using q(2,3) ds new i(2) by (auto simp: m'(2) ready_def)
  moreover have "insert i P \<subseteq> plan.schedulable doc"
    using ready_grows [OF q(1)] q(3) by auto
  moreover have "\<forall>j \<in> insert i P. deps_of doc j \<subseteq> insert i P" using q(4) i(3) by blast
  ultimately show "queue_inv doc (insert i P) m' queue'"
    unfolding queue_inv_def by blast
  show "i \<in> plan.schedulable doc" "i \<notin> P" using ready_grows [OF q(1)] q(3) i(2) by auto
qed

lemma process_queue_spec:
  "graph_spec doc g \<Longrightarrow> queue_inv doc P m queue \<Longrightarrow>
   process_queue (gr_dependents g) m queue processed = processed + card (plan.schedulable doc - P)"
proof (induction "gr_dependents g" m queue processed arbitrary: P rule: process_queue.induct)
  case (1 m processed)
  then have "P = plan.schedulable doc" by (intro ready_stuck) (auto simp: queue_inv_def)
  then show ?case by simp
next
  case (2 m i queue processed)
  obtain m' queue' where rel: "release_dependents (gomap_or (gr_dependents g) i []) m queue = (m', queue')"
    by fastforce
  note step = queue_step [OF 2(2,3) rel]
  have "card (plan.schedulable doc - P) = Suc (card (plan.schedulable doc - insert i P))"
    using step(2,3) finite_subset [OF schedulable_ids] by (intro card_minus_insert) auto
  then show ?case using 2(1) [OF rel [symmetric] refl 2(2) step(1)] rel by simp
qed

section \<open>The contract of the graph\<close>

lemma ready_start:
  assumes "graph_spec doc g"
  shows "queue_inv doc {} (gr_indegree g) (zero_degree (gr_indegree g))"
    and "counts doc {} (gr_indegree g)"
proof -
  show counts: "counts doc {} (gr_indegree g)" using assms by (simp add: graph_spec_def counts_def)
  then show "queue_inv doc {} (gr_indegree g) (zero_degree (gr_indegree g))"
    using counts_ready [OF counts] assms by (simp add: queue_inv_def graph_spec_def)
qed

lemma card_node_ids: "well_formed doc \<Longrightarrow> card (node_ids doc) = length (doc_Nodes doc)"
  unfolding node_ids_def well_formed_def by (metis distinct_card length_map set_map)

lemma graph_nodes_length: "graph_spec doc g \<Longrightarrow> length (gr_nodes g) = length (doc_Nodes doc)"
  by (simp add: graph_spec_def)

lemma validate_schedulable:
  assumes "buildGraph doc = Inr g"
  shows "ValidateGraph doc = None \<longleftrightarrow> plan.schedulable doc = node_ids doc"
proof -
  have wf: "well_formed doc" and g: "graph_spec doc g"
    using assms buildGraph_accepts buildGraph_spec by blast+
  have "card (plan.schedulable doc) = card (node_ids doc) \<longleftrightarrow> plan.schedulable doc = node_ids doc"
    using card_subset_eq [OF finite_node_ids schedulable_ids] by auto
  then show ?thesis
    using assms process_queue_spec [OF g ready_start(1) [OF g], of 0]
    by (simp add: ValidateGraph_def graph_nodes_length [OF g] card_node_ids [OF wf])
qed

lemma graph_accepted:
  assumes "well_formed doc" and "acyclic (dependency doc)"
  shows "ValidateGraph doc = None"
proof -
  obtain g where "buildGraph doc = Inr g" using assms(1) buildGraph_accepts by blast
  then show ?thesis
    using assms validate_schedulable plan.all_schedulable [of doc] dependency_rel by simp
qed

text \<open>
  C37: a plan graph is accepted exactly when it can be scheduled. \<open>ValidateGraph\<close> reports no error if
  and only if the node ids are distinct, every node names known nodes and none twice, and the
  dependency relation of the document has no cycle.
\<close>

theorem validate_graph_exact:
  "ValidateGraph doc = None \<longleftrightarrow> well_formed doc \<and> acyclic (dependency doc)"
proof (cases "buildGraph doc")
  case (Inl e)
  then show ?thesis using buildGraph_accepts [of doc] by (simp add: ValidateGraph_def well_formed_def)
next
  case (Inr g)
  then have wf: "well_formed doc" using buildGraph_accepts by blast
  have "ValidateGraph doc = None \<Longrightarrow> acyclic (dependency doc)"
    using validate_schedulable [OF Inr] plan.all_schedulable [of doc] dependency_rel [OF wf] by simp
  then show ?thesis using graph_accepted wf by blast
qed

lemma levels_cases:
  "case TopologicalLevels doc of
     Inl e \<Rightarrow> ValidateGraph doc = Some e
   | Inr levels \<Rightarrow> ValidateGraph doc = None \<and> well_formed doc \<and> scheduled doc {} levels"
proof (cases "buildGraph doc")
  case (Inr g)
  have wf: "well_formed doc" and g: "graph_spec doc g"
    using Inr buildGraph_accepts buildGraph_spec by blast+
  have "ValidateGraph doc = None \<or> ValidateGraph doc = Some cycle_error"
    using Inr by (simp add: ValidateGraph_def)
  then show ?thesis
    using levels_loop_spec [OF wf g ready_start(2) [OF g] _ refl, of "[]"]
      validate_schedulable [OF Inr] wf
    by (auto simp: TopologicalLevels_def Inr graph_nodes_length [OF g] card_node_ids [OF wf]
        split: sum.splits)
qed (simp add: TopologicalLevels_def ValidateGraph_def)

text \<open>
  The two graph algorithms agree. The level order that the runner executes fails with exactly the
  error \<open>ValidateGraph\<close> reports, and succeeds exactly when validation does.
\<close>

theorem levels_agree:
  "(\<forall>e. TopologicalLevels doc = Inl e \<longleftrightarrow> ValidateGraph doc = Some e) \<and>
   ((\<exists>levels. TopologicalLevels doc = Inr levels) \<longleftrightarrow> ValidateGraph doc = None)"
  using levels_cases [of doc] by (auto split: sum.splits)

lemma scheduled_flat:
  "scheduled doc R ls \<Longrightarrow>
   set (concat ls) \<subseteq> set (doc_Nodes doc) \<and> distinct (map nd_ID (concat ls)) \<and>
   nd_ID ` set (concat ls) \<inter> R = {} \<and> node_ids doc \<subseteq> R \<union> nd_ID ` set (concat ls)"
proof (induction ls arbitrary: R)
  case (Cons l ls)
  have l: "nd_ID ` set l = ready doc R" "distinct (map nd_ID l)" "set l \<subseteq> set (doc_Nodes doc)"
    and rest: "scheduled doc (R \<union> ready doc R) ls" using Cons.prems by auto
  note ih = Cons.IH [OF rest]
  have "ready doc R \<inter> R = {}" by (auto simp: ready_def)
  then have "nd_ID ` set (concat (l # ls)) \<inter> R = {}"
    using ih l(1) by (simp add: image_Un Int_Un_distrib Int_Un_distrib2)
  moreover have "nd_ID ` set l \<inter> nd_ID ` set (concat ls) = {}"
    using ih l(1) by (simp add: Int_Un_distrib Int_Un_distrib2 Int_commute)
  then have "distinct (map nd_ID (concat (l # ls)))" using ih l(2) by simp
  moreover have "node_ids doc \<subseteq> R \<union> nd_ID ` set (concat (l # ls))"
    using ih l(1) by (simp add: image_Un Un_assoc)
  ultimately show ?case using ih l(3) by simp
qed auto

lemma scheduled_before:
  "scheduled doc R ls \<Longrightarrow> k < length ls \<Longrightarrow> n \<in> set (ls ! k) \<Longrightarrow>
   deps_of doc (nd_ID n) \<subseteq> R \<union> nd_ID ` set (concat (take k ls))"
proof (induction ls arbitrary: R k)
  case (Cons l ls)
  have l: "nd_ID ` set l = ready doc R" and rest: "scheduled doc (R \<union> ready doc R) ls"
    using Cons.prems by auto
  show ?case
  proof (cases k)
    case 0
    then have "nd_ID n \<in> ready doc R" using Cons.prems(3) l by auto
    then show ?thesis by (auto simp: ready_def)
  next
    case (Suc k')
    then show ?thesis using Cons.IH [OF rest, of k'] Cons.prems l by (auto simp: image_Un)
  qed
qed simp

lemma levels_mset:
  assumes "TopologicalLevels doc = Inr levels"
  shows "mset (concat levels) = mset (doc_Nodes doc)"
proof -
  have s: "scheduled doc {} levels" and wf: "well_formed doc"
    using levels_cases [of doc] assms by simp_all
  have inj: "inj_on nd_ID (set (doc_Nodes doc))" and dist: "distinct (doc_Nodes doc)"
    using wf by (auto simp: well_formed_def distinct_map)
  have flat: "set (concat levels) \<subseteq> set (doc_Nodes doc)" "distinct (map nd_ID (concat levels))"
    "nd_ID ` set (doc_Nodes doc) \<subseteq> nd_ID ` set (concat levels)"
    using scheduled_flat [OF s] by (auto simp: node_ids_def)
  then have "set (concat levels) = set (doc_Nodes doc)"
    using inj_on_image_eq_iff [OF inj flat(1) subset_refl] by (metis image_mono subset_antisym)
  then show ?thesis
    using dist flat(2) by (intro set_eq_iff_mset_eq_distinct [THEN iffD1]) (auto simp: distinct_map)
qed

text \<open>
  The levels are a schedule. They contain every node of the document exactly once, and every
  dependency of a node is a node of an earlier level.
\<close>

theorem levels_schedule:
  assumes "TopologicalLevels doc = Inr levels"
  shows "mset (concat levels) = mset (doc_Nodes doc) \<and>
    (\<forall>k < length levels. \<forall>n \<in> set (levels ! k). \<forall>d \<in> set (nd_DependsOn n).
       \<exists>j < k. \<exists>n' \<in> set (levels ! j). nd_ID n' = d)"
proof -
  have s: "scheduled doc {} levels" and wf: "well_formed doc"
    using levels_cases [of doc] assms by simp_all
  have "\<exists>j < k. \<exists>n' \<in> set (levels ! j). nd_ID n' = d"
    if k: "k < length levels" "n \<in> set (levels ! k)" "d \<in> set (nd_DependsOn n)" for k n d
  proof -
    have "n \<in> set (doc_Nodes doc)" using scheduled_flat [OF s] nth_mem [OF k(1)] k(2) by auto
    then have "d \<in> nd_ID ` set (concat (take k levels))"
      using scheduled_before [OF s k(1,2)] deps_of_node [OF wf] k(3) by auto
    then show ?thesis by (fastforce simp: in_set_conv_nth)
  qed
  then show ?thesis using levels_mset [OF assms] by blast
qed

definition demo_node :: "string \<Rightarrow> string list \<Rightarrow> Node" where
  "demo_node i ds = zero_node\<lparr>nd_ID := i, nd_DependsOn := ds\<rparr>"

definition demo_doc :: "Node list \<Rightarrow> Document" where
  "demo_doc ns = \<lparr>doc_ContractVersion = ContractVersion, doc_PlanID = ''p'', doc_Generation = 1,
     doc_IdempotencyKey = ''k'', doc_CatalogRevision = [], doc_Variables = None,
     doc_Defaults = \<lparr>df_TimeoutMs = 0, df_Retry = zero_retry, df_MaxPasses = 0\<rparr>,
     doc_Converge = \<lparr>cv_MaxPasses = 0, cv_AbortOnExhaustion = False, cv_MaxConcurrency = 0\<rparr>,
     doc_Nodes = ns\<rparr>"

definition demo_graph :: Document where
  "demo_graph = demo_doc [demo_node ''b'' [''a''], demo_node ''a'' [], demo_node ''c'' [''a'']]"

lemma demo_levels:
  "TopologicalLevels demo_graph =
     Inr [[demo_node ''a'' []], [demo_node ''b'' [''a''], demo_node ''c'' [''a'']]]"
proof -
  have "buildGraph demo_graph = Inr \<lparr>
      gr_nodes = [(''b'', demo_node ''b'' [''a'']), (''a'', demo_node ''a'' []), (''c'', demo_node ''c'' [''a''])],
      gr_indegree = [(''b'', 1), (''a'', 0), (''c'', 1)], gr_dependents = [(''a'', [''b'', ''c''])]\<rparr>"
    by (simp add: buildGraph_def demo_graph_def demo_doc_def demo_node_def add_edge_def gomap_or_def)
  moreover have "zero_degree [(''b'', 1), (''a'', 0), (''c'', 1)] = [''a'']"
    "zero_degree [(''b'', 0), (''c'', 0)] = [''b'', ''c'']"
    by code_simp+
  ultimately show ?thesis
    by (simp add: TopologicalLevels_def levels_loop.simps decrement_def gomap_or_def node_or_zero_def Let_def)
qed

theorem levels_schedule_witness:
  "mset (doc_Nodes demo_graph) =
     mset [demo_node ''a'' [], demo_node ''b'' [''a''], demo_node ''c'' [''a'']]"
  using levels_schedule [OF demo_levels] by simp

lemma scheduled_sorted:
  "well_formed doc \<Longrightarrow> scheduled doc R ls \<Longrightarrow>
   sorted_wrt (\<lambda>n n'. nd_ID n' \<notin> set (nd_DependsOn n)) (concat ls)"
proof (induction ls arbitrary: R)
  case (Cons l ls)
  have l: "nd_ID ` set l = ready doc R" "set l \<subseteq> set (doc_Nodes doc)"
    and rest: "scheduled doc (R \<union> ready doc R) ls" using Cons.prems by auto
  have deps: "set (nd_DependsOn n) \<subseteq> R" if "n \<in> set l" for n
    using that l deps_of_node [OF Cons.prems(1), of n] by (auto simp: ready_def)
  have later: "nd_ID n \<notin> R" if "n \<in> set (concat (l # ls))" for n
    using that scheduled_flat [OF Cons.prems(2)] by blast
  have "sorted_wrt (\<lambda>n n'. nd_ID n' \<notin> set (nd_DependsOn n)) l"
    unfolding sorted_wrt_iff_nth_less
  proof (intro allI impI)
    fix i j
    assume "i < j" "j < length l"
    then have "l ! i \<in> set l" "l ! j \<in> set (concat (l # ls))" by simp_all
    then show "nd_ID (l ! j) \<notin> set (nd_DependsOn (l ! i))" using deps later by blast
  qed
  moreover have "nd_ID y \<notin> set (nd_DependsOn x)" if "x \<in> set l" "y \<in> set (concat ls)" for x y
    using deps [OF that(1)] later [of y] that(2) by auto
  ultimately show ?case
    using Cons.IH [OF Cons.prems(1) rest] by (simp add: sorted_wrt_append)
qed simp

text \<open>
  Compensation runs against the dependencies. The reverse order lists every node of the document
  exactly once, and no node comes before a node that depends on it.
\<close>

theorem reverse_schedule:
  assumes "ReverseTopologicalNodes doc = Inr ns"
  shows "mset ns = mset (doc_Nodes doc) \<and>
    (\<forall>i j. i < j \<and> j < length ns \<longrightarrow> nd_ID (ns ! i) \<notin> set (nd_DependsOn (ns ! j)))"
proof -
  obtain levels where levels: "TopologicalLevels doc = Inr levels" "ns = rev (concat levels)"
    using assms by (auto simp: ReverseTopologicalNodes_def rev_concat rev_map split: sum.splits)
  have s: "scheduled doc {} levels" and wf: "well_formed doc"
    using levels_cases [of doc] levels(1) by simp_all
  have "sorted_wrt (\<lambda>n n'. nd_ID n \<notin> set (nd_DependsOn n')) ns"
    using scheduled_sorted [OF wf s] by (simp add: levels(2) sorted_wrt_rev)
  then show ?thesis
    using levels_mset [OF levels(1)] by (simp add: levels(2) sorted_wrt_iff_nth_less)
qed

theorem reverse_schedule_witness:
  "ReverseTopologicalNodes demo_graph =
     Inr [demo_node ''c'' [''a''], demo_node ''b'' [''a''], demo_node ''a'' []] \<and>
   nd_ID (demo_node ''c'' [''a'']) \<notin> set (nd_DependsOn (demo_node ''a'' []))"
proof -
  have rev: "ReverseTopologicalNodes demo_graph =
      Inr [demo_node ''c'' [''a''], demo_node ''b'' [''a''], demo_node ''a'' []]"
    by (simp add: ReverseTopologicalNodes_def demo_levels)
  have "nd_ID ([demo_node ''c'' [''a''], demo_node ''b'' [''a''], demo_node ''a'' []] ! 0) \<notin>
      set (nd_DependsOn ([demo_node ''c'' [''a''], demo_node ''b'' [''a''], demo_node ''a'' []] ! 2))"
    using reverse_schedule [OF rev] by (metis One_nat_def Suc_1 length_Cons lessI less_Suc_eq list.size(3))
  then show ?thesis using rev by simp
qed

end
