(* ===== verification/Plan_Validate.thy ===== *)
theory Plan_Validate
  imports Plan_References Plan_Schedule
begin

text \<open>
  Validation of a plan document before it runs (\<open>Validate\<close> and \<open>validateWaitSpec\<close> in
  \<open>src/internal/plan/schema.go\<close>). One definition per block of the loop over the nodes; each gives
  the first error of its block.
\<close>

section \<open>Encoding\<close>

text \<open>\<open>DocumentHash\<close> fails only when the encoder does, on a number that is not finite.\<close>

definition map_encodes :: "anymap \<Rightarrow> bool" where
  "map_encodes m = marshalable (map_any m)"

fun assertion_encodes :: "Assertion \<Rightarrow> bool" where
  "assertion_encodes (Assertion path op value nested) =
     (marshalable value \<and> list_all assertion_encodes nested)"

definition action_encodes :: "Action \<Rightarrow> bool" where
  "action_encodes a = map_encodes (ac_Args a)"

definition node_encodes :: "Node \<Rightarrow> bool" where
  "node_encodes n \<longleftrightarrow>
     list_all assertion_encodes (nd_When n) \<and>
     pred_option action_encodes (nd_Action n) \<and> pred_option action_encodes (nd_Compensate n) \<and>
     pred_option (\<lambda>r. map_encodes (rec_Args r)) (nd_Recover n) \<and>
     pred_option (\<lambda>v. map_encodes (va_Args v) \<and> list_all assertion_encodes (va_Assert v)) (nd_Validate n) \<and>
     pred_option (\<lambda>w. map_encodes (wa_Correlation w) \<and> map_encodes (wa_InputSchema w) \<and>
       list_all (\<lambda>d. map_encodes (cd_Schema d)) (wa_ContextDelta w)) (nd_Wait n) \<and>
     pred_option (\<lambda>f. list_all assertion_encodes (fe_Filter f)) (nd_ForEach n)"

definition document_encodes :: "Document \<Rightarrow> bool" where
  "document_encodes doc \<longleftrightarrow> map_encodes (doc_Variables doc) \<and> list_all node_encodes (doc_Nodes doc)"

section \<open>Waits\<close>

definition validate_delta :: "string list \<Rightarrow> ContextDelta \<Rightarrow> PlanError option" where
  "validate_delta names d =
     (if TrimSpace (cd_Name d) = [] \<or> cd_Name d \<in> set names
      then Some (Errorf ''contextDelta names must be unique and non-empty'' [])
      else if TrimSpace (cd_Value d) = [] \<or> \<not> isWholeReference (AStr (cd_Value d)) \<or>
        \<not> HasPrefix (TrimSpace (cd_Value d)) ''${input.''
      then Some (Errorf ''contextDelta %q must be a whole input reference'' [AStr (cd_Name d)])
      else if entries (cd_Schema d) = []
      then Some (Errorf ''contextDelta %q schema is required'' [AStr (cd_Name d)])
      else or_else (map_option (Wrapf ''contextDelta %q schema: %w'' [AStr (cd_Name d)])
             (validateBoundedSchema (cd_Schema d) 0))
           (if cd_Provenance d \<notin> {''operator'', ''authenticated-event'', ''event-or-operator''}
            then Some (Errorf ''contextDelta %q provenance is unsupported'' [AStr (cd_Name d)])
            else None))"

fun validate_deltas :: "string list \<Rightarrow> ContextDelta list \<Rightarrow> PlanError option" where
  "validate_deltas names [] = None"
| "validate_deltas names (d # ds) =
     or_else (validate_delta names d) (validate_deltas (cd_Name d # names) ds)"

definition validateWaitSpec :: "WaitSpec \<Rightarrow> PlanError option" where
  "validateWaitSpec w =
     (if wt_Kind (wa_Trigger w) \<noteq> ''operator'' \<and> wt_Kind (wa_Trigger w) \<noteq> ''event-or-operator''
      then Some (Errorf ''trigger kind must be operator or event-or-operator'' [])
      else if TrimSpace (wt_Type (wa_Trigger w)) = [] then Some (Errorf ''trigger type is required'' [])
      else if TrimSpace (wa_SchemaRevision w) = [] then Some (Errorf ''schemaRevision is required'' [])
      else if (case wa_ExpiresAt w of BadTime _ \<Rightarrow> True | _ \<Rightarrow> False)
      then Some (Wrapf ''expiresAt must be RFC3339: %w'' [] (ErrOther ''time''))
      else if wa_ExpiresInMs w < 0 then Some (Errorf ''expiresInMs cannot be negative'' [])
      else if wa_ExpiresAt w \<noteq> NoTime \<and> wa_ExpiresInMs w \<noteq> 0
      then Some (Errorf ''expiresAt and expiresInMs are mutually exclusive'' [])
      else if entries (wa_InputSchema w) = [] then Some (Errorf ''inputSchema is required'' [])
      else or_else (validateBoundedInputSchema (wa_InputSchema w) 0)
             (validate_deltas [] (wa_ContextDelta w)))"

section \<open>One node\<close>

type_synonym capabilities = "(string, Capability) gomap"

text \<open>What every tool call of a node is checked for: its references, its arguments and their types.\<close>

definition check_call :: "regexp \<Rightarrow> string \<Rightarrow> Document \<Rightarrow> Node \<Rightarrow> (string, string list) gomap \<Rightarrow>
    capabilities \<Rightarrow> Capability \<Rightarrow> string \<Rightarrow> anymap \<Rightarrow> PlanError option" where
  "check_call matches what doc node ancestors caps capability tool args =
     or_else (map_option (Wrapf (''node %q '' @ what @ '' references: %w'') [AStr (nd_ID node)])
         (validateInterpolations (map_any args) doc node ancestors))
       (map_option (Wrapf (''node %q '' @ what @ '' %s arguments: %w'') [AStr (nd_ID node), AStr tool])
         (ValidateJSON matches (cp_InputSchema capability) (map_any args)))"

definition check_types :: "string \<Rightarrow> Document \<Rightarrow> Node \<Rightarrow> capabilities \<Rightarrow> Capability \<Rightarrow> anymap \<Rightarrow>
    PlanError option" where
  "check_types what doc node caps capability args =
     map_option (Wrapf (''node %q '' @ what @ '' types: %w'') [AStr (nd_ID node)])
       (validateReferenceTypes args (cp_InputSchema capability) doc node caps)"

definition validate_wait :: "Document \<Rightarrow> (string, string list) gomap \<Rightarrow> Node \<Rightarrow> PlanError option" where
  "validate_wait doc ancestors node =
     (case nd_Wait node of None \<Rightarrow> None
      | Some w \<Rightarrow>
        if nd_Action node \<noteq> None \<or> nd_Validate node \<noteq> None \<or> nd_Recover node \<noteq> None \<or>
           nd_Compensate node \<noteq> None \<or> nd_ForEach node \<noteq> None
        then Some (Errorf (''node %q wait cannot be combined with an action, validation, recovery, '' @
          ''compensation, or forEach'') [AStr (nd_ID node)])
        else or_else (map_option (Wrapf ''node %q wait: %w'' [AStr (nd_ID node)]) (validateWaitSpec w))
          (or_else (map_option (Wrapf ''node %q wait correlation: %w'' [AStr (nd_ID node)])
              (validateInterpolations (map_any (wa_Correlation w)) doc node ancestors))
            (first_error (\<lambda>d. map_option (Wrapf ''node %q context delta %q: %w''
                [AStr (nd_ID node), AStr (cd_Name d)])
              (validateInterpolations (AStr (cd_Value d)) doc node ancestors)) (wa_ContextDelta w))))"

definition validate_target :: "Document \<Rightarrow> (string, string list) gomap \<Rightarrow> Node \<Rightarrow> PlanError option" where
  "validate_target doc ancestors node =
     (case nd_Target node of None \<Rightarrow> None
      | Some t \<Rightarrow>
        if TrimSpace (tr_HostRef t) = []
        then Some (Errorf ''node %q target hostRef is required'' [AStr (nd_ID node)])
        else map_option (Wrapf ''node %q target: %w'' [AStr (nd_ID node)])
          (validateInterpolations (AStr (tr_HostRef t)) doc node ancestors))"

definition validate_action :: "regexp \<Rightarrow> Document \<Rightarrow> (string, string list) gomap \<Rightarrow> capabilities \<Rightarrow>
    Node \<Rightarrow> PlanError option" where
  "validate_action matches doc ancestors caps node =
     (case nd_Action node of None \<Rightarrow> None
      | Some a \<Rightarrow>
        (case gomap_get caps (ac_Tool a) of
           None \<Rightarrow> Some (Errorf ''node %q references unknown action %q''
             [AStr (nd_ID node), AStr (ac_Tool a)])
         | Some c \<Rightarrow>
           if ac_Tool a = ''run_host_plan''
           then Some (Errorf ''node %q cannot recursively run a host plan'' [AStr (nd_ID node)])
           else or_else (check_call matches ''action'' doc node ancestors caps c (ac_Tool a) (ac_Args a))
             (if cp_Effect c \<noteq> ''read'' \<and> nd_Validate node = None
              then Some (Errorf ''mutating node %q requires a readiness validate block'' [AStr (nd_ID node)])
              else if 1 < attemptsFor node doc \<and> cp_Effect c \<noteq> ''read'' \<and> \<not> cp_Idempotent c
              then Some (Errorf (''mutating node %q action %s is not declared idempotent; '' @
                ''automatic retries are disabled'') [AStr (nd_ID node), AStr (ac_Tool a)])
              else check_types ''action'' doc node caps c (ac_Args a))))"

definition validate_validation :: "regexp \<Rightarrow> Document \<Rightarrow> (string, string list) gomap \<Rightarrow> capabilities \<Rightarrow>
    Node \<Rightarrow> PlanError option" where
  "validate_validation matches doc ancestors caps node =
     (case nd_Validate node of None \<Rightarrow> None
      | Some v \<Rightarrow>
        (case gomap_get caps (va_Tool v) of
           None \<Rightarrow> Some (Errorf ''node %q references unknown validation tool %q''
             [AStr (nd_ID node), AStr (va_Tool v)])
         | Some c \<Rightarrow>
           if cp_Effect c \<noteq> ''read''
           then Some (Errorf ''node %q validation tool %q is not read-only''
             [AStr (nd_ID node), AStr (va_Tool v)])
           else or_else (check_call matches ''validation'' doc node ancestors caps c (va_Tool v) (va_Args v))
             (check_types ''validation'' doc node caps c (va_Args v))))"

definition validate_recover :: "regexp \<Rightarrow> Document \<Rightarrow> (string, string list) gomap \<Rightarrow> capabilities \<Rightarrow>
    Node \<Rightarrow> PlanError option" where
  "validate_recover matches doc ancestors caps node =
     (case nd_Recover node of None \<Rightarrow> None
      | Some r \<Rightarrow>
        (case gomap_get caps (rec_Tool r) of
           None \<Rightarrow> Some (Errorf ''node %q references unknown recovery tool %q''
             [AStr (nd_ID node), AStr (rec_Tool r)])
         | Some c \<Rightarrow>
           if rec_MaxAttempts r < 0 \<or> maxTotalAttempts < rec_MaxAttempts r
           then Some (Errorf ''node %q recovery maxAttempts is outside the bounded range'' [AStr (nd_ID node)])
           else or_else (check_call matches ''recovery'' doc node ancestors caps c (rec_Tool r) (rec_Args r))
             (check_types ''recovery'' doc node caps c (rec_Args r))))"

definition validate_compensate :: "regexp \<Rightarrow> Document \<Rightarrow> (string, string list) gomap \<Rightarrow> capabilities \<Rightarrow>
    Node \<Rightarrow> PlanError option" where
  "validate_compensate matches doc ancestors caps node =
     (case nd_Compensate node of None \<Rightarrow> None
      | Some a \<Rightarrow>
        (case gomap_get caps (ac_Tool a) of
           None \<Rightarrow> Some (Errorf ''node %q references unknown compensation tool %q''
             [AStr (nd_ID node), AStr (ac_Tool a)])
         | Some c \<Rightarrow>
           or_else (check_call matches ''compensation'' doc node ancestors caps c (ac_Tool a) (ac_Args a))
             (check_types ''compensation'' doc node caps c (ac_Args a))))"

definition validate_forEach :: "Document \<Rightarrow> (string, string list) gomap \<Rightarrow> Node \<Rightarrow> PlanError option" where
  "validate_forEach doc ancestors node =
     (case nd_ForEach node of None \<Rightarrow> None
      | Some f \<Rightarrow>
        if TrimSpace (fe_Source f) = [] \<or> TrimSpace (fe_As f) = []
        then Some (Errorf ''node %q forEach requires source and as'' [AStr (nd_ID node)])
        else if nd_Action node = None
        then Some (Errorf ''node %q forEach requires an action'' [AStr (nd_ID node)])
        else map_option (Wrapf ''node %q forEach source: %w'' [AStr (nd_ID node)])
          (validateReference (fe_Source f) doc node ancestors True))"

definition recoveryAttempts :: "Recovery \<Rightarrow> int" where
  "recoveryAttempts r = (if rec_MaxAttempts r \<le> 0 then 1 else rec_MaxAttempts r)"

definition validate_retry :: "capabilities \<Rightarrow> Node \<Rightarrow> PlanError option" where
  "validate_retry caps node =
     (if rt_MaxAttempts (nd_Retry node) < 0 \<or> maxTotalAttempts < rt_MaxAttempts (nd_Retry node)
      then Some (Errorf ''node %q retry maxAttempts is outside the bounded range'' [AStr (nd_ID node)])
      else case nd_Recover node of None \<Rightarrow> None
        | Some r \<Rightarrow>
          (let (effect, idempotent) = (case gomap_get caps (rec_Tool r) of None \<Rightarrow> ([], False)
                | Some c \<Rightarrow> (cp_Effect c, cp_Idempotent c))
           in if 1 < recoveryAttempts r \<and> effect \<noteq> ''read'' \<and> \<not> idempotent
              then Some (Errorf (''node %q recovery %s is not declared idempotent; automatic '' @
                ''retries are disabled'') [AStr (nd_ID node), AStr (rec_Tool r)])
              else None))"

definition node_attempts :: "Document \<Rightarrow> Node \<Rightarrow> int" where
  "node_attempts doc node =
     (if nd_ForEach node = None then 1 else int maxFanOut) *
     (attemptsFor node doc + (case nd_Recover node of None \<Rightarrow> 0 | Some r \<Rightarrow> recoveryAttempts r))"

definition validate_node :: "regexp \<Rightarrow> Document \<Rightarrow> (string, string list) gomap \<Rightarrow> capabilities \<Rightarrow>
    Node \<Rightarrow> PlanError option" where
  "validate_node matches doc ancestors caps node =
     (if TrimSpace (nd_ID node) = [] then Some (Errorf ''node id is required'' [])
      else if nd_Action node = None \<and> nd_Wait node = None \<and> nd_Validate node = None \<and> nd_ForEach node = None
      then Some (Errorf ''node %q must have an action, wait, validation, or forEach'' [AStr (nd_ID node)])
      else or_else (validate_wait doc ancestors node)
        (or_else (validate_target doc ancestors node)
        (or_else (validate_action matches doc ancestors caps node)
        (or_else (validate_validation matches doc ancestors caps node)
        (or_else (validate_recover matches doc ancestors caps node)
        (or_else (validate_compensate matches doc ancestors caps node)
        (or_else (validate_forEach doc ancestors node) (validate_retry caps node))))))))"

section \<open>The document\<close>

definition passes_of :: "Document \<Rightarrow> int" where
  "passes_of doc = (if cv_MaxPasses (doc_Converge doc) \<le> 0 then df_MaxPasses (doc_Defaults doc)
     else cv_MaxPasses (doc_Converge doc))"

definition validate_header :: "Document \<Rightarrow> string \<Rightarrow> PlanError option" where
  "validate_header doc catalogRevision =
     (if doc_ContractVersion doc \<noteq> ContractVersion
      then Some (Errorf ''unsupported contractVersion %q'' [AStr (doc_ContractVersion doc)])
      else if TrimSpace (doc_PlanID doc) = [] \<or> TrimSpace (doc_IdempotencyKey doc) = []
      then Some (Errorf ''planId and idempotencyKey are required'' [])
      else if doc_Generation doc < 1 then Some (Errorf ''generation must be at least 1'' [])
      else if doc_CatalogRevision doc \<noteq> [] \<and> catalogRevision \<noteq> [] \<and>
        doc_CatalogRevision doc \<noteq> catalogRevision
      then Some (Errorf ''catalog revision mismatch: plan=%s current=%s''
        [AStr (doc_CatalogRevision doc), AStr catalogRevision])
      else if doc_Nodes doc = [] \<or> maxNodes < length (doc_Nodes doc)
      then Some (Errorf ''nodes must contain between 1 and %d entries'' [AFloat (f64_of_int (int maxNodes))])
      else if cv_MaxPasses (doc_Converge doc) < 0 \<or> df_MaxPasses (doc_Defaults doc) < 0
      then Some (Errorf ''maxPasses cannot be negative'' [])
      else if maxPasses < passes_of doc then Some (Errorf ''converge maxPasses exceeds limit %d'' [AFloat (f64_of_int maxPasses)])
      else if cv_MaxConcurrency (doc_Converge doc) < 0 \<or>
        int maxFanOut < cv_MaxConcurrency (doc_Converge doc)
      then Some (Errorf ''converge maxConcurrency must be between 0 and %d'' [AFloat (f64_of_int (int maxFanOut))])
      else if rt_MaxAttempts (df_Retry (doc_Defaults doc)) < 0 \<or>
        maxTotalAttempts < rt_MaxAttempts (df_Retry (doc_Defaults doc))
      then Some (Errorf ''default retry maxAttempts must be between 0 and %d'' [AFloat (f64_of_int maxTotalAttempts)])
      else if \<not> document_encodes doc
      then Some (Wrapf ''canonicalize plan: %w'' [] (ErrOther ''json''))
      else None)"

definition Validate :: "regexp \<Rightarrow> Document \<Rightarrow> capabilities \<Rightarrow> string \<Rightarrow> PlanError option" where
  "Validate matches doc caps catalogRevision =
     or_else (validate_header doc catalogRevision)
       (or_else (ValidateGraph doc)
         (let ancestors = graphAncestors doc
          in or_else (first_error (validate_node matches doc ancestors caps) (doc_Nodes doc))
            (if maxTotalAttempts < (\<Sum>n \<leftarrow> doc_Nodes doc. node_attempts doc n)
             then Some (Errorf ''plan attempts exceed limit %d'' [AFloat (f64_of_int maxTotalAttempts)]) else None)))"

end
