(* ===== verification/Plan_Engine.thy ===== *)
theory Plan_Engine
  imports Plan_Validate "HOL-Library.State_Monad"
begin

text \<open>
  The world in which the plan runner (\<open>src/internal/plan/runner.go\<close>) executes. The runner threads
  the run state through every call; here a machine carries the run state, the calls made to the
  dispatcher, the sink and the timers so far, and the number of questions asked of the surroundings.
  What the surroundings answer, a dispatched result, an error of the sink, whether a context is done,
  the time, how often a poll timer fires before its deadline, is a function of that number, so a
  theorem about every such function covers every behaviour of the tools, the clock and cancellation.
\<close>

section \<open>Surroundings\<close>

text \<open>What a dispatcher returns: an error, no result, an error result with its text, or content.\<close>

datatype dispatch_result =
    DispatchFails string
  | NoResult
  | ErrorResult string
  | Content "any option"

record Runner =
  ru_Dispatch :: "(nat \<Rightarrow> string \<Rightarrow> anymap \<Rightarrow> dispatch_result) option"
  ru_Capabilities :: capabilities
  ru_CatalogRevision :: string
  ru_HostAgentID :: string
  ru_Sink :: "(nat \<Rightarrow> RunState \<Rightarrow> string option) option"

record surroundings =
  su_ctxErr :: "nat \<Rightarrow> string option"   \<comment> \<open>\<open>ctx.Err()\<close> of the context in use\<close>
  su_now :: "nat \<Rightarrow> int"
  su_ticks :: "nat \<Rightarrow> nat"              \<comment> \<open>ticks of a poll timer before its deadline\<close>
  su_matches :: regexp

datatype event =
    Dispatched string anymap
  | Emitted RunState
  | Slept i64

record machine =
  ma_state :: RunState
  ma_log :: "event list"
  ma_asked :: nat

type_synonym 'a run = "(machine, 'a) state"

abbreviation ret :: "'a \<Rightarrow> 'a run" where
  "ret \<equiv> State_Monad.return"

definition ask :: "(nat \<Rightarrow> 'a) \<Rightarrow> 'a run" where
  "ask f = State (\<lambda>m. (f (ma_asked m), m\<lparr>ma_asked := Suc (ma_asked m)\<rparr>))"

definition note_event :: "event \<Rightarrow> unit run" where
  "note_event e = State (\<lambda>m. ((), m\<lparr>ma_log := ma_log m @ [e]\<rparr>))"

definition current :: "RunState run" where
  "current = State (\<lambda>m. (ma_state m, m))"

definition change :: "(RunState \<Rightarrow> RunState) \<Rightarrow> unit run" where
  "change f = State (\<lambda>m. ((), m\<lparr>ma_state := f (ma_state m)\<rparr>))"

definition set_node :: "string \<Rightarrow> NodeRunState \<Rightarrow> unit run" where
  "set_node i ns = change (\<lambda>s. s\<lparr>rs_Nodes := gomap_put i ns (rs_Nodes s)\<rparr>)"

definition set_output :: "string \<Rightarrow> any \<Rightarrow> unit run" where
  "set_output i v = change (\<lambda>s. s\<lparr>rs_Outputs := gomap_put i v (rs_Outputs s)\<rparr>)"

definition drop_output :: "string \<Rightarrow> unit run" where
  "drop_output i = change (\<lambda>s. s\<lparr>rs_Outputs := gomap_del i (rs_Outputs s)\<rparr>)"

definition now :: "surroundings \<Rightarrow> timestamp run" where
  "now su = ask (\<lambda>i. Time (su_now su i))"

definition ctx_err :: "surroundings \<Rightarrow> PlanError option run" where
  "ctx_err su = ask (\<lambda>i. map_option ErrContext (su_ctxErr su i))"

definition node_of :: "RunState \<Rightarrow> string \<Rightarrow> NodeRunState" where
  "node_of s i = gomap_or (rs_Nodes s) i zero_node_state"

definition status_of :: "RunState \<Rightarrow> string \<Rightarrow> NodeStatus" where
  "status_of s i = ns_Status (node_of s i)"

section \<open>Reporting\<close>

definition redact_entry :: "ContextEntry \<Rightarrow> ContextEntry" where
  "redact_entry e = (if ce_Secret e then e\<lparr>ce_Value := ANil\<rparr> else e)"

text \<open>The clone the sink receives, without the values of secret context entries.\<close>

definition redactedRunState :: "RunState \<Rightarrow> RunState" where
  "redactedRunState s = s\<lparr>rs_Context := map (\<lambda>(k, e). (k, redact_entry e)) (rs_Context s),
     rs_ContextHistory := map redact_entry (rs_ContextHistory s)\<rparr>"

definition emit :: "Runner \<Rightarrow> PlanError option run" where
  "emit r = (case ru_Sink r of None \<Rightarrow> ret None
     | Some sink \<Rightarrow> do {
         s \<leftarrow> current;
         note_event (Emitted (redactedRunState s));
         ask (\<lambda>i. map_option ErrOther (sink i (redactedRunState s)))
       })"

section \<open>Evaluation contexts\<close>

definition contextValues :: "(string, ContextEntry) gomap \<Rightarrow> fields" where
  "contextValues es = map (\<lambda>(k, e). (k, ce_Value e)) es"

definition evaluationContext :: "Document \<Rightarrow> (string, any) gomap \<Rightarrow> (string, ContextEntry) gomap \<Rightarrow>
    anymap \<Rightarrow> EvalContext" where
  "evaluationContext doc outputs contexts item =
     \<lparr>ev_Variables = doc_Variables doc, ev_NodeOutput = outputs, ev_Item = item, ev_Input = None,
      ev_Context = Some (contextValues contexts)\<rparr>"

definition evalContext :: "Document \<Rightarrow> RunState \<Rightarrow> anymap \<Rightarrow> EvalContext" where
  "evalContext doc s item = evaluationContext doc (rs_Outputs s) (rs_Context s) item"

definition validateTarget :: "Runner \<Rightarrow> Document \<Rightarrow> Node \<Rightarrow> RunState \<Rightarrow> PlanError option" where
  "validateTarget r doc node s =
     (case nd_Target node of None \<Rightarrow> None
      | Some t \<Rightarrow>
        if TrimSpace (ru_HostAgentID r) = [] then None
        else case interpolateValue (evalContext doc s None) (AStr (tr_HostRef t)) of
               Inl e \<Rightarrow> Some (Wrapf ''target hostRef: %w'' [] e)
             | Inr v \<Rightarrow>
               (case as_string v of
                  None \<Rightarrow> Some (Errorf ''target hostRef must resolve to a non-empty string'' [])
                | Some hostRef \<Rightarrow>
                  if TrimSpace hostRef = []
                  then Some (Errorf ''target hostRef must resolve to a non-empty string'' [])
                  else if hostRef \<noteq> ru_HostAgentID r
                  then Some (Errorf ''target hostRef %q does not match Host Agent %q''
                    [AStr hostRef, AStr (ru_HostAgentID r)])
                  else None))"

section \<open>Calling tools\<close>

text \<open>Content is sent through the JSON encoder once; a value it cannot encode is kept as it is.\<close>

fun normal :: "any \<Rightarrow> any" and normal_list :: "any list \<Rightarrow> any list" and normal_fields :: "fields \<Rightarrow> fields" where
  "normal (AStrs ss) = ASlice (map AStr ss)"
| "normal (ASlice xs) = ASlice (normal_list xs)"
| "normal (AMap fs) = AMap (normal_fields fs)"
| "normal ANilMap = ANil"
| "normal v = v"
| "normal_list [] = []"
| "normal_list (x # xs) = normal x # normal_list xs"
| "normal_fields [] = []"
| "normal_fields ((k, v) # fs) = (k, normal v) # normal_fields fs"

definition structuredContent :: "any option \<Rightarrow> any" where
  "structuredContent content = (case content of None \<Rightarrow> AMap []
     | Some v \<Rightarrow> if v = ANil then AMap [] else if marshalable v then normal v else v)"

definition dispatch :: "Runner \<Rightarrow> string \<Rightarrow> anymap \<Rightarrow> (PlanError + any option) run" where
  "dispatch r name args = (case ru_Dispatch r of
     None \<Rightarrow> ret (Inl (Errorf ''plan dispatcher is required'' []))
   | Some d \<Rightarrow> do {
       note_event (Dispatched name args);
       ask (\<lambda>i. case d i name args of
           DispatchFails e \<Rightarrow> Inl (ErrOther e)
         | NoResult \<Rightarrow> Inl (Errorf ''tool %s returned no result'' [AStr name])
         | ErrorResult text \<Rightarrow> Inl (Errorf ''tool %s returned an error: %s'' [AStr name, AStr text])
         | Content v \<Rightarrow> Inr v)
     })"

definition validateArgs :: "surroundings \<Rightarrow> Runner \<Rightarrow> string \<Rightarrow> anymap \<Rightarrow> PlanError option" where
  "validateArgs su r name args =
     (case gomap_get (ru_Capabilities r) name of
        None \<Rightarrow> Some (Errorf ''unknown plan capability %q'' [AStr name])
      | Some c \<Rightarrow> map_option (Wrapf ''capability %s arguments: %w'' [AStr name])
          (ValidateJSON (su_matches su) (cp_InputSchema c) (map_any args)))"

definition validateOutput :: "surroundings \<Rightarrow> Runner \<Rightarrow> string \<Rightarrow> any \<Rightarrow> PlanError option" where
  "validateOutput su r name value =
     (case gomap_get (ru_Capabilities r) name of
        None \<Rightarrow> None
      | Some c \<Rightarrow> if entries (cp_OutputSchema c) = [] then None
          else map_option (Wrapf ''capability %s result: %w'' [AStr name])
            (ValidateJSON (su_matches su) (cp_OutputSchema c) value))"

section \<open>Backoff\<close>

definition five_minutes :: i64 where "five_minutes = 300000000000"

text \<open>The loop that multiplies the delay, on 64-bit nanoseconds, and stops at the cap.\<close>

fun grow_delay :: "i64 \<Rightarrow> int \<Rightarrow> nat \<Rightarrow> i64" where
  "grow_delay delay factor 0 = delay"
| "grow_delay delay factor (Suc n) =
     (let delay' = delay * of_int factor
      in if i64_lt five_minutes delay' then five_minutes else grow_delay delay' factor n)"

definition backoff_delay :: "Retry \<Rightarrow> Retry \<Rightarrow> int \<Rightarrow> i64 option" where
  "backoff_delay node defaults attempt =
     (let backoff = (if rt_BackoffMs node \<le> 0 then rt_BackoffMs defaults else rt_BackoffMs node);
          factor = (if rt_BackoffFactor node \<le> 0 then rt_BackoffFactor defaults else rt_BackoffFactor node)
      in if backoff \<le> 0 then None
         else Some (grow_delay (of_int backoff * 1000000) (if factor \<le> 0 then 2 else factor)
           (nat (attempt - 1))))"

definition sleepBackoff :: "surroundings \<Rightarrow> Retry \<Rightarrow> Retry \<Rightarrow> int \<Rightarrow> PlanError option run" where
  "sleepBackoff su node defaults attempt =
     (case backoff_delay node defaults attempt of None \<Rightarrow> ret None
      | Some delay \<Rightarrow> do { note_event (Slept delay); ctx_err su })"

section \<open>Validation\<close>

definition validateNode :: "surroundings \<Rightarrow> Runner \<Rightarrow> Document \<Rightarrow> Node \<Rightarrow> anymap \<Rightarrow> (string, any) gomap \<Rightarrow>
    (string, ContextEntry) gomap \<Rightarrow> (PlanError + any \<times> AssertionFailure option) run" where
  "validateNode su r doc node item outputs contexts = (case nd_Validate node of
     None \<Rightarrow> ret (Inr (ANil, None))
   | Some v \<Rightarrow>
     (case InterpolateArgs (va_Args v) (evaluationContext doc outputs contexts item) of
        Inl e \<Rightarrow> ret (Inl e)
      | Inr args \<Rightarrow>
        (case validateArgs su r (va_Tool v) args of
           Some e \<Rightarrow> ret (Inl e)
         | None \<Rightarrow> do {
             result \<leftarrow> dispatch r (va_Tool v) args;
             ret (case result of
                Inl e \<Rightarrow> Inl e
              | Inr content \<Rightarrow>
                (case validateOutput su r (va_Tool v) (structuredContent content) of
                   Some e \<Rightarrow> Inl e
                 | None \<Rightarrow> Inr (structuredContent content,
                     EvaluateAssertions (su_matches su) (structuredContent content) (va_Assert v))))
           })))"

fun poll :: "surroundings \<Rightarrow> Runner \<Rightarrow> Document \<Rightarrow> Node \<Rightarrow> anymap \<Rightarrow> (string, any) gomap \<Rightarrow>
    (string, ContextEntry) gomap \<Rightarrow> nat \<Rightarrow> any \<times> AssertionFailure option \<Rightarrow>
    (PlanError + any \<times> AssertionFailure option) run" where
  "poll su r doc node item outputs contexts 0 latest = ret (Inr latest)"
| "poll su r doc node item outputs contexts (Suc n) latest = do {
     checked \<leftarrow> validateNode su r doc node item outputs contexts;
     (case checked of Inl e \<Rightarrow> ret (Inl e)
      | Inr (result, None) \<Rightarrow> ret (Inr (result, None))
      | Inr (result, Some failure) \<Rightarrow>
          poll su r doc node item outputs contexts n (result, Some failure))
   }"

definition validateNodeReady :: "surroundings \<Rightarrow> Runner \<Rightarrow> Document \<Rightarrow> Node \<Rightarrow> anymap \<Rightarrow> (string, any) gomap \<Rightarrow>
    (string, ContextEntry) gomap \<Rightarrow> (PlanError + any \<times> AssertionFailure option) run" where
  "validateNodeReady su r doc node item outputs contexts = (case nd_Validate node of
     None \<Rightarrow> ret (Inr (ANil, None))
   | Some v \<Rightarrow> do {
       checked \<leftarrow> validateNode su r doc node item outputs contexts;
       (case checked of
          Inr (result, Some failure) \<Rightarrow>
            if va_TimeoutMs v \<le> 0 then ret checked
            else do {
              ticks \<leftarrow> ask (su_ticks su);
              poll su r doc node item outputs contexts ticks (result, Some failure)
            }
        | _ \<Rightarrow> ret checked)
     })"

end
