(* ===== verification/Plan_Runner.thy ===== *)
theory Plan_Runner
  imports Plan_Engine
begin

text \<open>
  The plan runner (\<open>src/internal/plan/runner.go\<close>): one node with its retries, recovery and
  iteration, a level, the convergence passes, compensation, and the resumption of a wait. A result
  \<open>None\<close> is a nil error. Nodes of a level that run concurrently each work on a clone of the run
  state and are merged in declaration order; here they run one after the other, each on its clone,
  which is one interleaving of their calls, and since the answers of the surroundings are arbitrary
  every node can observe what it would in any other.
\<close>

section \<open>Status changes\<close>

definition failedNode :: "NodeRunState \<Rightarrow> PlanError \<Rightarrow> timestamp \<Rightarrow> NodeRunState" where
  "failedNode ns err t = ns\<lparr>ns_Status := StatusFailed, ns_Error := Some err, ns_CompletedAt := t\<rparr>"

text \<open>Mark the node and report it, ignoring an error of the sink.\<close>

definition put_and_emit :: "Runner \<Rightarrow> string \<Rightarrow> NodeRunState \<Rightarrow> unit run" where
  "put_and_emit r i ns = do { set_node i ns; _ \<leftarrow> emit r; ret () }"

definition fail_node :: "surroundings \<Rightarrow> Runner \<Rightarrow> string \<Rightarrow> NodeRunState \<Rightarrow> PlanError \<Rightarrow> unit run" where
  "fail_node su r i ns err = do { t \<leftarrow> now su; put_and_emit r i (failedNode ns err t) }"

definition unknown_node :: "Runner \<Rightarrow> string \<Rightarrow> NodeRunState \<Rightarrow> PlanError \<Rightarrow> unit run" where
  "unknown_node r i ns err = put_and_emit r i (ns\<lparr>ns_Status := StatusUnknown, ns_Error := Some err\<rparr>)"

definition finish_node :: "surroundings \<Rightarrow> Runner \<Rightarrow> string \<Rightarrow> NodeRunState \<Rightarrow> NodeStatus \<Rightarrow> PlanError option run" where
  "finish_node su r i ns status = do {
     t \<leftarrow> now su;
     set_node i (ns\<lparr>ns_Status := status, ns_CompletedAt := t\<rparr>);
     emit r
   }"

section \<open>Waits\<close>

definition wait_expiry :: "surroundings \<Rightarrow> WaitSpec \<Rightarrow> timestamp run" where
  "wait_expiry su w =
     (if wa_ExpiresAt w = NoTime \<and> 0 < wa_ExpiresInMs w
      then ask (\<lambda>i. Time (su_now su i + sint (of_int (wa_ExpiresInMs w) * 1000000 :: i64)))
      else ret (wa_ExpiresAt w))"

definition wait_revision :: "RunState \<Rightarrow> Node \<Rightarrow> int" where
  "wait_revision s node = (case rs_Wait s of
     Some w \<Rightarrow> if ws_NodeID w = nd_ID node then ws_WaitRevision w + 1 else 1 | None \<Rightarrow> 1)"

definition wait_state :: "RunState \<Rightarrow> Node \<Rightarrow> WaitSpec \<Rightarrow> anymap \<Rightarrow> timestamp \<Rightarrow> WaitState" where
  "wait_state s node w correlation expires =
     \<lparr>ws_NodeID = nd_ID node,
      ws_WaitID = rs_RunID s @ CHR '':'' # nd_ID node @ CHR '':'' # Itoa (wait_revision s node),
      ws_WaitRevision = wait_revision s node, ws_SchemaRevision = wa_SchemaRevision w,
      ws_Trigger = wa_Trigger w, ws_Correlation = correlation, ws_InputSchema = wa_InputSchema w,
      ws_ExpiresAt = expires, ws_Status = RunStatusWaiting\<rparr>"

definition run_wait :: "surroundings \<Rightarrow> Runner \<Rightarrow> Document \<Rightarrow> Node \<Rightarrow> NodeRunState \<Rightarrow> WaitSpec \<Rightarrow>
    PlanError option run" where
  "run_wait su r doc node ns w = do {
     expires \<leftarrow> wait_expiry su w;
     s \<leftarrow> current;
     (case interpolateValue (evalContext doc s None) (map_any (wa_Correlation w)) of
        Inl e \<Rightarrow> do { fail_node su r (nd_ID node) ns e; ret (Some e) }
      | Inr v \<Rightarrow>
        (case (if v = ANil then Some (Some []) else as_map v) of
           None \<Rightarrow> do {
             fail_node su r (nd_ID node) ns (Errorf ''wait correlation must be an object'' []);
             ret (Some (Errorf ''wait correlation must be an object'' []))
           }
         | Some correlation \<Rightarrow> do {
             change (\<lambda>s. s\<lparr>rs_Wait := Some (wait_state s node w correlation expires),
               rs_Nodes := gomap_put (nd_ID node) (ns\<lparr>ns_Status := StatusWaiting\<rparr>) (rs_Nodes s),
               rs_Status := RunStatusWaiting, rs_Error := None\<rparr>);
             e \<leftarrow> emit r;
             ret (case e of Some err \<Rightarrow> Some err | None \<Rightarrow> Some ErrWaitReached)
           }))
   }"

section \<open>Recovery\<close>

datatype recovery =
    Returned "PlanError option"
  | GaveUp "PlanError option" "AssertionFailure option"

fun recovery_loop :: "surroundings \<Rightarrow> Runner \<Rightarrow> Document \<Rightarrow> Node \<Rightarrow> Recovery \<Rightarrow> NodeRunState \<Rightarrow>
    int \<Rightarrow> nat \<Rightarrow> PlanError option \<Rightarrow> AssertionFailure option \<Rightarrow> recovery run" where
  "recovery_loop su r doc node rc ns attempt 0 verr failure = ret (GaveUp verr failure)"
| "recovery_loop su r doc node rc ns attempt (Suc left) verr failure = do {
     s \<leftarrow> current;
     (case InterpolateArgs (rec_Args rc) (evalContext doc s None) of
        Inl e \<Rightarrow> ret (GaveUp (Some e) failure)
      | Inr args \<Rightarrow>
        (case validateArgs su r (rec_Tool rc) args of
           Some e \<Rightarrow> ret (Returned (Some e))
         | None \<Rightarrow> do {
             result \<leftarrow> dispatch r (rec_Tool rc) args;
             (case result of
                Inl e \<Rightarrow> do {
                  cancelled \<leftarrow> ctx_err su;
                  (case cancelled of
                     Some c \<Rightarrow> do { unknown_node r (nd_ID node) ns c; ret (Returned (Some e)) }
                   | None \<Rightarrow>
                     if left = 0 then ret (GaveUp (Some e) failure)
                     else do {
                       slept \<leftarrow> sleepBackoff su zero_retry (df_Retry (doc_Defaults doc)) attempt;
                       (case slept of
                          Some e' \<Rightarrow> ret (Returned (Some e'))
                        | None \<Rightarrow> recovery_loop su r doc node rc ns (attempt + 1) left (Some e) failure)
                     })
                }
              | Inr _ \<Rightarrow> do {
                  s' \<leftarrow> current;
                  checked \<leftarrow> validateNodeReady su r doc node None (rs_Outputs s') (rs_Context s');
                  (case checked of
                     Inl e \<Rightarrow> recovery_loop su r doc node rc ns (attempt + 1) left (Some e) failure
                   | Inr (observed, None) \<Rightarrow> do {
                       e \<leftarrow> finish_node su r (nd_ID node) (ns\<lparr>ns_Observed := observed\<rparr>) StatusApplied;
                       ret (Returned e)
                     }
                   | Inr (_, Some f) \<Rightarrow>
                       recovery_loop su r doc node rc ns (attempt + 1) left verr (Some f))
                })
           }))
   }"

definition recover :: "surroundings \<Rightarrow> Runner \<Rightarrow> Document \<Rightarrow> Node \<Rightarrow> NodeRunState \<Rightarrow>
    PlanError option \<Rightarrow> AssertionFailure option \<Rightarrow> recovery run" where
  "recover su r doc node ns verr failure = (case nd_Recover node of
     None \<Rightarrow> ret (GaveUp verr failure)
   | Some rc \<Rightarrow> recovery_loop su r doc node rc ns 1 (nat (recoveryAttempts rc)) verr failure)"

section \<open>The action of a node\<close>

definition note_failure :: "NodeRunState \<Rightarrow> PlanError option \<Rightarrow> AssertionFailure option \<Rightarrow> NodeRunState" where
  "note_failure ns verr failure =
     (let ns' = (if verr = None then ns else ns\<lparr>ns_Error := verr\<rparr>)
      in case failure of None \<Rightarrow> ns'
         | Some f \<Rightarrow> ns'\<lparr>ns_Observed := af_Observed f, ns_Expected := af_Expected f,
             ns_Error := Some (af_Message f)\<rparr>)"

text \<open>Sleep before the next attempt; a cancelled sleep leaves the node unknown.\<close>

definition pause :: "surroundings \<Rightarrow> Runner \<Rightarrow> Document \<Rightarrow> Node \<Rightarrow> NodeRunState \<Rightarrow> int \<Rightarrow> PlanError option run" where
  "pause su r doc node ns attempt = do {
     slept \<leftarrow> sleepBackoff su (nd_Retry node) (df_Retry (doc_Defaults doc)) attempt;
     (case slept of None \<Rightarrow> ret None
      | Some e \<Rightarrow> do {
          cancelled \<leftarrow> ctx_err su;
          (case cancelled of None \<Rightarrow> ret () | Some c \<Rightarrow> unknown_node r (nd_ID node) ns c);
          ret (Some e)
        })
   }"

fun attempt_loop :: "surroundings \<Rightarrow> Runner \<Rightarrow> Document \<Rightarrow> Node \<Rightarrow> Action \<Rightarrow> NodeRunState \<Rightarrow> int \<Rightarrow> nat \<Rightarrow>
    PlanError option run" where
  "attempt_loop su r doc node act ns attempt 0 = do {
     fail_node su r (nd_ID node) ns (Errorf ''node %q did not reach readiness'' [AStr (nd_ID node)]);
     ret (Some (Errorf ''node %q did not reach readiness'' [AStr (nd_ID node)]))
   }"
| "attempt_loop su r doc node act ns0 attempt (Suc left) = (let ns = ns0\<lparr>ns_Attempts := attempt\<rparr> in do {
     set_node (nd_ID node) ns;
     reported \<leftarrow> emit r;
     s \<leftarrow> current;
     (case reported of Some e \<Rightarrow> ret (Some e) | None \<Rightarrow>
     (case InterpolateArgs (ac_Args act) (evalContext doc s None) of Inl e \<Rightarrow> ret (Some e) | Inr args \<Rightarrow>
     (case validateArgs su r (ac_Tool act) args of Some e \<Rightarrow> ret (Some e) | None \<Rightarrow> do {
       result \<leftarrow> dispatch r (ac_Tool act) args;
       (case result of
          Inl e \<Rightarrow> do {
            cancelled \<leftarrow> ctx_err su;
            (case cancelled of
               Some c \<Rightarrow> do { unknown_node r (nd_ID node) ns c; ret (Some e) }
             | None \<Rightarrow>
               if left = 0 then do { fail_node su r (nd_ID node) (ns\<lparr>ns_Error := Some e\<rparr>) e; ret (Some e) }
               else do {
                 paused \<leftarrow> pause su r doc node (ns\<lparr>ns_Error := Some e\<rparr>) attempt;
                 (case paused of Some e' \<Rightarrow> ret (Some e')
                  | None \<Rightarrow> attempt_loop su r doc node act (ns\<lparr>ns_Error := Some e\<rparr>) (attempt + 1) left)
               })
          }
        | Inr content \<Rightarrow> (let out = structuredContent content; acted = ns\<lparr>ns_Output := out\<rparr> in
            (case validateOutput su r (ac_Tool act) out of
               Some e \<Rightarrow> do {
                 put_and_emit r (nd_ID node) (acted\<lparr>ns_Status := StatusFailed, ns_Error := Some e\<rparr>);
                 ret (Some e)
               }
             | None \<Rightarrow> do {
                 set_output (nd_ID node) out;
                 (if nd_Validate node = None then finish_node su r (nd_ID node) acted StatusApplied
                  else do {
                    s' \<leftarrow> current;
                    checked \<leftarrow> validateNodeReady su r doc node None (rs_Outputs s') (rs_Context s');
                    (case checked of
                       Inr (observed, None) \<Rightarrow>
                         finish_node su r (nd_ID node) (acted\<lparr>ns_Observed := observed\<rparr>) StatusApplied
                     | _ \<Rightarrow> do {
                         outcome \<leftarrow> recover su r doc node acted
                           (case checked of Inl e \<Rightarrow> Some e | Inr _ \<Rightarrow> None)
                           (case checked of Inl e \<Rightarrow> None | Inr (_, f) \<Rightarrow> f);
                         (case outcome of
                            Returned e \<Rightarrow> ret e
                          | GaveUp verr failure \<Rightarrow> (let noted = note_failure acted verr failure in
                              if left = 0 then attempt_loop su r doc node act noted (attempt + 1) 0
                              else do {
                                paused \<leftarrow> pause su r doc node noted attempt;
                                (case paused of Some e' \<Rightarrow> ret (Some e')
                                 | None \<Rightarrow> attempt_loop su r doc node act noted (attempt + 1) left)
                              }))
                       })
                  })
               })))
     })))
   })"

definition run_action :: "surroundings \<Rightarrow> Runner \<Rightarrow> Document \<Rightarrow> Node \<Rightarrow> NodeRunState \<Rightarrow> PlanError option run" where
  "run_action su r doc node ns = (case nd_Action node of
     None \<Rightarrow> do {
       fail_node su r (nd_ID node) ns (Errorf ''node %q has no action after validation failed'' [AStr (nd_ID node)]);
       ret (Some (Errorf ''node %q has no action after validation failed'' [AStr (nd_ID node)]))
     }
   | Some act \<Rightarrow> attempt_loop su r doc node act ns 1 (nat (attemptsFor node doc)))"

end
