(* ===== verification/Plan_Run.thy ===== *)
theory Plan_Run
  imports Plan_Runner
begin

text \<open>
  The rest of the plan runner (\<open>src/internal/plan/runner.go\<close>): iteration over a collection, a node
  with its preconditions, levels, convergence passes, compensation, \<open>Run\<close> and \<open>Resume\<close>.
\<close>

section \<open>Iteration\<close>

definition readiness_error :: "Node \<Rightarrow> AssertionFailure \<Rightarrow> PlanError" where
  "readiness_error node f =
     Wrapf ''forEach node %q did not reach readiness: %s'' [AStr (nd_ID node)] (af_Message f)"

definition check_error :: "Node \<Rightarrow> PlanError + any \<times> AssertionFailure option \<Rightarrow> PlanError option" where
  "check_error node checked = (case checked of
     Inl e \<Rightarrow> Some e
   | Inr (_, None) \<Rightarrow> None
   | Inr (_, Some f) \<Rightarrow> Some (readiness_error node f))"

fun recoverForEachItem :: "surroundings \<Rightarrow> Runner \<Rightarrow> Document \<Rightarrow> Node \<Rightarrow> Recovery \<Rightarrow> anymap \<Rightarrow>
    (string, any) gomap \<Rightarrow> (string, ContextEntry) gomap \<Rightarrow> int \<Rightarrow> nat \<Rightarrow> PlanError option \<Rightarrow>
    (PlanError + bool) run" where
  "recoverForEachItem su r doc node rc item outputs contexts attempt 0 lastErr =
     ret (case lastErr of Some e \<Rightarrow> Inl e | None \<Rightarrow> Inr False)"
| "recoverForEachItem su r doc node rc item outputs contexts attempt (Suc left) lastErr =
     (case InterpolateArgs (rec_Args rc) (evaluationContext doc outputs contexts item) of
        Inl e \<Rightarrow> ret (Inl e)
      | Inr args \<Rightarrow>
        (case validateArgs su r (rec_Tool rc) args of
           Some e \<Rightarrow> ret (Inl e)
         | None \<Rightarrow> do {
             result \<leftarrow> dispatch r (rec_Tool rc) args;
             outcome \<leftarrow> (case result of
                 Inl e \<Rightarrow> ret (Inr (Some e))
               | Inr content \<Rightarrow>
                 (case validateOutput su r (rec_Tool rc) (structuredContent content) of
                    Some e \<Rightarrow> ret (Inl (Inl e))
                  | None \<Rightarrow> do {
                      checked \<leftarrow> validateNodeReady su r doc node item outputs contexts;
                      ret (case check_error node checked of
                             None \<Rightarrow> Inl (Inr True) | Some e \<Rightarrow> Inr (Some e))
                    }));
             (case outcome of
                Inl stop \<Rightarrow> ret stop
              | Inr err \<Rightarrow>
                if left = 0 then recoverForEachItem su r doc node rc item outputs contexts (attempt + 1) 0 err
                else do {
                  slept \<leftarrow> sleepBackoff su (nd_Retry node) (df_Retry (doc_Defaults doc)) attempt;
                  (case slept of
                     Some e \<Rightarrow> ret (Inl e)
                   | None \<Rightarrow> recoverForEachItem su r doc node rc item outputs contexts (attempt + 1) left err)
                })
           }))"

text \<open>What follows a dispatched item: \<open>Inl\<close> ends the item, \<open>Inr\<close> is the error kept for a retry.\<close>

definition item_outcome :: "surroundings \<Rightarrow> Runner \<Rightarrow> Document \<Rightarrow> Node \<Rightarrow> Action \<Rightarrow> anymap \<Rightarrow>
    (string, any) gomap \<Rightarrow> (string, ContextEntry) gomap \<Rightarrow> PlanError + any option \<Rightarrow>
    ((PlanError + any) + PlanError option) run" where
  "item_outcome su r doc node act item outputs contexts result = (case result of
     Inl e \<Rightarrow> ret (Inr (Some e))
   | Inr content \<Rightarrow> (let out = structuredContent content in
       (case validateOutput su r (ac_Tool act) out of
          Some e \<Rightarrow> ret (Inl (Inl e))
        | None \<Rightarrow>
          if nd_Validate node = None then ret (Inl (Inr out))
          else do {
            checked \<leftarrow> validateNodeReady su r doc node item outputs contexts;
            (case check_error node checked of
               None \<Rightarrow> ret (Inl (Inr out))
             | Some e \<Rightarrow>
               (case nd_Recover node of
                  None \<Rightarrow> ret (Inr (Some e))
                | Some rc \<Rightarrow> do {
                    recovered \<leftarrow> recoverForEachItem su r doc node rc item outputs contexts 1
                      (nat (recoveryAttempts rc)) None;
                    ret (case recovered of Inr True \<Rightarrow> Inl (Inr out) | Inr False \<Rightarrow> Inr (Some e)
                         | Inl e' \<Rightarrow> Inr (Some e'))
                  }))
          })))"

fun runForEachItem :: "surroundings \<Rightarrow> Runner \<Rightarrow> Document \<Rightarrow> Node \<Rightarrow> Action \<Rightarrow> anymap \<Rightarrow>
    (string, any) gomap \<Rightarrow> (string, ContextEntry) gomap \<Rightarrow> bool \<Rightarrow> int \<Rightarrow> nat \<Rightarrow> PlanError option \<Rightarrow>
    (PlanError + any) run" where
  "runForEachItem su r doc node act item outputs contexts force attempt 0 lastErr =
     ret (Inl (case lastErr of Some e \<Rightarrow> e
       | None \<Rightarrow> Errorf ''forEach node %q did not complete'' [AStr (nd_ID node)]))"
| "runForEachItem su r doc node act item outputs contexts force attempt (Suc left) lastErr = do {
     cancelled \<leftarrow> ctx_err su;
     (case cancelled of Some e \<Rightarrow> ret (Inl e) | None \<Rightarrow> do {
       ready \<leftarrow> (if nd_Validate node \<noteq> None \<and> \<not> force
         then do { checked \<leftarrow> validateNodeReady su r doc node item outputs contexts; ret (Some checked) }
         else ret None);
       (case ready of
          Some (Inr (validated, None)) \<Rightarrow> ret (Inr validated)
        | _ \<Rightarrow>
          (case InterpolateArgs (ac_Args act) (evaluationContext doc outputs contexts item) of
             Inl e \<Rightarrow> ret (Inl e)
           | Inr args \<Rightarrow>
             (case validateArgs su r (ac_Tool act) args of
                Some e \<Rightarrow> ret (Inl e)
              | None \<Rightarrow> do {
                  result \<leftarrow> dispatch r (ac_Tool act) args;
                  outcome \<leftarrow> item_outcome su r doc node act item outputs contexts result;
                  (case outcome of
                     Inl stop \<Rightarrow> ret stop
                   | Inr err \<Rightarrow>
                     if left = 0
                     then runForEachItem su r doc node act item outputs contexts force (attempt + 1) 0 err
                     else do {
                       slept \<leftarrow> sleepBackoff su (nd_Retry node) (df_Retry (doc_Defaults doc)) attempt;
                       (case slept of
                          Some e \<Rightarrow> ret (Inl e)
                        | None \<Rightarrow> runForEachItem su r doc node act item outputs contexts force
                            (attempt + 1) left err)
                     })
                })))
     })
   }"

definition item_map :: "ForEach \<Rightarrow> any \<Rightarrow> anymap" where
  "item_map f item = (case as_map item of
     None \<Rightarrow> Some [(fe_As f, item)]
   | Some m \<Rightarrow> if fe_As f = [] then m else Some (gomap_put (fe_As f) item (entries m)))"

fun run_items :: "surroundings \<Rightarrow> Runner \<Rightarrow> Document \<Rightarrow> Node \<Rightarrow> ForEach \<Rightarrow> bool \<Rightarrow> any list \<Rightarrow> any list \<Rightarrow>
    (PlanError + any list) run" where
  "run_items su r doc node f force [] outputs = ret (Inr outputs)"
| "run_items su r doc node f force (item # items) outputs =
     (if fe_Filter f \<noteq> [] \<and> EvaluateAssertions (su_matches su) item (fe_Filter f) \<noteq> None
      then run_items su r doc node f force items outputs
      else case nd_Action node of
             None \<Rightarrow> ret (Inl (Errorf ''forEach node %q requires an action'' [AStr (nd_ID node)]))
           | Some act \<Rightarrow> do {
               s \<leftarrow> current;
               done_item \<leftarrow> runForEachItem su r doc node act (item_map f item) (rs_Outputs s) (rs_Context s)
                 force 1 (nat (attemptsFor node doc)) None;
               (case done_item of
                  Inl e \<Rightarrow> ret (Inl e)
                | Inr out \<Rightarrow> run_items su r doc node f force items (outputs @ [out]))
             })"

definition resolveSource :: "string \<Rightarrow> Document \<Rightarrow> RunState \<Rightarrow> PlanError + any" where
  "resolveSource source doc s =
     (if HasPrefix source ''${'' \<and> HasSuffix source ''}''
      then resolveReference (TrimSuffix (TrimPrefix source ''${'') ''}'')
        (evaluationContext doc (rs_Outputs s) (rs_Context s) None)
      else Inl (Errorf ''forEach source must be an interpolation reference'' []))"

definition source_items :: "ForEach \<Rightarrow> Document \<Rightarrow> RunState \<Rightarrow> PlanError + any list" where
  "source_items f doc s = (case resolveSource (fe_Source f) doc s of
     Inl e \<Rightarrow> Inl e
   | Inr v \<Rightarrow>
     (case (if fe_Path f = [] then Some v
            else case resolveJSONPointer v (fe_Path f) of Inr (Some x) \<Rightarrow> Some x | _ \<Rightarrow> None) of
        None \<Rightarrow> Inl (Errorf ''forEach source path %q was not found'' [AStr (fe_Path f)])
      | Some x \<Rightarrow>
        (case anySlice x of
           None \<Rightarrow> Inl (Errorf ''forEach source must be an array with at most %d items''
             [AFloat (f64_of_int (int maxFanOut))])
         | Some items \<Rightarrow>
           if maxFanOut < length items
           then Inl (Errorf ''forEach source must be an array with at most %d items''
             [AFloat (f64_of_int (int maxFanOut))])
           else Inr items)))"

definition runForEach :: "surroundings \<Rightarrow> Runner \<Rightarrow> Document \<Rightarrow> Node \<Rightarrow> ForEach \<Rightarrow> bool \<Rightarrow> PlanError option run" where
  "runForEach su r doc node f force = do {
     s \<leftarrow> current;
     (case source_items f doc s of
        Inl e \<Rightarrow> ret (Some e)
      | Inr items \<Rightarrow> do {
          done_items \<leftarrow> run_items su r doc node f force items [];
          (case done_items of
             Inl e \<Rightarrow> ret (Some e)
           | Inr outs \<Rightarrow> do {
               set_output (nd_ID node) (ASlice outs);
               finish_node su r (nd_ID node)
                 (zero_node_state\<lparr>ns_ID := nd_ID node, ns_Output := ASlice outs\<rparr>) StatusApplied
             })
        })
   }"

definition run_iteration :: "surroundings \<Rightarrow> Runner \<Rightarrow> Document \<Rightarrow> Node \<Rightarrow> ForEach \<Rightarrow> bool \<Rightarrow> PlanError option run" where
  "run_iteration su r doc node f force = do {
     err \<leftarrow> runForEach su r doc node f force;
     (case err of None \<Rightarrow> ret None
      | Some e \<Rightarrow> do {
          s \<leftarrow> current;
          cancelled \<leftarrow> ctx_err su;
          t \<leftarrow> now su;
          (let ns = (node_of s (nd_ID node))\<lparr>ns_ID := nd_ID node, ns_Error := Some e\<rparr>
           in put_and_emit r (nd_ID node)
             (if cancelled \<noteq> None then ns\<lparr>ns_Status := StatusUnknown\<rparr>
              else ns\<lparr>ns_Status := StatusFailed, ns_CompletedAt := t\<rparr>));
          ret (Some e)
        })
   }"

section \<open>One node\<close>

definition run_validated :: "surroundings \<Rightarrow> Runner \<Rightarrow> Document \<Rightarrow> Node \<Rightarrow> NodeRunState \<Rightarrow> bool \<Rightarrow>
    PlanError option run" where
  "run_validated su r doc node ns force =
     (if nd_Validate node = None \<or> force then run_action su r doc node ns
      else do {
        s \<leftarrow> current;
        first \<leftarrow> validateNode su r doc node None (rs_Outputs s) (rs_Context s);
        checked \<leftarrow> (if nd_Action node = None
          then validateNodeReady su r doc node None (rs_Outputs s) (rs_Context s) else ret first);
        (case checked of
           Inl e \<Rightarrow> do { fail_node su r (nd_ID node) ns e; ret (Some e) }
         | Inr (result, None) \<Rightarrow> do {
             t \<leftarrow> now su;
             set_node (nd_ID node) (ns\<lparr>ns_Status := StatusSatisfied, ns_Output := result,
               ns_Observed := result, ns_CompletedAt := t\<rparr>);
             set_output (nd_ID node) result;
             emit r
           }
         | Inr (_, Some _) \<Rightarrow> run_action su r doc node ns)
      })"

definition runNode :: "surroundings \<Rightarrow> Runner \<Rightarrow> Document \<Rightarrow> Node \<Rightarrow> bool \<Rightarrow> PlanError option run" where
  "runNode su r doc node force = do {
     started \<leftarrow> now su;
     (let ns = (node_state (nd_ID node) StatusPending None)\<lparr>ns_StartedAt := started\<rparr> in do {
       set_node (nd_ID node) ns;
       reported \<leftarrow> emit r;
       s \<leftarrow> current;
       (case reported of Some e \<Rightarrow> ret (Some e) | None \<Rightarrow>
       (case validateTarget r doc node s of
          Some e \<Rightarrow> do { fail_node su r (nd_ID node) ns e; ret (Some e) }
        | None \<Rightarrow>
       (case nd_Wait node of
          Some w \<Rightarrow> run_wait su r doc node ns w
        | None \<Rightarrow>
       (case nd_ForEach node of
          Some f \<Rightarrow> run_iteration su r doc node f force
        | None \<Rightarrow> run_validated su r doc node ns force))))
     })
   }"

definition blocking :: "NodeStatus \<Rightarrow> bool" where
  "blocking status \<longleftrightarrow> status \<in> {StatusFailed, StatusUnknown, StatusSkipped, StatusCompensationFailed,
     StatusWaiting, StatusExpired}"

definition blockedByDependency :: "Node \<Rightarrow> RunState \<Rightarrow> bool" where
  "blockedByDependency node s \<longleftrightarrow> list_ex (\<lambda>d. blocking (status_of s d)) (nd_DependsOn node)"

definition dependencyApplied :: "RunState \<Rightarrow> Node \<Rightarrow> bool" where
  "dependencyApplied s node \<longleftrightarrow> list_ex (\<lambda>d. status_of s d = StatusApplied) (nd_DependsOn node)"

definition when_value :: "Document \<Rightarrow> RunState \<Rightarrow> any" where
  "when_value doc s = AMap [(''vars'', map_any (doc_Variables doc)), (''nodes'', AMap (rs_Outputs s)),
     (''context'', AMap (contextValues (rs_Context s)))]"

text \<open>A node that was done before: revalidate it, or run it again when its observation failed.\<close>

definition revisit :: "surroundings \<Rightarrow> Runner \<Rightarrow> Document \<Rightarrow> Node \<Rightarrow> PlanError option run" where
  "revisit su r doc node = do {
     s \<leftarrow> current;
     (if nd_Validate node = None
      then do {
        set_node (nd_ID node) ((node_of s (nd_ID node))\<lparr>ns_Status := StatusSatisfied\<rparr>);
        ret None
      }
      else do {
        checked \<leftarrow> validateNodeReady su r doc node None (rs_Outputs s) (rs_Context s);
        (case checked of
           Inl e \<Rightarrow> ret (Some e)
         | Inr (result, None) \<Rightarrow> do {
             set_node (nd_ID node) ((node_of s (nd_ID node))\<lparr>ns_Status := StatusSatisfied,
               ns_Output := result, ns_Observed := result\<rparr>);
             set_output (nd_ID node) result;
             ret None
           }
         | Inr (_, Some _) \<Rightarrow> do {
             set_node (nd_ID node) (node_state (nd_ID node) StatusPending None);
             drop_output (nd_ID node);
             runNode su r doc node False
           })
      })
   }"

definition runNodeWithPreconditions :: "surroundings \<Rightarrow> Runner \<Rightarrow> Document \<Rightarrow> Node \<Rightarrow> PlanError option run" where
  "runNodeWithPreconditions su r doc node = do {
     cancelled \<leftarrow> ctx_err su;
     s \<leftarrow> current;
     (case cancelled of
        Some e \<Rightarrow> do { set_node (nd_ID node) (node_state (nd_ID node) StatusUnknown (Some e)); ret (Some e) }
      | None \<Rightarrow>
        if blockedByDependency node s then do {
          set_node (nd_ID node) (node_state (nd_ID node) StatusSkipped
            (Some (Errorf ''dependency did not complete'' [])));
          ret (if nd_ContinueOnFailure node then None
               else Some (Errorf ''node %s dependency failed'' [AStr (nd_ID node)]))
        }
        else case EvaluateAssertions (su_matches su) (when_value doc s) (nd_When node) of
          Some failure \<Rightarrow> do {
            set_node (nd_ID node) (node_state (nd_ID node) StatusSkipped (Some (af_Message failure)));
            ret None
          }
        | None \<Rightarrow>
          if status_of s (nd_ID node) \<in> {StatusApplied, StatusSatisfied} \<and> \<not> dependencyApplied s node
          then revisit su r doc node
          else runNode su r doc node (dependencyApplied s node))
   }"

end
