(* ===== verification/Plan_Passes.thy ===== *)
theory Plan_Passes
  imports Plan_Run
begin

text \<open>
  Levels, convergence passes, compensation and the two entry points \<open>Run\<close> and \<open>Resume\<close> of the plan
  runner (\<open>src/internal/plan/runner.go\<close>). The value returned next to the error is the run state of
  the machine. The maps of a run state are never nil here: \<open>Run\<close> and \<open>Resume\<close> create missing ones.
\<close>

section \<open>Levels\<close>

text \<open>A level with a wait runs its nodes one by one and stops at the first error.\<close>

fun run_barrier :: "surroundings \<Rightarrow> Runner \<Rightarrow> Document \<Rightarrow> Node list \<Rightarrow> PlanError option run" where
  "run_barrier su r doc [] = ret None"
| "run_barrier su r doc (node # nodes) = do {
     err \<leftarrow> runNodeWithPreconditions su r doc node;
     (case err of Some e \<Rightarrow> ret (Some e) | None \<Rightarrow> run_barrier su r doc nodes)
   }"

fun run_serial :: "surroundings \<Rightarrow> Runner \<Rightarrow> Document \<Rightarrow> Node list \<Rightarrow> PlanError option run" where
  "run_serial su r doc [] = ret None"
| "run_serial su r doc (node # nodes) = do {
     err \<leftarrow> runNodeWithPreconditions su r doc node;
     (case err of
        Some e \<Rightarrow> if nd_ContinueOnFailure node then run_serial su r doc nodes else ret (Some e)
      | None \<Rightarrow> run_serial su r doc nodes)
   }"

text \<open>Each node works on its clone of the state; the results carry the clones.\<close>

fun run_clones :: "surroundings \<Rightarrow> Runner \<Rightarrow> Document \<Rightarrow> RunState \<Rightarrow> Node list \<Rightarrow>
    (Node \<times> RunState \<times> PlanError option) list run" where
  "run_clones su r doc s [] = do { change (\<lambda>_. s); ret [] }"
| "run_clones su r doc s (node # nodes) = do {
     change (\<lambda>_. s);
     err \<leftarrow> runNodeWithPreconditions su (r\<lparr>ru_Sink := None\<rparr>) doc node;
     local \<leftarrow> current;
     results \<leftarrow> run_clones su r doc s nodes;
     ret ((node, local, err) # results)
   }"

fun merge_results :: "Runner \<Rightarrow> (Node \<times> RunState \<times> PlanError option) list \<Rightarrow> PlanError option run" where
  "merge_results r [] = ret None"
| "merge_results r ((node, local, err) # results) = do {
     set_node (nd_ID node) (node_of local (nd_ID node));
     (case gomap_get (rs_Outputs local) (nd_ID node) of
        None \<Rightarrow> ret () | Some out \<Rightarrow> set_output (nd_ID node) out);
     reported \<leftarrow> emit r;
     (case reported of Some e \<Rightarrow> ret (Some e) | None \<Rightarrow> merge_results r results)
   }"

fun first_failure :: "(Node \<times> RunState \<times> PlanError option) list \<Rightarrow> PlanError option" where
  "first_failure [] = None"
| "first_failure ((node, local, err) # results) =
     (if err \<noteq> None \<and> \<not> nd_ContinueOnFailure node then err else first_failure results)"

definition run_parallel :: "surroundings \<Rightarrow> Runner \<Rightarrow> Document \<Rightarrow> Node list \<Rightarrow> PlanError option run" where
  "run_parallel su r doc level = do {
     s \<leftarrow> current;
     results \<leftarrow> run_clones su r doc s level;
     merged \<leftarrow> merge_results r results;
     ret (case merged of Some e \<Rightarrow> Some e | None \<Rightarrow> first_failure results)
   }"

definition runLevel :: "surroundings \<Rightarrow> Runner \<Rightarrow> Document \<Rightarrow> Node list \<Rightarrow> PlanError option run" where
  "runLevel su r doc level =
     (if list_ex (\<lambda>n. nd_Wait n \<noteq> None) level then run_barrier su r doc level
      else let maxConcurrency = (if cv_MaxConcurrency (doc_Converge doc) \<le> 0 then int (length level)
             else cv_MaxConcurrency (doc_Converge doc))
        in if maxConcurrency \<le> 1 \<or> length level \<le> 1 then run_serial su r doc level
           else run_parallel su r doc level)"

fun run_levels :: "surroundings \<Rightarrow> Runner \<Rightarrow> Document \<Rightarrow> Node list list \<Rightarrow> PlanError option run" where
  "run_levels su r doc [] = ret None"
| "run_levels su r doc (level # levels) = do {
     err \<leftarrow> runLevel su r doc level;
     (case err of Some e \<Rightarrow> ret (Some e) | None \<Rightarrow> run_levels su r doc levels)
   }"

section \<open>Convergence\<close>

definition settled :: "NodeStatus \<Rightarrow> bool" where
  "settled status \<longleftrightarrow> status = StatusApplied \<or> status = StatusSatisfied \<or> status = StatusSkipped"

text \<open>The readiness sweep: \<open>Inr False\<close> asks for another pass.\<close>

fun recheck_nodes :: "surroundings \<Rightarrow> Runner \<Rightarrow> Document \<Rightarrow> Node list \<Rightarrow> (PlanError + bool) run" where
  "recheck_nodes su r doc [] = ret (Inr True)"
| "recheck_nodes su r doc (node # nodes) = do {
     s \<leftarrow> current;
     (if \<not> settled (status_of s (nd_ID node)) then ret (Inr False)
      else if nd_Validate node = None \<or> status_of s (nd_ID node) = StatusSkipped
      then recheck_nodes su r doc nodes
      else do {
        checked \<leftarrow> validateNodeReady su r doc node None (rs_Outputs s) (rs_Context s);
        (case checked of
           Inl e \<Rightarrow> ret (Inl e)
         | Inr (_, Some failure) \<Rightarrow> do {
             set_node (nd_ID node) (node_state (nd_ID node) StatusPending (Some (af_Message failure)));
             drop_output (nd_ID node);
             _ \<leftarrow> emit r;
             ret (Inr False)
           }
         | Inr (result, None) \<Rightarrow> do {
             set_node (nd_ID node) ((node_of s (nd_ID node))\<lparr>ns_Status := StatusSatisfied,
               ns_Output := result, ns_Observed := result\<rparr>);
             set_output (nd_ID node) result;
             recheck_nodes su r doc nodes
           })
      })
   }"

definition all_settled :: "Document \<Rightarrow> RunState \<Rightarrow> bool" where
  "all_settled doc s \<longleftrightarrow> list_all (\<lambda>n. settled (status_of s (nd_ID n))) (doc_Nodes doc)"

definition checkConverged :: "surroundings \<Rightarrow> Runner \<Rightarrow> Document \<Rightarrow> Node list list \<Rightarrow> bool \<Rightarrow>
    (PlanError + bool) run" where
  "checkConverged su r doc levels recheck = do {
     swept \<leftarrow> (if recheck then recheck_nodes su r doc (concat levels) else ret (Inr True));
     (case swept of
        Inl e \<Rightarrow> ret (Inl e)
      | Inr False \<Rightarrow> ret (Inr False)
      | Inr True \<Rightarrow> do { s \<leftarrow> current; ret (Inr (all_settled doc s)) })
   }"

section \<open>Compensation\<close>

definition compensate :: "surroundings \<Rightarrow> Runner \<Rightarrow> Document \<Rightarrow> Node \<Rightarrow> Action \<Rightarrow> PlanError option run" where
  "compensate su r doc node act = do {
     s \<leftarrow> current;
     (case InterpolateArgs (ac_Args act) (evalContext doc s None) of
        Inl e \<Rightarrow> ret (Some e)
      | Inr args \<Rightarrow>
        (case validateArgs su r (ac_Tool act) args of
           Some e \<Rightarrow> do {
             put_and_emit r (nd_ID node) (node_state (nd_ID node) StatusCompensationFailed (Some e));
             ret (Some e)
           }
         | None \<Rightarrow> do {
             result \<leftarrow> dispatch r (ac_Tool act) args;
             s' \<leftarrow> current;
             (case result of
                Inl e \<Rightarrow> do {
                  put_and_emit r (nd_ID node) ((node_of s' (nd_ID node))\<lparr>ns_ID := nd_ID node,
                    ns_Status := StatusCompensationFailed, ns_Error := Some e\<rparr>);
                  ret (Some e)
                }
              | Inr _ \<Rightarrow> finish_node su r (nd_ID node)
                  ((node_of s' (nd_ID node))\<lparr>ns_ID := nd_ID node\<rparr>) StatusCompensated)
           }))
   }"

fun compensate_nodes :: "surroundings \<Rightarrow> Runner \<Rightarrow> Document \<Rightarrow> Node list \<Rightarrow> PlanError option \<Rightarrow>
    PlanError option run" where
  "compensate_nodes su r doc [] firstErr = ret firstErr"
| "compensate_nodes su r doc (node # nodes) firstErr = do {
     s \<leftarrow> current;
     (case nd_Compensate node of
        Some act \<Rightarrow>
          if status_of s (nd_ID node) \<noteq> StatusApplied then compensate_nodes su r doc nodes firstErr
          else do {
            err \<leftarrow> compensate su r doc node act;
            compensate_nodes su r doc nodes (if firstErr = None then err else firstErr)
          }
      | None \<Rightarrow> compensate_nodes su r doc nodes firstErr)
   }"

definition compensateApplied :: "surroundings \<Rightarrow> Runner \<Rightarrow> Document \<Rightarrow> PlanError option run" where
  "compensateApplied su r doc = (case ReverseTopologicalNodes doc of
     Inl e \<Rightarrow> ret (Some e)
   | Inr ordered \<Rightarrow> compensate_nodes su r doc ordered None)"

definition abortRun :: "surroundings \<Rightarrow> Runner \<Rightarrow> Document \<Rightarrow> PlanError \<Rightarrow> PlanError option run" where
  "abortRun su r doc runErr = do {
     cancelled \<leftarrow> ctx_err su;
     change (\<lambda>s. s\<lparr>rs_Status := (if cancelled = None then ''failed'' else ''unknown''),
       rs_Error := Some runErr\<rparr>);
     _ \<leftarrow> emit r;
     _ \<leftarrow> compensateApplied su r doc;
     ret (Some runErr)
   }"

section \<open>Run\<close>

definition complete_run :: "Runner \<Rightarrow> PlanError option \<Rightarrow> PlanError option run" where
  "complete_run r message = do {
     change (\<lambda>s. s\<lparr>rs_Status := ''completed'', rs_Error := message\<rparr>);
     emit r
   }"

definition run_passes_limit :: "Document \<Rightarrow> int" where
  "run_passes_limit doc = (if passes_of doc \<le> 0 then 1 else passes_of doc)"

fun run_passes :: "surroundings \<Rightarrow> Runner \<Rightarrow> Document \<Rightarrow> Node list list \<Rightarrow> nat \<Rightarrow> PlanError option run" where
  "run_passes su r doc levels 0 =
     (let message = Errorf ''plan did not converge after %d passes''
        [AFloat (f64_of_int (run_passes_limit doc))]
      in if cv_AbortOnExhaustion (doc_Converge doc) then abortRun su r doc message
         else complete_run r (Some message))"
| "run_passes su r doc levels (Suc left) = do {
     err \<leftarrow> run_levels su r doc levels;
     (case err of
        Some e \<Rightarrow> if errors_Is e ErrWaitReached then ret None else abortRun su r doc e
      | None \<Rightarrow> do {
          converged \<leftarrow> checkConverged su r doc levels (0 < left);
          (case converged of
             Inl e \<Rightarrow> abortRun su r doc e
           | Inr True \<Rightarrow> complete_run r None
           | Inr False \<Rightarrow> run_passes su r doc levels left)
        })
   }"

definition waits :: "RunState \<Rightarrow> bool" where
  "waits s \<longleftrightarrow> rs_Status s = RunStatusWaiting \<and>
     (case rs_Wait s of None \<Rightarrow> False | Some w \<Rightarrow> ws_Status w = RunStatusWaiting)"

definition Run :: "surroundings \<Rightarrow> Runner \<Rightarrow> Document \<Rightarrow> PlanError option run" where
  "Run su r doc = do {
     s \<leftarrow> current;
     (case Validate (su_matches su) doc (ru_Capabilities r) (ru_CatalogRevision r) of
        Some e \<Rightarrow> ret (Some e)
      | None \<Rightarrow>
        if waits s then ret None
        else case TopologicalLevels doc of
               Inl e \<Rightarrow> ret (Some e)
             | Inr levels \<Rightarrow> do {
                 change (\<lambda>s. s\<lparr>rs_PlanID := doc_PlanID doc, rs_Generation := doc_Generation doc,
                   rs_Status := ''running''\<rparr>);
                 reported \<leftarrow> emit r;
                 (case reported of Some e \<Rightarrow> ret (Some e)
                  | None \<Rightarrow> run_passes su r doc levels (nat (run_passes_limit doc)))
               })
   }"

section \<open>Resume\<close>

definition conflict :: "string \<Rightarrow> any list \<Rightarrow> PlanError" where
  "conflict text args = Wrapf (''%w: '' @ text) args ErrResumeConflict"

definition delta_conflict :: "string \<Rightarrow> ContextDelta \<Rightarrow> PlanError option" where
  "delta_conflict source d =
     (if cd_Provenance d = ''operator'' \<and> source \<noteq> ''operator''
      then Some (conflict ''context %q accepts operator input only'' [AStr (cd_Name d)])
      else if cd_Provenance d = ''authenticated-event'' \<and> source \<noteq> ''authenticated-event''
      then Some (conflict ''context %q requires an authenticated event'' [AStr (cd_Name d)])
      else None)"

definition wait_expired :: "timestamp \<Rightarrow> int \<Rightarrow> bool" where
  "wait_expired expires t = (case expires of NoTime \<Rightarrow> False | Time e \<Rightarrow> \<not> t < e | BadTime _ \<Rightarrow> True)"

definition ValidateResume :: "regexp \<Rightarrow> Document \<Rightarrow> RunState \<Rightarrow> ResumeRequest \<Rightarrow> int \<Rightarrow> PlanError option" where
  "ValidateResume matches doc s request t = (case rs_Wait s of
     None \<Rightarrow> Some (conflict ''run is not waiting'' [])
   | Some w \<Rightarrow>
     if \<not> waits s then Some (conflict ''run is not waiting'' [])
     else if rr_WaitNodeID request \<noteq> ws_NodeID w \<or> rr_WaitRevision request \<noteq> ws_WaitRevision w \<or>
       rr_SchemaRevision request \<noteq> ws_SchemaRevision w
     then Some (conflict ''wait revision, node, or schema does not match'' [])
     else if \<not> jsonEqual (map_any (rr_Correlation request)) (map_any (ws_Correlation w))
     then Some (conflict ''wait correlation does not match'' [])
     else if TrimSpace (rr_Source request) = [] then Some (conflict ''resume source is required'' [])
     else if rr_Source request \<noteq> ''operator'' \<and> rr_Source request \<noteq> ''authenticated-event''
     then Some (conflict ''unsupported resume source %q'' [AStr (rr_Source request)])
     else case (case nodeByID doc (ws_NodeID w) of None \<Rightarrow> None | Some n \<Rightarrow> nd_Wait n) of
            None \<Rightarrow> Some (conflict ''wait node %q is not declared'' [AStr (ws_NodeID w)])
          | Some spec \<Rightarrow>
            if wt_Kind (ws_Trigger w) = ''operator'' \<and> rr_Source request \<noteq> ''operator''
            then Some (conflict ''this wait accepts operator input only'' [])
            else or_else (first_error (delta_conflict (rr_Source request)) (wa_ContextDelta spec))
              (if wait_expired (ws_ExpiresAt w) t then Some ErrWaitExpired
               else map_option (\<lambda>e. conflict ''input: %v'' [])
                 (ValidateJSON matches (ws_InputSchema w) (map_any (rr_Input request)))))"

definition delta_entry :: "Node \<Rightarrow> WaitSpec \<Rightarrow> ResumeRequest \<Rightarrow> ContextDelta \<Rightarrow> any \<Rightarrow> timestamp \<Rightarrow> ContextEntry" where
  "delta_entry node spec request d value t =
     \<lparr>ce_Name = cd_Name d, ce_Value = value, ce_Schema = cd_Schema d,
      ce_SchemaRevision = wa_SchemaRevision spec, ce_ProducerNode = nd_ID node,
      ce_Source = rr_Source request, ce_Secret = cd_Secret d, ce_RecordedAt = t\<rparr>"

fun apply_deltas :: "surroundings \<Rightarrow> Document \<Rightarrow> Node \<Rightarrow> WaitSpec \<Rightarrow> ResumeRequest \<Rightarrow> ContextDelta list \<Rightarrow>
    PlanError option run" where
  "apply_deltas su doc node spec request [] = ret None"
| "apply_deltas su doc node spec request (d # ds) = do {
     s \<leftarrow> current;
     (case interpolateValue \<lparr>ev_Variables = doc_Variables doc, ev_NodeOutput = rs_Outputs s, ev_Item = None,
           ev_Input = rr_Input request, ev_Context = Some (contextValues (rs_Context s))\<rparr> (AStr (cd_Value d)) of
        Inl e \<Rightarrow> ret (Some (Wrapf ''context delta %q: %w'' [AStr (cd_Name d)] e))
      | Inr value \<Rightarrow>
        (case ValidateJSON (su_matches su) (cd_Schema d) value of
           Some e \<Rightarrow> ret (Some (Wrapf ''context delta %q: %w'' [AStr (cd_Name d)] e))
         | None \<Rightarrow> do {
             t \<leftarrow> now su;
             (let entry = delta_entry node spec request d value t in
              change (\<lambda>s. s\<lparr>rs_Context := gomap_put (cd_Name d) entry (rs_Context s),
                rs_ContextHistory := rs_ContextHistory s @ [entry]\<rparr>));
             apply_deltas su doc node spec request ds
           }))
   }"

definition expire_wait :: "surroundings \<Rightarrow> Runner \<Rightarrow> ResumeRequest \<Rightarrow> PlanError \<Rightarrow> unit run" where
  "expire_wait su r request e = do {
     t \<leftarrow> now su;
     change (\<lambda>s. s\<lparr>rs_Status := RunStatusExpired,
       rs_Wait := map_option (\<lambda>w. w\<lparr>ws_Status := RunStatusExpired\<rparr>) (rs_Wait s),
       rs_Nodes := (case gomap_get (rs_Nodes s) (rr_WaitNodeID request) of None \<Rightarrow> rs_Nodes s
         | Some ns \<Rightarrow> gomap_put (rr_WaitNodeID request) (ns\<lparr>ns_Status := StatusExpired,
             ns_Error := Some e, ns_CompletedAt := t\<rparr>) (rs_Nodes s)),
       rs_Error := Some e\<rparr>);
     _ \<leftarrow> emit r;
     ret ()
   }"

definition Resume :: "surroundings \<Rightarrow> Runner \<Rightarrow> Document \<Rightarrow> ResumeRequest \<Rightarrow> PlanError option run" where
  "Resume su r doc request = do {
     s \<leftarrow> current;
     (case Validate (su_matches su) doc (ru_Capabilities r) (ru_CatalogRevision r) of
        Some e \<Rightarrow> ret (Some e)
      | None \<Rightarrow> do {
          fenced \<leftarrow> ask (\<lambda>i. ValidateResume (su_matches su) doc s request (su_now su i));
          (case fenced of
             Some e \<Rightarrow> do {
               (if errors_Is e ErrWaitExpired then expire_wait su r request e else ret ());
               ret (Some e)
             }
           | None \<Rightarrow>
             (case rs_Wait s of
                None \<Rightarrow> ret (Some (conflict ''run is not waiting'' []))
              | Some w \<Rightarrow>
             (case nodeByID doc (ws_NodeID w) of
                None \<Rightarrow> ret (Some (conflict ''wait node %q is not declared'' [AStr (ws_NodeID w)]))
              | Some node \<Rightarrow>
             (case nd_Wait node of
                None \<Rightarrow> ret (Some (conflict ''wait node %q is not declared'' [AStr (ws_NodeID w)]))
              | Some spec \<Rightarrow> do {
                  applied \<leftarrow> apply_deltas su doc node spec request (wa_ContextDelta spec);
                  (case applied of
                     Some e \<Rightarrow> ret (Some e)
                   | None \<Rightarrow> do {
                       t \<leftarrow> now su;
                       change (\<lambda>s. s\<lparr>rs_Nodes := gomap_put (nd_ID node)
                           ((node_state (nd_ID node) StatusSatisfied None)\<lparr>ns_CompletedAt := t\<rparr>) (rs_Nodes s),
                         rs_Wait := None, rs_Status := ''running'', rs_Error := None\<rparr>);
                       reported \<leftarrow> emit r;
                       (case reported of Some e \<Rightarrow> ret (Some e) | None \<Rightarrow> Run su r doc)
                     })
                }))))
        })
   }"

end
