(* ===== verification/Plan_Logic.thy ===== *)
theory Plan_Logic
  imports Plan_Passes
begin

text \<open>
  A Hoare logic for the plan runner: triples over the machine with rules for the monad's
  combinators and the runner's primitives, and the interface through which a property of every
  single event becomes a property of every run.
\<close>

section \<open>Triples\<close>

named_theorems triple_rules \<open>rules that take a triple apart along the program text\<close>

definition triple :: "(machine \<Rightarrow> bool) \<Rightarrow> 'a run \<Rightarrow> ('a \<Rightarrow> machine \<Rightarrow> bool) \<Rightarrow> bool" where
  "triple P c Q \<longleftrightarrow> (\<forall>m a m'. P m \<longrightarrow> run_state c m = (a, m') \<longrightarrow> Q a m')"

lemma tripleD: "triple P c Q \<Longrightarrow> P m \<Longrightarrow> run_state c m = (a, m') \<Longrightarrow> Q a m'"
  by (simp add: triple_def)

lemma tripleI: "(\<And>m a m'. P m \<Longrightarrow> run_state c m = (a, m') \<Longrightarrow> Q a m') \<Longrightarrow> triple P c Q"
  by (simp add: triple_def)

lemma triple_mono:
  "triple P' c Q' \<Longrightarrow> (\<And>m. P m \<Longrightarrow> P' m) \<Longrightarrow> (\<And>a m. Q' a m \<Longrightarrow> Q a m) \<Longrightarrow> triple P c Q"
  unfolding triple_def by blast

lemma triple_bind:
  "triple P c R \<Longrightarrow> (\<And>a. triple (R a) (f a) Q) \<Longrightarrow> triple P (State_Monad.bind c f) Q"
  by (fastforce simp: triple_def split: prod.splits)

lemma triple_ret: "(\<And>m. P m \<Longrightarrow> Q a m) \<Longrightarrow> triple P (ret a) Q"
  by (simp add: triple_def)

section \<open>Invariants\<close>

abbreviation keeps :: "(machine \<Rightarrow> bool) \<Rightarrow> 'a run \<Rightarrow> bool" where
  "keeps I c \<equiv> triple I c (\<lambda>_. I)"

lemma keeps_bind [triple_rules]:
  "keeps I c \<Longrightarrow> (\<And>a. keeps I (f a)) \<Longrightarrow> keeps I (State_Monad.bind c f)"
  by (rule triple_bind)

lemma keeps_ret [triple_rules]: "keeps I (ret a)"
  by (rule triple_ret)

lemma keeps_if [triple_rules]: "(b \<Longrightarrow> keeps I c) \<Longrightarrow> (\<not> b \<Longrightarrow> keeps I d) \<Longrightarrow> keeps I (if b then c else d)"
  by simp

lemma keeps_let [triple_rules]: "(\<And>x. x = v \<Longrightarrow> keeps I (f x)) \<Longrightarrow> keeps I (let x = v in f x)"
  by simp

lemma keeps_option [triple_rules]:
  "(x = None \<Longrightarrow> keeps I c) \<Longrightarrow> (\<And>y. x = Some y \<Longrightarrow> keeps I (d y)) \<Longrightarrow>
   keeps I (case x of None \<Rightarrow> c | Some y \<Rightarrow> d y)"
  by (cases x) simp_all

lemma keeps_sum [triple_rules]:
  "(\<And>y. x = Inl y \<Longrightarrow> keeps I (c y)) \<Longrightarrow> (\<And>y. x = Inr y \<Longrightarrow> keeps I (d y)) \<Longrightarrow>
   keeps I (case x of Inl y \<Rightarrow> c y | Inr y \<Rightarrow> d y)"
  by (cases x) simp_all

lemma keeps_prod [triple_rules]:
  "(\<And>y z. x = (y, z) \<Longrightarrow> keeps I (c y z)) \<Longrightarrow> keeps I (case x of (y, z) \<Rightarrow> c y z)"
  by (cases x) simp

lemma keeps_bool [triple_rules]:
  "(x \<Longrightarrow> keeps I c) \<Longrightarrow> (\<not> x \<Longrightarrow> keeps I d) \<Longrightarrow> keeps I (case x of True \<Rightarrow> c | False \<Rightarrow> d)"
  by (cases x) simp_all

lemma keeps_recovery [triple_rules]:
  "(\<And>e. x = Returned e \<Longrightarrow> keeps I (c e)) \<Longrightarrow> (\<And>e f. x = GaveUp e f \<Longrightarrow> keeps I (d e f)) \<Longrightarrow>
   keeps I (case x of Returned e \<Rightarrow> c e | GaveUp e f \<Rightarrow> d e f)"
  by (cases x) simp_all

section \<open>Laws of nodes and of events\<close>

text \<open>
  A law \<open>st\<close> of run states that survives every change the execution of nodes makes, together with
  a law \<open>ok\<close> of events that holds of every state reported from a lawful state, of every delay the
  backoff computes, and of every call whose arguments passed \<open>validateArgs\<close>. Executing nodes then
  keeps both of what follows the log \<open>before\<close>, whatever the surroundings answer.
\<close>

locale node_law =
  fixes su :: surroundings and caps :: capabilities and st :: "RunState \<Rightarrow> bool"
    and before :: "event list" and ok :: "event \<Rightarrow> bool"
  assumes node_change: "st s \<Longrightarrow> st (s\<lparr>rs_Nodes := ns\<rparr>)"
    and output_change: "st s \<Longrightarrow> st (s\<lparr>rs_Outputs := os\<rparr>)"
    and wait_change: "st s \<Longrightarrow> st (s\<lparr>rs_Wait := Some w, rs_Nodes := ns, rs_Status := RunStatusWaiting,
      rs_Error := None\<rparr>)"
    and emitted: "st s \<Longrightarrow> ok (Emitted (redactedRunState s))"
    and slept: "backoff_delay node defaults attempt = Some d \<Longrightarrow> ok (Slept d)"
    and dispatched: "ru_Capabilities r = caps \<Longrightarrow> validateArgs su r tool args = None \<Longrightarrow>
      ok (Dispatched tool args)"
begin

definition lawful :: "machine \<Rightarrow> bool" where
  "lawful m \<longleftrightarrow> st (ma_state m) \<and> (\<exists>more. ma_log m = before @ more \<and> list_all ok more)"

lemma lawful_start: "st (ma_state m) \<Longrightarrow> ma_log m = before \<Longrightarrow> lawful m"
  by (simp add: lawful_def)

lemma lawful_state: "lawful m \<Longrightarrow> st (ma_state m)"
  by (simp add: lawful_def)

lemma keeps_ask [triple_rules]: "keeps lawful (ask f)"
  by (auto simp: triple_def ask_def lawful_def)

lemma keeps_current [triple_rules]: "keeps lawful current"
  by (auto simp: triple_def current_def)

lemma keeps_change: "(\<And>s. st s \<Longrightarrow> st (f s)) \<Longrightarrow> keeps lawful (change f)"
  by (auto simp: triple_def change_def lawful_def)

lemma lawful_note: "lawful m \<Longrightarrow> ok e \<Longrightarrow> lawful (m\<lparr>ma_log := ma_log m @ [e]\<rparr>)"
  unfolding lawful_def by (elim conjE exE) (rule conjI, simp, rule_tac x = "more @ [e]" in exI, simp)

lemma keeps_note: "ok e \<Longrightarrow> keeps lawful (note_event e)"
  by (simp add: triple_def note_event_def lawful_note)

lemma keeps_bind_current:
  assumes "\<And>s. st s \<Longrightarrow> keeps lawful (f s)"
  shows "keeps lawful (State_Monad.bind current f)"
proof (rule tripleI)
  fix m a m' assume m: "lawful m" and run: "run_state (State_Monad.bind current f) m = (a, m')"
  show "lawful m'"
    using tripleD [OF assms [OF lawful_state [OF m]] m] run by (simp add: current_def)
qed

lemma keeps_node_ops [triple_rules]:
  "keeps lawful (set_node i ns)" "keeps lawful (set_output i v)" "keeps lawful (drop_output i)"
  by (simp_all add: set_node_def set_output_def drop_output_def keeps_change node_change output_change)

lemma keeps_now [triple_rules]: "keeps lawful (now u)" "keeps lawful (ctx_err u)"
  by (simp_all add: now_def ctx_err_def keeps_ask)

lemma keeps_emit [triple_rules]: "keeps lawful (emit r)"
  unfolding emit_def by (intro keeps_option keeps_ret keeps_bind_current keeps_bind keeps_note emitted keeps_ask)

lemma keeps_sleep [triple_rules]: "keeps lawful (sleepBackoff u node defaults attempt)"
  unfolding sleepBackoff_def by (intro triple_rules keeps_note) (rule slept)

lemma keeps_dispatch:
  "ru_Capabilities r = caps \<Longrightarrow> validateArgs su r tool args = None \<Longrightarrow>
   keeps lawful (dispatch r tool args)"
  unfolding dispatch_def by (intro triple_rules keeps_note) (rule dispatched)

lemma keeps_marks [triple_rules]:
  "keeps lawful (put_and_emit r i ns)" "keeps lawful (fail_node u r i ns e)"
  "keeps lawful (unknown_node r i ns e)" "keeps lawful (finish_node u r i ns status)"
  unfolding put_and_emit_def fail_node_def unknown_node_def finish_node_def
  by (intro triple_rules)+

lemma keeps_validateNode [triple_rules]:
  "ru_Capabilities r = caps \<Longrightarrow> keeps lawful (validateNode su r doc node item outputs contexts)"
  unfolding validateNode_def by (intro triple_rules keeps_dispatch)

lemma keeps_poll [triple_rules]:
  assumes "ru_Capabilities r = caps"
  shows "keeps lawful (poll su r doc node item outputs contexts n latest)"
proof (induction n arbitrary: latest)
  case (Suc n)
  show ?case unfolding poll.simps by (intro triple_rules assms Suc.IH)
qed (simp add: keeps_ret)

lemma keeps_ready [triple_rules]:
  "ru_Capabilities r = caps \<Longrightarrow> keeps lawful (validateNodeReady su r doc node item outputs contexts)"
  unfolding validateNodeReady_def by (intro triple_rules)

lemma keeps_wait [triple_rules]: "keeps lawful (run_wait su r doc node ns w)"
  unfolding run_wait_def wait_expiry_def by (intro triple_rules keeps_change wait_change)

lemma keeps_recovery_loop [triple_rules]:
  assumes "ru_Capabilities r = caps"
  shows "keeps lawful (recovery_loop su r doc node rc ns attempt n verr failure)"
proof (induction n arbitrary: attempt verr failure)
  case (Suc n)
  show ?case unfolding recovery_loop.simps by (intro triple_rules keeps_dispatch assms Suc.IH)
qed (simp add: keeps_ret)

lemma keeps_recover [triple_rules]:
  "ru_Capabilities r = caps \<Longrightarrow> keeps lawful (recover su r doc node ns verr failure)"
  unfolding recover_def by (intro triple_rules)

lemma keeps_pause [triple_rules]: "keeps lawful (pause u r doc node ns attempt)"
  unfolding pause_def by (intro triple_rules)

lemma keeps_attempt_loop [triple_rules]:
  assumes "ru_Capabilities r = caps"
  shows "keeps lawful (attempt_loop su r doc node act ns attempt n)"
proof (induction n arbitrary: ns attempt)
  case 0
  show ?case unfolding attempt_loop.simps(1) by (intro triple_rules)
next
  case (Suc n)
  have stop: "keeps lawful (attempt_loop su r doc node act ns attempt 0)" for ns attempt
    unfolding attempt_loop.simps(1) by (intro triple_rules)
  show ?case
    unfolding attempt_loop.simps(2) by (intro triple_rules keeps_dispatch assms Suc.IH stop)
qed

lemma keeps_action [triple_rules]:
  "ru_Capabilities r = caps \<Longrightarrow> keeps lawful (run_action su r doc node ns)"
  unfolding run_action_def by (intro triple_rules)

lemma keeps_recover_item [triple_rules]:
  assumes "ru_Capabilities r = caps"
  shows "keeps lawful (recoverForEachItem su r doc node rc item outputs contexts attempt n e)"
proof (induction n arbitrary: attempt e)
  case 0
  show ?case unfolding recoverForEachItem.simps(1) by (intro triple_rules)
next
  case (Suc n)
  have stop: "keeps lawful (recoverForEachItem su r doc node rc item outputs contexts attempt 0 e)" for attempt e
    unfolding recoverForEachItem.simps(1) by (intro triple_rules)
  show ?case
    unfolding recoverForEachItem.simps(2) by (intro triple_rules keeps_dispatch assms Suc.IH stop)
qed

lemma keeps_item_outcome [triple_rules]:
  "ru_Capabilities r = caps \<Longrightarrow> keeps lawful (item_outcome su r doc node act item outputs contexts result)"
  unfolding item_outcome_def by (intro triple_rules)

lemma keeps_item [triple_rules]:
  assumes "ru_Capabilities r = caps"
  shows "keeps lawful (runForEachItem su r doc node act item outputs contexts force attempt n e)"
proof (induction n arbitrary: attempt e)
  case 0
  show ?case unfolding runForEachItem.simps(1) by (intro triple_rules)
next
  case (Suc n)
  have stop: "keeps lawful (runForEachItem su r doc node act item outputs contexts force attempt 0 e)"
    for attempt e unfolding runForEachItem.simps(1) by (intro triple_rules)
  show ?case
    unfolding runForEachItem.simps(2) by (intro triple_rules keeps_dispatch assms Suc.IH stop)
qed

lemma keeps_items [triple_rules]:
  assumes "ru_Capabilities r = caps"
  shows "keeps lawful (run_items su r doc node f force items outputs)"
proof (induction items arbitrary: outputs)
  case (Cons item items)
  show ?case unfolding run_items.simps by (intro triple_rules assms Cons.IH)
qed (simp add: keeps_ret)

lemma keeps_iteration [triple_rules]:
  "ru_Capabilities r = caps \<Longrightarrow> keeps lawful (run_iteration su r doc node f force)"
  unfolding run_iteration_def runForEach_def by (intro triple_rules)

lemma keeps_validated [triple_rules]:
  "ru_Capabilities r = caps \<Longrightarrow> keeps lawful (run_validated su r doc node ns force)"
  unfolding run_validated_def by (intro triple_rules)

lemma keeps_runNode [triple_rules]:
  "ru_Capabilities r = caps \<Longrightarrow> keeps lawful (runNode su r doc node force)"
  unfolding runNode_def by (intro triple_rules)

lemma keeps_revisit [triple_rules]:
  "ru_Capabilities r = caps \<Longrightarrow> keeps lawful (revisit su r doc node)"
  unfolding revisit_def by (intro triple_rules)

lemma keeps_preconditions [triple_rules]:
  "ru_Capabilities r = caps \<Longrightarrow> keeps lawful (runNodeWithPreconditions su r doc node)"
  unfolding runNodeWithPreconditions_def by (intro triple_rules)

lemma keeps_barrier [triple_rules]:
  assumes "ru_Capabilities r = caps"
  shows "keeps lawful (run_barrier su r doc ns)"
proof (induction ns)
  case (Cons n ns)
  show ?case unfolding run_barrier.simps by (intro triple_rules assms Cons.IH)
qed (simp add: keeps_ret)

lemma keeps_serial [triple_rules]:
  assumes "ru_Capabilities r = caps"
  shows "keeps lawful (run_serial su r doc ns)"
proof (induction ns)
  case (Cons n ns)
  show ?case unfolding run_serial.simps by (intro triple_rules assms Cons.IH)
qed (simp add: keeps_ret)

lemma keeps_clones:
  assumes "ru_Capabilities r = caps" and "st s"
  shows "keeps lawful (run_clones su r doc s ns)"
proof (induction ns)
  case Nil
  show ?case unfolding run_clones.simps by (intro triple_rules keeps_change assms)
next
  case (Cons n ns)
  have "ru_Capabilities (r\<lparr>ru_Sink := None\<rparr>) = caps" using assms by simp
  then show ?case unfolding run_clones.simps by (intro triple_rules keeps_change assms Cons.IH)
qed

lemma keeps_merge [triple_rules]: "keeps lawful (merge_results r results)"
proof (induction results)
  case (Cons x results)
  obtain node local err where x: "x = (node, local, err)" by (cases x) auto
  show ?case unfolding x merge_results.simps by (intro triple_rules Cons.IH)
qed (simp add: keeps_ret)

lemma keeps_parallel [triple_rules]:
  "ru_Capabilities r = caps \<Longrightarrow> keeps lawful (run_parallel su r doc level)"
  unfolding run_parallel_def by (rule keeps_bind_current) (intro triple_rules keeps_clones)

lemma keeps_level [triple_rules]:
  "ru_Capabilities r = caps \<Longrightarrow> keeps lawful (runLevel su r doc level)"
  unfolding runLevel_def by (intro triple_rules)

lemma keeps_levels [triple_rules]:
  assumes "ru_Capabilities r = caps"
  shows "keeps lawful (run_levels su r doc levels)"
proof (induction levels)
  case (Cons l levels)
  show ?case unfolding run_levels.simps by (intro triple_rules assms Cons.IH)
qed (simp add: keeps_ret)

lemma keeps_recheck [triple_rules]:
  assumes "ru_Capabilities r = caps"
  shows "keeps lawful (recheck_nodes su r doc ns)"
proof (induction ns)
  case (Cons n ns)
  show ?case unfolding recheck_nodes.simps by (intro triple_rules assms Cons.IH)
qed (simp add: keeps_ret)

lemma keeps_converged [triple_rules]:
  "ru_Capabilities r = caps \<Longrightarrow> keeps lawful (checkConverged su r doc levels recheck)"
  unfolding checkConverged_def by (intro triple_rules)

lemma keeps_compensate [triple_rules]:
  "ru_Capabilities r = caps \<Longrightarrow> keeps lawful (compensate su r doc node act)"
  unfolding compensate_def by (intro triple_rules keeps_dispatch)

lemma keeps_compensate_nodes [triple_rules]:
  assumes "ru_Capabilities r = caps"
  shows "keeps lawful (compensate_nodes su r doc ns e)"
proof (induction ns arbitrary: e)
  case (Cons n ns)
  show ?case unfolding compensate_nodes.simps by (intro triple_rules assms Cons.IH)
qed (simp add: keeps_ret)

lemma keeps_compensateApplied [triple_rules]:
  "ru_Capabilities r = caps \<Longrightarrow> keeps lawful (compensateApplied su r doc)"
  unfolding compensateApplied_def by (intro triple_rules)

end

section \<open>Laws of events alone\<close>

locale event_law =
  fixes su :: surroundings and caps :: capabilities and before :: "event list" and ok :: "event \<Rightarrow> bool"
  assumes every_emitted: "ok (Emitted (redactedRunState s))"
    and every_slept: "backoff_delay node defaults attempt = Some d \<Longrightarrow> ok (Slept d)"
    and every_dispatched: "ru_Capabilities r = caps \<Longrightarrow> validateArgs su r tool args = None \<Longrightarrow>
      ok (Dispatched tool args)"

sublocale event_law \<subseteq> node_law su caps "\<lambda>_. True" before ok
  by unfold_locales (simp_all add: every_emitted every_slept every_dispatched)

context event_law
begin

lemma keeps_any_change [triple_rules]: "keeps lawful (change f)"
  by (rule keeps_change) simp

lemma keeps_abort [triple_rules]:
  "ru_Capabilities r = caps \<Longrightarrow> keeps lawful (abortRun su r doc e)"
  unfolding abortRun_def by (intro triple_rules)

lemma keeps_complete [triple_rules]: "keeps lawful (complete_run r e)"
  unfolding complete_run_def by (intro triple_rules)

lemma keeps_passes [triple_rules]:
  assumes "ru_Capabilities r = caps"
  shows "keeps lawful (run_passes su r doc levels n)"
proof (induction n)
  case 0
  show ?case unfolding run_passes.simps by (intro triple_rules assms)
next
  case (Suc n)
  show ?case unfolding run_passes.simps by (intro triple_rules assms Suc.IH)
qed

lemma keeps_Run: "ru_Capabilities r = caps \<Longrightarrow> keeps lawful (Run su r doc)"
  unfolding Run_def by (intro triple_rules)

lemma keeps_deltas [triple_rules]: "keeps lawful (apply_deltas su doc node spec request ds)"
proof (induction ds)
  case (Cons d ds)
  show ?case unfolding apply_deltas.simps by (intro triple_rules Cons.IH)
qed (simp add: keeps_ret)

lemma keeps_Resume: "ru_Capabilities r = caps \<Longrightarrow> keeps lawful (Resume su r doc request)"
  unfolding Resume_def expire_wait_def by (intro triple_rules keeps_Run)

lemma run_lawful:
  assumes "run_state (Run su r doc) m = (err, m')" and "ru_Capabilities r = caps"
    and "ma_log m = before"
  shows "\<exists>more. ma_log m' = before @ more \<and> list_all ok more"
  using tripleD [OF keeps_Run [OF assms(2)] lawful_start assms(1)] assms(3) by (simp add: lawful_def)

lemma resume_lawful:
  assumes "run_state (Resume su r doc request) m = (err, m')" and "ru_Capabilities r = caps"
    and "ma_log m = before"
  shows "\<exists>more. ma_log m' = before @ more \<and> list_all ok more"
  using tripleD [OF keeps_Resume [OF assms(2)] lawful_start assms(1)] assms(3) by (simp add: lawful_def)

end

end
