(* ===== verification/Plan_Demo.thy ===== *)
theory Plan_Demo
  imports Plan_Schedule Plan_Passes
begin

text \<open>
  A plan of one node that calls one read-only tool, and the evaluation of its run: the concrete
  execution on which the theorems about runs are exercised.
\<close>

section \<open>The plan\<close>

definition demo_su :: surroundings where
  "demo_su = \<lparr>su_ctxErr = (\<lambda>_. None), su_now = (\<lambda>_. 0), su_ticks = (\<lambda>_. 0), su_matches = (\<lambda>_ _. None)\<rparr>"

definition demo_capability :: "string \<Rightarrow> Capability" where
  "demo_capability effect = \<lparr>cp_Name = ''t'', cp_InputSchema = None, cp_OutputSchema = None,
     cp_Effect = effect, cp_Idempotent = False\<rparr>"

definition demo_runner :: Runner where
  "demo_runner = \<lparr>ru_Dispatch = Some (\<lambda>_ _ _. Content None),
     ru_Capabilities = [(''t'', demo_capability ''read'')], ru_CatalogRevision = [],
     ru_HostAgentID = [], ru_Sink = Some (\<lambda>_ _. None)\<rparr>"

definition demo_secret :: ContextEntry where
  "demo_secret = \<lparr>ce_Name = ''k'', ce_Value = AStr ''hush'', ce_Schema = None, ce_SchemaRevision = [],
     ce_ProducerNode = [], ce_Source = [], ce_Secret = True, ce_RecordedAt = NoTime\<rparr>"

definition demo_state :: RunState where
  "demo_state = \<lparr>rs_RunID = ''r'', rs_PlanID = [], rs_Generation = 0, rs_Status = [], rs_Nodes = [],
     rs_Outputs = [], rs_Context = [(''k'', demo_secret)], rs_ContextHistory = [], rs_Wait = None, rs_Error = None\<rparr>"

definition demo_machine :: machine where
  "demo_machine = \<lparr>ma_state = demo_state, ma_log = [], ma_asked = 0\<rparr>"

definition demo_plan :: Document where
  "demo_plan = demo_doc [(demo_node ''a'' [])\<lparr>nd_Action := Some \<lparr>ac_Tool = ''t'', ac_Args = None\<rparr>\<rparr>]"

lemma demo_log_empty [simp]: "ma_log demo_machine = []"
  by (simp add: demo_machine_def)

section \<open>Evaluation\<close>

lemmas plan_eval = demo_plan_def demo_doc_def demo_node_def zero_node_def zero_retry_def Validate_def
  validate_header_def ContractVersion_def maxNodes_def maxPasses_def maxFanOut_def maxTotalAttempts_def
  passes_of_def document_encodes_def map_encodes_def node_encodes_def action_encodes_def or_else_def
  validate_node_def validate_wait_def validate_target_def validate_action_def validate_validation_def
  validate_recover_def validate_compensate_def validate_forEach_def validate_retry_def node_attempts_def
  check_call_def check_types_def validateInterpolations_def validateReferenceTypes_def
  walkReferenceTypes_def attemptsFor_def demo_capability_def Let_def

lemmas run_eval = Run_def current_def change_def ask_def note_event_def emit_def waits_def
  run_passes_limit_def runLevel_def runNodeWithPreconditions_def ctx_err_def now_def
  blockedByDependency_def dependencyApplied_def status_of_def node_of_def runNode_def set_node_def
  set_output_def validateTarget_def run_validated_def run_action_def dispatch_def validateArgs_def
  validateOutput_def finish_node_def checkConverged_def all_settled_def settled_def complete_run_def
  InterpolateArgs_def structuredContent_def redactedRunState_def redact_entry_def gomap_or_def
  node_state_def zero_node_state_def demo_su_def demo_runner_def demo_machine_def demo_state_def
  demo_secret_def RunStatusWaiting_def Let_def

lemma demo_trims: "TrimSpace ''p'' = ''p''" "TrimSpace ''k'' = ''k''" "TrimSpace ''a'' = ''a''"
  by code_simp+

lemma demo_graph_valid: "ValidateGraph demo_plan = None"
  by (rule graph_accepted) (simp_all add: well_formed_def demo_plan_def demo_doc_def demo_node_def
      zero_node_def node_ids_def dependency_def acyclic_def)

lemma demo_plan_valid: "Validate (\<lambda>_ _. None) demo_plan [(''t'', demo_capability ''read'')] [] = None"
  using demo_graph_valid by (simp add: plan_eval demo_trims)

lemma demo_plan_levels: "TopologicalLevels demo_plan = Inr [doc_Nodes demo_plan]"
proof -
  have "buildGraph demo_plan = Inr \<lparr>gr_nodes = [(''a'', hd (doc_Nodes demo_plan))],
      gr_indegree = [(''a'', 0)], gr_dependents = []\<rparr>"
    by (simp add: buildGraph_def demo_plan_def demo_doc_def demo_node_def zero_node_def)
  moreover have "zero_degree [(''a'', 0)] = [''a'']" by (simp add: zero_degree_def)
  ultimately show ?thesis
    by (simp add: TopologicalLevels_def levels_loop.simps gomap_or_def node_or_zero_def Let_def
        demo_plan_def demo_doc_def)
qed

lemma demo_parts:
  "doc_Nodes demo_plan = [(demo_node ''a'' [])\<lparr>nd_Action := Some \<lparr>ac_Tool = ''t'', ac_Args = None\<rparr>\<rparr>]"
  "doc_PlanID demo_plan = ''p''" "doc_Generation demo_plan = 1" "passes_of demo_plan = 0"
  "attemptsFor node demo_plan = (if rt_MaxAttempts (nd_Retry node) \<le> 0 then 1 else rt_MaxAttempts (nd_Retry node))"
  "cp_InputSchema (demo_capability e) = None" "cp_OutputSchema (demo_capability e) = None"
  by (simp_all add: plan_eval)

abbreviation demo_end :: machine where
  "demo_end \<equiv> snd (run_state (Run demo_su demo_runner demo_plan) demo_machine)"

lemma demo_returns: "fst (run_state (Run demo_su demo_runner demo_plan) demo_machine) = None"
  by (simp add: run_eval demo_plan_valid demo_plan_levels demo_parts demo_node_def zero_node_def zero_retry_def)

lemma demo_run: "run_state (Run demo_su demo_runner demo_plan) demo_machine = (None, demo_end)"
  by (rule prod_eqI) (simp_all only: demo_returns fst_conv snd_conv)

lemma demo_dispatches: "Dispatched ''t'' (Some []) \<in> set (ma_log demo_end)"
  by (simp add: run_eval demo_plan_valid demo_plan_levels demo_parts demo_node_def zero_node_def zero_retry_def)

lemma demo_emits:
  "Emitted (redactedRunState (demo_state\<lparr>rs_PlanID := ''p'', rs_Generation := 1, rs_Status := ''running''\<rparr>)) \<in> set (ma_log demo_end)"
  by (simp add: run_eval demo_plan_valid demo_plan_levels demo_parts demo_node_def zero_node_def zero_retry_def)

lemma demo_completed: "rs_Status (ma_state demo_end) = ''completed''" "rs_Error (ma_state demo_end) = None"
  by (simp_all add: run_eval demo_plan_valid demo_plan_levels demo_parts demo_node_def zero_node_def zero_retry_def)

end
