(* ===== verification/Plan_Safety.thy ===== *)
theory Plan_Safety
  imports Plan_Logic Plan_Demo
begin

text \<open>
  What every run of a plan guarantees, whatever the tools, the sink, the clock and cancellation do.
\<close>

section \<open>What leaves the runner\<close>

fun hides_secrets :: "event \<Rightarrow> bool" where
  "hides_secrets (Emitted s) \<longleftrightarrow>
     list_all (\<lambda>e. \<not> ce_Secret e \<or> ce_Value e = ANil) (map snd (rs_Context s) @ rs_ContextHistory s)"
| "hides_secrets _ \<longleftrightarrow> True"

lemma redacted_hides: "hides_secrets (Emitted (redactedRunState s))"
  by (auto simp: redactedRunState_def redact_entry_def list_all_iff)

interpretation secrets: event_law su caps before hides_secrets for su caps before
  by unfold_locales (rule redacted_hides, simp_all)

fun call_checked :: "regexp \<Rightarrow> capabilities \<Rightarrow> event \<Rightarrow> bool" where
  "call_checked matches caps (Dispatched tool args) \<longleftrightarrow>
     (case gomap_get caps tool of None \<Rightarrow> False
      | Some c \<Rightarrow> ValidateJSON matches (cp_InputSchema c) (map_any args) = None)"
| "call_checked matches caps _ \<longleftrightarrow> True"

interpretation calls: event_law su caps before "call_checked (su_matches su) caps" for su caps before
  by unfold_locales (auto simp: validateArgs_def split: option.splits)

text \<open>
  C12: secret context never reaches the durable sink. Every state that \<open>Run\<close> or \<open>Resume\<close> reports
  carries no value in an entry marked secret, in the current context and in the history alike.
\<close>

theorem secrets_not_emitted:
  assumes "run_state (Run su r doc) m = (err, m') \<or> run_state (Resume su r doc request) m = (err, m')"
    and "ma_log m = []" and "Emitted s \<in> set (ma_log m')"
    and "e \<in> set (map snd (rs_Context s) @ rs_ContextHistory s)" and "ce_Secret e"
  shows "ce_Value e = ANil"
proof -
  have "list_all hides_secrets (ma_log m')"
    using assms(1,2) secrets.run_lawful secrets.resume_lawful by (metis append_Nil)
  then have "hides_secrets (Emitted s)" using assms(3) unfolding list_all_iff by blast
  then show ?thesis using assms(4,5) unfolding hides_secrets.simps list_all_iff by blast
qed

theorem secrets_not_emitted_witness:
  "\<exists>s e. Emitted s \<in> set (ma_log demo_end) \<and> e \<in> set (map snd (rs_Context s)) \<and> ce_Secret e \<and>
    ce_Value e = ANil \<and> ce_Value demo_secret \<noteq> ANil"
proof -
  let ?s = "redactedRunState (demo_state\<lparr>rs_PlanID := ''p'', rs_Generation := 1, rs_Status := ''running''\<rparr>)"
  let ?e = "redact_entry demo_secret"
  have e: "?e \<in> set (map snd (rs_Context ?s))" "ce_Secret ?e"
    by (simp_all add: redactedRunState_def demo_state_def redact_entry_def demo_secret_def)
  have "ce_Value ?e = ANil"
    using secrets_not_emitted [of demo_su demo_runner demo_plan demo_machine None demo_end _ ?s ?e]
      demo_run demo_emits e by simp
  with e demo_emits show ?thesis by (intro exI [of _ ?s] exI [of _ ?e]) (simp add: demo_secret_def)
qed

text \<open>
  C5: no tool is called with arguments that its capability does not accept. Every call a run makes,
  for an action, a readiness check, a recovery or a compensation, names a declared capability and
  carries arguments that pass its input schema.
\<close>

theorem calls_meet_schema:
  assumes "run_state (Run su r doc) m = (err, m') \<or> run_state (Resume su r doc request) m = (err, m')"
    and "ma_log m = []" and "Dispatched tool args \<in> set (ma_log m')"
  shows "\<exists>c. gomap_get (ru_Capabilities r) tool = Some c \<and>
    ValidateJSON (su_matches su) (cp_InputSchema c) (map_any args) = None"
proof -
  have "list_all (call_checked (su_matches su) (ru_Capabilities r)) (ma_log m')"
    using assms(1,2) calls.run_lawful calls.resume_lawful by (metis append_Nil)
  then have "call_checked (su_matches su) (ru_Capabilities r) (Dispatched tool args)"
    using assms(3) unfolding list_all_iff by blast
  then show ?thesis by (simp split: option.splits)
qed

theorem calls_meet_schema_witness:
  "Dispatched ''t'' (Some []) \<in> set (ma_log demo_end) \<and>
   (\<exists>c. gomap_get (ru_Capabilities demo_runner) ''t'' = Some c \<and>
     ValidateJSON (su_matches demo_su) (cp_InputSchema c) (map_any (Some [])) = None)"
  using calls_meet_schema [OF disjI1 [OF demo_run] demo_log_empty demo_dispatches] demo_dispatches
  by blast

end
