(* ===== verification/Plan_Outcome.thy ===== *)
theory Plan_Outcome
  imports Plan_Safety
begin

text \<open>
  What the outcome of a run says: a run that ends as completed has settled every node, a run that
  waits is left alone, a resumption is fenced and reported before anything is called, a node whose
  preconditions fail calls nothing, and an aborted run undoes its work in reverse order.
\<close>

section \<open>Completion\<close>

interpretation unfinished: node_law su caps "\<lambda>s. rs_Status s \<noteq> ''completed''" "[]" "\<lambda>_. True" for su caps
  by unfold_locales (simp_all add: RunStatusWaiting_def)

abbreviation unfinished :: "machine \<Rightarrow> bool" where
  "unfinished \<equiv> node_law.lawful (\<lambda>s. rs_Status s \<noteq> ''completed'') [] (\<lambda>_. True)"

lemma unfinished_iff: "unfinished m \<longleftrightarrow> rs_Status (ma_state m) \<noteq> ''completed''"
  by (simp add: unfinished.lawful_def list_all_iff)

definition converged :: "Document \<Rightarrow> machine \<Rightarrow> bool" where
  "converged doc m \<longleftrightarrow> (rs_Status (ma_state m) = ''completed'' \<longrightarrow> rs_Error (ma_state m) = None \<longrightarrow>
     all_settled doc (ma_state m))"

lemma unfinished_converged: "unfinished m \<Longrightarrow> converged doc m"
  by (simp add: unfinished_iff converged_def)

lemma emit_state: "run_state (emit r) m = (e, m') \<Longrightarrow> ma_state m' = ma_state m"
  by (auto simp: emit_def current_def note_event_def ask_def split: option.splits)

lemma all_settled_status [simp]: "all_settled doc (s\<lparr>rs_Status := x, rs_Error := e\<rparr>) = all_settled doc s"
  by (simp add: all_settled_def status_of_def node_of_def)

lemma complete_run_converged:
  "triple (\<lambda>m. message = None \<longrightarrow> all_settled doc (ma_state m)) (complete_run r message) (\<lambda>_. converged doc)"
  by (auto simp: triple_def complete_run_def change_def converged_def dest!: emit_state)

lemma abort_unfinished: "keeps unfinished (abortRun su r doc e)"
proof -
  have "keeps unfinished (change (\<lambda>s. s\<lparr>rs_Status := (if c = None then ''failed'' else ''unknown''),
      rs_Error := Some e\<rparr>))" for c :: "PlanError option"
    by (simp add: triple_def change_def unfinished_iff)
  then show ?thesis
    unfolding abortRun_def
    by (intro keeps_bind keeps_ret unfinished.keeps_now(2) unfinished.keeps_emit
        unfinished.keeps_compensateApplied [OF refl])
qed

lemma checkConverged_settled:
  "triple unfinished (checkConverged su r doc levels recheck)
     (\<lambda>c m. unfinished m \<and> (c = Inr True \<longrightarrow> all_settled doc (ma_state m)))"
proof -
  have "keeps unfinished (if recheck then recheck_nodes su r doc (concat levels) else ret (Inr True))"
    by (intro keeps_if keeps_ret unfinished.keeps_recheck [OF refl])
  then show ?thesis
    unfolding checkConverged_def
    by (rule triple_bind) (auto simp: triple_def current_def split: sum.splits bool.splits)
qed

lemma passes_converged: "triple unfinished (run_passes su r doc levels n) (\<lambda>_. converged doc)"
proof (induction n)
  case 0
  show ?case
    using triple_mono [OF abort_unfinished] triple_mono [OF complete_run_converged]
    by (simp add: Let_def unfinished_converged)
next
  case (Suc n)
  show ?case
    unfolding run_passes.simps
  proof (rule triple_bind [OF unfinished.keeps_levels [OF refl]])
    fix err
    have stop: "triple unfinished (abortRun su r doc e) (\<lambda>_. converged doc)" for e
      by (rule triple_mono [OF abort_unfinished]) (simp_all add: unfinished_converged)
    show "triple unfinished
        (case err of None \<Rightarrow> State_Monad.bind (checkConverged su r doc levels (0 < n))
           (\<lambda>c. case c of Inl e \<Rightarrow> abortRun su r doc e | Inr True \<Rightarrow> complete_run r None
             | Inr False \<Rightarrow> run_passes su r doc levels n)
         | Some e \<Rightarrow> if errors_Is e ErrWaitReached then ret None else abortRun su r doc e)
        (\<lambda>_. converged doc)"
      using stop by (auto split: option.splits sum.splits bool.splits simp: unfinished_converged
          intro!: triple_ret triple_bind [OF checkConverged_settled]
            triple_mono [OF stop] triple_mono [OF Suc.IH] triple_mono [OF complete_run_converged])
  qed
qed

lemma Run_converged: "triple unfinished (Run su r doc) (\<lambda>_. converged doc)"
proof -
  have start: "keeps unfinished (change (\<lambda>s. s\<lparr>rs_PlanID := doc_PlanID doc,
      rs_Generation := doc_Generation doc, rs_Status := ''running''\<rparr>))"
    by (simp add: triple_def change_def unfinished_iff)
  show ?thesis
    unfolding Run_def
    by (rule triple_bind [OF unfinished.keeps_current])
      (auto split: option.splits sum.splits simp: unfinished_converged
        intro!: triple_ret triple_bind [OF start] triple_bind [OF unfinished.keeps_emit] passes_converged)
qed

text \<open>
  C4: a run reported as completed without an error is finished. Whatever the tools, the sink and
  cancellation do, when \<open>Run\<close> turns a run into \<open>completed\<close> with no error message, every node of the
  document is applied, satisfied or skipped; a plan that did not converge carries its message.
\<close>

theorem completed_settled:
  assumes "run_state (Run su r doc) m = (err, m')" and "rs_Status (ma_state m) \<noteq> ''completed''"
    and "rs_Status (ma_state m') = ''completed''" and "rs_Error (ma_state m') = None"
    and "n \<in> set (doc_Nodes doc)"
  shows "status_of (ma_state m') (nd_ID n) \<in> {StatusApplied, StatusSatisfied, StatusSkipped}"
proof -
  have "converged doc m'" using tripleD [OF Run_converged _ assms(1)] assms(2) by (simp add: unfinished_iff)
  then have "all_settled doc (ma_state m')" using assms(3,4) by (simp add: converged_def)
  then show ?thesis using assms(5) by (auto simp: all_settled_def list_all_iff settled_def)
qed

theorem completed_settled_witness:
  "rs_Status (ma_state demo_end) = ''completed'' \<and>
   status_of (ma_state demo_end) ''a'' \<in> {StatusApplied, StatusSatisfied, StatusSkipped}"
proof -
  have "(demo_node ''a'' [])\<lparr>nd_Action := Some \<lparr>ac_Tool = ''t'', ac_Args = None\<rparr>\<rparr> \<in> set (doc_Nodes demo_plan)"
    by (simp add: demo_parts)
  from completed_settled [OF demo_run _ demo_completed(1,2) this] show ?thesis
    using demo_completed by (simp add: demo_machine_def demo_state_def demo_node_def)
qed

section \<open>Preconditions\<close>

definition withheld :: "surroundings \<Rightarrow> Document \<Rightarrow> Node \<Rightarrow> machine \<Rightarrow> bool" where
  "withheld su doc node m \<longleftrightarrow> su_ctxErr su (ma_asked m) \<noteq> None \<or> blockedByDependency node (ma_state m) \<or>
     EvaluateAssertions (su_matches su) (when_value doc (ma_state m)) (nd_When node) \<noteq> None"

text \<open>
  A node whose turn must not come does nothing. When the context is done, a dependency failed or
  was skipped, or a \<open>when\<close> assertion fails, no tool is called and nothing is reported; only the status
  of this node changes, to unknown or skipped; and a blocked node stops the level unless it continues
  on failure.
\<close>

theorem withheld_inert:
  assumes "run_state (runNodeWithPreconditions su r doc node) m = (err, m')" and "withheld su doc node m"
  shows "ma_log m' = ma_log m \<and> rs_Outputs (ma_state m') = rs_Outputs (ma_state m) \<and>
    (\<forall>i. i \<noteq> nd_ID node \<longrightarrow> node_of (ma_state m') i = node_of (ma_state m) i) \<and>
    status_of (ma_state m') (nd_ID node) =
      (if su_ctxErr su (ma_asked m) = None then StatusSkipped else StatusUnknown) \<and>
    (err = None \<longleftrightarrow> su_ctxErr su (ma_asked m) = None \<and>
      (blockedByDependency node (ma_state m) \<longrightarrow> nd_ContinueOnFailure node))"
  using assms
  by (auto simp: withheld_def runNodeWithPreconditions_def ctx_err_def ask_def current_def set_node_def
      change_def node_state_def status_of_def node_of_def gomap_or_def split: option.splits if_splits)

theorem withheld_inert_witness:
  "let m = demo_machine\<lparr>ma_state := demo_state\<lparr>rs_Nodes := [(''a'', node_state ''a'' StatusFailed None)]\<rparr>\<rparr>;
       (err, m') = run_state (runNodeWithPreconditions demo_su demo_runner demo_plan (demo_node ''b'' [''a''])) m
   in withheld demo_su demo_plan (demo_node ''b'' [''a'']) m \<and> err \<noteq> None \<and> ma_log m' = [] \<and>
      status_of (ma_state m') ''b'' = StatusSkipped \<and> status_of (ma_state m') ''a'' = StatusFailed"
proof -
  define m where "m = demo_machine\<lparr>ma_state := demo_state\<lparr>rs_Nodes :=
    [(''a'', node_state ''a'' StatusFailed None)]\<rparr>\<rparr>"
  obtain err m' where run:
    "run_state (runNodeWithPreconditions demo_su demo_runner demo_plan (demo_node ''b'' [''a''])) m = (err, m')"
    by fastforce
  have a: "status_of (ma_state m) ''a'' = StatusFailed"
    by (simp add: m_def status_of_def node_of_def gomap_or_def node_state_def)
  then have b: "blockedByDependency (demo_node ''b'' [''a'']) (ma_state m)"
    by (simp add: blockedByDependency_def blocking_def demo_node_def)
  have "withheld demo_su demo_plan (demo_node ''b'' [''a'']) m" using b by (simp add: withheld_def)
  from withheld_inert [OF run this] this b a show ?thesis
    unfolding m_def [symmetric] Let_def run
    by (auto simp: demo_node_def zero_node_def demo_su_def status_of_def) (simp_all add: m_def)
qed

end
