(* ===== verification/Plan_Compensation.thy ===== *)
theory Plan_Compensation
  imports Plan_Outcome "HOL-Library.Sublist"
begin

text \<open>
  Compensation of an aborted run and resumption of a waiting one: which tools they call, in which
  order, and what must hold before the first call.
\<close>

section \<open>The tools called\<close>

fun tool_of :: "event \<Rightarrow> string option" where
  "tool_of (Dispatched tool args) = Some tool"
| "tool_of _ = None"

definition tools_called :: "event list \<Rightarrow> string list" where
  "tools_called es = List.map_filter tool_of es"

lemma tools_called_simps [simp]:
  "tools_called [] = []" "tools_called (es @ es') = tools_called es @ tools_called es'"
  "tools_called [Emitted s] = []" "tools_called [Slept d] = []" "tools_called [Dispatched t a] = [t]"
  by (simp_all add: tools_called_def List.map_filter_def)

lemma emit_effect:
  assumes "run_state (emit r) m = (e, m')"
  shows "ma_state m' = ma_state m \<and> tools_called (ma_log m') = tools_called (ma_log m)"
  using assms by (auto simp: emit_def current_def note_event_def ask_def split: option.splits)

section \<open>Compensation\<close>

definition compensable :: "RunState \<Rightarrow> Node \<Rightarrow> bool" where
  "compensable s n \<longleftrightarrow> nd_Compensate n \<noteq> None \<and> status_of s (nd_ID n) = StatusApplied"

definition compensations :: "RunState \<Rightarrow> Node list \<Rightarrow> string list" where
  "compensations s ns = map (\<lambda>n. ac_Tool (the (nd_Compensate n))) (filter (compensable s) ns)"

lemma status_put:
  "status_of (s\<lparr>rs_Nodes := gomap_put i ns (rs_Nodes s)\<rparr>) j = (if j = i then ns_Status ns else status_of s j)"
  by (simp add: status_of_def node_of_def gomap_or_def)

text \<open>One compensation calls its tool at most once and marks no other node.\<close>

lemma compensate_effect:
  assumes "run_state (compensate su r doc node act) m = (err, m')"
  shows "\<exists>called. tools_called (ma_log m') = tools_called (ma_log m) @ called \<and>
      (called = [] \<or> called = [ac_Tool act]) \<and>
      (err = None \<longrightarrow> called = [ac_Tool act] \<and> status_of (ma_state m') (nd_ID node) = StatusCompensated)"
    and "i \<noteq> nd_ID node \<Longrightarrow> status_of (ma_state m') i = status_of (ma_state m) i"
    and "status_of (ma_state m') (nd_ID node) \<in>
      {status_of (ma_state m) (nd_ID node), StatusCompensated, StatusCompensationFailed}"
  using assms
  by (auto simp: compensate_def current_def put_and_emit_def set_node_def change_def finish_node_def now_def
      ask_def dispatch_def note_event_def node_state_def status_put
      split: sum.splits option.splits prod.splits dispatch_result.splits dest!: emit_effect)

lemma compensable_cong: "status_of s' (nd_ID n) = status_of s (nd_ID n) \<Longrightarrow> compensable s' n = compensable s n"
  by (simp add: compensable_def)

lemma compensate_nodes_effect:
  assumes "run_state (compensate_nodes su r doc ns e) m = (err, m')" and "distinct (map nd_ID ns)"
  shows "\<exists>called. tools_called (ma_log m') = tools_called (ma_log m) @ called \<and>
      subseq called (compensations (ma_state m) ns) \<and>
      (err = None \<longrightarrow> called = compensations (ma_state m) ns \<and>
        (\<forall>n. n \<in> set ns \<and> compensable (ma_state m) n \<longrightarrow> status_of (ma_state m') (nd_ID n) = StatusCompensated)) \<and>
      (e \<noteq> None \<longrightarrow> err = e) \<and>
      (\<forall>i. i \<notin> nd_ID ` set (filter (compensable (ma_state m)) ns) \<longrightarrow>
        status_of (ma_state m') i = status_of (ma_state m) i)"
  using assms
proof (induction ns arbitrary: e m)
  case (Cons n ns)
  show ?case
  proof (cases "compensable (ma_state m) n")
    case False
    then have "run_state (compensate_nodes su r doc ns e) m = (err, m')"
      using Cons.prems(1) by (auto simp: compensable_def current_def split: option.splits)
    from Cons.IH [OF this] Cons.prems(2) obtain called where
      called: "tools_called (ma_log m') = tools_called (ma_log m) @ called"
        "subseq called (compensations (ma_state m) ns)"
        "err = None \<longrightarrow> called = compensations (ma_state m) ns \<and>
          (\<forall>n. n \<in> set ns \<and> compensable (ma_state m) n \<longrightarrow> status_of (ma_state m') (nd_ID n) = StatusCompensated)"
        "e \<noteq> None \<longrightarrow> err = e"
        "\<forall>i. i \<notin> nd_ID ` set (filter (compensable (ma_state m)) ns) \<longrightarrow>
          status_of (ma_state m') i = status_of (ma_state m) i"
      by auto
    have "compensations (ma_state m) (n # ns) = compensations (ma_state m) ns"
      using False by (simp add: compensations_def)
    then show ?thesis using called False by (intro exI [of _ called]) auto
  next
    case True
    then obtain act where act: "nd_Compensate n = Some act" by (auto simp: compensable_def)
    obtain e1 m1 where m1: "run_state (compensate su r doc n act) m = (e1, m1)" by fastforce
    have rest: "run_state (compensate_nodes su r doc ns (if e = None then e1 else e)) m1 = (err, m')"
      using Cons.prems(1) True act m1 by (auto simp: compensable_def current_def split: option.splits)
    have others: "status_of (ma_state m1) i = status_of (ma_state m) i" if "i \<noteq> nd_ID n" for i
      using compensate_effect(2) [OF m1 that] .
    have same: "compensable (ma_state m1) n' = compensable (ma_state m) n'" if "n' \<in> set ns" for n'
      using that Cons.prems(2) by (intro compensable_cong others) (metis distinct.simps(2) image_eqI list.map(2) list.set_map)
    then have filtered: "filter (compensable (ma_state m1)) ns = filter (compensable (ma_state m)) ns"
      by (simp cong: filter_cong)
    then have undone: "compensations (ma_state m) (n # ns) = ac_Tool act # compensations (ma_state m1) ns"
      using True act by (simp add: compensations_def)
    obtain c1 where c1: "tools_called (ma_log m1) = tools_called (ma_log m) @ c1" "c1 = [] \<or> c1 = [ac_Tool act]"
      "e1 = None \<Longrightarrow> c1 = [ac_Tool act] \<and> status_of (ma_state m1) (nd_ID n) = StatusCompensated"
      using compensate_effect(1) [OF m1] by blast
    obtain c2 where c2: "tools_called (ma_log m') = tools_called (ma_log m1) @ c2"
      "subseq c2 (compensations (ma_state m1) ns)"
      "err = None \<Longrightarrow> c2 = compensations (ma_state m1) ns \<and>
        (\<forall>n. n \<in> set ns \<and> compensable (ma_state m1) n \<longrightarrow> status_of (ma_state m') (nd_ID n) = StatusCompensated)"
      "(if e = None then e1 else e) \<noteq> None \<Longrightarrow> err = (if e = None then e1 else e)"
      "\<And>i. i \<notin> nd_ID ` set (filter (compensable (ma_state m1)) ns) \<Longrightarrow>
        status_of (ma_state m') i = status_of (ma_state m1) i"
      using Cons.IH [OF rest] Cons.prems(2) by fastforce
    have own: "status_of (ma_state m') (nd_ID n) = status_of (ma_state m1) (nd_ID n)"
      using Cons.prems(2) by (intro c2(5)) auto
    have first: "err = None \<Longrightarrow> e1 = None" using c2(4) by (cases e; cases e1) auto
    show ?thesis
      using c1 c2 own first undone same filtered others True
      by (intro exI [of _ "c1 @ c2"]) (auto split: if_splits)
  qed
qed (simp add: compensations_def)

text \<open>
  C13: an aborted run undoes its work backwards. There is an order of all nodes of the plan in which no node
  comes before a node that depends on it, and compensation calls, along this order, compensating tools of nodes
  that were applied, each at most once. Only the status of these nodes changes; and if no error is reported,
  every one of them was called and is compensated.
\<close>

theorem compensation_order:
  assumes "run_state (compensateApplied su r doc) m = (err, m')" and "ReverseTopologicalNodes doc = Inr order"
  shows "mset order = mset (doc_Nodes doc) \<and>
    (\<forall>i j. i < j \<and> j < length order \<longrightarrow> nd_ID (order ! i) \<notin> set (nd_DependsOn (order ! j))) \<and>
    (\<exists>called. tools_called (ma_log m') = tools_called (ma_log m) @ called \<and>
      subseq called (compensations (ma_state m) order) \<and>
      (err = None \<longrightarrow> called = compensations (ma_state m) order \<and>
        (\<forall>n. n \<in> set (doc_Nodes doc) \<and> compensable (ma_state m) n \<longrightarrow>
          status_of (ma_state m') (nd_ID n) = StatusCompensated)) \<and>
      (\<forall>i. i \<notin> nd_ID ` set (filter (compensable (ma_state m)) (doc_Nodes doc)) \<longrightarrow>
        status_of (ma_state m') i = status_of (ma_state m) i))"
proof -
  note reverse = reverse_schedule [OF assms(2)]
  then have same: "mset order = mset (doc_Nodes doc)" by (rule conjunct1)
  have "distinct (map nd_ID (doc_Nodes doc))"
    using levels_cases [of doc] assms(2) by (auto simp: ReverseTopologicalNodes_def well_formed_def split: sum.splits)
  then have order: "set order = set (doc_Nodes doc)" "distinct (map nd_ID order)"
    using mset_eq_setD [OF same] mset_eq_imp_distinct_iff [OF same] by (simp_all add: distinct_map)
  have "run_state (compensate_nodes su r doc order None) m = (err, m')"
    using assms by (simp add: compensateApplied_def)
  from compensate_nodes_effect [OF this order(2)] reverse show ?thesis unfolding set_filter order(1) by blast
qed

definition undo_node :: "string \<Rightarrow> string list \<Rightarrow> string \<Rightarrow> Node" where
  "undo_node i ds tool = (demo_node i ds)\<lparr>nd_Compensate := Some \<lparr>ac_Tool = tool, ac_Args = None\<rparr>\<rparr>"

definition undo_plan :: Document where
  "undo_plan = demo_doc [undo_node ''a'' [] ''t'', undo_node ''b'' [''a''] ''u'']"

definition undo_runner :: Runner where
  "undo_runner = demo_runner\<lparr>ru_Capabilities :=
     [(''t'', demo_capability ''mutate''), (''u'', demo_capability ''mutate'')]\<rparr>"

definition undo_machine :: machine where
  "undo_machine = demo_machine\<lparr>ma_state := demo_state\<lparr>rs_Nodes :=
     [(''a'', node_state ''a'' StatusApplied None), (''b'', node_state ''b'' StatusApplied None)]\<rparr>\<rparr>"

lemma undo_order:
  "ReverseTopologicalNodes undo_plan = Inr [undo_node ''b'' [''a''] ''u'', undo_node ''a'' [] ''t'']"
proof -
  have "buildGraph undo_plan = Inr \<lparr>
      gr_nodes = [(''a'', undo_node ''a'' [] ''t''), (''b'', undo_node ''b'' [''a''] ''u'')],
      gr_indegree = [(''a'', 0), (''b'', 1)], gr_dependents = [(''a'', [''b''])]\<rparr>"
    by (simp add: buildGraph_def undo_plan_def undo_node_def demo_doc_def demo_node_def add_edge_def gomap_or_def)
  moreover have "zero_degree [(''a'', 0), (''b'', 1)] = [''a'']" "zero_degree [(''b'', 0)] = [''b'']"
    by code_simp+
  ultimately show ?thesis
    by (simp add: ReverseTopologicalNodes_def TopologicalLevels_def levels_loop.simps decrement_def
        gomap_or_def node_or_zero_def Let_def)
qed

lemma undo_returns: "fst (run_state (compensateApplied demo_su undo_runner undo_plan) undo_machine) = None"
  by (simp add: compensateApplied_def undo_order undo_node_def demo_node_def undo_runner_def undo_machine_def
      zero_node_def compensate_def demo_parts run_eval)

theorem compensation_order_witness:
  "tools_called (ma_log (snd (run_state (compensateApplied demo_su undo_runner undo_plan) undo_machine))) =
     [''u'', ''t''] \<and> nd_ID (undo_node ''b'' [''a''] ''u'') \<notin> set (nd_DependsOn (undo_node ''a'' [] ''t''))"
proof -
  have run: "run_state (compensateApplied demo_su undo_runner undo_plan) undo_machine =
      (None, snd (run_state (compensateApplied demo_su undo_runner undo_plan) undo_machine))"
    by (rule prod_eqI) (simp_all only: undo_returns fst_conv snd_conv)
  have "compensations (ma_state undo_machine) [undo_node ''b'' [''a''] ''u'', undo_node ''a'' [] ''t''] = [''u'', ''t'']"
    by (simp add: compensations_def compensable_def undo_node_def undo_machine_def demo_node_def
        status_of_def node_of_def gomap_or_def node_state_def)
  moreover have "nd_ID ([undo_node ''b'' [''a''] ''u'', undo_node ''a'' [] ''t''] ! 0) \<notin>
      set (nd_DependsOn ([undo_node ''b'' [''a''] ''u'', undo_node ''a'' [] ''t''] ! 1))"
    using compensation_order [OF run undo_order] by (metis One_nat_def length_Cons lessI list.size(3))
  ultimately show ?thesis
    using compensation_order [OF run undo_order] by (simp add: undo_machine_def)
qed

end
