(* ===== verification/Plan_Resume.thy ===== *)
theory Plan_Resume
  imports Plan_Compensation
begin

text \<open>
  The resumption of a waiting run: the fence a request has to pass, and what is made durable before
  the first tool is called.
\<close>

section \<open>Logs only grow\<close>

interpretation growing: event_law su caps before "\<lambda>_. True" for su caps before
  by unfold_locales simp_all

lemma Run_grows:
  assumes "run_state (Run su r doc) m = (err, m')"
  shows "\<exists>more. ma_log m' = ma_log m @ more"
  using growing.run_lawful [OF assms refl refl] by blast

section \<open>The fence\<close>

definition fenced :: "regexp \<Rightarrow> int \<Rightarrow> ResumeRequest \<Rightarrow> RunState \<Rightarrow> bool" where
  "fenced matches t request s \<longleftrightarrow> rs_Status s = RunStatusWaiting \<and>
     (case rs_Wait s of None \<Rightarrow> False
      | Some w \<Rightarrow> ws_Status w = RunStatusWaiting \<and> ws_NodeID w = rr_WaitNodeID request \<and>
          ws_WaitRevision w = rr_WaitRevision request \<and> ws_SchemaRevision w = rr_SchemaRevision request \<and>
          jsonEqual (map_any (rr_Correlation request)) (map_any (ws_Correlation w)) \<and>
          (rr_Source request = ''operator'' \<or>
            rr_Source request = ''authenticated-event'' \<and> wt_Kind (ws_Trigger w) \<noteq> ''operator'') \<and>
          \<not> wait_expired (ws_ExpiresAt w) t \<and>
          ValidateJSON matches (ws_InputSchema w) (map_any (rr_Input request)) = None)"

lemma ValidateResume_fence:
  assumes "ValidateResume matches doc s request t = None"
  shows "fenced matches t request s"
  using assms
  by (auto simp: ValidateResume_def fenced_def waits_def split: option.splits if_splits)

section \<open>The durable consumption of a wait\<close>

definition consumed :: "Runner \<Rightarrow> machine \<Rightarrow> bool" where
  "consumed r m \<longleftrightarrow> ru_Sink r = None \<or>
     (\<exists>s more. ma_log m = Emitted s # more \<and> rs_Wait s = None \<and> rs_Status s = ''running'')"

lemma deltas_silent: "keeps (\<lambda>m. ma_log m = []) (apply_deltas su doc node spec request ds)"
proof (induction ds)
  case (Cons d ds)
  have "keeps (\<lambda>m. ma_log m = []) current" "keeps (\<lambda>m. ma_log m = []) (now su)"
    "keeps (\<lambda>m. ma_log m = []) (change f)" for f
    by (simp_all add: triple_def current_def now_def ask_def change_def)
  then show ?case unfolding apply_deltas.simps by (intro triple_rules Cons.IH)
qed (simp add: keeps_ret)

lemma consume_first:
  assumes "run_state (do { reported \<leftarrow> emit r; (case reported of Some e \<Rightarrow> ret (Some e) | None \<Rightarrow> Run su r doc) }) m
      = (err, m')"
    and "ma_log m = []" and "rs_Wait (ma_state m) = None" and "rs_Status (ma_state m) = ''running''"
  shows "consumed r m'"
proof (cases "ru_Sink r")
  case (Some sink)
  obtain e m1 where m1: "run_state (emit r) m = (e, m1)" by fastforce
  then have log1: "ma_log m1 = [Emitted (redactedRunState (ma_state m))]"
    using Some assms(2) by (auto simp: emit_def current_def note_event_def ask_def)
  have "\<exists>more. ma_log m' = ma_log m1 @ more"
    using assms(1) m1 by (auto split: option.splits dest: Run_grows)
  then show ?thesis using assms(3,4) log1 by (auto simp: consumed_def redactedRunState_def)
qed (simp add: consumed_def)

lemma called_tools: "Dispatched tool args \<in> set es \<Longrightarrow> tools_called es \<noteq> []"
  by (force simp: tools_called_def List.map_filter_def filter_empty_conv)

lemma expire_silent:
  assumes "run_state (expire_wait su r request e) m = (u, m')"
  shows "tools_called (ma_log m') = tools_called (ma_log m)"
  using assms by (auto simp: expire_wait_def now_def ask_def change_def split: prod.splits dest!: emit_effect)

lemma resume_accepted:
  assumes "run_state (Resume su r doc request) m = (err, m')" and "ma_log m = []"
    and "tools_called (ma_log m') \<noteq> []"
  shows "ValidateResume (su_matches su) doc (ma_state m) request (su_now su (ma_asked m)) = None"
proof (rule ccontr)
  assume "ValidateResume (su_matches su) doc (ma_state m) request (su_now su (ma_asked m)) \<noteq> None"
  then show False
    using assms by (auto simp: Resume_def current_def ask_def split: option.splits if_splits prod.splits
        dest!: expire_silent)
qed

lemma resume_consumed:
  assumes "run_state (Resume su r doc request) m = (err, m')" and "ma_log m = []"
    and "tools_called (ma_log m') \<noteq> []"
  shows "consumed r m'"
proof -
  define m1 where "m1 = m\<lparr>ma_asked := Suc (ma_asked m)\<rparr>"
  have fence: "ValidateResume (su_matches su) doc (ma_state m) request (su_now su (ma_asked m)) = None"
    and valid: "Validate (su_matches su) doc (ru_Capabilities r) (ru_CatalogRevision r) = None"
    using resume_accepted [OF assms] assms by (auto simp: Resume_def current_def split: option.splits)
  then obtain w node spec where w: "rs_Wait (ma_state m) = Some w" "nodeByID doc (ws_NodeID w) = Some node"
    "nd_Wait node = Some spec"
    by (auto simp: ValidateResume_def split: option.splits if_splits)
  obtain e m2 where m2: "run_state (apply_deltas su doc node spec request (wa_ContextDelta spec)) m1 = (e, m2)"
    by fastforce
  have quiet: "ma_log m2 = []" using tripleD [OF deltas_silent _ m2] assms(2) by (simp add: m1_def)
  define m3 where "m3 = m2\<lparr>ma_asked := Suc (ma_asked m2), ma_state := (ma_state m2)\<lparr>
    rs_Nodes := gomap_put (nd_ID node) ((node_state (nd_ID node) StatusSatisfied None)\<lparr>ns_CompletedAt :=
      Time (su_now su (ma_asked m2))\<rparr>) (rs_Nodes (ma_state m2)),
    rs_Wait := None, rs_Status := ''running'', rs_Error := None\<rparr>\<rparr>"
  have "e = None \<and> run_state (do { reported \<leftarrow> emit r; (case reported of Some e \<Rightarrow> ret (Some e) | None \<Rightarrow> Run su r doc) }) m3
      = (err, m')"
    using assms(1,3) valid fence w m2 quiet
    by (auto simp: Resume_def current_def ask_def now_def change_def m1_def m3_def split: option.splits)
  from consume_first [OF conjunct2 [OF this]] show ?thesis using quiet by (simp add: m3_def)
qed

text \<open>
  C6: a resumption calls a tool only past the fence, and only after the wait was durably consumed. If
  \<open>Resume\<close> calls anything, the run was waiting on exactly the node, revision, schema and correlation
  of the request, the source was allowed, the wait had not expired and the input met its schema; and
  the first thing reported was the running state in which the wait is gone.
\<close>

theorem resume_consumes:
  assumes "run_state (Resume su r doc request) m = (err, m')" and "ma_log m = []"
    and "Dispatched tool args \<in> set (ma_log m')"
  shows "fenced (su_matches su) (su_now su (ma_asked m)) request (ma_state m) \<and>
    (ru_Sink r = None \<or>
      (\<exists>s more. ma_log m' = Emitted s # more \<and> rs_Wait s = None \<and> rs_Status s = ''running''))"
  using ValidateResume_fence [OF resume_accepted] resume_consumed called_tools assms
  unfolding consumed_def by blast

section \<open>A resumption\<close>

definition wait_schema :: anymap where
  "wait_schema = Some [(''type'', AStr ''object''), (''additionalProperties'', ABool False),
     (''properties'', AMap [])]"

definition wait_node :: Node where
  "wait_node = (demo_node ''k'' [])\<lparr>nd_Wait := Some \<lparr>wa_Trigger = \<lparr>wt_Kind = ''operator'', wt_Type = ''p''\<rparr>,
     wa_Correlation = None, wa_InputSchema = wait_schema, wa_SchemaRevision = ''p'', wa_ExpiresAt = NoTime,
     wa_ExpiresInMs = 0, wa_ContextDelta = []\<rparr>\<rparr>"

definition wait_plan :: Document where
  "wait_plan = demo_doc [(demo_node ''a'' [])\<lparr>nd_Action := Some \<lparr>ac_Tool = ''t'', ac_Args = None\<rparr>\<rparr>, wait_node]"

definition wait_machine :: machine where
  "wait_machine = demo_machine\<lparr>ma_state := demo_state\<lparr>rs_Status := RunStatusWaiting,
     rs_Wait := Some \<lparr>ws_NodeID = ''k'', ws_WaitID = ''r:k:1'', ws_WaitRevision = 1, ws_SchemaRevision = ''p'',
       ws_Trigger = \<lparr>wt_Kind = ''operator'', wt_Type = ''p''\<rparr>, ws_Correlation = Some [],
       ws_InputSchema = wait_schema, ws_ExpiresAt = NoTime, ws_Status = RunStatusWaiting\<rparr>\<rparr>\<rparr>"

definition wait_request :: ResumeRequest where
  "wait_request = \<lparr>rr_WaitNodeID = ''k'', rr_WaitRevision = 1, rr_SchemaRevision = ''p'',
     rr_Correlation = Some [], rr_Input = Some [], rr_Source = ''operator''\<rparr>"

lemma wait_plan_levels: "TopologicalLevels wait_plan = Inr [doc_Nodes wait_plan]"
proof -
  have "buildGraph wait_plan = Inr \<lparr>gr_nodes = [(''a'', hd (doc_Nodes wait_plan)), (''k'', wait_node)],
      gr_indegree = [(''a'', 0), (''k'', 0)], gr_dependents = []\<rparr>"
    by (simp add: buildGraph_def wait_plan_def wait_node_def demo_doc_def demo_node_def zero_node_def)
  moreover have "zero_degree [(''a'', 0), (''k'', 0)] = [''a'', ''k'']" by code_simp
  ultimately show ?thesis
    by (simp add: TopologicalLevels_def levels_loop.simps gomap_or_def node_or_zero_def Let_def
        wait_plan_def demo_doc_def)
qed

lemma wait_plan_graph: "ValidateGraph wait_plan = None"
proof (rule graph_accepted)
  have "dependency wait_plan = {}"
    by (auto simp: dependency_def wait_plan_def wait_node_def demo_doc_def demo_node_def zero_node_def)
  then show "acyclic (dependency wait_plan)" by (simp add: acyclic_def)
qed (simp add: well_formed_def wait_plan_def wait_node_def demo_doc_def demo_node_def zero_node_def node_ids_def)

lemmas wait_schema_eval = wait_schema_def schemaType_def lookup_def sub_map_def

lemma wait_schema_bounded: "validateBoundedInputSchema wait_schema 0 = None"
  by (simp add: validateBoundedInputSchema.simps validateBoundedSchema_def wait_schema_eval undeclared_required_def)

lemma wait_plan_valid: "Validate (\<lambda>_ _. None) wait_plan [(''t'', demo_capability ''read'')] [] = None"
proof -
  have "validateBoundedInputSchema wait_schema 0 = None" "entries wait_schema \<noteq> []" "marshalable (map_any wait_schema)"
    by (simp_all add: wait_schema_bounded) (simp_all add: wait_schema_def)
  then show ?thesis
    using wait_plan_graph
    by (simp add: plan_eval wait_plan_def wait_node_def demo_trims validateWaitSpec_def)
qed

lemma wait_parts:
  "doc_Nodes wait_plan = [(demo_node ''a'' [])\<lparr>nd_Action := Some \<lparr>ac_Tool = ''t'', ac_Args = None\<rparr>\<rparr>, wait_node]"
  "doc_PlanID wait_plan = ''p''" "doc_Generation wait_plan = 1" "passes_of wait_plan = 0"
  "attemptsFor node wait_plan = (if rt_MaxAttempts (nd_Retry node) \<le> 0 then 1 else rt_MaxAttempts (nd_Retry node))"
  by (simp_all add: plan_eval wait_plan_def)

lemma wait_input: "ValidateJSON matches wait_schema (AMap []) = None"
  by (simp add: ValidateJSON.simps wait_schema_eval check_enum_def check_const_def types_of_def
      missing_required_def check_minimum_def isWholeReference_def stringOrAnySlice_def)

lemma wait_trim: "TrimSpace ''operator'' = ''operator''"
  by code_simp

lemma wait_accepted: "ValidateResume (\<lambda>_ _. None) wait_plan (ma_state wait_machine) wait_request 0 = None"
  by (simp add: ValidateResume_def wait_machine_def wait_request_def waits_def wait_trim nodeByID_def
      wait_parts wait_node_def demo_node_def wait_expired_def wait_input jsonEqual_refl)

lemma wait_resumes:
  "Dispatched ''t'' (Some []) \<in>
    set (ma_log (snd (run_state (Resume demo_su demo_runner wait_plan wait_request) wait_machine)))"
  by (simp add: Resume_def current_def ask_def demo_su_def demo_runner_def wait_plan_valid wait_accepted
      wait_machine_def [THEN arg_cong [of _ _ ma_asked]])
    (simp add: wait_machine_def nodeByID_def run_eval wait_plan_valid wait_plan_levels wait_parts demo_parts
      wait_node_def demo_node_def zero_node_def zero_retry_def revisit_def)

theorem resume_consumes_witness:
  "\<exists>m'. Dispatched ''t'' (Some []) \<in> set (ma_log m') \<and>
    m' = snd (run_state (Resume demo_su demo_runner wait_plan wait_request) wait_machine) \<and>
    fenced (su_matches demo_su) 0 wait_request (ma_state wait_machine) \<and>
    (\<exists>s more. ma_log m' = Emitted s # more \<and> rs_Wait s = None)"
proof -
  obtain err m' where run: "run_state (Resume demo_su demo_runner wait_plan wait_request) wait_machine = (err, m')"
    by fastforce
  then have called: "Dispatched ''t'' (Some []) \<in> set (ma_log m')" using wait_resumes by simp
  have "ma_log wait_machine = []" "ru_Sink demo_runner \<noteq> None" "su_now demo_su n = 0" for n
    by (simp_all add: wait_machine_def demo_runner_def demo_su_def)
  with resume_consumes [OF run _ called] run called show ?thesis by auto
qed

section \<open>Revisions\<close>

text \<open>
  A wait that was consumed leaves no trace in the next one. Reaching a wait node when no wait is
  recorded, as after every resumption, yields revision 1 and the identifier of the first wait, so a
  node that waits a second time in a run issues the fence of the first wait again.
\<close>

theorem wait_revision_restarts:
  assumes "run_state (run_wait su r doc node ns w) m = (err, m')" and "rs_Wait (ma_state m) = None"
    and "rs_Wait (ma_state m') = Some w'"
  shows "ws_WaitRevision w' = 1 \<and> ws_WaitID w' = rs_RunID (ma_state m) @ '':'' @ nd_ID node @ '':'' @ ''1''"
proof -
  have one: "Itoa 1 = ''1''" by code_simp
  have expiry: "ma_state m1 = ma_state m" if "run_state (wait_expiry su w) m = (e, m1)" for e m1
    using that by (auto simp: wait_expiry_def ask_def split: if_splits)
  have kept: "ma_state m2 = ma_state m1" if "run_state (emit r) m1 = (e, m2)" for m1 e m2
    using emit_effect [OF that] by simp
  show ?thesis
    using assms
    by (auto simp: run_wait_def current_def change_def fail_node_def put_and_emit_def set_node_def now_def
        ask_def wait_state_def wait_revision_def one split: prod.splits sum.splits option.splits if_splits
        dest!: expiry kept)
qed

theorem wait_revision_restarts_witness:
  "\<exists>w'. rs_Wait (ma_state (snd (run_state (run_wait demo_su demo_runner wait_plan wait_node
      (node_state ''k'' StatusPending None) (the (nd_Wait wait_node))) demo_machine))) = Some w' \<and>
    ws_WaitID w' = ''r:k:1''"
proof -
  obtain err m' where run: "run_state (run_wait demo_su demo_runner wait_plan wait_node
      (node_state ''k'' StatusPending None) (the (nd_Wait wait_node))) demo_machine = (err, m')" by fastforce
  have "\<exists>w'. rs_Wait (ma_state m') = Some w'"
    using run by (auto simp: run_wait_def wait_expiry_def wait_node_def run_eval)
  then obtain w' where w': "rs_Wait (ma_state m') = Some w'" ..
  have "rs_Wait (ma_state demo_machine) = None" by (simp add: demo_machine_def demo_state_def)
  from wait_revision_restarts [OF run this w'] run w' show ?thesis
    by (simp add: demo_machine_def demo_state_def wait_node_def demo_node_def)
qed

end
