(* ===== verification/Plan_Guards.thy ===== *)
theory Plan_Guards
  imports Plan_Resume
begin

text \<open>
  What acceptance by \<open>Validate\<close> guarantees before anything runs: references reach only transitive
  dependencies, mutating work is observable and is not repeated unless it is idempotent, and the
  total effort is bounded.
\<close>

section \<open>Ancestors\<close>

lemma visit_below:
  "y \<in> set (visit parents ws seen) \<Longrightarrow>
   y \<in> set seen \<or> (\<exists>w \<in> set ws. (y, w) \<in> {(p, x). p \<in> set (gomap_or parents x [])}\<^sup>*)"
proof (induction parents ws seen rule: visit.induct)
  case (2 parents p ps seen)
  let ?E = "{(p, x). p \<in> set (gomap_or parents x [])}"
  show ?case
  proof (cases "p \<in> set seen")
    case False
    with 2 consider "y \<in> set (p # seen)" | w where "w \<in> set (gomap_or parents p [] @ ps)" "(y, w) \<in> ?E\<^sup>*"
      by auto
    then show ?thesis
    proof cases
      case 2
      then consider "w \<in> set ps" | "(w, p) \<in> ?E" by auto
      then show ?thesis using 2(2) by cases (auto intro: rtrancl_into_rtrancl)
    qed auto
  qed (use 2 in auto)
qed simp

lemma get_put_all:
  "gomap_get (foldl (\<lambda>m n. gomap_put (k n) (v n) m) m0 ns) i = Some x \<Longrightarrow>
   (\<exists>n \<in> set ns. k n = i \<and> x = v n) \<or> gomap_get m0 i = Some x"
  by (induction ns arbitrary: m0) (fastforce split: if_splits)+

lemma parents_dependency:
  "{(p, x). p \<in> set (gomap_or (parents_map (doc_Nodes doc)) x [])} \<subseteq> dependency doc"
  unfolding parents_map_def gomap_or_def dependency_def
  by (auto split: option.splits dest!: get_put_all [OF sym])

lemma ancestors_dependencies:
  assumes "y \<in> set (gomap_or (graphAncestors doc) i [])"
  shows "(y, i) \<in> (dependency doc)\<^sup>+"
proof -
  let ?parents = "parents_map (doc_Nodes doc)"
  have "y \<in> set (visit ?parents (gomap_or ?parents i []) [])"
    using assms unfolding graphAncestors_def gomap_or_def [of "foldl _ _ _"]
    by (auto split: option.splits dest!: get_put_all [OF sym])
  then obtain w where w: "w \<in> set (gomap_or ?parents i [])"
    "(y, w) \<in> {(p, x). p \<in> set (gomap_or ?parents x [])}\<^sup>*"
    using visit_below by fastforce
  then have "(w, i) \<in> dependency doc" "(y, w) \<in> (dependency doc)\<^sup>*"
    using parents_dependency rtrancl_mono [OF parents_dependency] by auto
  then show ?thesis by (rule rtrancl_into_trancl1 [rotated])
qed

section \<open>References\<close>

text \<open>The values of a node in which a reference may occur, for the calls it makes.\<close>

definition call_values :: "Node \<Rightarrow> any list" where
  "call_values n =
     (case nd_Action n of None \<Rightarrow> [] | Some a \<Rightarrow> [map_any (ac_Args a)]) @
     (case nd_Validate n of None \<Rightarrow> [] | Some v \<Rightarrow> [map_any (va_Args v)]) @
     (case nd_Recover n of None \<Rightarrow> [] | Some r \<Rightarrow> [map_any (rec_Args r)]) @
     (case nd_Compensate n of None \<Rightarrow> [] | Some a \<Rightarrow> [map_any (ac_Args a)]) @
     (case nd_Wait n of None \<Rightarrow> [] | Some w \<Rightarrow> [map_any (wa_Correlation w)])"

lemma or_else_iff: "or_else a b = None \<longleftrightarrow> a = None \<and> b = None"
  by (cases a) (simp_all add: or_else_def)

lemma Validate_parts:
  assumes "Validate matches doc caps revision = None"
  shows "validate_header doc revision = None" "ValidateGraph doc = None"
    "n \<in> set (doc_Nodes doc) \<Longrightarrow> validate_node matches doc (graphAncestors doc) caps n = None"
    "(\<Sum>n \<leftarrow> doc_Nodes doc. node_attempts doc n) \<le> maxTotalAttempts"
  using assms
  by (auto simp: Validate_def Let_def or_else_iff first_error_None split: if_splits)

lemma validate_node_parts:
  assumes "validate_node matches doc ancestors caps n = None"
  shows "validate_wait doc ancestors n = None" "validate_action matches doc ancestors caps n = None"
    "validate_validation matches doc ancestors caps n = None"
    "validate_recover matches doc ancestors caps n = None"
    "validate_compensate matches doc ancestors caps n = None" "validate_retry caps n = None"
  using assms by (auto simp: validate_node_def or_else_iff split: if_splits)

lemma call_values_checked:
  assumes "validate_node matches doc ancestors caps n = None" and "v \<in> set (call_values n)"
  shows "validateInterpolations v doc n ancestors = None"
  using assms(2) validate_node_parts [OF assms(1)]
  by (auto simp: call_values_def validate_wait_def validate_action_def validate_validation_def
      validate_recover_def validate_compensate_def check_call_def or_else_iff
      split: option.splits if_splits)

text \<open>
  A reference to the output of a node always looks backwards. In an accepted plan, every
  reference to a node in the arguments of an action, a readiness check, a recovery or a compensation,
  or in the correlation of a wait, names a node on which the referring node depends, directly or
  through other nodes.
\<close>

theorem references_grounded:
  assumes "Validate matches doc caps revision = None" and "n \<in> set (doc_Nodes doc)"
    and "v \<in> set (call_values n)" and "r \<in> set (refs_in v)"
    and "Split (strip_whole r) (CHR ''.'') = ''nodes'' # producer # path"
  shows "(producer, nd_ID n) \<in> (dependency doc)\<^sup>+"
proof -
  have "validateReference r doc n (graphAncestors doc) (nd_ForEach n \<noteq> None) = None"
    using call_values_checked [OF Validate_parts(3) [OF assms(1,2)] assms(3)] assms(4)
    by (simp add: validateInterpolations_def first_error_None)
  then have "producer \<in> set (gomap_or (graphAncestors doc) (nd_ID n) [])"
    using assms(5) by (auto simp: validateReference_def Let_def split: if_splits)
  then show ?thesis by (rule ancestors_dependencies)
qed

text \<open>
  An accepted plan is bounded and does not repeat unsafe work. It has at most 256 nodes and 256
  attempts in all and at most 32 passes; a node whose action mutates the host has a readiness check
  that only reads; and an action or a recovery that is not idempotent is attempted once.
\<close>

theorem validate_guards:
  assumes "Validate matches doc caps revision = None" and "n \<in> set (doc_Nodes doc)"
    and "nd_Action n = Some act" and "gomap_get caps (ac_Tool act) = Some c" and "cp_Effect c \<noteq> ''read''"
  shows "(\<exists>v c'. nd_Validate n = Some v \<and> gomap_get caps (va_Tool v) = Some c' \<and> cp_Effect c' = ''read'') \<and>
    (cp_Idempotent c \<or> attemptsFor n doc = 1) \<and> ac_Tool act \<noteq> ''run_host_plan'' \<and>
    (\<forall>rc c'. nd_Recover n = Some rc \<and> gomap_get caps (rec_Tool rc) = Some c' \<and> cp_Effect c' \<noteq> ''read'' \<and>
      \<not> cp_Idempotent c' \<longrightarrow> recoveryAttempts rc = 1) \<and>
    length (doc_Nodes doc) \<le> 256 \<and> (\<Sum>n \<leftarrow> doc_Nodes doc. node_attempts doc n) \<le> 256 \<and>
    run_passes_limit doc \<le> 32"
proof -
  note node = validate_node_parts [OF Validate_parts(3) [OF assms(1,2)]]
  have act: "nd_Validate n \<noteq> None" "cp_Idempotent c \<or> attemptsFor n doc \<le> 1" "ac_Tool act \<noteq> ''run_host_plan''"
    using node(2) assms(3-5) by (auto simp: validate_action_def or_else_iff split: if_splits)
  moreover have "attemptsFor n doc \<le> 1 \<Longrightarrow> attemptsFor n doc = 1" using attemptsFor_pos [of n doc] by simp
  moreover have "\<exists>v c'. nd_Validate n = Some v \<and> gomap_get caps (va_Tool v) = Some c' \<and> cp_Effect c' = ''read''"
    using node(3) act(1) by (auto simp: validate_validation_def split: option.splits if_splits)
  moreover have "recoveryAttempts rc = 1" if "nd_Recover n = Some rc" "gomap_get caps (rec_Tool rc) = Some c'"
    "cp_Effect c' \<noteq> ''read''" "\<not> cp_Idempotent c'" for rc c'
    using node(6) that by (auto simp: validate_retry_def recoveryAttempts_def split: if_splits)
  moreover have "length (doc_Nodes doc) \<le> 256" "run_passes_limit doc \<le> 32"
    using Validate_parts(1) [OF assms(1)]
    by (auto simp: validate_header_def run_passes_limit_def maxNodes_def maxPasses_def split: if_splits)
  moreover have "(\<Sum>n \<leftarrow> doc_Nodes doc. node_attempts doc n) \<le> 256"
    using Validate_parts(4) [OF assms(1)] by (simp add: maxTotalAttempts_def)
  ultimately show ?thesis by blast
qed

section \<open>An accepted plan\<close>

definition guarded_node :: Node where
  "guarded_node = (demo_node ''k'' [''a''])\<lparr>
     nd_Action := Some \<lparr>ac_Tool = ''m'', ac_Args = Some [(''x'', AStr ''${nodes.a.output}'')]\<rparr>,
     nd_Validate := Some \<lparr>va_Tool = ''t'', va_Args = None, va_Assert = [], va_PollIntervalMs = 0,
       va_TimeoutMs = 0\<rparr>\<rparr>"

definition guarded_plan :: Document where
  "guarded_plan = demo_doc
     [(demo_node ''a'' [])\<lparr>nd_Action := Some \<lparr>ac_Tool = ''t'', ac_Args = None\<rparr>\<rparr>, guarded_node]"

definition guarded_caps :: capabilities where
  "guarded_caps = [(''t'', (demo_capability ''read'')\<lparr>cp_OutputSchema := Some [(''type'', AStr ''object'')]\<rparr>),
     (''m'', demo_capability ''mutate'')]"

lemma guarded_dependency: "dependency guarded_plan = {(''a'', ''k'')}"
proof -
  have "dependency (demo_doc [n, n']) = {(d, i). i = nd_ID n \<and> d \<in> set (nd_DependsOn n) \<or>
      i = nd_ID n' \<and> d \<in> set (nd_DependsOn n')}" for n n'
    by (auto simp: dependency_def demo_doc_def)
  then show ?thesis by (auto simp: guarded_plan_def guarded_node_def demo_node_def zero_node_def)
qed

lemma guarded_graph: "ValidateGraph guarded_plan = None"
proof (rule graph_accepted)
  show "acyclic (dependency guarded_plan)"
    by (simp add: guarded_dependency acyclic_def trancl_insert)
qed (simp add: well_formed_def guarded_plan_def guarded_node_def demo_doc_def demo_node_def zero_node_def node_ids_def)

lemma guarded_pieces: "pieces ''${nodes.a.output}'' = [Ref ''nodes.a.output'']"
  by code_simp

lemma guarded_strip: "strip_whole ''nodes.a.output'' = ''nodes.a.output''"
  by code_simp

lemma guarded_split: "Split ''nodes.a.output'' (CHR ''.'') = [''nodes'', ''a'', ''output'']"
  by code_simp

lemma guarded_ancestors: "graphAncestors guarded_plan = [(''a'', []), (''k'', [''a''])]"
  by (simp add: graphAncestors_def parents_map_def guarded_plan_def guarded_node_def demo_doc_def demo_node_def zero_node_def
      gomap_or_def)

lemma guarded_reference:
  "nd_ID n = ''k'' \<Longrightarrow>
   validateReference ''nodes.a.output'' guarded_plan n (graphAncestors guarded_plan) b = None"
  by (simp add: validateReference_def Let_def guarded_strip guarded_split guarded_ancestors
      gomap_or_def demo_trims)

lemma guarded_type: "reference_type w ''nodes.a.output'' None guarded_plan n guarded_caps = None"
proof -
  have "\<not> HasPrefix ''nodes.a.output'' ''input.''" "\<not> HasPrefix ''nodes.a.output'' ''context.''"
    "HasPrefix ''nodes.a.output'' ''nodes.''" by code_simp+
  then show ?thesis
    by (simp add: reference_type_def guarded_split Let_def nodeByID_def guarded_plan_def guarded_node_def demo_doc_def
        demo_node_def zero_node_def producer_schema_def guarded_caps_def schemaAt_def check_produced_def
        demo_capability_def)
qed

lemma guarded_types:
  "check_types what guarded_plan n guarded_caps (demo_capability e)
     (Some [(''x'', AStr ''${nodes.a.output}'')]) = None"
  by (simp add: check_types_def validateReferenceTypes_def walkReferenceTypes_def guarded_pieces
      guarded_type sub_map_def demo_capability_def or_else_def map_or_nil_def del: pieces.simps)

lemma guarded_references:
  "nd_ID n = ''k'' \<Longrightarrow> validateInterpolations (AMap [(''x'', AStr ''${nodes.a.output}'')]) guarded_plan n
     (graphAncestors guarded_plan) = None"
  by (simp add: validateInterpolations_def guarded_pieces guarded_reference del: pieces.simps)

lemma guarded_attempts: "nd_Retry n = zero_retry \<Longrightarrow> attemptsFor n guarded_plan = 1"
  by (simp add: attemptsFor_def guarded_plan_def demo_doc_def zero_retry_def)

lemma guarded_header: "validate_header guarded_plan [] = None"
  by (simp add: plan_eval guarded_plan_def guarded_node_def demo_trims del: pieces.simps)

lemmas node_eval = demo_node_def zero_node_def validate_node_def validate_wait_def validate_target_def
  validate_action_def validate_validation_def validate_recover_def validate_compensate_def
  validate_forEach_def validate_retry_def check_call_def or_else_iff

lemma guarded_first:
  "validate_node m guarded_plan (graphAncestors guarded_plan) guarded_caps
     ((demo_node ''a'' [])\<lparr>nd_Action := Some \<lparr>ac_Tool = ''t'', ac_Args = None\<rparr>\<rparr>) = None"
  by (simp add: node_eval guarded_caps_def demo_trims demo_capability_def check_types_def zero_retry_def
      maxTotalAttempts_def validateReferenceTypes_def walkReferenceTypes_def validateInterpolations_def)

lemma guarded_second:
  "validate_node m guarded_plan (graphAncestors guarded_plan) guarded_caps guarded_node = None"
proof -
  have caps: "gomap_get guarded_caps ''m'' = Some (demo_capability ''mutate'')"
    "gomap_get guarded_caps ''t'' = Some ((demo_capability ''read'')\<lparr>cp_OutputSchema := Some [(''type'', AStr ''object'')]\<rparr>)"
    by (simp_all add: guarded_caps_def)
  have facts: "cp_Effect (demo_capability ''read'') = ''read''" "rt_MaxAttempts zero_retry = 0"
    by (simp_all add: demo_capability_def zero_retry_def)
  have "check_types what d n cs ((demo_capability ''read'')\<lparr>cp_OutputSchema := o'\<rparr>) None = None"
    "validateInterpolations ANilMap d n as = None" for what d n cs o' as
    by (simp_all add: check_types_def validateReferenceTypes_def walkReferenceTypes_def validateInterpolations_def)
  then show ?thesis
    by (simp add: guarded_node_def node_eval caps guarded_types guarded_references guarded_attempts demo_trims
        demo_parts facts maxTotalAttempts_def)
qed

lemma guarded_valid: "Validate (\<lambda>_ _. None) guarded_plan guarded_caps [] = None"
proof -
  have nodes: "doc_Nodes guarded_plan =
      [(demo_node ''a'' [])\<lparr>nd_Action := Some \<lparr>ac_Tool = ''t'', ac_Args = None\<rparr>\<rparr>, guarded_node]"
    by (simp add: guarded_plan_def demo_doc_def)
  show ?thesis
    using guarded_header guarded_graph guarded_first guarded_second
    by (simp add: Validate_def Let_def or_else_iff nodes node_attempts_def guarded_attempts guarded_node_def
        demo_node_def zero_node_def maxTotalAttempts_def)
qed

theorem references_grounded_witness: "(''a'', ''k'') \<in> (dependency guarded_plan)\<^sup>+"
proof -
  have "guarded_node \<in> set (doc_Nodes guarded_plan)" "nd_ID guarded_node = ''k''"
    "AMap [(''x'', AStr ''${nodes.a.output}'')] \<in> set (call_values guarded_node)"
    "''nodes.a.output'' \<in> set (refs_in (AMap [(''x'', AStr ''${nodes.a.output}'')]))"
    by (simp_all add: guarded_plan_def demo_doc_def guarded_node_def demo_node_def call_values_def
        guarded_pieces del: pieces.simps)
  then show ?thesis
    using references_grounded [OF guarded_valid, of guarded_node _ "''nodes.a.output''" "''a''" "[''output'']"]
    by (simp add: guarded_strip guarded_split)
qed

theorem validate_guards_witness:
  "(\<exists>v. nd_Validate guarded_node = Some v) \<and> attemptsFor guarded_node guarded_plan = 1"
proof -
  let ?act = "\<lparr>ac_Tool = ''m'', ac_Args = Some [(''x'', AStr ''${nodes.a.output}'')]\<rparr>"
  have "guarded_node \<in> set (doc_Nodes guarded_plan)"
    "nd_Action guarded_node = Some \<lparr>ac_Tool = ''m'', ac_Args = Some [(''x'', AStr ''${nodes.a.output}'')]\<rparr>"
    "gomap_get guarded_caps ''m'' = Some (demo_capability ''mutate'')"
    by (simp_all add: guarded_plan_def demo_doc_def guarded_node_def guarded_caps_def)
  then show ?thesis
    using validate_guards [OF guarded_valid, of guarded_node ?act "demo_capability ''mutate''"] by (auto simp: demo_capability_def)
qed

end
