(* ===== verification/Plan_Values.thy ===== *)
theory Plan_Values
  imports Plan_Guards
begin

text \<open>
  Laws of the values the plan engine computes with: the delay between attempts, the objects that
  pass a schema, and JSON pointers.
\<close>

section \<open>Backoff\<close>

lemma sint_five_minutes: "sint five_minutes = 300000000000"
  using sint_small [of 300000000000] by (simp add: five_minutes_def)

lemma grow_delay_exact:
  assumes "0 < d" and "d \<le> 300000000000" and "0 < f" and "f \<le> 2 ^ 24"
  shows "sint (grow_delay (of_int d) f n) = min 300000000000 (d * f ^ n)"
  using assms
proof (induction n arbitrary: d)
  case 0
  then show ?case using sint_small [of d] by simp
next
  case (Suc n)
  have "d * f \<le> 300000000000 * 2 ^ 24" using Suc.prems by (intro mult_mono) auto
  moreover have "0 < d * f" using Suc.prems by simp
  ultimately have product: "sint (of_int d * of_int f :: i64) = d * f"
    using sint_small [of "d * f"] by simp
  have pos: "1 \<le> f ^ n" "0 < d * f" using Suc.prems by (simp_all add: one_le_power)
  show ?case
  proof (cases "300000000000 < d * f")
    case True
    then have "300000000000 \<le> d * f * f ^ n" using pos by (smt (verit) mult_le_cancel_left1)
    then show ?thesis using True by (simp add: product sint_five_minutes mult.assoc)
  next
    case False
    then show ?thesis
      using Suc.IH [of "d * f"] Suc.prems pos by (simp add: product sint_five_minutes mult.assoc)
  qed
qed

text \<open>
  The pause before a retry is the exponential backoff, cut at five minutes. For a base delay of
  at most five minutes and a factor of at most \<open>2 ^ 24\<close> the 64-bit computation never wraps, and the
  delay before attempt \<open>n + 1\<close> is the base times the factor to the power \<open>n - 1\<close>, or five minutes if
  that is less.
\<close>

theorem backoff_exact:
  assumes "rt_BackoffMs node = b" and "0 < b" and "b \<le> 300000" and "rt_BackoffFactor node = f" and "0 < f"
    and "f \<le> 2 ^ 24" and "backoff_delay node defaults attempt = Some delay"
  shows "sint delay = min 300000000000 (b * 1000000 * f ^ nat (attempt - 1))"
proof -
  have "delay = grow_delay (of_int (b * 1000000)) f (nat (attempt - 1))"
    using assms by (simp add: backoff_delay_def)
  then show ?thesis using grow_delay_exact [of "b * 1000000" f] assms by simp
qed

theorem backoff_exact_witness:
  "map_option sint (backoff_delay \<lparr>rt_MaxAttempts = 5, rt_BackoffMs = 200, rt_BackoffFactor = 3\<rparr> zero_retry 3)
     = Some 1800000000"
proof -
  let ?retry = "\<lparr>rt_MaxAttempts = 5, rt_BackoffMs = 200, rt_BackoffFactor = 3\<rparr>"
  obtain delay where d: "backoff_delay ?retry zero_retry 3 = Some delay" by (simp add: backoff_delay_def)
  have "sint delay = min 300000000000 (200 * 1000000 * 3 ^ nat (3 - 1))"
    using backoff_exact [of ?retry 200 3 zero_retry 3 delay] d by simp
  then show ?thesis by (simp add: d)
qed

text \<open>Nothing bounds the base delay of a document, so the product with a millisecond can wrap.\<close>

lemma backoff_wraps:
  "map_option sint (backoff_delay \<lparr>rt_MaxAttempts = 2, rt_BackoffMs = 9223372036855, rt_BackoffFactor = 1\<rparr>
     zero_retry 1) = Some (- 9223372036854551616)"
  by code_simp

section \<open>Objects and their schema\<close>

lemma validate_fields_sound:
  "validate_fields matches schema fs = None \<Longrightarrow> (k, v) \<in> set fs \<Longrightarrow>
   (case sub_map (map_or_nil (sub_map schema ''properties'')) k of
      Some property \<Rightarrow> ValidateJSON matches property v = None
    | None \<Rightarrow> as_bool (lookup schema ''additionalProperties'') \<noteq> Some False)"
  by (induction fs) (auto simp: or_else_iff split: option.splits if_splits)

text \<open>
  Arguments that pass an object schema are complete and known. If \<open>ValidateJSON\<close> accepts a value
  for a schema of type object, the value is an object that has every required property; each of its
  properties passes its own schema or, when it is not declared, additional properties are allowed.
\<close>

theorem object_sound:
  assumes "ValidateJSON matches schema value = None" and "types_of schema = [''object'']"
    and "\<not> isWholeReference value"
  shows "\<exists>object. as_map value = Some object \<and>
    (\<forall>required r. stringOrAnySlice (lookup schema ''required'') = Some required \<and> r \<in> set required \<longrightarrow>
      gomap_has (entries object) r) \<and>
    (\<forall>k v. (k, v) \<in> set (entries object) \<longrightarrow>
      (case sub_map (map_or_nil (sub_map schema ''properties'')) k of
         Some property \<Rightarrow> ValidateJSON matches property v = None
       | None \<Rightarrow> as_bool (lookup schema ''additionalProperties'') \<noteq> Some False))"
proof -
  have "entries schema \<noteq> []" using assms(2) by (auto simp: types_of_def lookup_def)
  then obtain object where object: "as_map value = Some object"
    "missing_required schema (entries object) = None" "validate_fields matches schema (entries object) = None"
    using assms by (auto simp: ValidateJSON.simps or_else_iff split: option.splits)
  have "gomap_has (entries object) r"
    if "stringOrAnySlice (lookup schema ''required'') = Some required" "r \<in> set required" for required r
    using object(2) that by (auto simp: missing_required_def find_None_iff split: option.splits)
  then show ?thesis using object validate_fields_sound [OF object(3)] by blast
qed

theorem object_sound_witness:
  "\<exists>object. as_map (AMap [(''n'', AStr ''x'')]) = Some object \<and> gomap_has (entries object) ''n'' \<and>
    ValidateJSON (\<lambda>_ _. None) (Some [(''type'', AStr ''object''), (''required'', ASlice [AStr ''n''])])
      (AMap [(''n'', AStr ''x'')]) = None"
proof -
  let ?schema = "Some [(''type'', AStr ''object''), (''required'', ASlice [AStr ''n''])]"
  have "ValidateJSON (\<lambda>_ _. None) ?schema (AMap [(''n'', AStr ''x'')]) = None"
    by (simp add: ValidateJSON.simps lookup_def sub_map_def check_enum_def check_const_def types_of_def
        missing_required_def check_minimum_def isWholeReference_def stringOrAnySlice_def or_else_iff map_or_nil_def)
  moreover have "types_of ?schema = [''object'']" "\<not> isWholeReference (AMap [(''n'', AStr ''x'')])"
    "stringOrAnySlice (lookup ?schema ''required'') = Some [''n'']"
    by (simp_all add: types_of_def lookup_def isWholeReference_def stringOrAnySlice_def)
  ultimately show ?thesis using object_sound [of "\<lambda>_ _. None" ?schema] by fastforce
qed

section \<open>JSON pointers\<close>

text \<open>The escaping of RFC 6901, by which a key becomes a reference token.\<close>

fun escape :: "string \<Rightarrow> string" where
  "escape [] = []"
| "escape (c # cs) = (if c = CHR ''~'' then ''~0'' else if c = CHR ''/'' then ''~1'' else [c]) @ escape cs"

fun escape_tilde :: "string \<Rightarrow> string" where
  "escape_tilde [] = []"
| "escape_tilde (c # cs) = (if c = CHR ''~'' then ''~0'' else [c]) @ escape_tilde cs"

lemma ReplaceAll2_skip: "c \<noteq> a \<Longrightarrow> ReplaceAll2 (c # s) a b r = c # ReplaceAll2 s a b r"
  by (cases s) simp_all

lemma unescape_first: "ReplaceAll2 (escape k) (CHR ''~'') (CHR ''1'') (CHR ''/'') = escape_tilde k"
  by (induction k) (simp_all add: ReplaceAll2_skip)

lemma unescape_second: "ReplaceAll2 (escape_tilde k) (CHR ''~'') (CHR ''0'') (CHR ''~'') = k"
  by (induction k) (simp_all add: ReplaceAll2_skip)

lemma unescape_escape: "unescape (escape k) = k"
  by (simp add: unescape_def unescape_first unescape_second)

lemma escape_no_slash: "CHR ''/'' \<notin> set (escape k)"
  by (induction k) auto

definition pointer :: "string list \<Rightarrow> string" where
  "pointer ks = concat (map (\<lambda>k. CHR ''/'' # escape k) ks)"

fun descend :: "any \<Rightarrow> string list \<Rightarrow> any option" where
  "descend v [] = Some v"
| "descend v (k # ks) = (case step_into v k of None \<Rightarrow> None | Some w \<Rightarrow> descend w ks)"

lemma Split_pointer: "Split (tl (pointer (k # ks))) (CHR ''/'') = map escape (k # ks)"
proof (induction ks arbitrary: k)
  case Nil
  then show ?case using escape_no_slash by (simp add: pointer_def Split_single)
next
  case (Cons k' ks)
  then show ?case using escape_no_slash by (simp add: pointer_def Split_append_sep Split_single)
qed

lemma follow_escaped: "follow v (map escape ks) = descend v ks"
  by (induction ks arbitrary: v) (simp_all add: unescape_escape split: option.splits)

text \<open>
  Every value of a document has a pointer that reaches it. Following the escaped keys of a path
  with \<open>resolveJSONPointer\<close> gives what stepping through the keys gives, whatever characters they
  contain; the single empty key is the exception, whose pointer \<open>/\<close> the code reads as the whole value.
\<close>

theorem pointer_reaches:
  assumes "ks \<noteq> [[]]"
  shows "resolveJSONPointer v (pointer ks) = Inr (descend v ks)"
proof (cases ks)
  case (Cons k ks')
  have "pointer ks \<noteq> ''/''" using assms Cons by (cases k; cases ks') (auto simp: pointer_def)
  then show ?thesis
    using Split_pointer [of k ks'] follow_escaped [of v "k # ks'"] Cons
    by (simp add: resolveJSONPointer_def) (simp add: pointer_def HasPrefix_iff)
qed (simp add: resolveJSONPointer_def pointer_def)

theorem pointer_reaches_witness:
  "pointer [''a/b'', ''~''] = ''/a~1b/~0'' \<and>
   resolveJSONPointer (AMap [(''a/b'', AMap [(''~'', ABool True)])]) ''/a~1b/~0'' = Inr (Some (ABool True))"
proof -
  have p: "pointer [''a/b'', ''~''] = ''/a~1b/~0''" by (simp add: pointer_def)
  show ?thesis
    using pointer_reaches [of "[''a/b'', ''~'']" "AMap [(''a/b'', AMap [(''~'', ABool True)])]"]
    by (simp add: p step_into_def)
qed

end
