(* ===== verification/Generations.thy ===== *)
theory Generations
  imports Go_Strings
begin

text \<open>
  The lifecycle of provider generations (\<open>src/internal/cordis/generation.go\<close>): candidates become
  ready and then active, an activation drains its predecessor, sessions pin the generation they were
  opened on. Every method holds the manager's lock throughout, so each is one step; the manager and
  its sessions are exchanged for their new values. A nil manager is not represented.
\<close>

section \<open>Data\<close>

datatype GenerationState =
    GenerationUnset | GenerationCandidate | GenerationReady | GenerationActive | GenerationDraining
  | GenerationStopped | GenerationFailed
  | GenerationOther string   \<comment> \<open>any other text restored from the durable state\<close>

fun state_text :: "GenerationState \<Rightarrow> string" where
  "state_text GenerationUnset = []"
| "state_text GenerationCandidate = ''candidate''"
| "state_text GenerationReady = ''ready''"
| "state_text GenerationActive = ''active''"
| "state_text GenerationDraining = ''draining''"
| "state_text GenerationStopped = ''stopped''"
| "state_text GenerationFailed = ''failed''"
| "state_text (GenerationOther s) = s"

record ProviderRef =
  pf_ID :: string
  pf_Version :: string

record ProviderGeneration =
  ge_ID :: string
  ge_Provider :: ProviderRef
  ge_ManifestHash :: string
  ge_Endpoint :: string
  ge_CatalogRevision :: string
  ge_State :: GenerationState
  ge_CreatedAt :: int
  ge_ActiveAt :: int
  ge_Sessions :: int

record DrainPolicy =
  dp_Timeout :: int
  dp_CancelOnTimeout :: bool

record ProviderLifecycleManager =
  pm_generations :: "(string, ProviderGeneration) gomap"
  pm_active :: "(string, string) gomap"
  pm_sequence :: "64 word"
  pm_drain :: DrainPolicy

datatype LifecycleError = Lifecyclef string "string list"

definition NewProviderLifecycleManager :: "DrainPolicy \<Rightarrow> ProviderLifecycleManager" where
  "NewProviderLifecycleManager policy =
     \<lparr>pm_generations = [], pm_active = [], pm_sequence = 0,
      pm_drain = (if dp_Timeout policy \<le> 0 then policy\<lparr>dp_Timeout := 30000000000\<rparr> else policy)\<rparr>"

definition put_generation :: "string \<Rightarrow> ProviderGeneration \<Rightarrow> ProviderLifecycleManager \<Rightarrow>
    ProviderLifecycleManager" where
  "put_generation i g m = m\<lparr>pm_generations := gomap_put i g (pm_generations m)\<rparr>"

definition set_active :: "string \<Rightarrow> string \<Rightarrow> ProviderLifecycleManager \<Rightarrow> ProviderLifecycleManager" where
  "set_active p i m = m\<lparr>pm_active := gomap_put p i (pm_active m)\<rparr>"

definition clear_active :: "string \<Rightarrow> ProviderLifecycleManager \<Rightarrow> ProviderLifecycleManager" where
  "clear_active p m = m\<lparr>pm_active := gomap_del p (pm_active m)\<rparr>"

abbreviation generation :: "ProviderLifecycleManager \<Rightarrow> string \<Rightarrow> ProviderGeneration option" where
  "generation m i \<equiv> gomap_get (pm_generations m) i"

abbreviation active_id :: "ProviderLifecycleManager \<Rightarrow> string \<Rightarrow> string" where
  "active_id m p \<equiv> gomap_or (pm_active m) p []"

abbreviation provider_of :: "ProviderGeneration \<Rightarrow> string" where
  "provider_of g \<equiv> pf_ID (ge_Provider g)"

section \<open>Restoring\<close>

text \<open>\<open>strconv.ParseUint\<close> with base 10 and 64 bits.\<close>

definition ParseUint :: "string \<Rightarrow> int option" where
  "ParseUint s = (if s \<noteq> [] \<and> list_all digit s \<and> digits_val s < 2 ^ 64 then Some (digits_val s) else None)"

definition restoredGenerationSequence :: "string \<Rightarrow> int" where
  "restoredGenerationSequence i =
     (if CHR ''-'' \<notin> set i then 0
      else let suffix = rev (takeWhile (\<lambda>c. c \<noteq> CHR ''-'') (rev i))
        in if suffix = [] then 0
           else case ParseUint suffix of None \<Rightarrow> 0 | Some value \<Rightarrow> value)"

definition Restore :: "ProviderLifecycleManager \<Rightarrow> ProviderGeneration \<Rightarrow>
    ProviderLifecycleManager \<times> LifecycleError option" where
  "Restore m g0 =
     (if ge_ID g0 = [] \<or> provider_of g0 = [] \<or> pf_Version (ge_Provider g0) = [] \<or>
         ge_ManifestHash g0 = [] \<or> ge_Endpoint g0 = []
      then (m, Some (Lifecyclef ''provider generation identity, manifest hash, and endpoint are required'' []))
      else let g = (if ge_State g0 = GenerationUnset then g0\<lparr>ge_State := GenerationCandidate\<rparr> else g0) in
        if gomap_has (pm_generations m) (ge_ID g) then (m, None)
        else let m1 = put_generation (ge_ID g) g m;
                 index = restoredGenerationSequence (ge_ID g);
                 m2 = (if uint (pm_sequence m1) < index then m1\<lparr>pm_sequence := of_int index\<rparr> else m1)
          in if ge_State g \<noteq> GenerationActive then (m2, None)
             else if active_id m2 (provider_of g) \<noteq> [] \<and> active_id m2 (provider_of g) \<noteq> ge_ID g
             then (m2, Some (Lifecyclef ''provider %q has multiple active generations'' [provider_of g]))
             else (set_active (provider_of g) (ge_ID g) m2, None))"

section \<open>Lookup and refresh\<close>

definition Get_generation :: "ProviderLifecycleManager \<Rightarrow> string \<Rightarrow> ProviderGeneration option" where
  "Get_generation m i = generation m i"

definition not_found :: "string \<Rightarrow> LifecycleError" where
  "not_found i = Lifecyclef ''provider generation %q not found'' [i]"

definition Refresh :: "ProviderLifecycleManager \<Rightarrow> string \<Rightarrow> string \<Rightarrow> string \<Rightarrow>
    ProviderLifecycleManager \<times> (LifecycleError + ProviderGeneration)" where
  "Refresh m i manifestHash catalogRevision =
     (if TrimSpace i = [] \<or> TrimSpace manifestHash = [] \<or> TrimSpace catalogRevision = []
      then (m, Inl (Lifecyclef ''provider generation, manifest hash, and catalog revision are required'' []))
      else case generation m i of None \<Rightarrow> (m, Inl (not_found i))
        | Some g \<Rightarrow>
          if ge_State g \<noteq> GenerationActive
          then (m, Inl (Lifecyclef ''provider generation %q is %s, expected active''
            [i, state_text (ge_State g)]))
          else let g' = g\<lparr>ge_ManifestHash := manifestHash, ge_CatalogRevision := catalogRevision\<rparr>
               in (put_generation i g' m, Inr g'))"

definition CreateCandidate :: "int \<Rightarrow> ProviderLifecycleManager \<Rightarrow> ProviderRef \<Rightarrow> string \<Rightarrow> string \<Rightarrow> string \<Rightarrow>
    ProviderLifecycleManager \<times> (LifecycleError + ProviderGeneration)" where
  "CreateCandidate t m provider manifestHash endpoint catalogRevision =
     (if pf_ID provider = [] \<or> pf_Version provider = [] \<or> manifestHash = [] \<or> endpoint = [] \<or>
         TrimSpace catalogRevision = []
      then (m, Inl (Lifecyclef ''provider, manifest hash, endpoint, and catalog revision are required'' []))
      else let sequence = pm_sequence m + 1;
               i = pf_ID provider @ CHR ''-'' # nat_digits (unat sequence);
               g = \<lparr>ge_ID = i, ge_Provider = provider, ge_ManifestHash = manifestHash, ge_Endpoint = endpoint,
                  ge_CatalogRevision = catalogRevision, ge_State = GenerationCandidate, ge_CreatedAt = t,
                  ge_ActiveAt = 0, ge_Sessions = 0\<rparr>
        in (put_generation i g (m\<lparr>pm_sequence := sequence\<rparr>), Inr g))"

section \<open>Activation\<close>

definition MarkReady :: "ProviderLifecycleManager \<Rightarrow> string \<Rightarrow> ProviderLifecycleManager \<times> LifecycleError option" where
  "MarkReady m i = (case generation m i of None \<Rightarrow> (m, Some (not_found i))
     | Some g \<Rightarrow>
       if ge_State g \<noteq> GenerationCandidate
       then (m, Some (Lifecyclef ''provider generation %q is %s, expected candidate''
         [i, state_text (ge_State g)]))
       else (put_generation i (g\<lparr>ge_State := GenerationReady\<rparr>) m, None))"

text \<open>The generation that an activation drains, if the provider has another active one.\<close>

definition superseded :: "ProviderLifecycleManager \<Rightarrow> ProviderGeneration \<Rightarrow> string \<Rightarrow> ProviderGeneration option" where
  "superseded m candidate i = (let oldID = active_id m (provider_of candidate) in
     if oldID = [] \<or> oldID = i then None
     else case generation m oldID of None \<Rightarrow> None
       | Some old \<Rightarrow> if ge_State old = GenerationActive
           then Some (old\<lparr>ge_State := GenerationDraining\<rparr>) else None)"

definition Activate :: "int \<Rightarrow> ProviderLifecycleManager \<Rightarrow> string \<Rightarrow>
    ProviderLifecycleManager \<times> (LifecycleError + ProviderGeneration option \<times> ProviderGeneration)" where
  "Activate t m i = (case generation m i of None \<Rightarrow> (m, Inl (not_found i))
     | Some candidate \<Rightarrow>
       if ge_State candidate \<noteq> GenerationReady
       then (m, Inl (Lifecyclef ''provider generation %q is %s, expected ready''
         [i, state_text (ge_State candidate)]))
       else let previous = superseded m candidate i;
                m1 = (case previous of None \<Rightarrow> m
                  | Some old \<Rightarrow> put_generation (active_id m (provider_of candidate)) old m);
                activated = candidate\<lparr>ge_State := GenerationActive, ge_ActiveAt := t\<rparr>
            in (set_active (provider_of candidate) i (put_generation i activated m1), Inr (previous, activated)))"

definition RollbackActivation :: "ProviderLifecycleManager \<Rightarrow> string \<Rightarrow> string \<Rightarrow>
    ProviderLifecycleManager \<times> LifecycleError option" where
  "RollbackActivation m i previousID =
     (let not_active = (m, Some (Lifecyclef ''provider generation %q is not the active generation'' [i])) in
      case generation m i of None \<Rightarrow> not_active
      | Some current \<Rightarrow>
        if active_id m (provider_of current) \<noteq> i \<or> ge_State current \<noteq> GenerationActive then not_active
        else if 0 < ge_Sessions current
        then (m, Some (Lifecyclef ''provider generation %q has %d active session(s)''
          [i, Itoa (ge_Sessions current)]))
        else if previousID = []
        then (put_generation i (current\<lparr>ge_State := GenerationFailed\<rparr>)
          (clear_active (provider_of current) m), None)
        else let cannot = (m, Some (Lifecyclef ''provider generation %q cannot restore previous generation %q''
                 [i, previousID])) in
          case generation m previousID of None \<Rightarrow> cannot
          | Some previous \<Rightarrow>
            if provider_of previous \<noteq> provider_of current \<or> ge_State previous \<noteq> GenerationDraining then cannot
            else (set_active (provider_of current) previousID
              (put_generation i (current\<lparr>ge_State := GenerationFailed\<rparr>)
                (put_generation previousID (previous\<lparr>ge_State := GenerationActive\<rparr>) m)), None))"

definition Active :: "ProviderLifecycleManager \<Rightarrow> string \<Rightarrow> ProviderGeneration option" where
  "Active m p = (case generation m (active_id m p) of None \<Rightarrow> None
     | Some g \<Rightarrow> if ge_State g = GenerationActive then Some g else None)"

section \<open>Sessions\<close>

record GenerationSession =
  gs_generationID :: string
  gs_closed :: bool          \<comment> \<open>the \<open>once\<close> of the session has run\<close>

definition bump_sessions :: "int \<Rightarrow> ProviderGeneration \<Rightarrow> ProviderGeneration" where
  "bump_sessions n g = g\<lparr>ge_Sessions := ge_Sessions g + n\<rparr>"

definition OpenSession :: "ProviderLifecycleManager \<Rightarrow> string \<Rightarrow>
    ProviderLifecycleManager \<times> (LifecycleError + GenerationSession)" where
  "OpenSession m p = (case Active m p of
     None \<Rightarrow> (m, Inl (Lifecyclef ''provider %q has no active generation'' [p]))
   | Some g \<Rightarrow> (put_generation (active_id m p) (bump_sessions 1 g) m,
       Inr \<lparr>gs_generationID = active_id m p, gs_closed = False\<rparr>))"

definition OpenSessionForGeneration :: "ProviderLifecycleManager \<Rightarrow> string \<Rightarrow> string \<Rightarrow>
    ProviderLifecycleManager \<times> (LifecycleError + GenerationSession)" where
  "OpenSessionForGeneration m p i =
     (if TrimSpace i = [] then (m, Inl (Lifecyclef ''provider generation is required'' []))
      else let unregistered = (m, Inl (Lifecyclef ''provider generation %q is not registered for provider %q'' [i, p])) in
        case generation m i of None \<Rightarrow> unregistered
        | Some g \<Rightarrow>
          if provider_of g \<noteq> p then unregistered
          else if ge_State g \<in> {GenerationCandidate, GenerationReady, GenerationActive, GenerationDraining}
          then (put_generation i (bump_sessions 1 g) m, Inr \<lparr>gs_generationID = i, gs_closed = False\<rparr>)
          else (m, Inl (Lifecyclef ''provider generation %q is %s'' [i, state_text (ge_State g)])))"

definition Close_session :: "ProviderLifecycleManager \<Rightarrow> GenerationSession \<Rightarrow>
    ProviderLifecycleManager \<times> GenerationSession" where
  "Close_session m s =
     (if gs_closed s then (m, s)
      else (case generation m (gs_generationID s) of
              None \<Rightarrow> m
            | Some g \<Rightarrow> if 0 < ge_Sessions g then put_generation (gs_generationID s) (bump_sessions (- 1) g) m else m,
            s\<lparr>gs_closed := True\<rparr>))"

section \<open>Leaving service\<close>

definition Fail :: "ProviderLifecycleManager \<Rightarrow> string \<Rightarrow> ProviderLifecycleManager \<times> LifecycleError option" where
  "Fail m i = (case generation m i of None \<Rightarrow> (m, Some (not_found i))
     | Some g \<Rightarrow>
       let m1 = put_generation i (g\<lparr>ge_State := GenerationFailed\<rparr>) m
       in (if active_id m1 (provider_of g) = i then clear_active (provider_of g) m1 else m1, None))"

definition Dispose :: "ProviderLifecycleManager \<Rightarrow> string \<Rightarrow> ProviderLifecycleManager \<times> LifecycleError option" where
  "Dispose m i = (case generation m i of None \<Rightarrow> (m, Some (not_found i))
     | Some g \<Rightarrow>
       if 0 < ge_Sessions g
       then (m, Some (Lifecyclef ''provider generation %q still has %d session(s)'' [i, Itoa (ge_Sessions g)]))
       else (put_generation i (g\<lparr>ge_State := GenerationStopped\<rparr>)
         (if active_id m (provider_of g) = i then clear_active (provider_of g) m else m), None))"

text \<open>
  \<open>Drain\<close> looks at the session count and releases the lock; what other goroutines do before it takes
  the lock again is the function of a round, and the round's event is what its \<open>select\<close> chose. An
  exhausted list of rounds means that the call has not returned yet.
\<close>

datatype drain_event = DrainCancelled string | DrainDeadline | DrainTick

fun Drain :: "ProviderLifecycleManager \<Rightarrow> string \<Rightarrow>
    ((ProviderLifecycleManager \<Rightarrow> ProviderLifecycleManager) \<times> drain_event) list \<Rightarrow>
    (ProviderLifecycleManager \<times> LifecycleError option) option" where
  "Drain m i [] = None"
| "Drain m i ((others, event) # rounds) = (case generation m i of
     None \<Rightarrow> Some (others m, Some (not_found i))
   | Some g \<Rightarrow>
     if ge_Sessions g = 0 then Some (Dispose (others m) i)
     else case event of
       DrainCancelled e \<Rightarrow> Some (others m, Some (Lifecyclef e []))
     | DrainDeadline \<Rightarrow>
         if dp_CancelOnTimeout (pm_drain m) then Some (Dispose (others m) i)
         else Some (others m, Some (Lifecyclef ''provider generation %q drain timed out with %d session(s)''
           [i, Itoa (ge_Sessions g)]))
     | DrainTick \<Rightarrow> Drain (others m) i rounds)"

end
