(* ===== verification/Generation_Laws.thy ===== *)
theory Generation_Laws
  imports Generations
begin

text \<open>
  The provider lifecycle as a step relation over the manager and the sessions it handed out, its
  invariants, and the properties of activation, rollback and disposal.
\<close>

section \<open>Identifiers\<close>

lemma digit_no_dash: "digit c \<Longrightarrow> c \<noteq> CHR ''-''"
  by (auto simp: digit_def byte_def)

lemma suffix_of_id:
  assumes "list_all digit ds"
  shows "rev (takeWhile (\<lambda>c. c \<noteq> CHR ''-'') (rev (p @ CHR ''-'' # ds))) = ds"
proof -
  have "\<forall>c \<in> set (rev ds). c \<noteq> CHR ''-''" using assms digit_no_dash by (auto simp: list_all_iff)
  then show ?thesis by (simp add: takeWhile_append takeWhile_eq_all_conv)
qed

lemma sequence_of_id:
  "int n < 2 ^ 64 \<Longrightarrow> restoredGenerationSequence (p @ CHR ''-'' # nat_digits n) = int n"
  using nat_digits_spec [of n] suffix_of_id [of "nat_digits n" p]
  by (simp add: restoredGenerationSequence_def ParseUint_def Let_def)

section \<open>Steps\<close>

text \<open>
  The ghost \<open>lf_conflict\<close> records that a \<open>Restore\<close> failed, after which the server does not start. A
  restored generation has no sessions, as the only caller builds it, and a manager creates fewer than
  \<open>2 ^ 64\<close> candidates.
\<close>

record lifecycle =
  lf_manager :: ProviderLifecycleManager
  lf_sessions :: "GenerationSession list"
  lf_conflict :: bool

definition opened :: "lifecycle \<Rightarrow> ProviderLifecycleManager \<times> (LifecycleError + GenerationSession) \<Rightarrow> lifecycle" where
  "opened l result = l\<lparr>lf_manager := fst result,
     lf_sessions := lf_sessions l @ (case snd result of Inl _ \<Rightarrow> [] | Inr s \<Rightarrow> [s])\<rparr>"

inductive lifecycle_step :: "lifecycle \<Rightarrow> lifecycle \<Rightarrow> bool" where
  restore: "ge_Sessions g = 0 \<Longrightarrow> Restore (lf_manager l) g = (m, err) \<Longrightarrow>
     lifecycle_step l (l\<lparr>lf_manager := m, lf_conflict := lf_conflict l \<or> err \<noteq> None\<rparr>)"
| refresh: "lifecycle_step l (l\<lparr>lf_manager := fst (Refresh (lf_manager l) i h c)\<rparr>)"
| create: "pm_sequence (lf_manager l) \<noteq> - 1 \<Longrightarrow>
     lifecycle_step l (l\<lparr>lf_manager := fst (CreateCandidate t (lf_manager l) provider h e c)\<rparr>)"
| ready: "lifecycle_step l (l\<lparr>lf_manager := fst (MarkReady (lf_manager l) i)\<rparr>)"
| activate: "lifecycle_step l (l\<lparr>lf_manager := fst (Activate t (lf_manager l) i)\<rparr>)"
| rollback: "lifecycle_step l (l\<lparr>lf_manager := fst (RollbackActivation (lf_manager l) i previous)\<rparr>)"
| open_active: "lifecycle_step l (opened l (OpenSession (lf_manager l) p))"
| open_pinned: "lifecycle_step l (opened l (OpenSessionForGeneration (lf_manager l) p i))"
| close: "n < length (lf_sessions l) \<Longrightarrow> Close_session (lf_manager l) (lf_sessions l ! n) = (m, s) \<Longrightarrow>
     lifecycle_step l (l\<lparr>lf_manager := m, lf_sessions := (lf_sessions l)[n := s]\<rparr>)"
| fail: "lifecycle_step l (l\<lparr>lf_manager := fst (Fail (lf_manager l) i)\<rparr>)"
| dispose: "lifecycle_step l (l\<lparr>lf_manager := fst (Dispose (lf_manager l) i)\<rparr>)"

definition lifecycle_start :: "DrainPolicy \<Rightarrow> lifecycle" where
  "lifecycle_start policy =
     \<lparr>lf_manager = NewProviderLifecycleManager policy, lf_sessions = [], lf_conflict = False\<rparr>"

section \<open>Invariants\<close>

text \<open>
  What matters of the manager for dispatch: which generation each provider's new work goes to, and of
  each generation its provider and whether it is active.
\<close>

definition routes :: "ProviderLifecycleManager \<Rightarrow> string \<rightharpoonup> string" where
  "routes m = gomap_get (pm_active m)"

definition served :: "ProviderLifecycleManager \<Rightarrow> string \<rightharpoonup> string \<times> bool" where
  "served m i = map_option (\<lambda>g. (provider_of g, ge_State g = GenerationActive)) (generation m i)"

definition routes_ok :: "(string \<rightharpoonup> string) \<Rightarrow> (string \<rightharpoonup> string \<times> bool) \<Rightarrow> bool" where
  "routes_ok A L \<longleftrightarrow> (\<forall>p i. A p = Some i \<longrightarrow> i \<noteq> [] \<and> L i = Some (p, True))"

definition sole_active :: "(string \<rightharpoonup> string) \<Rightarrow> (string \<rightharpoonup> string \<times> bool) \<Rightarrow> bool" where
  "sole_active A L \<longleftrightarrow> (\<forall>i p. L i = Some (p, True) \<longrightarrow> A p = Some i)"

definition numbered :: "(string \<rightharpoonup> string \<times> bool) \<Rightarrow> int \<Rightarrow> bool" where
  "numbered L n \<longleftrightarrow> (\<forall>i x. L i = Some x \<longrightarrow> i \<noteq> [] \<and> restoredGenerationSequence i \<le> n)"

definition manager_inv :: "bool \<Rightarrow> ProviderLifecycleManager \<Rightarrow> bool" where
  "manager_inv conflict m \<longleftrightarrow> routes_ok (routes m) (served m) \<and> numbered (served m) (uint (pm_sequence m)) \<and>
     (\<not> conflict \<longrightarrow> sole_active (routes m) (served m))"

lemma routes_okI: "(\<And>p i. A p = Some i \<Longrightarrow> i \<noteq> [] \<and> L i = Some (p, True)) \<Longrightarrow> routes_ok A L"
  by (simp add: routes_ok_def)

lemma routes_okD: "routes_ok A L \<Longrightarrow> A p = Some i \<Longrightarrow> i \<noteq> [] \<and> L i = Some (p, True)"
  by (simp add: routes_ok_def)

lemma sole_activeI: "(\<And>i p. L i = Some (p, True) \<Longrightarrow> A p = Some i) \<Longrightarrow> sole_active A L"
  by (simp add: sole_active_def)

lemma sole_activeD: "sole_active A L \<Longrightarrow> L i = Some (p, True) \<Longrightarrow> A p = Some i"
  by (simp add: sole_active_def)

lemma numberedI: "(\<And>i x. L i = Some x \<Longrightarrow> i \<noteq> [] \<and> restoredGenerationSequence i \<le> n) \<Longrightarrow> numbered L n"
  by (simp add: numbered_def)

lemma numberedD: "numbered L n \<Longrightarrow> L i = Some x \<Longrightarrow> i \<noteq> [] \<and> restoredGenerationSequence i \<le> n"
  by (simp add: numbered_def)

lemma manager_invD:
  assumes "manager_inv c m"
  shows "routes_ok (routes m) (served m)" "numbered (served m) (uint (pm_sequence m))"
    "\<not> c \<Longrightarrow> sole_active (routes m) (served m)"
  using assms by (auto simp: manager_inv_def)

definition open_on :: "string \<Rightarrow> GenerationSession \<Rightarrow> bool" where
  "open_on i s \<longleftrightarrow> gs_generationID s = i \<and> \<not> gs_closed s"

definition sessions_ok :: "ProviderLifecycleManager \<Rightarrow> GenerationSession list \<Rightarrow> bool" where
  "sessions_ok m ss \<longleftrightarrow> (\<forall>s \<in> set ss. generation m (gs_generationID s) \<noteq> None) \<and>
     (\<forall>i g. generation m i = Some g \<longrightarrow> ge_Sessions g = count_if (open_on i) ss \<and>
       (ge_State g = GenerationStopped \<longrightarrow> ge_Sessions g = 0))"

lemmas manager_defs = put_generation_def set_active_def clear_active_def bump_sessions_def

lemma views [simp]:
  "served (put_generation i g m) = (served m)(i \<mapsto> (provider_of g, ge_State g = GenerationActive))"
  "served (set_active p i m) = served m" "served (clear_active p m) = served m"
  "routes (put_generation i g m) = routes m" "routes (set_active p i m) = (routes m)(p \<mapsto> i)"
  "routes (clear_active p m) = (routes m)(p := None)"
  "served (m\<lparr>pm_sequence := n\<rparr>) = served m" "routes (m\<lparr>pm_sequence := n\<rparr>) = routes m"
  "pm_sequence (put_generation i g m) = pm_sequence m" "pm_sequence (set_active p i m) = pm_sequence m"
  "pm_sequence (clear_active p m) = pm_sequence m"
  by (auto simp: served_def routes_def manager_defs fun_eq_iff)

lemma active_id_routes: "active_id m p = (case routes m p of None \<Rightarrow> [] | Some i \<Rightarrow> i)"
  by (simp add: routes_def gomap_or_def)

lemma generation_served:
  "generation m i = Some g \<Longrightarrow> served m i = Some (provider_of g, ge_State g = GenerationActive)"
  "generation m i = None \<Longrightarrow> served m i = None"
  by (simp_all add: served_def)

lemma uint_suc:
  assumes "(x :: 64 word) \<noteq> - 1"
  shows "uint (x + 1) = uint x + 1"
proof -
  have "uint x \<noteq> uint (- 1 :: 64 word)" using assms by (simp add: word_uint_eq_iff)
  then have "uint x < 2 ^ 64 - 1" using uint_lt2p [of x] by (simp add: unsigned_minus_1_eq_mask mask_eq_exp_minus_1)
  then show ?thesis by (simp add: uint_word_ariths)
qed

lemma candidate_fresh:
  assumes "manager_inv c m" and "pm_sequence m \<noteq> - 1"
  shows "generation m (p @ CHR ''-'' # nat_digits (unat (pm_sequence m + 1))) = None"
proof (rule ccontr)
  let ?i = "p @ CHR ''-'' # nat_digits (unat (pm_sequence m + 1))"
  assume "generation m ?i \<noteq> None"
  then have "restoredGenerationSequence ?i \<le> uint (pm_sequence m)"
    using numberedD [OF manager_invD(2) [OF assms(1)]] generation_served(1) by blast
  moreover have "restoredGenerationSequence ?i = uint (pm_sequence m + 1)"
    using sequence_of_id [of "unat (pm_sequence m + 1)" p] uint_lt2p [of "pm_sequence m + 1"] by simp
  ultimately show False using uint_suc [OF assms(2)] by simp
qed

section \<open>Changes of the manager\<close>

lemma inv_weaken: "manager_inv c m \<Longrightarrow> manager_inv True m"
  by (simp add: manager_inv_def)

lemma inv_sequence:
  assumes "manager_inv c m" and "uint (pm_sequence m) \<le> uint n"
  shows "manager_inv c (m\<lparr>pm_sequence := n\<rparr>)"
proof -
  have "numbered (served m) (uint n)"
    using assms(2) by (intro numberedI) (auto dest: numberedD [OF manager_invD(2) [OF assms(1)]])
  then show ?thesis using assms(1) by (simp add: manager_inv_def)
qed

text \<open>A change of one generation that leaves its being active alone.\<close>

lemma inv_update:
  assumes "manager_inv c m" and "generation m i = Some g" and "provider_of g' = provider_of g"
    and "ge_State g' = GenerationActive \<longleftrightarrow> ge_State g = GenerationActive"
  shows "manager_inv c (put_generation i g' m)"
proof -
  have "served (put_generation i g' m) = served m"
    using generation_served(1) [OF assms(2)] assms(3,4) by auto
  then show ?thesis using assms(1) by (simp add: manager_inv_def)
qed

lemma inv_fresh:
  assumes inv: "manager_inv c m" and "generation m i = None" and "i \<noteq> []"
    and "restoredGenerationSequence i \<le> uint (pm_sequence m)" and "c' \<or> \<not> c \<and> ge_State g \<noteq> GenerationActive"
  shows "manager_inv c' (put_generation i g m)"
  unfolding manager_inv_def views
  using assms(2-5) generation_served(2) [OF assms(2)]
  by (intro conjI routes_okI numberedI impI sole_activeI)
    (auto dest: routes_okD [OF manager_invD(1) [OF inv]] numberedD [OF manager_invD(2) [OF inv]]
      sole_activeD [OF manager_invD(3) [OF inv]] split: if_splits)

text \<open>Taking a generation out of service, and putting one into service for an idle provider.\<close>

lemma inv_deactivate:
  assumes inv: "manager_inv c m" and "generation m i = Some g" and "provider_of g' = provider_of g"
    and "ge_State g' \<noteq> GenerationActive"
  shows "manager_inv c (put_generation i g'
    (if active_id m (provider_of g) = i then clear_active (provider_of g) m else m))"
proof -
  have known: "i \<noteq> []" "restoredGenerationSequence i \<le> uint (pm_sequence m)"
    using numberedD [OF manager_invD(2) [OF inv] generation_served(1) [OF assms(2)]] by simp_all
  from known(1) have "active_id m (provider_of g) = i \<longleftrightarrow> routes m (provider_of g) = Some i"
    by (auto simp: active_id_routes split: option.splits)
  moreover have owner: "p = provider_of g" if "routes m p = Some i" for p
    using routes_okD [OF manager_invD(1) [OF inv] that] generation_served(1) [OF assms(2)] by simp
  have "manager_inv c (put_generation i g' (clear_active (provider_of g) m))" if "routes m (provider_of g) = Some i"
    unfolding manager_inv_def views
    using assms(3,4) that
    by (intro conjI routes_okI numberedI impI sole_activeI)
      (auto dest: routes_okD [OF manager_invD(1) [OF inv]] numberedD [OF manager_invD(2) [OF inv]]
        sole_activeD [OF manager_invD(3) [OF inv]] owner split: if_splits simp: known)
  moreover have "manager_inv c (put_generation i g' m)" if "routes m (provider_of g) \<noteq> Some i"
    unfolding manager_inv_def views
    using assms(3,4) that
    by (intro conjI routes_okI numberedI impI sole_activeI)
      (auto dest: routes_okD [OF manager_invD(1) [OF inv]] numberedD [OF manager_invD(2) [OF inv]]
        sole_activeD [OF manager_invD(3) [OF inv]] owner split: if_splits simp: known)
  ultimately show ?thesis by simp
qed

lemma inv_activate:
  assumes inv: "manager_inv c m" and "routes m (provider_of g) = None" and "i \<noteq> []"
    and "ge_State g = GenerationActive" and "restoredGenerationSequence i \<le> uint (pm_sequence m)"
    and "\<And>g0. generation m i = Some g0 \<Longrightarrow> ge_State g0 \<noteq> GenerationActive"
  shows "manager_inv c (set_active (provider_of g) i (put_generation i g m))"
proof -
  have "served m i \<noteq> Some (p, True)" for p using assms(6) by (auto simp: served_def)
  then show ?thesis
    unfolding manager_inv_def views
    using assms(2-5)
    by (intro conjI routes_okI numberedI impI sole_activeI)
      (auto dest: routes_okD [OF manager_invD(1) [OF inv]] numberedD [OF manager_invD(2) [OF inv]]
        sole_activeD [OF manager_invD(3) [OF inv]] split: if_splits)
qed

lemma inv_cong:
  assumes "manager_inv c m" and "routes m' = routes m" and "served m' = served m" and "pm_sequence m' = pm_sequence m"
  shows "manager_inv c m'"
  using assms by (simp add: manager_inv_def)

lemma generation_put [simp]:
  "generation (put_generation i g m) j = (if j = i then Some g else generation m j)"
  "generation (set_active p i m) j = generation m j" "generation (clear_active p m) j = generation m j"
  by (simp_all add: manager_defs)

lemma known_id:
  assumes "manager_inv c m" and "generation m i = Some g"
  shows "i \<noteq> []" and "restoredGenerationSequence i \<le> uint (pm_sequence m)"
  using numberedD [OF manager_invD(2) [OF assms(1)] generation_served(1) [OF assms(2)]] by simp_all

lemma routed:
  assumes "manager_inv c m" and "routes m p = Some i"
  obtains g where "i \<noteq> []" "generation m i = Some g" "provider_of g = p" "ge_State g = GenerationActive"
  using routes_okD [OF manager_invD(1) [OF assms(1)] assms(2)] by (auto simp: served_def)

section \<open>Every operation keeps the invariant\<close>

lemma sequence_bounds: "0 \<le> restoredGenerationSequence i" "restoredGenerationSequence i < 2 ^ 64"
proof -
  have "0 \<le> digits_val ds" if "list_all digit ds" for ds
    using that by (induction ds rule: rev_induct) (auto simp: digits_val_def digit_def)
  then show "0 \<le> restoredGenerationSequence i" "restoredGenerationSequence i < 2 ^ 64"
    by (auto simp: restoredGenerationSequence_def ParseUint_def Let_def split: if_splits)
qed

lemma Restore_inv:
  assumes inv: "manager_inv c m" and run: "Restore m g0 = (m', err)"
  shows "manager_inv (c \<or> err \<noteq> None) m'"
proof (cases "m' = m")
  case True
  then show ?thesis using inv inv_weaken by (cases err) auto
next
  case False
  define g where "g = (if ge_State g0 = GenerationUnset then g0\<lparr>ge_State := GenerationCandidate\<rparr> else g0)"
  define n where "n = (if uint (pm_sequence m) < restoredGenerationSequence (ge_ID g)
    then of_int (restoredGenerationSequence (ge_ID g)) else pm_sequence m)"
  define q where "q = m\<lparr>pm_sequence := n\<rparr>"
  let ?put = "put_generation (ge_ID g) g q"
  have fresh: "generation q (ge_ID g) = None" "ge_ID g \<noteq> []"
    using run False by (auto simp: Restore_def g_def q_def Let_def split: if_splits)
  have "uint (of_int (restoredGenerationSequence (ge_ID g)) :: 64 word) = restoredGenerationSequence (ge_ID g)"
    using sequence_bounds by (simp add: uint_word_of_int)
  then have bound: "restoredGenerationSequence (ge_ID g) \<le> uint n" "uint (pm_sequence m) \<le> uint n"
    by (auto simp: n_def)
  then have q: "manager_inv c q" "restoredGenerationSequence (ge_ID g) \<le> uint (pm_sequence q)"
    using inv inv_sequence by (simp_all add: q_def)
  have result: "m' = ?put \<and> err = None \<and> ge_State g \<noteq> GenerationActive \<or> m' = ?put \<and> err \<noteq> None \<or>
      m' = set_active (provider_of g) (ge_ID g) ?put \<and> ge_State g = GenerationActive \<and>
      active_id ?put (provider_of g) \<in> {[], ge_ID g}"
    using run False
    by (auto simp: Restore_def g_def [symmetric] q_def n_def put_generation_def set_active_def Let_def split: if_splits)
  have idle: "routes q p = None" if "active_id ?put p \<in> {[], ge_ID g}" for p
  proof (rule ccontr)
    assume "routes q p \<noteq> None"
    then obtain i where i: "routes q p = Some i" by blast
    then obtain g' where "i \<noteq> []" "generation q i = Some g'" by (rule routed [OF q(1)])
    then show False using fresh(1) that i by (auto simp: active_id_routes)
  qed
  from result consider "m' = ?put" "err = None" "ge_State g \<noteq> GenerationActive" | "m' = ?put" "err \<noteq> None"
    | "m' = set_active (provider_of g) (ge_ID g) ?put" "ge_State g = GenerationActive"
      "active_id ?put (provider_of g) \<in> {[], ge_ID g}" by blast
  then show ?thesis
  proof cases
    case 1
    then show ?thesis using inv_fresh [OF q(1) fresh q(2), of c g] by auto
  next
    case 2
    then show ?thesis using inv_fresh [OF q(1) fresh q(2), of True g] by auto
  next
    case 3
    from inv_activate [OF q(1) idle [OF 3(3)] fresh(2) 3(2) q(2)] show ?thesis
      using fresh(1) 3(1) inv_weaken by (cases err) auto
  qed
qed

lemma Activate_inv:
  assumes inv: "manager_inv c m"
  shows "manager_inv c (fst (Activate t m i))"
proof (cases "\<exists>g. generation m i = Some g \<and> ge_State g = GenerationReady")
  case True
  then obtain g where g: "generation m i = Some g" "ge_State g = GenerationReady" by blast
  define a where "a = g\<lparr>ge_State := GenerationActive, ge_ActiveAt := t\<rparr>"
  have a: "ge_State a = GenerationActive" "provider_of a = provider_of g" by (simp_all add: a_def)
  note i = known_id [OF inv g(1)]
  show ?thesis
  proof (cases "routes m (provider_of g)")
    case None
    then have "superseded m g i = None" by (simp add: superseded_def active_id_routes)
    then have "fst (Activate t m i) = set_active (provider_of a) i (put_generation i a m)"
      using g by (simp add: Activate_def a_def Let_def)
    then show ?thesis using inv_activate [OF inv _ i(1) a(1) i(2)] None g by (simp add: a(2))
  next
    case (Some old)
    then obtain og where og: "old \<noteq> []" "generation m old = Some og" "provider_of og = provider_of g"
      "ge_State og = GenerationActive" using routed [OF inv] by blast
    then have other: "old \<noteq> i" using g by auto
    have old: "active_id m (provider_of g) = old" using Some by (simp add: active_id_routes)
    define d where "d = og\<lparr>ge_State := GenerationDraining\<rparr>"
    have "superseded m g i = Some d" using og other old by (simp add: superseded_def Let_def d_def)
    then have run: "fst (Activate t m i) = set_active (provider_of a) i (put_generation i a (put_generation old d m))"
      using g old by (simp add: Activate_def a_def Let_def)
    have "manager_inv c (put_generation old d (clear_active (provider_of g) m))"
      using inv_deactivate [OF inv og(2), of d] old og(3) by (simp add: d_def)
    from inv_activate [OF this, of a i] have
      "manager_inv c (set_active (provider_of a) i (put_generation i a (put_generation old d (clear_active (provider_of g) m))))"
      using i a g other by simp
    then show ?thesis by (rule inv_cong) (simp_all add: run a(2))
  qed
qed (auto simp: Activate_def inv split: option.splits)

lemma Rollback_inv:
  assumes inv: "manager_inv c m"
  shows "manager_inv c (fst (RollbackActivation m i previousID))"
proof (cases "fst (RollbackActivation m i previousID) = m")
  case False
  define m' where "m' = fst (RollbackActivation m i previousID)"
  obtain g where g: "generation m i = Some g" "active_id m (provider_of g) = i" "ge_State g = GenerationActive"
    using False by (auto simp: RollbackActivation_def Let_def split: option.splits if_splits)
  define f where "f = g\<lparr>ge_State := GenerationFailed\<rparr>"
  let ?idle = "put_generation i f (clear_active (provider_of g) m)"
  have idle: "manager_inv c ?idle" using inv_deactivate [OF inv g(1), of f] g(2) by (simp add: f_def)
  show ?thesis
  proof (cases "previousID = []")
    case True
    then have "m' = ?idle" using False g
      by (auto simp: m'_def f_def RollbackActivation_def Let_def split: if_splits)
    then show ?thesis using idle by (simp add: m'_def)
  next
    case prev: False
    obtain p where p: "generation m previousID = Some p" "provider_of p = provider_of g"
      "ge_State p = GenerationDraining"
      "m' = set_active (provider_of g) previousID (put_generation i f
        (put_generation previousID (p\<lparr>ge_State := GenerationActive\<rparr>) m))"
      using False g prev by (auto simp: m'_def f_def RollbackActivation_def Let_def split: option.splits if_splits)
    have other: "previousID \<noteq> i" using p g by auto
    have "manager_inv c (set_active (provider_of p) previousID
        (put_generation previousID (p\<lparr>ge_State := GenerationActive\<rparr>) ?idle))"
      using inv_activate [OF idle, of "p\<lparr>ge_State := GenerationActive\<rparr>" previousID]
        known_id [OF inv p(1)] p other by simp
    then show ?thesis
      by (rule inv_cong) (use p(2) other in \<open>simp_all add: m'_def [symmetric] p(4) fun_upd_twist\<close>)
  qed
qed (simp add: inv)

lemma CreateCandidate_inv:
  assumes inv: "manager_inv c m" and "pm_sequence m \<noteq> - 1"
  shows "manager_inv c (fst (CreateCandidate t m provider h e r))"
proof (cases "fst (CreateCandidate t m provider h e r) = m")
  case False
  let ?q = "m\<lparr>pm_sequence := pm_sequence m + 1\<rparr>"
  let ?i = "pf_ID provider @ CHR ''-'' # nat_digits (unat (pm_sequence m + 1))"
  define g where "g = \<lparr>ge_ID = ?i, ge_Provider = provider, ge_ManifestHash = h, ge_Endpoint = e,
    ge_CatalogRevision = r, ge_State = GenerationCandidate, ge_CreatedAt = t, ge_ActiveAt = 0, ge_Sessions = 0\<rparr>"
  have g: "ge_State g = GenerationCandidate" "fst (CreateCandidate t m provider h e r) = put_generation ?i g ?q"
    using False by (auto simp: CreateCandidate_def g_def Let_def split: if_splits)
  have q: "manager_inv c ?q" using inv_sequence [OF inv] uint_suc [OF assms(2)] by simp
  have seq: "restoredGenerationSequence ?i \<le> uint (pm_sequence ?q)"
    using sequence_of_id [of "unat (pm_sequence m + 1)" "pf_ID provider"] uint_lt2p [of "pm_sequence m + 1"]
    by simp
  have "generation ?q ?i = None" using candidate_fresh [OF assms] by simp
  from inv_fresh [OF q this _ seq, of c g] show ?thesis using g by simp
qed (simp add: inv)

lemma update_inv:
  assumes inv: "manager_inv c m"
  shows "manager_inv c (fst (Refresh m i h r))" "manager_inv c (fst (MarkReady m i))"
    "manager_inv c (fst (OpenSession m p))" "manager_inv c (fst (OpenSessionForGeneration m p i))"
    "manager_inv c (fst (Close_session m s))"
  using inv
  by (auto simp: Refresh_def MarkReady_def OpenSession_def OpenSessionForGeneration_def Close_session_def
      Active_def Let_def bump_sessions_def split: option.splits if_splits elim: inv_update)

lemma retire_inv:
  assumes inv: "manager_inv c m"
  shows "manager_inv c (fst (Fail m i))" "manager_inv c (fst (Dispose m i))"
proof -
  have "fst (Fail m i) = put_generation i (g\<lparr>ge_State := GenerationFailed\<rparr>)
      (if active_id m (provider_of g) = i then clear_active (provider_of g) m else m)"
    if "generation m i = Some g" for g
    using that by (simp add: Fail_def Let_def manager_defs)
  then show "manager_inv c (fst (Fail m i))"
    using inv_deactivate [OF inv] inv by (cases "generation m i") (auto simp: Fail_def)
  show "manager_inv c (fst (Dispose m i))"
    using inv_deactivate [OF inv] inv by (auto simp: Dispose_def split: option.splits)
qed

lemmas manager_keeps = Restore_inv Activate_inv Rollback_inv CreateCandidate_inv update_inv retire_inv

lemma manager_inv_step:
  assumes "lifecycle_step l l'" and "manager_inv (lf_conflict l) (lf_manager l)"
  shows "manager_inv (lf_conflict l') (lf_manager l')"
  using assms(1)
proof cases
  case (close n m s)
  then show ?thesis using update_inv(5) [OF assms(2), of "lf_sessions l ! n"] by simp
next
  case (restore g m err)
  then show ?thesis using Restore_inv [OF assms(2) restore(3)] by simp
qed (use assms(2) in \<open>auto simp: opened_def intro: manager_keeps\<close>)

section \<open>Sessions\<close>

lemma sessions_okI:
  "(\<And>s. s \<in> set ss \<Longrightarrow> generation m (gs_generationID s) \<noteq> None) \<Longrightarrow>
   (\<And>i g. generation m i = Some g \<Longrightarrow> ge_Sessions g = count_if (open_on i) ss \<and>
     (ge_State g = GenerationStopped \<longrightarrow> ge_Sessions g = 0)) \<Longrightarrow> sessions_ok m ss"
  unfolding sessions_ok_def by blast

lemma sessions_okD:
  assumes "sessions_ok m ss"
  shows "s \<in> set ss \<Longrightarrow> generation m (gs_generationID s) \<noteq> None"
    and "generation m i = Some g \<Longrightarrow> ge_Sessions g = count_if (open_on i) ss"
    and "generation m i = Some g \<Longrightarrow> 0 \<le> ge_Sessions g"
    and "generation m i = Some g \<Longrightarrow> ge_State g = GenerationStopped \<Longrightarrow> ge_Sessions g = 0"
proof -
  show count: "generation m i = Some g \<Longrightarrow> ge_Sessions g = count_if (open_on i) ss"
    using assms unfolding sessions_ok_def by blast
  then show "generation m i = Some g \<Longrightarrow> 0 \<le> ge_Sessions g" using count_if_nonneg by metis
qed (use assms in \<open>unfold sessions_ok_def, blast+\<close>)

lemma sessions_put:
  assumes ok: "sessions_ok m ss" and g: "generation m i = Some g" and "ge_Sessions g' = ge_Sessions g"
    and "ge_State g' = GenerationStopped \<Longrightarrow> ge_Sessions g = 0"
  shows "sessions_ok (put_generation i g' m) ss"
proof (rule sessions_okI)
  fix j h assume "generation (put_generation i g' m) j = Some h"
  then show "ge_Sessions h = count_if (open_on j) ss \<and> (ge_State h = GenerationStopped \<longrightarrow> ge_Sessions h = 0)"
    using sessions_okD(2) [OF ok g] sessions_okD(2,4) [OF ok, of j h] assms(3,4)
    by (auto split: if_splits)
qed (use sessions_okD(1) [OF ok] in simp)

lemma sessions_fresh:
  assumes ok: "sessions_ok m ss" and i: "generation m i = None" and "ge_Sessions g = 0"
  shows "sessions_ok (put_generation i g m) ss"
proof (rule sessions_okI)
  have "count_if (open_on i) ss = 0"
    unfolding count_if_zero_iff open_on_def using sessions_okD(1) [OF ok] i by metis
  moreover fix j h assume "generation (put_generation i g m) j = Some h"
  ultimately show "ge_Sessions h = count_if (open_on j) ss \<and> (ge_State h = GenerationStopped \<longrightarrow> ge_Sessions h = 0)"
    using sessions_okD(2,4) [OF ok, of j h] assms(3) by (auto split: if_splits)
qed (use sessions_okD(1) [OF ok] in simp)

lemma sessions_route [simp]:
  "sessions_ok (set_active p i m) ss = sessions_ok m ss" "sessions_ok (clear_active p m) ss = sessions_ok m ss"
  "sessions_ok (m\<lparr>pm_sequence := n\<rparr>) ss = sessions_ok m ss"
  by (simp_all add: sessions_ok_def)

lemma sessions_open:
  assumes ok: "sessions_ok m ss" and g: "generation m i = Some g" and "ge_State g \<noteq> GenerationStopped"
  shows "sessions_ok (put_generation i (bump_sessions 1 g) m) (ss @ [\<lparr>gs_generationID = i, gs_closed = False\<rparr>])"
proof (rule sessions_okI)
  have count: "count_if P (xs @ [x]) = count_if P xs + (if P x then 1 else 0)"
    for P and xs :: "GenerationSession list" and x by (simp add: count_if_def)
  fix j h assume "generation (put_generation i (bump_sessions 1 g) m) j = Some h"
  then show "ge_Sessions h = count_if (open_on j) (ss @ [\<lparr>gs_generationID = i, gs_closed = False\<rparr>]) \<and>
      (ge_State h = GenerationStopped \<longrightarrow> ge_Sessions h = 0)"
    using sessions_okD(2) [OF ok g] sessions_okD(2,4) [OF ok, of j h] assms(3)
    by (auto simp: count open_on_def bump_sessions_def split: if_splits)
next
  fix s assume "s \<in> set (ss @ [\<lparr>gs_generationID = i, gs_closed = False\<rparr>])"
  then show "generation (put_generation i (bump_sessions 1 g) m) (gs_generationID s) \<noteq> None"
    using sessions_okD(1) [OF ok, of s] by auto
qed

lemma sessions_close:
  assumes ok: "sessions_ok m ss" and n: "n < length ss" and run: "Close_session m (ss ! n) = (m', s)"
  shows "sessions_ok m' (ss[n := s])"
proof (cases "gs_closed (ss ! n)")
  case True
  then have "m' = m" "ss[n := s] = ss" using run by (auto simp: Close_session_def)
  then show ?thesis using ok by simp
next
  case False
  let ?i = "gs_generationID (ss ! n)"
  have s: "s = (ss ! n)\<lparr>gs_closed := True\<rparr>" using run False by (simp add: Close_session_def)
  obtain g where g: "generation m ?i = Some g" using ok n by (fastforce simp: sessions_ok_def)
  have "open_on ?i (ss ! n)" using False by (simp add: open_on_def)
  then have "0 < ge_Sessions g" using count_if_pos [OF n] ok g by (simp add: sessions_ok_def)
  then have m': "m' = put_generation ?i (bump_sessions (- 1) g) m" using run False g by (simp add: Close_session_def)
  have others: "count_if (open_on i) (ss[n := s]) = count_if (open_on i) ss - (if i = ?i then 1 else 0)" for i
    using n False by (simp add: open_on_def s)
  have known: "generation m' (gs_generationID x) \<noteq> None" if "x \<in> set (ss[n := s])" for x
    using that sessions_okD(1) [OF ok] n g set_update_subset_insert [of ss n s] by (auto simp: s m')
  have running: "ge_State g \<noteq> GenerationStopped" using sessions_okD(4) [OF ok g] \<open>0 < ge_Sessions g\<close> by auto
  show ?thesis
  proof (rule sessions_okI [OF known])
    fix i g' assume "generation m' i = Some g'"
    then consider "i = ?i" "g' = bump_sessions (- 1) g" | "i \<noteq> ?i" "generation m i = Some g'"
      by (auto simp: m' split: if_splits)
    then show "ge_Sessions g' = count_if (open_on i) (ss[n := s]) \<and>
        (ge_State g' = GenerationStopped \<longrightarrow> ge_Sessions g' = 0)"
    proof cases
      case 1
      then show ?thesis using running sessions_okD(2) [OF ok g] by (simp add: others bump_sessions_def)
    next
      case 2
      then show ?thesis using sessions_okD(2,4) [OF ok 2(2)] by (simp add: others)
    qed
  qed
qed

lemma sessions_activate:
  assumes ok: "sessions_ok m ss"
  shows "sessions_ok (fst (Activate t m i)) ss"
proof (cases "generation m i")
  case (Some g)
  define a where "a = g\<lparr>ge_State := GenerationActive, ge_ActiveAt := t\<rparr>"
  let ?old = "active_id m (provider_of g)"
  have same: "ge_Sessions a = ge_Sessions g" "ge_State a \<noteq> GenerationStopped" by (simp_all add: a_def)
  show ?thesis
  proof (cases "superseded m g i")
    case None
    then show ?thesis
      using sessions_put [OF ok Some same(1)] same(2) Some ok by (auto simp: Activate_def a_def Let_def)
  next
    case (Some d)
    then obtain og where og: "?old \<noteq> i" "generation m ?old = Some og" "d = og\<lparr>ge_State := GenerationDraining\<rparr>"
      by (auto simp: superseded_def Let_def split: if_splits option.splits)
    have "sessions_ok (put_generation ?old d m) ss" using sessions_put [OF ok og(2), of d] og(3) by simp
    moreover have "generation (put_generation ?old d m) i = Some g" using og(1) \<open>generation m i = Some g\<close> by simp
    ultimately have "sessions_ok (put_generation i a (put_generation ?old d m)) ss"
      using sessions_put same by blast
    then show ?thesis using \<open>generation m i = Some g\<close> Some ok by (simp add: Activate_def a_def Let_def)
  qed
qed (simp add: Activate_def ok)

lemma sessions_rollback:
  assumes ok: "sessions_ok m ss"
  shows "sessions_ok (fst (RollbackActivation m i previousID)) ss"
proof (cases "generation m i")
  case (Some g)
  let ?f = "g\<lparr>ge_State := GenerationFailed\<rparr>"
  have failed: "sessions_ok (put_generation i ?f (clear_active p m)) ss" for p
    using sessions_put [of "clear_active p m" ss i g ?f] ok Some by simp
  have "sessions_ok (put_generation i ?f (put_generation previousID (q\<lparr>ge_State := GenerationActive\<rparr>) m)) ss"
    if "generation m previousID = Some q" "ge_State q = GenerationDraining" "ge_State g = GenerationActive" for q
  proof -
    let ?q = "q\<lparr>ge_State := GenerationActive\<rparr>"
    have "sessions_ok (put_generation previousID ?q m) ss" using sessions_put [OF ok that(1), of ?q] by simp
    moreover have "generation (put_generation previousID ?q m) i = Some g" using that Some by auto
    ultimately show ?thesis using sessions_put [of _ ss i g ?f] by simp
  qed
  then show ?thesis
    using failed ok Some by (auto simp: RollbackActivation_def Let_def split: option.splits)
qed (simp add: RollbackActivation_def ok Let_def)

lemma sessions_step:
  assumes "lifecycle_step l l'" and inv: "manager_inv (lf_conflict l) (lf_manager l)"
    and ok: "sessions_ok (lf_manager l) (lf_sessions l)"
  shows "sessions_ok (lf_manager l') (lf_sessions l')"
  using assms(1)
proof cases
  case (restore g m err)
  let ?g = "if ge_State g = GenerationUnset then g\<lparr>ge_State := GenerationCandidate\<rparr> else g"
  have "m = lf_manager l \<or> generation (lf_manager l) (ge_ID g) = None \<and>
      sessions_ok m (lf_sessions l) = sessions_ok (put_generation (ge_ID g) ?g (lf_manager l)) (lf_sessions l)"
    using restore(3) by (auto simp: Restore_def Let_def split: if_splits)
  moreover have "ge_Sessions ?g = 0" using restore(2) by simp
  ultimately show ?thesis using sessions_fresh [OF ok, of "ge_ID g" ?g] ok restore(1) by auto
next
  case (create t provider h e c)
  let ?i = "pf_ID provider @ CHR ''-'' # nat_digits (unat (pm_sequence (lf_manager l) + 1))"
  have "generation (lf_manager l\<lparr>pm_sequence := pm_sequence (lf_manager l) + 1\<rparr>) ?i = None"
    using candidate_fresh [OF inv create(2)] by simp
  then show ?thesis using ok create sessions_fresh by (auto simp: CreateCandidate_def Let_def)
next
  case (close n m s)
  then show ?thesis using sessions_close [OF ok] by simp
next
  case (open_active p)
  then show ?thesis using ok sessions_open
    by (auto simp: opened_def OpenSession_def Active_def split: option.splits if_splits)
next
  case (open_pinned p i)
  then show ?thesis using ok sessions_open
    by (auto simp: opened_def OpenSessionForGeneration_def Let_def split: option.splits if_splits)
next
  case (activate t i)
  then show ?thesis using sessions_activate [OF ok] by simp
next
  case (rollback i previous)
  then show ?thesis using sessions_rollback [OF ok] by simp
next
  case (dispose i)
  then show ?thesis using ok
    by (auto simp: Dispose_def split: option.splits if_splits intro!: sessions_put)
      (meson dual_order.antisym not_less sessions_okD(3))+
qed (use ok in \<open>auto simp: Refresh_def MarkReady_def Fail_def Let_def split: option.splits if_splits intro!: sessions_put\<close>)

section \<open>Reachable lifecycles\<close>

definition lifecycle_inv :: "lifecycle \<Rightarrow> bool" where
  "lifecycle_inv l \<longleftrightarrow> manager_inv (lf_conflict l) (lf_manager l) \<and> sessions_ok (lf_manager l) (lf_sessions l)"

definition fresh_lifecycle :: "lifecycle \<Rightarrow> bool" where
  "fresh_lifecycle l \<longleftrightarrow> (\<exists>policy. l = lifecycle_start policy)"

interpretation providers: invariant_system fresh_lifecycle lifecycle_step lifecycle_inv
proof unfold_locales
  fix l assume "fresh_lifecycle l"
  then show "lifecycle_inv l"
    by (auto simp: fresh_lifecycle_def lifecycle_start_def NewProviderLifecycleManager_def lifecycle_inv_def
        manager_inv_def routes_ok_def numbered_def sole_active_def sessions_ok_def routes_def served_def)
next
  fix l l' assume "lifecycle_inv l" "lifecycle_step l l'"
  then show "lifecycle_inv l'" using manager_inv_step sessions_step by (simp add: lifecycle_inv_def)
qed

section \<open>A provider with two generations\<close>

definition demo_ref :: ProviderRef where
  "demo_ref = \<lparr>pf_ID = ''p'', pf_Version = ''1''\<rparr>"

definition created_once :: ProviderLifecycleManager where
  "created_once = fst (CreateCandidate 0 (NewProviderLifecycleManager \<lparr>dp_Timeout = 0, dp_CancelOnTimeout = False\<rparr>)
     demo_ref ''h'' ''e'' ''c'')"

definition activated_once :: ProviderLifecycleManager where
  "activated_once = fst (Activate 0 (fst (MarkReady created_once ''p-1'')) ''p-1'')"

definition ready_twice :: ProviderLifecycleManager where
  "ready_twice = fst (MarkReady (fst (CreateCandidate 1 activated_once demo_ref ''h'' ''e'' ''c'')) ''p-2'')"

abbreviation with_manager :: "ProviderLifecycleManager \<Rightarrow> lifecycle" where
  "with_manager m \<equiv> \<lparr>lf_manager = m, lf_sessions = [], lf_conflict = False\<rparr>"

abbreviation idle_manager :: ProviderLifecycleManager where
  "idle_manager \<equiv> NewProviderLifecycleManager \<lparr>dp_Timeout = 0, dp_CancelOnTimeout = False\<rparr>"

lemma demo_steps:
  "lifecycle_step (with_manager idle_manager) (with_manager created_once)"
  "lifecycle_step (with_manager m) (with_manager (fst (MarkReady m i)))"
  "lifecycle_step (with_manager m) (with_manager (fst (Activate t m i)))"
  "lifecycle_step (with_manager activated_once)
     (with_manager (fst (CreateCandidate 1 activated_once demo_ref ''h'' ''e'' ''c'')))"
proof -
  have seq: "pm_sequence idle_manager \<noteq> - 1" "pm_sequence activated_once \<noteq> - 1" by code_simp+
  show "lifecycle_step (with_manager idle_manager) (with_manager created_once)"
    using lifecycle_step.create [of "with_manager idle_manager"] seq(1) by (simp add: created_once_def)
  show "lifecycle_step (with_manager m) (with_manager (fst (MarkReady m i)))"
    using lifecycle_step.ready [of "with_manager m" i] by simp
  show "lifecycle_step (with_manager m) (with_manager (fst (Activate t m i)))"
    using lifecycle_step.activate [of "with_manager m" t i] by simp
  show "lifecycle_step (with_manager activated_once)
      (with_manager (fst (CreateCandidate 1 activated_once demo_ref ''h'' ''e'' ''c'')))"
    using lifecycle_step.create [of "with_manager activated_once"] seq(2) by simp
qed

lemma demo_lifecycle_steps:
  "reaches fresh_lifecycle lifecycle_step (with_manager activated_once)"
  "reaches fresh_lifecycle lifecycle_step (with_manager ready_twice)"
proof -
  have start: "reaches fresh_lifecycle lifecycle_step (with_manager idle_manager)"
    by (rule reaches_start) (auto simp: fresh_lifecycle_def lifecycle_start_def)
  note one = reaches_step [OF start, OF demo_steps(1)]
  note two = reaches_step [OF one, OF demo_steps(2)]
  show three: "reaches fresh_lifecycle lifecycle_step (with_manager activated_once)"
    unfolding activated_once_def by (rule reaches_step [OF two, OF demo_steps(3)])
  note four = reaches_step [OF three, OF demo_steps(4)]
  show "reaches fresh_lifecycle lifecycle_step (with_manager ready_twice)"
    unfolding ready_twice_def by (rule reaches_step [OF four, OF demo_steps(2)])
qed

text \<open>
  C22: new work of a provider goes to its one active generation. In every reachable lifecycle the
  active entry of a provider names a registered generation of that provider in the active state;
  and unless a restored record conflicted, no other generation of the provider is active.
\<close>

theorem active_unique:
  assumes "reaches fresh_lifecycle lifecycle_step l" and "gomap_get (pm_active (lf_manager l)) p = Some i"
  shows "(\<exists>g. Active (lf_manager l) p = Some g \<and> generation (lf_manager l) i = Some g \<and> provider_of g = p) \<and>
    (\<not> lf_conflict l \<longrightarrow> (\<forall>j g. generation (lf_manager l) j = Some g \<and> provider_of g = p \<and>
      ge_State g = GenerationActive \<longrightarrow> j = i))"
proof -
  have inv: "manager_inv (lf_conflict l) (lf_manager l)"
    using providers.inv_reachable [OF assms(1)] by (simp add: lifecycle_inv_def)
  have i: "routes (lf_manager l) p = Some i" using assms(2) by (simp add: routes_def)
  obtain g where g: "generation (lf_manager l) i = Some g" "provider_of g = p" "ge_State g = GenerationActive"
    by (rule routed [OF inv i])
  then have "Active (lf_manager l) p = Some g" using i by (simp add: Active_def active_id_routes)
  moreover have "j = i" if "\<not> lf_conflict l" "generation (lf_manager l) j = Some g'" "provider_of g' = p"
    "ge_State g' = GenerationActive" for j g'
    using sole_activeD [OF manager_invD(3) [OF inv that(1)], of j p] generation_served(1) [OF that(2)] that i by simp
  ultimately show ?thesis using g by blast
qed

theorem active_unique_witness:
  "\<exists>g. Active activated_once ''p'' = Some g \<and> generation activated_once ''p-1'' = Some g \<and> provider_of g = ''p''"
proof -
  have "gomap_get (pm_active (lf_manager (with_manager activated_once))) ''p'' = Some ''p-1''" by code_simp
  from active_unique [OF demo_lifecycle_steps(1) this] show ?thesis by simp
qed

text \<open>
  C24: a stopped generation has no open session. In every reachable lifecycle the session count of a
  generation is the number of its open sessions, a stopped generation has none, and disposing of a
  generation succeeds exactly when none is open.
\<close>

theorem stopped_idle:
  assumes "reaches fresh_lifecycle lifecycle_step l" and "generation (lf_manager l) i = Some g"
  shows "ge_Sessions g = count_if (open_on i) (lf_sessions l) \<and>
    (ge_State g = GenerationStopped \<longrightarrow> (\<forall>s. s \<in> set (lf_sessions l) \<longrightarrow> \<not> open_on i s)) \<and>
    (snd (Dispose (lf_manager l) i) = None \<longleftrightarrow> (\<forall>s. s \<in> set (lf_sessions l) \<longrightarrow> \<not> open_on i s))"
proof -
  have ok: "sessions_ok (lf_manager l) (lf_sessions l)"
    using providers.inv_reachable [OF assms(1)] by (simp add: lifecycle_inv_def)
  have "count_if (open_on i) (lf_sessions l) = 0 \<longleftrightarrow> (\<forall>s. s \<in> set (lf_sessions l) \<longrightarrow> \<not> open_on i s)"
    by (auto simp: count_if_zero_iff)
  moreover have "snd (Dispose (lf_manager l) i) = None \<longleftrightarrow> ge_Sessions g = 0"
    using assms(2) sessions_okD(3) [OF ok assms(2)] by (auto simp: Dispose_def)
  ultimately show ?thesis using sessions_okD(2,4) [OF ok assms(2)] by metis
qed

theorem stopped_idle_witness:
  "\<exists>(l :: lifecycle) g. generation (lf_manager l) ''p-1'' = Some g \<and> ge_Sessions g = 1 \<and> snd (Dispose (lf_manager l) ''p-1'') \<noteq> None"
proof -
  define l where "l = opened (with_manager activated_once) (OpenSession activated_once ''p'')"
  have l: "reaches fresh_lifecycle lifecycle_step l"
    using reaches_step [OF demo_lifecycle_steps(1), OF lifecycle_step.open_active [of _ "''p''"]] by (simp add: l_def)
  have "lf_sessions l = [\<lparr>gs_generationID = ''p-1'', gs_closed = False\<rparr>]"
    "generation (lf_manager l) ''p-1'' \<noteq> None" unfolding l_def by code_simp+
  then obtain g where g: "generation (lf_manager l) ''p-1'' = Some g"
    "lf_sessions l = [\<lparr>gs_generationID = ''p-1'', gs_closed = False\<rparr>]" by auto
  have "ge_Sessions g = 1 \<and> snd (Dispose (lf_manager l) ''p-1'') \<noteq> None"
    using stopped_idle [OF l g(1)] by (auto simp: g(2) open_on_def)
  with g(1) show ?thesis by blast
qed

section \<open>Activation and rollback\<close>

text \<open>
  C25: rolling an activation back restores what was active. If a ready generation is activated and no
  session was opened on it, rolling back to the generation that was drained succeeds, makes that one
  active again exactly as it was, routes the provider to it, marks the new one failed, and leaves every
  other generation alone; without a predecessor the provider is left with none.
\<close>

theorem rollback_restores:
  assumes "reaches fresh_lifecycle lifecycle_step l" and "m = lf_manager l"
    and "Activate t m i = (m1, Inr (previous, activated))" and "ge_Sessions activated = 0"
    and "RollbackActivation m1 i (case previous of None \<Rightarrow> [] | Some d \<Rightarrow> active_id m (provider_of d)) = (m2, err)"
  shows "err = None \<and> (\<forall>j. j \<noteq> i \<longrightarrow> generation m2 j = generation m j) \<and>
    generation m2 i = Some (activated\<lparr>ge_State := GenerationFailed\<rparr>) \<and>
    (\<forall>p. gomap_get (pm_active m2) p = gomap_get (pm_active m) p)"
proof -
  have inv: "manager_inv (lf_conflict l) m"
    using providers.inv_reachable [OF assms(1)] assms(2) by (simp add: lifecycle_inv_def)
  obtain g where g: "generation m i = Some g" "ge_State g = GenerationReady" "previous = superseded m g i"
    "activated = g\<lparr>ge_State := GenerationActive, ge_ActiveAt := t\<rparr>"
    using assms(3) by (auto simp: Activate_def Let_def split: option.splits if_splits)
  note i = known_id [OF inv g(1)]
  show ?thesis
  proof (cases "routes m (provider_of g)")
    case None
    then have none: "previous = None" using g by (simp add: superseded_def active_id_routes)
    then have m1: "m1 = set_active (provider_of g) i (put_generation i activated m)"
      using assms(3) g by (simp add: Activate_def Let_def)
    have "active_id m1 (provider_of g) = i" by (simp add: active_id_routes m1)
    then have "m2 = put_generation i (activated\<lparr>ge_State := GenerationFailed\<rparr>) (clear_active (provider_of g) m1)"
      "err = None" using assms(4,5) none g m1 by (auto simp: RollbackActivation_def Let_def)
    then show ?thesis using None g m1 by (auto simp: routes_def manager_defs)
  next
    case (Some old)
    then obtain og where og: "old \<noteq> []" "generation m old = Some og" "provider_of og = provider_of g"
      "ge_State og = GenerationActive" by (rule routed [OF inv])
    have other: "old \<noteq> i" using og(2,4) g(1,2) by auto
    have old: "active_id m (provider_of g) = old" using Some by (simp add: active_id_routes)
    define d where "d = og\<lparr>ge_State := GenerationDraining\<rparr>"
    have sup: "superseded m g i = Some d" using og other old by (simp add: superseded_def Let_def d_def)
    then have prev: "previous = Some d" using g(3) by simp
    have m1: "m1 = set_active (provider_of g) i (put_generation i activated (put_generation old d m))"
      using assms(3) g(1,2,4) old sup by (simp add: Activate_def Let_def)
    have "active_id m1 (provider_of g) = i" by (simp add: active_id_routes m1)
    then have "m2 = set_active (provider_of g) old (put_generation i (activated\<lparr>ge_State := GenerationFailed\<rparr>)
        (put_generation old (d\<lparr>ge_State := GenerationActive\<rparr>) m1))" "err = None"
      using assms(4,5) prev g m1 og other old by (auto simp: RollbackActivation_def Let_def d_def)
    moreover have "d\<lparr>ge_State := GenerationActive\<rparr> = og" using og(4) by (simp add: d_def)
    ultimately show ?thesis using Some og other m1 by (auto simp: routes_def manager_defs)
  qed
qed

theorem rollback_restores_witness:
  "\<exists>m1 previous activated m2. Activate 2 ready_twice ''p-2'' = (m1, Inr (Some previous, activated)) \<and>
     RollbackActivation m1 ''p-2'' ''p-1'' = (m2, None) \<and>
     generation m2 ''p-1'' = generation ready_twice ''p-1'' \<and> gomap_get (pm_active m2) ''p'' = Some ''p-1''"
proof -
  have "case snd (Activate 2 ready_twice ''p-2'') of Inr (Some previous, activated) \<Rightarrow>
      ge_Sessions activated = 0 \<and> provider_of previous = ''p'' | _ \<Rightarrow> False" by code_simp
  then obtain m1 previous activated where run: "Activate 2 ready_twice ''p-2'' = (m1, Inr (Some previous, activated))"
    and idle: "ge_Sessions activated = 0" and p: "provider_of previous = ''p''"
    by (cases "Activate 2 ready_twice ''p-2''") (auto split: sum.splits option.splits)
  have old: "active_id ready_twice ''p'' = ''p-1''" "gomap_get (pm_active ready_twice) ''p'' = Some ''p-1''"
    by code_simp+
  obtain m2 err where undo: "RollbackActivation m1 ''p-2'' ''p-1'' = (m2, err)" by fastforce
  from rollback_restores [OF demo_lifecycle_steps(2) refl, of 2 "''p-2''" m1 "Some previous" activated m2 err]
  show ?thesis using run idle p old undo by auto
qed

text \<open>
  A conflicting record is refused but stays. Restoring a second active generation of a provider
  reports an error, yet the generation is registered as active, and sessions can be opened on it.
\<close>

theorem restore_conflict_stays:
  "let g = \<lparr>ge_ID = ''q-9'', ge_Provider = demo_ref, ge_ManifestHash = ''h'', ge_Endpoint = ''e'',
         ge_CatalogRevision = ''c'', ge_State = GenerationActive, ge_CreatedAt = 0, ge_ActiveAt = 0, ge_Sessions = 0\<rparr>;
       (m, err) = Restore activated_once g
   in err \<noteq> None \<and> generation m ''q-9'' = Some g \<and> gomap_get (pm_active m) ''p'' = Some ''p-1'' \<and>
      isl (snd (OpenSessionForGeneration m ''p'' ''q-9'')) = False"
  by code_simp

text \<open>A drain whose policy cancels on timeout only asks for disposal, which open sessions refuse.\<close>

lemma drain_cancel_refused:
  assumes "generation m i = Some g" and "0 < ge_Sessions g" and "dp_CancelOnTimeout (pm_drain m)"
  shows "Drain m i [(id, DrainDeadline)] = Some (m, Some (Lifecyclef
    ''provider generation %q still has %d session(s)'' [i, Itoa (ge_Sessions g)]))"
  using assms by (simp add: Dispose_def)

end
