(* ===== verification/Go_Net.thy ===== *)
theory Go_Net
  imports Go_Strings
begin

text \<open>
  What the authorization code uses of Go's \<open>strings\<close> and \<open>net\<close> packages for hosts and addresses:
  folding comparison, \<open>SplitHostPort\<close>, \<open>ParseIP\<close> and the classification of an address. An address
  is a list of 16 bytes; an IPv4 address is in its mapped form \<open>::ffff:a.b.c.d\<close>, as Go keeps it.
\<close>

section \<open>Strings\<close>

text \<open>
  \<open>strings.EqualFold(s, t)\<close> for an ASCII \<open>t\<close>. Two letters outside ASCII fold to an ASCII one: the
  long s (bytes C5 BF) and the Kelvin sign (E2 84 AA).
\<close>

definition lead2 :: "char \<Rightarrow> char \<Rightarrow> bool" where
  "lead2 c d \<longleftrightarrow> byte c = 197 \<and> lower_ascii d = CHR ''s''"

definition lead3 :: "char \<Rightarrow> char \<Rightarrow> bool" where
  "lead3 c d \<longleftrightarrow> byte c = 226 \<and> lower_ascii d = CHR ''k''"

fun EqualFold :: "string \<Rightarrow> string \<Rightarrow> bool" where
  "EqualFold [] t \<longleftrightarrow> t = []"
| "EqualFold (c # s) [] \<longleftrightarrow> False"
| "EqualFold (c # s) (d # t) \<longleftrightarrow> (if lead2 c d then (case s of [] \<Rightarrow> False | e # s' \<Rightarrow> byte e = 191 \<and> EqualFold s' t)
     else if lead3 c d then (case s of e # f # s' \<Rightarrow> byte e = 132 \<and> byte f = 170 \<and> EqualFold s' t | _ \<Rightarrow> False)
     else lower_ascii c = lower_ascii d \<and> EqualFold s t)"

text \<open>\<open>strings.Trim(s, cutset)\<close> for an ASCII cutset.\<close>

definition Trim :: "string \<Rightarrow> string \<Rightarrow> string" where
  "Trim s cutset = rev (dropWhile (\<lambda>c. c \<in> set cutset) (rev (dropWhile (\<lambda>c. c \<in> set cutset) s)))"

text \<open>\<open>strings.LastIndex\<close> of one byte: the text before and after the separator's last occurrence.\<close>

definition cut_last :: "string \<Rightarrow> char \<Rightarrow> (string \<times> string) option" where
  "cut_last s d = (case cut (rev s) d of None \<Rightarrow> None | Some (b, a) \<Rightarrow> Some (rev a, rev b))"

section \<open>Hosts and ports\<close>

text \<open>\<open>net.SplitHostPort\<close>, without the text of its errors.\<close>

definition SplitHostPort :: "string \<Rightarrow> (string \<times> string) option" where
  "SplitHostPort hostport = (case cut_last hostport CHR '':'' of
     None \<Rightarrow> None
   | Some (front, port) \<Rightarrow>
      if HasPrefix hostport ''['' then
        (case cut hostport CHR '']'' of
           None \<Rightarrow> None
         | Some (bracketed, rest) \<Rightarrow>
            let host = tl bracketed in
            if length bracketed + 1 \<noteq> length front then None
            else if CHR ''['' \<in> set host \<or> CHR ''['' \<in> set rest \<or> CHR '']'' \<in> set rest then None
            else Some (host, port))
      else if CHR '':'' \<in> set front then None
      else if CHR ''['' \<in> set hostport \<or> CHR '']'' \<in> set hostport then None
      else Some (front, port))"

section \<open>Addresses\<close>

type_synonym IP = "nat list"

definition v4_prefix :: IP where
  "v4_prefix = replicate 10 0 @ [255, 255]"

definition octet :: "string \<Rightarrow> nat option" where
  "octet f = (if f = [] \<or> \<not> list_all digit f \<or> (2 \<le> length f \<and> hd f = CHR ''0'') then None
     else let v = nat (digits_val f) in if 255 < v then None else Some v)"

definition parseIPv4 :: "string \<Rightarrow> nat list option" where
  "parseIPv4 s = (let os = map octet (Split s CHR ''.'') in
     if length os = 4 \<and> None \<notin> set os then Some (map the os) else None)"

definition hexval :: "char \<Rightarrow> nat option" where
  "hexval c = (if digit c then Some (byte c - 48)
     else if 97 \<le> byte c \<and> byte c \<le> 102 then Some (byte c - 87)
     else if 65 \<le> byte c \<and> byte c \<le> 70 then Some (byte c - 55) else None)"

definition hexchar :: "char \<Rightarrow> bool" where
  "hexchar c \<longleftrightarrow> hexval c \<noteq> None"

definition group_bytes :: "string \<Rightarrow> nat list" where
  "group_bytes d = (let v = foldl (\<lambda>n c. 16 * n + the (hexval c)) 0 d in [v div 256, v mod 256])"

text \<open>The loop of \<open>parseIPv6\<close>; the first argument is the number of groups left, the result the
  bytes read, the position of the ellipsis and the text that was not read.\<close>

fun v6_loop :: "nat \<Rightarrow> string \<Rightarrow> nat list \<Rightarrow> nat option \<Rightarrow> (nat list \<times> nat option \<times> string) option" where
  "v6_loop 0 s acc ell = Some (acc, ell, s)"
| "v6_loop (Suc k) s acc ell =
     (let d = takeWhile hexchar s; r = dropWhile hexchar s; acc' = acc @ group_bytes d in
      if d = [] \<or> 4 < length d then None
      else case r of
        [] \<Rightarrow> Some (acc', ell, [])
      | c # r1 \<Rightarrow>
         if c = CHR ''.'' then
           (if (ell = None \<and> length acc \<noteq> 12) \<or> k = 0 then None
            else case parseIPv4 s of None \<Rightarrow> None | Some b \<Rightarrow> Some (acc @ b, ell, []))
         else if c \<noteq> CHR '':'' then None
         else (case r1 of
             [] \<Rightarrow> None
           | e # r2 \<Rightarrow>
              if e \<noteq> CHR '':'' then v6_loop k r1 acc' ell
              else if ell \<noteq> None then None
              else if r2 = [] then Some (acc', Some (length acc'), [])
              else v6_loop k r2 acc' (Some (length acc'))))"

definition v6_finish :: "nat list \<times> nat option \<times> string \<Rightarrow> IP option" where
  "v6_finish x = (case x of (acc, ell, s) \<Rightarrow>
     if s \<noteq> [] then None
     else if length acc < 16 then
       (case ell of None \<Rightarrow> None
        | Some e \<Rightarrow> Some (take e acc @ replicate (16 - length acc) 0 @ drop e acc))
     else if ell \<noteq> None then None else Some acc)"

definition parseIPv6 :: "string \<Rightarrow> IP option" where
  "parseIPv6 s = (if s = ''::'' then Some (replicate 16 0)
     else case (if HasPrefix s ''::'' then v6_loop 8 (drop 2 s) [] (Some 0) else v6_loop 8 s [] None) of
       None \<Rightarrow> None | Some x \<Rightarrow> v6_finish x)"

text \<open>An address with a zone is not one, and the loop stops at the percent sign of the zone.\<close>

definition ParseIP :: "string \<Rightarrow> IP option" where
  "ParseIP s = (case dropWhile (\<lambda>c. c \<notin> {CHR ''.'', CHR '':'', CHR ''%''}) s of
     [] \<Rightarrow> None
   | c # _ \<Rightarrow> if c = CHR ''.'' then map_option (\<lambda>b. v4_prefix @ b) (parseIPv4 s)
       else if c = CHR '':'' then parseIPv6 s else None)"

definition To4 :: "IP \<Rightarrow> nat list option" where
  "To4 ip = (if take 12 ip = v4_prefix then Some (drop 12 ip) else None)"

definition IsLoopback :: "IP \<Rightarrow> bool" where
  "IsLoopback ip = (case To4 ip of Some v \<Rightarrow> v ! 0 = 127 | None \<Rightarrow> ip = replicate 15 0 @ [1])"

definition IsPrivate :: "IP \<Rightarrow> bool" where
  "IsPrivate ip = (case To4 ip of
     Some v \<Rightarrow> v ! 0 = 10 \<or> (v ! 0 = 172 \<and> v ! 1 div 16 = 1) \<or> (v ! 0 = 192 \<and> v ! 1 = 168)
   | None \<Rightarrow> ip ! 0 div 2 = 126)"

definition IsLinkLocalUnicast :: "IP \<Rightarrow> bool" where
  "IsLinkLocalUnicast ip = (case To4 ip of Some v \<Rightarrow> v ! 0 = 169 \<and> v ! 1 = 254
     | None \<Rightarrow> ip ! 0 = 254 \<and> ip ! 1 div 64 = 2)"

definition IsLinkLocalMulticast :: "IP \<Rightarrow> bool" where
  "IsLinkLocalMulticast ip = (case To4 ip of Some v \<Rightarrow> v ! 0 = 224 \<and> v ! 1 = 0 \<and> v ! 2 = 0
     | None \<Rightarrow> ip ! 0 = 255 \<and> ip ! 1 mod 16 = 2)"

definition IsUnspecified :: "IP \<Rightarrow> bool" where
  "IsUnspecified ip \<longleftrightarrow> ip = v4_prefix @ [0, 0, 0, 0] \<or> ip = replicate 16 0"

end
