(* ===== verification/Authz_Store.thy ===== *)
theory Authz_Store
  imports Go_Net
begin

text \<open>
  The store behind the agent's authorization server (\<open>src/internal/authz/store.go\<close>): the clients, the
  authorization codes and the access tokens, each a table with a primary key. A statement that SQLite
  refuses is an input of the model; a refused statement leaves the tables as they were. Every method
  is one statement or one transaction, so each is atomic.
\<close>

section \<open>Tables\<close>

record issuedToken =
  tk_Hash :: string
  tk_ClientID :: string
  tk_Resource :: string
  tk_Scope :: string
  tk_ExpiresAt :: int
  tk_Revoked :: bool

record authCode =
  cc_Code :: string
  cc_ClientID :: string
  cc_Resource :: string
  cc_CodeChallenge :: string
  cc_RedirectURI :: string
  cc_ExpiresAt :: int

record registeredClient =
  cl_ClientID :: string
  cl_SecretHash :: string
  cl_ClientType :: string
  cl_RedirectURIs :: "string list"
  cl_MetadataURL :: string
  cl_Confidential :: bool

record TokenStore =
  az_clients :: "(string, registeredClient) gomap"
  az_codes :: "(string, authCode \<times> bool) gomap"   \<comment> \<open>with the column \<open>used\<close>\<close>
  az_tokens :: "(string, issuedToken) gomap"

definition empty_tables :: TokenStore where
  "empty_tables = \<lparr>az_clients = [], az_codes = [], az_tokens = []\<rparr>"

text \<open>Which statements of a method SQLite refuses, with the text of the error.\<close>

record db_faults =
  db_upsert :: "string option"
  db_client :: "string option"
  db_saveCode :: "string option"
  db_readCode :: "string option"     \<comment> \<open>\<open>BEGIN\<close> or the select of \<open>consumeCode\<close>\<close>
  db_useCode :: "string option"      \<comment> \<open>its update or \<open>COMMIT\<close>\<close>
  db_saveToken :: "string option"
  db_prune :: "string option"
  db_token :: "string option"
  db_revoke :: "string option"

definition no_faults :: db_faults where
  "no_faults = \<lparr>db_upsert = None, db_client = None, db_saveCode = None, db_readCode = None, db_useCode = None,
     db_saveToken = None, db_prune = None, db_token = None, db_revoke = None\<rparr>"

section \<open>Methods\<close>

definition upsertClient :: "db_faults \<Rightarrow> registeredClient \<Rightarrow> TokenStore \<Rightarrow> TokenStore \<times> string option" where
  "upsertClient fl c s = (case db_upsert fl of Some e \<Rightarrow> (s, Some e)
     | None \<Rightarrow> (s\<lparr>az_clients := gomap_put (cl_ClientID c) c (az_clients s)\<rparr>, None))"

definition client :: "db_faults \<Rightarrow> string \<Rightarrow> TokenStore \<Rightarrow> string + registeredClient option" where
  "client fl i s = (case db_client fl of Some e \<Rightarrow> Inl e | None \<Rightarrow> Inr (gomap_get (az_clients s) i))"

text \<open>An insert fails when the key exists.\<close>

definition unique_violation :: string where
  "unique_violation = ''UNIQUE constraint failed''"

definition saveCode :: "db_faults \<Rightarrow> authCode \<Rightarrow> TokenStore \<Rightarrow> TokenStore \<times> string option" where
  "saveCode fl c s = (case db_saveCode fl of Some e \<Rightarrow> (s, Some e)
     | None \<Rightarrow> if gomap_has (az_codes s) (cc_Code c) then (s, Some unique_violation)
         else (s\<lparr>az_codes := gomap_put (cc_Code c) (c, False) (az_codes s)\<rparr>, None))"

definition consumeCode :: "db_faults \<Rightarrow> int \<Rightarrow> string \<Rightarrow> TokenStore \<Rightarrow> TokenStore \<times> (string + authCode)" where
  "consumeCode fl now value s = (case db_readCode fl of Some e \<Rightarrow> (s, Inl e)
     | None \<Rightarrow>
       (case gomap_get (az_codes s) value of
          None \<Rightarrow> (s, Inl ''authorization code is invalid'')
        | Some (code, used) \<Rightarrow>
          if used \<or> cc_ExpiresAt code < now then (s, Inl ''authorization code is expired'')
          else (case db_useCode fl of Some e \<Rightarrow> (s, Inl e)
            | None \<Rightarrow> (s\<lparr>az_codes := gomap_put value (code, True) (az_codes s)\<rparr>, Inr code))))"

definition expiredTokenGrace :: int where
  "expiredTokenGrace = 3600"

text \<open>The two statements of \<open>saveToken\<close>, the insert and the pruning of what expired before a time.\<close>

definition insertToken :: "db_faults \<Rightarrow> issuedToken \<Rightarrow> TokenStore \<Rightarrow> TokenStore \<times> string option" where
  "insertToken fl t s = (case db_saveToken fl of Some e \<Rightarrow> (s, Some e)
     | None \<Rightarrow> if gomap_has (az_tokens s) (tk_Hash t) then (s, Some unique_violation)
         else (s\<lparr>az_tokens := gomap_put (tk_Hash t) t (az_tokens s)\<rparr>, None))"

definition pruneTokens :: "db_faults \<Rightarrow> int \<Rightarrow> TokenStore \<Rightarrow> TokenStore \<times> string option" where
  "pruneTokens fl before s = (case db_prune fl of Some e \<Rightarrow> (s, Some e)
     | None \<Rightarrow> (s\<lparr>az_tokens := filter (\<lambda>(h, t). \<not> tk_ExpiresAt t < before) (az_tokens s)\<rparr>, None))"

definition tokenByHash :: "db_faults \<Rightarrow> string \<Rightarrow> TokenStore \<Rightarrow> string + issuedToken option" where
  "tokenByHash fl h s = (case db_token fl of Some e \<Rightarrow> Inl e | None \<Rightarrow> Inr (gomap_get (az_tokens s) h))"

definition revokeHash :: "db_faults \<Rightarrow> string \<Rightarrow> TokenStore \<Rightarrow> TokenStore \<times> string option" where
  "revokeHash fl h s = (case db_revoke fl of Some e \<Rightarrow> (s, Some e)
     | None \<Rightarrow> (s\<lparr>az_tokens := map (\<lambda>(k, t). (k, if k = h then t\<lparr>tk_Revoked := True\<rparr> else t)) (az_tokens s)\<rparr>, None))"

definition revokeClient :: "db_faults \<Rightarrow> string \<Rightarrow> TokenStore \<Rightarrow> TokenStore \<times> string option" where
  "revokeClient fl i s = (case db_revoke fl of Some e \<Rightarrow> (s, Some e)
     | None \<Rightarrow> (s\<lparr>az_tokens := map (\<lambda>(k, t). (k, if tk_ClientID t = i then t\<lparr>tk_Revoked := True\<rparr> else t))
         (az_tokens s)\<rparr>, None))"

section \<open>Requests as programs\<close>

text \<open>
  A request handler runs beside others, and between two of its statements another handler may change the
  tables. So a handler is a program that asks its surroundings one question after the other, each with a
  continuation for the answer: a statement of the store, the clock, \<open>rand.Read\<close> of 32 bytes, the
  resolver, and the fetch of a client's metadata document.
\<close>

datatype metadata_answer =
    FetchFailed string                                       \<comment> \<open>no response\<close>
  | Fetched int "string + string \<times> string list"           \<comment> \<open>the status, and the error of reading or decoding
        the body or its \<open>client_id\<close> and \<open>redirect_uris\<close>\<close>

datatype 'a prog =
    Respond 'a
  | Clock "int \<Rightarrow> 'a prog"
  | Rand "nat list option \<Rightarrow> 'a prog"
  | LookupIP string "IP list option \<Rightarrow> 'a prog"
  | Fetch string "metadata_answer \<Rightarrow> 'a prog"
  | Upsert registeredClient "string option \<Rightarrow> 'a prog"
  | GetClient string "string + registeredClient option \<Rightarrow> 'a prog"
  | SaveCode authCode "string option \<Rightarrow> 'a prog"
  | ConsumeCode string "string + authCode \<Rightarrow> 'a prog"
  | SaveToken issuedToken "string option \<Rightarrow> 'a prog"
  | PruneTokens int "string option \<Rightarrow> 'a prog"
  | TokenByHash string "string + issuedToken option \<Rightarrow> 'a prog"
  | RevokeHash string "string option \<Rightarrow> 'a prog"

primrec bind :: "'a prog \<Rightarrow> ('a \<Rightarrow> 'b prog) \<Rightarrow> 'b prog" where
  "bind (Respond a) f = f a"
| "bind (Clock k) f = Clock (\<lambda>x. bind (k x) f)"
| "bind (Rand k) f = Rand (\<lambda>x. bind (k x) f)"
| "bind (LookupIP h k) f = LookupIP h (\<lambda>x. bind (k x) f)"
| "bind (Fetch u k) f = Fetch u (\<lambda>x. bind (k x) f)"
| "bind (Upsert c k) f = Upsert c (\<lambda>x. bind (k x) f)"
| "bind (GetClient i k) f = GetClient i (\<lambda>x. bind (k x) f)"
| "bind (SaveCode c k) f = SaveCode c (\<lambda>x. bind (k x) f)"
| "bind (ConsumeCode v k) f = ConsumeCode v (\<lambda>x. bind (k x) f)"
| "bind (SaveToken t k) f = SaveToken t (\<lambda>x. bind (k x) f)"
| "bind (PruneTokens u k) f = PruneTokens u (\<lambda>x. bind (k x) f)"
| "bind (TokenByHash h k) f = TokenByHash h (\<lambda>x. bind (k x) f)"
| "bind (RevokeHash h k) f = RevokeHash h (\<lambda>x. bind (k x) f)"

text \<open>A new token is inserted, and then those that expired long before are removed; other requests may run between the
  two. That the removal fails is not told.\<close>

definition saveToken :: "issuedToken \<Rightarrow> (string option \<Rightarrow> 'a prog) \<Rightarrow> 'a prog" where
  "saveToken t k = Clock (\<lambda>now. SaveToken t (\<lambda>err. case err of
       Some e \<Rightarrow> k (Some e)
     | None \<Rightarrow> PruneTokens (now - expiredTokenGrace) (\<lambda>_. k None)))"

text \<open>A question with its answer.\<close>

datatype event =
    EvClock int
  | EvRand "nat list option"
  | EvLookup string "IP list option"
  | EvFetch string metadata_answer
  | EvUpsert registeredClient "string option"
  | EvClient string "string + registeredClient option"
  | EvSaveCode authCode "string option"
  | EvConsume string "string + authCode"
  | EvSaveToken issuedToken "string option"
  | EvPrune int "string option"
  | EvToken string "string + issuedToken option"
  | EvRevoke string "string option"

text \<open>The program that goes on after an event, when the event answers its question.\<close>

definition same :: "'q \<Rightarrow> 'q \<Rightarrow> 'b \<Rightarrow> 'b option" where
  "same q q' b = (if q = q' then Some b else None)"

primrec resume :: "'a prog \<Rightarrow> event \<Rightarrow> 'a prog option" where
  "resume (Respond a) ev = None"
| "resume (Clock k) ev = (case ev of EvClock a \<Rightarrow> Some (k a) | _ \<Rightarrow> None)"
| "resume (Rand k) ev = (case ev of EvRand a \<Rightarrow> Some (k a) | _ \<Rightarrow> None)"
| "resume (LookupIP h k) ev = (case ev of EvLookup h' a \<Rightarrow> same h h' (k a) | _ \<Rightarrow> None)"
| "resume (Fetch u k) ev = (case ev of EvFetch u' a \<Rightarrow> same u u' (k a) | _ \<Rightarrow> None)"
| "resume (Upsert c k) ev = (case ev of EvUpsert c' a \<Rightarrow> same c c' (k a) | _ \<Rightarrow> None)"
| "resume (GetClient i k) ev = (case ev of EvClient i' a \<Rightarrow> same i i' (k a) | _ \<Rightarrow> None)"
| "resume (SaveCode c k) ev = (case ev of EvSaveCode c' a \<Rightarrow> same c c' (k a) | _ \<Rightarrow> None)"
| "resume (ConsumeCode v k) ev = (case ev of EvConsume v' a \<Rightarrow> same v v' (k a) | _ \<Rightarrow> None)"
| "resume (SaveToken t k) ev = (case ev of EvSaveToken t' a \<Rightarrow> same t t' (k a) | _ \<Rightarrow> None)"
| "resume (PruneTokens u k) ev = (case ev of EvPrune u' a \<Rightarrow> same u u' (k a) | _ \<Rightarrow> None)"
| "resume (TokenByHash h k) ev = (case ev of EvToken h' a \<Rightarrow> same h h' (k a) | _ \<Rightarrow> None)"
| "resume (RevokeHash h k) ev = (case ev of EvRevoke h' a \<Rightarrow> same h h' (k a) | _ \<Rightarrow> None)"

fun replay :: "'a prog \<Rightarrow> event list \<Rightarrow> 'a prog option" where
  "replay p [] = Some p"
| "replay p (ev # evs) = (case resume p ev of None \<Rightarrow> None | Some q \<Rightarrow> replay q evs)"

lemma replay_append: "replay p (es @ fs) = (case replay p es of None \<Rightarrow> None | Some q \<Rightarrow> replay q fs)"
  by (induction es arbitrary: p) (auto split: option.splits)

section \<open>Answers\<close>

text \<open>What a question meets when it is asked: the statements SQLite refuses, the time, the random bytes,
  the resolver and the network.\<close>

record outside =
  ou_faults :: db_faults
  ou_now :: int
  ou_rand :: "nat list option"
  ou_lookup :: "string \<Rightarrow> IP list option"
  ou_fetch :: "string \<Rightarrow> metadata_answer"

fun ask :: "outside \<Rightarrow> 'a prog \<Rightarrow> TokenStore \<Rightarrow> (event \<times> TokenStore) option" where
  "ask w (Respond _) s = None"
| "ask w (Clock _) s = Some (EvClock (ou_now w), s)"
| "ask w (Rand _) s = Some (EvRand (ou_rand w), s)"
| "ask w (LookupIP h _) s = Some (EvLookup h (ou_lookup w h), s)"
| "ask w (Fetch u _) s = Some (EvFetch u (ou_fetch w u), s)"
| "ask w (Upsert c _) s = (let (s', e) = upsertClient (ou_faults w) c s in Some (EvUpsert c e, s'))"
| "ask w (GetClient i _) s = Some (EvClient i (client (ou_faults w) i s), s)"
| "ask w (SaveCode c _) s = (let (s', e) = saveCode (ou_faults w) c s in Some (EvSaveCode c e, s'))"
| "ask w (ConsumeCode v _) s = (let (s', r) = consumeCode (ou_faults w) (ou_now w) v s in Some (EvConsume v r, s'))"
| "ask w (SaveToken t _) s = (let (s', e) = insertToken (ou_faults w) t s in Some (EvSaveToken t e, s'))"
| "ask w (PruneTokens u _) s = (let (s', e) = pruneTokens (ou_faults w) u s in Some (EvPrune u e, s'))"
| "ask w (TokenByHash h _) s = Some (EvToken h (tokenByHash (ou_faults w) h s), s)"
| "ask w (RevokeHash h _) s = (let (s', e) = revokeHash (ou_faults w) h s in Some (EvRevoke h e, s'))"

lemma ask_answers: "ask w p s = Some (ev, s') \<Longrightarrow> \<exists>q. resume p ev = Some q"
  by (cases p) (auto simp: same_def split: prod.splits)

text \<open>A request alone, with one set of surroundings for each question; a missing one leaves it unfinished.\<close>

fun run_alone :: "outside list \<Rightarrow> 'a prog \<Rightarrow> TokenStore \<Rightarrow> event list \<times> 'a prog \<times> TokenStore" where
  "run_alone [] p s = ([], p, s)"
| "run_alone (w # ws) p s = (case ask w p s of None \<Rightarrow> ([], p, s)
     | Some (ev, s') \<Rightarrow> (case resume p ev of None \<Rightarrow> ([], p, s)
         | Some q \<Rightarrow> (case run_alone ws q s' of (es, r, s'') \<Rightarrow> (ev # es, r, s''))))"

end
