(* ===== verification/Go_Crypto.thy ===== *)
theory Go_Crypto
  imports Go_Strings "HOL-Library.Word"
begin

text \<open>
  What the authorization code uses of \<open>crypto/sha256\<close>, \<open>encoding/hex\<close> and \<open>encoding/base64\<close>: the
  digest of a string (FIPS 180-4), lower-case hexadecimal and the unpadded URL alphabet. No theorem
  rests on a property of the digest; the definitions compute the code's values.
\<close>

unbundle bit_operations_syntax

section \<open>SHA-256\<close>

type_synonym w32 = "32 word"

definition rotr :: "nat \<Rightarrow> w32 \<Rightarrow> w32" where
  "rotr n x = drop_bit n x OR push_bit (32 - n) x"

text \<open>
  The constants of the standard are the first 32 bits of the fractional parts of the cube roots, and of
  the square roots, of the first primes. The root is found bit by bit.
\<close>

fun root_bits :: "nat \<Rightarrow> nat \<Rightarrow> nat \<Rightarrow> nat \<Rightarrow> nat" where
  "root_bits d n 0 r = r"
| "root_bits d n (Suc b) r = root_bits d n b (if (r + 2 ^ b) ^ d \<le> n then r + 2 ^ b else r)"

definition root_fraction :: "nat \<Rightarrow> nat \<Rightarrow> w32" where
  "root_fraction d p = word_of_nat (root_bits d (p * 2 ^ (32 * d)) 40 0)"

definition primes_to :: "nat \<Rightarrow> nat list" where
  "primes_to n = filter (\<lambda>p. list_all (\<lambda>q. p mod q \<noteq> 0) [2..<p]) [2..<n]"

definition sha_K :: "w32 list" where
  "sha_K = map (root_fraction 3) (primes_to 312)"

definition sha_H0 :: "w32 list" where
  "sha_H0 = map (root_fraction 2) (primes_to 20)"

definition be_bytes :: "nat \<Rightarrow> nat \<Rightarrow> nat list" where
  "be_bytes k n = map (\<lambda>i. n div 256 ^ (k - 1 - i) mod 256) [0..<k]"

definition sha_pad :: "nat list \<Rightarrow> nat list" where
  "sha_pad m = m @ 128 # replicate ((119 - length m mod 64) mod 64) 0 @ be_bytes 8 (8 * length m)"

fun be_words :: "nat list \<Rightarrow> w32 list" where
  "be_words (a # b # c # d # bs) = word_of_nat (((a * 256 + b) * 256 + c) * 256 + d) # be_words bs"
| "be_words _ = []"

text \<open>The message schedule, newest word first.\<close>

fun sha_extend :: "nat \<Rightarrow> w32 list \<Rightarrow> w32 list" where
  "sha_extend 0 ws = ws"
| "sha_extend (Suc n) ws =
     (let a = ws ! 1; b = ws ! 14;
          s0 = rotr 7 b XOR rotr 18 b XOR drop_bit 3 b;
          s1 = rotr 17 a XOR rotr 19 a XOR drop_bit 10 a
      in sha_extend n ((ws ! 15 + s0 + ws ! 6 + s1) # ws))"

fun sha_round :: "w32 list \<Rightarrow> w32 \<times> w32 \<Rightarrow> w32 list" where
  "sha_round [a, b, c, d, e, f, g, h] (k, w) =
     (let t1 = h + (rotr 6 e XOR rotr 11 e XOR rotr 25 e) + ((e AND f) XOR (NOT e AND g)) + k + w;
          t2 = (rotr 2 a XOR rotr 13 a XOR rotr 22 a) + ((a AND b) XOR (a AND c) XOR (b AND c))
      in [t1 + t2, a, b, c, d + t1, e, f, g])"
| "sha_round hs _ = hs"

definition sha_block :: "w32 list \<Rightarrow> nat list \<Rightarrow> w32 list" where
  "sha_block hs block = map2 (+) hs
     (foldl sha_round hs (zip sha_K (rev (sha_extend 48 (rev (be_words block))))))"

fun sha_blocks :: "nat \<Rightarrow> w32 list \<Rightarrow> nat list \<Rightarrow> w32 list" where
  "sha_blocks 0 hs m = hs"
| "sha_blocks (Suc n) hs m = sha_blocks n (sha_block hs (take 64 m)) (drop 64 m)"

text \<open>\<open>sha256.Sum256\<close>, 32 bytes.\<close>

definition Sum256 :: "string \<Rightarrow> nat list" where
  "Sum256 s = (let m = sha_pad (map byte s) in
     concat (map (\<lambda>w. be_bytes 4 (unat w)) (sha_blocks (length m div 64) sha_H0 m)))"

section \<open>Texts of bytes\<close>

definition hex_digit :: "nat \<Rightarrow> char" where
  "hex_digit n = ''0123456789abcdef'' ! n"

definition hex_EncodeToString :: "nat list \<Rightarrow> string" where
  "hex_EncodeToString bs = concat (map (\<lambda>b. [hex_digit (b div 16 mod 16), hex_digit (b mod 16)]) bs)"

definition b64url :: "nat \<Rightarrow> char" where
  "b64url n = ''ABCDEFGHIJKLMNOPQRSTUVWXYZabcdefghijklmnopqrstuvwxyz0123456789-_'' ! (n mod 64)"

fun RawURLEncoding :: "nat list \<Rightarrow> string" where
  "RawURLEncoding (a # b # c # bs) = (let v = (a * 256 + b) * 256 + c in
     b64url (v div 262144) # b64url (v div 4096) # b64url (v div 64) # b64url v # RawURLEncoding bs)"
| "RawURLEncoding [a, b] = (let v = (a * 256 + b) * 4 in [b64url (v div 4096), b64url (v div 64), b64url v])"
| "RawURLEncoding [a] = (let v = a * 16 in [b64url (v div 64), b64url v])"
| "RawURLEncoding [] = []"

end
