(* ===== verification/Authz.thy ===== *)
theory Authz
  imports Authz_Store Go_Crypto Json
begin

text \<open>
  The authorization server and the bearer check in front of the MCP endpoint
  (\<open>src/internal/authz/resource.go\<close>, \<open>service.go\<close> and \<open>token.go\<close>). A handler is a program over the
  store (theory \<open>Authz_Store\<close>). Go's URL parser is the argument \<open>url_Parse\<close> of the definitions, for
  which nothing is assumed. A request is given by what the code reads of it.
\<close>

section \<open>Requests and surroundings\<close>

record request =
  q_Method :: string
  q_TLS :: bool
  q_Host :: string
  q_URLHost :: string
  q_Authorization :: string
  q_Origin :: string
  q_ForwardedProto :: string
  q_BasicAuth :: "(string \<times> string) option"     \<comment> \<open>what \<open>BasicAuth\<close> decodes of the Authorization header\<close>
  q_FormError :: bool                             \<comment> \<open>\<open>ParseForm\<close> fails\<close>
  q_Form :: "(string, string) gomap option"       \<comment> \<open>the first value of each key after \<open>ParseForm\<close>\<close>
  q_Query :: "(string, string) gomap"             \<comment> \<open>the first value of each key of the URL's query\<close>

record url =
  u_Scheme :: string
  u_Host :: string

record net_env =
  ne_url_Parse :: "string \<Rightarrow> url option"
  ne_InterfaceAddrs :: "IP list option"

text \<open>\<open>URL.Hostname\<close>.\<close>

definition url_Hostname :: "url \<Rightarrow> string" where
  "url_Hostname u = (let
     host = (case cut_last (u_Host u) CHR '':'' of
         Some (h, p) \<Rightarrow> if list_all digit p then h else u_Host u | None \<Rightarrow> u_Host u)
     in if HasPrefix host ''['' \<and> HasSuffix host '']'' then butlast (tl host) else host)"

section \<open>Hosts and origins\<close>

definition requestScheme :: "request \<Rightarrow> string" where
  "requestScheme r = (if q_TLS r \<or> EqualFold (q_ForwardedProto r) ''https'' then ''https'' else ''http'')"

definition CanonicalMCPResource :: "request \<Rightarrow> string" where
  "CanonicalMCPResource r =
     (let scheme = (if q_TLS r \<or> EqualFold (q_ForwardedProto r) ''https'' then ''https'' else ''http'');
          host = TrimSpace (q_Host r);
          host = (if host = [] then TrimSpace (q_URLHost r) else host)
      in scheme @ ''://'' @ host @ ''/mcp'')"

definition IsLocalHostAddress :: "net_env \<Rightarrow> string \<Rightarrow> bool" where
  "IsLocalHostAddress ne host =
     (let hostname = (case SplitHostPort host of Some (h, _) \<Rightarrow> h | None \<Rightarrow> host);
          hostname = Trim hostname ''[]''
      in if EqualFold hostname ''localhost'' \<or> hostname = ''127.0.0.1'' \<or> hostname = ''::1'' then True
         else (case ParseIP hostname of None \<Rightarrow> False
           | Some ip \<Rightarrow> IsLoopback ip \<or>
               (case ne_InterfaceAddrs ne of None \<Rightarrow> False | Some addrs \<Rightarrow> ip \<in> set addrs)))"

definition originIsLoopback :: "string \<Rightarrow> bool" where
  "originIsLoopback origin =
     (let origin = TrimSuffix origin ''/'' in
      list_ex (\<lambda>allowed. origin = allowed \<or> HasPrefix origin (allowed @ '':''))
        [''http://127.0.0.1'', ''https://127.0.0.1'', ''http://localhost'', ''https://localhost'',
         ''http://[::1]'', ''https://[::1]''])"

definition originMatchesRequestHost :: "string \<Rightarrow> string \<Rightarrow> string \<Rightarrow> bool" where
  "originMatchesRequestHost origin host scheme =
     (let origin = TrimSuffix origin ''/''; want = scheme @ ''://'' @ host in
      (case cut host CHR '':'' of
         Some (hostname, _) \<Rightarrow> if origin = scheme @ ''://'' @ hostname \<or> origin = want then True else origin = want
       | None \<Rightarrow> origin = want))"

definition OriginAllowed :: "net_env \<Rightarrow> request \<Rightarrow> bool" where
  "OriginAllowed ne r =
     (let origin = TrimSpace (q_Origin r) in
      if origin = [] then True
      else if IsLocalHostAddress ne (q_Host r) then originIsLoopback origin
      else originMatchesRequestHost origin (q_Host r) (requestScheme r))"

definition ProtectedResourceMetadataPath :: string where
  "ProtectedResourceMetadataPath = ''/.well-known/oauth-protected-resource/mcp''"

definition AuthorizationServerMetadataPath :: string where
  "AuthorizationServerMetadataPath = ''/.well-known/oauth-authorization-server''"

definition requestOrigin :: "request \<Rightarrow> string" where
  "requestOrigin r = requestScheme r @ ''://'' @ q_Host r"

section \<open>Tokens\<close>

definition MCPScope :: string where "MCPScope = ''mcp''"
definition HostTokenPrefix :: string where "HostTokenPrefix = ''oha_''"

definition hashToken :: "string \<Rightarrow> string" where
  "hashToken token = hex_EncodeToString (Sum256 token)"

definition s256 :: "string \<Rightarrow> string" where
  "s256 verifier = RawURLEncoding (Sum256 verifier)"

definition constantEquals :: "string \<Rightarrow> string \<Rightarrow> bool" where
  "constantEquals a b = (if a = b then True else False)"

definition randomToken :: "nat list option \<Rightarrow> string option" where
  "randomToken raw = (case raw of None \<Rightarrow> None | Some bs \<Rightarrow> Some (HostTokenPrefix @ hex_EncodeToString bs))"

definition randomCode :: "nat list option \<Rightarrow> string option" where
  "randomCode raw = (case raw of None \<Rightarrow> None | Some bs \<Rightarrow> Some (hex_EncodeToString bs))"

definition bearerToken :: "request \<Rightarrow> string" where
  "bearerToken r = (let auth = q_Authorization r in
     if \<not> HasPrefix auth ''Bearer '' then [] else TrimSpace (TrimPrefix auth ''Bearer ''))"

definition firstForm :: "request \<Rightarrow> string \<Rightarrow> string" where
  "firstForm r key = (case q_Form r of
     Some form \<Rightarrow> (let v = TrimSpace (gomap_or form key []) in
        if v \<noteq> [] then v else TrimSpace (gomap_or (q_Query r) key []))
   | None \<Rightarrow> TrimSpace (gomap_or (q_Query r) key []))"

definition clientAuth :: "request \<Rightarrow> string \<times> string" where
  "clientAuth r = (case q_BasicAuth r of Some (user, secret) \<Rightarrow> (user, secret)
     | None \<Rightarrow> (firstForm r ''client_id'', firstForm r ''client_secret''))"

definition containsString :: "string list \<Rightarrow> string \<Rightarrow> bool" where
  "containsString vals want = list_ex (\<lambda>v. v = want) vals"

section \<open>The service\<close>

record Service =
  sv_bootstrapToken :: string

record Options =
  op_BootstrapToken :: string
  op_OputeSecret :: string

definition bootstrapClientID :: string where "bootstrapClientID = ''host-agent-bootstrap''"
definition oputeClientID :: string where "oputeClientID = ''opute-mcp-host''"
definition accessTokenTTL :: int where "accessTokenTTL = 3600"
definition authCodeTTL :: int where "authCodeTTL = 600"

text \<open>\<open>Open\<close> on the tables that \<open>OpenStore\<close> found, one fault record for each of its two statements.\<close>

definition Open :: "db_faults \<Rightarrow> db_faults \<Rightarrow> Options \<Rightarrow> TokenStore \<Rightarrow> TokenStore \<times> (string + Service)" where
  "Open fl1 fl2 opts s =
     (let svc = \<lparr>sv_bootstrapToken = TrimSpace (op_BootstrapToken opts)\<rparr>;
          (s1, e1) = upsertClient fl1 \<lparr>cl_ClientID = bootstrapClientID, cl_SecretHash = [],
            cl_ClientType = ''bootstrap'',
            cl_RedirectURIs = [''http://127.0.0.1/callback'', ''http://localhost/callback''],
            cl_MetadataURL = [], cl_Confidential = True\<rparr> s
      in case e1 of Some e \<Rightarrow> (s1, Inl e)
         | None \<Rightarrow>
           (let secret = TrimSpace (op_OputeSecret opts);
                (s2, e2) = upsertClient fl2 \<lparr>cl_ClientID = oputeClientID,
                  cl_SecretHash = (if secret \<noteq> [] then hashToken secret else []),
                  cl_ClientType = ''confidential'', cl_RedirectURIs = [''https://127.0.0.1/oauth/callback''],
                  cl_MetadataURL = [], cl_Confidential = True\<rparr> s1
            in case e2 of Some e \<Rightarrow> (s2, Inl e) | None \<Rightarrow> (s2, Inr svc)))"

section \<open>The bearer check\<close>

text \<open>The two arguments of the challenge \<open>Bearer resource_metadata=%q, scope=%q\<close>.\<close>

record Decision =
  de_Allowed :: bool
  de_Status :: int
  de_WWWAuth :: "(string \<times> string) option"
  de_Insufficient :: bool

definition wwwAuthenticate :: "request \<Rightarrow> string \<times> string" where
  "wwwAuthenticate r = (requestOrigin r @ ProtectedResourceMetadataPath, MCPScope)"

definition unauthorized :: "request \<Rightarrow> Decision" where
  "unauthorized r = \<lparr>de_Allowed = False, de_Status = 401, de_WWWAuth = Some (wwwAuthenticate r), de_Insufficient = False\<rparr>"

definition forbidden :: "request \<Rightarrow> Decision" where
  "forbidden r = \<lparr>de_Allowed = False, de_Status = 403, de_WWWAuth = Some (wwwAuthenticate r), de_Insufficient = True\<rparr>"

definition allowed :: Decision where
  "allowed = \<lparr>de_Allowed = True, de_Status = 200, de_WWWAuth = None, de_Insufficient = False\<rparr>"

text \<open>What the check makes of the row it found, at the time the clock shows.\<close>

definition judge :: "request \<Rightarrow> string \<Rightarrow> issuedToken \<Rightarrow> int \<Rightarrow> Decision" where
  "judge r resource t now =
     (if tk_ExpiresAt t < now then unauthorized r
      else if tk_Resource t \<noteq> resource then forbidden r
      else if tk_Scope t \<noteq> [] \<and> tk_Scope t \<noteq> MCPScope then forbidden r
      else allowed)"

definition Authorize :: "net_env \<Rightarrow> Service option \<Rightarrow> request \<Rightarrow> Decision prog" where
  "Authorize ne s r = (case s of None \<Rightarrow> Respond (unauthorized r)
   | Some svc \<Rightarrow>
      (let token = bearerToken r; resource = CanonicalMCPResource r in
       if token = [] then Respond (unauthorized r)
       else if sv_bootstrapToken svc \<noteq> [] \<and> constantEquals token (sv_bootstrapToken svc) then
         (if \<not> IsLocalHostAddress ne (q_Host r) then Respond (forbidden r) else Respond allowed)
       else TokenByHash (hashToken token) (\<lambda>answer. case answer of
            Inl _ \<Rightarrow> Respond (unauthorized r)
          | Inr None \<Rightarrow> Respond (unauthorized r)
          | Inr (Some t) \<Rightarrow> if tk_Revoked t then Respond (unauthorized r)
              else Clock (\<lambda>now. Respond (judge r resource t now)))))"

section \<open>Responses\<close>

datatype response =
    WriteHeader int
  | HttpError int string                          \<comment> \<open>\<open>http.Error\<close>\<close>
  | JSON int fields                               \<comment> \<open>\<open>writeJSON\<close>\<close>
  | Redirect string "(string \<times> string) list"     \<comment> \<open>302 to the URL with these query values set\<close>

definition writeOAuthError :: "int \<Rightarrow> string \<Rightarrow> string \<Rightarrow> response" where
  "writeOAuthError status code description =
     JSON status [(''error'', AStr code), (''error_description'', AStr description)]"

section \<open>Metadata endpoints\<close>

definition handlePRM :: "request \<Rightarrow> response" where
  "handlePRM r = (if q_Method r \<noteq> ''GET'' then WriteHeader 405
     else let issuer = requestOrigin r in JSON 200
       [(''resource'', AStr (CanonicalMCPResource r)),
        (''authorization_servers'', AStrs [issuer]),
        (''scopes_supported'', AStrs [MCPScope]),
        (''bearer_methods_supported'', AStrs [''header'']),
        (''resource_documentation'', AStr (issuer @ ''/mcp''))])"

definition handleASMetadata :: "request \<Rightarrow> response" where
  "handleASMetadata r = (if q_Method r \<noteq> ''GET'' then WriteHeader 405
     else let issuer = requestOrigin r in JSON 200
       [(''issuer'', AStr issuer),
        (''authorization_endpoint'', AStr (issuer @ ''/oauth/authorize'')),
        (''token_endpoint'', AStr (issuer @ ''/oauth/token'')),
        (''revocation_endpoint'', AStr (issuer @ ''/oauth/revoke'')),
        (''code_challenge_methods_supported'', AStrs [''S256'']),
        (''response_types_supported'', AStrs [''code'']),
        (''grant_types_supported'', AStrs [''authorization_code'', ''client_credentials'']),
        (''token_endpoint_auth_methods_supported'', AStrs [''client_secret_basic'', ''client_secret_post'', ''none'']),
        (''authorization_response_iss_parameter_supported'', ABool True),
        (''client_id_metadata_document_supported'', ABool True),
        (''scopes_supported'', AStrs [MCPScope])])"

section \<open>Clients\<close>

definition validNativeRedirect :: "net_env \<Rightarrow> string \<Rightarrow> bool" where
  "validNativeRedirect ne uri = (case ne_url_Parse ne uri of None \<Rightarrow> False
     | Some parsed \<Rightarrow> if u_Scheme parsed = ''https'' then True
         else if u_Scheme parsed = ''http'' \<and> IsLocalHostAddress ne (u_Host parsed) then True else False)"

definition metadata_ip :: IP where
  "metadata_ip = v4_prefix @ [169, 254, 169, 254]"

definition ip_rejected :: "IP \<Rightarrow> bool" where
  "ip_rejected ip \<longleftrightarrow> IsLoopback ip \<or> IsPrivate ip \<or> IsLinkLocalUnicast ip \<or> IsLinkLocalMulticast ip \<or>
     IsUnspecified ip \<or> ip = metadata_ip"

definition rejectSSRF :: "string \<Rightarrow> string option prog" where
  "rejectSSRF host =
     (if host = ''localhost'' \<or> HasSuffix host ''.localhost'' then Respond (Some ''client metadata host is not allowed'')
      else LookupIP host (\<lambda>ips. case ips of
          None \<Rightarrow> Respond (Some ''client metadata host is not resolvable'')
        | Some ips \<Rightarrow> Respond (if list_ex ip_rejected ips then Some ''client metadata host is not allowed'' else None)))"

definition check_metadata :: "net_env \<Rightarrow> string \<Rightarrow> string \<times> string list \<Rightarrow> string + registeredClient" where
  "check_metadata ne clientID doc = (case doc of (doc_ClientID, doc_RedirectURIs) \<Rightarrow>
     if doc_ClientID \<noteq> clientID then Inl ''client_id does not match metadata URL''
     else if doc_RedirectURIs = [] then Inl ''client metadata has no redirect_uris''
     else if list_ex (\<lambda>uri. \<not> validNativeRedirect ne uri) doc_RedirectURIs
       then Inl ''redirect_uri must be localhost or https''
     else Inr \<lparr>cl_ClientID = clientID, cl_SecretHash = [], cl_ClientType = ''public'',
        cl_RedirectURIs = doc_RedirectURIs, cl_MetadataURL = clientID, cl_Confidential = False\<rparr>)"

definition fetchCIMD :: "net_env \<Rightarrow> string \<Rightarrow> (string + registeredClient) prog" where
  "fetchCIMD ne clientID =
     (case ne_url_Parse ne clientID of
        None \<Rightarrow> Respond (Inl ''client_id must be an https metadata URL'')
      | Some parsed \<Rightarrow>
         if u_Scheme parsed \<noteq> ''https'' \<or> u_Host parsed = [] then
           Respond (Inl ''client_id must be an https metadata URL'')
         else bind (rejectSSRF (url_Hostname parsed)) (\<lambda>refusal. case refusal of
             Some e \<Rightarrow> Respond (Inl e)
           | None \<Rightarrow> Fetch clientID (\<lambda>res. case res of
                 FetchFailed e \<Rightarrow> Respond (Inl e)
               | Fetched status body \<Rightarrow>
                   if status \<noteq> 200 then Respond (Inl ''client metadata fetch failed'')
                   else (case body of Inl e \<Rightarrow> Respond (Inl e)
                     | Inr doc \<Rightarrow> Respond (check_metadata ne clientID doc)))))"

definition resolveClient :: "net_env \<Rightarrow> string \<Rightarrow> string \<Rightarrow> (string + registeredClient) prog" where
  "resolveClient ne clientID redirectURI = GetClient clientID (\<lambda>answer. case answer of
       Inl e \<Rightarrow> Respond (Inl e)
     | Inr (Some c) \<Rightarrow>
         if cl_RedirectURIs c \<noteq> [] \<and> \<not> containsString (cl_RedirectURIs c) redirectURI \<and>
            \<not> HasPrefix redirectURI ''http://127.0.0.1'' \<and> \<not> HasPrefix redirectURI ''http://localhost''
         then Respond (Inl ''redirect_uri is not registered'') else Respond (Inr c)
     | Inr None \<Rightarrow>
         if \<not> HasPrefix clientID ''https://'' then Respond (Inl ''unknown client_id'')
         else bind (fetchCIMD ne clientID) (\<lambda>fetched. case fetched of
             Inl e \<Rightarrow> Respond (Inl e)
           | Inr c \<Rightarrow>
               if \<not> containsString (cl_RedirectURIs c) redirectURI then Respond (Inl ''redirect_uri is not registered'')
               else Upsert c (\<lambda>_. Respond (Inr c))))"

section \<open>The authorization endpoint\<close>

definition redirect_with_code :: "net_env \<Rightarrow> request \<Rightarrow> string \<Rightarrow> string \<Rightarrow> string \<Rightarrow> response" where
  "redirect_with_code ne r redirectURI code state = (case ne_url_Parse ne redirectURI of
     None \<Rightarrow> HttpError 400 ''invalid redirect_uri''
   | Some _ \<Rightarrow> Redirect redirectURI ([(''code'', code), (''iss'', requestOrigin r)] @
       (if state \<noteq> [] then [(''state'', state)] else [])))"

definition handleAuthorize :: "net_env \<Rightarrow> request \<Rightarrow> response prog" where
  "handleAuthorize ne r =
     (if q_Method r \<noteq> ''GET'' \<and> q_Method r \<noteq> ''POST'' then Respond (WriteHeader 405)
      else if q_FormError r then Respond (HttpError 400 ''invalid request'')
      else let clientID = TrimSpace (firstForm r ''client_id'');
               redirectURI = TrimSpace (firstForm r ''redirect_uri'');
               resource = TrimSpace (firstForm r ''resource'');
               challenge = TrimSpace (firstForm r ''code_challenge'');
               challenge_method = TrimSpace (firstForm r ''code_challenge_method'');
               state = firstForm r ''state''
       in if firstForm r ''response_type'' \<noteq> ''code'' \<or> clientID = [] \<or> redirectURI = [] \<or> resource = [] \<or>
             challenge = [] \<or> \<not> EqualFold challenge_method ''S256''
          then Respond (HttpError 400 ''invalid_request'')
          else if \<not> validNativeRedirect ne redirectURI then Respond (HttpError 400 ''invalid redirect_uri'')
          else bind (resolveClient ne clientID redirectURI) (\<lambda>resolved. case resolved of
              Inl e \<Rightarrow> Respond (HttpError 400 e)
            | Inr c \<Rightarrow> Rand (\<lambda>raw. case randomCode raw of
                  None \<Rightarrow> Respond (HttpError 500 ''server_error'')
                | Some code \<Rightarrow> Clock (\<lambda>now.
                    SaveCode \<lparr>cc_Code = code, cc_ClientID = cl_ClientID c, cc_Resource = resource,
                      cc_CodeChallenge = challenge, cc_RedirectURI = redirectURI, cc_ExpiresAt = now + authCodeTTL\<rparr>
                    (\<lambda>err. case err of Some _ \<Rightarrow> Respond (HttpError 500 ''server_error'')
                       | None \<Rightarrow> Respond (redirect_with_code ne r redirectURI code state))))))"

section \<open>The token endpoint\<close>

definition writeAccessToken :: "string \<Rightarrow> string \<Rightarrow> response prog" where
  "writeAccessToken clientID resource = Rand (\<lambda>raw. case randomToken raw of
       None \<Rightarrow> Respond (writeOAuthError 500 ''server_error'' ''token mint failed'')
     | Some token \<Rightarrow> Clock (\<lambda>now.
         saveToken \<lparr>tk_Hash = hashToken token, tk_ClientID = clientID, tk_Resource = resource, tk_Scope = MCPScope,
            tk_ExpiresAt = now + accessTokenTTL, tk_Revoked = False\<rparr>
         (\<lambda>err. case err of
            Some _ \<Rightarrow> Respond (writeOAuthError 500 ''server_error'' ''token persist failed'')
          | None \<Rightarrow> Respond (JSON 200 [(''access_token'', AStr token), (''token_type'', AStr ''Bearer''),
              (''expires_in'', AFloat (FNum (of_int accessTokenTTL))), (''scope'', AStr MCPScope),
              (''resource'', AStr resource)]))))"

text \<open>The checks on a consumed code, in their order.\<close>

definition code_mismatch :: "request \<Rightarrow> string \<Rightarrow> string \<Rightarrow> authCode \<Rightarrow> string option" where
  "code_mismatch r clientID resource code =
     (if clientID \<noteq> [] \<and> clientID \<noteq> cc_ClientID code then Some ''client mismatch''
      else if resource \<noteq> [] \<and> resource \<noteq> cc_Resource code then Some ''resource mismatch''
      else if firstForm r ''redirect_uri'' \<noteq> [] \<and> firstForm r ''redirect_uri'' \<noteq> cc_RedirectURI code
        then Some ''redirect_uri mismatch''
      else if s256 (firstForm r ''code_verifier'') \<noteq> cc_CodeChallenge code then Some ''pkce verification failed''
      else None)"

definition issueAuthorizationCodeToken :: "request \<Rightarrow> string \<Rightarrow> string \<Rightarrow> response prog" where
  "issueAuthorizationCodeToken r clientID resource = ConsumeCode (firstForm r ''code'') (\<lambda>consumed. case consumed of
       Inl e \<Rightarrow> Respond (writeOAuthError 400 ''invalid_grant'' e)
     | Inr code \<Rightarrow> (case code_mismatch r clientID resource code of
           Some e \<Rightarrow> Respond (writeOAuthError 400 ''invalid_grant'' e)
         | None \<Rightarrow> writeAccessToken (cc_ClientID code) (cc_Resource code)))"

definition issueClientCredentialsToken :: "string \<Rightarrow> string \<Rightarrow> string \<Rightarrow> response prog" where
  "issueClientCredentialsToken clientID clientSecret resource =
     (if resource = [] \<or> clientID = [] then
        Respond (writeOAuthError 400 ''invalid_request'' ''client_id and resource are required'')
      else GetClient clientID (\<lambda>answer.
        let unknown = Respond (writeOAuthError 401 ''invalid_client'' ''unknown confidential client'') in
        case answer of Inl _ \<Rightarrow> unknown | Inr None \<Rightarrow> unknown
        | Inr (Some c) \<Rightarrow>
           if \<not> cl_Confidential c then unknown
           else if cl_SecretHash c \<noteq> [] \<and> hashToken clientSecret \<noteq> cl_SecretHash c then
             Respond (writeOAuthError 401 ''invalid_client'' ''client authentication failed'')
           else writeAccessToken (cl_ClientID c) resource))"

definition handleToken :: "request \<Rightarrow> response prog" where
  "handleToken r =
     (if q_Method r \<noteq> ''POST'' then Respond (WriteHeader 405)
      else if q_FormError r then Respond (writeOAuthError 400 ''invalid_request'' ''malformed body'')
      else let grant = firstForm r ''grant_type''; resource = TrimSpace (firstForm r ''resource'');
               (clientID, clientSecret) = clientAuth r
       in if grant = ''authorization_code'' then issueAuthorizationCodeToken r clientID resource
          else if grant = ''client_credentials'' then issueClientCredentialsToken clientID clientSecret resource
          else Respond (writeOAuthError 400 ''unsupported_grant_type'' ''use authorization_code or client_credentials''))"

section \<open>Revocation and routes\<close>

definition handleRevoke :: "request \<Rightarrow> response prog" where
  "handleRevoke r =
     (if q_Method r \<noteq> ''POST'' then Respond (WriteHeader 405)
      else let token = firstForm r ''token'' in
        if token \<noteq> [] then RevokeHash (hashToken token) (\<lambda>_. Respond (WriteHeader 200))
        else Respond (WriteHeader 200))"

definition RegisterHTTP :: "net_env \<Rightarrow> Service option \<Rightarrow> string \<Rightarrow> (request \<Rightarrow> response prog) option" where
  "RegisterHTTP ne s path = (case s of None \<Rightarrow> None | Some _ \<Rightarrow>
     if path = ''/.well-known/oauth-protected-resource'' then Some (\<lambda>r. Respond (handlePRM r))
     else if path = ''/.well-known/oauth-protected-resource/mcp'' then Some (\<lambda>r. Respond (handlePRM r))
     else if path = AuthorizationServerMetadataPath then Some (\<lambda>r. Respond (handleASMetadata r))
     else if path = ''/oauth/authorize'' then Some (handleAuthorize ne)
     else if path = ''/oauth/token'' then Some handleToken
     else if path = ''/oauth/revoke'' then Some handleRevoke
     else None)"

end
