(* ===== verification/Authz_Laws.thy ===== *)
theory Authz_Laws
  imports Authz
begin

text \<open>
  What the authorization server promises over whole histories. Requests arrive in any number and are
  served at once: a step lets one of them ask its next question. The log keeps every question with its
  answer, so it tells where a code or a token comes from.
\<close>

section \<open>Serving requests side by side\<close>

datatype endpoint = ToMCP | ToAuthorize | ToToken | ToRevoke

definition serve :: "net_env \<Rightarrow> Service \<Rightarrow> endpoint \<times> request \<Rightarrow> (Decision + response) prog" where
  "serve ne sv er = (case er of (e, r) \<Rightarrow> (case e of
       ToMCP \<Rightarrow> bind (Authorize ne (Some sv) r) (\<lambda>d. Respond (Inl d))
     | ToAuthorize \<Rightarrow> bind (handleAuthorize ne r) (\<lambda>x. Respond (Inr x))
     | ToToken \<Rightarrow> bind (handleToken r) (\<lambda>x. Respond (Inr x))
     | ToRevoke \<Rightarrow> bind (handleRevoke r) (\<lambda>x. Respond (Inr x))))"

record server =
  se_tables :: TokenStore
  se_pool :: "((endpoint \<times> request) \<times> (Decision + response) prog) list"
  se_log :: "(nat \<times> event) list"

text \<open>The tables at the start hold clients, and no code or token.\<close>

inductive served :: "net_env \<Rightarrow> Service \<Rightarrow> server \<Rightarrow> bool" for ne sv where
  start: "az_codes tables = [] \<Longrightarrow> az_tokens tables = [] \<Longrightarrow>
    served ne sv \<lparr>se_tables = tables, se_pool = [], se_log = []\<rparr>"
| arrive: "served ne sv s \<Longrightarrow> served ne sv (s\<lparr>se_pool := se_pool s @ [(er, serve ne sv er)]\<rparr>)"
| question: "served ne sv s \<Longrightarrow> i < length (se_pool s) \<Longrightarrow> se_pool s ! i = (er, p) \<Longrightarrow>
    ask w p (se_tables s) = Some (ev, tables) \<Longrightarrow> resume p ev = Some q \<Longrightarrow>
    served ne sv \<lparr>se_tables = tables, se_pool = (se_pool s)[i := (er, q)], se_log = se_log s @ [(i, ev)]\<rparr>"

definition events_of :: "nat \<Rightarrow> (nat \<times> event) list \<Rightarrow> event list" where
  "events_of i evs = map snd (filter (\<lambda>x. fst x = i) evs)"

lemma events_of_simps [simp]:
  "events_of i [] = []"
  "events_of i (es @ fs) = events_of i es @ events_of i fs"
  "events_of i ((j, ev) # es) = (if j = i then ev # events_of i es else events_of i es)"
  by (auto simp: events_of_def)

lemma events_of_in: "ev \<in> set (events_of i es) \<longleftrightarrow> (i, ev) \<in> set es"
  by (force simp: events_of_def)

subsection \<open>The log is the history of each request\<close>

definition pool_ok :: "net_env \<Rightarrow> Service \<Rightarrow> server \<Rightarrow> bool" where
  "pool_ok ne sv s \<longleftrightarrow> (\<forall>(j, ev) \<in> set (se_log s). j < length (se_pool s)) \<and>
     (\<forall>i < length (se_pool s). replay (serve ne sv (fst (se_pool s ! i))) (events_of i (se_log s)) =
        Some (snd (se_pool s ! i)))"

lemma events_of_none: "\<forall>(j, ev) \<in> set es. j < i \<Longrightarrow> events_of i es = []"
  by (force simp: events_of_def filter_empty_conv)

lemma served_pool: "served ne sv s \<Longrightarrow> pool_ok ne sv s"
proof (induction rule: served.induct)
  case (start tables)
  then show ?case by (simp add: pool_ok_def)
next
  case (arrive s er)
  then show ?case
    by (auto simp: pool_ok_def nth_append less_Suc_eq events_of_none dest!: bspec)
next
  case (question s i er p w ev tables q)
  then show ?case
    by (auto simp: pool_ok_def nth_list_update replay_append dest: less_le_trans)
qed

lemma served_replay:
  "served ne sv s \<Longrightarrow> i < length (se_pool s) \<Longrightarrow> se_pool s ! i = (er, p) \<Longrightarrow>
    replay (serve ne sv er) (events_of i (se_log s)) = Some p"
  using served_pool unfolding pool_ok_def by fastforce

lemma served_pool_has: "served ne sv s \<Longrightarrow> (j, ev) \<in> set (se_log s) \<Longrightarrow> j < length (se_pool s)"
  using served_pool unfolding pool_ok_def by fastforce

section \<open>Codes\<close>

definition uses :: "string \<Rightarrow> (nat \<times> event) list \<Rightarrow> nat" where
  "uses v evs = length (filter (\<lambda>(i, ev). \<exists>c. ev = EvConsume v (Inr c)) evs)"

lemma uses_simps [simp]:
  "uses v [] = 0"
  "uses v (es @ [(i, ev)]) = uses v es + (if \<exists>c. ev = EvConsume v (Inr c) then 1 else 0)"
  by (auto simp: uses_def)

definition code_fact :: "(nat \<times> event) list \<Rightarrow> string \<Rightarrow> (authCode \<times> bool) option \<Rightarrow> bool" where
  "code_fact evs v entry \<longleftrightarrow> (case entry of
       None \<Rightarrow> uses v evs = 0
     | Some (c, used) \<Rightarrow> uses v evs = (if used then 1 else 0) \<and> cc_Code c = v \<and>
         (\<exists>i. (i, EvSaveCode c None) \<in> set evs))"

definition codes_ok :: "server \<Rightarrow> bool" where
  "codes_ok s \<longleftrightarrow> (\<forall>v. code_fact (se_log s) v (gomap_get (az_codes (se_tables s)) v))"

text \<open>What a question does to the codes: nothing, but for a code saved or consumed.\<close>

lemma saveCode_cases: "saveCode fl c s = (s', e) \<Longrightarrow>
    (e = None \<and> gomap_get (az_codes s) (cc_Code c) = None \<and>
       az_codes s' = gomap_put (cc_Code c) (c, False) (az_codes s) \<and> az_tokens s' = az_tokens s)
    \<or> s' = s"
  by (cases "db_saveCode fl"; cases "gomap_get (az_codes s) (cc_Code c)") (auto simp: saveCode_def)

lemma upsertClient_keeps:
  "upsertClient fl c s = (s', e) \<Longrightarrow> az_codes s' = az_codes s \<and> az_tokens s' = az_tokens s"
  by (auto simp: upsertClient_def split: option.splits)

lemma insertToken_keeps: "insertToken fl t s = (s', e) \<Longrightarrow> az_codes s' = az_codes s"
  by (auto simp: insertToken_def split: option.splits if_splits)

lemma pruneTokens_cases: "pruneTokens fl u s = (s', e) \<Longrightarrow>
    az_codes s' = az_codes s \<and> (\<exists>P. az_tokens s' = filter P (az_tokens s))"
  by (auto simp: pruneTokens_def split: option.splits intro: exI [of _ "\<lambda>_. True"])

lemma revokeHash_keeps: "revokeHash fl h s = (s', e) \<Longrightarrow> az_codes s' = az_codes s"
  by (auto simp: revokeHash_def split: option.splits)

lemma consumeCode_cases: "consumeCode fl now v s = (s', a) \<Longrightarrow>
    (\<exists>c. a = Inr c \<and> gomap_get (az_codes s) v = Some (c, False) \<and>
       az_codes s' = gomap_put v (c, True) (az_codes s) \<and> az_tokens s' = az_tokens s)
    \<or> (isl a \<and> s' = s)"
  by (auto simp: consumeCode_def split: option.splits if_splits)

lemma ask_event: "ask w p s = Some (ev, s') \<Longrightarrow> (case ev of
     EvUpsert c e \<Rightarrow> upsertClient (ou_faults w) c s = (s', e)
   | EvSaveCode c e \<Rightarrow> saveCode (ou_faults w) c s = (s', e)
   | EvConsume v a \<Rightarrow> consumeCode (ou_faults w) (ou_now w) v s = (s', a)
   | EvSaveToken t e \<Rightarrow> insertToken (ou_faults w) t s = (s', e)
   | EvPrune u e \<Rightarrow> pruneTokens (ou_faults w) u s = (s', e)
   | EvRevoke h e \<Rightarrow> revokeHash (ou_faults w) h s = (s', e)
   | EvClient i a \<Rightarrow> s' = s \<and> a = client (ou_faults w) i s
   | EvToken h a \<Rightarrow> s' = s \<and> a = tokenByHash (ou_faults w) h s
   | _ \<Rightarrow> s' = s)"
  by (cases p) (auto split: prod.splits)

lemma ask_codes:
  assumes "ask w p s = Some (ev, s')"
  obtains
    (saved) c where "ev = EvSaveCode c None" "gomap_get (az_codes s) (cc_Code c) = None"
      "az_codes s' = gomap_put (cc_Code c) (c, False) (az_codes s)"
  | (consumed) v c where "ev = EvConsume v (Inr c)" "gomap_get (az_codes s) v = Some (c, False)"
      "az_codes s' = gomap_put v (c, True) (az_codes s)"
  | (other) "az_codes s' = az_codes s" "\<forall>v c. ev \<noteq> EvConsume v (Inr c)"
proof -
  note e = ask_event [OF assms]
  show ?thesis
  proof (cases ev)
    case (EvUpsert c err)
    with e upsertClient_keeps show ?thesis by (intro other) auto
  next
    case (EvSaveCode c err)
    with e have "saveCode (ou_faults w) c s = (s', err)" by simp
    from saveCode_cases [OF this] show ?thesis
    proof (elim disjE conjE)
      assume "err = None" "gomap_get (az_codes s) (cc_Code c) = None"
        "az_codes s' = gomap_put (cc_Code c) (c, False) (az_codes s)"
      with EvSaveCode show ?thesis by (intro saved) auto
    next
      assume "s' = s"
      with EvSaveCode show ?thesis by (intro other) auto
    qed
  next
    case (EvConsume v a)
    with e have "consumeCode (ou_faults w) (ou_now w) v s = (s', a)" by simp
    from consumeCode_cases [OF this] show ?thesis
    proof (elim disjE exE conjE)
      fix c assume "a = Inr c" "gomap_get (az_codes s) v = Some (c, False)"
        "az_codes s' = gomap_put v (c, True) (az_codes s)"
      with EvConsume show ?thesis by (intro consumed) auto
    next
      assume "isl a" "s' = s"
      with EvConsume show ?thesis by (intro other) (auto simp: isl_def)
    qed
  next
    case (EvSaveToken t err)
    with e insertToken_keeps show ?thesis by (intro other) auto
  next
    case (EvPrune u err)
    with e have "pruneTokens (ou_faults w) u s = (s', err)" by simp
    with EvPrune show ?thesis using pruneTokens_cases by (intro other) blast+
  next
    case (EvRevoke h err)
    with e revokeHash_keeps show ?thesis by (intro other) auto
  qed (rule other, use e in \<open>simp\<close>, simp)+
qed

lemma code_fact_later:
  "code_fact es v e \<Longrightarrow> \<forall>c. ev \<noteq> EvConsume v (Inr c) \<Longrightarrow> code_fact (es @ [(i, ev)]) v e"
  by (auto simp: code_fact_def split: option.splits)

lemma code_fact_saved: "code_fact es (cc_Code c) None \<Longrightarrow>
    code_fact (es @ [(i, EvSaveCode c None)]) (cc_Code c) (Some (c, False))"
  by (auto simp: code_fact_def)

lemma code_fact_consumed: "code_fact es v (Some (c, False)) \<Longrightarrow>
    code_fact (es @ [(i, EvConsume v (Inr c))]) v (Some (c, True))"
  by (auto simp: code_fact_def)

lemma codes_ok_step:
  assumes "codes_ok s" "ask w p (se_tables s) = Some (ev, tables)"
  shows "codes_ok \<lparr>se_tables = tables, se_pool = pool, se_log = se_log s @ [(i, ev)]\<rparr>"
proof -
  have *: "code_fact (se_log s) v (gomap_get (az_codes (se_tables s)) v)" for v
    using assms(1) by (simp add: codes_ok_def)
  from assms(2) show ?thesis
  proof (cases rule: ask_codes)
    case (saved c)
    then show ?thesis
      using code_fact_saved[of "se_log s" c i] *[of "cc_Code c"]
      by (auto simp: codes_ok_def intro: code_fact_later *)
  next
    case (consumed v c)
    then show ?thesis
      using code_fact_consumed[of "se_log s" v c i] *[of v]
      by (auto simp: codes_ok_def intro: code_fact_later *)
  next
    case other
    then show ?thesis by (simp add: codes_ok_def code_fact_later *)
  qed
qed

lemma served_codes: "served ne sv s \<Longrightarrow> codes_ok s"
proof (induction rule: served.induct)
  case (question s i er p w ev tables q)
  then show ?case by (simp add: codes_ok_step)
qed (auto simp: codes_ok_def code_fact_def)

section \<open>Tokens\<close>

text \<open>A stored token goes back to the request that saved it; one that is not revoked has not been the
  subject of a revocation since.\<close>

definition token_fact :: "(nat \<times> event) list \<Rightarrow> string \<Rightarrow> issuedToken \<Rightarrow> bool" where
  "token_fact evs h t \<longleftrightarrow> (\<exists>a i t0 b. evs = a @ (i, EvSaveToken t0 None) # b \<and> tk_Hash t0 = h \<and>
     t = t0\<lparr>tk_Revoked := tk_Revoked t\<rparr> \<and> (\<not> tk_Revoked t \<longrightarrow> (\<forall>j. (j, EvRevoke h None) \<notin> set b)))"

definition tokens_ok :: "server \<Rightarrow> bool" where
  "tokens_ok s \<longleftrightarrow> wf_gomap (az_tokens (se_tables s)) \<and>
     (\<forall>h t. gomap_get (az_tokens (se_tables s)) h = Some t \<longrightarrow> token_fact (se_log s) h t)"

lemma token_fact_later:
  assumes "token_fact es h t" "ev \<noteq> EvRevoke h None"
  shows "token_fact (es @ [(i, ev)]) h t"
proof -
  obtain a j t0 b where "es = a @ (j, EvSaveToken t0 None) # b" "tk_Hash t0 = h"
    "t = t0\<lparr>tk_Revoked := tk_Revoked t\<rparr>" "\<not> tk_Revoked t \<longrightarrow> (\<forall>j. (j, EvRevoke h None) \<notin> set b)"
    using assms(1) by (auto simp: token_fact_def)
  then show ?thesis
    unfolding token_fact_def using assms(2)
    by (intro exI[of _ a] exI[of _ j] exI[of _ t0] exI[of _ "b @ [(i, ev)]"]) auto
qed

lemma token_fact_revoked:
  assumes "token_fact es h t"
  shows "token_fact (es @ [(i, ev)]) h (t\<lparr>tk_Revoked := True\<rparr>)"
proof -
  obtain a j t0 b where "es = a @ (j, EvSaveToken t0 None) # b" "tk_Hash t0 = h"
    "t = t0\<lparr>tk_Revoked := tk_Revoked t\<rparr>"
    using assms by (auto simp: token_fact_def)
  moreover from this have "t\<lparr>tk_Revoked := True\<rparr> = t0\<lparr>tk_Revoked := True\<rparr>"
    by (metis issuedToken.update_convs(6) issuedToken.surjective)
  ultimately show ?thesis
    unfolding token_fact_def
    by (intro exI[of _ a] exI[of _ j] exI[of _ t0] exI[of _ "b @ [(i, ev)]"]) auto
qed

lemma token_fact_saved: "token_fact (es @ [(i, EvSaveToken t None)]) (tk_Hash t) t"
  unfolding token_fact_def
  by (intro exI[of _ es] exI[of _ i] exI[of _ t] exI[of _ "[]"]) auto

lemma get_map_values:
  "gomap_get (map (\<lambda>(k, v). (k, if k = h then f v else v)) m) k =
     map_option (\<lambda>v. if k = h then f v else v) (gomap_get m k)"
  by (induction m) auto

lemma wf_map_values: "wf_gomap m \<Longrightarrow> wf_gomap (map (\<lambda>(k, v). (k, if k = h then f v else v)) m)"
  by (simp add: wf_gomap_def comp_def case_prod_beta)

lemma insertToken_cases: "insertToken fl t s = (s', e) \<Longrightarrow>
    (e = None \<and> az_tokens s' = gomap_put (tk_Hash t) t (az_tokens s)) \<or> s' = s"
  by (cases "db_saveToken fl"; cases "gomap_get (az_tokens s) (tk_Hash t)") (auto simp: insertToken_def)

lemma gomap_get_filter_some: "wf_gomap m \<Longrightarrow> gomap_get (filter P m) h = Some u \<Longrightarrow> gomap_get m h = Some u"
  using gomap_get_in [of "filter P m" h u] gomap_get_in [of m h u] by auto

lemma ask_tokens:
  assumes "ask w p s = Some (ev, s')" "wf_gomap (az_tokens s)"
  obtains
    (saved) t where "ev = EvSaveToken t None" "wf_gomap (az_tokens s')"
      "\<And>h u. gomap_get (az_tokens s') h = Some u \<Longrightarrow> (h = tk_Hash t \<and> u = t) \<or> gomap_get (az_tokens s) h = Some u"
  | (revoked) h where "ev = EvRevoke h None"
      "az_tokens s' = map (\<lambda>(k, t). (k, if k = h then t\<lparr>tk_Revoked := True\<rparr> else t)) (az_tokens s)"
  | (pruned) u err P where "ev = EvPrune u err" "az_tokens s' = filter P (az_tokens s)"
  | (other) "az_tokens s' = az_tokens s" "\<forall>h. ev \<noteq> EvRevoke h None"
proof -
  note e = ask_event [OF assms(1)]
  show ?thesis
  proof (cases ev)
    case (EvUpsert c err)
    with e upsertClient_keeps show ?thesis by (intro other) auto
  next
    case (EvSaveCode c err)
    with e have "saveCode (ou_faults w) c s = (s', err)" by simp
    with EvSaveCode show ?thesis using saveCode_cases by (intro other) blast+
  next
    case (EvConsume v a)
    with e have "consumeCode (ou_faults w) (ou_now w) v s = (s', a)" by simp
    with EvConsume show ?thesis using consumeCode_cases by (intro other) blast+
  next
    case (EvSaveToken t err)
    with e have "insertToken (ou_faults w) t s = (s', err)" by simp
    then consider "err = None" "az_tokens s' = gomap_put (tk_Hash t) t (az_tokens s)" | "s' = s"
      using insertToken_cases by blast
    then show ?thesis
    proof cases
      case 1
      then have "gomap_get (az_tokens s') h = Some u \<Longrightarrow> (h = tk_Hash t \<and> u = t) \<or> gomap_get (az_tokens s) h = Some u" for h u
        by (auto split: if_splits)
      with 1 assms(2) EvSaveToken show ?thesis by (intro saved) auto
    next
      case 2
      with EvSaveToken show ?thesis by (intro other) auto
    qed
  next
    case (EvPrune u err)
    with e have "pruneTokens (ou_faults w) u s = (s', err)" by simp
    with EvPrune show ?thesis using pruneTokens_cases pruned by blast
  next
    case (EvRevoke h err)
    with e have "revokeHash (ou_faults w) h s = (s', err)" by simp
    then show ?thesis
      using EvRevoke revoked other by (cases err) (auto simp: revokeHash_def split: option.splits)
  qed (rule other, use e in \<open>simp\<close>, simp)+
qed

lemma tokens_ok_step:
  assumes "tokens_ok s" "ask w p (se_tables s) = Some (ev, tables)"
  shows "tokens_ok \<lparr>se_tables = tables, se_pool = pool, se_log = se_log s @ [(i, ev)]\<rparr>"
proof -
  have wf: "wf_gomap (az_tokens (se_tables s))"
    and *: "\<And>h t. gomap_get (az_tokens (se_tables s)) h = Some t \<Longrightarrow> token_fact (se_log s) h t"
    using assms(1) by (auto simp: tokens_ok_def)
  from assms(2) wf show ?thesis
  proof (cases rule: ask_tokens)
    case (saved t)
    have "token_fact (se_log s @ [(i, ev)]) h u" if "gomap_get (az_tokens tables) h = Some u" for h u
      using saved(3) [OF that] * token_fact_saved token_fact_later saved(1) by blast
    with saved(2) show ?thesis by (simp add: tokens_ok_def)
  next
    case (revoked h)
    have "token_fact (se_log s @ [(i, ev)]) k u" if get: "gomap_get (az_tokens tables) k = Some u" for k u
    proof -
      obtain v where v: "gomap_get (az_tokens (se_tables s)) k = Some v"
        "u = (if k = h then v\<lparr>tk_Revoked := True\<rparr> else v)"
        using get revoked(2) by (auto simp: get_map_values)
      show ?thesis
      proof (cases "k = h")
        case True
        then show ?thesis using token_fact_revoked [OF * [OF v(1)]] v(2) by simp
      next
        case False
        then show ?thesis using token_fact_later [OF * [OF v(1)]] v(2) revoked(1) by auto
      qed
    qed
    then show ?thesis
      using wf revoked(2) by (simp add: tokens_ok_def wf_map_values)
  next
    case (pruned u err P)
    then show ?thesis using wf * token_fact_later gomap_get_filter_some [OF wf] by (simp add: tokens_ok_def)
  next
    case other
    with wf * show ?thesis by (simp add: tokens_ok_def token_fact_later)
  qed
qed

lemma served_tokens: "served ne sv s \<Longrightarrow> tokens_ok s"
proof (induction rule: served.induct)
  case (question s i er p w ev tables q)
  then show ?case by (simp add: tokens_ok_step)
qed (auto simp: tokens_ok_def)

end
