(* ===== verification/Authz_Grants.thy ===== *)
theory Authz_Grants
  imports Authz_Laws
begin

text \<open>
  Where an authorization comes from: a request admitted to the MCP endpoint with a token is traced
  through the log to the token request that was granted it, and from an authorization code to the
  authorization request that was given the code.
\<close>

section \<open>Reading a history\<close>

lemma replay_iff:
  "replay (Respond a) es = Some q \<longleftrightarrow> es = [] \<and> q = Respond a"
  "replay (Clock k1) es = Some q \<longleftrightarrow> (es = [] \<and> q = Clock k1) \<or> (\<exists>x fs. es = EvClock x # fs \<and> replay (k1 x) fs = Some q)"
  "replay (Rand k2) es = Some q \<longleftrightarrow> (es = [] \<and> q = Rand k2) \<or> (\<exists>x fs. es = EvRand x # fs \<and> replay (k2 x) fs = Some q)"
  "replay (LookupIP h k3) es = Some q \<longleftrightarrow> (es = [] \<and> q = LookupIP h k3) \<or>
     (\<exists>x fs. es = EvLookup h x # fs \<and> replay (k3 x) fs = Some q)"
  "replay (Fetch u k4) es = Some q \<longleftrightarrow> (es = [] \<and> q = Fetch u k4) \<or>
     (\<exists>x fs. es = EvFetch u x # fs \<and> replay (k4 x) fs = Some q)"
  "replay (Upsert c k5) es = Some q \<longleftrightarrow> (es = [] \<and> q = Upsert c k5) \<or>
     (\<exists>x fs. es = EvUpsert c x # fs \<and> replay (k5 x) fs = Some q)"
  "replay (GetClient i k6) es = Some q \<longleftrightarrow> (es = [] \<and> q = GetClient i k6) \<or>
     (\<exists>x fs. es = EvClient i x # fs \<and> replay (k6 x) fs = Some q)"
  "replay (SaveCode d k7) es = Some q \<longleftrightarrow> (es = [] \<and> q = SaveCode d k7) \<or>
     (\<exists>x fs. es = EvSaveCode d x # fs \<and> replay (k7 x) fs = Some q)"
  "replay (ConsumeCode v k8) es = Some q \<longleftrightarrow> (es = [] \<and> q = ConsumeCode v k8) \<or>
     (\<exists>x fs. es = EvConsume v x # fs \<and> replay (k8 x) fs = Some q)"
  "replay (SaveToken t k9) es = Some q \<longleftrightarrow> (es = [] \<and> q = SaveToken t k9) \<or>
     (\<exists>x fs. es = EvSaveToken t x # fs \<and> replay (k9 x) fs = Some q)"
  "replay (PruneTokens n kc) es = Some q \<longleftrightarrow> (es = [] \<and> q = PruneTokens n kc) \<or>
     (\<exists>x fs. es = EvPrune n x # fs \<and> replay (kc x) fs = Some q)"
  "replay (TokenByHash h ka) es = Some q \<longleftrightarrow> (es = [] \<and> q = TokenByHash h ka) \<or>
     (\<exists>x fs. es = EvToken h x # fs \<and> replay (ka x) fs = Some q)"
  "replay (RevokeHash h kb) es = Some q \<longleftrightarrow> (es = [] \<and> q = RevokeHash h kb) \<or>
     (\<exists>x fs. es = EvRevoke h x # fs \<and> replay (kb x) fs = Some q)"
  by (cases es; (simp split: option.splits event.splits add: same_def)?; fastforce)+

text \<open>A history of a program followed by another is a history of the first, and then one of the second.\<close>

lemma replay_bind:
  "replay (bind p f) es = Some q \<Longrightarrow>
    (\<exists>p'. replay p es = Some p' \<and> q = bind p' f) \<or>
    (\<exists>es1 es2 a. es = es1 @ es2 \<and> replay p es1 = Some (Respond a) \<and> replay (f a) es2 = Some q)"
proof (induction es arbitrary: p)
  case Nil
  then show ?case by auto
next
  case (Cons e es)
  show ?case
  proof (cases "resume p e")
    case None
    then have "\<exists>a. p = Respond a"
      using Cons.prems by (cases p) (auto simp: same_def split: event.splits option.splits if_splits)
    then obtain a where "p = Respond a" ..
    then show ?thesis using Cons.prems by (intro disjI2 exI[of _ "[]"] exI[of _ "e # es"] exI[of _ a]) simp
  next
    case (Some p1)
    then have "resume (bind p f) e = Some (bind p1 f)"
      by (cases p) (auto simp: same_def split: event.splits if_splits)
    then have "replay (bind p1 f) es = Some q" using Cons.prems by simp
    from Cons.IH [OF this] show ?thesis
    proof (elim disjE exE conjE)
      fix p' assume "replay p1 es = Some p'" "q = bind p' f"
      then show ?thesis using Some by auto
    next
      fix es1 es2 a assume "es = es1 @ es2" "replay p1 es1 = Some (Respond a)" "replay (f a) es2 = Some q"
      then show ?thesis using Some by (intro disjI2 exI[of _ "e # es1"] exI[of _ es2] exI[of _ a]) auto
    qed
  qed
qed

text \<open>Every entry of the log was written by a step of the run before it.\<close>

lemma served_step_at:
  assumes "served ne sv s" "se_log s = a @ (i, ev) # b"
  shows "\<exists>s0 er p w tables q. served ne sv s0 \<and> se_log s0 = a \<and> i < length (se_pool s0) \<and>
    se_pool s0 ! i = (er, p) \<and> ask w p (se_tables s0) = Some (ev, tables) \<and> resume p ev = Some q \<and>
    i < length (se_pool s) \<and> fst (se_pool s ! i) = er"
  using assms
proof (induction arbitrary: b rule: served.induct)
  case (start tables)
  then show ?case by simp
next
  case (arrive s er)
  from arrive.IH [of b] arrive.prems show ?case by (fastforce simp: nth_append)
next
  case (question s j er p w ev' tables q)
  show ?case
  proof (cases b rule: rev_cases)
    case Nil
    with question show ?thesis by fastforce
  next
    case (snoc b' x)
    with question.prems have "se_log s = a @ (i, ev) # b'" by simp
    from question.IH [OF this] question.hyps show ?thesis
      by (fastforce simp: nth_list_update)
  qed
qed

section \<open>What a handler may ask\<close>

primrec only :: "(event \<Rightarrow> bool) \<Rightarrow> 'a prog \<Rightarrow> bool" where
  "only P (Respond a) \<longleftrightarrow> True"
| "only P (Clock k) \<longleftrightarrow> (\<forall>x. P (EvClock x) \<and> only P (k x))"
| "only P (Rand k) \<longleftrightarrow> (\<forall>x. P (EvRand x) \<and> only P (k x))"
| "only P (LookupIP h k) \<longleftrightarrow> (\<forall>x. P (EvLookup h x) \<and> only P (k x))"
| "only P (Fetch u k) \<longleftrightarrow> (\<forall>x. P (EvFetch u x) \<and> only P (k x))"
| "only P (Upsert c k) \<longleftrightarrow> (\<forall>x. P (EvUpsert c x) \<and> only P (k x))"
| "only P (GetClient i k) \<longleftrightarrow> (\<forall>x. P (EvClient i x) \<and> only P (k x))"
| "only P (SaveCode c k) \<longleftrightarrow> (\<forall>x. P (EvSaveCode c x) \<and> only P (k x))"
| "only P (ConsumeCode v k) \<longleftrightarrow> (\<forall>x. P (EvConsume v x) \<and> only P (k x))"
| "only P (SaveToken t k) \<longleftrightarrow> (\<forall>x. P (EvSaveToken t x) \<and> only P (k x))"
| "only P (PruneTokens u k) \<longleftrightarrow> (\<forall>x. P (EvPrune u x) \<and> only P (k x))"
| "only P (TokenByHash h k) \<longleftrightarrow> (\<forall>x. P (EvToken h x) \<and> only P (k x))"
| "only P (RevokeHash h k) \<longleftrightarrow> (\<forall>x. P (EvRevoke h x) \<and> only P (k x))"

lemma only_bind: "only P p \<Longrightarrow> (\<And>a. only P (f a)) \<Longrightarrow> only P (bind p f)"
  by (induction p) auto

lemma only_resume: "only P p \<Longrightarrow> resume p e = Some q \<Longrightarrow> P e \<and> only P q"
  by (cases p) (auto simp: same_def split: event.splits if_splits)

lemma only_replay: "only P p \<Longrightarrow> replay p es = Some q \<Longrightarrow> \<forall>e \<in> set es. P e"
  by (induction es arbitrary: p) (auto dest: only_resume split: option.splits)

lemmas handler_defs = serve_def Authorize_def handleAuthorize_def handleToken_def handleRevoke_def
  issueAuthorizationCodeToken_def issueClientCredentialsToken_def writeAccessToken_def saveToken_def

subsection \<open>Saving a token\<close>

definition saves_token :: "event \<Rightarrow> bool" where
  "saves_token ev \<longleftrightarrow> (case ev of EvSaveToken _ _ \<Rightarrow> True | _ \<Rightarrow> False)"

lemma resolveClient_only:
  assumes "\<And>i x. P (EvClient i x)" "\<And>h x. P (EvLookup h x)" "\<And>u x. P (EvFetch u x)" "\<And>c x. P (EvUpsert c x)"
  shows "only P (resolveClient ne i u)"
proof -
  have "only P (fetchCIMD ne i)"
    using assms(2,3) unfolding fetchCIMD_def rejectSSRF_def
    by (auto intro!: only_bind split: option.splits metadata_answer.splits sum.splits)
  with assms(1,4) show ?thesis
    unfolding resolveClient_def by (auto intro!: only_bind split: sum.splits option.splits)
qed

text \<open>What the code that an authorization request saves says of that request.\<close>

definition code_of :: "net_env \<Rightarrow> request \<Rightarrow> authCode \<Rightarrow> bool" where
  "code_of ne r c \<longleftrightarrow> cc_Resource c = TrimSpace (firstForm r ''resource'') \<and>
     cc_CodeChallenge c = TrimSpace (firstForm r ''code_challenge'') \<and> cc_CodeChallenge c \<noteq> [] \<and>
     cc_RedirectURI c = TrimSpace (firstForm r ''redirect_uri'') \<and> validNativeRedirect ne (cc_RedirectURI c)"

definition authorize_event :: "net_env \<Rightarrow> request \<Rightarrow> event \<Rightarrow> bool" where
  "authorize_event ne r ev \<longleftrightarrow> (case ev of EvSaveCode c _ \<Rightarrow> code_of ne r c | EvSaveToken _ _ \<Rightarrow> False
     | EvRevoke _ _ \<Rightarrow> False | EvConsume _ _ \<Rightarrow> False | _ \<Rightarrow> True)"

lemma handleAuthorize_only: "only (authorize_event ne r) (handleAuthorize ne r)"
  unfolding handleAuthorize_def Let_def
  by (auto intro!: only_bind resolveClient_only simp: authorize_event_def code_of_def
      split: sum.splits option.splits)

lemma only_endpoints:
  "only (\<lambda>ev. \<not> saves_token ev \<and> (\<forall>c x. ev \<noteq> EvSaveCode c x)) (serve ne sv (ToMCP, r))"
  "only (\<lambda>ev. \<not> saves_token ev \<and> (\<forall>c x. ev \<noteq> EvSaveCode c x)) (serve ne sv (ToRevoke, r))"
  "only (\<lambda>ev. \<forall>c x. ev \<noteq> EvSaveCode c x) (serve ne sv (ToToken, r))"
  "only (authorize_event ne r) (serve ne sv (ToAuthorize, r))"
  unfolding serve_def prod.case endpoint.case
  by (rule only_bind; auto simp: Authorize_def handleRevoke_def handleToken_def issueAuthorizationCodeToken_def
      issueClientCredentialsToken_def writeAccessToken_def saveToken_def saves_token_def Let_def handleAuthorize_only
      split: option.splits sum.splits prod.splits)+

section \<open>Grants\<close>

text \<open>The grounds on which the token endpoint saves a token, read off the request and its history.\<close>

definition granted :: "request \<Rightarrow> event list \<Rightarrow> issuedToken \<Rightarrow> bool" where
  "granted r es t \<longleftrightarrow> \<not> tk_Revoked t \<and> tk_Scope t = MCPScope \<and>
    ((firstForm r ''grant_type'' = ''authorization_code'' \<and>
       (\<exists>c. EvConsume (firstForm r ''code'') (Inr c) \<in> set es \<and>
          s256 (firstForm r ''code_verifier'') = cc_CodeChallenge c \<and>
          fst (clientAuth r) \<in> {[], cc_ClientID c} \<and> firstForm r ''redirect_uri'' \<in> {[], cc_RedirectURI c} \<and>
          tk_ClientID t = cc_ClientID c \<and> tk_Resource t = cc_Resource c)) \<or>
     (firstForm r ''grant_type'' = ''client_credentials'' \<and>
       (\<exists>c. EvClient (fst (clientAuth r)) (Inr (Some c)) \<in> set es \<and> cl_Confidential c \<and>
          (cl_SecretHash c = [] \<or> hashToken (snd (clientAuth r)) = cl_SecretHash c) \<and>
          tk_ClientID t = cl_ClientID c \<and> tk_Resource t = TrimSpace (firstForm r ''resource''))))"

lemma writeAccessToken_saves:
  "replay (writeAccessToken i u) (es @ [EvSaveToken t x]) = Some q \<Longrightarrow>
    tk_ClientID t = i \<and> tk_Resource t = u \<and> tk_Scope t = MCPScope \<and> \<not> tk_Revoked t"
  unfolding writeAccessToken_def saveToken_def
  by (auto simp: replay_iff Cons_eq_append_conv append_eq_Cons_conv split: option.splits)

lemma handleToken_saves:
  assumes "replay (handleToken r) (es @ [EvSaveToken t x]) = Some q"
  shows "granted r es t"
proof -
  obtain i secret where auth: "clientAuth r = (i, secret)" by fastforce
  have post: "q_Method r = ''POST'' \<and> \<not> q_FormError r"
    using assms by (auto simp: handleToken_def replay_iff split: if_splits)
  note handler = assms [unfolded handleToken_def Let_def auth prod.case]
  show ?thesis
  proof (cases "firstForm r ''grant_type'' = ''authorization_code''")
    case True
    with handler post
    have "replay (issueAuthorizationCodeToken r i (TrimSpace (firstForm r ''resource''))) (es @ [EvSaveToken t x]) = Some q"
      by simp
    then obtain a fs where a: "es @ [EvSaveToken t x] = EvConsume (firstForm r ''code'') a # fs"
      "replay (case a of Inl e \<Rightarrow> Respond (writeOAuthError 400 ''invalid_grant'' e)
         | Inr c \<Rightarrow> (case code_mismatch r i (TrimSpace (firstForm r ''resource'')) c of
             Some e \<Rightarrow> Respond (writeOAuthError 400 ''invalid_grant'' e)
           | None \<Rightarrow> writeAccessToken (cc_ClientID c) (cc_Resource c))) fs = Some q"
      unfolding issueAuthorizationCodeToken_def replay_iff by auto
    then obtain es' where es: "es = EvConsume (firstForm r ''code'') a # es'" "fs = es' @ [EvSaveToken t x]"
      by (cases es) auto
    obtain c where c: "a = Inr c" "code_mismatch r i (TrimSpace (firstForm r ''resource'')) c = None"
      "replay (writeAccessToken (cc_ClientID c) (cc_Resource c)) (es' @ [EvSaveToken t x]) = Some q"
      using a(2) es(2) by (auto simp: replay_iff split: sum.splits option.splits)
    with es writeAccessToken_saves [OF c(3)] True auth show ?thesis
      by (auto simp: granted_def code_mismatch_def split: if_splits)
  next
    case False
    with handler post have cc: "firstForm r ''grant_type'' = ''client_credentials''"
      by (auto simp: replay_iff split: if_splits)
    with handler post
    have "replay (issueClientCredentialsToken i secret (TrimSpace (firstForm r ''resource''))) (es @ [EvSaveToken t x]) = Some q"
      by simp
    then obtain a fs where a: "es @ [EvSaveToken t x] = EvClient i a # fs"
      "replay (let unknown = Respond (writeOAuthError 401 ''invalid_client'' ''unknown confidential client'') in
        case a of Inl _ \<Rightarrow> unknown | Inr None \<Rightarrow> unknown
        | Inr (Some c) \<Rightarrow>
           if \<not> cl_Confidential c then unknown
           else if cl_SecretHash c \<noteq> [] \<and> hashToken secret \<noteq> cl_SecretHash c then
             Respond (writeOAuthError 401 ''invalid_client'' ''client authentication failed'')
           else writeAccessToken (cl_ClientID c) (TrimSpace (firstForm r ''resource''))) fs = Some q"
      unfolding issueClientCredentialsToken_def replay_iff by (auto simp: replay_iff split: if_splits)
    then obtain es' where es: "es = EvClient i a # es'" "fs = es' @ [EvSaveToken t x]"
      by (cases es) auto
    obtain c where c: "a = Inr (Some c)" "cl_Confidential c"
      "cl_SecretHash c = [] \<or> hashToken secret = cl_SecretHash c"
      "replay (writeAccessToken (cl_ClientID c) (TrimSpace (firstForm r ''resource''))) (es' @ [EvSaveToken t x]) = Some q"
      using a(2) es(2) by (auto simp: replay_iff Let_def split: sum.splits option.splits if_splits)
    with es writeAccessToken_saves [OF c(4)] cc auth show ?thesis
      by (auto simp: granted_def)
  qed
qed

lemma replay_wrapped:
  assumes "replay (bind p (\<lambda>x. Respond (g x))) es = Some q"
  shows "\<exists>p'. replay p es = Some p'"
  using replay_bind [OF assms] by (auto simp: replay_iff)

lemma served_step_replay:
  assumes "served ne sv s" "se_log s = a @ (i, ev) # b"
  shows "\<exists>er q. i < length (se_pool s) \<and> fst (se_pool s ! i) = er \<and>
    replay (serve ne sv er) (events_of i a @ [ev]) = Some q"
proof -
  obtain s0 er p w tables q where s0: "served ne sv s0" "se_log s0 = a" "i < length (se_pool s0)"
    "se_pool s0 ! i = (er, p)" "resume p ev = Some q" "i < length (se_pool s)" "fst (se_pool s ! i) = er"
    using served_step_at [OF assms] by blast
  have "replay (serve ne sv er) (events_of i a) = Some p"
    using served_replay [OF s0(1,3,4)] s0(2) by simp
  with s0 show ?thesis by (auto simp: replay_append)
qed

lemma saved_granted:
  assumes "served ne sv s" "se_log s = a @ (j, EvSaveToken t x) # b"
  shows "\<exists>r. j < length (se_pool s) \<and> fst (se_pool s ! j) = (ToToken, r) \<and> granted r (events_of j a) t"
proof -
  obtain e r q where er: "j < length (se_pool s)" "fst (se_pool s ! j) = (e, r)"
    "replay (serve ne sv (e, r)) (events_of j a @ [EvSaveToken t x]) = Some q"
    using served_step_replay [OF assms] by fastforce
  have "e = ToToken"
  proof (cases e)
    case ToMCP
    from only_replay [OF only_endpoints(1) er(3) [unfolded ToMCP]] show ?thesis by (simp add: saves_token_def)
  next
    case ToAuthorize
    from only_replay [OF only_endpoints(4) er(3) [unfolded ToAuthorize]] show ?thesis
      by (simp add: authorize_event_def)
  next
    case ToRevoke
    from only_replay [OF only_endpoints(2) er(3) [unfolded ToRevoke]] show ?thesis by (simp add: saves_token_def)
  qed
  moreover from this er(3) have "\<exists>p. replay (handleToken r) (events_of j a @ [EvSaveToken t x]) = Some p"
    by (simp add: serve_def) (rule replay_wrapped)
  ultimately show ?thesis using er(1,2) handleToken_saves by blast
qed

lemma saved_code:
  assumes "served ne sv s" "(k, EvSaveCode c x) \<in> set (se_log s)"
  shows "\<exists>r. k < length (se_pool s) \<and> fst (se_pool s ! k) = (ToAuthorize, r) \<and> code_of ne r c"
proof -
  obtain a b where split: "se_log s = a @ (k, EvSaveCode c x) # b"
    using assms(2) split_list by fastforce
  obtain e r q where er: "k < length (se_pool s)" "fst (se_pool s ! k) = (e, r)"
    "replay (serve ne sv (e, r)) (events_of k a @ [EvSaveCode c x]) = Some q"
    using served_step_replay [OF assms(1) split] by fastforce
  have "e = ToAuthorize \<and> code_of ne r c"
  proof (cases e)
    case ToMCP
    from only_replay [OF only_endpoints(1) er(3) [unfolded ToMCP]] show ?thesis by simp
  next
    case ToAuthorize
    from only_replay [OF only_endpoints(4) er(3) [unfolded ToAuthorize]] ToAuthorize show ?thesis
      by (simp add: authorize_event_def)
  next
    case ToToken
    from only_replay [OF only_endpoints(3) er(3) [unfolded ToToken]] show ?thesis by simp
  next
    case ToRevoke
    from only_replay [OF only_endpoints(2) er(3) [unfolded ToRevoke]] show ?thesis by simp
  qed
  with er show ?thesis by blast
qed

end
