(* ===== verification/Authz_Safety.thy ===== *)
theory Authz_Safety
  imports Authz_Grants
begin

text \<open>
  The theorems on the authorization server, each over every history of concurrently served requests,
  and one concrete history: a code is asked for and redeemed, a token is obtained with client
  credentials, and a call is admitted with it.
\<close>

section \<open>A history\<close>

text \<open>Turns of the requests of a pool; a turn that cannot be taken changes nothing.\<close>

definition turn :: "nat \<times> outside \<Rightarrow> server \<Rightarrow> server" where
  "turn iw s = (case iw of (i, w) \<Rightarrow> if length (se_pool s) \<le> i then s
     else (case ask w (snd (se_pool s ! i)) (se_tables s) of None \<Rightarrow> s
       | Some (ev, tables) \<Rightarrow> (case resume (snd (se_pool s ! i)) ev of None \<Rightarrow> s
           | Some q \<Rightarrow> \<lparr>se_tables = tables, se_pool = (se_pool s)[i := (fst (se_pool s ! i), q)],
               se_log = se_log s @ [(i, ev)]\<rparr>)))"

lemma served_turn: "served ne sv s \<Longrightarrow> served ne sv (turn iw s)"
  unfolding turn_def
  by (auto split: prod.splits option.splits intro: served.question [OF _ _ surjective_pairing])

lemma served_turns: "served ne sv s \<Longrightarrow> served ne sv (fold turn iws s)"
  by (induction iws arbitrary: s) (auto simp: served_turn)

lemma turn_stuck: "ask w (snd (se_pool s ! i)) (se_tables s) = None \<Longrightarrow> turn (i, w) s = s"
  by (simp add: turn_def)

text \<open>The turns of one request in a row are its run alone.\<close>

lemma turns_alone:
  "i < length (se_pool s) \<Longrightarrow> run_alone ws (snd (se_pool s ! i)) (se_tables s) = (es, q, tables) \<Longrightarrow>
    fold turn (map (Pair i) ws) s = \<lparr>se_tables = tables, se_pool = (se_pool s)[i := (fst (se_pool s ! i), q)],
      se_log = se_log s @ map (Pair i) es\<rparr>"
proof (induction ws arbitrary: s es)
  case Nil
  then show ?case by (cases s) (auto simp: list_update_same_conv)
next
  case (Cons w ws)
  let ?p = "snd (se_pool s ! i)"
  show ?case
  proof (cases "ask w ?p (se_tables s)")
    case None
    then have "fold turn (map (Pair i) ws) s = s" if "\<And>w. ask w ?p (se_tables s) = None" for ws
      using that by (induction ws) (auto simp: turn_stuck)
    moreover have "ask w' ?p (se_tables s) = None" for w'
      using None by (cases ?p) (auto split: prod.splits)
    ultimately show ?thesis
      using Cons.prems None by (cases s) (auto simp: turn_stuck list_update_same_conv)
  next
    case (Some x)
    obtain ev s1 where x: "x = (ev, s1)" by fastforce
    obtain p1 where p1: "resume ?p ev = Some p1" using ask_answers Some x by blast
    let ?s1 = "\<lparr>se_tables = s1, se_pool = (se_pool s)[i := (fst (se_pool s ! i), p1)], se_log = se_log s @ [(i, ev)]\<rparr>"
    obtain es1 where es1: "run_alone ws p1 s1 = (es1, q, tables)" "es = ev # es1"
      using Cons.prems(2) Some x p1 by (auto split: prod.splits)
    have "turn (i, w) s = ?s1" using Cons.prems(1) Some x p1 by (simp add: turn_def)
    then show ?thesis using Cons.IH [of ?s1 es1] Cons.prems(1) es1 by simp
  qed
qed

definition demo_net :: net_env where
  "demo_net = \<lparr>ne_url_Parse = (\<lambda>s. Some \<lparr>u_Scheme = ''http'', u_Host = ''localhost''\<rparr>), ne_InterfaceAddrs = None\<rparr>"

definition demo_service :: Service where
  "demo_service = \<lparr>sv_bootstrapToken = []\<rparr>"

definition demo_outside :: outside where
  "demo_outside = \<lparr>ou_faults = no_faults, ou_now = 1000, ou_rand = Some (replicate 32 7),
     ou_lookup = (\<lambda>_. None), ou_fetch = (\<lambda>_. FetchFailed [])\<rparr>"

definition demo_request :: "string \<Rightarrow> string \<Rightarrow> (string \<times> string) list \<Rightarrow> request" where
  "demo_request meth auth form = \<lparr>q_Method = meth, q_TLS = False, q_Host = ''h'', q_URLHost = [],
     q_Authorization = auth, q_Origin = [], q_ForwardedProto = [], q_BasicAuth = None, q_FormError = False,
     q_Form = Some form, q_Query = []\<rparr>"

definition demo_raw :: string where
  "demo_raw = ''0707070707070707070707070707070707070707070707070707070707070707''"

definition demo_ask_code :: request where
  "demo_ask_code = demo_request ''GET'' [] [(''client_id'', ''c''), (''redirect_uri'', ''http://localhost/x''),
     (''resource'', ''http://h/mcp''), (''code_challenge'', ''k''), (''code_challenge_method'', ''S256''),
     (''response_type'', ''code'')]"

definition demo_redeem :: request where
  "demo_redeem = demo_request ''POST'' [] [(''grant_type'', ''authorization_code''), (''code'', demo_raw)]"

definition demo_credentials :: request where
  "demo_credentials = demo_request ''POST'' [] [(''grant_type'', ''client_credentials''), (''client_id'', ''c''),
     (''resource'', ''http://h/mcp'')]"

definition demo_call :: request where
  "demo_call = demo_request ''POST'' (''Bearer oha_'' @ demo_raw) []"

definition demo_client :: registeredClient where
  "demo_client = \<lparr>cl_ClientID = ''c'', cl_SecretHash = [], cl_ClientType = ''confidential'', cl_RedirectURIs = [],
     cl_MetadataURL = [], cl_Confidential = True\<rparr>"

definition demo_arrived :: server where
  "demo_arrived = \<lparr>se_tables = empty_tables\<lparr>az_clients := [(''c'', demo_client)]\<rparr>,
     se_pool = map (\<lambda>er. (er, serve demo_net demo_service er))
       [(ToAuthorize, demo_ask_code), (ToToken, demo_redeem), (ToToken, demo_credentials), (ToMCP, demo_call)],
     se_log = []\<rparr>"

lemma demo_arrived_served: "served demo_net demo_service demo_arrived"
proof -
  let ?start = "\<lparr>se_tables = empty_tables\<lparr>az_clients := [(''c'', demo_client)]\<rparr>, se_pool = [], se_log = []\<rparr>"
  have "served demo_net demo_service ?start"
    by (rule served.start) (simp_all add: empty_tables_def)
  from served.arrive [OF served.arrive [OF served.arrive [OF served.arrive [OF this]]]]
  show ?thesis by (simp add: demo_arrived_def)
qed

lemma demo_forms:
  "firstForm demo_ask_code ''client_id'' = ''c''" "firstForm demo_ask_code ''redirect_uri'' = ''http://localhost/x''"
  "firstForm demo_ask_code ''resource'' = ''http://h/mcp''" "firstForm demo_ask_code ''code_challenge'' = ''k''"
  "firstForm demo_ask_code ''code_challenge_method'' = ''S256''" "firstForm demo_ask_code ''state'' = []"
  "firstForm demo_ask_code ''response_type'' = ''code''"
  "firstForm demo_redeem ''grant_type'' = ''authorization_code''" "firstForm demo_redeem ''code'' = demo_raw"
  "firstForm demo_redeem ''resource'' = []" "clientAuth demo_redeem = ([], [])"
  "firstForm demo_credentials ''grant_type'' = ''client_credentials''"
  "firstForm demo_credentials ''resource'' = ''http://h/mcp''" "clientAuth demo_credentials = (''c'', [])"
  "bearerToken demo_call = ''oha_'' @ demo_raw" "CanonicalMCPResource demo_call = ''http://h/mcp''"
  by code_simp+

lemma demo_facts:
  "TrimSpace ''c'' = ''c''" "TrimSpace ''http://localhost/x'' = ''http://localhost/x''"
  "TrimSpace ''http://h/mcp'' = ''http://h/mcp''" "TrimSpace ''k'' = ''k''" "TrimSpace ''S256'' = ''S256''"
  "EqualFold ''S256'' ''S256''" "validNativeRedirect demo_net ''http://localhost/x''"
  "randomCode (Some (replicate 32 7)) = Some demo_raw" "randomToken (Some (replicate 32 7)) = Some (''oha_'' @ demo_raw)"
  by code_simp+

definition demo_code :: authCode where
  "demo_code = \<lparr>cc_Code = demo_raw, cc_ClientID = ''c'', cc_Resource = ''http://h/mcp'', cc_CodeChallenge = ''k'',
     cc_RedirectURI = ''http://localhost/x'', cc_ExpiresAt = 1600\<rparr>"

definition demo_token :: issuedToken where
  "demo_token = \<lparr>tk_Hash = hashToken (''oha_'' @ demo_raw), tk_ClientID = ''c'', tk_Resource = ''http://h/mcp'',
     tk_Scope = MCPScope, tk_ExpiresAt = 4600, tk_Revoked = False\<rparr>"

definition demo_tables :: "(string, authCode \<times> bool) gomap \<Rightarrow> (string, issuedToken) gomap \<Rightarrow> TokenStore" where
  "demo_tables codes tokens = \<lparr>az_clients = [(''c'', demo_client)], az_codes = codes, az_tokens = tokens\<rparr>"

lemma demo_fields:
  "q_Method demo_ask_code = ''GET''" "\<not> q_FormError demo_ask_code"
  "q_Method demo_redeem = ''POST''" "\<not> q_FormError demo_redeem"
  "q_Method demo_credentials = ''POST''" "\<not> q_FormError demo_credentials"
  "cl_ClientID demo_client = ''c''" "cl_RedirectURIs demo_client = []" "cl_Confidential demo_client"
  "cl_SecretHash demo_client = []" "bearerToken demo_call \<noteq> []" "sv_bootstrapToken demo_service = []"
  by code_simp+

lemmas demo_eval = serve_def demo_outside_def demo_forms demo_facts demo_fields no_faults_def demo_tables_def
  client_def saveCode_def consumeCode_def saveToken_def insertToken_def pruneTokens_def tokenByHash_def authCodeTTL_def accessTokenTTL_def
  same_def judge_def constantEquals_def expiredTokenGrace_def Let_def demo_code_def demo_token_def

declare EqualFold.simps [simp del]
abbreviation asked :: "event list" where
  "asked \<equiv> [EvClient ''c'' (Inr (Some demo_client)), EvRand (Some (replicate 32 7)), EvClock 1000,
     EvSaveCode demo_code None]"

abbreviation redeemed :: "event list" where
  "redeemed \<equiv> [EvConsume demo_raw (Inr demo_code)]"

abbreviation obtained :: "event list" where
  "obtained \<equiv> [EvClient ''c'' (Inr (Some demo_client)), EvRand (Some (replicate 32 7)), EvClock 1000,
     EvClock 1000, EvSaveToken demo_token None, EvPrune (1000 - expiredTokenGrace) None]"

abbreviation called :: "event list" where
  "called \<equiv> [EvToken (tk_Hash demo_token) (Inr (Some demo_token)), EvClock 1000]"

abbreviation four :: "outside list" where "four \<equiv> [demo_outside, demo_outside, demo_outside, demo_outside]"
abbreviation six :: "outside list" where
  "six \<equiv> [demo_outside, demo_outside, demo_outside, demo_outside, demo_outside, demo_outside]"
abbreviation two :: "outside list" where "two \<equiv> [demo_outside, demo_outside]"

lemma demo_asks: "run_alone four (serve demo_net demo_service (ToAuthorize, demo_ask_code)) (demo_tables [] []) =
    (asked,
     Respond (Inr (redirect_with_code demo_net demo_ask_code ''http://localhost/x'' demo_raw [])),
     demo_tables [(demo_raw, demo_code, False)] [])"
  by (simp add: demo_eval handleAuthorize_def resolveClient_def)

lemma demo_redeems: "\<exists>p. run_alone [demo_outside] (serve demo_net demo_service (ToToken, demo_redeem))
    (demo_tables [(demo_raw, demo_code, False)] []) =
    (redeemed, p, demo_tables [(demo_raw, demo_code, True)] [])"
  by (simp add: demo_eval handleToken_def issueAuthorizationCodeToken_def)

lemma demo_obtains: "\<exists>p. run_alone six
    (serve demo_net demo_service (ToToken, demo_credentials)) (demo_tables codes []) =
    (obtained,
     p, demo_tables codes [(tk_Hash demo_token, demo_token)])"
  by (simp add: demo_eval handleToken_def issueClientCredentialsToken_def writeAccessToken_def)

lemma demo_calls: "run_alone two (serve demo_net demo_service (ToMCP, demo_call))
    (demo_tables codes [(tk_Hash demo_token, demo_token)]) =
    (called,
     Respond (Inl allowed), demo_tables codes [(tk_Hash demo_token, demo_token)])"
  by (simp add: demo_eval Authorize_def)

definition demo_turns :: "(nat \<times> outside) list" where
  "demo_turns = map (Pair 0) four @ map (Pair 1) [demo_outside] @
     map (Pair 2) six @ map (Pair 3) two"

definition demo_end :: server where
  "demo_end = fold turn demo_turns demo_arrived"

lemma demo_end_served: "served demo_net demo_service demo_end"
  unfolding demo_end_def by (rule served_turns [OF demo_arrived_served])

lemma demo_end_log: "se_log demo_end =
    map (Pair 0) asked @
    map (Pair 1) redeemed @
    map (Pair 2) obtained @
    map (Pair 3) called"
  and demo_end_pool: "length (se_pool demo_end) = 4" "se_pool demo_end ! 3 = ((ToMCP, demo_call), Respond (Inl allowed))"
proof -
  have t0: "se_tables demo_arrived = demo_tables [] []"
    by (simp add: demo_arrived_def demo_tables_def empty_tables_def)
  obtain p1 where r1: "run_alone [demo_outside] (serve demo_net demo_service (ToToken, demo_redeem))
      (demo_tables [(demo_raw, demo_code, False)] []) =
      (redeemed, p1, demo_tables [(demo_raw, demo_code, True)] [])"
    using demo_redeems by blast
  obtain p2 where r2: "run_alone six
      (serve demo_net demo_service (ToToken, demo_credentials)) (demo_tables [(demo_raw, demo_code, True)] []) =
      (obtained,
       p2, demo_tables [(demo_raw, demo_code, True)] [(tk_Hash demo_token, demo_token)])"
    using demo_obtains by blast
  let ?pool = "map (\<lambda>er. (er, serve demo_net demo_service er))
       [(ToAuthorize, demo_ask_code), (ToToken, demo_redeem), (ToToken, demo_credentials), (ToMCP, demo_call)]"
  have p0: "se_pool demo_arrived = ?pool" "se_log demo_arrived = []" by (simp_all add: demo_arrived_def)
  let ?t0 = "map (Pair 0) four"
  let ?t1 = "map (Pair 1) [demo_outside]"
  let ?t2 = "map (Pair 2) six"
  let ?t3 = "map (Pair 3) two"
  have *: "demo_end = fold turn ?t3 (fold turn ?t2 (fold turn ?t1 (fold turn ?t0 demo_arrived)))"
    unfolding demo_end_def demo_turns_def by (simp only: fold_append comp_apply)
  obtain q0 where s1: "fold turn ?t0 demo_arrived = \<lparr>se_tables = demo_tables [(demo_raw, demo_code, False)] [],
      se_pool = ?pool[0 := (fst (?pool ! 0), q0)],
      se_log = map (Pair 0) asked\<rparr>"
    using turns_alone [of 0 demo_arrived "four"] demo_asks p0 t0
    by (fastforce simp del: fold_simps)
  obtain q1 where s2: "fold turn ?t1 (fold turn ?t0 demo_arrived) =
      \<lparr>se_tables = demo_tables [(demo_raw, demo_code, True)] [],
      se_pool = ?pool[0 := (fst (?pool ! 0), q0), 1 := (fst (?pool ! 1), q1)],
      se_log = map (Pair 0) asked @ map (Pair 1) redeemed\<rparr>"
    unfolding s1
    using turns_alone [of 1 "fold turn ?t0 demo_arrived" "[demo_outside]", unfolded s1] r1
    by (fastforce simp del: fold_simps)
  obtain q2 where s3: "fold turn ?t2 (fold turn ?t1 (fold turn ?t0 demo_arrived)) =
      \<lparr>se_tables = demo_tables [(demo_raw, demo_code, True)] [(tk_Hash demo_token, demo_token)],
      se_pool = ?pool[0 := (fst (?pool ! 0), q0), 1 := (fst (?pool ! 1), q1), 2 := (fst (?pool ! 2), q2)],
      se_log = map (Pair 0) asked @ map (Pair 1) redeemed @
        map (Pair 2) obtained\<rparr>"
    unfolding s2
    using turns_alone [of 2 "fold turn ?t1 (fold turn ?t0 demo_arrived)"
        "six", unfolded s2] r2
    by (fastforce simp del: fold_simps)
  have s4: "demo_end = \<lparr>se_tables = demo_tables [(demo_raw, demo_code, True)] [(tk_Hash demo_token, demo_token)],
      se_pool = ?pool[0 := (fst (?pool ! 0), q0), 1 := (fst (?pool ! 1), q1), 2 := (fst (?pool ! 2), q2),
        3 := (fst (?pool ! 3), Respond (Inl allowed))],
      se_log = map (Pair 0) asked @ map (Pair 1) redeemed @
        map (Pair 2) obtained @
        map (Pair 3) called\<rparr>"
    unfolding * s3
    using turns_alone [of 3 "fold turn ?t2 (fold turn ?t1 (fold turn ?t0 demo_arrived))"
        "two", unfolded s3] demo_calls
    by (fastforce simp del: fold_simps)
  show "se_log demo_end =
    map (Pair 0) asked @
    map (Pair 1) redeemed @
    map (Pair 2) obtained @
    map (Pair 3) called"
    "length (se_pool demo_end) = 4" "se_pool demo_end ! 3 = ((ToMCP, demo_call), Respond (Inl allowed))"
    unfolding s4 by simp_all
qed

section \<open>The bootstrap client needs no secret\<close>

text \<open>
  \<open>Open\<close> registers the bootstrap client as confidential and without a secret hash. Whatever secret is
  configured for the other client, a token request that names the bootstrap client is granted a token
  for any resource, with any secret or none.
\<close>

lemma bootstrap_granted:
  assumes "Open fl1 fl2 opts s0 = (s, Inr sv)" and "ou_faults w = no_faults" and "ou_rand w = Some raw"
    and "q_Method r = ''POST''" "\<not> q_FormError r" and "firstForm r ''grant_type'' = ''client_credentials''"
    and "clientAuth r = (bootstrapClientID, secret)" and "TrimSpace (firstForm r ''resource'') \<noteq> []"
    and "gomap_get (az_tokens s0) (hashToken (HostTokenPrefix @ hex_EncodeToString raw)) = None"
  shows "\<exists>es fields s'. run_alone [w, w, w, w, w, w] (handleToken r) s = (es, Respond (JSON 200 fields), s')"
proof -
  have c: "\<exists>c. gomap_get (az_clients s) bootstrapClientID = Some c \<and> cl_Confidential c \<and> cl_SecretHash c = []"
    and t: "az_tokens s = az_tokens s0"
    using assms(1) by (auto simp: Open_def upsertClient_def Let_def bootstrapClientID_def oputeClientID_def
        split: option.splits prod.splits if_splits)
  have b: "bootstrapClientID \<noteq> []" by (simp add: bootstrapClientID_def)
  obtain c where c': "gomap_get (az_clients s) bootstrapClientID = Some c" "cl_Confidential c" "cl_SecretHash c = []"
    using c by blast
  show ?thesis
    using assms(2-) c' t b
    by (simp add: handleToken_def issueClientCredentialsToken_def writeAccessToken_def client_def no_faults_def
        saveToken_def insertToken_def pruneTokens_def randomToken_def same_def Let_def)
qed

section \<open>Theorems\<close>

text \<open>
  C7: however many requests are in flight, and whatever the order in which their statements reach the
  store, an authorization code is redeemed at most once.
\<close>
theorem code_single_use:
  assumes "served ne sv s"
  shows "uses v (se_log s) \<le> 1"
proof -
  have "code_fact (se_log s) v (gomap_get (az_codes (se_tables s)) v)"
    using served_codes [OF assms] by (simp add: codes_ok_def)
  then show ?thesis
    by (cases "gomap_get (az_codes (se_tables s)) v") (auto simp: code_fact_def split: if_splits)
qed

theorem code_single_use_witness: "uses demo_raw (se_log demo_end) \<le> 1 \<and> uses demo_raw (se_log demo_end) = 1"
  using code_single_use [OF demo_end_served, of demo_raw]
  by (simp add: demo_end_log uses_def)

definition by_bootstrap :: "net_env \<Rightarrow> Service \<Rightarrow> request \<Rightarrow> bool" where
  "by_bootstrap ne sv r \<longleftrightarrow> sv_bootstrapToken sv \<noteq> [] \<and> bearerToken r = sv_bootstrapToken sv \<and>
     IsLocalHostAddress ne (q_Host r)"

lemma Authorize_admits:
  assumes "replay (serve ne sv (ToMCP, r)) es = Some (Respond (Inl d))" "de_Allowed d" "\<not> by_bootstrap ne sv r"
  shows "\<exists>t now. es = [EvToken (hashToken (bearerToken r)) (Inr (Some t)), EvClock now] \<and> \<not> tk_Revoked t \<and>
    now \<le> tk_ExpiresAt t \<and> tk_Resource t = CanonicalMCPResource r"
  using assms
  by (auto simp: serve_def Authorize_def by_bootstrap_def constantEquals_def replay_iff Let_def unauthorized_def
      forbidden_def allowed_def judge_def split: if_splits sum.splits option.splits)

text \<open>
  C3: admission is accountable. A request that the bearer check admits carries the configured bootstrap
  token at an address of this host, or a token whose row was written earlier, by a token request that
  was granted it: the token is bound to this resource, was not expired at the time the check read the
  clock, and was not revoked between the two statements.
\<close>
theorem token_accountable:
  assumes "served ne sv s" and "i < length (se_pool s)"
    and "se_pool s ! i = ((ToMCP, r), Respond (Inl d))" and "de_Allowed d"
  shows "by_bootstrap ne sv r \<or>
    (\<exists>a b c j t now q. se_log s = a @ (j, EvSaveToken t None) # b @ (i, EvToken (tk_Hash t) (Inr (Some t))) # c \<and>
       tk_Hash t = hashToken (bearerToken r) \<and> tk_Resource t = CanonicalMCPResource r \<and>
       (i, EvClock now) \<in> set (se_log s) \<and> now \<le> tk_ExpiresAt t \<and> (\<forall>k. (k, EvRevoke (tk_Hash t) None) \<notin> set b) \<and>
       j < length (se_pool s) \<and> fst (se_pool s ! j) = (ToToken, q) \<and> granted q (events_of j a) t)"
proof (cases "by_bootstrap ne sv r")
  case False
  let ?h = "hashToken (bearerToken r)"
  obtain t now where t: "events_of i (se_log s) = [EvToken ?h (Inr (Some t)), EvClock now]" "\<not> tk_Revoked t"
      "now \<le> tk_ExpiresAt t" "tk_Resource t = CanonicalMCPResource r"
    using Authorize_admits [OF served_replay [OF assms(1-3)] assms(4) False] by blast
  then have "(i, EvToken ?h (Inr (Some t))) \<in> set (se_log s)" and now: "(i, EvClock now) \<in> set (se_log s)"
    by (metis events_of_in list.set_intros)+
  then obtain a0 c where read: "se_log s = a0 @ (i, EvToken ?h (Inr (Some t))) # c"
    using split_list by fastforce
  obtain s0 and p :: "(Decision + response) prog" and w tables where s0: "served ne sv s0" "se_log s0 = a0"
      "ask w p (se_tables s0) = Some (EvToken ?h (Inr (Some t)), tables)"
    using served_step_at [OF assms(1) read] by blast
  have "gomap_get (az_tokens (se_tables s0)) ?h = Some t"
    using ask_event [OF s0(3)] by (auto simp: tokenByHash_def split: option.splits)
  then have "token_fact a0 ?h t"
    using served_tokens [OF s0(1)] s0(2) by (simp add: tokens_ok_def)
  then obtain a j t0 b where save: "a0 = a @ (j, EvSaveToken t0 None) # b" "tk_Hash t0 = ?h"
      "t = t0\<lparr>tk_Revoked := False\<rparr>" "\<forall>k. (k, EvRevoke ?h None) \<notin> set b"
    using t(2) by (auto simp: token_fact_def)
  with read have log: "se_log s = a @ (j, EvSaveToken t0 None) # b @ (i, EvToken ?h (Inr (Some t))) # c" by simp
  obtain q where q: "j < length (se_pool s)" "fst (se_pool s ! j) = (ToToken, q)" "granted q (events_of j a) t0"
    using saved_granted [OF assms(1) log] by blast
  have "t0 = t" using q(3) save(3) by (simp add: granted_def)
  have h: "tk_Hash t = ?h" using save(2) \<open>t0 = t\<close> by simp
  show ?thesis
    by (rule disjI2, intro exI [of _ a] exI [of _ b] exI [of _ c] exI [of _ j] exI [of _ t] exI [of _ now]
        exI [of _ q]) (use log q save(4) t(3,4) now h \<open>t0 = t\<close> in simp)
qed simp

theorem token_accountable_witness:
  "by_bootstrap demo_net demo_service demo_call \<or>
    (\<exists>a b c j t now q. se_log demo_end = a @ (j, EvSaveToken t None) # b @ (3, EvToken (tk_Hash t) (Inr (Some t))) # c \<and>
       tk_Hash t = hashToken (bearerToken demo_call) \<and> tk_Resource t = CanonicalMCPResource demo_call \<and>
       (3, EvClock now) \<in> set (se_log demo_end) \<and> now \<le> tk_ExpiresAt t \<and>
       (\<forall>k. (k, EvRevoke (tk_Hash t) None) \<notin> set b) \<and>
       j < length (se_pool demo_end) \<and> fst (se_pool demo_end ! j) = (ToToken, q) \<and> granted q (events_of j a) t)"
  by (rule token_accountable [OF demo_end_served _ demo_end_pool(2)]) (simp_all add: demo_end_pool(1) allowed_def)

text \<open>
  A redeemed code leads back to its authorization request. Every code that a token request redeems
  was saved earlier for an authorization request, with that request's resource, code challenge and
  redirect address; the address is one that the server accepts.
\<close>
theorem code_accountable:
  assumes "served ne sv s" and "se_log s = a @ (j, EvConsume v (Inr c)) # b"
  shows "\<exists>k r. (k, EvSaveCode c None) \<in> set a \<and> k < length (se_pool s) \<and>
    fst (se_pool s ! k) = (ToAuthorize, r) \<and> cc_Code c = v \<and> code_of ne r c"
proof -
  obtain s0 and p :: "(Decision + response) prog" and w tables where s0: "served ne sv s0" "se_log s0 = a"
      "ask w p (se_tables s0) = Some (EvConsume v (Inr c), tables)"
    using served_step_at [OF assms] by blast
  have "consumeCode (ou_faults w) (ou_now w) v (se_tables s0) = (tables, Inr c)"
    using ask_event [OF s0(3)] by simp
  then have "gomap_get (az_codes (se_tables s0)) v = Some (c, False)"
    using consumeCode_cases by fastforce
  then obtain k where k: "(k, EvSaveCode c None) \<in> set a" "cc_Code c = v"
    using served_codes [OF s0(1)] s0(2) by (auto simp: codes_ok_def code_fact_def dest!: spec[of _ v])
  then have "(k, EvSaveCode c None) \<in> set (se_log s)" using assms(2) by simp
  from saved_code [OF assms(1) this] k show ?thesis by blast
qed

theorem code_accountable_witness:
  "\<exists>k r. (k, EvSaveCode demo_code None) \<in> set (map (Pair 0) asked) \<and> k < length (se_pool demo_end) \<and>
    fst (se_pool demo_end ! k) = (ToAuthorize, r) \<and> cc_Code demo_code = demo_raw \<and> code_of demo_net r demo_code"
  by (rule code_accountable [OF demo_end_served, where j = 1 and b = "map (Pair 2) obtained @ map (Pair 3) called"])
    (simp add: demo_end_log)

end
