(* ===== verification/Tasks.thy ===== *)
theory Tasks
  imports Json Go_Net
begin

text \<open>
  The task registry (\<open>src/internal/tasks/registry.go\<close>): durable handles of long running tool calls. Each
  method holds the registry's lock, so each is one atomic operation. The clock's text and the generated
  identifier are arguments. A callback is a number; an operation reports the callbacks it calls. The
  records that the methods return are copies, which value semantics gives without saying.
\<close>

section \<open>State\<close>

datatype task_status = TaskWorking | TaskCompleted | TaskFailed | TaskCancelled | TaskInputRequired

fun task_status_text :: "task_status \<Rightarrow> string" where
  "task_status_text TaskWorking = ''working''"
| "task_status_text TaskCompleted = ''completed''"
| "task_status_text TaskFailed = ''failed''"
| "task_status_text TaskCancelled = ''cancelled''"
| "task_status_text TaskInputRequired = ''input_required''"

record ToolResult =
  to_Content :: "anymap list option"   \<comment> \<open>a nil slice is \<open>None\<close>\<close>
  to_StructuredContent :: any
  to_IsError :: bool

record Task =
  tr_TaskID :: string
  tr_ToolName :: string
  tr_ToolArgs :: anymap
  tr_Status :: task_status
  tr_StatusMessage :: string
  tr_Description :: string
  tr_Metadata :: anymap
  tr_CreatedAt :: string
  tr_LastUpdatedAt :: string
  tr_TTL :: int
  tr_PollInterval :: int
  tr_Logs :: "string list"
  tr_InputRequests :: anymap
  tr_InputRequest :: anymap
  tr_ToolResult :: "ToolResult option"
  tr_resultCh :: "ToolResult list"     \<comment> \<open>a channel with room for one\<close>
  tr_cancel :: "nat option"
  tr_resume :: "nat option"

type_synonym Registry = "(string, Task) gomap"

datatype callback =
    CancelCalled string nat
  | ResumeCalled string nat anymap

definition DefaultTTL :: int where "DefaultTTL = 3600000000000"
definition millisecond :: int where "millisecond = 1000000"
definition PollIntervalMs :: int where "PollIntervalMs = 3000"

definition newRecord :: "string \<Rightarrow> string \<Rightarrow> string \<Rightarrow> anymap \<Rightarrow> int \<Rightarrow> string \<Rightarrow> anymap \<Rightarrow> nat option \<Rightarrow> Task" where
  "newRecord now taskID toolName toolArgs ttl description metadata cancel =
     (let ttl = (if ttl \<le> 0 then DefaultTTL else ttl) in
      \<lparr>tr_TaskID = taskID, tr_ToolName = toolName, tr_ToolArgs = toolArgs, tr_Status = TaskWorking,
       tr_StatusMessage = [], tr_Description = description, tr_Metadata = metadata, tr_CreatedAt = now,
       tr_LastUpdatedAt = now, tr_TTL = ttl div millisecond, tr_PollInterval = PollIntervalMs, tr_Logs = [],
       tr_InputRequests = None, tr_InputRequest = None, tr_ToolResult = None, tr_resultCh = [],
       tr_cancel = cancel, tr_resume = None\<rparr>)"

section \<open>Creating and restoring\<close>

definition create :: "string \<Rightarrow> string \<Rightarrow> string \<Rightarrow> anymap \<Rightarrow> int \<Rightarrow> string \<Rightarrow> anymap \<Rightarrow> nat option \<Rightarrow>
    Registry \<Rightarrow> Registry \<times> Task" where
  "create now uuid toolName toolArgs ttl description metadata cancel r =
     (let rec = newRecord now uuid toolName toolArgs ttl description metadata cancel
      in (gomap_put uuid rec r, rec))"

definition Create :: "string \<Rightarrow> string \<Rightarrow> string \<Rightarrow> anymap \<Rightarrow> int \<Rightarrow> string \<Rightarrow> anymap \<Rightarrow> Registry \<Rightarrow> Registry \<times> Task" where
  "Create now uuid toolName toolArgs ttl description metadata r =
     create now uuid toolName toolArgs ttl description metadata None r"

definition CreateWithCancel :: "string \<Rightarrow> string \<Rightarrow> string \<Rightarrow> anymap \<Rightarrow> int \<Rightarrow> string \<Rightarrow> anymap \<Rightarrow> nat option \<Rightarrow>
    Registry \<Rightarrow> Registry \<times> Task" where
  "CreateWithCancel now uuid toolName toolArgs ttl description metadata cancel r =
     create now uuid toolName toolArgs ttl description metadata cancel r"

definition input_message :: string where
  "input_message = ''The task requires input before it can continue.''"

definition CreateWithInput :: "string \<Rightarrow> string \<Rightarrow> string \<Rightarrow> anymap \<Rightarrow> int \<Rightarrow> string \<Rightarrow> anymap \<Rightarrow> nat option \<Rightarrow>
    anymap \<Rightarrow> nat option \<Rightarrow> Registry \<Rightarrow> Registry \<times> Task" where
  "CreateWithInput now uuid toolName toolArgs ttl description metadata cancel inputRequests resume r =
     (let rec = (newRecord now uuid toolName toolArgs ttl description metadata cancel)
           \<lparr>tr_Status := TaskInputRequired, tr_StatusMessage := input_message,
            tr_InputRequests := inputRequests, tr_resume := resume\<rparr>
      in (gomap_put (tr_TaskID rec) rec r, rec))"

definition CreateWithID :: "string \<Rightarrow> string \<Rightarrow> string \<Rightarrow> anymap \<Rightarrow> int \<Rightarrow> string \<Rightarrow> anymap \<Rightarrow> nat option \<Rightarrow>
    Registry \<Rightarrow> Registry \<times> Task" where
  "CreateWithID now taskID toolName toolArgs ttl description metadata cancel r =
     (let rec = newRecord now taskID toolName toolArgs ttl description metadata cancel;
          fresh = (gomap_put taskID rec r, rec) in
      case gomap_get r taskID of
        Some existing \<Rightarrow> if tr_Status existing = TaskWorking then (r, existing) else fresh
      | None \<Rightarrow> fresh)"

text \<open>
  Go's conversion of a \<open>float64\<close> to \<open>int64\<close> truncates; out of range, and for a NaN, it gives what
  the amd64 instruction gives, the least \<open>int64\<close>.
\<close>

definition float_int64 :: "float64 \<Rightarrow> int" where
  "float_int64 f = (case f of
     FNum q \<Rightarrow> (let i = (if 0 \<le> q then \<lfloor>q\<rfloor> else \<lceil>q\<rceil>) in if - (2 ^ 63) \<le> i \<and> i < 2 ^ 63 then i else - (2 ^ 63))
   | FZero _ \<Rightarrow> 0 | _ \<Rightarrow> - (2 ^ 63))"

definition wrap_int64 :: "int \<Rightarrow> int" where
  "wrap_int64 i = (i + 2 ^ 63) mod 2 ^ 64 - 2 ^ 63"

definition durationFromMilliseconds :: "any \<Rightarrow> int" where
  "durationFromMilliseconds value = (case value of
     AFloat f \<Rightarrow> if f64_lt (FZero False) f then wrap_int64 (float_int64 f * millisecond) else DefaultTTL
   | _ \<Rightarrow> DefaultTTL)"

text \<open>
  Encoding a value and decoding it as a \<open>ToolResult\<close>: the fields of an object arrive with sorted keys,
  a field's name matches without regard to case, a null leaves its field as it is, and a value of
  another type is an error.
\<close>

definition decode_content :: "any \<Rightarrow> anymap list option" where
  "decode_content v = (case v of
     ASlice xs \<Rightarrow> (let ms = map (\<lambda>x. case x of AMap fs \<Rightarrow> Some (Some fs) | ANil \<Rightarrow> Some None | _ \<Rightarrow> None) xs in
        if None \<in> set ms then None else Some (map the ms))
   | _ \<Rightarrow> None)"

definition decode_field :: "string \<times> any \<Rightarrow> ToolResult option \<Rightarrow> ToolResult option" where
  "decode_field kv acc = (case acc of None \<Rightarrow> None | Some t \<Rightarrow>
     (let k = fst kv; v = snd kv in
      if EqualFold k ''structuredContent'' then Some (t\<lparr>to_StructuredContent := v\<rparr>)
      else if v = ANil then
        (if EqualFold k ''content'' then Some (t\<lparr>to_Content := None\<rparr>) else Some t)
      else if EqualFold k ''content'' then
        (case decode_content v of None \<Rightarrow> None | Some c \<Rightarrow> Some (t\<lparr>to_Content := Some c\<rparr>))
      else if EqualFold k ''isError'' then
        (case v of ABool b \<Rightarrow> Some (t\<lparr>to_IsError := b\<rparr>) | _ \<Rightarrow> None)
      else Some t))"

definition recoded_result :: "any \<Rightarrow> ToolResult option" where
  "recoded_result result = (if \<not> marshalable result then None else (case canon result of
     AMap fs \<Rightarrow> fold decode_field fs (Some \<lparr>to_Content = None, to_StructuredContent = ANil, to_IsError = False\<rparr>)
   | ANil \<Rightarrow> Some \<lparr>to_Content = None, to_StructuredContent = ANil, to_IsError = False\<rparr>
   | _ \<Rightarrow> None))"

text \<open>The type assertions on the snapshot, with the zero value when they fail.\<close>

definition str_of :: "anymap \<Rightarrow> string \<Rightarrow> string" where
  "str_of m k = (case as_string (lookup m k) of Some s \<Rightarrow> s | None \<Rightarrow> [])"

definition map_of_key :: "anymap \<Rightarrow> string \<Rightarrow> anymap" where
  "map_of_key m k = (case as_map (lookup m k) of Some fs \<Rightarrow> fs | None \<Rightarrow> None)"

definition restored_base :: "string \<Rightarrow> anymap \<Rightarrow> Task" where
  "restored_base now snapshot =
     (let rec = newRecord now (str_of snapshot ''taskId'') (str_of snapshot ''toolName'') (map_of_key snapshot ''toolArgs'')
            (durationFromMilliseconds (lookup snapshot ''ttlMs'')) (str_of snapshot ''description'')
            (map_of_key snapshot ''metadata'') None;
          createdAt = str_of snapshot ''createdAt''; updatedAt = str_of snapshot ''lastUpdatedAt''
      in rec\<lparr>tr_CreatedAt := (if createdAt \<noteq> [] then createdAt else tr_CreatedAt rec),
           tr_LastUpdatedAt := (if updatedAt \<noteq> [] then updatedAt else tr_LastUpdatedAt rec),
           tr_TTL := (case lookup snapshot ''ttlMs'' of AFloat f \<Rightarrow> float_int64 f | _ \<Rightarrow> tr_TTL rec),
           tr_PollInterval := (case lookup snapshot ''pollIntervalMs'' of AFloat f \<Rightarrow> float_int64 f
             | _ \<Rightarrow> tr_PollInterval rec),
           tr_StatusMessage := str_of snapshot ''statusMessage''\<rparr>)"

definition restored_status :: "anymap \<Rightarrow> Task \<Rightarrow> Task" where
  "restored_status snapshot rec = (let status = str_of snapshot ''status'' in
     if status = ''completed'' then
       (let rec = rec\<lparr>tr_Status := TaskCompleted\<rparr> in
        case gomap_get (entries snapshot) ''result'' of None \<Rightarrow> rec
        | Some result \<Rightarrow> (case recoded_result result of None \<Rightarrow> rec
            | Some t \<Rightarrow> rec\<lparr>tr_ToolResult := Some t\<rparr>))
     else if status = ''cancelled'' then rec\<lparr>tr_Status := TaskCancelled\<rparr>
     else if status = ''failed'' then rec\<lparr>tr_Status := TaskFailed\<rparr>
     else if status = ''input_required'' then
       (let rec = rec\<lparr>tr_Status := TaskInputRequired\<rparr>;
            rec = (case as_map (lookup snapshot ''inputRequests'') of Some m \<Rightarrow> rec\<lparr>tr_InputRequests := m\<rparr> | None \<Rightarrow> rec)
        in case as_map (lookup snapshot ''inputRequest'') of Some m \<Rightarrow> rec\<lparr>tr_InputRequest := m\<rparr> | None \<Rightarrow> rec)
     else rec\<lparr>tr_Status := TaskFailed, tr_StatusMessage := ''The Host Agent restarted before the task completed.''\<rparr>)"

definition RestoreSnapshot :: "string \<Rightarrow> anymap \<Rightarrow> Registry \<Rightarrow> Registry \<times> Task option" where
  "RestoreSnapshot now snapshot r =
     (let taskID = str_of snapshot ''taskId''; toolName = str_of snapshot ''toolName'' in
      if taskID = [] \<or> toolName = [] then (r, None)
      else let rec = restored_status snapshot (restored_base now snapshot);
               restored = (gomap_put taskID rec r, Some rec) in
        case gomap_get r taskID of
          Some existing \<Rightarrow> if tr_Status existing = TaskWorking then (r, Some existing) else restored
        | None \<Rightarrow> restored)"

section \<open>Waiting for input\<close>

definition RequireInputWithMetadata :: "string \<Rightarrow> string \<Rightarrow> anymap \<Rightarrow> anymap \<Rightarrow> nat option \<Rightarrow>
    Registry \<Rightarrow> Registry \<times> Task option" where
  "RequireInputWithMetadata now taskID inputRequests inputRequest resume r = (case gomap_get r taskID of
     None \<Rightarrow> (r, None)
   | Some rec \<Rightarrow> if tr_Status rec \<noteq> TaskWorking \<and> tr_Status rec \<noteq> TaskInputRequired then (r, Some rec)
       else let rec = rec\<lparr>tr_Status := TaskInputRequired, tr_StatusMessage := input_message,
              tr_InputRequests := inputRequests, tr_InputRequest := inputRequest, tr_resume := resume,
              tr_LastUpdatedAt := now\<rparr>
         in (gomap_put taskID rec r, Some rec))"

definition RequireInput :: "string \<Rightarrow> string \<Rightarrow> anymap \<Rightarrow> nat option \<Rightarrow> Registry \<Rightarrow> Registry \<times> Task option" where
  "RequireInput now taskID inputRequests resume r =
     RequireInputWithMetadata now taskID inputRequests None resume r"

definition SetResume :: "string \<Rightarrow> nat option \<Rightarrow> Registry \<Rightarrow> Registry \<times> Task option" where
  "SetResume taskID resume r = (case gomap_get r taskID of
     None \<Rightarrow> (r, None)
   | Some rec \<Rightarrow> if tr_Status rec \<noteq> TaskInputRequired then (r, Some rec)
       else let rec = rec\<lparr>tr_resume := resume\<rparr> in (gomap_put taskID rec r, Some rec))"

text \<open>The responses that answer an outstanding request, and the requests that stay outstanding.\<close>

definition accepted_of :: "fields \<Rightarrow> fields \<Rightarrow> fields" where
  "accepted_of outstanding responses = filter (\<lambda>kv. gomap_has outstanding (fst kv)) responses"

definition left_of :: "fields \<Rightarrow> fields \<Rightarrow> fields" where
  "left_of outstanding accepted = filter (\<lambda>kv. \<not> gomap_has accepted (fst kv)) outstanding"

text \<open>\<open>Update\<close> returns the record, whether the task was waiting, and the resume callback it calls.\<close>

definition Update :: "string \<Rightarrow> string \<Rightarrow> anymap \<Rightarrow> Registry \<Rightarrow> Registry \<times> (Task option \<times> bool) \<times> callback list" where
  "Update now taskID responses r = (case gomap_get r taskID of
     None \<Rightarrow> (r, (None, False), [])
   | Some rec \<Rightarrow> if tr_Status rec \<noteq> TaskInputRequired then (r, (Some rec, False), [])
       else
         let outstanding = entries (tr_InputRequests rec);
             accepted = accepted_of outstanding (entries responses);
             left = left_of outstanding accepted;
             rec = rec\<lparr>tr_InputRequests := Some left, tr_LastUpdatedAt := now\<rparr>
         in if left \<noteq> [] then (gomap_put taskID rec r, (Some rec, True), [])
            else let rec = rec\<lparr>tr_Status := TaskWorking, tr_StatusMessage := ''Input received; resuming the task.'',
                   tr_InputRequest := None\<rparr>
              in (gomap_put taskID rec r, (Some rec, True),
                  (case tr_resume rec of None \<Rightarrow> [] | Some f \<Rightarrow> [ResumeCalled taskID f (Some accepted)])))"

section \<open>Reading\<close>

definition Get_task :: "string \<Rightarrow> Registry \<Rightarrow> Task option" where
  "Get_task taskID r = gomap_get r taskID"

definition IsWorking :: "string \<Rightarrow> Registry \<Rightarrow> bool" where
  "IsWorking taskID r = (case gomap_get r taskID of None \<Rightarrow> False | Some rec \<Rightarrow> tr_Status rec = TaskWorking)"

definition List_tasks :: "Registry \<Rightarrow> Task list" where
  "List_tasks r = map snd r"

section \<open>Progress and the end of a task\<close>

definition AppendLog :: "string \<Rightarrow> string \<Rightarrow> string \<Rightarrow> Registry \<Rightarrow> Registry" where
  "AppendLog now taskID message r = (case gomap_get r taskID of
     None \<Rightarrow> r
   | Some rec \<Rightarrow> if tr_Status rec \<noteq> TaskWorking then r
       else gomap_put taskID (rec\<lparr>tr_Logs := tr_Logs rec @ [message], tr_LastUpdatedAt := now\<rparr>) r)"

text \<open>The non-blocking send on the result channel.\<close>

definition offer_result :: "ToolResult \<Rightarrow> ToolResult list \<Rightarrow> ToolResult list" where
  "offer_result t ch = (if length ch < 1 then ch @ [t] else ch)"

definition error_result :: "string \<Rightarrow> ToolResult" where
  "error_result message = \<lparr>to_Content = Some [Some [(''type'', AStr ''text''), (''text'', AStr (''Error: '' @ message))]],
     to_StructuredContent = ANil, to_IsError = True\<rparr>"

definition Complete :: "string \<Rightarrow> string \<Rightarrow> ToolResult \<Rightarrow> Registry \<Rightarrow> Registry" where
  "Complete now taskID result r = (case gomap_get r taskID of
     None \<Rightarrow> r
   | Some rec \<Rightarrow> if tr_Status rec \<noteq> TaskWorking then r
       else gomap_put taskID (rec\<lparr>tr_Status := TaskCompleted,
         tr_StatusMessage := ''The operation completed successfully.'', tr_LastUpdatedAt := now,
         tr_ToolResult := Some result, tr_resultCh := offer_result result (tr_resultCh rec)\<rparr>) r)"

definition Fail_task :: "string \<Rightarrow> string \<Rightarrow> string \<Rightarrow> Registry \<Rightarrow> Registry" where
  "Fail_task now taskID message r = (case gomap_get r taskID of
     None \<Rightarrow> r
   | Some rec \<Rightarrow> if tr_Status rec \<noteq> TaskWorking \<and> tr_Status rec \<noteq> TaskInputRequired then r
       else let result = error_result message in
         gomap_put taskID (rec\<lparr>tr_Status := TaskFailed, tr_StatusMessage := message, tr_LastUpdatedAt := now,
           tr_ToolResult := Some result, tr_resultCh := offer_result result (tr_resultCh rec)\<rparr>) r)"

definition CancelWithMessage :: "string \<Rightarrow> string \<Rightarrow> string \<Rightarrow> Registry \<Rightarrow> Registry \<times> Task option \<times> callback list" where
  "CancelWithMessage now taskID message r = (case gomap_get r taskID of
     None \<Rightarrow> (r, None, [])
   | Some rec \<Rightarrow> if tr_Status rec \<noteq> TaskWorking \<and> tr_Status rec \<noteq> TaskInputRequired then (r, None, [])
       else
         let text = TrimSpace message;
             text = (if text = [] then ''The task was cancelled.'' else text);
             result = error_result text;
             cancelled = rec\<lparr>tr_Status := TaskCancelled, tr_StatusMessage := text, tr_LastUpdatedAt := now,
               tr_ToolResult := Some result, tr_resultCh := offer_result result (tr_resultCh rec)\<rparr>
         in (gomap_put taskID cancelled r, Some cancelled,
             (case tr_cancel rec of None \<Rightarrow> [] | Some f \<Rightarrow> [CancelCalled taskID f])))"

definition Cancel :: "string \<Rightarrow> string \<Rightarrow> Registry \<Rightarrow> Registry \<times> Task option \<times> callback list" where
  "Cancel now taskID r = CancelWithMessage now taskID ''The task was cancelled by request.'' r"

section \<open>Projections\<close>

text \<open>A nil content is shown as the null that it is encoded as.\<close>

definition handle_fields :: "string \<Rightarrow> Task \<Rightarrow> fields" where
  "handle_fields kind rec = [(''resultType'', AStr kind), (''taskId'', AStr (tr_TaskID rec)),
     (''status'', AStr (task_status_text (tr_Status rec))), (''createdAt'', AStr (tr_CreatedAt rec)),
     (''lastUpdatedAt'', AStr (tr_LastUpdatedAt rec)), (''ttlMs'', AFloat (f64_of_int (tr_TTL rec))),
     (''pollIntervalMs'', AFloat (f64_of_int (tr_PollInterval rec)))]"

definition ToCreateTaskResult :: "Task \<Rightarrow> fields" where
  "ToCreateTaskResult rec = handle_fields ''task'' rec"

definition ToGetTaskResult :: "Task \<Rightarrow> fields" where
  "ToGetTaskResult rec = handle_fields ''complete'' rec @
     (if tr_StatusMessage rec \<noteq> [] then [(''statusMessage'', AStr (tr_StatusMessage rec))] else []) @
     (if entries (tr_InputRequests rec) \<noteq> [] then [(''inputRequests'', map_any (tr_InputRequests rec))] else []) @
     (if tr_Status rec = TaskInputRequired \<and> entries (tr_InputRequest rec) \<noteq> []
      then [(''inputRequest'', map_any (tr_InputRequest rec))] else []) @
     (if tr_Status rec = TaskFailed
      then [(''error'', AMap [(''code'', AFloat (f64_of_int (- 32603))), (''message'', AStr (tr_StatusMessage rec))])]
      else if tr_Status rec = TaskCompleted then
        (case tr_ToolResult rec of None \<Rightarrow> []
         | Some t \<Rightarrow> [(''result'', AMap [(''structuredContent'', to_StructuredContent t),
             (''content'', (case to_Content t of None \<Rightarrow> ANil | Some c \<Rightarrow> ASlice (map map_any c))), (''isError'', ABool (to_IsError t))])])
      else [])"

end
