(* ===== verification/Task_Laws.thy ===== *)
theory Task_Laws
  imports Tasks
begin

text \<open>
  What the task registry promises: its operations implement an abstract machine that keeps a status and
  a set of outstanding inputs for each task; a finished task is final; a task resumes once for each time
  it was made to wait.
\<close>

section \<open>Operations as values\<close>

datatype task_op =
    OpCreate string string anymap int string anymap "nat option"
  | OpCreateWithInput string string anymap int string anymap "nat option" anymap "nat option"
  | OpCreateWithID string string anymap int string anymap "nat option"
  | OpRestore anymap
  | OpRequireInput string anymap anymap "nat option"
  | OpSetResume string "nat option"
  | OpAppendLog string string
  | OpComplete string ToolResult
  | OpFail string string
  | OpCancel string string
  | OpUpdate string anymap

fun task_step :: "string \<Rightarrow> task_op \<Rightarrow> Registry \<Rightarrow> Registry \<times> callback list" where
  "task_step now (OpCreate i tool args ttl desc meta c) r = (fst (create now i tool args ttl desc meta c r), [])"
| "task_step now (OpCreateWithInput i tool args ttl desc meta c reqs f) r =
     (fst (CreateWithInput now i tool args ttl desc meta c reqs f r), [])"
| "task_step now (OpCreateWithID i tool args ttl desc meta c) r = (fst (CreateWithID now i tool args ttl desc meta c r), [])"
| "task_step now (OpRestore snapshot) r = (fst (RestoreSnapshot now snapshot r), [])"
| "task_step now (OpRequireInput i reqs req f) r = (fst (RequireInputWithMetadata now i reqs req f r), [])"
| "task_step now (OpSetResume i f) r = (fst (SetResume i f r), [])"
| "task_step now (OpAppendLog i m) r = (AppendLog now i m r, [])"
| "task_step now (OpComplete i t) r = (Complete now i t r, [])"
| "task_step now (OpFail i m) r = (Fail_task now i m r, [])"
| "task_step now (OpCancel i m) r = (case CancelWithMessage now i m r of (r', _, cs) \<Rightarrow> (r', cs))"
| "task_step now (OpUpdate i m) r = (case Update now i m r of (r', _, cs) \<Rightarrow> (r', cs))"

fun task_run :: "(string \<times> task_op) list \<Rightarrow> Registry \<Rightarrow> Registry \<times> callback list" where
  "task_run [] r = (r, [])"
| "task_run ((now, op) # ops) r = (let (r1, cs) = task_step now op r; (r2, cs') = task_run ops r1 in (r2, cs @ cs'))"

section \<open>The abstract machine\<close>

text \<open>What a client sees of a task: its status and the inputs it still waits for.\<close>

type_synonym tasks_view = "string \<Rightarrow> (task_status \<times> string set) option"

definition view :: "Registry \<Rightarrow> tasks_view" where
  "view r i = map_option (\<lambda>t. (tr_Status t, fst ` set (entries (tr_InputRequests t)))) (gomap_get r i)"

definition keys :: "anymap \<Rightarrow> string set" where
  "keys m = fst ` set (entries m)"

definition live :: "tasks_view \<Rightarrow> string \<Rightarrow> bool" where
  "live a i \<longleftrightarrow> (\<exists>K. a i = Some (TaskWorking, K) \<or> a i = Some (TaskInputRequired, K))"

definition working :: "tasks_view \<Rightarrow> string \<Rightarrow> bool" where
  "working a i \<longleftrightarrow> (\<exists>K. a i = Some (TaskWorking, K))"

definition ends :: "task_status \<Rightarrow> string \<Rightarrow> tasks_view \<Rightarrow> tasks_view" where
  "ends st i a = a(i := map_option (\<lambda>x. (st, snd x)) (a i))"

definition restored_view :: "anymap \<Rightarrow> task_status \<times> string set" where
  "restored_view m = (let st = str_of m ''status'' in
     if st = ''completed'' then (TaskCompleted, {}) else if st = ''cancelled'' then (TaskCancelled, {})
     else if st = ''input_required'' then (TaskInputRequired, keys (map_of_key m ''inputRequests''))
     else (TaskFailed, {}))"

fun spec_step :: "task_op \<Rightarrow> tasks_view \<Rightarrow> tasks_view" where
  "spec_step (OpCreate i _ _ _ _ _ _) a = a(i \<mapsto> (TaskWorking, {}))"
| "spec_step (OpCreateWithInput i _ _ _ _ _ _ reqs _) a = a(i \<mapsto> (TaskInputRequired, keys reqs))"
| "spec_step (OpCreateWithID i _ _ _ _ _ _) a = (if working a i then a else a(i \<mapsto> (TaskWorking, {})))"
| "spec_step (OpRestore m) a = (let i = str_of m ''taskId'' in
     if i = [] \<or> str_of m ''toolName'' = [] \<or> working a i then a else a(i \<mapsto> restored_view m))"
| "spec_step (OpRequireInput i reqs _ _) a = (if live a i then a(i \<mapsto> (TaskInputRequired, keys reqs)) else a)"
| "spec_step (OpSetResume _ _) a = a"
| "spec_step (OpAppendLog _ _) a = a"
| "spec_step (OpComplete i _) a = (if working a i then ends TaskCompleted i a else a)"
| "spec_step (OpFail i _) a = (if live a i then ends TaskFailed i a else a)"
| "spec_step (OpCancel i _) a = (if live a i then ends TaskCancelled i a else a)"
| "spec_step (OpUpdate i m) a = (case a i of
     Some (TaskInputRequired, K) \<Rightarrow> a(i \<mapsto> (if K - keys m = {} then TaskWorking else TaskInputRequired, K - keys m))
   | _ \<Rightarrow> a)"

lemma view_put: "view (gomap_put i t r) = (view r)(i \<mapsto> (tr_Status t, keys (tr_InputRequests t)))"
  by (rule ext) (simp add: view_def keys_def)

lemma view_None: "gomap_get r i = None \<Longrightarrow> view r i = None"
  by (simp add: view_def)

lemma view_Some: "gomap_get r i = Some t \<Longrightarrow> view r i = Some (tr_Status t, keys (tr_InputRequests t))"
  by (simp add: view_def keys_def)

lemma newRecord_fields [simp]:
  "tr_Status (newRecord now i tool args ttl desc meta c) = TaskWorking"
  "tr_InputRequests (newRecord now i tool args ttl desc meta c) = None"
  "tr_TaskID (newRecord now i tool args ttl desc meta c) = i"
  by (simp_all add: newRecord_def Let_def)

lemma keys_None [simp]: "keys None = {}"
  by (simp add: keys_def entries_def)

lemma restored_base_fields: "tr_InputRequests (restored_base now m) = None"
  by (simp add: restored_base_def Let_def)

lemma restored_view:
  "(tr_Status (restored_status m (restored_base now m)), keys (tr_InputRequests (restored_status m (restored_base now m))))
    = restored_view m"
  by (simp add: restored_status_def restored_view_def restored_base_fields map_of_key_def Let_def split: option.split)

lemma live_view: "gomap_get r i = Some t \<Longrightarrow> live (view r) i \<longleftrightarrow> tr_Status t = TaskWorking \<or> tr_Status t = TaskInputRequired"
  by (auto simp: live_def view_Some)

lemma working_view: "gomap_get r i = Some t \<Longrightarrow> working (view r) i \<longleftrightarrow> tr_Status t = TaskWorking"
  by (auto simp: working_def view_Some)

lemma absent_view: "gomap_get r i = None \<Longrightarrow> \<not> live (view r) i \<and> \<not> working (view r) i"
  by (auto simp: live_def working_def view_None)

lemma has_keys: "gomap_has (entries m) k \<longleftrightarrow> k \<in> keys m"
  by (auto simp: keys_def map_of_eq_None_iff)

lemma left_keys: "fst ` set (left_of (entries reqs) (accepted_of (entries reqs) (entries m))) = keys reqs - keys m"
  by (force simp: left_of_def accepted_of_def keys_def map_of_eq_None_iff)

lemma left_none: "left_of (entries reqs) (accepted_of (entries reqs) (entries m)) = [] \<longleftrightarrow> keys reqs - keys m = {}"
  using left_keys [of reqs m] by (metis image_is_empty set_empty)

text \<open>
  C11: the registry implements the abstract task machine. Every operation changes the status and the
  outstanding inputs of the tasks exactly as the abstract step says, and of no other task.
\<close>
theorem registry_refines: "view (fst (task_step now op r)) = spec_step op (view r)"
proof (cases op)
  case (OpCreate i tool args ttl desc meta c)
  then show ?thesis by (simp add: create_def view_put Let_def)
next
  case (OpCreateWithInput i tool args ttl desc meta c reqs f)
  then show ?thesis by (simp add: CreateWithInput_def view_put Let_def)
next
  case (OpCreateWithID i tool args ttl desc meta c)
  then show ?thesis
    by (cases "gomap_get r i") (simp_all add: CreateWithID_def view_put absent_view working_view Let_def)
next
  case (OpRestore m)
  then show ?thesis
    by (cases "gomap_get r (str_of m ''taskId'')")
      (simp_all add: RestoreSnapshot_def view_put absent_view working_view restored_view Let_def)
next
  case (OpRequireInput i reqs req f)
  then show ?thesis
    by (cases "gomap_get r i") (auto simp: RequireInputWithMetadata_def view_put absent_view live_view Let_def)
next
  case (OpSetResume i f)
  then show ?thesis
    by (cases "gomap_get r i") (auto simp: SetResume_def view_put view_Some Let_def fun_upd_idem)
next
  case (OpAppendLog i m)
  then show ?thesis
    by (cases "gomap_get r i") (auto simp: AppendLog_def view_put view_Some fun_upd_idem)
next
  case (OpComplete i t)
  then show ?thesis
    by (cases "gomap_get r i") (auto simp: Complete_def view_put view_Some absent_view working_view ends_def)
next
  case (OpFail i m)
  then show ?thesis
    by (cases "gomap_get r i") (auto simp: Fail_task_def view_put view_Some absent_view live_view ends_def Let_def)
next
  case (OpCancel i m)
  then show ?thesis
    by (cases "gomap_get r i") (auto simp: CancelWithMessage_def view_put view_Some absent_view live_view ends_def Let_def)
next
  case (OpUpdate i m)
  show ?thesis
  proof (cases "gomap_get r i")
    case None
    then show ?thesis using OpUpdate by (simp add: Update_def view_None)
  next
    case (Some t)
    have "keys (Some (left_of (entries (tr_InputRequests t)) (accepted_of (entries (tr_InputRequests t)) (entries m))))
        = keys (tr_InputRequests t) - keys m"
      using left_keys [of "tr_InputRequests t" m] by (simp add: keys_def entries_def)
    then show ?thesis
      using OpUpdate Some left_none [of "tr_InputRequests t" m]
      by (cases "tr_Status t") (simp_all add: Update_def view_put view_Some Let_def)
  qed
qed

section \<open>Finished tasks\<close>

definition finished :: "Task \<Rightarrow> bool" where
  "finished t \<longleftrightarrow> tr_Status t \<noteq> TaskWorking \<and> tr_Status t \<noteq> TaskInputRequired"

fun creates :: "string \<Rightarrow> task_op \<Rightarrow> bool" where
  "creates i (OpCreate j _ _ _ _ _ _) \<longleftrightarrow> i = j"
| "creates i (OpCreateWithInput j _ _ _ _ _ _ _ _) \<longleftrightarrow> i = j"
| "creates i (OpCreateWithID j _ _ _ _ _ _) \<longleftrightarrow> i = j"
| "creates i (OpRestore m) \<longleftrightarrow> i = str_of m ''taskId''"
| "creates i _ \<longleftrightarrow> False"

fun about :: "string \<Rightarrow> callback \<Rightarrow> bool" where
  "about i (CancelCalled j _) \<longleftrightarrow> i = j"
| "about i (ResumeCalled j _ _) \<longleftrightarrow> i = j"

lemma finished_step:
  assumes "gomap_get r i = Some t" "finished t" "\<not> creates i op"
  shows "gomap_get (fst (task_step now op r)) i = Some t" and "list_all (\<lambda>c. \<not> about i c) (snd (task_step now op r))"
proof -
  have "gomap_get (fst (task_step now op r)) i = Some t \<and> list_all (\<lambda>c. \<not> about i c) (snd (task_step now op r))"
  proof (cases op)
    case (OpCreate j tool args ttl desc meta c)
    then show ?thesis using assms by (simp add: create_def Let_def)
  next
    case (OpCreateWithInput j tool args ttl desc meta c reqs f)
    then show ?thesis using assms by (simp add: CreateWithInput_def Let_def)
  next
    case (OpCreateWithID j tool args ttl desc meta c)
    then show ?thesis using assms by (cases "gomap_get r j") (auto simp: CreateWithID_def Let_def)
  next
    case (OpRestore m)
    then show ?thesis
      using assms by (cases "gomap_get r (str_of m ''taskId'')") (auto simp: RestoreSnapshot_def Let_def)
  next
    case (OpRequireInput j reqs req f)
    then show ?thesis
      using assms by (cases "gomap_get r j") (auto simp: RequireInputWithMetadata_def finished_def Let_def)
  next
    case (OpSetResume j f)
    then show ?thesis using assms by (cases "gomap_get r j") (auto simp: SetResume_def finished_def Let_def)
  next
    case (OpAppendLog j m)
    then show ?thesis using assms by (cases "gomap_get r j") (auto simp: AppendLog_def finished_def)
  next
    case (OpComplete j x)
    then show ?thesis using assms by (cases "gomap_get r j") (auto simp: Complete_def finished_def)
  next
    case (OpFail j m)
    then show ?thesis using assms by (cases "gomap_get r j") (auto simp: Fail_task_def finished_def Let_def)
  next
    case (OpCancel j m)
    then show ?thesis
      using assms by (cases "gomap_get r j") (auto simp: CancelWithMessage_def finished_def Let_def split: option.splits)
  next
    case (OpUpdate j m)
    then show ?thesis
      using assms by (cases "gomap_get r j") (auto simp: Update_def finished_def Let_def split: option.splits)
  qed
  then show "gomap_get (fst (task_step now op r)) i = Some t" and "list_all (\<lambda>c. \<not> about i c) (snd (task_step now op r))"
    by simp_all
qed

text \<open>
  C23: a finished task is final. Whatever operations follow, unless one creates or restores the task
  anew, its record stays as it is and no callback of it is called: a late completion, failure,
  cancellation, log line or input changes nothing.
\<close>
theorem finished_final:
  assumes "gomap_get r i = Some t" and "finished t" and "\<forall>(now, op) \<in> set ops. \<not> creates i op"
  shows "gomap_get (fst (task_run ops r)) i = Some t \<and> list_all (\<lambda>c. \<not> about i c) (snd (task_run ops r))"
  using assms
proof (induction ops arbitrary: r)
  case (Cons x ops)
  obtain now op where x: "x = (now, op)" by fastforce
  have "\<not> creates i op" using Cons.prems(3) x by simp
  note step = finished_step [OF Cons.prems(1,2) this, of now]
  with Cons.IH [OF step(1) Cons.prems(2)] Cons.prems(3) x show ?case
    by (auto simp: case_prod_beta Let_def)
qed simp

definition demo_working :: Registry where
  "demo_working = fst (Create ''t0'' ''a'' ''tool'' None 0 [] None [])"

definition demo_done :: Registry where
  "demo_done = Complete ''t1'' ''a'' (error_result ''x'') demo_working"

theorem finished_final_witness:
  "gomap_get (fst (task_run [(''t2'', OpFail ''a'' ''late''), (''t3'', OpCancel ''a'' ''m''), (''t4'', OpUpdate ''a'' None)] demo_done)) ''a''
     = Some (the (gomap_get demo_done ''a'')) \<and>
   list_all (\<lambda>c. \<not> about ''a'' c)
     (snd (task_run [(''t2'', OpFail ''a'' ''late''), (''t3'', OpCancel ''a'' ''m''), (''t4'', OpUpdate ''a'' None)] demo_done))"
  by (rule finished_final) (code_simp, code_simp, simp)

section \<open>Resuming\<close>

fun reopens :: "string \<Rightarrow> task_op \<Rightarrow> bool" where
  "reopens i (OpCreateWithInput j _ _ _ _ _ _ _ _) \<longleftrightarrow> i = j"
| "reopens i (OpRestore m) \<longleftrightarrow> i = str_of m ''taskId''"
| "reopens i (OpRequireInput j _ _ _) \<longleftrightarrow> i = j"
| "reopens i _ \<longleftrightarrow> False"

fun resumed :: "string \<Rightarrow> callback list \<Rightarrow> nat" where
  "resumed i [] = 0"
| "resumed i (ResumeCalled j _ _ # cs) = (if i = j then 1 else 0) + resumed i cs"
| "resumed i (CancelCalled _ _ # cs) = resumed i cs"

lemma resumed_append [simp]: "resumed i (cs @ ds) = resumed i cs + resumed i ds"
  by (induction i cs rule: resumed.induct) auto

definition waiting_for_input :: "string \<Rightarrow> Registry \<Rightarrow> bool" where
  "waiting_for_input i r \<longleftrightarrow> (\<exists>t. gomap_get r i = Some t \<and> tr_Status t = TaskInputRequired)"

lemma waiting_view: "waiting_for_input i r \<longleftrightarrow> (\<exists>K. view r i = Some (TaskInputRequired, K))"
  by (auto simp: waiting_for_input_def view_def)

lemma resume_step:
  assumes "\<not> reopens i op"
  shows "waiting_for_input i (fst (task_step now op r)) \<Longrightarrow> waiting_for_input i r \<and> resumed i (snd (task_step now op r)) = 0"
    and "resumed i (snd (task_step now op r)) \<le> (if waiting_for_input i r then 1 else 0)"
proof -
  have quiet: "resumed i (snd (task_step now op r)) = 0" if "\<forall>j m. op \<noteq> OpUpdate j m"
    using that by (cases op) (auto simp: CancelWithMessage_def Let_def split: option.splits)
  have stays: "waiting_for_input i (fst (task_step now op r)) \<Longrightarrow> waiting_for_input i r"
    using assms unfolding waiting_view registry_refines
    by (cases op) (auto simp: ends_def Let_def split: if_splits option.splits task_status.splits)
  have update: "resumed i (snd (task_step now op r)) \<le> (if waiting_for_input i r then 1 else 0) \<and>
      (waiting_for_input i (fst (task_step now op r)) \<longrightarrow> resumed i (snd (task_step now op r)) = 0)"
    if op: "op = OpUpdate j m" for j m
    unfolding op by (cases "gomap_get r j") (auto simp: Update_def waiting_for_input_def Let_def split: option.splits)
  have both: "(waiting_for_input i (fst (task_step now op r)) \<longrightarrow> resumed i (snd (task_step now op r)) = 0) \<and>
      resumed i (snd (task_step now op r)) \<le> (if waiting_for_input i r then 1 else 0)"
  proof (cases "\<exists>j m. op = OpUpdate j m")
    case True
    then obtain j m where "op = OpUpdate j m" by blast
    from update [OF this] show ?thesis by simp
  next
    case False
    then show ?thesis using quiet by simp
  qed
  show "waiting_for_input i (fst (task_step now op r)) \<Longrightarrow> waiting_for_input i r \<and> resumed i (snd (task_step now op r)) = 0"
    using stays both by simp
  show "resumed i (snd (task_step now op r)) \<le> (if waiting_for_input i r then 1 else 0)"
    using both by simp
qed

text \<open>
  C26: a task that waits for input resumes at most once. As long as nothing makes the task wait again,
  any sequence of operations, with any number of updates, calls its continuation at most once, and not
  at all when the task was not waiting.
\<close>
theorem resumes_once:
  assumes "\<forall>(now, op) \<in> set ops. \<not> reopens i op"
  shows "resumed i (snd (task_run ops r)) \<le> (if waiting_for_input i r then 1 else 0)"
  using assms
proof (induction ops arbitrary: r)
  case (Cons x ops)
  obtain now op where x: "x = (now, op)" by fastforce
  let ?r = "fst (task_step now op r)"
  have "\<not> reopens i op" using Cons.prems x by simp
  note step = resume_step [OF this, where now = now and r = r]
  have "resumed i (snd (task_run ops ?r)) \<le> (if waiting_for_input i ?r then 1 else 0)"
    using Cons by simp
  with step x show ?case by (auto simp: case_prod_beta Let_def split: if_splits)
qed simp

definition demo_waiting :: Registry where
  "demo_waiting = fst (CreateWithInput ''t0'' ''a'' ''tool'' None 0 [] None None
     (Some [(''x'', ANil), (''y'', ANil)]) (Some 7) [])"

theorem resumes_once_witness:
  "resumed ''a'' (snd (task_run [(''t1'', OpUpdate ''a'' (Some [(''x'', ANil), (''y'', ANil)])),
     (''t2'', OpUpdate ''a'' (Some [(''x'', ANil)]))] demo_waiting)) \<le> (if waiting_for_input ''a'' demo_waiting then 1 else 0) \<and>
   resumed ''a'' (snd (task_run [(''t1'', OpUpdate ''a'' (Some [(''x'', ANil), (''y'', ANil)])),
     (''t2'', OpUpdate ''a'' (Some [(''x'', ANil)]))] demo_waiting)) = 1"
proof -
  have "resumed ''a'' (snd (task_run [(''t1'', OpUpdate ''a'' (Some [(''x'', ANil), (''y'', ANil)])),
     (''t2'', OpUpdate ''a'' (Some [(''x'', ANil)]))] demo_waiting)) = 1"
    by code_simp
  then show ?thesis by (intro conjI resumes_once) simp_all
qed

text \<open>
  Responses of an earlier partial update are lost. When two requests are outstanding and are answered
  by two updates, the continuation receives the answer of the second only.
\<close>

theorem partial_answers_lost:
  "snd (task_run [(''t1'', OpUpdate ''a'' (Some [(''x'', AStr ''first'')])),
     (''t2'', OpUpdate ''a'' (Some [(''y'', AStr ''second'')]))] demo_waiting)
   = [ResumeCalled ''a'' 7 (Some [(''y'', AStr ''second'')])]"
  by code_simp

end
