(* ===== verification/Cordis_Context.thy ===== *)
theory Cordis_Context
  imports Json
begin

text \<open>
  The provider-neutral lifecycle kernel (\<open>src/internal/cordis/context.go\<close>): plugins mount, provide
  services, register effects and listeners, and are disposed in reverse. Listeners and effects are
  functions on a world of any type \<open>'w\<close>. Mounting and disposing are atomic here: what other goroutines do
  to the kernel while a plugin applies is not represented. The counters do not wrap, and the text of an
  error is reduced to its format and arguments.
\<close>

section \<open>State\<close>

datatype kernel_error =
    Kernelf string "string list"
  | PluginError string                       \<comment> \<open>an error of a plugin, a listener or an effect\<close>
  | ApplyError string kernel_error           \<comment> \<open>\<open>apply plugin %q: %w\<close>\<close>

datatype EventMode = EventEmit | EventWaterfall | EventParallel | EventSerial | OtherMode string

fun mode_text :: "EventMode \<Rightarrow> string" where
  "mode_text EventEmit = ''emit''"
| "mode_text EventWaterfall = ''waterfall''"
| "mode_text EventParallel = ''parallel''"
| "mode_text EventSerial = ''serial''"
| "mode_text (OtherMode s) = s"

type_synonym 'w outcome = "(kernel_error + any) \<times> 'w"

type_synonym 'w EventListener = "any \<Rightarrow> (any \<Rightarrow> 'w \<Rightarrow> 'w outcome) option \<Rightarrow> 'w \<Rightarrow> 'w outcome"

type_synonym 'w disposable = "'w \<Rightarrow> kernel_error option \<times> 'w"

record 'w listenerRegistration =
  lr_id :: nat
  lr_owner :: string
  lr_fn :: "'w EventListener"

record service =
  sk_Key :: string
  sk_payload :: nat

record 'w fiber =
  fb_id :: string
  fb_seq :: nat
  fb_effects :: "'w disposable list"
  fb_listeners :: "(string \<times> nat) list"     \<comment> \<open>the stop functions: event and registration\<close>
  fb_services :: "string list"

record 'w kernel =
  cx_services :: "(string, service) gomap"
  cx_serviceOwner :: "(string, string) gomap"
  cx_plugins :: "(string, 'w fiber) gomap"
  cx_listeners :: "(string, 'w listenerRegistration list) gomap"
  cx_eventDefs :: "(string, EventMode) gomap"
  cx_current :: "'w fiber option"
  cx_nextID :: nat
  cx_nextFiberSeq :: nat

definition NewContext :: "'w kernel" where
  "NewContext = \<lparr>cx_services = [], cx_serviceOwner = [], cx_plugins = [], cx_listeners = [], cx_eventDefs = [],
     cx_current = None, cx_nextID = 0, cx_nextFiberSeq = 0\<rparr>"

section \<open>Registration\<close>

definition DefineEvent :: "string \<Rightarrow> EventMode \<Rightarrow> 'w kernel \<Rightarrow> 'w kernel \<times> kernel_error option" where
  "DefineEvent name mode c =
     (if name = [] then (c, Some (Kernelf ''event name is required'' []))
      else case mode of OtherMode m \<Rightarrow> (c, Some (Kernelf ''unsupported event mode %q'' [m]))
      | _ \<Rightarrow> if gomap_has (cx_eventDefs c) name then (c, Some (Kernelf ''event %q is already defined'' [name]))
          else (c\<lparr>cx_eventDefs := gomap_put name mode (cx_eventDefs c)\<rparr>, None))"

definition Provide :: "service option \<Rightarrow> 'w kernel \<Rightarrow> 'w kernel \<times> kernel_error option" where
  "Provide service c = (case service of
     None \<Rightarrow> (c, Some (Kernelf ''service and service key are required'' []))
   | Some s \<Rightarrow> if sk_Key s = [] then (c, Some (Kernelf ''service and service key are required'' []))
       else (case cx_current c of
           None \<Rightarrow> (c, Some (Kernelf ''service %q must be provided from a plugin'' [sk_Key s]))
         | Some f \<Rightarrow> if gomap_has (cx_services c) (sk_Key s)
             then (c, Some (Kernelf ''service %q is already provided'' [sk_Key s]))
             else (c\<lparr>cx_services := gomap_put (sk_Key s) s (cx_services c),
                 cx_serviceOwner := gomap_put (sk_Key s) (fb_id f) (cx_serviceOwner c),
                 cx_current := Some (f\<lparr>fb_services := fb_services f @ [sk_Key s]\<rparr>)\<rparr>, None)))"

definition Resolve :: "string \<Rightarrow> 'w kernel \<Rightarrow> service option" where
  "Resolve key c = gomap_get (cx_services c) key"

text \<open>The fiber that applies is not disposed, so the check for that in \<open>Effect\<close> has no branch here.\<close>

definition Effect :: "'w disposable option \<Rightarrow> 'w kernel \<Rightarrow> 'w kernel \<times> kernel_error option" where
  "Effect eff c = (case eff of None \<Rightarrow> (c, Some (Kernelf ''effect is required'' []))
     | Some e \<Rightarrow> (case cx_current c of
         None \<Rightarrow> (c, Some (Kernelf ''no plugin fiber is applying'' []))
       | Some f \<Rightarrow> (c\<lparr>cx_current := Some (f\<lparr>fb_effects := fb_effects f @ [e]\<rparr>)\<rparr>, None)))"

definition On :: "string \<Rightarrow> 'w EventListener option \<Rightarrow> 'w kernel \<Rightarrow> 'w kernel \<times> (kernel_error + string \<times> nat)" where
  "On event listener c = (case listener of
     None \<Rightarrow> (c, Inl (Kernelf ''event and listener are required'' []))
   | Some fn \<Rightarrow> if event = [] then (c, Inl (Kernelf ''event and listener are required'' []))
       else (case cx_current c of
           None \<Rightarrow> (c, Inl (Kernelf ''event listener must be registered from a plugin'' []))
         | Some f \<Rightarrow> if \<not> gomap_has (cx_eventDefs c) event then (c, Inl (Kernelf ''event %q is not defined'' [event]))
             else let n = cx_nextID c + 1; stop = (event, n) in
               (c\<lparr>cx_nextID := n,
                  cx_listeners := gomap_put event
                    (gomap_or (cx_listeners c) event [] @ [\<lparr>lr_id = n, lr_owner = fb_id f, lr_fn = fn\<rparr>]) (cx_listeners c),
                  cx_current := Some (f\<lparr>fb_listeners := fb_listeners f @ [stop]\<rparr>)\<rparr>, Inr stop)))"

fun remove_first :: "('a \<Rightarrow> bool) \<Rightarrow> 'a list \<Rightarrow> 'a list" where
  "remove_first P [] = []"
| "remove_first P (x # xs) = (if P x then xs else x # remove_first P xs)"

text \<open>The stop function of a listener.\<close>

definition stopListener :: "string \<times> nat \<Rightarrow> 'w kernel \<Rightarrow> 'w kernel" where
  "stopListener stop c = (case stop of (event, n) \<Rightarrow>
     (let ls = gomap_or (cx_listeners c) event [] in
      if list_ex (\<lambda>l. lr_id l = n) ls
      then c\<lparr>cx_listeners := gomap_put event (remove_first (\<lambda>l. lr_id l = n) ls) (cx_listeners c)\<rparr> else c))"

section \<open>Events\<close>

definition snapshotListeners :: "string \<Rightarrow> EventMode \<Rightarrow> 'w kernel \<Rightarrow> kernel_error + 'w listenerRegistration list" where
  "snapshotListeners event expected c = (case gomap_get (cx_eventDefs c) event of
     None \<Rightarrow> Inl (Kernelf ''event %q is not defined'' [event])
   | Some mode \<Rightarrow> if mode \<noteq> expected
       then Inl (Kernelf ''event %q is %s, requested %s'' [event, mode_text mode, mode_text expected])
       else Inr (gomap_or (cx_listeners c) event []))"

fun notify_in_order :: "'w listenerRegistration list \<Rightarrow> any \<Rightarrow> 'w \<Rightarrow> kernel_error option \<times> 'w" where
  "notify_in_order [] v w = (None, w)"
| "notify_in_order (l # ls) v w = (case lr_fn l v None w of
     (Inl e, w') \<Rightarrow> (Some e, w') | (Inr _, w') \<Rightarrow> notify_in_order ls v w')"

definition Emit :: "string \<Rightarrow> any \<Rightarrow> 'w kernel \<Rightarrow> 'w \<Rightarrow> kernel_error option \<times> 'w" where
  "Emit event v c w = (case snapshotListeners event EventEmit c of
     Inl e \<Rightarrow> (Some e, w) | Inr ls \<Rightarrow> notify_in_order ls v w)"

definition Serial :: "string \<Rightarrow> any \<Rightarrow> 'w kernel \<Rightarrow> 'w \<Rightarrow> kernel_error option \<times> 'w" where
  "Serial event v c w = (case snapshotListeners event EventSerial c of
     Inl e \<Rightarrow> (Some e, w) | Inr ls \<Rightarrow> notify_in_order ls v w)"

text \<open>All listeners run; the order in which they do is the argument \<open>order\<close>, a list of indices.\<close>

fun notify_all :: "'w listenerRegistration list \<Rightarrow> any \<Rightarrow> 'w \<Rightarrow> kernel_error list \<times> 'w" where
  "notify_all [] v w = ([], w)"
| "notify_all (l # ls) v w = (case lr_fn l v None w of (r, w1) \<Rightarrow>
     (case notify_all ls v w1 of (es, w2) \<Rightarrow> ((case r of Inl e \<Rightarrow> e # es | Inr _ \<Rightarrow> es), w2)))"

definition Parallel :: "nat list \<Rightarrow> string \<Rightarrow> any \<Rightarrow> 'w kernel \<Rightarrow> 'w \<Rightarrow> kernel_error option \<times> 'w" where
  "Parallel order event v c w = (case snapshotListeners event EventParallel c of
     Inl e \<Rightarrow> (Some e, w)
   | Inr ls \<Rightarrow> (case notify_all (map (\<lambda>i. ls ! i) order) v w of
        ([], w') \<Rightarrow> (None, w') | (e # _, w') \<Rightarrow> (Some e, w')))"

fun invoke :: "'w listenerRegistration list \<Rightarrow> any \<Rightarrow> 'w \<Rightarrow> 'w outcome" where
  "invoke [] v w = (Inr v, w)"
| "invoke (l # ls) v w = lr_fn l v (Some (invoke ls)) w"

definition Waterfall :: "string \<Rightarrow> any \<Rightarrow> 'w kernel \<Rightarrow> 'w \<Rightarrow> 'w outcome" where
  "Waterfall event v c w = (case snapshotListeners event EventWaterfall c of
     Inl e \<Rightarrow> (Inl e, w) | Inr ls \<Rightarrow> invoke ls v w)"

section \<open>Disposal\<close>

fun dispose_effects :: "'w disposable list \<Rightarrow> 'w \<Rightarrow> kernel_error option \<times> 'w" where
  "dispose_effects [] w = (None, w)"
| "dispose_effects (e # es) w = (case e w of (err, w1) \<Rightarrow> (case dispose_effects es w1 of (err', w2) \<Rightarrow>
     ((case err of None \<Rightarrow> err' | Some x \<Rightarrow> Some x), w2)))"

definition release_service :: "string \<Rightarrow> string \<Rightarrow> 'w kernel \<Rightarrow> 'w kernel" where
  "release_service owner key c = (if gomap_get (cx_serviceOwner c) key = Some owner
     then c\<lparr>cx_serviceOwner := gomap_del key (cx_serviceOwner c), cx_services := gomap_del key (cx_services c)\<rparr> else c)"

definition fiber_Dispose :: "'w fiber \<Rightarrow> 'w kernel \<Rightarrow> 'w \<Rightarrow> 'w kernel \<times> 'w \<times> kernel_error option" where
  "fiber_Dispose f c w =
     (let c1 = fold stopListener (rev (fb_listeners f)) c;
          (firstErr, w1) = dispose_effects (rev (fb_effects f)) w;
          c2 = fold (release_service (fb_id f)) (fb_services f) c1
      in (c2\<lparr>cx_plugins := gomap_del (fb_id f) (cx_plugins c2)\<rparr>, w1, firstErr))"

definition DisposePlugin :: "string \<Rightarrow> 'w kernel \<Rightarrow> 'w \<Rightarrow> 'w kernel \<times> 'w \<times> kernel_error option" where
  "DisposePlugin i c w = (case gomap_get (cx_plugins c) i of None \<Rightarrow> (c, w, None) | Some f \<Rightarrow> fiber_Dispose f c w)"

fun dispose_all :: "'w fiber list \<Rightarrow> 'w kernel \<Rightarrow> 'w \<Rightarrow> 'w kernel \<times> 'w \<times> kernel_error option" where
  "dispose_all [] c w = (c, w, None)"
| "dispose_all (f # fs) c w = (case fiber_Dispose f c w of (c1, w1, err) \<Rightarrow> (case dispose_all fs c1 w1 of
     (c2, w2, err') \<Rightarrow> (c2, w2, (case err of None \<Rightarrow> err' | Some x \<Rightarrow> Some x))))"

definition mounted :: "'w kernel \<Rightarrow> 'w fiber list" where
  "mounted c = sort_key fb_seq (map snd (cx_plugins c))"

definition Context_Dispose :: "'w kernel \<Rightarrow> 'w \<Rightarrow> 'w kernel \<times> 'w \<times> kernel_error option" where
  "Context_Dispose c w = dispose_all (rev (mounted c)) c w"

definition ServiceKeys :: "'w kernel \<Rightarrow> string list" where
  "ServiceKeys c = sort (map fst (cx_services c))"

definition PluginIDs :: "'w kernel \<Rightarrow> string list" where
  "PluginIDs c = map fb_id (mounted c)"

section \<open>Mounting\<close>

text \<open>What a plugin does while it applies: a sequence of calls, each chosen by the results before it.\<close>

datatype 'w applying =
    Applied "kernel_error + 'w disposable option"
  | CallProvide "service option" "kernel_error option \<Rightarrow> 'w applying"
  | CallEffect "'w disposable option" "kernel_error option \<Rightarrow> 'w applying"
  | CallOn string "'w EventListener option" "kernel_error + string \<times> nat \<Rightarrow> 'w applying"
  | CallDefineEvent string EventMode "kernel_error option \<Rightarrow> 'w applying"

primrec run_apply :: "'w applying \<Rightarrow> 'w kernel \<Rightarrow> 'w kernel \<times> (kernel_error + 'w disposable option)" where
  "run_apply (Applied r) c = (c, r)"
| "run_apply (CallProvide s k) c = (case Provide s c of (c', e) \<Rightarrow> run_apply (k e) c')"
| "run_apply (CallEffect s k) c = (case Effect s c of (c', e) \<Rightarrow> run_apply (k e) c')"
| "run_apply (CallOn ev l k) c = (case On ev l c of (c', r) \<Rightarrow> run_apply (k r) c')"
| "run_apply (CallDefineEvent n m k) c = (case DefineEvent n m c of (c', e) \<Rightarrow> run_apply (k e) c')"

record 'w plugin =
  pg_ID :: string
  pg_Inject :: "string list"
  pg_Apply :: "'w applying"

definition Plugin :: "'w plugin option \<Rightarrow> 'w kernel \<Rightarrow> 'w \<Rightarrow> 'w kernel \<times> 'w \<times> (kernel_error + 'w fiber)" where
  "Plugin plugin c w = (case plugin of
     None \<Rightarrow> (c, w, Inl (Kernelf ''plugin and plugin id are required'' []))
   | Some p \<Rightarrow>
      if pg_ID p = [] then (c, w, Inl (Kernelf ''plugin and plugin id are required'' []))
      else if gomap_has (cx_plugins c) (pg_ID p) then (c, w, Inl (Kernelf ''plugin %q is already mounted'' [pg_ID p]))
      else (case find (\<lambda>d. \<not> gomap_has (cx_services c) d) (pg_Inject p) of
          Some d \<Rightarrow> (c, w, Inl (Kernelf ''plugin %q requires unavailable service %q'' [pg_ID p, d]))
        | None \<Rightarrow>
           let seq = cx_nextFiberSeq c + 1;
               f = \<lparr>fb_id = pg_ID p, fb_seq = seq, fb_effects = [], fb_listeners = [], fb_services = []\<rparr>;
               (c1, r) = run_apply (pg_Apply p) (c\<lparr>cx_nextFiberSeq := seq, cx_current := Some f\<rparr>);
               f = (case cx_current c1 of Some g \<Rightarrow> g | None \<Rightarrow> f);
               c2 = c1\<lparr>cx_current := None\<rparr>
           in (case r of
               Inl e \<Rightarrow> (case fiber_Dispose f c2 w of (c3, w1, _) \<Rightarrow>
                 (c3, w1, Inl (ApplyError (pg_ID p) e)))
             | Inr eff \<Rightarrow>
                 let f = (case eff of None \<Rightarrow> f | Some e \<Rightarrow> f\<lparr>fb_effects := fb_effects f @ [e]\<rparr>)
                 in (c2\<lparr>cx_plugins := gomap_put (pg_ID p) f (cx_plugins c2)\<rparr>, w, Inr f))))"

end
