(* ===== verification/Cordis_Laws.thy ===== *)
theory Cordis_Laws
  imports Cordis_Context
begin

text \<open>
  What the lifecycle kernel promises: disposing it undoes every registration, in the reverse of the order
  in which they were made, and a plugin that fails to apply, or is disposed, leaves the kernel as it was.
\<close>

section \<open>Stopping listeners\<close>

definition listeners_of :: "'w kernel \<Rightarrow> string \<Rightarrow> 'w listenerRegistration list" where
  "listeners_of c ev = gomap_or (cx_listeners c) ev []"

lemma gomap_or_update [simp]: "gomap_or (gomap_put k v m) k' z = (if k' = k then v else gomap_or m k' z)"
  by (simp add: gomap_or_def)

lemma remove_first_none: "\<not> list_ex P xs \<Longrightarrow> remove_first P xs = xs"
  by (induction xs) auto

lemma listeners_of_stop: "listeners_of (stopListener (ev, n) c) ev' =
    (if ev' = ev then remove_first (\<lambda>l. lr_id l = n) (listeners_of c ev) else listeners_of c ev')"
  by (auto simp: stopListener_def listeners_of_def Let_def remove_first_none)

lemma stopListener_fields [simp]:
  "cx_services (stopListener s c) = cx_services c" "cx_serviceOwner (stopListener s c) = cx_serviceOwner c"
  "cx_plugins (stopListener s c) = cx_plugins c" "cx_current (stopListener s c) = cx_current c"
  "cx_eventDefs (stopListener s c) = cx_eventDefs c" "cx_nextID (stopListener s c) = cx_nextID c"
  "cx_nextFiberSeq (stopListener s c) = cx_nextFiberSeq c"
  by (auto simp: stopListener_def Let_def split: prod.splits)

lemma stop_all_fields [simp]:
  "cx_services (fold stopListener ss c) = cx_services c" "cx_serviceOwner (fold stopListener ss c) = cx_serviceOwner c"
  "cx_plugins (fold stopListener ss c) = cx_plugins c" "cx_current (fold stopListener ss c) = cx_current c"
  "cx_eventDefs (fold stopListener ss c) = cx_eventDefs c" "cx_nextID (fold stopListener ss c) = cx_nextID c"
  "cx_nextFiberSeq (fold stopListener ss c) = cx_nextFiberSeq c"
  by (induction ss arbitrary: c) auto

lemma release_fields [simp]:
  "cx_listeners (release_service i k c) = cx_listeners c" "cx_plugins (release_service i k c) = cx_plugins c"
  "cx_current (release_service i k c) = cx_current c" "cx_eventDefs (release_service i k c) = cx_eventDefs c"
  "cx_nextID (release_service i k c) = cx_nextID c" "cx_nextFiberSeq (release_service i k c) = cx_nextFiberSeq c"
  by (auto simp: release_service_def)

lemma release_all_fields [simp]:
  "cx_listeners (fold (release_service i) ks c) = cx_listeners c" "cx_plugins (fold (release_service i) ks c) = cx_plugins c"
  "cx_current (fold (release_service i) ks c) = cx_current c" "cx_eventDefs (fold (release_service i) ks c) = cx_eventDefs c"
  "cx_nextID (fold (release_service i) ks c) = cx_nextID c"
  "cx_nextFiberSeq (fold (release_service i) ks c) = cx_nextFiberSeq c"
  by (induction ks arbitrary: c) auto

lemma release_all_get:
  "gomap_get (cx_serviceOwner (fold (release_service i) ks c)) k =
     (if k \<in> set ks \<and> gomap_get (cx_serviceOwner c) k = Some i then None else gomap_get (cx_serviceOwner c) k)"
  "gomap_get (cx_services (fold (release_service i) ks c)) k =
     (if k \<in> set ks \<and> gomap_get (cx_serviceOwner c) k = Some i then None else gomap_get (cx_services c) k)"
proof (induction ks arbitrary: c)
  case Nil
  case 1 show ?case by simp
  case 2 show ?case by simp
next
  case (Cons a ks)
  case 1 show ?case using Cons by (auto simp: release_service_def)
  case 2 show ?case using Cons by (auto simp: release_service_def)
qed

section \<open>The invariant\<close>

text \<open>Every registration is on the list of a fiber among those given: services, owners, listeners and the
  plugins themselves; the listeners of an event have different numbers.\<close>

definition covered :: "'w fiber list \<Rightarrow> 'w kernel \<Rightarrow> bool" where
  "covered fs c \<longleftrightarrow>
     (\<forall>k. gomap_has (cx_services c) k \<longleftrightarrow> gomap_has (cx_serviceOwner c) k) \<and>
     (\<forall>k i. gomap_get (cx_serviceOwner c) k = Some i \<longrightarrow> (\<exists>f \<in> set fs. fb_id f = i \<and> k \<in> set (fb_services f))) \<and>
     (\<forall>ev. \<forall>l \<in> set (listeners_of c ev). \<exists>f \<in> set fs. (ev, lr_id l) \<in> set (fb_listeners f)) \<and>
     (\<forall>i f. gomap_get (cx_plugins c) i = Some f \<longrightarrow> fb_id f = i \<and> f \<in> set fs) \<and>
     (\<forall>ev. distinct (map lr_id (listeners_of c ev)))"

lemma remove_first_distinct:
  "distinct (map lr_id ls) \<Longrightarrow> remove_first (\<lambda>l. lr_id l = n) ls = filter (\<lambda>l. lr_id l \<noteq> n) ls"
proof (induction ls)
  case (Cons a ls)
  have "ls = filter (\<lambda>l. lr_id l \<noteq> lr_id a) ls"
    using Cons.prems by (intro filter_True [symmetric]) (auto simp: image_iff)
  with Cons show ?case by auto
qed simp

lemma distinct_filter_ids: "distinct (map lr_id ls) \<Longrightarrow> distinct (map lr_id (filter P ls))"
  by (induction ls) auto

lemma stop_all_listeners:
  assumes "\<forall>ev. distinct (map lr_id (listeners_of c ev))"
  shows "listeners_of (fold stopListener ss c) ev = filter (\<lambda>l. (ev, lr_id l) \<notin> set ss) (listeners_of c ev)"
  using assms
proof (induction ss arbitrary: c)
  case (Cons s ss)
  obtain ev0 n where s: "s = (ev0, n)" by fastforce
  have d: "\<forall>ev. distinct (map lr_id (listeners_of (stopListener s c) ev))"
    using Cons.prems by (simp add: s listeners_of_stop remove_first_distinct distinct_filter_ids)
  show ?case
    using Cons.IH [OF d] Cons.prems by (auto simp: s listeners_of_stop remove_first_distinct intro: filter_cong)
qed simp

lemma listeners_of_cong: "cx_listeners c = cx_listeners c' \<Longrightarrow> listeners_of c ev = listeners_of c' ev"
  by (simp add: listeners_of_def)

lemma dispose_covered:
  assumes "covered (f # fs) c"
  shows "covered fs (fst (fiber_Dispose f c w))"
proof -
  let ?c1 = "fold stopListener (rev (fb_listeners f)) c"
  let ?c2 = "fold (release_service (fb_id f)) (fb_services f) ?c1"
  let ?c3 = "?c2\<lparr>cx_plugins := gomap_del (fb_id f) (cx_plugins ?c2)\<rparr>"
  have c3: "fst (fiber_Dispose f c w) = ?c3"
    by (simp add: fiber_Dispose_def Let_def split: prod.splits)
  have distinct: "\<forall>ev. distinct (map lr_id (listeners_of c ev))" using assms by (simp add: covered_def)
  have ls: "listeners_of ?c3 ev = listeners_of ?c1 ev" for ev
    by (rule listeners_of_cong) simp
  note stop = stop_all_listeners [OF distinct, of "rev (fb_listeners f)"]
  have A: "\<forall>k. gomap_has (cx_services ?c3) k \<longleftrightarrow> gomap_has (cx_serviceOwner ?c3) k"
    using assms by (simp add: covered_def release_all_get)
  have B: "\<exists>g \<in> set fs. fb_id g = i \<and> k \<in> set (fb_services g)" if owner: "gomap_get (cx_serviceOwner ?c3) k = Some i" for k i
  proof -
    have "gomap_get (cx_serviceOwner c) k = Some i" "\<not> (k \<in> set (fb_services f) \<and> fb_id f = i)"
      using owner by (auto simp: release_all_get split: if_splits)
    moreover from this(1) obtain g where "g \<in> set (f # fs)" "fb_id g = i" "k \<in> set (fb_services g)"
      using assms unfolding covered_def by blast
    ultimately show ?thesis by (cases "g = f") auto
  qed
  have C: "\<exists>g \<in> set fs. (ev, lr_id l) \<in> set (fb_listeners g)" if l: "l \<in> set (listeners_of ?c3 ev)" for ev l
  proof -
    have "l \<in> set (listeners_of c ev)" "(ev, lr_id l) \<notin> set (fb_listeners f)"
      using l stop [of ev] unfolding ls by auto
    moreover from this(1) obtain g where "g \<in> set (f # fs)" "(ev, lr_id l) \<in> set (fb_listeners g)"
      using assms unfolding covered_def by blast
    ultimately show ?thesis by (cases "g = f") auto
  qed
  have D: "fb_id g = i \<and> g \<in> set fs" if g: "gomap_get (cx_plugins ?c3) i = Some g" for i g
  proof -
    have "gomap_get (cx_plugins c) i = Some g" "i \<noteq> fb_id f" using g by (auto split: if_splits)
    then have "fb_id g = i \<and> g \<in> set (f # fs)" using assms unfolding covered_def by blast
    with \<open>i \<noteq> fb_id f\<close> show ?thesis by auto
  qed
  have E: "distinct (map lr_id (listeners_of ?c3 ev))" for ev
    using distinct unfolding ls stop by (simp add: distinct_filter_ids)
  show ?thesis
    unfolding c3 covered_def using A B C D E by blast
qed

lemma dispose_all_covered: "covered fs c \<Longrightarrow> covered [] (fst (dispose_all fs c w))"
proof (induction fs arbitrary: c w)
  case (Cons f fs)
  from dispose_covered [OF Cons.prems, of w] Cons.IH show ?case
    by (auto split: prod.splits) (metis fst_conv)
qed simp

lemma covered_cong: "set fs = set gs \<Longrightarrow> covered fs c \<longleftrightarrow> covered gs c"
  by (simp add: covered_def)

section \<open>Mounting\<close>

text \<open>What applying a plugin adds to the kernel \<open>c\<close> is on the fiber's lists, and was not there before.\<close>

definition grew :: "'w kernel \<Rightarrow> 'w kernel \<Rightarrow> 'w fiber \<Rightarrow> bool" where
  "grew c c1 f \<longleftrightarrow> cx_plugins c1 = cx_plugins c \<and> cx_nextID c \<le> cx_nextID c1 \<and>
     (\<forall>k. k \<notin> set (fb_services f) \<longrightarrow> gomap_get (cx_services c1) k = gomap_get (cx_services c) k \<and>
        gomap_get (cx_serviceOwner c1) k = gomap_get (cx_serviceOwner c) k) \<and>
     (\<forall>k \<in> set (fb_services f). gomap_get (cx_services c) k = None \<and> gomap_get (cx_serviceOwner c) k = None \<and>
        gomap_has (cx_services c1) k \<and> gomap_get (cx_serviceOwner c1) k = Some (fb_id f)) \<and>
     (\<forall>s \<in> set (fb_listeners f). cx_nextID c < snd s \<and> snd s \<le> cx_nextID c1) \<and>
     (\<forall>ev. \<exists>new. listeners_of c1 ev = listeners_of c ev @ new \<and>
        (\<forall>l \<in> set new. (ev, lr_id l) \<in> set (fb_listeners f)) \<and> distinct (map lr_id new))"

definition applying :: "'w kernel \<Rightarrow> string \<Rightarrow> nat \<Rightarrow> 'w kernel \<Rightarrow> bool" where
  "applying c i n c1 \<longleftrightarrow> (\<exists>f. cx_current c1 = Some f \<and> fb_id f = i \<and> fb_seq f = n \<and> cx_nextFiberSeq c1 = n \<and> grew c c1 f)"

lemma applying_Provide:
  assumes "applying c i n c1" "\<forall>k. gomap_has (cx_services c) k \<longleftrightarrow> gomap_has (cx_serviceOwner c) k"
  shows "applying c i n (fst (Provide s c1))"
proof (cases "snd (Provide s c1)")
  case (Some e)
  then have "fst (Provide s c1) = c1" by (auto simp: Provide_def split: option.splits if_splits)
  with assms(1) show ?thesis by simp
next
  case None
  obtain f where f: "cx_current c1 = Some f" "fb_id f = i" "fb_seq f = n" "cx_nextFiberSeq c1 = n" "grew c c1 f"
    using assms(1) by (auto simp: applying_def)
  obtain x where x: "s = Some x" "gomap_get (cx_services c1) (sk_Key x) = None"
    "fst (Provide s c1) = c1\<lparr>cx_services := gomap_put (sk_Key x) x (cx_services c1),
       cx_serviceOwner := gomap_put (sk_Key x) (fb_id f) (cx_serviceOwner c1),
       cx_current := Some (f\<lparr>fb_services := fb_services f @ [sk_Key x]\<rparr>)\<rparr>"
    using None f(1) by (auto simp: Provide_def split: option.splits if_splits)
  let ?g = "f\<lparr>fb_services := fb_services f @ [sk_Key x]\<rparr>"
  have "sk_Key x \<notin> set (fb_services f)"
    using f(5) x(2) by (auto simp: grew_def)
  then have "gomap_get (cx_services c) (sk_Key x) = None"
    using f(5) x(2) by (simp add: grew_def)
  moreover from this have "gomap_get (cx_serviceOwner c) (sk_Key x) = None"
    using assms(2) [rule_format, of "sk_Key x"] by (cases "gomap_get (cx_serviceOwner c) (sk_Key x)") auto
  ultimately have "grew c (fst (Provide s c1)) ?g"
    using f(5) unfolding grew_def x(3) by (auto simp: listeners_of_def)
  with f x(3) show ?thesis unfolding applying_def by (intro exI [of _ ?g]) simp
qed

lemma applying_Effect: "applying c i n c1 \<Longrightarrow> applying c i n (fst (Effect e c1))"
  by (auto simp: applying_def Effect_def grew_def listeners_of_def split: option.splits)

lemma applying_DefineEvent: "applying c i n c1 \<Longrightarrow> applying c i n (fst (DefineEvent nm m c1))"
  by (cases m) (auto simp: applying_def DefineEvent_def grew_def listeners_of_def)

lemma applying_On:
  assumes "applying c i n c1"
  shows "applying c i n (fst (On ev l c1))"
proof (cases "isl (snd (On ev l c1))")
  case True
  then have "fst (On ev l c1) = c1" by (auto simp: On_def Let_def split: option.splits if_splits)
  with assms show ?thesis by simp
next
  case False
  obtain f where f: "cx_current c1 = Some f" "fb_id f = i" "fb_seq f = n" "cx_nextFiberSeq c1 = n" "grew c c1 f"
    using assms by (auto simp: applying_def)
  let ?n = "cx_nextID c1 + 1"
  let ?g = "f\<lparr>fb_listeners := fb_listeners f @ [(ev, ?n)]\<rparr>"
  obtain fn where l: "l = Some fn" using False by (auto simp: On_def split: option.splits)
  let ?reg = "\<lparr>lr_id = ?n, lr_owner = fb_id f, lr_fn = fn\<rparr>"
  let ?c2 = "c1\<lparr>cx_nextID := ?n, cx_listeners := gomap_put ev (gomap_or (cx_listeners c1) ev [] @ [?reg]) (cx_listeners c1),
      cx_current := Some ?g\<rparr>"
  have c2: "fst (On ev l c1) = ?c2"
    using False f(1) l by (auto simp: On_def Let_def split: if_splits)
  have ls: "listeners_of ?c2 ev' = listeners_of c1 ev' @ (if ev' = ev then [?reg] else [])" for ev'
    by (simp add: listeners_of_def)
  have "\<exists>new. listeners_of ?c2 ev' = listeners_of c ev' @ new \<and>
      (\<forall>l \<in> set new. (ev', lr_id l) \<in> set (fb_listeners ?g)) \<and> distinct (map lr_id new)" for ev'
  proof -
    obtain new where new: "listeners_of c1 ev' = listeners_of c ev' @ new"
        "\<forall>l \<in> set new. (ev', lr_id l) \<in> set (fb_listeners f)" "distinct (map lr_id new)"
      using f(5) unfolding grew_def by blast
    have "\<forall>l \<in> set new. lr_id l \<le> cx_nextID c1" using f(5) new(2) unfolding grew_def by fastforce
    then have "lr_id ` set new \<subseteq> {..cx_nextID c1}" by auto
    then have "?n \<notin> lr_id ` set new" by auto
    then show ?thesis using new ls [of ev'] by (intro exI [of _ "new @ (if ev' = ev then [?reg] else [])"]) auto
  qed
  then have "grew c ?c2 ?g" using f(5) unfolding grew_def by fastforce
  with f c2 show ?thesis unfolding applying_def by (intro exI [of _ ?g]) simp
qed

lemma applying_run:
  "applying c i n c1 \<Longrightarrow> \<forall>k. gomap_has (cx_services c) k \<longleftrightarrow> gomap_has (cx_serviceOwner c) k \<Longrightarrow>
    applying c i n (fst (run_apply p c1))"
proof (induction p arbitrary: c1)
  case (CallProvide s k)
  show ?case
    using CallProvide.IH [OF _ applying_Provide [OF CallProvide.prems, of s] CallProvide.prems(2)]
    by (auto simp: case_prod_beta)
next
  case (CallEffect e k)
  show ?case
    using CallEffect.IH [OF _ applying_Effect [OF CallEffect.prems(1), of e] CallEffect.prems(2)]
    by (auto simp: case_prod_beta)
next
  case (CallOn ev l k)
  show ?case
    using CallOn.IH [OF _ applying_On [OF CallOn.prems(1), of ev l] CallOn.prems(2)]
    by (auto simp: case_prod_beta)
next
  case (CallDefineEvent nm m k)
  show ?case
    using CallDefineEvent.IH [OF _ applying_DefineEvent [OF CallDefineEvent.prems(1), of nm m] CallDefineEvent.prems(2)]
    by (auto simp: case_prod_beta)
qed simp

section \<open>Reachable kernels\<close>

definition kernel_inv :: "'w kernel \<Rightarrow> bool" where
  "kernel_inv c \<longleftrightarrow> covered (map snd (cx_plugins c)) c \<and> wf_gomap (cx_plugins c) \<and> cx_current c = None \<and>
     (\<forall>ev. \<forall>l \<in> set (listeners_of c ev). lr_id l \<le> cx_nextID c)"

definition same_registrations :: "'w kernel \<Rightarrow> 'w kernel \<Rightarrow> bool" where
  "same_registrations c c' \<longleftrightarrow> gomap_get (cx_services c') = gomap_get (cx_services c) \<and>
     gomap_get (cx_serviceOwner c') = gomap_get (cx_serviceOwner c) \<and>
     gomap_get (cx_plugins c') = gomap_get (cx_plugins c) \<and> listeners_of c' = listeners_of c \<and>
     cx_current c' = None"

lemma inv_parts:
  assumes "kernel_inv c"
  shows "\<forall>k. gomap_has (cx_services c) k \<longleftrightarrow> gomap_has (cx_serviceOwner c) k"
    and "\<forall>ev. distinct (map lr_id (listeners_of c ev))"
    and "\<forall>ev. \<forall>l \<in> set (listeners_of c ev). lr_id l \<le> cx_nextID c"
    and "covered (map snd (cx_plugins c)) c" and "wf_gomap (cx_plugins c)" and "cx_current c = None"
  using assms by (auto simp: kernel_inv_def covered_def)

lemma plugin_fiber_id: "kernel_inv c \<Longrightarrow> gomap_get (cx_plugins c) i = Some f \<Longrightarrow> fb_id f = i"
  by (auto simp: kernel_inv_def covered_def)

text \<open>The listeners after a plugin applied: the old ones and, with greater numbers, its own.\<close>

lemma grew_listeners:
  assumes "grew c c1 f" "\<forall>ev. distinct (map lr_id (listeners_of c ev))"
    "\<forall>ev. \<forall>l \<in> set (listeners_of c ev). lr_id l \<le> cx_nextID c"
  shows "distinct (map lr_id (listeners_of c1 ev))"
    and "\<forall>l \<in> set (listeners_of c1 ev). lr_id l \<le> cx_nextID c1"
    and "filter (\<lambda>l. (ev, lr_id l) \<notin> set (fb_listeners f)) (listeners_of c1 ev) = listeners_of c ev"
    and "l \<in> set (listeners_of c1 ev) \<Longrightarrow> l \<in> set (listeners_of c ev) \<or> (ev, lr_id l) \<in> set (fb_listeners f)"
proof -
  obtain new where new: "listeners_of c1 ev = listeners_of c ev @ new"
      "\<forall>l \<in> set new. (ev, lr_id l) \<in> set (fb_listeners f)" "distinct (map lr_id new)"
    using assms(1) unfolding grew_def by blast
  have ids: "cx_nextID c < n \<and> n \<le> cx_nextID c1" if "(ev, n) \<in> set (fb_listeners f)" for n
    using assms(1) that unfolding grew_def by fastforce
  have le: "cx_nextID c \<le> cx_nextID c1" using assms(1) by (simp add: grew_def)
  have old: "lr_id l \<le> cx_nextID c" if "l \<in> set (listeners_of c ev)" for l using assms(3) that by blast
  have "lr_id ` set (listeners_of c ev) \<inter> lr_id ` set new = {}"
    using new(2) ids old by fastforce
  then show "distinct (map lr_id (listeners_of c1 ev))" using new assms(2) by simp
  show "\<forall>l \<in> set (listeners_of c1 ev). lr_id l \<le> cx_nextID c1"
    using new ids old le by fastforce
  have "filter (\<lambda>l. (ev, lr_id l) \<notin> set (fb_listeners f)) (listeners_of c ev) = listeners_of c ev"
    using ids old by (intro filter_True) fastforce
  moreover have "filter (\<lambda>l. (ev, lr_id l) \<notin> set (fb_listeners f)) new = []"
    using new(2) by (simp add: filter_empty_conv)
  ultimately show "filter (\<lambda>l. (ev, lr_id l) \<notin> set (fb_listeners f)) (listeners_of c1 ev) = listeners_of c ev"
    using new(1) by simp
  show "l \<in> set (listeners_of c1 ev) \<Longrightarrow> l \<in> set (listeners_of c ev) \<or> (ev, lr_id l) \<in> set (fb_listeners f)"
    using new by auto
qed

lemma grew_covered:
  assumes "kernel_inv c" "grew c c1 f"
  shows "covered (f # map snd (cx_plugins c)) c1"
proof -
  note inv = inv_parts [OF assms(1)]
  note ls = grew_listeners [OF assms(2) inv(2,3)]
  have g: "\<And>k. k \<notin> set (fb_services f) \<Longrightarrow> gomap_get (cx_services c1) k = gomap_get (cx_services c) k \<and>
        gomap_get (cx_serviceOwner c1) k = gomap_get (cx_serviceOwner c) k"
    "\<And>k. k \<in> set (fb_services f) \<Longrightarrow> gomap_has (cx_services c1) k \<and> gomap_get (cx_serviceOwner c1) k = Some (fb_id f)"
    "cx_plugins c1 = cx_plugins c"
    using assms(2) unfolding grew_def by blast+
  have A: "gomap_has (cx_services c1) k \<longleftrightarrow> gomap_has (cx_serviceOwner c1) k" for k
    using g inv(1) by (cases "k \<in> set (fb_services f)") auto
  have B: "\<exists>h \<in> set (f # map snd (cx_plugins c)). fb_id h = i \<and> k \<in> set (fb_services h)"
    if "gomap_get (cx_serviceOwner c1) k = Some i" for k i
  proof (cases "k \<in> set (fb_services f)")
    case True
    then show ?thesis using g(2) [OF True] that by auto
  next
    case False
    then show ?thesis using g(1) [OF False] that inv(4) unfolding covered_def by force
  qed
  have C: "\<exists>h \<in> set (f # map snd (cx_plugins c)). (ev, lr_id l) \<in> set (fb_listeners h)"
    if "l \<in> set (listeners_of c1 ev)" for ev l
    using ls(4) [OF that] inv(4) unfolding covered_def by force
  have D: "fb_id h = i \<and> h \<in> set (f # map snd (cx_plugins c))" if "gomap_get (cx_plugins c1) i = Some h" for i h
    using that g(3) inv(4) unfolding covered_def by fastforce
  show ?thesis unfolding covered_def using A B C D ls(1) by blast
qed

text \<open>Disposing a fiber takes the kernel back to where it was before the fiber's plugin applied.\<close>

lemma dispose_undoes:
  assumes "kernel_inv c" "grew c c1 f" "c2 = c1\<lparr>cx_current := None, cx_plugins := ps\<rparr>"
    "gomap_get ps = (gomap_get (cx_plugins c))(fb_id f := p)" "gomap_get (cx_plugins c) (fb_id f) = None"
  shows "same_registrations c (fst (fiber_Dispose f c2 w))"
proof -
  note inv = inv_parts [OF assms(1)]
  note ls = grew_listeners [OF assms(2) inv(2,3)]
  let ?s = "fold stopListener (rev (fb_listeners f)) c2"
  let ?c3 = "fold (release_service (fb_id f)) (fb_services f) ?s"
  let ?c4 = "?c3\<lparr>cx_plugins := gomap_del (fb_id f) (cx_plugins ?c3)\<rparr>"
  have c4: "fst (fiber_Dispose f c2 w) = ?c4"
    by (simp add: fiber_Dispose_def Let_def split: prod.splits)
  have g: "\<And>k. k \<notin> set (fb_services f) \<Longrightarrow> gomap_get (cx_services c1) k = gomap_get (cx_services c) k \<and>
        gomap_get (cx_serviceOwner c1) k = gomap_get (cx_serviceOwner c) k"
    "\<And>k. k \<in> set (fb_services f) \<Longrightarrow> gomap_get (cx_serviceOwner c1) k = Some (fb_id f) \<and>
        gomap_get (cx_services c) k = None \<and> gomap_get (cx_serviceOwner c) k = None"
    using assms(2) unfolding grew_def by blast+
  have owners: "k \<notin> set (fb_services f) \<Longrightarrow> gomap_get (cx_services ?c4) k = gomap_get (cx_services c1) k \<and>
      gomap_get (cx_serviceOwner ?c4) k = gomap_get (cx_serviceOwner c1) k" for k
    using assms(3) by (simp add: release_all_get)
  have "gomap_get (cx_services ?c4) k = gomap_get (cx_services c) k \<and>
      gomap_get (cx_serviceOwner ?c4) k = gomap_get (cx_serviceOwner c) k" for k
    using g owners assms(3) by (cases "k \<in> set (fb_services f)") (simp_all add: release_all_get)
  then have svc: "gomap_get (cx_services ?c4) = gomap_get (cx_services c)"
      "gomap_get (cx_serviceOwner ?c4) = gomap_get (cx_serviceOwner c)" by (auto simp: fun_eq_iff)
  have plugins: "gomap_get (cx_plugins ?c4) = gomap_get (cx_plugins c)"
    using assms(3-5) by (auto simp: fun_eq_iff)
  have lis: "listeners_of ?c4 ev = listeners_of c ev" for ev
  proof -
    have eq: "listeners_of c2 ev' = listeners_of c1 ev'" for ev'
      using assms(3) by (simp add: listeners_of_def)
    have "listeners_of ?c4 ev = listeners_of ?s ev" by (rule listeners_of_cong) simp
    also have "\<dots> = filter (\<lambda>l. (ev, lr_id l) \<notin> set (fb_listeners f)) (listeners_of c1 ev)"
      using stop_all_listeners [of c2 "rev (fb_listeners f)" ev] ls(1) eq by simp
    finally show ?thesis using ls(3) by simp
  qed
  have "listeners_of ?c4 = listeners_of c" using lis by (rule ext)
  moreover note plugins svc
  moreover have "cx_current ?c4 = None" using assms(3) by simp
  ultimately show ?thesis unfolding c4 same_registrations_def by (intro conjI)
qed

text \<open>Both outcomes of mounting a plugin.\<close>

lemma Plugin_cases:
  assumes "kernel_inv c" "Plugin (Some p) c w = (c', w', r)"
  obtains (refused) "c' = c" "w' = w" "isl r"
  | (applied) c1 f res where "grew c c1 f" "fb_id f = pg_ID p" "gomap_get (cx_plugins c) (pg_ID p) = None"
      "\<not> res \<Longrightarrow> isl r \<and> c' = fst (fiber_Dispose f (c1\<lparr>cx_current := None\<rparr>) w)"
      "res \<Longrightarrow> (\<exists>es. r = Inr (f\<lparr>fb_effects := es\<rparr>) \<and> w' = w \<and>
         c' = c1\<lparr>cx_current := None, cx_plugins := gomap_put (pg_ID p) (f\<lparr>fb_effects := es\<rparr>) (cx_plugins c1)\<rparr>)"
proof (cases "pg_ID p = [] \<or> gomap_has (cx_plugins c) (pg_ID p) \<or> find (\<lambda>d. \<not> gomap_has (cx_services c) d) (pg_Inject p) \<noteq> None")
  case True
  with assms(2) have "c' = c \<and> w' = w \<and> isl r" by (auto simp: Plugin_def split: if_splits option.splits)
  then show ?thesis using refused by blast
next
  case False
  let ?n = "cx_nextFiberSeq c + 1"
  let ?f0 = "\<lparr>fb_id = pg_ID p, fb_seq = ?n, fb_effects = [], fb_listeners = [], fb_services = []\<rparr>"
  let ?c0 = "c\<lparr>cx_nextFiberSeq := ?n, cx_current := Some ?f0\<rparr>"
  obtain c1 out where run: "run_apply (pg_Apply p) ?c0 = (c1, out)" by fastforce
  have "applying c (pg_ID p) ?n ?c0"
    by (auto simp: applying_def grew_def listeners_of_def)
  from applying_run [OF this inv_parts(1) [OF assms(1)], of "pg_Apply p"]
  have "applying c (pg_ID p) ?n c1" unfolding run fst_conv .
  then obtain f where f: "cx_current c1 = Some f" "fb_id f = pg_ID p" "grew c c1 f"
    by (auto simp: applying_def)
  have no: "gomap_get (cx_plugins c) (pg_ID p) = None"
    using False by (cases "gomap_get (cx_plugins c) (pg_ID p)") auto
  show ?thesis
  proof (cases out)
    case (Inl e)
    then have "isl r \<and> c' = fst (fiber_Dispose f (c1\<lparr>cx_current := None\<rparr>) w)"
      using assms(2) False run f(1) by (auto simp: Plugin_def Let_def split: prod.splits)
    then show ?thesis using applied [OF f(3,2) no, of False] by simp
  next
    case (Inr eff)
    then have "\<exists>es. r = Inr (f\<lparr>fb_effects := es\<rparr>) \<and> w' = w \<and>
         c' = c1\<lparr>cx_current := None, cx_plugins := gomap_put (pg_ID p) (f\<lparr>fb_effects := es\<rparr>) (cx_plugins c1)\<rparr>"
      using assms(2) False run f(1)
      by (cases eff) (auto simp: Plugin_def Let_def intro: exI [of _ "fb_effects f"])
    then show ?thesis using applied [OF f(3,2) no, of True] by simp
  qed
qed

lemma kernel_inv_cong:
  assumes "kernel_inv c" "same_registrations c c'" "wf_gomap (cx_plugins c')" "cx_nextID c \<le> cx_nextID c'"
  shows "kernel_inv c'"
proof -
  have set: "set (cx_plugins c') = set (cx_plugins c)"
  proof (rule set_eqI)
    fix x show "x \<in> set (cx_plugins c') \<longleftrightarrow> x \<in> set (cx_plugins c)"
      using assms(2) gomap_get_in [OF assms(3)] gomap_get_in [OF inv_parts(5) [OF assms(1)]]
      by (cases x) (simp add: same_registrations_def)
  qed
  have "covered (map snd (cx_plugins c)) c'"
    using assms(1,2) unfolding kernel_inv_def covered_def same_registrations_def by simp
  then have "covered (map snd (cx_plugins c')) c'"
    using covered_cong [of "map snd (cx_plugins c)" "map snd (cx_plugins c')"] set by simp
  with assms show ?thesis unfolding kernel_inv_def same_registrations_def by fastforce
qed

lemma mounted_inv:
  assumes "kernel_inv c" "grew c c1 f" "fb_id f = i" "gomap_get (cx_plugins c) i = None"
  shows "kernel_inv (c1\<lparr>cx_current := None, cx_plugins := gomap_put i (f\<lparr>fb_effects := es\<rparr>) (cx_plugins c1)\<rparr>)"
proof -
  let ?f = "f\<lparr>fb_effects := es\<rparr>"
  have g: "grew c c1 ?f" using assms(2) by (simp add: grew_def)
  have ps: "cx_plugins c1 = cx_plugins c" using assms(2) by (simp add: grew_def)
  have cov: "covered (?f # map snd (cx_plugins c)) c1" by (rule grew_covered [OF assms(1) g])
  have ids: "fb_id h = j" if "gomap_get (cx_plugins c) j = Some h" for j h
    using plugin_fiber_id [OF assms(1) that] .
  have "covered (?f # map snd (cx_plugins c)) (c1\<lparr>cx_current := None, cx_plugins := gomap_put i ?f (cx_plugins c1)\<rparr>)"
    using cov assms(3) unfolding covered_def listeners_of_def by auto
  then have "covered (map snd (gomap_put i ?f (cx_plugins c)))
      (c1\<lparr>cx_current := None, cx_plugins := gomap_put i ?f (cx_plugins c1)\<rparr>)"
    using gomap_put_fresh [OF assms(4), of ?f]
      covered_cong [of "?f # map snd (cx_plugins c)" "map snd (gomap_put i ?f (cx_plugins c))"] by simp
  then show ?thesis
    using grew_listeners(2) [OF g inv_parts(2,3) [OF assms(1)]] inv_parts(5) [OF assms(1)] ps
    by (auto simp: kernel_inv_def listeners_of_def)
qed

lemma dispose_fields: "fst (fiber_Dispose f c w) =
    (let c1 = fold stopListener (rev (fb_listeners f)) c; c2 = fold (release_service (fb_id f)) (fb_services f) c1
     in c2\<lparr>cx_plugins := gomap_del (fb_id f) (cx_plugins c2)\<rparr>)"
  by (simp add: fiber_Dispose_def Let_def split: prod.splits)

lemma dispose_inv:
  assumes "kernel_inv c" "gomap_get (cx_plugins c) i = Some f"
  shows "kernel_inv (fst (fiber_Dispose f c w))"
proof -
  note inv = inv_parts [OF assms(1)]
  let ?c = "fst (fiber_Dispose f c w)"
  have i: "fb_id f = i" using plugin_fiber_id [OF assms] .
  have ps: "cx_plugins ?c = gomap_del i (cx_plugins c)" by (simp add: dispose_fields Let_def i)
  have "set (map snd (cx_plugins c)) = set (f # map snd (gomap_del i (cx_plugins c)))"
  proof -
    have "(j, h) \<in> set (cx_plugins c) \<Longrightarrow> h = f \<or> (j, h) \<in> set (gomap_del i (cx_plugins c))" for j h
      using gomap_get_in [OF inv(5), of j h] assms(2) by (auto simp: gomap_del_filter)
    moreover have "(i, f) \<in> set (cx_plugins c)" using gomap_get_in [OF inv(5)] assms(2) by simp
    moreover have "set (gomap_del i (cx_plugins c)) \<subseteq> set (cx_plugins c)" by (auto simp: gomap_del_filter)
    ultimately show ?thesis by force
  qed
  then have "covered (f # map snd (gomap_del i (cx_plugins c))) c"
    using inv(4) covered_cong by blast
  then have "covered (map snd (cx_plugins ?c)) ?c" unfolding ps by (rule dispose_covered)
  moreover have "\<forall>l \<in> set (listeners_of ?c ev). lr_id l \<le> cx_nextID ?c" for ev
  proof -
    have "listeners_of ?c ev = listeners_of (fold stopListener (rev (fb_listeners f)) c) ev"
      by (rule listeners_of_cong) (simp add: dispose_fields Let_def)
    then show ?thesis
      using stop_all_listeners [OF inv(2), of "rev (fb_listeners f)" ev] inv(3)
      by (auto simp: dispose_fields Let_def)
  qed
  moreover have "cx_current ?c = None" using inv(6) by (simp add: dispose_fields Let_def)
  ultimately show ?thesis using ps inv(5) by (simp add: kernel_inv_def)
qed

lemma Plugin_inv:
  assumes "kernel_inv c" "Plugin p c w = (c', w', r)"
  shows "kernel_inv c'"
proof (cases p)
  case None
  then show ?thesis using assms by (simp add: Plugin_def)
next
  case (Some x)
  from assms(1) assms(2) [unfolded Some] show ?thesis
  proof (cases rule: Plugin_cases)
    case refused
    then show ?thesis using assms(1) by simp
  next
    case (applied c1 f res)
    show ?thesis
    proof (cases res)
      case True
      then show ?thesis using applied(5) mounted_inv [OF assms(1) applied(1,2,3)] by auto
    next
      case False
      let ?c2 = "c1\<lparr>cx_current := None\<rparr>"
      have ps: "cx_plugins c1 = cx_plugins c" "cx_nextID c \<le> cx_nextID c1" using applied(1) by (simp_all add: grew_def)
      have c': "c' = fst (fiber_Dispose f ?c2 w)" using applied(4) False by simp
      have "same_registrations c c'"
        unfolding c' by (rule dispose_undoes [OF assms(1) applied(1), of _ "cx_plugins c" None])
          (use applied(2,3) ps in \<open>auto simp: fun_eq_iff\<close>)
      moreover have "wf_gomap (cx_plugins c')" "cx_nextID c \<le> cx_nextID c'"
        using ps inv_parts(5) [OF assms(1)] by (simp_all add: c' dispose_fields Let_def)
      ultimately show ?thesis by (rule kernel_inv_cong [OF assms(1)])
    qed
  qed
qed

lemma stop_inv: "kernel_inv c \<Longrightarrow> kernel_inv (stopListener (ev, n) c)"
  using inv_parts [of c]
  by (fastforce simp: kernel_inv_def covered_def listeners_of_stop remove_first_distinct distinct_filter_ids)

lemma define_inv: "kernel_inv c \<Longrightarrow> kernel_inv (fst (DefineEvent nm m c))"
  by (cases m) (auto simp: DefineEvent_def kernel_inv_def covered_def listeners_of_def)

lemma DisposePlugin_inv: "kernel_inv c \<Longrightarrow> kernel_inv (fst (DisposePlugin i c w))"
  by (auto simp: DisposePlugin_def dispose_inv split: option.splits)

text \<open>The operations that other code calls on the kernel; a call outside a plugin to one that registers
  is refused, and disposal of the whole context ends the history.\<close>

inductive kernel_step :: "'w kernel \<Rightarrow> 'w kernel \<Rightarrow> bool" where
  mount: "kernel_step c (fst (Plugin p c w))"
| unmount: "kernel_step c (fst (DisposePlugin i c w))"
| stop: "kernel_step c (stopListener s c)"
| define_event: "kernel_step c (fst (DefineEvent nm m c))"
| provide: "kernel_step c (fst (Provide s c))"
| effect: "kernel_step c (fst (Effect e c))"
| listen: "kernel_step c (fst (On ev l c))"

definition new_kernel :: "'w kernel \<Rightarrow> bool" where
  "new_kernel c \<longleftrightarrow> c = NewContext"

lemma kernel_inv_step: "kernel_step c c' \<Longrightarrow> kernel_inv c \<Longrightarrow> kernel_inv c'"
proof (induction rule: kernel_step.induct)
  case (mount c p w)
  then show ?case using Plugin_inv by (cases "Plugin p c w") auto
next
  case (stop c s)
  then show ?case using stop_inv by (cases s) auto
next
  case (provide c s)
  then show ?case using inv_parts(6) [OF provide] by (auto simp: Provide_def split: option.splits)
next
  case (effect c e)
  then show ?case using inv_parts(6) [OF effect] by (auto simp: Effect_def split: option.splits)
next
  case (listen c ev l)
  then show ?case using inv_parts(6) [OF listen] by (auto simp: On_def split: option.splits)
qed (auto simp: DisposePlugin_inv define_inv)

interpretation kernels: invariant_system new_kernel kernel_step kernel_inv
proof unfold_locales
  show "kernel_inv s" if "new_kernel s" for s
    using that by (auto simp: new_kernel_def NewContext_def kernel_inv_def covered_def listeners_of_def gomap_or_def)
  show "kernel_inv s'" if "kernel_inv s" "kernel_step s s'" for s s'
    using that kernel_inv_step by blast
qed

section \<open>A kernel with a plugin\<close>

text \<open>The world is a list of marks. The plugin provides a service, listens to an event and leaves marks
  when its two effects are disposed of.\<close>

definition demo_plugin :: "string list plugin" where
  "demo_plugin = \<lparr>pg_ID = ''p'', pg_Inject = [], pg_Apply =
     CallProvide (Some \<lparr>sk_Key = ''s'', sk_payload = 0\<rparr>) (\<lambda>_.
     CallOn ''e'' (Some (\<lambda>v nxt w. (Inr v, w))) (\<lambda>_.
     CallEffect (Some (\<lambda>w. (None, w @ [''first'']))) (\<lambda>_.
     Applied (Inr (Some (\<lambda>w. (None, w @ [''second'']))))))) \<rparr>"

definition demo_kernel :: "string list kernel" where
  "demo_kernel = fst (Plugin (Some demo_plugin) (fst (DefineEvent ''e'' EventEmit NewContext)) [])"

lemma demo_kernel_reached: "reaches new_kernel kernel_step demo_kernel"
proof -
  have "reaches new_kernel kernel_step (NewContext :: string list kernel)"
    by (rule reaches_start) (simp add: new_kernel_def)
  from reaches_step [OF reaches_step [OF this define_event] mount] show ?thesis
    unfolding demo_kernel_def .
qed

section \<open>Theorems\<close>

text \<open>
  Disposing the kernel releases everything. In every reachable kernel, \<open>Dispose\<close> leaves no plugin, no
  service, no owner and no listener.
\<close>
theorem dispose_releases:
  assumes "reaches new_kernel kernel_step c" and "Context_Dispose c w = (c', w', err)"
  shows "cx_plugins c' = [] \<and> gomap_get (cx_services c') = Map.empty \<and>
    gomap_get (cx_serviceOwner c') = Map.empty \<and> listeners_of c' ev = []"
proof -
  have "covered (map snd (cx_plugins c)) c"
    using kernels.inv_reachable [OF assms(1)] by (simp add: kernel_inv_def)
  then have "covered (rev (mounted c)) c"
    using covered_cong [of "map snd (cx_plugins c)" "rev (mounted c)"] by (simp add: mounted_def)
  then have "covered [] c'"
    using dispose_all_covered [of "rev (mounted c)" c w] assms(2) by (simp add: Context_Dispose_def)
  then have *: "gomap_get (cx_plugins c') i = None" "gomap_get (cx_serviceOwner c') i = None"
      "gomap_has (cx_services c') i \<longleftrightarrow> gomap_has (cx_serviceOwner c') i" "set (listeners_of c' ev) = {}" for i
    unfolding covered_def by fastforce+
  moreover have "cx_plugins c' = []" using *(1) by (cases "cx_plugins c'") (auto, metis option.distinct(1))
  moreover have "gomap_get (cx_services c') i = None" for i
    using *(2,3) [of i] by (cases "gomap_get (cx_services c') i") auto
  ultimately show ?thesis by auto
qed

theorem dispose_releases_witness:
  "PluginIDs demo_kernel = [''p''] \<and> ServiceKeys demo_kernel = [''s''] \<and>
   cx_plugins (fst (Context_Dispose demo_kernel [])) = [] \<and>
   gomap_get (cx_services (fst (Context_Dispose demo_kernel []))) = Map.empty \<and>
   gomap_get (cx_serviceOwner (fst (Context_Dispose demo_kernel []))) = Map.empty \<and>
   listeners_of (fst (Context_Dispose demo_kernel [])) ''e'' = []"
proof -
  obtain c' w' err where d: "Context_Dispose demo_kernel [] = (c', w', err)" by (metis prod_cases3)
  have "PluginIDs demo_kernel = [''p'']" "ServiceKeys demo_kernel = [''s'']" by code_simp+
  with dispose_releases [OF demo_kernel_reached d, of "''e''"] show ?thesis by (simp add: d)
qed

lemma Plugin_undone:
  assumes inv: "kernel_inv c" and "Plugin (Some p) c w = (c1, w1, r)"
  shows "same_registrations c (case r of Inl _ \<Rightarrow> c1 | Inr f \<Rightarrow> fst (DisposePlugin (fb_id f) c1 w2))"
proof -
  have none: "cx_current c = None" by (rule inv_parts(6) [OF inv])
  from inv assms(2) show ?thesis
  proof (cases rule: Plugin_cases)
    case refused
    then show ?thesis using none by (cases r) (auto simp: same_registrations_def)
  next
    case (applied d f res)
    show ?thesis
    proof (cases res)
      case True
      then obtain es where r: "r = Inr (f\<lparr>fb_effects := es\<rparr>)"
          "c1 = d\<lparr>cx_current := None, cx_plugins := gomap_put (pg_ID p) (f\<lparr>fb_effects := es\<rparr>) (cx_plugins d)\<rparr>"
        using applied(5) by blast
      have ps: "cx_plugins d = cx_plugins c" using applied(1) by (simp add: grew_def)
      have "same_registrations c (fst (fiber_Dispose (f\<lparr>fb_effects := es\<rparr>) c1 w2))"
        by (rule dispose_undoes [OF inv, of d _ _ "gomap_put (pg_ID p) (f\<lparr>fb_effects := es\<rparr>) (cx_plugins d)"
              "Some (f\<lparr>fb_effects := es\<rparr>)"])
          (use applied(1,2,3) r ps in \<open>auto simp: grew_def fun_eq_iff\<close>)
      then show ?thesis using r applied(2) by (simp add: DisposePlugin_def)
    next
      case False
      then have r: "isl r" "c1 = fst (fiber_Dispose f (d\<lparr>cx_current := None\<rparr>) w)" using applied(4) by auto
      have ps: "cx_plugins d = cx_plugins c" using applied(1) by (simp add: grew_def)
      have "same_registrations c c1"
        unfolding r(2) by (rule dispose_undoes [OF inv applied(1), of _ "cx_plugins c" None])
          (use applied(2,3) ps in \<open>auto simp: fun_eq_iff\<close>)
      then show ?thesis using r(1) by (cases r) auto
    qed
  qed
qed

text \<open>
  Unmounting restores. A plugin that fails to apply, or that is disposed after it was mounted, leaves
  the services, their owners, the plugins and the listeners of every event as they were before.
\<close>
theorem unmount_restores:
  assumes "reaches new_kernel kernel_step c" and "Plugin (Some p) c w = (c1, w1, r)"
  shows "same_registrations c (case r of Inl _ \<Rightarrow> c1 | Inr f \<Rightarrow> fst (DisposePlugin (fb_id f) c1 w2))"
  by (rule Plugin_undone [OF kernels.inv_reachable [OF assms(1)] assms(2)])

theorem unmount_restores_witness:
  "\<exists>c1 w1 f. Plugin (Some demo_plugin) NewContext [] = (c1, w1, Inr f) \<and>
     same_registrations NewContext (fst (DisposePlugin (fb_id f) c1 []))"
proof -
  obtain c1 w1 r where d: "Plugin (Some demo_plugin) NewContext [] = (c1, w1, r)" by (metis prod_cases3)
  have "\<not> isl (snd (snd (Plugin (Some demo_plugin) NewContext [])))" by code_simp
  then obtain f where "r = Inr f" using d by (cases r) auto
  moreover have "reaches new_kernel kernel_step (NewContext :: string list kernel)"
    by (rule reaches_start) (simp add: new_kernel_def)
  ultimately show ?thesis using d unmount_restores [of NewContext demo_plugin "[]" c1 w1 r "[]"] by auto
qed

lemma dispose_effects_append: "dispose_effects (es @ fs) w =
    (case dispose_effects es w of (err, w1) \<Rightarrow> (case dispose_effects fs w1 of (err', w2) \<Rightarrow>
      ((case err of None \<Rightarrow> err' | Some x \<Rightarrow> Some x), w2)))"
  by (induction es arbitrary: w) (auto split: prod.splits option.splits)

lemma dispose_all_effects: "dispose_all fs c w = (c', w', err) \<Longrightarrow>
    (err, w') = dispose_effects (concat (map (\<lambda>f. rev (fb_effects f)) fs)) w"
proof (induction fs arbitrary: c c' w w' err)
  case (Cons f fs)
  obtain c1 w1 e1 where d: "fiber_Dispose f c w = (c1, w1, e1)" by (metis prod_cases3)
  obtain c2 w2 e2 where a: "dispose_all fs c1 w1 = (c2, w2, e2)" by (metis prod_cases3)
  have "(e1, w1) = dispose_effects (rev (fb_effects f)) w"
    using d by (auto simp: fiber_Dispose_def Let_def split: prod.splits)
  with Cons.IH [OF a] Cons.prems d a show ?case
    by (auto simp: dispose_effects_append split: prod.splits option.splits)
qed simp

text \<open>
  Disposal runs the effects backwards. \<open>Dispose\<close> runs every effect of every mounted plugin once, in
  the reverse of the order in which plugins were mounted and effects registered, goes on after an error,
  and reports the first.
\<close>
theorem dispose_reverses: "snd (Context_Dispose c w) =
    (case dispose_effects (rev (concat (map fb_effects (mounted c)))) w of (err, w') \<Rightarrow> (w', err))"
proof -
  obtain c' w' err where d: "dispose_all (rev (mounted c)) c w = (c', w', err)" by (metis prod_cases3)
  have "rev (concat (map fb_effects (mounted c))) = concat (map (\<lambda>f. rev (fb_effects f)) (rev (mounted c)))"
    by (simp add: rev_concat rev_map comp_def)
  with dispose_all_effects [OF d] d show ?thesis
    by (simp add: Context_Dispose_def) (metis case_prod_conv)
qed

end
