(* ===== verification/Redaction.thy ===== *)
theory Redaction
  imports Plan_Types
begin

text \<open>
  The projection of execution evidence before it is stored or shown
  (\<open>src/internal/hostmcp/evidence_redaction.go\<close>): a value is rewritten along the JSON schema that its
  capability declares, and a field that the schema marks \<open>writeOnly\<close> is replaced. Values have the types
  the JSON decoder builds. The text of errors and times is given by functions.
\<close>

section \<open>Redaction by schema\<close>

definition redactedEvidenceValue :: any where
  "redactedEvidenceValue = AStr ''[redacted]''"

text \<open>The closed value that stands for what has no schema.\<close>

definition redacted_object :: any where
  "redacted_object = AMap [(''redacted'', ABool True)]"

text \<open>The declared schema of a property, where the value is an object; a nil one falls back on the schema
  of additional properties.\<close>

definition schemaMap :: "anymap \<Rightarrow> string \<Rightarrow> string \<Rightarrow> anymap" where
  "schemaMap schema key name = map_or_nil (sub_map (map_or_nil (sub_map schema key)) name)"

definition child_schema :: "anymap \<Rightarrow> string \<Rightarrow> anymap" where
  "child_schema schema key = (case schemaMap schema ''properties'' key of
     None \<Rightarrow> map_or_nil (sub_map schema ''additionalProperties'') | Some fs \<Rightarrow> Some fs)"

definition items_schema :: "anymap \<Rightarrow> anymap" where
  "items_schema schema = map_or_nil (sub_map schema ''items'')"

definition write_only :: "anymap \<Rightarrow> bool" where
  "write_only schema \<longleftrightarrow> as_bool (lookup schema ''writeOnly'') = Some True"

fun redactEvidenceBySchema :: "any \<Rightarrow> anymap \<Rightarrow> any"
  and redact_elements :: "any list \<Rightarrow> anymap \<Rightarrow> any list"
  and redact_fields :: "fields \<Rightarrow> anymap \<Rightarrow> fields" where
  "redactEvidenceBySchema value schema = (if write_only schema then redactedEvidenceValue
     else (case value of
         AMap fs \<Rightarrow> AMap (redact_fields fs schema)
       | ANilMap \<Rightarrow> AMap []
       | ASlice xs \<Rightarrow> ASlice (redact_elements xs (items_schema schema))
       | _ \<Rightarrow> value))"
| "redact_elements [] items = []"
| "redact_elements (x # xs) items = redactEvidenceBySchema x items # redact_elements xs items"
| "redact_fields [] schema = []"
| "redact_fields ((k, v) # fs) schema = (k, redactEvidenceBySchema v (child_schema schema k)) # redact_fields fs schema"

text \<open>The encoded form; \<open>None\<close> where encoding fails.\<close>

definition redactEvidenceJSON :: "any \<Rightarrow> anymap \<Rightarrow> any option" where
  "redactEvidenceJSON value schema = (let redacted = redactEvidenceBySchema value schema in
     if marshalable redacted then Some (canon redacted) else None)"

fun cloneEvidenceValue :: "any \<Rightarrow> any" and clone_elements :: "any list \<Rightarrow> any list" and clone_fields :: "fields \<Rightarrow> fields" where
  "cloneEvidenceValue (AMap fs) = AMap (clone_fields fs)"
| "cloneEvidenceValue ANilMap = AMap []"
| "cloneEvidenceValue (ASlice xs) = ASlice (clone_elements xs)"
| "cloneEvidenceValue v = v"
| "clone_elements [] = []"
| "clone_elements (x # xs) = cloneEvidenceValue x # clone_elements xs"
| "clone_fields [] = []"
| "clone_fields ((k, v) # fs) = (k, cloneEvidenceValue v) # clone_fields fs"

section \<open>Observations\<close>

text \<open>Of an observation, the structured part (its decoded value, where it decodes), and whether each fact
  and each piece of evidence has a value.\<close>

datatype raw_value = RawAbsent | RawUndecodable | Raw any

definition redactCapabilityObservation :: "raw_value \<times> raw_value list \<times> raw_value list \<Rightarrow> anymap \<Rightarrow>
    raw_value \<times> raw_value list \<times> raw_value list" where
  "redactCapabilityObservation observation schema = (case observation of (structured, facts, evidence) \<Rightarrow>
     let blot = map (\<lambda>v. if v = RawAbsent then RawAbsent else Raw redactedEvidenceValue)
     in ((case structured of
            Raw value \<Rightarrow> (let redacted = redactEvidenceBySchema value schema in
              if marshalable redacted then Raw (canon redacted) else Raw redacted_object)
          | other \<Rightarrow> other), blot facts, blot evidence))"

section \<open>Plans\<close>

definition redactPlanAction :: "(string, Capability) gomap \<Rightarrow> fields \<Rightarrow> fields" where
  "redactPlanAction capabilities action =
     (let tool = (case as_string (lookup (Some action) ''tool'') of Some s \<Rightarrow> s | None \<Rightarrow> []);
          args = map_or_nil (sub_map (Some action) ''args'')
      in if TrimSpace tool = [] \<or> args = None then action
         else (case gomap_get capabilities tool of
             None \<Rightarrow> gomap_put ''args'' redacted_object action
           | Some capability \<Rightarrow>
               gomap_put ''args'' (redactEvidenceBySchema (map_any args) (cp_InputSchema capability)) action))"

text \<open>Replacing a field that is an object.\<close>

definition update_object :: "string \<Rightarrow> (fields \<Rightarrow> fields) \<Rightarrow> fields \<Rightarrow> fields" where
  "update_object key f fs = (case gomap_get fs key of Some (AMap inner) \<Rightarrow> gomap_put key (AMap (f inner)) fs | _ \<Rightarrow> fs)"

definition redact_inputs :: "string list \<Rightarrow> fields \<Rightarrow> fields" where
  "redact_inputs secretNames inputs = map (\<lambda>(k, v). (k, if k \<in> set secretNames then redactedEvidenceValue else v)) inputs"

definition redact_node :: "(string, Capability) gomap \<Rightarrow> any \<Rightarrow> any" where
  "redact_node capabilities rawNode = (case rawNode of
     AMap node \<Rightarrow> AMap (fold (\<lambda>key. update_object key (redactPlanAction capabilities))
       [''action'', ''validate'', ''compensate'', ''recover''] node)
   | other \<Rightarrow> other)"

definition redactPlanEvidence :: "string list \<Rightarrow> (string, Capability) gomap \<Rightarrow> any \<Rightarrow> any" where
  "redactPlanEvidence secretNames capabilities value = (case as_map value of
     None \<Rightarrow> redacted_object
   | Some root_map \<Rightarrow>
      (let projected = clone_fields (entries root_map);
           projected = update_object ''variables'' (update_object ''inputs'' (redact_inputs secretNames)) projected
       in case gomap_get projected ''nodes'' of
            Some (ASlice nodes) \<Rightarrow> AMap (gomap_put ''nodes'' (ASlice (map (redact_node capabilities) nodes)) projected)
          | _ \<Rightarrow> AMap projected))"

section \<open>Runs\<close>

fun status_string :: "NodeStatus \<Rightarrow> string" where
  "status_string StatusNone = []"
| "status_string StatusPending = ''pending''"
| "status_string StatusSkipped = ''skipped''"
| "status_string StatusSatisfied = ''satisfied''"
| "status_string StatusApplied = ''applied''"
| "status_string StatusFailed = ''failed''"
| "status_string StatusUnknown = ''unknown''"
| "status_string StatusCompensated = ''compensated''"
| "status_string StatusCompensationFailed = ''compensation_failed''"
| "status_string StatusWaiting = ''waiting''"
| "status_string StatusExpired = ''expired''"

record texts =
  tx_error :: "PlanError option \<Rightarrow> string"
  tx_time :: "timestamp \<Rightarrow> string"

definition node_schemas :: "(string \<Rightarrow> anymap option) \<Rightarrow> Document option \<Rightarrow> (string, anymap) gomap" where
  "node_schemas outputSchema doc = (case doc of None \<Rightarrow> []
     | Some d \<Rightarrow> fold (\<lambda>node schemas.
         (let tool = (case nd_Action node of Some a \<Rightarrow> Some (ac_Tool a)
              | None \<Rightarrow> (case nd_Validate node of Some v \<Rightarrow> Some (va_Tool v) | None \<Rightarrow> None))
          in case tool of None \<Rightarrow> schemas
             | Some t \<Rightarrow> (case outputSchema t of None \<Rightarrow> schemas | Some s \<Rightarrow> gomap_put (nd_ID node) s schemas)))
         (doc_Nodes d) [])"

definition optional :: "bool \<Rightarrow> string \<Rightarrow> any \<Rightarrow> fields" where
  "optional b k v = (if b then [(k, v)] else [])"

definition redact_run_node :: "texts \<Rightarrow> anymap \<Rightarrow> NodeRunState \<Rightarrow> any" where
  "redact_run_node tx schema n = AMap ([(''id'', AStr (ns_ID n)), (''status'', AStr (status_string (ns_Status n)))] @
     optional (ns_Attempts n \<noteq> 0) ''attempts'' (AFloat (f64_of_int (ns_Attempts n))) @
     optional (ns_Output n \<noteq> ANil) ''output'' (redactEvidenceBySchema (ns_Output n) schema) @
     optional (ns_Observed n \<noteq> ANil) ''observed'' (redactEvidenceBySchema (ns_Observed n) schema) @
     optional (ns_Expected n \<noteq> ANil) ''expected'' (cloneEvidenceValue (ns_Expected n)) @
     optional (tx_error tx (ns_Error n) \<noteq> []) ''error'' (AStr (tx_error tx (ns_Error n))) @
     optional (tx_time tx (ns_StartedAt n) \<noteq> []) ''startedAt'' (AStr (tx_time tx (ns_StartedAt n))) @
     optional (tx_time tx (ns_CompletedAt n) \<noteq> []) ''completedAt'' (AStr (tx_time tx (ns_CompletedAt n))))"

definition redact_context_entry :: "texts \<Rightarrow> ContextEntry \<Rightarrow> any" where
  "redact_context_entry tx e = AMap ([(''name'', AStr (ce_Name e)), (''schema'', cloneEvidenceValue (map_any (ce_Schema e))),
     (''schemaRevision'', AStr (ce_SchemaRevision e)), (''producerNode'', AStr (ce_ProducerNode e)),
     (''source'', AStr (ce_Source e)), (''secret'', ABool (ce_Secret e)),
     (''recordedAt'', AStr (tx_time tx (ce_RecordedAt e)))] @
     optional (\<not> ce_Secret e) ''value'' (cloneEvidenceValue (ce_Value e)))"

definition redact_wait :: "texts \<Rightarrow> WaitState \<Rightarrow> any" where
  "redact_wait tx w = AMap [(''nodeId'', AStr (ws_NodeID w)), (''waitId'', AStr (ws_WaitID w)),
     (''waitRevision'', AFloat (f64_of_int (ws_WaitRevision w))), (''schemaRevision'', AStr (ws_SchemaRevision w)),
     (''trigger'', AMap [(''kind'', AStr (wt_Kind (ws_Trigger w))), (''type'', AStr (wt_Type (ws_Trigger w)))]),
     (''correlation'', cloneEvidenceValue (map_any (ws_Correlation w))),
     (''inputSchema'', cloneEvidenceValue (map_any (ws_InputSchema w))),
     (''expiresAt'', AStr (tx_time tx (ws_ExpiresAt w))), (''status'', AStr (ws_Status w))]"

definition redactPlanRunState :: "texts \<Rightarrow> (string \<Rightarrow> anymap option) \<Rightarrow> RunState \<Rightarrow> Document option \<Rightarrow> fields" where
  "redactPlanRunState tx outputSchema s doc =
     (let schemas = node_schemas outputSchema doc in
      [(''runId'', AStr (rs_RunID s)), (''planId'', AStr (rs_PlanID s)),
       (''generation'', AFloat (f64_of_int (rs_Generation s))), (''status'', AStr (rs_Status s)),
       (''nodes'', AMap (map (\<lambda>(i, n). (i, redact_run_node tx (gomap_or schemas i None) n)) (rs_Nodes s))),
       (''outputs'', AMap (map (\<lambda>(i, v). (i, case gomap_get schemas i of
            Some schema \<Rightarrow> redactEvidenceBySchema v schema | None \<Rightarrow> redacted_object)) (rs_Outputs s))),
       (''error'', AStr (tx_error tx (rs_Error s))),
       (''context'', AMap (map (\<lambda>(i, e). (i, redact_context_entry tx e)) (rs_Context s)))] @
      optional (rs_ContextHistory s \<noteq> []) ''contextHistory'' (ASlice (map (redact_context_entry tx) (rs_ContextHistory s))) @
      (case rs_Wait s of None \<Rightarrow> [] | Some w \<Rightarrow> [(''wait'', redact_wait tx w)]))"

end
