(* ===== verification/Redaction_Laws.thy ===== *)
theory Redaction_Laws
  imports Redaction
begin

text \<open>
  What the projection of evidence hides. Two values agree on a schema when they differ only where it says
  \<open>writeOnly\<close>; the projection does not tell them apart, on a value and on the record of a whole run.
\<close>

section \<open>Values\<close>

inductive agree :: "anymap \<Rightarrow> any \<Rightarrow> any \<Rightarrow> bool" where
  hidden: "write_only schema \<Longrightarrow> agree schema v w"
| same: "agree schema v v"
| object: "list_all2 (\<lambda>p q. fst p = fst q \<and> agree (child_schema schema (fst p)) (snd p) (snd q)) fs gs \<Longrightarrow>
    agree schema (AMap fs) (AMap gs)"
| array: "list_all2 (agree (items_schema schema)) xs ys \<Longrightarrow> agree schema (ASlice xs) (ASlice ys)"

declare redactEvidenceBySchema.simps [simp del]

lemma redact_cases:
  "write_only schema \<Longrightarrow> redactEvidenceBySchema v schema = redactedEvidenceValue"
  "\<not> write_only schema \<Longrightarrow> redactEvidenceBySchema (AMap fs) schema = AMap (redact_fields fs schema)"
  "\<not> write_only schema \<Longrightarrow> redactEvidenceBySchema (ASlice xs) schema = ASlice (redact_elements xs (items_schema schema))"
  by (simp_all add: redactEvidenceBySchema.simps)

lemma redact_fields_cong:
  "list_all2 (\<lambda>p q. fst p = fst q \<and> redactEvidenceBySchema (snd p) (child_schema schema (fst p)) =
      redactEvidenceBySchema (snd q) (child_schema schema (fst p))) fs gs \<Longrightarrow>
    redact_fields fs schema = redact_fields gs schema"
  by (induction rule: list_all2_induct) auto

lemma redact_elements_cong:
  "list_all2 (\<lambda>x y. redactEvidenceBySchema x s = redactEvidenceBySchema y s) xs ys \<Longrightarrow>
    redact_elements xs s = redact_elements ys s"
  by (induction rule: list_all2_induct) auto

lemma redaction_hides: "agree schema v w \<Longrightarrow> redactEvidenceBySchema v schema = redactEvidenceBySchema w schema"
proof (induction rule: agree.induct)
  case (object schema fs gs)
  have "redact_fields fs schema = redact_fields gs schema"
    by (rule redact_fields_cong, rule list_all2_mono [OF object]) auto
  then show ?case by (cases "write_only schema") (simp_all add: redact_cases)
next
  case (array schema xs ys)
  have "redact_elements xs (items_schema schema) = redact_elements ys (items_schema schema)"
    by (rule redact_elements_cong, rule list_all2_mono [OF array]) auto
  then show ?case by (cases "write_only schema") (simp_all add: redact_cases)
qed (simp_all add: redact_cases)

lemma redact_idem_all:
  "redactEvidenceBySchema (redactEvidenceBySchema v s) s = redactEvidenceBySchema v s"
  "redact_elements (redact_elements xs s) s = redact_elements xs s"
  "redact_fields (redact_fields fs s) s = redact_fields fs s"
proof (induction v s and xs s and fs s rule: redactEvidenceBySchema_redact_elements_redact_fields.induct)
  case (1 v schema)
  then show ?case
    by (cases "write_only schema"; cases v) (simp_all add: redactEvidenceBySchema.simps [of _ schema])
qed auto

text \<open>
  Redaction is a projection. Redacting a value again with the same schema changes nothing, so evidence
  that was stored redacted is shown as it was stored.
\<close>
theorem redaction_idempotent:
  "redactEvidenceBySchema (redactEvidenceBySchema v schema) schema = redactEvidenceBySchema v schema"
  by (rule redact_idem_all)

section \<open>Runs\<close>

text \<open>Two runs that differ only in what is secret: outputs where the output schema of the node's tool says
  \<open>writeOnly\<close>, run outputs of nodes without a declared schema, and the values of secret context entries.\<close>

definition node_agrees :: "anymap \<Rightarrow> NodeRunState \<Rightarrow> NodeRunState \<Rightarrow> bool" where
  "node_agrees schema m n \<longleftrightarrow> (\<exists>out obs. n = m\<lparr>ns_Output := out, ns_Observed := obs\<rparr> \<and>
     agree schema (ns_Output m) out \<and> agree schema (ns_Observed m) obs \<and>
     (ns_Output m = ANil \<longleftrightarrow> out = ANil) \<and> (ns_Observed m = ANil \<longleftrightarrow> obs = ANil))"

definition entry_agrees :: "ContextEntry \<Rightarrow> ContextEntry \<Rightarrow> bool" where
  "entry_agrees d e \<longleftrightarrow> (\<exists>v. e = d\<lparr>ce_Value := v\<rparr> \<and> (ce_Secret d \<or> v = ce_Value d))"

definition run_agrees :: "(string, anymap) gomap \<Rightarrow> RunState \<Rightarrow> RunState \<Rightarrow> bool" where
  "run_agrees schemas s t \<longleftrightarrow> (\<exists>nodes outputs ctx history.
     t = s\<lparr>rs_Nodes := nodes, rs_Outputs := outputs, rs_Context := ctx, rs_ContextHistory := history\<rparr> \<and>
     list_all2 (\<lambda>p q. fst p = fst q \<and> node_agrees (gomap_or schemas (fst p) None) (snd p) (snd q)) (rs_Nodes s) nodes \<and>
     list_all2 (\<lambda>p q. fst p = fst q \<and> (case gomap_get schemas (fst p) of None \<Rightarrow> True
        | Some schema \<Rightarrow> agree schema (snd p) (snd q))) (rs_Outputs s) outputs \<and>
     list_all2 (\<lambda>p q. fst p = fst q \<and> entry_agrees (snd p) (snd q)) (rs_Context s) ctx \<and>
     list_all2 entry_agrees (rs_ContextHistory s) history)"

lemma node_hides: "node_agrees schema m n \<Longrightarrow> redact_run_node tx schema m = redact_run_node tx schema n"
proof -
  assume "node_agrees schema m n"
  then obtain out obs where n: "n = m\<lparr>ns_Output := out, ns_Observed := obs\<rparr>"
    and eqs: "redactEvidenceBySchema (ns_Output m) schema = redactEvidenceBySchema out schema"
      "redactEvidenceBySchema (ns_Observed m) schema = redactEvidenceBySchema obs schema"
      "ns_Output m = ANil \<longleftrightarrow> out = ANil" "ns_Observed m = ANil \<longleftrightarrow> obs = ANil"
    unfolding node_agrees_def using redaction_hides by blast
  show ?thesis unfolding n redact_run_node_def optional_def by (simp add: eqs)
qed

lemma entry_hides: "entry_agrees d e \<Longrightarrow> redact_context_entry tx d = redact_context_entry tx e"
  by (auto simp: entry_agrees_def redact_context_entry_def optional_def)

lemma map_cong2: "list_all2 (\<lambda>x y. f x = f y) xs ys \<Longrightarrow> map f xs = map f ys"
  by (induction rule: list_all2_induct) auto

text \<open>
  C18: the stored record of a run does not tell its secrets. Two runs of a plan that differ only in output
  fields that a capability's schema marks \<open>writeOnly\<close>, in the run's outputs of nodes that have no schema entry,
  and in the values of secret context entries have the same redacted record. What the state of a node itself holds,
  its output and observation, must be the same where its tool has no schema: the record shows it in full
  (\<open>unknown_tool_shown\<close>).
\<close>
theorem run_evidence_hides:
  assumes "run_agrees (node_schemas outputSchema doc) s t"
  shows "redactPlanRunState tx outputSchema s doc = redactPlanRunState tx outputSchema t doc"
proof -
  let ?schemas = "node_schemas outputSchema doc"
  obtain nodes outputs ctx history where t:
    "t = s\<lparr>rs_Nodes := nodes, rs_Outputs := outputs, rs_Context := ctx, rs_ContextHistory := history\<rparr>"
    and n: "list_all2 (\<lambda>p q. fst p = fst q \<and> node_agrees (gomap_or ?schemas (fst p) None) (snd p) (snd q)) (rs_Nodes s) nodes"
    and out: "list_all2 (\<lambda>p q. fst p = fst q \<and> (case gomap_get ?schemas (fst p) of None \<Rightarrow> True
        | Some schema \<Rightarrow> agree schema (snd p) (snd q))) (rs_Outputs s) outputs"
    and c: "list_all2 (\<lambda>p q. fst p = fst q \<and> entry_agrees (snd p) (snd q)) (rs_Context s) ctx"
    and h: "list_all2 entry_agrees (rs_ContextHistory s) history"
    using assms unfolding run_agrees_def by blast
  have nodes_eq: "map (\<lambda>(i, n). (i, redact_run_node tx (gomap_or ?schemas i None) n)) (rs_Nodes s) =
      map (\<lambda>(i, n). (i, redact_run_node tx (gomap_or ?schemas i None) n)) nodes"
    by (rule map_cong2, rule list_all2_mono [OF n]) (auto dest: node_hides)
  have outputs_eq: "map (\<lambda>(i, v). (i, case gomap_get ?schemas i of
            Some schema \<Rightarrow> redactEvidenceBySchema v schema | None \<Rightarrow> redacted_object)) (rs_Outputs s) =
      map (\<lambda>(i, v). (i, case gomap_get ?schemas i of
            Some schema \<Rightarrow> redactEvidenceBySchema v schema | None \<Rightarrow> redacted_object)) outputs"
    by (rule map_cong2, rule list_all2_mono [OF out]) (auto dest: redaction_hides split: option.splits)
  have context_eq: "map (\<lambda>(i, e). (i, redact_context_entry tx e)) (rs_Context s) =
      map (\<lambda>(i, e). (i, redact_context_entry tx e)) ctx"
    by (rule map_cong2, rule list_all2_mono [OF c]) (auto dest: entry_hides)
  have history_eq: "map (redact_context_entry tx) (rs_ContextHistory s) = map (redact_context_entry tx) history"
    by (rule map_cong2, rule list_all2_mono [OF h]) (auto dest: entry_hides)
  have "rs_ContextHistory s = [] \<longleftrightarrow> history = []" using h by auto
  then show ?thesis
    unfolding redactPlanRunState_def Let_def t using nodes_eq outputs_eq context_eq history_eq
    by (simp add: optional_def)
qed

definition demo_output_schema :: "string \<Rightarrow> anymap option" where
  "demo_output_schema tool = Some (Some [(''properties'', AMap [(''token'', AMap [(''writeOnly'', ABool True)])])])"

definition demo_doc :: Document where
  "demo_doc = \<lparr>doc_ContractVersion = [], doc_PlanID = ''p'', doc_Generation = 1, doc_IdempotencyKey = [],
     doc_CatalogRevision = [], doc_Variables = None,
     doc_Defaults = \<lparr>df_TimeoutMs = 0, df_Retry = \<lparr>rt_MaxAttempts = 0, rt_BackoffMs = 0, rt_BackoffFactor = 0\<rparr>, df_MaxPasses = 0\<rparr>,
     doc_Converge = \<lparr>cv_MaxPasses = 0, cv_AbortOnExhaustion = False, cv_MaxConcurrency = 0\<rparr>,
     doc_Nodes = [\<lparr>nd_ID = ''n'', nd_DependsOn = [], nd_When = [], nd_Target = None,
       nd_Action = Some \<lparr>ac_Tool = ''t'', ac_Args = None\<rparr>, nd_Wait = None, nd_Validate = None, nd_Recover = None,
       nd_Compensate = None, nd_Retry = \<lparr>rt_MaxAttempts = 0, rt_BackoffMs = 0, rt_BackoffFactor = 0\<rparr>,
       nd_TimeoutMs = 0, nd_ContinueOnFailure = False, nd_ForEach = None\<rparr>]\<rparr>"

definition demo_run :: "string \<Rightarrow> RunState" where
  "demo_run secret = \<lparr>rs_RunID = ''r'', rs_PlanID = ''p'', rs_Generation = 1, rs_Status = ''completed'',
     rs_Nodes = [(''n'', \<lparr>ns_ID = ''n'', ns_Status = StatusApplied, ns_Attempts = 1,
       ns_Output = AMap [(''token'', AStr secret), (''name'', AStr ''x'')], ns_Observed = ANil, ns_Expected = ANil,
       ns_Error = None, ns_StartedAt = NoTime, ns_CompletedAt = NoTime\<rparr>)],
     rs_Outputs = [(''n'', AMap [(''token'', AStr secret)])], rs_Context = [], rs_ContextHistory = [], rs_Wait = None,
     rs_Error = None\<rparr>"

theorem run_evidence_hides_witness:
  "demo_run ''hunter2'' \<noteq> demo_run ''swordfish'' \<and>
   (\<forall>tx. redactPlanRunState tx demo_output_schema (demo_run ''hunter2'') (Some demo_doc) =
   redactPlanRunState tx demo_output_schema (demo_run ''swordfish'') (Some demo_doc))"
proof (intro conjI allI)
  show "demo_run ''hunter2'' \<noteq> demo_run ''swordfish''" by (simp add: demo_run_def)
  let ?s = "Some [(''properties'', AMap [(''token'', AMap [(''writeOnly'', ABool True)])])]"
  have schemas: "node_schemas demo_output_schema (Some demo_doc) = [(''n'', ?s)]" by code_simp
  have "write_only (child_schema ?s ''token'')" by code_simp
  then have token: "agree ?s (AMap ((''token'', AStr v) # fs)) (AMap ((''token'', AStr w) # fs))" for v w fs
    by (intro agree.object) (auto intro: agree.hidden agree.same list_all2_refl)
  have "run_agrees [(''n'', ?s)] (demo_run ''hunter2'') (demo_run ''swordfish'')"
    unfolding run_agrees_def
    by (intro exI [of _ "rs_Nodes (demo_run ''swordfish'')"] exI [of _ "rs_Outputs (demo_run ''swordfish'')"]
        exI [of _ "[]"]) (auto simp: demo_run_def node_agrees_def gomap_or_def token agree.same)
  then show "redactPlanRunState tx demo_output_schema (demo_run ''hunter2'') (Some demo_doc) =
   redactPlanRunState tx demo_output_schema (demo_run ''swordfish'') (Some demo_doc)" for tx
    by (intro run_evidence_hides) (simp add: schemas)
qed

text \<open>The output of a node whose tool is not in the catalog is not redacted, unlike the run's outputs.\<close>

lemma unknown_tool_shown:
  assumes "ns_Output n = AStr secret"
  shows "(''output'', AStr secret) \<in> set (entries (map_or_nil (as_map (redact_run_node tx None n))))"
  using assms by (simp add: redact_run_node_def optional_def map_or_nil_def redactEvidenceBySchema.simps write_only_def
      lookup_def entries_def)

end
