(* ===== verification/Selectors.thy ===== *)
theory Selectors
  imports Plan_Types
begin

text \<open>
  Result selectors (\<open>src/internal/selectors/selectors.go\<close>, \<open>src/contracts/capability/result.go\<close>): a
  selector names a path into a tool's result, and evaluating it lists the values on that path with the
  array positions that lead to each. The positions are Go slices that \<open>append\<close> extends, so siblings may
  share an array; the arrays are a store of their own here.
\<close>

section \<open>Result types\<close>

record ResultSelector =
  sel_ID :: string
  sel_SourcePath :: string
  sel_Cardinality :: string
  sel_LabelPath :: string

record ResultType =
  rty_ID :: string
  rty_Version :: int
  rty_Selectors :: "ResultSelector list"

definition CardinalityOne :: string where
  "CardinalityOne = ''one''"

definition CardinalityMany :: string where
  "CardinalityMany = ''many''"

definition NormalizedCardinality :: "ResultSelector \<Rightarrow> string" where
  "NormalizedCardinality s = (if TrimSpace (sel_Cardinality s) = [] then CardinalityOne else sel_Cardinality s)"

section \<open>Validation\<close>

definition path_of :: "string \<Rightarrow> string list" where
  "path_of p = Split p (CHR ''.'')"

text \<open>\<open>schemaPath\<close> of \<open>src/internal/catalog/registry.go\<close> has the same loop and returns the schema reached.\<close>

fun schema_walk :: "anymap \<Rightarrow> string list \<Rightarrow> anymap option" where
  "schema_walk current [] = Some current"
| "schema_walk current (segment # rest) =
     (case sub_map current ''properties'' of
        None \<Rightarrow> None
      | Some properties \<Rightarrow>
         (case sub_map properties (TrimSuffix segment ''[]'') of
            None \<Rightarrow> None
          | Some child \<Rightarrow>
             schema_walk (case sub_map child ''items'' of Some items \<Rightarrow> items | None \<Rightarrow> child) rest))"

definition schemaPathExists :: "anymap \<Rightarrow> string \<Rightarrow> bool" where
  "schemaPathExists schema path \<longleftrightarrow> schema_walk schema (path_of path) \<noteq> None"

fun validate_selectors :: "anymap \<Rightarrow> string \<Rightarrow> string list \<Rightarrow> ResultSelector list \<Rightarrow> PlanError option" where
  "validate_selectors outputSchema typeID seen [] = None"
| "validate_selectors outputSchema typeID seen (s # rest) =
     (if TrimSpace (sel_ID s) = [] \<or> TrimSpace (sel_SourcePath s) = []
        then Some (Errorf ''result type %q has an incomplete selector'' [AStr typeID])
      else if sel_ID s \<in> set seen
        then Some (Errorf ''result type %q has duplicate selector %q'' [AStr typeID, AStr (sel_ID s)])
      else if NormalizedCardinality s \<noteq> CardinalityOne \<and> NormalizedCardinality s \<noteq> CardinalityMany
        then Some (Errorf ''selector %q has unsupported cardinality %q'' [AStr (sel_ID s), AStr (sel_Cardinality s)])
      else if \<not> schemaPathExists outputSchema (sel_SourcePath s)
        then Some (Errorf ''selector %q sourcePath %q is absent from the output schema''
               [AStr (sel_ID s), AStr (sel_SourcePath s)])
      else if sel_LabelPath s \<noteq> [] \<and> \<not> schemaPathExists outputSchema (sel_LabelPath s)
        then Some (Errorf ''selector %q labelPath %q is absent from the output schema''
               [AStr (sel_ID s), AStr (sel_LabelPath s)])
      else validate_selectors outputSchema typeID (sel_ID s # seen) rest)"

text \<open>\<open>Inl\<close> an error, \<open>Inr\<close> the ids of the types.\<close>

fun validate_types :: "anymap \<Rightarrow> string list \<Rightarrow> ResultType list \<Rightarrow> PlanError + string list" where
  "validate_types outputSchema seen [] = Inr seen"
| "validate_types outputSchema seen (t # rest) =
     (if TrimSpace (rty_ID t) = [] \<or> rty_Version t < 1
        then Inl (Errorf ''result types require a non-empty id and positive version'' [])
      else if rty_ID t \<in> set seen then Inl (Errorf ''duplicate result type %q'' [AStr (rty_ID t)])
      else (case validate_selectors outputSchema (rty_ID t) [] (rty_Selectors t) of
          Some e \<Rightarrow> Inl e
        | None \<Rightarrow> validate_types outputSchema (rty_ID t # seen) rest))"

definition validateSelectors :: "anymap \<Rightarrow> string \<Rightarrow> ResultType list \<Rightarrow> PlanError option" where
  "validateSelectors outputSchema outputType resultTypes =
     (if resultTypes = [] then
        (if TrimSpace outputType \<noteq> []
         then Some (Errorf ''output type %q has no result type descriptor'' [AStr outputType]) else None)
      else if TrimSpace outputType = [] then Some (Errorf ''result selectors require an output type'' [])
      else (case validate_types outputSchema [] resultTypes of
          Inl e \<Rightarrow> Some e
        | Inr seen \<Rightarrow>
           if TrimSpace outputType \<noteq> [] \<and> outputType \<notin> set seen
           then Some (Errorf ''output type %q is not declared'' [AStr outputType]) else None))"

text \<open>A result type whose id does not match is passed over; one that matches without the selector too.\<close>

fun FindSelector :: "string \<Rightarrow> string \<Rightarrow> ResultType list \<Rightarrow> ResultSelector option" where
  "FindSelector outputType selectorID [] = None"
| "FindSelector outputType selectorID (t # rest) =
     (case (if rty_ID t = outputType then List.find (\<lambda>s. sel_ID s = selectorID) (rty_Selectors t) else None) of
        Some s \<Rightarrow> Some s
      | None \<Rightarrow> FindSelector outputType selectorID rest)"

section \<open>Slices\<close>

text \<open>
  A slice of integers: the array it points to, its length and its capacity. \<open>append\<close> writes into the
  array while the capacity lasts, and otherwise copies to a new array whose capacity the runtime chooses;
  \<open>growth c\<close> is that capacity when a full slice of capacity \<open>c\<close> gets one more element. Capacities up to
  256 double, and \<open>go_growth\<close> is what the Go runtime does there.
\<close>

record slice =
  sl_array :: nat
  sl_len :: nat
  sl_cap :: nat

type_synonym arrays = "int list list"

definition nil_slice :: slice where
  "nil_slice = \<lparr>sl_array = 0, sl_len = 0, sl_cap = 0\<rparr>"

definition go_growth :: "nat \<Rightarrow> nat" where
  "go_growth c = (if c = 0 then 1 else 2 * c)"

definition elements :: "slice \<Rightarrow> arrays \<Rightarrow> int list" where
  "elements s h = (if sl_len s = 0 then [] else take (sl_len s) (h ! sl_array s))"

definition append_int :: "(nat \<Rightarrow> nat) \<Rightarrow> slice \<Rightarrow> int \<Rightarrow> arrays \<Rightarrow> slice \<times> arrays" where
  "append_int growth s x h =
     (if sl_len s < sl_cap s
      then (s\<lparr>sl_len := sl_len s + 1\<rparr>, h[sl_array s := (h ! sl_array s)[sl_len s := x]])
      else (let c = growth (sl_cap s)
            in (\<lparr>sl_array = length h, sl_len = sl_len s + 1, sl_cap = c\<rparr>,
                h @ [elements s h @ x # replicate (c - sl_len s - 1) 0])))"

section \<open>Evaluation\<close>

record pathValue =
  pv_Value :: any
  pv_Indices :: slice

record Candidate =
  cn_Value :: any
  cn_Label :: string
  cn_Indices :: "int list"
  cn_SourcePath :: string

definition array_segment :: "string \<Rightarrow> bool" where
  "array_segment segment = HasSuffix segment ''[]''"

definition array_key :: "string \<Rightarrow> string" where
  "array_key segment = TrimSuffix segment ''[]''"

definition as_slice :: "any option \<Rightarrow> any list option" where
  "as_slice v = (case v of Some (ASlice xs) \<Rightarrow> Some xs | _ \<Rightarrow> None)"

text \<open>\<open>object[key].([]any)\<close> and \<open>object[key]\<close> on a value that must be an object.\<close>

definition items_at :: "any \<Rightarrow> string \<Rightarrow> any list option" where
  "items_at v key = (case as_map v of None \<Rightarrow> None | Some object \<Rightarrow> as_slice (gomap_get (entries object) key))"

definition field_at :: "any \<Rightarrow> string \<Rightarrow> any option" where
  "field_at v key = (case as_map v of None \<Rightarrow> None | Some object \<Rightarrow> gomap_get (entries object) key)"

fun each_item :: "(any \<Rightarrow> slice \<Rightarrow> arrays \<Rightarrow> pathValue list \<times> arrays) \<Rightarrow> (nat \<Rightarrow> nat) \<Rightarrow> int \<Rightarrow> any list \<Rightarrow>
    slice \<Rightarrow> arrays \<Rightarrow> pathValue list \<times> arrays" where
  "each_item inner growth index [] indices h = ([], h)"
| "each_item inner growth index (item # rest) indices h =
     (let (s, h1) = append_int growth indices index h;
          (found, h2) = inner item s h1;
          (further, h3) = each_item inner growth (index + 1) rest indices h2
      in (found @ further, h3))"

primrec pathValues :: "(nat \<Rightarrow> nat) \<Rightarrow> string list \<Rightarrow> any \<Rightarrow> slice \<Rightarrow> arrays \<Rightarrow> pathValue list \<times> arrays" where
  "pathValues growth [] v indices h = ([\<lparr>pv_Value = v, pv_Indices = indices\<rparr>], h)"
| "pathValues growth (segment # rest) v indices h =
     (if array_segment segment then
        (case items_at v (array_key segment) of
           None \<Rightarrow> ([], h)
         | Some items \<Rightarrow> each_item (pathValues growth rest) growth 0 items indices h)
      else (case field_at v segment of
           None \<Rightarrow> ([], h)
         | Some next \<Rightarrow> pathValues growth rest next indices h))"

text \<open>The positions are the rest of \<open>indices\<close> from \<open>indexOffset\<close> on; \<open>ANil\<close> is the nil result.\<close>

fun indexedValue :: "any \<Rightarrow> string list \<Rightarrow> int list \<Rightarrow> any" where
  "indexedValue v [] indices = v"
| "indexedValue v (segment # rest) indices =
     (if array_segment segment then
        (case items_at v (array_key segment) of
           None \<Rightarrow> ANil
         | Some items \<Rightarrow>
            (case indices of
               [] \<Rightarrow> ANil
             | i # further \<Rightarrow> if i < 0 \<or> int (length items) \<le> i then ANil
                  else indexedValue (items ! nat i) rest further))
      else (case field_at v segment of None \<Rightarrow> ANil | Some next \<Rightarrow> indexedValue next rest indices))"

definition candidate_of :: "any \<Rightarrow> ResultSelector \<Rightarrow> arrays \<Rightarrow> pathValue \<Rightarrow> Candidate" where
  "candidate_of v s h item =
     \<lparr>cn_Value = pv_Value item,
      cn_Label = (if sel_LabelPath s \<noteq> [] then
          (case as_string (indexedValue v (path_of (sel_LabelPath s)) (elements (pv_Indices item) h)) of
             Some t \<Rightarrow> t | None \<Rightarrow> [])
        else []),
      cn_Indices = elements (pv_Indices item) h, cn_SourcePath = sel_SourcePath s\<rparr>"

definition EvaluateSelector :: "(nat \<Rightarrow> nat) \<Rightarrow> any \<Rightarrow> string \<Rightarrow> string \<Rightarrow> ResultType list \<Rightarrow> PlanError + Candidate list" where
  "EvaluateSelector growth v outputType selectorID resultTypes =
     (case FindSelector outputType selectorID resultTypes of
        None \<Rightarrow> Inl (Errorf ''selector %q is not declared for result type %q'' [AStr selectorID, AStr outputType])
      | Some s \<Rightarrow>
         (let (found, h) = pathValues growth (path_of (sel_SourcePath s)) v nil_slice []
          in if NormalizedCardinality s = CardinalityOne \<and> 1 < length found
             then Inl (Errorf ''selector %q expected one value but found %d'' [AStr (sel_ID s), AFloat (f64_of_int (int (length found)))])
             else Inr (map (candidate_of v s h) found)))"

end
