(* ===== verification/Catalog.thy ===== *)
theory Catalog
  imports Selectors Resource_URI Go_Crypto
begin

text \<open>
  The capability catalog: descriptors and the snapshot built from them (\<open>src/internal/tools/capability.go\<close>)
  and the guarded registry of dynamic capabilities (\<open>src/internal/catalog/registry.go\<close>). A capability is
  a value of type \<open>'c\<close>; what its \<open>Definition\<close> method answers is an argument of the operations, which hold
  it fixed for one call. Every operation of the registry runs under its lock. Cloning a descriptor through
  JSON, the encoded text of a catalog and the resolution of JSON schemas by the third-party library are
  arguments as well.
\<close>

section \<open>Descriptors\<close>

record ResourceCostArgumentBindings =
  ab_CPUCores :: string
  ab_MemoryBytes :: string
  ab_DiskBytes :: string
  ab_Tasks :: string

record ResourceCost =
  rc_CPUCores :: float64
  rc_MemoryBytes :: int
  rc_DiskBytes :: int
  rc_Tasks :: int
  rc_Class :: string
  rc_ArgumentBindings :: "ResourceCostArgumentBindings option"

record ResourceBinding =
  rb_Argument :: string
  rb_ResourceType :: string
  rb_SourcePath :: string
  rb_SelectorID :: string
  rb_Required :: bool

record CapabilityEdge =
  eg_SourceTool :: string
  eg_SourcePath :: string
  eg_TargetTool :: string
  eg_TargetArgument :: string
  eg_ResourceType :: string
  eg_SelectorID :: string
  eg_Required :: bool

text \<open>The fields that no operation looks at (title, description, messages and the like) are in \<open>cd_Texts\<close>.\<close>

record CapabilityDescriptor =
  cd_OperationID :: string
  cd_CapabilityID :: string
  cd_Version :: int
  cd_Name :: string
  cd_InputSchema :: anymap
  cd_OutputSchema :: anymap
  cd_OutputType :: string
  cd_ResultTypes :: "ResultType list"
  cd_Effect :: string
  cd_RequiresApproval :: bool
  cd_Provider :: string
  cd_Implementation :: string
  cd_ResourceKinds :: "string list"
  cd_ArgumentProducers :: "(string, string list) gomap"
  cd_DefaultLabels :: "(string, string) gomap option"
  cd_ResourceCost :: "ResourceCost option"
  cd_TaskSupport :: string
  cd_GenerationID :: string
  cd_Requires :: "ResourceBinding list"
  cd_Produces :: "ResourceBinding list"
  cd_InputEdges :: "CapabilityEdge list"
  cd_OutputEdges :: "CapabilityEdge list"
  cd_Texts :: "(string, any) gomap"

record CapabilityCatalogSnapshot =
  sn_ProviderID :: string
  sn_Revision :: string
  sn_Tools :: "CapabilityDescriptor list"
  sn_Edges :: "CapabilityEdge list"

section \<open>Snapshots\<close>

definition NormalizeProviderID :: "string \<Rightarrow> string" where
  "NormalizeProviderID providerID =
     (if ToLower (TrimSpace providerID) \<in> {[], ''incus''} then ''incus'' else ''incus'')"

definition edge_of :: "CapabilityDescriptor \<Rightarrow> ResourceBinding \<Rightarrow> CapabilityDescriptor \<Rightarrow> ResourceBinding \<Rightarrow> CapabilityEdge" where
  "edge_of target required source produced =
     \<lparr>eg_SourceTool = cd_Name source, eg_SourcePath = rb_SourcePath produced, eg_TargetTool = cd_Name target,
      eg_TargetArgument = rb_Argument required, eg_ResourceType = rb_ResourceType required,
      eg_SelectorID = rb_SelectorID produced, eg_Required = rb_Required required\<rparr>"

definition edge_key :: "CapabilityEdge \<Rightarrow> string list" where
  "edge_key e = [eg_SourceTool e, eg_TargetTool e, eg_TargetArgument e, eg_SourcePath e, eg_ResourceType e]"

definition deriveCapabilityEdges :: "CapabilityDescriptor list \<Rightarrow> CapabilityEdge list" where
  "deriveCapabilityEdges descriptors = sort_key edge_key
     [edge_of target required source produced.
        target \<leftarrow> descriptors,
        required \<leftarrow> cd_Requires target,
        TrimSpace (rb_Argument required) \<noteq> [] \<and> TrimSpace (rb_ResourceType required) \<noteq> [],
        source \<leftarrow> descriptors,
        cd_Name source \<noteq> cd_Name target,
        produced \<leftarrow> cd_Produces source,
        rb_ResourceType produced = rb_ResourceType required \<and> TrimSpace (rb_SourcePath produced) \<noteq> []]"

definition add_producer :: "CapabilityEdge \<Rightarrow> (string, string list) gomap \<Rightarrow> (string, string list) gomap" where
  "add_producer e m = (let producers = gomap_or m (eg_TargetArgument e) []
     in if eg_SourceTool e \<in> set producers then m
        else gomap_put (eg_TargetArgument e) (producers @ [eg_SourceTool e]) m)"

text \<open>The names of the descriptors are distinct here, so each edge belongs to one source and one target.\<close>

definition apply_edges :: "CapabilityEdge list \<Rightarrow> CapabilityDescriptor \<Rightarrow> CapabilityDescriptor" where
  "apply_edges edges d = (let inputs = filter (\<lambda>e. eg_TargetTool e = cd_Name d) edges in
     d\<lparr>cd_InputEdges := inputs, cd_OutputEdges := filter (\<lambda>e. eg_SourceTool e = cd_Name d) edges,
       cd_ArgumentProducers := fold add_producer inputs []\<rparr>)"

definition applyCapabilityEdges :: "CapabilityDescriptor list \<Rightarrow> CapabilityEdge list \<Rightarrow> CapabilityDescriptor list" where
  "applyCapabilityEdges descriptors edges = map (apply_edges edges) descriptors"

definition defaultLabels :: "anymap \<Rightarrow> (string, string) gomap option" where
  "defaultLabels schema = (case sub_map schema ''properties'' of
     None \<Rightarrow> None
   | Some properties \<Rightarrow>
      (let labels = [(name, ''default''). (name, raw) \<leftarrow> entries properties,
             (case as_map raw of None \<Rightarrow> False | Some property \<Rightarrow> gomap_has (entries property) ''default'')]
       in if labels = [] then None else Some labels))"

definition applyCatalogDefaults :: "CapabilityDescriptor list \<Rightarrow> CapabilityDescriptor list" where
  "applyCatalogDefaults descriptors = map (\<lambda>d. case cd_DefaultLabels d of
     None \<Rightarrow> d\<lparr>cd_DefaultLabels := defaultLabels (cd_InputSchema d)\<rparr> | Some _ \<Rightarrow> d) descriptors"

text \<open>A copy through JSON and the encoding of a catalog, as the code asks for them.\<close>

record codec =
  cc_clone :: "CapabilityDescriptor \<Rightarrow> CapabilityDescriptor"
  cc_encode :: "string \<Rightarrow> CapabilityDescriptor list \<Rightarrow> CapabilityEdge list \<Rightarrow> string"

fun owned_descriptors :: "codec \<Rightarrow> string list \<Rightarrow> CapabilityDescriptor list \<Rightarrow> CapabilityDescriptor list" where
  "owned_descriptors cc seen [] = []"
| "owned_descriptors cc seen (d # rest) =
     (if TrimSpace (cd_Name d) = [] \<or> cd_Name d \<in> set seen then owned_descriptors cc seen rest
      else cc_clone cc d # owned_descriptors cc (cd_Name d # seen) rest)"

definition BuildCapabilityCatalogFromDescriptors :: "codec \<Rightarrow> string \<Rightarrow> CapabilityDescriptor list \<Rightarrow> CapabilityCatalogSnapshot" where
  "BuildCapabilityCatalogFromDescriptors cc providerID descriptors =
     (let normalized = NormalizeProviderID providerID;
          owned = applyCatalogDefaults (sort_key cd_OperationID (owned_descriptors cc [] descriptors));
          edges = deriveCapabilityEdges owned;
          tools = applyCapabilityEdges owned edges
      in \<lparr>sn_ProviderID = normalized,
          sn_Revision = ''sha256:'' @ hex_EncodeToString (Sum256 (cc_encode cc normalized tools edges)),
          sn_Tools = tools, sn_Edges = edges\<rparr>)"

definition CloneCapabilityCatalogSnapshot :: "codec \<Rightarrow> CapabilityCatalogSnapshot \<Rightarrow> CapabilityCatalogSnapshot" where
  "CloneCapabilityCatalogSnapshot cc s = s\<lparr>sn_Tools := map (cc_clone cc) (sn_Tools s)\<rparr>"

section \<open>The registry\<close>

record 'c Registration =
  rn_Descriptor :: CapabilityDescriptor
  rn_ProviderID :: string
  rn_Implementation :: string
  rn_Capability :: "'c option"

record 'c CatalogRegistry =
  rg_provider :: string
  rg_authorizedProviders :: "(string, bool) gomap"
  rg_known :: "(string, bool) gomap"
  rg_allowedImplementations :: "(string, bool) gomap"
  rg_base :: CapabilityCatalogSnapshot
  rg_overlays :: "(string, 'c Registration) gomap"

record RegistryOptions =
  op_ProviderID :: string
  op_AuthorizedProviders :: "(string, bool) gomap"
  op_KnownResourceKinds :: "(string, bool) gomap"
  op_AllowedImplementations :: "(string, bool) gomap"

definition normalizeRegistrationProvider :: "string \<Rightarrow> string" where
  "normalizeRegistrationProvider providerID = ToLower (TrimSpace providerID)"

definition NewRegistry :: "codec \<Rightarrow> CapabilityCatalogSnapshot \<Rightarrow> RegistryOptions \<Rightarrow> 'c CatalogRegistry" where
  "NewRegistry cc snapshot options =
     (let provider = NormalizeProviderID (op_ProviderID options);
          provider = (if provider = [] then sn_ProviderID snapshot else provider)
      in \<lparr>rg_provider = provider,
          rg_authorizedProviders = fold (\<lambda>(candidate, enabled) m.
              if enabled then gomap_put (normalizeRegistrationProvider candidate) True m else m)
            (op_AuthorizedProviders options) [(provider, True)],
          rg_known = op_KnownResourceKinds options,
          rg_allowedImplementations = op_AllowedImplementations options,
          rg_base = CloneCapabilityCatalogSnapshot cc snapshot, rg_overlays = []\<rparr>)"

definition Registry_Snapshot :: "codec \<Rightarrow> 'c CatalogRegistry \<Rightarrow> CapabilityCatalogSnapshot" where
  "Registry_Snapshot cc r = BuildCapabilityCatalogFromDescriptors cc (rg_provider r)
     (sort_key cd_OperationID (sn_Tools (rg_base r) @ map (\<lambda>(_, n). rn_Descriptor n) (rg_overlays r)))"

definition baseConflict :: "'c CatalogRegistry \<Rightarrow> string \<Rightarrow> bool" where
  "baseConflict r operationID = list_ex (\<lambda>d. cd_OperationID d = operationID) (sn_Tools (rg_base r))"

section \<open>Validation\<close>

definition enabled :: "(string, bool) gomap \<Rightarrow> string \<Rightarrow> bool" where
  "enabled m k = gomap_or m k False"

definition ensure :: "bool \<Rightarrow> string \<Rightarrow> any list \<Rightarrow> PlanError option" where
  "ensure ok message args = (if ok then None else Some (Errorf message args))"

text \<open>The first error of a list of checks.\<close>

fun checks :: "PlanError option list \<Rightarrow> PlanError option" where
  "checks [] = None"
| "checks (c # cs) = (case c of None \<Rightarrow> checks cs | Some e \<Rightarrow> Some e)"

definition name_char :: "char \<Rightarrow> bool" where
  "name_char c \<longleftrightarrow> segment_char c \<or> c = CHR ''_'' \<or> c = CHR ''.''"

text \<open>The anchored pattern \<^verbatim>\<open>^[a-z][a-z0-9_.-]{0,127}$\<close>.\<close>

definition operationNamePattern :: "string \<Rightarrow> bool" where
  "operationNamePattern s \<longleftrightarrow>
     (case s of [] \<Rightarrow> False | c # cs \<Rightarrow> lower_letter c \<and> length cs \<le> 127 \<and> list_all name_char cs)"

definition schemaPath :: "anymap \<Rightarrow> string \<Rightarrow> anymap option" where
  "schemaPath schema path = schema_walk schema (path_of path)"

definition type_name :: "anymap \<Rightarrow> string" where
  "type_name schema = (case as_string (lookup schema ''type'') of Some t \<Rightarrow> t | None \<Rightarrow> [])"

definition schemaPathType :: "anymap \<Rightarrow> string \<Rightarrow> string" where
  "schemaPathType schema path = (case schemaPath schema path of None \<Rightarrow> [] | Some schema \<Rightarrow> type_name schema)"

text \<open>\<open>resolve\<close> is the library's parse and resolution of a schema.\<close>

type_synonym resolver = "anymap \<Rightarrow> PlanError option"

definition validateJSONSchema :: "resolver \<Rightarrow> string \<Rightarrow> anymap \<Rightarrow> PlanError option" where
  "validateJSONSchema resolve label schema =
     (if \<not> marshalable (map_any schema) then Some (Errorf (label @ '' schema is not JSON'') [])
      else (case resolve schema of None \<Rightarrow> None | Some e \<Rightarrow> Some (Wrapf (label @ '' schema is invalid: %w'') [] e)))"

definition number_types :: "string set" where
  "number_types = {''number'', ''integer''}"

definition size_types :: "string set" where
  "size_types = {''string'', ''number'', ''integer''}"

definition dotted :: "string \<Rightarrow> bool" where
  "dotted path \<longleftrightarrow> HasPrefix path ''.'' \<or> HasSuffix path ''.'' \<or> list_ex (\<lambda>c. c \<in> set ''[]/'') path"

definition validate_cost_binding :: "CapabilityDescriptor \<Rightarrow> string \<times> string \<times> string set \<times> bool \<Rightarrow> PlanError option" where
  "validate_cost_binding d binding = (case binding of (field, raw, allowedTypes, static) \<Rightarrow>
     let path = TrimSpace raw; name = [AStr (cd_OperationID d), AStr field, AStr path] in
     if path = [] then None
     else if \<not> static then Some (Errorf ''capability %q resourceCost.%s requires a positive static fallback'' name)
     else if dotted path then Some (Errorf ''capability %q resourceCost.%s binding path %q is not a supported object path'' name)
     else (case schemaPath (cd_InputSchema d) path of
        None \<Rightarrow> Some (Errorf ''capability %q resourceCost.%s binding path %q is absent from inputSchema'' name)
      | Some property \<Rightarrow> ensure (type_name property \<in> allowedTypes)
          ''capability %q resourceCost.%s binding path %q has unsupported type %q'' (name @ [AStr (type_name property)])))"

definition cost_bindings :: "ResourceCost \<Rightarrow> ResourceCostArgumentBindings \<Rightarrow> (string \<times> string \<times> string set \<times> bool) list" where
  "cost_bindings cost b =
     [(''cpuCores'', ab_CPUCores b, number_types, f64_lt (FZero False) (rc_CPUCores cost)),
      (''memoryBytes'', ab_MemoryBytes b, size_types, 0 < rc_MemoryBytes cost),
      (''diskBytes'', ab_DiskBytes b, size_types, True),
      (''tasks'', ab_Tasks b, number_types, 0 < rc_Tasks cost)]"

text \<open>The code ranges over a map of the three sizes; the order only picks which of several errors it reports.\<close>

definition validateResourceCost :: "CapabilityDescriptor \<Rightarrow> PlanError option" where
  "validateResourceCost d = (case cd_ResourceCost d of
     None \<Rightarrow> None
   | Some cost \<Rightarrow>
      (let op = AStr (cd_OperationID d) in
       if \<not> f64_finite (rc_CPUCores cost) \<or> f64_lt (rc_CPUCores cost) (FZero False)
       then Some (Errorf ''capability %q has an invalid resourceCost.cpuCores'' [op])
       else checks
         [ensure (0 \<le> rc_MemoryBytes cost) ''capability %q has a negative resourceCost.memoryBytes'' [op],
          ensure (0 \<le> rc_DiskBytes cost) ''capability %q has a negative resourceCost.diskBytes'' [op],
          ensure (0 \<le> rc_Tasks cost) ''capability %q has a negative resourceCost.tasks'' [op],
          ensure (rc_Class cost \<in> {[], ''control'', ''normal'', ''heavy''})
            ''capability %q has unsupported resourceCost.class %q'' [op, AStr (rc_Class cost)],
          (case rc_ArgumentBindings cost of None \<Rightarrow> None
           | Some b \<Rightarrow> checks (map (validate_cost_binding d) (cost_bindings cost b)))]))"

definition knows_kind :: "'c CatalogRegistry \<Rightarrow> string \<Rightarrow> bool" where
  "knows_kind r kind \<longleftrightarrow> IsKnownType kind \<and> (rg_known r = [] \<or> enabled (rg_known r) kind)"

definition validateBinding :: "'c CatalogRegistry \<Rightarrow> CapabilityDescriptor \<Rightarrow> ResourceBinding \<Rightarrow> anymap \<Rightarrow> bool \<Rightarrow> PlanError option" where
  "validateBinding r d b schema produces =
     (let op = AStr (cd_OperationID d); path = (if produces then rb_SourcePath b else rb_Argument b) in checks
       [ensure (TrimSpace (rb_ResourceType b) \<noteq> []) ''capability %q has a resource binding without a resource type'' [op],
        ensure (knows_kind r (rb_ResourceType b)) ''capability %q references unknown binding resource kind %q''
          [op, AStr (rb_ResourceType b)],
        ensure (TrimSpace path \<noteq> [] \<and> schemaPathExists schema path)
          (if produces then ''capability %q produces binding sourcePath %q in its output schema''
           else ''capability %q requires binding argument %q in its input schema'') [op, AStr path],
        ensure (schemaPathType schema path = ''string'') ''capability %q resource binding path %q must be a string'' [op, AStr path],
        (if produces \<and> rb_SelectorID b \<noteq> [] then
           (case FindSelector (cd_OutputType d) (rb_SelectorID b) (cd_ResultTypes d) of
              None \<Rightarrow> Some (Errorf ''capability %q produced binding references unknown selector %q'' [op, AStr (rb_SelectorID b)])
            | Some s \<Rightarrow> ensure (sel_SourcePath s = rb_SourcePath b)
                ''capability %q selector %q sourcePath %q disagrees with produced binding path %q''
                [op, AStr (rb_SelectorID b), AStr (sel_SourcePath s), AStr (rb_SourcePath b)])
         else None)])"

definition validateDescriptor :: "resolver \<Rightarrow> 'c CatalogRegistry \<Rightarrow> CapabilityDescriptor \<Rightarrow> PlanError option" where
  "validateDescriptor resolve r d =
     (let op = AStr (cd_OperationID d) in
      if cd_InputSchema d = None \<or> cd_OutputSchema d = None
      then ensure (cd_Requires d = [] \<and> cd_Produces d = [] \<and> cd_ResourceKinds d = [])
        ''capability %q has typed metadata but is missing input or output schemas'' [op]
      else checks
       [ensure (type_name (cd_InputSchema d) = ''object'') ''capability %q input schema must declare type object'' [op],
        validateJSONSchema resolve (cd_OperationID d @ '' input'') (cd_InputSchema d),
        validateJSONSchema resolve (cd_OperationID d @ '' output'') (cd_OutputSchema d),
        validateResourceCost d,
        (case validateSelectors (cd_OutputSchema d) (cd_OutputType d) (cd_ResultTypes d) of
           None \<Rightarrow> None | Some e \<Rightarrow> Some (Wrapf ''capability %q result selectors: %w'' [op] e)),
        ensure (1 \<le> cd_Version d) ''capability %q must declare a positive version'' [op],
        ensure (cd_Effect d \<in> {''read'', ''mutation'', ''destructive'', ''credential_bearing''})
          ''capability %q has unsupported effect %q'' [op, AStr (cd_Effect d)],
        ensure (cd_TaskSupport d \<in> {[], ''sync_only'', ''bridged''})
          ''capability %q has unsupported taskSupport %q'' [op, AStr (cd_TaskSupport d)],
        ensure (list_all (knows_kind r) (cd_ResourceKinds d)) ''capability %q references unknown resource kind'' [op],
        checks (map (\<lambda>b. validateBinding r d b (cd_InputSchema d) False) (cd_Requires d)),
        checks (map (\<lambda>b. validateBinding r d b (cd_OutputSchema d) True) (cd_Produces d))])"

definition ValidateBase :: "resolver \<Rightarrow> 'c CatalogRegistry \<Rightarrow> PlanError option" where
  "ValidateBase resolve r = checks (map (validateDescriptor resolve r) (sn_Tools (rg_base r)))"

section \<open>Operations\<close>

text \<open>\<open>definition_of c\<close> is what the \<open>Definition\<close> method of the capability \<open>c\<close> answers during the call.\<close>

definition normalizeRegistration :: "'c Registration \<Rightarrow> 'c Registration" where
  "normalizeRegistration n = (if cd_Version (rn_Descriptor n) = 0
     then n\<lparr>rn_Descriptor := rn_Descriptor n\<lparr>cd_Version := 1\<rparr>\<rparr> else n)"

definition validateRegistration :: "resolver \<Rightarrow> ('c \<Rightarrow> CapabilityDescriptor) \<Rightarrow> 'c CatalogRegistry \<Rightarrow> 'c Registration \<Rightarrow> PlanError option" where
  "validateRegistration resolve definition_of r n =
     (let d = rn_Descriptor n; op = AStr (cd_OperationID d); provider = normalizeRegistrationProvider (rn_ProviderID n) in
      case rn_Capability n of
        None \<Rightarrow> Some (Errorf ''capability %q must provide an executable validation boundary'' [op])
      | Some c \<Rightarrow> checks
         [ensure (cd_OperationID (definition_of c) = cd_OperationID d \<and> cd_Name (definition_of c) = cd_Name d)
            ''capability %q descriptor does not match its registration'' [op],
          ensure (operationNamePattern (cd_OperationID d) \<and> cd_OperationID d = cd_Name d)
            ''operationId and name must be the same valid operation identifier'' [],
          ensure (provider \<noteq> [] \<and> enabled (rg_authorizedProviders r) provider)
            ''registration provider does not match the authorized provider'' [],
          ensure (TrimSpace (rn_Implementation n) \<noteq> []) ''registration must name an installed implementation'' [],
          ensure (TrimSpace (cd_Implementation d) \<noteq> [] \<and> cd_Implementation d = rn_Implementation n)
            ''capability %q implementation must match the installed implementation'' [op],
          ensure (rg_allowedImplementations r = [] \<or> enabled (rg_allowedImplementations r) (rn_Implementation n))
            ''registration implementation %q is not authorized'' [AStr (rn_Implementation n)],
          ensure (cd_Provider d = [] \<or> normalizeRegistrationProvider (cd_Provider d) = provider)
            ''descriptor provider does not match the authorized provider'' [],
          ensure (cd_InputSchema d \<noteq> None \<and> cd_OutputSchema d \<noteq> None)
            ''capability %q must provide input and output schemas'' [op],
          validateDescriptor resolve r d])"

definition base_conflict_error :: "string \<Rightarrow> PlanError" where
  "base_conflict_error operationID = Errorf ''capability %q conflicts with the base catalog'' [AStr operationID]"

definition put_overlay :: "'c Registration \<Rightarrow> 'c CatalogRegistry \<Rightarrow> 'c CatalogRegistry" where
  "put_overlay n r = r\<lparr>rg_overlays := gomap_put (cd_OperationID (rn_Descriptor n)) n (rg_overlays r)\<rparr>"

definition RegisterRegistration :: "resolver \<Rightarrow> ('c \<Rightarrow> CapabilityDescriptor) \<Rightarrow> 'c Registration \<Rightarrow> 'c CatalogRegistry \<Rightarrow>
    'c CatalogRegistry \<times> PlanError option" where
  "RegisterRegistration resolve definition_of registration r =
     (let n = normalizeRegistration registration; op = cd_OperationID (rn_Descriptor n) in
      case validateRegistration resolve definition_of r n of
        Some e \<Rightarrow> (r, Some e)
      | None \<Rightarrow>
         if baseConflict r op then (r, Some (base_conflict_error op))
         else if gomap_has (rg_overlays r) op then (r, Some (Errorf ''capability %q is already registered'' [AStr op]))
         else (put_overlay n r, None))"

definition Register :: "resolver \<Rightarrow> ('c \<Rightarrow> CapabilityDescriptor) \<Rightarrow> 'c option \<Rightarrow> 'c CatalogRegistry \<Rightarrow>
    'c CatalogRegistry \<times> PlanError option" where
  "Register resolve definition_of c r = (case c of
     None \<Rightarrow> (r, Some (Errorf ''capability implementation is required'' []))
   | Some v \<Rightarrow> RegisterRegistration resolve definition_of
       \<lparr>rn_Descriptor = definition_of v, rn_ProviderID = cd_Provider (definition_of v),
        rn_Implementation = cd_Implementation (definition_of v), rn_Capability = Some v\<rparr> r)"

definition capabilityRegistration :: "('c \<Rightarrow> CapabilityDescriptor) \<Rightarrow> 'c option \<Rightarrow> string \<Rightarrow> string \<Rightarrow>
    PlanError + 'c Registration" where
  "capabilityRegistration definition_of c providerID implementation = (case c of
     None \<Rightarrow> Inl (Errorf ''capability implementation is required'' [])
   | Some v \<Rightarrow>
      (let d = definition_of v in
       if cd_Version d < 1 then Inl (Errorf ''capability %q must declare a positive version'' [AStr (cd_OperationID d)])
       else Inr \<lparr>rn_Descriptor = d\<lparr>cd_Implementation := (if cd_Implementation d = [] then implementation else cd_Implementation d),
              cd_Provider := (if cd_Provider d = [] then providerID else cd_Provider d)\<rparr>,
            rn_ProviderID = providerID, rn_Implementation = implementation, rn_Capability = Some v\<rparr>))"

definition RegisterCapability :: "resolver \<Rightarrow> ('c \<Rightarrow> CapabilityDescriptor) \<Rightarrow> 'c option \<Rightarrow> string \<Rightarrow> string \<Rightarrow>
    'c CatalogRegistry \<Rightarrow> 'c CatalogRegistry \<times> PlanError option" where
  "RegisterCapability resolve definition_of c providerID implementation r =
     (case capabilityRegistration definition_of c providerID implementation of
        Inl e \<Rightarrow> (r, Some e)
      | Inr n \<Rightarrow> RegisterRegistration resolve definition_of n r)"

definition DisplaceCapabilityFamilies :: "string \<Rightarrow> string list \<Rightarrow> 'c CatalogRegistry \<Rightarrow> 'c CatalogRegistry \<times> string list" where
  "DisplaceCapabilityFamilies ownerProviderID capabilityIDs r =
     (let owner = normalizeRegistrationProvider ownerProviderID;
          wanted = filter (\<lambda>i. i \<noteq> []) (map TrimSpace capabilityIDs);
          displaced = (\<lambda>n. TrimSpace (cd_CapabilityID (rn_Descriptor n)) \<in> set wanted \<and>
            normalizeRegistrationProvider (rn_ProviderID n) \<noteq> owner)
      in if owner = [] \<or> wanted = [] then (r, [])
         else (r\<lparr>rg_overlays := filter (\<lambda>(_, n). \<not> displaced n) (rg_overlays r)\<rparr>,
               sort (map fst (filter (\<lambda>(_, n). displaced n) (rg_overlays r)))))"

text \<open>The common end of the two replacements: conflicts are found before anything is removed.\<close>

definition find_conflict :: "string \<Rightarrow> ('c Registration \<Rightarrow> bool) \<Rightarrow> 'c Registration list \<Rightarrow> 'c CatalogRegistry \<Rightarrow> PlanError option" where
  "find_conflict who goes ns r = checks (map (\<lambda>n. let op = cd_OperationID (rn_Descriptor n) in
     if baseConflict r op then Some (base_conflict_error op)
     else (case gomap_get (rg_overlays r) op of
         None \<Rightarrow> None
       | Some old \<Rightarrow> ensure (goes old) (''capability %q is already registered by another '' @ who) [AStr op])) ns)"

definition replace_overlays :: "('c Registration \<Rightarrow> bool) \<Rightarrow> 'c Registration list \<Rightarrow> 'c CatalogRegistry \<Rightarrow> 'c CatalogRegistry" where
  "replace_overlays goes ns r = fold put_overlay ns
     (r\<lparr>rg_overlays := filter (\<lambda>(_, old). \<not> goes old) (rg_overlays r)\<rparr>)"

definition publish :: "string \<Rightarrow> ('c Registration \<Rightarrow> bool) \<Rightarrow> 'c Registration list \<Rightarrow> 'c CatalogRegistry \<Rightarrow>
    'c CatalogRegistry \<times> PlanError option" where
  "publish who goes ns r = (case find_conflict who goes ns r of
     Some e \<Rightarrow> (r, Some e) | None \<Rightarrow> (replace_overlays goes ns r, None))"

definition first_provider :: "'c Registration list \<Rightarrow> string" where
  "first_provider ns = (case ns of [] \<Rightarrow> [] | n # _ \<Rightarrow> rn_ProviderID n)"

definition generation_goes :: "string \<Rightarrow> string \<Rightarrow> 'c Registration \<Rightarrow> bool" where
  "generation_goes generationID providerID old \<longleftrightarrow> cd_GenerationID (rn_Descriptor old) = generationID \<or>
     providerID \<noteq> [] \<and> rn_ProviderID old = providerID"

definition provider_goes :: "string \<Rightarrow> 'c Registration \<Rightarrow> bool" where
  "provider_goes providerID old \<longleftrightarrow> normalizeRegistrationProvider (rn_ProviderID old) = providerID"

definition mixed_providers :: "string \<Rightarrow> 'c Registration list \<Rightarrow> PlanError option" where
  "mixed_providers generationID ns = (case List.find (\<lambda>n. rn_ProviderID n \<noteq> first_provider ns) (tl ns) of
     None \<Rightarrow> None
   | Some n \<Rightarrow> Some (Errorf ''generation %q contains capabilities from multiple providers: %q and %q''
       [AStr generationID, AStr (first_provider ns), AStr (rn_ProviderID n)]))"

fun generation_registrations :: "('c \<Rightarrow> CapabilityDescriptor) \<Rightarrow> string \<Rightarrow> string list \<Rightarrow> 'c option list \<Rightarrow>
    PlanError + 'c Registration list" where
  "generation_registrations definition_of generationID seen [] = Inr []"
| "generation_registrations definition_of generationID seen (c # rest) = (case c of
     None \<Rightarrow> Inl (Errorf ''generation contains a nil capability'' [])
   | Some v \<Rightarrow>
      (let d = definition_of v in
       if cd_GenerationID d \<noteq> generationID
       then Inl (Errorf ''capability %q does not belong to generation %q'' [AStr (cd_OperationID d), AStr generationID])
       else if cd_OperationID d \<in> set seen
       then Inl (Errorf ''generation contains duplicate capability %q'' [AStr (cd_OperationID d)])
       else (case generation_registrations definition_of generationID (cd_OperationID d # seen) rest of
           Inl e \<Rightarrow> Inl e
         | Inr ns \<Rightarrow> Inr (\<lparr>rn_Descriptor = d, rn_ProviderID = cd_Provider d,
             rn_Implementation = cd_Implementation d, rn_Capability = Some v\<rparr> # ns))))"

definition validate_all :: "resolver \<Rightarrow> ('c \<Rightarrow> CapabilityDescriptor) \<Rightarrow> 'c CatalogRegistry \<Rightarrow> 'c Registration list \<Rightarrow> PlanError option" where
  "validate_all resolve definition_of r ns = checks (map (validateRegistration resolve definition_of r) ns)"

definition ReplaceGeneration :: "resolver \<Rightarrow> ('c \<Rightarrow> CapabilityDescriptor) \<Rightarrow> string \<Rightarrow> 'c option list \<Rightarrow>
    'c CatalogRegistry \<Rightarrow> 'c CatalogRegistry \<times> PlanError option" where
  "ReplaceGeneration resolve definition_of generationID values r =
     (if TrimSpace generationID = [] then (r, Some (Errorf ''generation id is required'' []))
      else (case generation_registrations definition_of generationID [] values of
          Inl e \<Rightarrow> (r, Some e)
        | Inr raw \<Rightarrow>
           (let ns = map normalizeRegistration raw in
            case validate_all resolve definition_of r ns of
              Some e \<Rightarrow> (r, Some e)
            | None \<Rightarrow>
               (case mixed_providers generationID ns of
                  Some e \<Rightarrow> (r, Some e)
                | None \<Rightarrow> publish ''overlay'' (generation_goes generationID (first_provider ns)) ns r))))"

fun provider_registrations :: "('c \<Rightarrow> CapabilityDescriptor) \<Rightarrow> string \<Rightarrow> string list \<Rightarrow> 'c option list \<Rightarrow>
    PlanError + 'c Registration list" where
  "provider_registrations definition_of providerID seen [] = Inr []"
| "provider_registrations definition_of providerID seen (c # rest) = (case c of
     None \<Rightarrow> Inl (Errorf ''provider %q contains a nil capability'' [AStr providerID])
   | Some v \<Rightarrow>
      (case capabilityRegistration definition_of c providerID (cd_Implementation (definition_of v)) of
         Inl e \<Rightarrow> Inl e
       | Inr n \<Rightarrow>
          (let d = rn_Descriptor n in
           if normalizeRegistrationProvider (cd_Provider d) \<noteq> providerID
           then Inl (Errorf ''capability %q belongs to provider %q, not %q''
             [AStr (cd_OperationID d), AStr (cd_Provider d), AStr providerID])
           else if cd_OperationID d \<in> set seen
           then Inl (Errorf ''provider %q contains duplicate capability %q'' [AStr providerID, AStr (cd_OperationID d)])
           else (case provider_registrations definition_of providerID (cd_OperationID d # seen) rest of
               Inl e \<Rightarrow> Inl e
             | Inr ns \<Rightarrow> Inr (n # ns)))))"

definition ReplaceProvider :: "resolver \<Rightarrow> ('c \<Rightarrow> CapabilityDescriptor) \<Rightarrow> string \<Rightarrow> 'c option list \<Rightarrow>
    'c CatalogRegistry \<Rightarrow> 'c CatalogRegistry \<times> PlanError option" where
  "ReplaceProvider resolve definition_of rawProviderID values r =
     (let providerID = normalizeRegistrationProvider rawProviderID in
      if providerID = [] then (r, Some (Errorf ''provider id is required'' []))
      else (case provider_registrations definition_of providerID [] values of
          Inl e \<Rightarrow> (r, Some e)
        | Inr raw \<Rightarrow>
           (let ns = map normalizeRegistration raw in
            case validate_all resolve definition_of r ns of
              Some e \<Rightarrow> (r, Some e)
            | None \<Rightarrow> publish ''provider'' (provider_goes providerID) ns r)))"

definition Upsert :: "resolver \<Rightarrow> ('c \<Rightarrow> CapabilityDescriptor) \<Rightarrow> 'c Registration \<Rightarrow> 'c CatalogRegistry \<Rightarrow>
    'c CatalogRegistry \<times> PlanError option" where
  "Upsert resolve definition_of registration r =
     (let n = normalizeRegistration registration; op = cd_OperationID (rn_Descriptor n) in
      case validateRegistration resolve definition_of r n of
        Some e \<Rightarrow> (r, Some e)
      | None \<Rightarrow>
         if baseConflict r op then (r, Some (base_conflict_error op))
         else (case (case gomap_get (rg_overlays r) op of
               None \<Rightarrow> None
             | Some old \<Rightarrow>
                if rn_ProviderID old \<noteq> rn_ProviderID n \<or> rn_Implementation old \<noteq> rn_Implementation n
                then Some (Errorf ''capability %q is already registered by another provider'' [AStr op])
                else ensure (cd_Version (rn_Descriptor old) \<le> cd_Version (rn_Descriptor n))
                  ''capability %q cannot be downgraded from version %d to %d''
                  [AStr op, AFloat (f64_of_int (cd_Version (rn_Descriptor old))),
                   AFloat (f64_of_int (cd_Version (rn_Descriptor n)))]) of
             Some e \<Rightarrow> (r, Some e)
           | None \<Rightarrow> (put_overlay n r, None)))"

definition UpsertCapability :: "resolver \<Rightarrow> ('c \<Rightarrow> CapabilityDescriptor) \<Rightarrow> 'c option \<Rightarrow> string \<Rightarrow> string \<Rightarrow>
    'c CatalogRegistry \<Rightarrow> 'c CatalogRegistry \<times> PlanError option" where
  "UpsertCapability resolve definition_of c providerID implementation r =
     (case capabilityRegistration definition_of c providerID implementation of
        Inl e \<Rightarrow> (r, Some e)
      | Inr n \<Rightarrow> Upsert resolve definition_of n r)"

definition ResolveCapability :: "'c CatalogRegistry \<Rightarrow> string \<Rightarrow> 'c option" where
  "ResolveCapability r operationID = (case gomap_get (rg_overlays r) operationID of
     None \<Rightarrow> None | Some n \<Rightarrow> rn_Capability n)"

text \<open>The lock is taken twice: \<open>r\<close> is the registry of the first time, \<open>r'\<close> that of the second.\<close>

definition Resolve_current :: "codec \<Rightarrow> 'c CatalogRegistry \<Rightarrow> 'c CatalogRegistry \<Rightarrow> string \<Rightarrow> string \<Rightarrow> PlanError + 'c" where
  "Resolve_current cc r r' operationID catalogRevision =
     (let current = sn_Revision (Registry_Snapshot cc r) in
      if TrimSpace catalogRevision = [] then Inl (Errorf ''catalog revision is required'' [])
      else if current \<noteq> catalogRevision
      then Inl (Errorf ''catalog revision %q is stale; current revision is %q'' [AStr catalogRevision, AStr current])
      else (case ResolveCapability r' operationID of
          None \<Rightarrow> Inl (Errorf ''capability %q is not registered'' [AStr operationID])
        | Some c \<Rightarrow> Inr c))"

definition AuthorizeProvider :: "string \<Rightarrow> 'c CatalogRegistry \<Rightarrow> 'c CatalogRegistry \<times> PlanError option" where
  "AuthorizeProvider rawProviderID r = (let providerID = normalizeRegistrationProvider rawProviderID in
     if providerID = [] then (r, Some (Errorf ''provider id is required'' []))
     else (r\<lparr>rg_authorizedProviders := gomap_put providerID True (rg_authorizedProviders r)\<rparr>, None))"

definition Unregister :: "string \<Rightarrow> 'c CatalogRegistry \<Rightarrow> 'c CatalogRegistry \<times> PlanError option" where
  "Unregister operationID r = (if gomap_has (rg_overlays r) operationID
     then (r\<lparr>rg_overlays := gomap_del operationID (rg_overlays r)\<rparr>, None)
     else (r, Some (Errorf ''capability %q is not an overlay'' [AStr operationID])))"

end
