(* ===== verification/Catalog_Laws.thy ===== *)
theory Catalog_Laws
  imports Catalog
begin

text \<open>
  What the capability catalog promises. Whatever operations are called, in any order, the registry holds
  only capabilities that passed its checks, under their own operation id, beside the base catalog; a
  replacement is all or nothing; and the edges of a published snapshot are exactly the pairs of a produced
  and a required resource of one kind.
\<close>

section \<open>Checks\<close>

lemma ensure_None [simp]: "ensure ok m args = None \<longleftrightarrow> ok"
  by (simp add: ensure_def)

declare checks.simps [simp del]

lemma checks_simps [simp]: "checks [] = None" "checks (c # cs) = None \<longleftrightarrow> c = None \<and> checks cs = None"
  by (auto simp: checks.simps split: option.splits)

lemma checks_map: "checks (map f xs) = None \<longleftrightarrow> (\<forall>x \<in> set xs. f x = None)"
  by (induction xs) auto

text \<open>A binding that was checked: a known kind, and a path to a string in the schema.\<close>

definition sound_binding :: "'c CatalogRegistry \<Rightarrow> anymap \<Rightarrow> string \<Rightarrow> ResourceBinding \<Rightarrow> bool" where
  "sound_binding r schema path b \<longleftrightarrow> TrimSpace (rb_ResourceType b) \<noteq> [] \<and> knows_kind r (rb_ResourceType b) \<and>
     (\<exists>s. schemaPath schema path = Some s \<and> type_name s = ''string'')"

definition sound_descriptor :: "'c CatalogRegistry \<Rightarrow> CapabilityDescriptor \<Rightarrow> bool" where
  "sound_descriptor r d \<longleftrightarrow> type_name (cd_InputSchema d) = ''object'' \<and> 1 \<le> cd_Version d \<and>
     cd_Effect d \<in> {''read'', ''mutation'', ''destructive'', ''credential_bearing''} \<and>
     cd_TaskSupport d \<in> {[], ''sync_only'', ''bridged''} \<and> (\<forall>k \<in> set (cd_ResourceKinds d). knows_kind r k) \<and>
     (\<forall>b \<in> set (cd_Requires d). sound_binding r (cd_InputSchema d) (rb_Argument b) b) \<and>
     (\<forall>b \<in> set (cd_Produces d). sound_binding r (cd_OutputSchema d) (rb_SourcePath b) b \<and>
        (rb_SelectorID b \<noteq> [] \<longrightarrow> (\<exists>s. FindSelector (cd_OutputType d) (rb_SelectorID b) (cd_ResultTypes d) = Some s \<and>
           sel_SourcePath s = rb_SourcePath b)))"

lemma validateBinding_sound:
  assumes "validateBinding r d b schema produces = None"
  shows "sound_binding r schema (if produces then rb_SourcePath b else rb_Argument b) b"
    and "produces \<Longrightarrow> rb_SelectorID b \<noteq> [] \<Longrightarrow>
      \<exists>s. FindSelector (cd_OutputType d) (rb_SelectorID b) (cd_ResultTypes d) = Some s \<and> sel_SourcePath s = rb_SourcePath b"
proof -
  let ?path = "if produces then rb_SourcePath b else rb_Argument b"
  note parts = assms [unfolded validateBinding_def Let_def checks_simps ensure_None]
  then have p: "TrimSpace (rb_ResourceType b) \<noteq> []" "knows_kind r (rb_ResourceType b)"
      "schemaPathExists schema ?path" "schemaPathType schema ?path = ''string''"
    by blast+
  from p(3) obtain s where s: "schemaPath schema ?path = Some s"
    unfolding schemaPathExists_def schemaPath_def by blast
  with p(4) have "type_name s = ''string''" by (simp only: schemaPathType_def option.case)
  with p(1,2) s show "sound_binding r schema ?path b" unfolding sound_binding_def by blast
  show "\<exists>s. FindSelector (cd_OutputType d) (rb_SelectorID b) (cd_ResultTypes d) = Some s \<and> sel_SourcePath s = rb_SourcePath b"
    if "produces" "rb_SelectorID b \<noteq> []"
    using parts that by (simp split: option.splits)
qed

lemma validateDescriptor_sound:
  assumes "validateDescriptor resolve r d = None" "cd_InputSchema d \<noteq> None" "cd_OutputSchema d \<noteq> None"
  shows "sound_descriptor r d"
proof -
  have *: "\<not> (cd_InputSchema d = None \<or> cd_OutputSchema d = None)" using assms(2,3) by blast
  note parts = assms(1) [unfolded validateDescriptor_def Let_def if_not_P [OF *] checks_simps ensure_None checks_map]
  then have "\<forall>b \<in> set (cd_Requires d). sound_binding r (cd_InputSchema d) (rb_Argument b) b"
    using validateBinding_sound(1) [of r d _ "cd_InputSchema d" False] by simp
  moreover have "\<forall>b \<in> set (cd_Produces d). sound_binding r (cd_OutputSchema d) (rb_SourcePath b) b"
    using parts validateBinding_sound(1) [of r d _ "cd_OutputSchema d" True] by simp
  moreover have "\<forall>b \<in> set (cd_Produces d). rb_SelectorID b \<noteq> [] \<longrightarrow>
      (\<exists>s. FindSelector (cd_OutputType d) (rb_SelectorID b) (cd_ResultTypes d) = Some s \<and> sel_SourcePath s = rb_SourcePath b)"
    using parts validateBinding_sound(2) [of r d _ "cd_OutputSchema d" True] by blast
  ultimately show ?thesis using parts unfolding sound_descriptor_def list_all_iff by blast
qed

section \<open>The invariant\<close>

definition admitted :: "'c CatalogRegistry \<Rightarrow> 'c Registration \<Rightarrow> bool" where
  "admitted r n \<longleftrightarrow> (let d = rn_Descriptor n in rn_Capability n \<noteq> None \<and> operationNamePattern (cd_OperationID d) \<and>
     cd_Name d = cd_OperationID d \<and> enabled (rg_authorizedProviders r) (normalizeRegistrationProvider (rn_ProviderID n)) \<and>
     TrimSpace (rn_Implementation n) \<noteq> [] \<and> cd_Implementation d = rn_Implementation n \<and>
     (rg_allowedImplementations r = [] \<or> enabled (rg_allowedImplementations r) (rn_Implementation n)) \<and>
     sound_descriptor r d)"

definition overlay_ok :: "'c CatalogRegistry \<Rightarrow> string \<Rightarrow> 'c Registration \<Rightarrow> bool" where
  "overlay_ok r op n \<longleftrightarrow> cd_OperationID (rn_Descriptor n) = op \<and> \<not> baseConflict r op \<and> admitted r n"

definition registry_inv :: "'c CatalogRegistry \<Rightarrow> bool" where
  "registry_inv r \<longleftrightarrow> wf_gomap (rg_overlays r) \<and> (\<forall>op n. gomap_get (rg_overlays r) op = Some n \<longrightarrow> overlay_ok r op n)"

lemma validateRegistration_admitted:
  "validateRegistration resolve definition_of r n = None \<Longrightarrow> admitted r n"
  using validateDescriptor_sound [of resolve r "rn_Descriptor n"]
  by (auto simp: validateRegistration_def admitted_def Let_def split: option.splits)

text \<open>The checks read the authorized providers, which only grow, and tables that never change.\<close>

definition same_rules :: "'c CatalogRegistry \<Rightarrow> 'c CatalogRegistry \<Rightarrow> bool" where
  "same_rules r r' \<longleftrightarrow> rg_known r' = rg_known r \<and> rg_allowedImplementations r' = rg_allowedImplementations r \<and>
     rg_base r' = rg_base r \<and> (\<forall>p. enabled (rg_authorizedProviders r) p \<longrightarrow> enabled (rg_authorizedProviders r') p)"

lemma overlay_ok_rules: "same_rules r r' \<Longrightarrow> overlay_ok r op n \<Longrightarrow> overlay_ok r' op n"
  by (auto simp: overlay_ok_def admitted_def Let_def same_rules_def sound_descriptor_def sound_binding_def knows_kind_def
      baseConflict_def)

lemma registry_inv_shrink:
  assumes "registry_inv r" "same_rules r r'" "wf_gomap (rg_overlays r')"
    and "\<And>op n. gomap_get (rg_overlays r') op = Some n \<Longrightarrow> gomap_get (rg_overlays r) op = Some n"
  shows "registry_inv r'"
  using assms overlay_ok_rules by (fastforce simp: registry_inv_def)

lemma put_overlay_inv:
  assumes "registry_inv r" "admitted r n" "\<not> baseConflict r (cd_OperationID (rn_Descriptor n))"
  shows "registry_inv (put_overlay n r)"
proof -
  have rules: "same_rules r (put_overlay n r)" by (simp add: same_rules_def put_overlay_def)
  have "overlay_ok r (cd_OperationID (rn_Descriptor n)) n" using assms(2,3) by (simp add: overlay_ok_def)
  then show ?thesis
    using assms(1) overlay_ok_rules [OF rules] by (auto simp: registry_inv_def put_overlay_def)
qed

lemma find_conflict_None:
  "find_conflict who goes ns r = None \<longleftrightarrow> (\<forall>n \<in> set ns. \<not> baseConflict r (cd_OperationID (rn_Descriptor n)) \<and>
     (\<forall>old. gomap_get (rg_overlays r) (cd_OperationID (rn_Descriptor n)) = Some old \<longrightarrow> goes old))"
  by (auto simp: find_conflict_def checks_map Let_def split: option.splits)

lemma put_overlays_fields:
  "rg_base (fold put_overlay ns r) = rg_base r" "rg_known (fold put_overlay ns r) = rg_known r"
  "rg_allowedImplementations (fold put_overlay ns r) = rg_allowedImplementations r"
  "rg_authorizedProviders (fold put_overlay ns r) = rg_authorizedProviders r"
  "rg_provider (fold put_overlay ns r) = rg_provider r"
  by (induction ns arbitrary: r) (simp_all add: put_overlay_def)

lemma put_overlays_inv:
  "registry_inv r \<Longrightarrow> \<forall>n \<in> set ns. admitted r n \<and> \<not> baseConflict r (cd_OperationID (rn_Descriptor n)) \<Longrightarrow>
    registry_inv (fold put_overlay ns r)"
proof (induction ns arbitrary: r)
  case (Cons n ns)
  have rules: "same_rules r (put_overlay n r)" by (simp add: same_rules_def put_overlay_def)
  have "\<forall>m \<in> set ns. admitted (put_overlay n r) m \<and> \<not> baseConflict (put_overlay n r) (cd_OperationID (rn_Descriptor m))"
    using Cons.prems(2) overlay_ok_rules [OF rules] by (auto simp: overlay_ok_def)
  with Cons.IH [OF put_overlay_inv, of r n] Cons.prems show ?case by simp
qed simp

lemma replace_inv:
  assumes "registry_inv r" "\<forall>n \<in> set ns. admitted r n" "find_conflict who goes ns r = None"
  shows "registry_inv (replace_overlays goes ns r)"
proof -
  let ?r = "r\<lparr>rg_overlays := filter (\<lambda>(_, old). \<not> goes old) (rg_overlays r)\<rparr>"
  have rules: "same_rules r ?r" by (simp add: same_rules_def)
  have "registry_inv ?r"
    by (rule registry_inv_shrink [OF assms(1) rules])
      (use assms(1) in \<open>auto simp: registry_inv_def gomap_get_filter split: option.splits if_splits\<close>)
  then show ?thesis
    unfolding replace_overlays_def
    using assms(2,3) overlay_ok_rules [OF rules]
    by (intro put_overlays_inv) (auto simp: find_conflict_None overlay_ok_def)
qed

section \<open>The operations\<close>

lemma RegisterRegistration_inv: "registry_inv r \<Longrightarrow> registry_inv (fst (RegisterRegistration resolve definition_of n r))"
  by (auto simp: RegisterRegistration_def Let_def put_overlay_inv validateRegistration_admitted split: option.splits)

lemma Upsert_inv: "registry_inv r \<Longrightarrow> registry_inv (fst (Upsert resolve definition_of n r))"
  by (auto simp: Upsert_def Let_def put_overlay_inv validateRegistration_admitted split: option.split)

lemma validate_all_admitted: "validate_all resolve definition_of r ns = None \<Longrightarrow> \<forall>n \<in> set ns. admitted r n"
  by (auto simp: validate_all_def checks_map validateRegistration_admitted)

text \<open>What a replacement does: it fails and changes nothing, or it passed all checks and replaces.\<close>

lemma publish_cases:
  assumes "publish who goes ns r = (r', err)"
  obtains (refused) e where "r' = r" "err = Some e"
  | (replaced) "err = None" "find_conflict who goes ns r = None" "r' = replace_overlays goes ns r"
proof (cases "find_conflict who goes ns r")
  case None
  then show thesis using assms replaced by (simp add: publish_def)
next
  case (Some e)
  then show thesis using assms refused [of e] by (simp add: publish_def)
qed

lemma one_provider: "mixed_providers g ns = None \<Longrightarrow> \<forall>n \<in> set ns. rn_ProviderID n = first_provider ns"
  by (cases ns) (auto simp: mixed_providers_def first_provider_def find_None_iff split: option.splits)

lemma ReplaceGeneration_cases:
  assumes "ReplaceGeneration resolve definition_of generationID values r = (r', err)"
  obtains (refused) e where "r' = r" "err = Some e"
  | (replaced) raw ns where "err = None" "TrimSpace generationID \<noteq> []"
      "generation_registrations definition_of generationID [] values = Inr raw" "ns = map normalizeRegistration raw"
      "validate_all resolve definition_of r ns = None" "mixed_providers generationID ns = None"
      "find_conflict ''overlay'' (generation_goes generationID (first_provider ns)) ns r = None"
      "r' = replace_overlays (generation_goes generationID (first_provider ns)) ns r"
proof (cases "TrimSpace generationID = []")
  case True
  then show thesis using assms refused by (auto simp: ReplaceGeneration_def)
next
  case g: False
  show thesis
  proof (cases "generation_registrations definition_of generationID [] values")
    case (Inl e)
    then show thesis using assms refused g by (auto simp: ReplaceGeneration_def)
  next
    case (Inr raw)
    let ?ns = "map normalizeRegistration raw"
    have eq: "(r', err) = (case validate_all resolve definition_of r ?ns of Some e \<Rightarrow> (r, Some e)
        | None \<Rightarrow> (case mixed_providers generationID ?ns of Some e \<Rightarrow> (r, Some e)
           | None \<Rightarrow> publish ''overlay'' (generation_goes generationID (first_provider ?ns)) ?ns r))"
      using assms by (simp add: ReplaceGeneration_def Let_def g Inr)
    show thesis
    proof (cases "validate_all resolve definition_of r ?ns = None \<and> mixed_providers generationID ?ns = None")
      case True
      then have "publish ''overlay'' (generation_goes generationID (first_provider ?ns)) ?ns r = (r', err)"
        using eq by simp
      then show thesis by (cases rule: publish_cases) (use refused replaced g Inr True in blast)+
    next
      case False
      then have "\<exists>e. r' = r \<and> err = Some e" using eq by (auto split: option.splits)
      then show thesis using refused by blast
    qed
  qed
qed

lemma ReplaceProvider_cases:
  assumes "ReplaceProvider resolve definition_of rawID values r = (r', err)"
  obtains (refused) e where "r' = r" "err = Some e"
  | (replaced) raw ns where "err = None"
      "provider_registrations definition_of (normalizeRegistrationProvider rawID) [] values = Inr raw"
      "ns = map normalizeRegistration raw" "validate_all resolve definition_of r ns = None"
      "find_conflict ''provider'' (provider_goes (normalizeRegistrationProvider rawID)) ns r = None"
      "r' = replace_overlays (provider_goes (normalizeRegistrationProvider rawID)) ns r"
proof (cases "normalizeRegistrationProvider rawID = []")
  case True
  then show thesis using assms refused by (auto simp: ReplaceProvider_def)
next
  case p: False
  show thesis
  proof (cases "provider_registrations definition_of (normalizeRegistrationProvider rawID) [] values")
    case (Inl e)
    then show thesis using assms refused p by (auto simp: ReplaceProvider_def)
  next
    case (Inr raw)
    let ?ns = "map normalizeRegistration raw"
    have eq: "(r', err) = (case validate_all resolve definition_of r ?ns of Some e \<Rightarrow> (r, Some e)
        | None \<Rightarrow> publish ''provider'' (provider_goes (normalizeRegistrationProvider rawID)) ?ns r)"
      using assms by (simp add: ReplaceProvider_def Let_def p Inr)
    show thesis
    proof (cases "validate_all resolve definition_of r ?ns")
      case None
      then have "publish ''provider'' (provider_goes (normalizeRegistrationProvider rawID)) ?ns r = (r', err)"
        using eq by simp
      then show thesis by (cases rule: publish_cases) (use refused replaced Inr None in blast)+
    next
      case (Some e)
      then show thesis using eq refused by simp
    qed
  qed
qed

lemma replaced_inv:
  "registry_inv r \<Longrightarrow> validate_all resolve definition_of r ns = None \<Longrightarrow> find_conflict who goes ns r = None \<Longrightarrow>
    registry_inv (replace_overlays goes ns r)"
  using replace_inv validate_all_admitted by metis

lemma ReplaceGeneration_inv:
  assumes "registry_inv r" shows "registry_inv (fst (ReplaceGeneration resolve definition_of g values r))"
proof -
  obtain r' err where e: "ReplaceGeneration resolve definition_of g values r = (r', err)" by fastforce
  then have "registry_inv r'"
    by (cases rule: ReplaceGeneration_cases) (use assms replaced_inv in \<open>simp, metis\<close>)
  then show ?thesis by (simp add: e)
qed

lemma ReplaceProvider_inv:
  assumes "registry_inv r" shows "registry_inv (fst (ReplaceProvider resolve definition_of p values r))"
proof -
  obtain r' err where e: "ReplaceProvider resolve definition_of p values r = (r', err)" by fastforce
  then have "registry_inv r'"
    by (cases rule: ReplaceProvider_cases) (use assms replaced_inv in \<open>simp, metis\<close>)
  then show ?thesis by (simp add: e)
qed

lemma fewer_overlays_inv:
  assumes "registry_inv r"
  shows "registry_inv (r\<lparr>rg_overlays := filter (\<lambda>(op, n). P op n) (rg_overlays r)\<rparr>)"
  by (rule registry_inv_shrink [OF assms])
    (use assms in \<open>auto simp: same_rules_def registry_inv_def gomap_get_filter split: option.splits if_splits\<close>)

lemma Displace_inv: "registry_inv r \<Longrightarrow> registry_inv (fst (DisplaceCapabilityFamilies owner families r))"
  by (simp add: DisplaceCapabilityFamilies_def Let_def fewer_overlays_inv)

lemma Authorize_inv:
  assumes "registry_inv r" shows "registry_inv (fst (AuthorizeProvider p r))"
proof -
  have "registry_inv (r\<lparr>rg_authorizedProviders := gomap_put q True (rg_authorizedProviders r)\<rparr>)" for q
    by (rule registry_inv_shrink [OF assms])
      (use assms in \<open>auto simp: same_rules_def enabled_def gomap_or_def registry_inv_def\<close>)
  then show ?thesis using assms by (simp add: AuthorizeProvider_def Let_def)
qed

lemma Unregister_inv: "registry_inv r \<Longrightarrow> registry_inv (fst (Unregister op r))"
  by (simp add: Unregister_def gomap_del_filter fewer_overlays_inv)

text \<open>The operations that change a registry, each with the definitions the capabilities answer with then.\<close>

inductive registry_step :: "resolver \<Rightarrow> 'c CatalogRegistry \<Rightarrow> 'c CatalogRegistry \<Rightarrow> bool" for resolve where
  register: "registry_step resolve r (fst (Register resolve definition_of c r))"
| register_registration: "registry_step resolve r (fst (RegisterRegistration resolve definition_of n r))"
| register_capability: "registry_step resolve r (fst (RegisterCapability resolve definition_of c p i r))"
| upsert: "registry_step resolve r (fst (Upsert resolve definition_of n r))"
| upsert_capability: "registry_step resolve r (fst (UpsertCapability resolve definition_of c p i r))"
| replace_generation: "registry_step resolve r (fst (ReplaceGeneration resolve definition_of g values r))"
| replace_provider: "registry_step resolve r (fst (ReplaceProvider resolve definition_of p values r))"
| displace: "registry_step resolve r (fst (DisplaceCapabilityFamilies p families r))"
| authorize: "registry_step resolve r (fst (AuthorizeProvider p r))"
| unregister: "registry_step resolve r (fst (Unregister op r))"

definition new_registry :: "'c CatalogRegistry \<Rightarrow> bool" where
  "new_registry r \<longleftrightarrow> (\<exists>cc snapshot options. r = NewRegistry cc snapshot options)"

lemma registry_inv_step: "registry_step resolve r r' \<Longrightarrow> registry_inv r \<Longrightarrow> registry_inv r'"
proof (induction rule: registry_step.induct)
  case (register r definition_of c)
  then show ?case by (auto simp: Register_def RegisterRegistration_inv split: option.splits)
next
  case (register_capability r definition_of c p i)
  then show ?case by (auto simp: RegisterCapability_def RegisterRegistration_inv split: sum.splits)
next
  case (upsert_capability r definition_of c p i)
  then show ?case by (auto simp: UpsertCapability_def Upsert_inv split: sum.splits)
qed (simp_all add: RegisterRegistration_inv Upsert_inv ReplaceGeneration_inv ReplaceProvider_inv Displace_inv
    Authorize_inv Unregister_inv)

interpretation registries: invariant_system new_registry "registry_step resolve" registry_inv for resolve
proof unfold_locales
  show "registry_inv s" if "new_registry s" for s :: "'c CatalogRegistry"
    using that by (auto simp: new_registry_def NewRegistry_def registry_inv_def Let_def)
  show "registry_inv s'" if "registry_step resolve s s'" "registry_inv s" for s s' :: "'c CatalogRegistry"
    using that registry_inv_step by blast
qed

section \<open>Published edges\<close>

lemma edges_of_in: "e \<in> set (deriveCapabilityEdges ds) \<longleftrightarrow> (\<exists>target required source produced.
    target \<in> set ds \<and> required \<in> set (cd_Requires target) \<and> source \<in> set ds \<and> produced \<in> set (cd_Produces source) \<and>
    cd_Name source \<noteq> cd_Name target \<and> rb_ResourceType produced = rb_ResourceType required \<and>
    TrimSpace (rb_Argument required) \<noteq> [] \<and> TrimSpace (rb_ResourceType required) \<noteq> [] \<and>
    TrimSpace (rb_SourcePath produced) \<noteq> [] \<and> e = edge_of target required source produced)"
  unfolding deriveCapabilityEdges_def by (simp split: if_split) blast

lemma derive_edges_cong:
  assumes "map (\<lambda>d. (cd_Name d, cd_Requires d, cd_Produces d)) ds = map (\<lambda>d. (cd_Name d, cd_Requires d, cd_Produces d)) ds'"
  shows "set (deriveCapabilityEdges ds) = set (deriveCapabilityEdges ds')"
proof -
  have sub: "set (deriveCapabilityEdges as) \<subseteq> set (deriveCapabilityEdges bs)"
    if "map (\<lambda>d. (cd_Name d, cd_Requires d, cd_Produces d)) as = map (\<lambda>d. (cd_Name d, cd_Requires d, cd_Produces d)) bs"
    for as bs :: "CapabilityDescriptor list"
  proof
    fix e assume "e \<in> set (deriveCapabilityEdges as)"
    then obtain target required source produced where e: "target \<in> set as" "required \<in> set (cd_Requires target)"
        "source \<in> set as" "produced \<in> set (cd_Produces source)" "cd_Name source \<noteq> cd_Name target"
        "rb_ResourceType produced = rb_ResourceType required" "TrimSpace (rb_Argument required) \<noteq> []"
        "TrimSpace (rb_ResourceType required) \<noteq> []" "TrimSpace (rb_SourcePath produced) \<noteq> []"
        "e = edge_of target required source produced"
      unfolding edges_of_in by blast
    have twin: "\<exists>b \<in> set bs. cd_Name b = cd_Name a \<and> cd_Requires b = cd_Requires a \<and> cd_Produces b = cd_Produces a"
      if "a \<in> set as" for a
    proof -
      have "(cd_Name a, cd_Requires a, cd_Produces a) \<in> set (map (\<lambda>d. (cd_Name d, cd_Requires d, cd_Produces d)) bs)"
        unfolding \<open>map _ as = map _ bs\<close> [symmetric] using that by simp
      then show ?thesis by auto
    qed
    obtain t where t: "t \<in> set bs" "cd_Name t = cd_Name target" "cd_Requires t = cd_Requires target" using twin [OF e(1)] by blast
    obtain s where s: "s \<in> set bs" "cd_Name s = cd_Name source" "cd_Produces s = cd_Produces source" using twin [OF e(3)] by blast
    have "e = edge_of t required s produced" using e(10) t(2) s(2) by (simp add: edge_of_def)
    then show "e \<in> set (deriveCapabilityEdges bs)" unfolding edges_of_in using e t s by metis
  qed
  show ?thesis using sub [OF assms] sub [OF assms [symmetric]] by blast
qed

lemma defaults_fields: "map (\<lambda>d. (cd_Name d, cd_Requires d, cd_Produces d)) (applyCatalogDefaults ds) =
    map (\<lambda>d. (cd_Name d, cd_Requires d, cd_Produces d)) ds"
  by (auto simp: applyCatalogDefaults_def split: option.splits)

lemma apply_edges_fields: "map (\<lambda>d. (cd_Name d, cd_Requires d, cd_Produces d)) (applyCapabilityEdges ds es) =
    map (\<lambda>d. (cd_Name d, cd_Requires d, cd_Produces d)) ds"
  by (auto simp: applyCapabilityEdges_def apply_edges_def Let_def)

text \<open>
  The edges of a snapshot are the typed relations of its tools. A published catalog has an edge exactly
  for a required argument of one of its tools and a produced path of another that have the same resource
  kind, and each tool lists the edges that end and start at it.
\<close>
theorem edges_exact:
  "let s = Registry_Snapshot cc r in
   (e \<in> set (sn_Edges s) \<longleftrightarrow> (\<exists>target required source produced.
      target \<in> set (sn_Tools s) \<and> required \<in> set (cd_Requires target) \<and> source \<in> set (sn_Tools s) \<and>
      produced \<in> set (cd_Produces source) \<and> cd_Name source \<noteq> cd_Name target \<and>
      rb_ResourceType produced = rb_ResourceType required \<and> TrimSpace (rb_Argument required) \<noteq> [] \<and>
      TrimSpace (rb_ResourceType required) \<noteq> [] \<and> TrimSpace (rb_SourcePath produced) \<noteq> [] \<and>
      e = edge_of target required source produced)) \<and>
   map cd_InputEdges (sn_Tools s) = map (\<lambda>d. filter (\<lambda>e. eg_TargetTool e = cd_Name d) (sn_Edges s)) (sn_Tools s) \<and>
   map cd_OutputEdges (sn_Tools s) = map (\<lambda>d. filter (\<lambda>e. eg_SourceTool e = cd_Name d) (sn_Edges s)) (sn_Tools s)"
proof -
  define s where "s = Registry_Snapshot cc r"
  define s_edges where "s_edges = sn_Edges s"
  define ds where "ds = sn_Tools s"
  obtain owned where o: "s_edges = deriveCapabilityEdges owned" "ds = applyCapabilityEdges owned s_edges"
    by (auto simp: s_edges_def ds_def s_def Registry_Snapshot_def BuildCapabilityCatalogFromDescriptors_def Let_def)
  have "set s_edges = set (deriveCapabilityEdges ds)"
    unfolding o(1) by (rule derive_edges_cong) (simp add: o(2) apply_edges_fields)
  then have "e \<in> set s_edges \<longleftrightarrow> e \<in> set (deriveCapabilityEdges ds)" by simp
  moreover have "map cd_InputEdges ds = map (\<lambda>d. filter (\<lambda>e. eg_TargetTool e = cd_Name d) s_edges) ds"
      "map cd_OutputEdges ds = map (\<lambda>d. filter (\<lambda>e. eg_SourceTool e = cd_Name d) s_edges) ds"
    unfolding o(2) applyCapabilityEdges_def by (auto simp: apply_edges_def Let_def)
  ultimately show ?thesis
    unfolding edges_of_in Let_def s_def [symmetric] ds_def [symmetric] s_edges_def [symmetric] by blast
qed

section \<open>Replacement\<close>

definition registration_of :: "('c \<Rightarrow> CapabilityDescriptor) \<Rightarrow> 'c \<Rightarrow> 'c Registration" where
  "registration_of definition_of v = \<lparr>rn_Descriptor = definition_of v, rn_ProviderID = cd_Provider (definition_of v),
     rn_Implementation = cd_Implementation (definition_of v), rn_Capability = Some v\<rparr>"

lemma generation_registrations_Inr:
  "generation_registrations definition_of g seen values = Inr raw \<Longrightarrow>
   \<exists>vs. values = map Some vs \<and> raw = map (registration_of definition_of) vs \<and>
     distinct (map (\<lambda>v. cd_OperationID (definition_of v)) vs) \<and>
     (\<forall>v \<in> set vs. cd_GenerationID (definition_of v) = g \<and> cd_OperationID (definition_of v) \<notin> set seen)"
proof (induction "values" arbitrary: seen raw)
  case (Cons c rest)
  then obtain v ns where v: "c = Some v" "cd_GenerationID (definition_of v) = g"
      "cd_OperationID (definition_of v) \<notin> set seen"
      "generation_registrations definition_of g (cd_OperationID (definition_of v) # seen) rest = Inr ns"
      "raw = registration_of definition_of v # ns"
    by (auto simp: Let_def registration_of_def split: option.splits if_splits sum.splits)
  from Cons.IH [OF v(4)] obtain vs where vs: "rest = map Some vs" "ns = map (registration_of definition_of) vs"
      "distinct (map (\<lambda>v. cd_OperationID (definition_of v)) vs)"
      "\<forall>w \<in> set vs. cd_GenerationID (definition_of w) = g \<and>
        cd_OperationID (definition_of w) \<notin> set (cd_OperationID (definition_of v) # seen)" by blast
  then show ?case using v by (intro exI [of _ "v # vs"]) auto
qed simp

lemma put_overlays_get:
  "distinct (map (\<lambda>n. cd_OperationID (rn_Descriptor n)) ns) \<Longrightarrow>
   gomap_get (rg_overlays (fold put_overlay ns r)) op =
     (case List.find (\<lambda>n. cd_OperationID (rn_Descriptor n) = op) ns of Some n \<Rightarrow> Some n
      | None \<Rightarrow> gomap_get (rg_overlays r) op)"
proof (induction ns arbitrary: r)
  case (Cons n ns)
  have "List.find (\<lambda>m. cd_OperationID (rn_Descriptor m) = op) ns = None" if "cd_OperationID (rn_Descriptor n) = op"
    unfolding find_None_iff using Cons.prems that by auto (metis image_eqI)
  then show ?case using Cons by (auto simp: put_overlay_def split: option.split)
qed simp

lemma find_map: "List.find P (map f xs) = map_option f (List.find (\<lambda>x. P (f x)) xs)"
  by (induction xs) auto

definition provider_of_first :: "('c \<Rightarrow> CapabilityDescriptor) \<Rightarrow> 'c option list \<Rightarrow> string" where
  "provider_of_first definition_of values = (case values of Some v # _ \<Rightarrow> cd_Provider (definition_of v) | _ \<Rightarrow> [])"

text \<open>
  C34: replacing a generation is all or nothing. A refused replacement leaves the registry as it is. An
  accepted one makes exactly the new capabilities resolvable under their operation ids, takes away every
  other overlay of the generation and of its provider, and leaves all others.
\<close>
theorem replace_exact:
  assumes "reaches new_registry (registry_step resolve) r"
    and "ReplaceGeneration resolve definition_of generationID values r = (r', err)"
  shows "(err \<noteq> None \<and> r' = r) \<or>
    (err = None \<and> (\<forall>op. ResolveCapability r' op =
       (case List.find (\<lambda>v. v \<noteq> None \<and> cd_OperationID (definition_of (the v)) = op) values of
          Some v \<Rightarrow> v
        | None \<Rightarrow> (case gomap_get (rg_overlays r) op of None \<Rightarrow> None
            | Some old \<Rightarrow> if generation_goes generationID (provider_of_first definition_of values) old then None
                else rn_Capability old))))"
  using assms(2)
proof (cases rule: ReplaceGeneration_cases)
  case (refused e)
  then show ?thesis by simp
next
  case (replaced raw ns)
  have wf: "wf_gomap (rg_overlays r)" using registries.inv_reachable [OF assms(1)] by (simp add: registry_inv_def)
  obtain vs where vs: "values = map Some vs" "raw = map (registration_of definition_of) vs"
      "distinct (map (\<lambda>v. cd_OperationID (definition_of v)) vs)"
    using generation_registrations_Inr [OF replaced(3)] by blast
  let ?reg = "\<lambda>v. normalizeRegistration (registration_of definition_of v)"
  have reg: "cd_OperationID (rn_Descriptor (?reg v)) = cd_OperationID (definition_of v)"
      "rn_ProviderID (?reg v) = cd_Provider (definition_of v)" "rn_Capability (?reg v) = Some v" for v
    by (simp_all add: normalizeRegistration_def registration_of_def)
  have ns: "ns = map ?reg vs" using replaced(4) vs(2) by simp
  have p: "first_provider ns = provider_of_first definition_of values"
    by (cases vs) (simp_all add: first_provider_def provider_of_first_def ns vs(1) reg)
  have d: "distinct (map (\<lambda>n. cd_OperationID (rn_Descriptor n)) ns)" using vs(3) by (simp add: ns comp_def reg)
  have f: "(\<lambda>(_, old). \<not> P old) = (\<lambda>(k, old). (\<lambda>_ x. \<not> P x) k old)" for P :: "'a Registration \<Rightarrow> bool" by simp
  have "ResolveCapability r' op = (case List.find (\<lambda>v. cd_OperationID (definition_of v) = op) vs of
      Some v \<Rightarrow> Some v
    | None \<Rightarrow> (case gomap_get (rg_overlays r) op of None \<Rightarrow> None
        | Some old \<Rightarrow> if generation_goes generationID (provider_of_first definition_of values) old then None
            else rn_Capability old))" for op
    unfolding ResolveCapability_def replaced(8) replace_overlays_def put_overlays_get [OF d] p
    by (simp add: ns find_map reg gomap_get_filter [OF wf] split: option.split)
  moreover have "List.find (\<lambda>v. v \<noteq> None \<and> cd_OperationID (definition_of (the v)) = op) values =
      map_option Some (List.find (\<lambda>v. cd_OperationID (definition_of v) = op) vs)" for op
    by (simp add: vs(1) find_map)
  ultimately show ?thesis using replaced(1) by (auto split: option.split)
qed

text \<open>
  C21: the registry holds only what passed its checks. In every registry that operations reach, the overlay
  of an operation id has that id and name, none is in the base catalog, its provider is authorized, its
  implementation is named and allowed, it has a capability to execute, a positive version and a supported
  effect, and each of its bindings has a known resource kind and leads to a string of its schema.
\<close>
theorem registry_admits:
  assumes "reaches new_registry (registry_step resolve) r" and "gomap_get (rg_overlays r) op = Some n"
  shows "cd_OperationID (rn_Descriptor n) = op \<and> \<not> baseConflict r op \<and> admitted r n \<and> ResolveCapability r op \<noteq> None"
  using registries.inv_reachable [OF assms(1)] assms(2)
  by (auto simp: registry_inv_def overlay_ok_def ResolveCapability_def admitted_def Let_def)

section \<open>A registry with a provider\<close>

text \<open>A capability is its own descriptor here, and every schema resolves.\<close>

definition demo_codec :: codec where
  "demo_codec = \<lparr>cc_clone = (\<lambda>d. d), cc_encode = (\<lambda>_ ds _. concat (map cd_Name ds))\<rparr>"

definition demo_capability :: "string \<Rightarrow> string \<Rightarrow> CapabilityDescriptor" where
  "demo_capability name generation = \<lparr>cd_OperationID = name, cd_CapabilityID = ''cluster'', cd_Version = 1, cd_Name = name,
     cd_InputSchema = Some [(''type'', AStr ''object'')],
     cd_OutputSchema = Some [(''type'', AStr ''object''),
       (''properties'', AMap [(''uri'', AMap [(''type'', AStr ''string'')])])],
     cd_OutputType = [], cd_ResultTypes = [], cd_Effect = ''read'', cd_RequiresApproval = False, cd_Provider = ''k3s'',
     cd_Implementation = ''mcp'', cd_ResourceKinds = [''cluster''], cd_ArgumentProducers = [], cd_DefaultLabels = None,
     cd_ResourceCost = None, cd_TaskSupport = [], cd_GenerationID = generation, cd_Requires = [],
     cd_Produces = [\<lparr>rb_Argument = [], rb_ResourceType = ''cluster'', rb_SourcePath = ''uri'', rb_SelectorID = [], rb_Required = False\<rparr>],
     cd_InputEdges = [], cd_OutputEdges = [], cd_Texts = []\<rparr>"

definition demo_registry :: "CapabilityDescriptor CatalogRegistry" where
  "demo_registry = NewRegistry demo_codec \<lparr>sn_ProviderID = ''incus'', sn_Revision = [], sn_Tools = [], sn_Edges = []\<rparr>
     \<lparr>op_ProviderID = [], op_AuthorizedProviders = [(''K3s'', True)], op_KnownResourceKinds = [], op_AllowedImplementations = []\<rparr>"

definition demo_first :: "CapabilityDescriptor CatalogRegistry" where
  "demo_first = fst (ReplaceGeneration (\<lambda>_. None) (\<lambda>d. d) ''g1'' [Some (demo_capability ''one'' ''g1'')] demo_registry)"

lemma demo_first_reached: "reaches new_registry (registry_step (\<lambda>_. None)) demo_first"
proof -
  have "reaches new_registry (registry_step (\<lambda>_. None)) demo_registry"
    by (rule reaches_start) (auto simp: new_registry_def demo_registry_def)
  from reaches_step [OF this replace_generation] show ?thesis unfolding demo_first_def .
qed

theorem registry_admits_witness:
  "\<exists>n. gomap_get (rg_overlays demo_first) ''one'' = Some n \<and> admitted demo_first n \<and>
     ResolveCapability demo_first ''one'' = Some (demo_capability ''one'' ''g1'')"
proof -
  have "ResolveCapability demo_first ''one'' = Some (demo_capability ''one'' ''g1'')" by code_simp
  moreover then obtain n where "gomap_get (rg_overlays demo_first) ''one'' = Some n"
    by (auto simp: ResolveCapability_def split: option.splits)
  ultimately show ?thesis using registry_admits [OF demo_first_reached] by metis
qed

theorem replace_exact_witness:
  "\<exists>r'. ReplaceGeneration (\<lambda>_. None) (\<lambda>d. d) ''g2'' [Some (demo_capability ''two'' ''g2'')] demo_first = (r', None) \<and>
     ResolveCapability r' ''two'' = Some (demo_capability ''two'' ''g2'') \<and> ResolveCapability r' ''one'' = None"
proof -
  let ?v = "[Some (demo_capability ''two'' ''g2'')]"
  have ok: "snd (ReplaceGeneration (\<lambda>_. None) (\<lambda>d. d) ''g2'' ?v demo_first) = None" by code_simp
  obtain r' err where r: "ReplaceGeneration (\<lambda>_. None) (\<lambda>d. d) ''g2'' ?v demo_first = (r', err)" by fastforce
  have old: "case gomap_get (rg_overlays demo_first) ''one'' of None \<Rightarrow> False
      | Some n \<Rightarrow> generation_goes ''g2'' (provider_of_first (\<lambda>d. d) ?v) n" by code_simp
  have all: "\<forall>op. ResolveCapability r' op =
       (case List.find (\<lambda>v. v \<noteq> None \<and> cd_OperationID (the v) = op) ?v of
          Some v \<Rightarrow> v
        | None \<Rightarrow> (case gomap_get (rg_overlays demo_first) op of None \<Rightarrow> None
            | Some n \<Rightarrow> if generation_goes ''g2'' (provider_of_first (\<lambda>d. d) ?v) n then None else rn_Capability n))"
    using replace_exact [OF demo_first_reached r] ok r by simp
  have "cd_OperationID (demo_capability ''two'' ''g2'') = ''two''" by (simp add: demo_capability_def)
  then have "ResolveCapability r' ''two'' = Some (demo_capability ''two'' ''g2'')" "ResolveCapability r' ''one'' = None"
    using all [rule_format, of "''two''"] all [rule_format, of "''one''"] old by (auto split: option.splits)
  then show ?thesis using r ok by simp
qed

end
