(* ===== verification/Selector_Laws.thy ===== *)
theory Selector_Laws
  imports Selectors
begin

text \<open>
  What evaluating a selector lists: exactly the values on its path, each once and with the positions that
  lead to it, as long as \<open>append\<close> moves a full slice to a new array each time. With the growth of the Go
  runtime that is so for at most three nested arrays; with four the positions of siblings are lost.
\<close>

section \<open>A reference definition\<close>

text \<open>The value that a list of positions leads to.\<close>

fun located :: "string list \<Rightarrow> any \<Rightarrow> int list \<Rightarrow> any option" where
  "located [] v js = (if js = [] then Some v else None)"
| "located (segment # rest) v js =
     (if array_segment segment then
        (case (items_at v (array_key segment), js) of
           (Some items, i # further) \<Rightarrow>
             if 0 \<le> i \<and> i < int (length items) then located rest (items ! nat i) further else None
         | _ \<Rightarrow> None)
      else (case field_at v segment of None \<Rightarrow> None | Some next \<Rightarrow> located rest next js))"

primrec array_depth :: "string list \<Rightarrow> nat" where
  "array_depth [] = 0"
| "array_depth (segment # rest) = (if array_segment segment then 1 else 0) + array_depth rest"

text \<open>The list of values with their positions, without slices.\<close>

fun list_items :: "(any \<Rightarrow> (int list \<times> any) list) \<Rightarrow> int \<Rightarrow> any list \<Rightarrow> (int list \<times> any) list" where
  "list_items inner index [] = []"
| "list_items inner index (item # rest) =
     map (\<lambda>(js, x). (index # js, x)) (inner item) @ list_items inner (index + 1) rest"

primrec listed :: "string list \<Rightarrow> any \<Rightarrow> (int list \<times> any) list" where
  "listed [] v = [([], v)]"
| "listed (segment # rest) v =
     (if array_segment segment then
        (case items_at v (array_key segment) of None \<Rightarrow> [] | Some items \<Rightarrow> list_items (listed rest) 0 items)
      else (case field_at v segment of None \<Rightarrow> [] | Some next \<Rightarrow> listed rest next))"

lemma list_items_in: "(js, x) \<in> set (list_items inner k items) \<longleftrightarrow>
    (\<exists>i ks. js = (k + int i) # ks \<and> i < length items \<and> (ks, x) \<in> set (inner (items ! i)))"
proof (induction items arbitrary: k)
  case (Cons item rest)
  have "(\<exists>i ks. js = (k + int i) # ks \<and> i < length (item # rest) \<and> (ks, x) \<in> set (inner ((item # rest) ! i))) \<longleftrightarrow>
      (\<exists>ks. js = k # ks \<and> (ks, x) \<in> set (inner item)) \<or>
      (\<exists>i ks. js = (k + 1 + int i) # ks \<and> i < length rest \<and> (ks, x) \<in> set (inner (rest ! i)))"
    (is "(\<exists>i. ?P i) \<longleftrightarrow> ?A \<or> ?B")
  proof -
    have "(\<exists>i. ?P i) \<longleftrightarrow> ?P 0 \<or> (\<exists>i. ?P (Suc i))" by (metis not0_implies_Suc)
    then show ?thesis by (simp add: add.assoc)
  qed
  with Cons show ?case by auto
qed simp

lemma list_items_distinct:
  assumes "\<And>item. distinct (map fst (inner item))"
  shows "distinct (map fst (list_items inner k items))"
proof (induction items arbitrary: k)
  case (Cons item rest)
  have "distinct (map fst (map (\<lambda>(js, x). (k # js, x)) (inner item)))"
    using assms [of item] by (simp add: distinct_map inj_on_def split_beta)
  moreover have "hd js \<noteq> k" if "(js, x) \<in> set (list_items inner (k + 1) rest)" for js x
    using that by (auto simp: list_items_in)
  ultimately show ?case using Cons by fastforce
qed simp

lemma listed_distinct: "distinct (map fst (listed segs v))"
  by (induction segs arbitrary: v) (auto intro: list_items_distinct split: option.splits)

lemma listed_iff: "(js, x) \<in> set (listed segs v) \<longleftrightarrow> located segs v js = Some x"
proof (induction segs arbitrary: v js)
  case (Cons segment rest)
  show ?case
  proof (cases "array_segment segment")
    case True
    show ?thesis
    proof (cases "items_at v (array_key segment)")
      case (Some items)
      have "(js, x) \<in> set (listed (segment # rest) v) \<longleftrightarrow>
          (\<exists>i ks. js = int i # ks \<and> i < length items \<and> located rest (items ! i) ks = Some x)"
        using True Some by (simp add: list_items_in Cons.IH)
      also have "\<dots> \<longleftrightarrow> located (segment # rest) v js = Some x"
        using True Some by (auto split: list.splits intro: exI [of _ "nat _"])
      finally show ?thesis .
    qed (use True in simp)
  qed (auto simp: Cons.IH split: option.splits)
qed auto

lemma located_indexed: "located segs v js = Some x \<Longrightarrow> indexedValue v segs js = x"
  by (induction segs v js rule: located.induct) (auto split: if_splits option.splits list.splits)

lemma located_depth: "located segs v js = Some x \<Longrightarrow> length js = array_depth segs"
  by (induction segs v js rule: located.induct) (auto split: if_splits option.splits list.splits)

section \<open>Slices that do not share\<close>

definition valid_slice :: "slice \<Rightarrow> arrays \<Rightarrow> bool" where
  "valid_slice s h \<longleftrightarrow> sl_len s = 0 \<or> sl_array s < length h"

lemma elements_grow: "valid_slice s h \<Longrightarrow> elements s (h @ ext) = elements s h"
  by (auto simp: valid_slice_def elements_def nth_append)

lemma elements_nil: "elements nil_slice h = []"
  by (simp add: elements_def nil_slice_def)

lemma valid_grow: "valid_slice s h \<Longrightarrow> valid_slice s (h @ ext)"
  by (auto simp: valid_slice_def)

lemma append_full:
  assumes "sl_cap s = sl_len s" "length (elements s h) = sl_len s"
  obtains t a where "append_int growth s x h = (t, h @ [a])" "sl_len t = sl_len s + 1"
    "sl_cap t = growth (sl_len s)" "valid_slice t (h @ [a])" "elements t (h @ [a]) = elements s h @ [x]"
  using assms by (auto simp: append_int_def Let_def valid_slice_def elements_def)

text \<open>What evaluation from a slice \<open>s\<close> gives: only new arrays, and slices that extend \<open>s\<close>.\<close>

definition yields :: "pathValue list \<times> arrays \<Rightarrow> slice \<Rightarrow> arrays \<Rightarrow> (int list \<times> any) list \<Rightarrow> bool" where
  "yields r s h xs \<longleftrightarrow> (case r of (found, h') \<Rightarrow> \<exists>ext. h' = h @ ext \<and>
     (\<forall>p \<in> set found. valid_slice (pv_Indices p) h') \<and>
     map (\<lambda>p. (elements (pv_Indices p) h', pv_Value p)) found = map (\<lambda>(js, x). (elements s h @ js, x)) xs)"

lemma yields_extend:
  assumes "yields (found, h1) s h xs" and "yields (others, h2) s' h1 ys"
  shows "\<exists>ext. h2 = h @ ext \<and> (\<forall>p \<in> set (found @ others). valid_slice (pv_Indices p) h2) \<and>
    map (\<lambda>p. (elements (pv_Indices p) h2, pv_Value p)) (found @ others) =
      map (\<lambda>(js, x). (elements s h @ js, x)) xs @ map (\<lambda>(js, x). (elements s' h1 @ js, x)) ys"
proof -
  obtain e1 where 1: "h1 = h @ e1" "\<forall>p \<in> set found. valid_slice (pv_Indices p) h1"
      "map (\<lambda>p. (elements (pv_Indices p) h1, pv_Value p)) found = map (\<lambda>(js, x). (elements s h @ js, x)) xs"
    using assms(1) by (auto simp: yields_def)
  obtain e2 where 2: "h2 = h1 @ e2" "\<forall>p \<in> set others. valid_slice (pv_Indices p) h2"
      "map (\<lambda>p. (elements (pv_Indices p) h2, pv_Value p)) others = map (\<lambda>(js, x). (elements s' h1 @ js, x)) ys"
    using assms(2) by (auto simp: yields_def)
  have "map (\<lambda>p. (elements (pv_Indices p) h2, pv_Value p)) found =
      map (\<lambda>p. (elements (pv_Indices p) h1, pv_Value p)) found"
    using 1(2) 2(1) by (auto simp: elements_grow)
  then have "map (\<lambda>p. (elements (pv_Indices p) h2, pv_Value p)) (found @ others) =
      map (\<lambda>(js, x). (elements s h @ js, x)) xs @ map (\<lambda>(js, x). (elements s' h1 @ js, x)) ys"
    using 1(3) 2(3) by simp
  moreover have "\<forall>p \<in> set (found @ others). valid_slice (pv_Indices p) h2"
    using 1(2) 2(1,2) valid_grow by auto
  ultimately show ?thesis using 1(1) 2(1) by simp
qed

lemma each_item_yields:
  assumes inner: "\<And>item t h. sl_len t = sl_len s + 1 \<Longrightarrow> sl_cap t = growth (sl_len s) \<Longrightarrow> valid_slice t h \<Longrightarrow>
      length (elements t h) = sl_len t \<Longrightarrow> yields (inner item t h) t h (spec item)"
    and s: "sl_cap s = sl_len s"
  shows "valid_slice s h \<Longrightarrow> length (elements s h) = sl_len s \<Longrightarrow>
    yields (each_item inner growth k items s h) s h (list_items spec k items)"
proof (induction items arbitrary: k h)
  case Nil
  then show ?case by (simp add: yields_def)
next
  case (Cons item rest)
  obtain t a where t: "append_int growth s k h = (t, h @ [a])" "sl_len t = sl_len s + 1"
      "sl_cap t = growth (sl_len s)" "valid_slice t (h @ [a])" "elements t (h @ [a]) = elements s h @ [k]"
    using append_full [OF s Cons.prems(2)] by metis
  obtain found h2 where f: "inner item t (h @ [a]) = (found, h2)" by fastforce
  have y: "yields (found, h2) t (h @ [a]) (spec item)"
    using inner [OF t(2,3,4), of item] t(2,5) f Cons.prems(2) by simp
  then obtain ext where h2: "h2 = h @ ext" by (auto simp: yields_def)
  obtain others h3 where o: "each_item inner growth (k + 1) rest s h2 = (others, h3)" by fastforce
  have e: "elements s h2 = elements s h" "valid_slice s h2"
    using Cons.prems(1) by (simp_all add: h2 elements_grow valid_grow)
  then have "yields (others, h3) s h2 (list_items spec (k + 1) rest)"
    using Cons.IH [of h2 "k + 1"] o Cons.prems(2) by simp
  from yields_extend [OF y this] e t(5) show ?case
    by (auto simp: t(1) f o yields_def split_beta comp_def)
qed

lemma pathValues_yields:
  assumes "valid_slice s h" "length (elements s h) = sl_len s"
    and "array_depth segs = 0 \<or> sl_cap s = sl_len s"
    and "\<And>n. sl_len s \<le> n \<Longrightarrow> n + 1 < sl_len s + array_depth segs \<Longrightarrow> growth n = n + 1"
  shows "yields (pathValues growth segs v s h) s h (listed segs v)"
  using assms
proof (induction segs arbitrary: v s h)
  case Nil
  then show ?case by (simp add: yields_def)
next
  case (Cons segment rest)
  show ?case
  proof (cases "array_segment segment")
    case True
    show ?thesis
    proof (cases "items_at v (array_key segment)")
      case None
      then show ?thesis using True by (simp add: yields_def)
    next
      case (Some items)
      have "yields (pathValues growth rest item t h') t h' (listed rest item)"
        if "sl_len t = sl_len s + 1" "sl_cap t = growth (sl_len s)" "valid_slice t h'"
          "length (elements t h') = sl_len t" for item t h'
      proof (rule Cons.IH [OF that(3,4)])
        show "array_depth rest = 0 \<or> sl_cap t = sl_len t"
          using that(1,2) Cons.prems(4) [of "sl_len s"] True by (cases "array_depth rest") auto
        show "growth n = n + 1" if "sl_len t \<le> n" "n + 1 < sl_len t + array_depth rest" for n
          using that \<open>sl_len t = sl_len s + 1\<close> True by (intro Cons.prems(4)) auto
      qed
      from each_item_yields [where inner = "pathValues growth rest" and spec = "listed rest", OF this]
      show ?thesis using Cons.prems(1,2,3) True Some by simp
    qed
  next
    case False
    then show ?thesis using Cons by (auto simp: yields_def split: option.splits)
  qed
qed

lemma EvaluateSelector_Inr:
  assumes "EvaluateSelector growth v outputType selectorID types = Inr cs"
  obtains s found h where "FindSelector outputType selectorID types = Some s"
    "pathValues growth (path_of (sel_SourcePath s)) v nil_slice [] = (found, h)"
    "cs = map (candidate_of v s h) found"
    "NormalizedCardinality s = CardinalityOne \<Longrightarrow> length found \<le> 1"
  using assms by (auto simp: EvaluateSelector_def Let_def split: option.splits prod.splits if_splits)

text \<open>
  A selector lists what its path names. When \<open>append\<close> moves every full slice (in the Go runtime: on a
  path with at most three nested arrays), the candidates are exactly the values that positions lead to
  along the source path, each once and with those positions, in their order, and at most one for the
  cardinality \<open>one\<close>.
\<close>
theorem selector_lists:
  assumes "FindSelector outputType selectorID types = Some s"
    and "EvaluateSelector growth v outputType selectorID types = Inr cs"
    and "\<forall>n. n + 1 < array_depth (path_of (sel_SourcePath s)) \<longrightarrow> growth n = n + 1"
  shows "distinct (map cn_Indices cs) \<and>
    (\<lambda>c. (cn_Indices c, cn_Value c)) ` set cs = {(js, x). located (path_of (sel_SourcePath s)) v js = Some x} \<and>
    (NormalizedCardinality s = CardinalityOne \<longrightarrow> length cs \<le> 1)"
proof -
  let ?segs = "path_of (sel_SourcePath s)"
  obtain found h where f: "pathValues growth ?segs v nil_slice [] = (found, h)"
      "cs = map (candidate_of v s h) found" "NormalizedCardinality s = CardinalityOne \<Longrightarrow> length found \<le> 1"
    using EvaluateSelector_Inr [OF assms(2)] assms(1) by (metis option.inject)
  have "yields (pathValues growth ?segs v nil_slice []) nil_slice [] (listed ?segs v)"
    by (rule pathValues_yields) (use assms(3) in \<open>auto simp: nil_slice_def valid_slice_def elements_def\<close>)
  then have eq: "map (\<lambda>p. (elements (pv_Indices p) h, pv_Value p)) found = listed ?segs v"
    unfolding f(1) by (simp add: yields_def elements_nil)
  have pairs: "map (\<lambda>c. (cn_Indices c, cn_Value c)) cs = listed ?segs v"
    unfolding eq [symmetric] f(2) by (simp add: candidate_of_def)
  have "map cn_Indices cs = map fst (listed ?segs v)" unfolding pairs [symmetric] by simp
  then have "distinct (map cn_Indices cs)" using listed_distinct by simp
  moreover have "(\<lambda>c. (cn_Indices c, cn_Value c)) ` set cs = set (listed ?segs v)"
    unfolding pairs [symmetric] by simp
  moreover have "set (listed ?segs v) = {(js, x). located ?segs v js = Some x}" using listed_iff by auto
  ultimately show ?thesis using f(2,3) by simp
qed

definition demo_pods :: any where
  "demo_pods = AMap [(''pods'', ASlice [AMap [(''name'', AStr ''a''), (''uri'', AStr ''u'')],
     AMap [(''name'', AStr ''b''), (''uri'', AStr ''v'')]])]"

definition demo_types :: "ResultType list" where
  "demo_types = [\<lparr>rty_ID = ''pods'', rty_Version = 1, rty_Selectors = [\<lparr>sel_ID = ''uri'',
     sel_SourcePath = ''pods[].uri'', sel_Cardinality = ''many'', sel_LabelPath = ''pods[].name''\<rparr>]\<rparr>]"

theorem selector_lists_witness:
  "\<exists>cs. EvaluateSelector go_growth demo_pods ''pods'' ''uri'' demo_types = Inr cs \<and>
     map cn_Label cs = [''a'', ''b''] \<and> (\<lambda>c. (cn_Indices c, cn_Value c)) ` set cs =
       {(js, x). located (path_of ''pods[].uri'') demo_pods js = Some x}"
proof -
  let ?cs = "case EvaluateSelector go_growth demo_pods ''pods'' ''uri'' demo_types of Inr cs \<Rightarrow> cs | Inl _ \<Rightarrow> []"
  have "\<not> isl (EvaluateSelector go_growth demo_pods ''pods'' ''uri'' demo_types) \<and> map cn_Label ?cs = [''a'', ''b'']"
    by code_simp
  then obtain cs where e: "EvaluateSelector go_growth demo_pods ''pods'' ''uri'' demo_types = Inr cs"
      "map cn_Label cs = [''a'', ''b'']"
    by (auto split: sum.splits simp: isl_def)
  have "FindSelector ''pods'' ''uri'' demo_types = Some \<lparr>sel_ID = ''uri'', sel_SourcePath = ''pods[].uri'',
      sel_Cardinality = ''many'', sel_LabelPath = ''pods[].name''\<rparr>" by code_simp
  moreover have "array_depth (path_of ''pods[].uri'') = 1" by code_simp
  ultimately show ?thesis using selector_lists [OF _ e(1)] e by simp
qed

text \<open>With the runtime's growth, the condition holds up to three nested arrays.\<close>

lemma go_growth_three: "d \<le> 3 \<Longrightarrow> \<forall>n. n + 1 < d \<longrightarrow> go_growth n = n + 1"
proof (intro allI impI)
  fix n assume "d \<le> 3" "n + 1 < d"
  then have "n = 0 \<or> n = 1" by auto
  then show "go_growth n = n + 1" by (auto simp: go_growth_def)
qed

text \<open>Four nested arrays: both elements are found, but both carry the position of the second.\<close>

definition demo_deep :: any where
  "demo_deep = (let nest = (\<lambda>k v. AMap [(k, ASlice [v])])
     in nest ''a'' (nest ''b'' (nest ''c'' (AMap [(''d'', ASlice [AStr ''x'', AStr ''y''])]))))"

lemma four_arrays_lose_positions:
  "located (path_of ''a[].b[].c[].d[]'') demo_deep [0, 0, 0, 0] = Some (AStr ''x'') \<and>
   (case EvaluateSelector go_growth demo_deep ''t'' ''s'' [\<lparr>rty_ID = ''t'', rty_Version = 1, rty_Selectors =
       [\<lparr>sel_ID = ''s'', sel_SourcePath = ''a[].b[].c[].d[]'', sel_Cardinality = ''many'',
         sel_LabelPath = ''a[].b[].c[].d[]''\<rparr>]\<rparr>] of Inl e \<Rightarrow> False
    | Inr cs \<Rightarrow> map (\<lambda>c. (cn_Value c, cn_Indices c, cn_Label c)) cs =
        [(AStr ''x'', [0, 0, 0, 1], ''y''), (AStr ''y'', [0, 0, 0, 1], ''y'')])"
  by code_simp

end
