(* ===== verification/Produced.thy ===== *)
theory Produced
  imports Catalog_Laws Selector_Laws
begin

text \<open>
  The identities that a tool's result produces (\<open>src/internal/hostmcp/produced_resources.go\<close>): the host
  attaches the resource it admitted to a result that names none, and then accepts the result only when
  every declared path holds identities of the host's tenant and of a declared kind.
\<close>

section \<open>Attaching the admitted resource\<close>

record BoundResource =
  br_Argument :: string
  br_URI :: string
  br_ResourceType :: string
  br_TenantID :: string
  br_ResourceID :: string
  br_Coordinates :: anymap

definition has_text :: "any \<Rightarrow> bool" where
  "has_text v \<longleftrightarrow> (case as_string v of Some s \<Rightarrow> TrimSpace s \<noteq> [] | None \<Rightarrow> False)"

definition bound_for :: "ResourceBinding \<Rightarrow> BoundResource list \<Rightarrow> BoundResource option" where
  "bound_for produced resources =
     List.find (\<lambda>x. br_ResourceType x = rb_ResourceType produced \<and> TrimSpace (br_URI x) \<noteq> []) resources"

definition attach_uri :: "BoundResource list \<Rightarrow> ResourceBinding \<Rightarrow> fields \<Rightarrow> fields" where
  "attach_uri resources produced object =
     (if TrimSpace (rb_SourcePath produced) \<noteq> ''uri'' \<or> has_text (lookup (Some object) ''uri'') then object
      else (case bound_for produced resources of None \<Rightarrow> object | Some x \<Rightarrow> gomap_put ''uri'' (AStr (br_URI x)) object))"

text \<open>A value that is no object is decoded again from its encoding, which fails unless it encodes to an
  object; of the values of type \<open>any\<close> only maps do, and the nil map to \<open>null\<close>, which leaves the object nil.
  Writing to a nil map panics, and \<open>None\<close> is that panic.\<close>

definition materializeBoundResourceOutputs :: "CapabilityDescriptor \<Rightarrow> any \<Rightarrow> BoundResource list \<Rightarrow> any option" where
  "materializeBoundResourceOutputs d structured resources =
     (case structured of
        AMap object \<Rightarrow> Some (AMap (fold (attach_uri resources) (cd_Produces d) object))
      | ANil \<Rightarrow> Some (AMap (fold (attach_uri resources) (cd_Produces d) []))
      | ANilMap \<Rightarrow> (if fold (attach_uri resources) (cd_Produces d) [] = [] then Some ANilMap else None)
      | other \<Rightarrow> Some other)"

section \<open>Checking the produced identities\<close>

definition pathAddressesCollection :: "string \<Rightarrow> bool" where
  "pathAddressesCollection path = list_ex array_segment (path_of path)"

fun concat_found :: "'a list option list \<Rightarrow> 'a list option" where
  "concat_found [] = Some []"
| "concat_found (None # rest) = None"
| "concat_found (Some xs # rest) = map_option (\<lambda>ys. xs @ ys) (concat_found rest)"

primrec valuesAtPath :: "string list \<Rightarrow> any \<Rightarrow> any list option" where
  "valuesAtPath [] v = Some [v]"
| "valuesAtPath (segment # rest) v =
     (if array_segment segment then
        (case items_at v (array_key segment) of
           None \<Rightarrow> None | Some items \<Rightarrow> concat_found (map (valuesAtPath rest) items))
      else (case field_at v segment of None \<Rightarrow> None | Some next \<Rightarrow> valuesAtPath rest next))"

record produced_path =
  pp_kinds :: "string list"
  pp_selector :: string

text \<open>The entry of a path after one more binding.\<close>

definition merge_path :: "ResourceBinding \<Rightarrow> produced_path option \<Rightarrow> produced_path" where
  "merge_path b old =
     \<lparr>pp_kinds = TrimSpace (rb_ResourceType b) # (case old of None \<Rightarrow> [] | Some p \<Rightarrow> pp_kinds p),
      pp_selector = (if rb_SelectorID b \<noteq> [] then rb_SelectorID b
        else (case old of None \<Rightarrow> [] | Some p \<Rightarrow> pp_selector p))\<rparr>"

fun collect_paths :: "CapabilityDescriptor \<Rightarrow> ResourceBinding list \<Rightarrow> (string, produced_path) gomap \<Rightarrow>
    PlanError + (string, produced_path) gomap" where
  "collect_paths d [] m = Inr m"
| "collect_paths d (b # rest) m =
     (let path = TrimSpace (rb_SourcePath b) in
      if path = [] \<or> TrimSpace (rb_ResourceType b) = []
      then Inl (Errorf ''capability %q has an incomplete produced resource binding'' [AStr (cd_OperationID d)])
      else collect_paths d rest (gomap_put path (merge_path b (gomap_get m path)) m))"

definition not_returned :: "CapabilityDescriptor \<Rightarrow> string \<Rightarrow> PlanError" where
  "not_returned d path = Errorf ''capability %q did not return declared resource output %q'' [AStr (cd_OperationID d), AStr path]"

text \<open>The values of a path, from the selector where one is named.\<close>

definition produced_values :: "(nat \<Rightarrow> nat) \<Rightarrow> CapabilityDescriptor \<Rightarrow> any \<Rightarrow> string \<Rightarrow> string \<Rightarrow> PlanError + any list" where
  "produced_values growth d document path selectorID =
     (case valuesAtPath (path_of path) document of
        None \<Rightarrow> Inl (not_returned d path)
      | Some found \<Rightarrow>
         if selectorID = [] then Inr found
         else (case EvaluateSelector growth document (cd_OutputType d) selectorID (cd_ResultTypes d) of
             Inl e \<Rightarrow> Inl (Wrapf ''capability %q selector %q failed: %w'' [AStr (cd_OperationID d), AStr selectorID] e)
           | Inr candidates \<Rightarrow> Inr (map cn_Value candidates)))"

definition may_be_empty :: "CapabilityDescriptor \<Rightarrow> string \<Rightarrow> string \<Rightarrow> bool" where
  "may_be_empty d path selectorID \<longleftrightarrow> pathAddressesCollection path \<or>
     cd_OutputType d \<noteq> [] \<and> selectorID \<noteq> [] \<and>
     (case FindSelector (cd_OutputType d) selectorID (cd_ResultTypes d) of
        None \<Rightarrow> False | Some s \<Rightarrow> NormalizedCardinality s = CardinalityMany)"

definition check_value :: "CapabilityDescriptor \<Rightarrow> string \<Rightarrow> string \<Rightarrow> string list \<Rightarrow> any \<Rightarrow> PlanError option" where
  "check_value d tenantID path kinds v =
     (let args = [AStr (cd_OperationID d), AStr path] in
      case as_string v of
        None \<Rightarrow> Some (Errorf ''capability %q produced non-string resource output %q'' args)
      | Some uri \<Rightarrow>
         (case Parse uri of
            Inl _ \<Rightarrow> Some (Errorf ''capability %q produced invalid resource output %q: %w'' args)
          | Inr u \<Rightarrow>
             if uri_TenantID u \<noteq> tenantID then Some (Errorf ''capability %q produced foreign-tenant resource output %q'' args)
             else if uri_ResourceType u \<notin> set kinds
             then Some (Errorf ''capability %q produced resource kind %q at %q; declared kinds are %v''
               [AStr (cd_OperationID d), AStr (uri_ResourceType u), AStr path, AStrs (sort (remdups kinds))])
             else None))"

definition check_path :: "(nat \<Rightarrow> nat) \<Rightarrow> CapabilityDescriptor \<Rightarrow> any \<Rightarrow> string \<Rightarrow> string \<times> produced_path \<Rightarrow> PlanError option" where
  "check_path growth d document tenantID entry = (case entry of (path, p) \<Rightarrow>
     case produced_values growth d document path (pp_selector p) of
       Inl e \<Rightarrow> Some e
     | Inr found \<Rightarrow>
        if found = [] then (if may_be_empty d path (pp_selector p) then None else Some (not_returned d path))
        else checks (map (check_value d tenantID path (pp_kinds p)) found))"

text \<open>The document is the result read back from its encoding. The code ranges over the paths in the order
  of a map, which only picks which of several errors it reports.\<close>

definition validateProducedResources :: "(nat \<Rightarrow> nat) \<Rightarrow> CapabilityDescriptor \<Rightarrow> any \<Rightarrow> string \<Rightarrow> PlanError option" where
  "validateProducedResources growth d structured tenantID =
     (if cd_Produces d = [] then None
      else if \<not> marshalable structured then Some (Errorf ''marshal produced resource output: %w'' [])
      else (case collect_paths d (cd_Produces d) [] of
          Inl e \<Rightarrow> Some e
        | Inr m \<Rightarrow> checks (map (check_path growth d (canon structured) tenantID) m)))"

section \<open>What an accepted result holds\<close>

text \<open>Where the path is there in every element, the selector finds the values of the path, whatever happens
  to their positions.\<close>

lemma concat_found_Some: "concat_found xs = Some ys \<Longrightarrow> \<exists>yss. xs = map Some yss \<and> ys = concat yss"
proof (induction xs arbitrary: ys)
  case (Cons x xs)
  then obtain zs ws where "x = Some zs" "concat_found xs = Some ws" "ys = zs @ ws" by (cases x) auto
  with Cons.IH [of ws] obtain yss where "x # xs = map Some (zs # yss)" "ys = concat (zs # yss)" by auto
  then show ?case by (intro exI [of _ "zs # yss"] conjI)
qed simp

lemma each_item_values:
  assumes "\<And>item s h. item \<in> set items \<Longrightarrow> map pv_Value (fst (inner item s h)) = vals item"
  shows "map pv_Value (fst (each_item inner growth k items s h)) = concat (map vals items)"
  using assms
proof (induction items arbitrary: k h)
  case (Cons item rest)
  obtain t h1 where t: "append_int growth s k h = (t, h1)" by fastforce
  obtain found h2 where f: "inner item t h1 = (found, h2)" by fastforce
  obtain others h3 where o: "each_item inner growth (k + 1) rest s h2 = (others, h3)" by fastforce
  have "map pv_Value found = vals item" using Cons.prems [of item t h1] f by simp
  moreover have "map pv_Value others = concat (map vals rest)" using Cons.IH [of "k + 1" h2] Cons.prems o by simp
  ultimately show ?case by (simp add: t f o)
qed simp

lemma pathValues_values: "valuesAtPath segs v = Some vs \<Longrightarrow> map pv_Value (fst (pathValues growth segs v s h)) = vs"
proof (induction segs arbitrary: v vs s h)
  case (Cons segment rest)
  show ?case
  proof (cases "array_segment segment")
    case True
    then obtain items where i: "items_at v (array_key segment) = Some items"
        "concat_found (map (valuesAtPath rest) items) = Some vs"
      using Cons.prems by (auto split: option.splits)
    then obtain vss where vss: "map (valuesAtPath rest) items = map Some vss" "vs = concat vss"
      using concat_found_Some by blast
    have "map pv_Value (fst (pathValues growth rest item t h')) = the (valuesAtPath rest item)"
      if "item \<in> set items" for item t h'
    proof -
      have "valuesAtPath rest item \<in> set (map Some vss)" using that by (simp flip: vss(1))
      then obtain ws where "valuesAtPath rest item = Some ws" by auto
      then show ?thesis using Cons.IH by simp
    qed
    then have "map pv_Value (fst (each_item (pathValues growth rest) growth 0 items s h)) =
        concat (map (\<lambda>item. the (valuesAtPath rest item)) items)"
      by (rule each_item_values)
    also have "map (\<lambda>item. the (valuesAtPath rest item)) items = map the (map (valuesAtPath rest) items)" by simp
    also have "\<dots> = vss" by (simp add: vss(1) comp_def)
    finally show ?thesis using True i(1) vss(2) by simp
  next
    case False
    then show ?thesis using Cons by (auto split: option.splits)
  qed
qed simp

lemma selector_values:
  assumes "FindSelector outputType selectorID types = Some s" "valuesAtPath (path_of (sel_SourcePath s)) v = Some vs"
    and "EvaluateSelector growth v outputType selectorID types = Inr cs"
  shows "map cn_Value cs = vs"
proof -
  obtain found h where f: "pathValues growth (path_of (sel_SourcePath s)) v nil_slice [] = (found, h)"
      "cs = map (candidate_of v s h) found"
    using EvaluateSelector_Inr [OF assms(3)] assms(1) by (metis option.inject)
  have "map pv_Value found = vs" using pathValues_values [OF assms(2), of growth nil_slice "[]"] f(1) by simp
  then show ?thesis by (simp add: f(2) candidate_of_def comp_def)
qed

text \<open>An identity of the tenant with one of the kinds.\<close>

definition tenant_identity :: "string \<Rightarrow> string list \<Rightarrow> any \<Rightarrow> bool" where
  "tenant_identity tenantID kinds v \<longleftrightarrow> (\<exists>s u. v = AStr s \<and> Parse s = Inr u \<and> uri_TenantID u = tenantID \<and>
     uri_ResourceType u \<in> set kinds)"

lemma check_value_None: "check_value d tenantID path kinds v = None \<Longrightarrow> tenant_identity tenantID kinds v"
  by (cases v) (auto simp: check_value_def Let_def tenant_identity_def split: sum.splits if_splits)

definition path_from :: "ResourceBinding set \<Rightarrow> string \<Rightarrow> produced_path \<Rightarrow> bool" where
  "path_from bs path p \<longleftrightarrow>
     (\<forall>k \<in> set (pp_kinds p). \<exists>b \<in> bs. TrimSpace (rb_SourcePath b) = path \<and> TrimSpace (rb_ResourceType b) = k) \<and>
     (pp_selector p \<noteq> [] \<longrightarrow> (\<exists>b \<in> bs. TrimSpace (rb_SourcePath b) = path \<and> rb_SelectorID b = pp_selector p))"

definition paths_from :: "ResourceBinding set \<Rightarrow> (string, produced_path) gomap \<Rightarrow> bool" where
  "paths_from bs m \<longleftrightarrow> wf_gomap m \<and> (\<forall>b \<in> bs. gomap_get m (TrimSpace (rb_SourcePath b)) \<noteq> None) \<and>
     (\<forall>path p. gomap_get m path = Some p \<longrightarrow> path_from bs path p)"

lemma path_from_mono: "path_from bs path p \<Longrightarrow> path_from (insert b bs) path p"
  unfolding path_from_def by blast

lemma merge_path_kinds: "k \<in> set (pp_kinds (merge_path b old)) \<longleftrightarrow>
    k = TrimSpace (rb_ResourceType b) \<or> (\<exists>p. old = Some p \<and> k \<in> set (pp_kinds p))"
  by (cases old) (auto simp: merge_path_def)

lemma merge_path_selector: "pp_selector (merge_path b old) = s \<Longrightarrow> s \<noteq> [] \<Longrightarrow>
    s = rb_SelectorID b \<or> (\<exists>p. old = Some p \<and> pp_selector p = s)"
  by (cases old) (auto simp: merge_path_def split: if_splits)

lemma paths_from_put:
  assumes "paths_from bs m"
  shows "paths_from (insert b bs) (gomap_put (TrimSpace (rb_SourcePath b)) (merge_path b (gomap_get m (TrimSpace (rb_SourcePath b)))) m)"
    (is "paths_from _ (gomap_put ?path ?new m)")
proof -
  have old: "path_from bs ?path p" if "gomap_get m ?path = Some p" for p
    using assms that by (simp add: paths_from_def)
  have "path_from (insert b bs) ?path ?new"
    unfolding path_from_def
  proof (intro conjI ballI impI)
    show "\<exists>c \<in> insert b bs. TrimSpace (rb_SourcePath c) = ?path \<and> TrimSpace (rb_ResourceType c) = k"
      if "k \<in> set (pp_kinds ?new)" for k
      using that old unfolding merge_path_kinds path_from_def by blast
    show "\<exists>c \<in> insert b bs. TrimSpace (rb_SourcePath c) = ?path \<and> rb_SelectorID c = pp_selector ?new"
      if "pp_selector ?new \<noteq> []"
      using merge_path_selector [OF refl that] old that unfolding path_from_def by (metis insert_iff)
  qed
  then show ?thesis using assms by (simp add: paths_from_def path_from_mono)
qed

lemma collect_paths_from: "collect_paths d bs m = Inr m' \<Longrightarrow> paths_from cs m \<Longrightarrow> paths_from (cs \<union> set bs) m'"
proof (induction d bs m arbitrary: cs rule: collect_paths.induct)
  case (2 d b rest m)
  have "paths_from (insert b cs \<union> set rest) m'"
    using "2.prems"(1) by (intro "2.IH" [OF refl _ _ paths_from_put [OF "2.prems"(2)]])
      (auto simp: Let_def split: if_splits)
  then show ?case by simp
qed simp

text \<open>The descriptors whose bindings name the selector of their own path, without surrounding space; the
  catalog admits only such ones up to the space.\<close>

definition plain_bindings :: "CapabilityDescriptor \<Rightarrow> bool" where
  "plain_bindings d \<longleftrightarrow> (\<forall>b \<in> set (cd_Produces d). TrimSpace (rb_SourcePath b) = rb_SourcePath b \<and>
     (rb_SelectorID b \<noteq> [] \<longrightarrow> (\<exists>s. FindSelector (cd_OutputType d) (rb_SelectorID b) (cd_ResultTypes d) = Some s \<and>
        sel_SourcePath s = rb_SourcePath b)))"

lemma sound_plain: "sound_descriptor r d \<Longrightarrow> \<forall>b \<in> set (cd_Produces d). TrimSpace (rb_SourcePath b) = rb_SourcePath b \<Longrightarrow>
    plain_bindings d"
  by (auto simp: sound_descriptor_def plain_bindings_def)

definition kinds_at :: "CapabilityDescriptor \<Rightarrow> string \<Rightarrow> string list" where
  "kinds_at d path = [TrimSpace (rb_ResourceType b). b \<leftarrow> cd_Produces d, TrimSpace (rb_SourcePath b) = path]"

text \<open>
  C17: an accepted result produces only identities of the tenant. When the check of a tool's result succeeds,
  every produced path that the descriptor declares is there, and every value on it, in every element of
  the arrays it goes through, is the text of a valid identity that belongs to the host's tenant and has one
  of the kinds declared for that path. This holds for every growth of slices, so also where the positions
  of a selector are wrong.
\<close>
theorem produced_admitted:
  assumes "validateProducedResources growth d structured tenantID = None" and "plain_bindings d"
    and "b \<in> set (cd_Produces d)"
  shows "case valuesAtPath (path_of (rb_SourcePath b)) (canon structured) of None \<Rightarrow> False
    | Some vs \<Rightarrow> list_all (tenant_identity tenantID (kinds_at d (rb_SourcePath b))) vs"
proof -
  let ?path = "rb_SourcePath b" and ?doc = "canon structured"
  have "cd_Produces d \<noteq> []" using assms(3) by auto
  then obtain m where m: "collect_paths d (cd_Produces d) [] = Inr m"
      "\<forall>e \<in> set m. check_path growth d ?doc tenantID e = None"
    using assms(1) by (auto simp: validateProducedResources_def checks_map split: if_splits sum.splits)
  have origin: "paths_from (set (cd_Produces d)) m"
    using collect_paths_from [OF m(1), of "{}"] by (simp add: paths_from_def)
  have trim: "TrimSpace ?path = ?path" using assms(2,3) by (simp add: plain_bindings_def)
  then obtain p where p: "gomap_get m ?path = Some p" using origin assms(3) by (fastforce simp: paths_from_def)
  then have "(?path, p) \<in> set m" using origin by (simp add: paths_from_def gomap_get_in)
  then have check: "check_path growth d ?doc tenantID (?path, p) = None" using m(2) by blast
  then obtain found where found: "produced_values growth d ?doc ?path (pp_selector p) = Inr found"
      "\<forall>v \<in> set found. check_value d tenantID ?path (pp_kinds p) v = None"
    by (cases "produced_values growth d ?doc ?path (pp_selector p)")
      (auto simp: check_path_def checks_map split: if_splits)
  then obtain vs where vs: "valuesAtPath (path_of ?path) ?doc = Some vs"
    by (auto simp: produced_values_def split: option.splits)
  have "found = vs"
  proof (cases "pp_selector p = []")
    case True
    then show ?thesis using found(1) vs by (simp add: produced_values_def)
  next
    case False
    then obtain c where c: "c \<in> set (cd_Produces d)" "TrimSpace (rb_SourcePath c) = ?path" "rb_SelectorID c = pp_selector p"
      using origin p unfolding paths_from_def path_from_def by blast
    then obtain s where s: "FindSelector (cd_OutputType d) (pp_selector p) (cd_ResultTypes d) = Some s"
        "sel_SourcePath s = ?path"
      using assms(2) False by (auto simp: plain_bindings_def)
    obtain cs where "EvaluateSelector growth ?doc (cd_OutputType d) (pp_selector p) (cd_ResultTypes d) = Inr cs"
        "found = map cn_Value cs"
      using found(1) vs False by (auto simp: produced_values_def split: sum.splits)
    then show ?thesis using selector_values [OF s(1)] s(2) vs by metis
  qed
  moreover have "set (pp_kinds p) \<subseteq> set (kinds_at d ?path)"
    using origin p by (fastforce simp: paths_from_def path_from_def kinds_at_def)
  moreover have "tenant_identity tenantID (pp_kinds p) v" if "v \<in> set found" for v
    using found(2) that check_value_None by blast
  ultimately have "\<forall>v \<in> set vs. tenant_identity tenantID (kinds_at d ?path) v"
    unfolding tenant_identity_def by blast
  then show ?thesis by (simp add: vs list_all_iff)
qed

definition demo_clusters :: any where
  "demo_clusters = AMap [(''uri'', AStr ''cluster:acme:one'')]"

theorem produced_admitted_witness:
  "validateProducedResources go_growth (demo_capability ''list'' []) demo_clusters ''acme'' = None \<and>
   (case valuesAtPath (path_of ''uri'') (canon demo_clusters) of None \<Rightarrow> False
    | Some vs \<Rightarrow> list_all (tenant_identity ''acme'' [''cluster'']) vs) \<and>
   validateProducedResources go_growth (demo_capability ''list'' []) demo_clusters ''other'' \<noteq> None"
proof -
  let ?d = "demo_capability ''list'' []"
  let ?b = "\<lparr>rb_Argument = [], rb_ResourceType = ''cluster'', rb_SourcePath = ''uri'', rb_SelectorID = [], rb_Required = False\<rparr>"
  have ok: "validateProducedResources go_growth ?d demo_clusters ''acme'' = None"
      "validateProducedResources go_growth ?d demo_clusters ''other'' \<noteq> None" by code_simp+
  have "TrimSpace ''uri'' = ''uri''" "kinds_at ?d ''uri'' = [''cluster'']" by code_simp+
  then have "plain_bindings ?d" by (simp add: plain_bindings_def demo_capability_def)
  moreover have "?b \<in> set (cd_Produces ?d)" by (simp add: demo_capability_def)
  ultimately show ?thesis using produced_admitted [OF ok(1), of ?b] ok \<open>kinds_at ?d ''uri'' = _\<close>
    by (simp split: option.splits)
qed

end
