(* ===== verification/Go_Number.thy ===== *)
theory Go_Number
  imports Go_Strings Go_Float
begin

text \<open>
  Decimal and hexadecimal numbers in text, as \<open>strconv.ParseFloat\<close> reads them into a \<open>float64\<close>, upper
  case, and the arithmetic on \<open>float64\<close> values that the code does with them.
\<close>

section \<open>Upper case\<close>

text \<open>
  The dotless i U+0131 (bytes 196 177) and the long s U+017F (bytes 197 191) have upper case letters
  in ASCII. Other code points outside ASCII are left as they are, which is enough for comparing the
  result with ASCII constants.
\<close>

fun ToUpper :: "string \<Rightarrow> string" where
  "ToUpper [] = []"
| "ToUpper (a # s) =
     (case s of
        b # s' \<Rightarrow> if byte a = 196 \<and> byte b = 177 then CHR ''I'' # ToUpper s'
          else if byte a = 197 \<and> byte b = 191 then CHR ''S'' # ToUpper s' else upper_ascii a # ToUpper s
      | [] \<Rightarrow> [upper_ascii a])"

section \<open>Reading a number\<close>

definition digit_value :: "bool \<Rightarrow> char \<Rightarrow> int option" where
  "digit_value hex c = (if digit c then Some (int (byte c) - 48)
     else if hex \<and> 97 \<le> byte (lower_ascii c) \<and> byte (lower_ascii c) \<le> 102
     then Some (int (byte (lower_ascii c)) - 87) else None)"

text \<open>The digits up to the exponent: their value without the point, how many follow the point, whether
  there are any, and the rest of the text. Underscores are passed over.\<close>

fun scan_mantissa :: "bool \<Rightarrow> bool \<Rightarrow> string \<Rightarrow> int \<Rightarrow> nat \<Rightarrow> bool \<Rightarrow> int \<times> nat \<times> bool \<times> string" where
  "scan_mantissa hex dot [] m fr saw = (m, fr, saw, [])"
| "scan_mantissa hex dot (c # s) m fr saw =
     (if c = CHR ''_'' then scan_mantissa hex dot s m fr saw
      else if c = CHR ''.'' then (if dot then (m, fr, saw, c # s) else scan_mantissa hex True s m fr saw)
      else (case digit_value hex c of
          None \<Rightarrow> (m, fr, saw, c # s)
        | Some d \<Rightarrow> scan_mantissa hex dot s ((if hex then 16 else 10) * m + d) (if dot then Suc fr else fr) True))"

fun scan_exponent :: "string \<Rightarrow> int \<Rightarrow> int \<times> string" where
  "scan_exponent [] e = (e, [])"
| "scan_exponent (c # s) e =
     (if c = CHR ''_'' then scan_exponent s e
      else if digit c then scan_exponent s (if e < 10000 then 10 * e + (int (byte c) - 48) else e)
      else (e, c # s))"

text \<open>The exponent after its letter.\<close>

definition read_exponent :: "string \<Rightarrow> (int \<times> string) option" where
  "read_exponent s =
     (let (neg, t) = (case s of c # t \<Rightarrow> if c = CHR ''+'' then (False, t) else if c = CHR ''-'' then (True, t) else (False, s)
        | [] \<Rightarrow> (False, []))
      in case t of
           [] \<Rightarrow> None
         | c # _ \<Rightarrow> if \<not> digit c then None
             else (let (e, rest) = scan_exponent t 0 in Some (if neg then - e else e, rest)))"

text \<open>An underscore stands between two digits, or between the prefix and a digit.\<close>

fun underscores_ok :: "bool \<Rightarrow> char \<Rightarrow> string \<Rightarrow> bool" where
  "underscores_ok hex saw [] \<longleftrightarrow> saw \<noteq> CHR ''_''"
| "underscores_ok hex saw (c # s) =
     (if digit_value hex c \<noteq> None then underscores_ok hex (CHR ''0'') s
      else if c = CHR ''_'' then saw = CHR ''0'' \<and> underscores_ok hex (CHR ''_'') s
      else saw \<noteq> CHR ''_'' \<and> underscores_ok hex (CHR ''!'') s)"

definition unsign :: "string \<Rightarrow> bool \<times> string" where
  "unsign s = (case s of c # t \<Rightarrow> if c = CHR ''+'' then (False, t) else if c = CHR ''-'' then (True, t) else (False, s)
     | [] \<Rightarrow> (False, []))"

definition underscoreOK :: "string \<Rightarrow> bool" where
  "underscoreOK s = (let t = snd (unsign s) in
     case t of
       a # b # rest \<Rightarrow> if a = CHR ''0'' \<and> lower_ascii b \<in> set ''box''
         then underscores_ok (lower_ascii b = CHR ''x'') (CHR ''0'') rest else underscores_ok False (CHR ''^'') t
     | _ \<Rightarrow> underscores_ok False (CHR ''^'') t)"

text \<open>The exact value of a well-formed number, with its sign: the whole text is a number.\<close>

definition readFloat :: "string \<Rightarrow> (bool \<times> rat) option" where
  "readFloat s =
     (let (neg, t) = unsign s;
          hex = (case t of a # b # _ # _ \<Rightarrow> a = CHR ''0'' \<and> lower_ascii b = CHR ''x'' | _ \<Rightarrow> False);
          (m, fr, saw, rest) = scan_mantissa hex False (if hex then drop 2 t else t) 0 0 False;
          value = (\<lambda>e. if hex then of_int m / 16 ^ fr * pow2 e
            else of_int m / 10 ^ fr * (if 0 \<le> e then 10 ^ nat e else 1 / 10 ^ nat (- e)))
      in if \<not> saw then None
         else (case (case rest of
                  [] \<Rightarrow> if hex then None else Some (0, [])
                | c # more \<Rightarrow> if lower_ascii c = (if hex then CHR ''p'' else CHR ''e'') then read_exponent more
                    else if hex then None else Some (0, rest)) of
             None \<Rightarrow> None
           | Some (e, left) \<Rightarrow>
              if left \<noteq> [] \<or> (CHR ''_'' \<in> set s \<and> \<not> underscoreOK s) then None else Some (neg, value e)))"

definition special_float :: "string \<Rightarrow> float64 option" where
  "special_float s = (let (neg, t) = unsign s in
     if map lower_ascii t \<in> {''inf'', ''infinity''} then Some (FInf neg)
     else if map lower_ascii s = ''nan'' then Some FNaN else None)"

text \<open>\<open>None\<close> is an error: no number, or one that is too large.\<close>

definition ParseFloat :: "string \<Rightarrow> float64 option" where
  "ParseFloat s = (case special_float s of
     Some v \<Rightarrow> Some v
   | None \<Rightarrow>
      (case readFloat s of
         None \<Rightarrow> None
       | Some (neg, q) \<Rightarrow>
          (if q = 0 then Some (FZero neg)
           else (case round64 (if neg then - q else q) of FInf b \<Rightarrow> None | v \<Rightarrow> Some v))))"

section \<open>Arithmetic\<close>

fun f64_mul :: "float64 \<Rightarrow> float64 \<Rightarrow> float64" where
  "f64_mul FNaN _ = FNaN"
| "f64_mul _ FNaN = FNaN"
| "f64_mul (FInf a) (FZero _) = FNaN"
| "f64_mul (FZero _) (FInf b) = FNaN"
| "f64_mul (FInf a) y = FInf (a \<noteq> f64_neg y)"
| "f64_mul x (FInf b) = FInf (f64_neg x \<noteq> b)"
| "f64_mul (FZero a) y = FZero (a \<noteq> f64_neg y)"
| "f64_mul x (FZero b) = FZero (f64_neg x \<noteq> b)"
| "f64_mul (FNum p) (FNum q) = round64 (p * q)"

text \<open>\<open>math.Trunc(x) == x\<close>.\<close>

fun f64_whole :: "float64 \<Rightarrow> bool" where
  "f64_whole (FNum q) \<longleftrightarrow> of_int \<lfloor>q\<rfloor> = q"
| "f64_whole FNaN = False"
| "f64_whole _ = True"

text \<open>
  The conversion to \<open>int64\<close> cuts off the fraction. What it gives for a value that does not fit is left to
  the implementation: \<open>outside\<close>.
\<close>

definition f64_to_int64 :: "(float64 \<Rightarrow> i64) \<Rightarrow> float64 \<Rightarrow> i64" where
  "f64_to_int64 outside x =
     (let n = (if 0 \<le> f64_val x then \<lfloor>f64_val x\<rfloor> else \<lceil>f64_val x\<rceil>) in
      if f64_finite x \<and> - (2 ^ 63) \<le> n \<and> n < 2 ^ 63 then of_int n else outside x)"

section \<open>Rounding\<close>

lemma bitlen_one: "bitlen 1 = 1"
  by (simp add: bitlen_def floorlog_def)

lemma rat_exp_int:
  assumes "0 < n" shows "rat_exp (of_int n) = bitlen n - 1"
proof -
  have "1 \<le> bitlen n" using assms by (simp add: bitlen_ge_iff_power)
  moreover have "(2::rat) ^ nat (bitlen n - 1) \<le> of_int n"
    using bitlen_bounds [OF assms] by (metis of_int_le_iff of_int_numeral of_int_power)
  ultimately show ?thesis
    using assms by (simp add: rat_exp_def quotient_of_rat_of_int bitlen_one pow2_def)
qed

lemma round_even_int: "round_even (of_int n) = n"
  by (simp add: round_even_def)

lemma pow2_nat: "pow2 (int k) = 2 ^ k"
  by (simp add: pow2_def)

text \<open>An integer with at most 53 significant bits is a \<open>float64\<close>.\<close>

lemma round64_exact:
  assumes "0 < m" "m < 2 ^ 53" "k \<le> 900"
  shows "round64 (of_int (m * 2 ^ k)) = FNum (of_int (m * 2 ^ k))"
proof -
  let ?n = "m * 2 ^ k"
  have b: "1 \<le> bitlen m" "bitlen m \<le> 53"
    using assms(1,2) by (simp_all add: bitlen_ge_iff_power bitlen_le_iff_power)
  have n: "0 < ?n" using assms(1) by simp
  define e where "e = bitlen m + int k - 53"
  have re: "max (rat_exp (of_int ?n) - 52) (- 1074) = e"
    using b n assms(1) by (simp only: rat_exp_int [OF n] bitlen_pow2 [OF assms(1)] e_def)
  have ek: "e \<le> int k" using b(2) by (simp add: e_def)
  obtain q :: int where q: "of_int ?n / pow2 e = (of_int q :: rat)" "of_int q * pow2 e = (of_int ?n :: rat)"
  proof (cases "0 \<le> e")
    case True
    define d where "d = nat (int k - e)"
    have k: "(2::rat) ^ k = 2 ^ d * 2 ^ nat e" using True ek by (simp add: d_def flip: power_add)
    show ?thesis by (rule that [of "m * 2 ^ d"]) (use True in \<open>simp_all add: pow2_def k\<close>)
  next
    case False
    show ?thesis by (rule that [of "?n * 2 ^ nat (- e)"]) (use False in \<open>simp_all add: pow2_def\<close>)
  qed
  have "(of_int ?n :: rat) < 2 ^ 1024"
  proof -
    have "?n < 2 ^ 53 * 2 ^ k" using assms(2) by simp
    also have "\<dots> \<le> 2 ^ 53 * 2 ^ 900" using assms(3) by (intro mult_left_mono power_increasing) auto
    finally have "?n < 2 ^ 1024" by (simp flip: power_add)
    then show ?thesis by (metis of_int_less_iff of_int_numeral of_int_power)
  qed
  moreover have "of_int q * pow2 e \<noteq> 0" using q(2) assms(1) by simp
  then have "q \<noteq> 0" by auto
  moreover have "\<bar>of_int ?n\<bar> = (of_int ?n :: rat)" "(of_int ?n :: rat) \<noteq> 0" using assms(1) by simp_all
  ultimately show ?thesis
    unfolding round64_def Let_def re q round_even_int by simp
qed

section \<open>Decimal texts\<close>

lemma digit_of_nat: "d < 10 \<Longrightarrow> digit (char_of (48 + d))" "d < 10 \<Longrightarrow> byte (char_of (48 + d :: nat)) = 48 + d"
  by (simp_all add: digit_def byte_def)

lemma scan_digits:
  "list_all digit ds \<Longrightarrow> scan_mantissa False False (ds @ r) m fr saw =
    (let m' = foldl (\<lambda>n c. 10 * n + (int (byte c) - 48)) m ds in
     scan_mantissa False False r m' fr (saw \<or> ds \<noteq> []))"
proof (induction ds arbitrary: m saw)
  case (Cons c ds)
  have "c \<noteq> CHR ''_''" "c \<noteq> CHR ''.''" using Cons.prems by (auto simp: digit_def byte_def)
  then show ?case using Cons by (simp add: digit_value_def Let_def)
qed (simp add: Let_def)

end
