(* ===== verification/Cost_Arguments.thy ===== *)
theory Cost_Arguments
  imports Go_Number Reservations Json
begin

text \<open>
  The resource cost of a call, taken from its arguments (\<open>src/internal/resource/cost_arguments.go\<close>): a
  descriptor names the argument that holds a quantity, which overrides the declared cost, and a quantity
  that cannot be read stops the call. Reasons of errors keep the format of their text.
\<close>

section \<open>Paths\<close>

record CostArgumentBindings =
  ca_CPUCores :: string
  ca_MemoryBytes :: string
  ca_DiskBytes :: string
  ca_Tasks :: string

definition validateArgumentPath :: "string \<Rightarrow> string option" where
  "validateArgumentPath path =
     (if HasPrefix path ''.'' \<or> HasSuffix path ''.''
      then Some ''argument binding path %q is not a non-empty object path''
      else if list_ex (\<lambda>segment. segment = [] \<or> list_ex (\<lambda>c. c \<in> set ''[]/'') segment) (Split path (CHR ''.''))
      then Some ''argument binding path %q is not a supported object path''
      else None)"

fun follow_path :: "string list \<Rightarrow> any \<Rightarrow> any option" where
  "follow_path [] v = Some v"
| "follow_path (segment # rest) v =
     (case as_map v of
        None \<Rightarrow> None
      | Some object \<Rightarrow>
         (case gomap_get (entries object) segment of None \<Rightarrow> None | Some next \<Rightarrow> follow_path rest next))"

definition argumentAtPath :: "anymap \<Rightarrow> string \<Rightarrow> any option" where
  "argumentAtPath args path = follow_path (Split path (CHR ''.'')) (map_any args)"

section \<open>Quantities\<close>

text \<open>\<open>Inl\<close> is the text of the error.\<close>

definition numberValue :: "any \<Rightarrow> string + float64" where
  "numberValue v = (case number v of
     None \<Rightarrow> Inl ''must be numeric''
   | Some x \<Rightarrow>
      if \<not> f64_finite x then Inl ''must be finite''
      else if f64_lt x (FZero False) then Inl ''value cannot be negative'' else Inr x)"

definition parsePositiveNumber :: "any \<Rightarrow> string + float64" where
  "parsePositiveNumber v = (case numberValue v of
     Inl e \<Rightarrow> Inl e
   | Inr x \<Rightarrow> if f64_le x (FZero False) then Inl ''value must be greater than zero'' else Inr x)"

definition float_maxInt64 :: float64 where
  "float_maxInt64 = f64_of_int (2 ^ 63 - 1)"

definition parsePositiveInteger :: "any \<Rightarrow> string + float64" where
  "parsePositiveInteger v = (case parsePositiveNumber v of
     Inl e \<Rightarrow> Inl e
   | Inr x \<Rightarrow>
      if \<not> f64_whole x then Inl ''value must be an integer''
      else if f64_lt float_maxInt64 x then Inl ''value exceeds the supported integer range'' else Inr x)"

definition capacityUnits :: "(string \<times> int) list" where
  "capacityUnits =
     [(''TIB'', 2 ^ 40), (''TB'', 10 ^ 12), (''TI'', 2 ^ 40), (''T'', 2 ^ 40),
      (''GIB'', 2 ^ 30), (''GB'', 10 ^ 9), (''GI'', 2 ^ 30), (''G'', 2 ^ 30),
      (''MIB'', 2 ^ 20), (''MB'', 10 ^ 6), (''MI'', 2 ^ 20), (''M'', 2 ^ 20),
      (''KIB'', 2 ^ 10), (''KB'', 10 ^ 3), (''KI'', 2 ^ 10), (''K'', 2 ^ 10), (''B'', 1)]"

text \<open>The number of a normalized text and what it is multiplied by.\<close>

definition split_capacity :: "string \<Rightarrow> string \<times> int" where
  "split_capacity normalized =
     (case List.find (\<lambda>(ending, _). HasSuffix normalized ending) capacityUnits of
        Some (ending, multiplier) \<Rightarrow> (TrimSpace (TrimSuffix normalized ending), multiplier)
      | None \<Rightarrow> (normalized, 1))"

definition not_whole_bytes :: "float64 \<Rightarrow> bool" where
  "not_whole_bytes bytes \<longleftrightarrow> bytes = FInf False \<or> bytes = FInf True \<or> f64_lt float_maxInt64 bytes \<or> \<not> f64_whole bytes"

definition capacityStringBytes :: "string \<Rightarrow> string + float64" where
  "capacityStringBytes text_value =
     (let normalized = ToUpper (TrimSpace text_value) in
      if normalized = [] then Inl ''must not be empty''
      else (let (numberText, multiplier) = split_capacity normalized in
        case ParseFloat numberText of
          None \<Rightarrow> Inl ''must be a valid capacity''
        | Some x \<Rightarrow>
           if \<not> f64_finite x then Inl ''must be a valid capacity''
           else if f64_le x (FZero False) then Inl ''value must be greater than zero''
           else (let bytes = f64_mul x (f64_of_int multiplier) in
             if not_whole_bytes bytes then Inl ''capacity must resolve to an integer number of bytes'' else Inr bytes)))"

definition parsePositiveCapacity :: "any \<Rightarrow> string + float64" where
  "parsePositiveCapacity v =
     (case (case as_string v of
          Some s \<Rightarrow> capacityStringBytes s
        | None \<Rightarrow> (case numberValue v of
            Inl _ \<Rightarrow> Inl ''must be a capacity string or integer byte count''
          | Inr x \<Rightarrow> if f64_whole x then Inr x else Inl ''byte count must be an integer'')) of
        Inl e \<Rightarrow> Inl e
      | Inr bytes \<Rightarrow>
         if f64_le bytes (FZero False) then Inl ''value must be greater than zero''
         else if not_whole_bytes bytes then Inl ''capacity exceeds the supported byte range'' else Inr bytes)"

text \<open>\<open>outside\<close> is what the conversion to \<open>int64\<close> gives for a value that does not fit.\<close>

definition ParseByteCapacity :: "(float64 \<Rightarrow> i64) \<Rightarrow> string \<Rightarrow> string + i64" where
  "ParseByteCapacity outside s = (case parsePositiveCapacity (AStr s) of
     Inl e \<Rightarrow> Inl e | Inr bytes \<Rightarrow> Inr (f64_to_int64 outside bytes))"

section \<open>The request\<close>

text \<open>One binding: its field, path, parser and the update of the request.\<close>

definition resolve_binding :: "anymap \<Rightarrow> string \<Rightarrow> string \<Rightarrow> (any \<Rightarrow> string + float64) \<Rightarrow>
    (float64 \<Rightarrow> AdmissionRequest \<Rightarrow> AdmissionRequest) \<Rightarrow> AdmissionRequest \<Rightarrow> GoError + AdmissionRequest" where
  "resolve_binding args field raw parse put base =
     (let path = TrimSpace raw in
      if path = [] then Inr base
      else (case validateArgumentPath path of
          Some e \<Rightarrow> Inl (reqErr ''host_resource_binding_invalid'' field e)
        | None \<Rightarrow>
           (case argumentAtPath args path of
              None \<Rightarrow> Inr base
            | Some v \<Rightarrow>
               (case parse v of
                  Inl e \<Rightarrow> Inl (reqErr ''host_resource_argument_invalid'' field (''argument %q: '' @ e))
                | Inr x \<Rightarrow> Inr (put x base)))))"

definition bind_ok :: "'e + 'a \<Rightarrow> ('a \<Rightarrow> 'e + 'b) \<Rightarrow> 'e + 'b" where
  "bind_ok r f = (case r of Inl e \<Rightarrow> Inl e | Inr x \<Rightarrow> f x)"

definition ResolveArgumentCost :: "(float64 \<Rightarrow> i64) \<Rightarrow> AdmissionRequest \<Rightarrow> anymap \<Rightarrow> CostArgumentBindings \<Rightarrow>
    GoError + AdmissionRequest" where
  "ResolveArgumentCost outside base args b =
     bind_ok (resolve_binding args ''cpuCores'' (ca_CPUCores b) parsePositiveNumber (\<lambda>x r. r\<lparr>rq_CPUCores := x\<rparr>) base) (\<lambda>r.
     bind_ok (resolve_binding args ''memoryBytes'' (ca_MemoryBytes b) parsePositiveCapacity
       (\<lambda>x r. r\<lparr>rq_MemoryBytes := f64_to_int64 outside x\<rparr>) r) (\<lambda>r.
     bind_ok (resolve_binding args ''diskBytes'' (ca_DiskBytes b) parsePositiveCapacity
       (\<lambda>x r. r\<lparr>rq_DiskBytes := f64_to_int64 outside x\<rparr>) r) (\<lambda>r.
     resolve_binding args ''tasks'' (ca_Tasks b) parsePositiveInteger
       (\<lambda>x r. r\<lparr>rq_Tasks := f64_to_int64 outside x\<rparr>) r)))"

end
