(* ===== verification/Cost_Laws.thy ===== *)
theory Cost_Laws
  imports Cost_Arguments
begin

text \<open>
  What the resolved cost of a call can be: quantities from arguments are positive, and capacities with a
  unit are exact; the one value that the bounds let through and that does not fit is the power of two just
  above the largest integer.
\<close>

section \<open>Bounds\<close>

lemma float_max: "float_maxInt64 = FNum (2 ^ 63)"
  by code_simp

lemma f64_le_zero: "f64_finite x \<Longrightarrow> \<not> f64_le x (FZero False) \<Longrightarrow> 0 < f64_val x"
  by (cases x) (auto simp: f64_le_def)

lemma whole_val: "f64_finite x \<Longrightarrow> f64_whole x \<Longrightarrow> of_int \<lfloor>f64_val x\<rfloor> = f64_val x"
  by (cases x) auto

text \<open>A positive whole number of at most \<open>2 ^ 63\<close>.\<close>

definition whole_quantity :: "float64 \<Rightarrow> bool" where
  "whole_quantity x \<longleftrightarrow> (\<exists>n. x = FNum (of_int n) \<and> 0 < n \<and> n \<le> 2 ^ 63)"

lemma whole_quantityI:
  assumes "f64_finite x" "f64_whole x" "\<not> f64_le x (FZero False)" "\<not> f64_lt float_maxInt64 x"
  shows "whole_quantity x"
proof (cases x)
  case (FNum q)
  have q: "of_int \<lfloor>q\<rfloor> = q" "0 < q" "q \<le> 2 ^ 63"
    using assms FNum by (auto simp: float_max f64_le_def)
  then have "0 < \<lfloor>q\<rfloor>" "\<lfloor>q\<rfloor> \<le> 2 ^ 63" by (metis of_int_0_less_iff) (metis q(1,3) of_int_le_iff of_int_numeral of_int_power)
  then show ?thesis using FNum q(1) unfolding whole_quantity_def by metis
qed (use assms in \<open>auto simp: f64_le_def\<close>)

lemma numberValue_Inr: "numberValue v = Inr x \<Longrightarrow> f64_finite x"
  by (auto simp: numberValue_def split: option.splits if_splits)

lemma parsePositiveNumber_Inr: "parsePositiveNumber v = Inr x \<Longrightarrow> f64_finite x \<and> 0 < f64_val x"
  using numberValue_Inr f64_le_zero by (auto simp: parsePositiveNumber_def split: sum.splits if_splits)

lemma parsePositiveInteger_Inr:
  assumes "parsePositiveInteger v = Inr x" shows "whole_quantity x"
proof -
  have "parsePositiveNumber v = Inr x" "f64_whole x" "\<not> f64_lt float_maxInt64 x"
    using assms by (auto simp: parsePositiveInteger_def split: sum.splits if_splits)
  moreover from this have "f64_finite x" "\<not> f64_le x (FZero False)"
    using numberValue_Inr by (auto simp: parsePositiveNumber_def split: sum.splits if_splits)
  ultimately show ?thesis using whole_quantityI by blast
qed

lemma parsePositiveCapacity_Inr: "parsePositiveCapacity v = Inr x \<Longrightarrow> whole_quantity x"
proof (rule whole_quantityI)
  assume "parsePositiveCapacity v = Inr x"
  then have "\<not> f64_le x (FZero False)" "\<not> not_whole_bytes x"
    by (auto simp: parsePositiveCapacity_def split: sum.splits if_splits)
  then show "f64_finite x" "f64_whole x" "\<not> f64_le x (FZero False)" "\<not> f64_lt float_maxInt64 x"
    by (cases x; auto simp: not_whole_bytes_def)+
qed

text \<open>A quantity as the request holds it: the declared one, a positive one, or whatever the machine makes of
  \<open>2 ^ 63\<close>.\<close>

definition quantity_ok :: "(float64 \<Rightarrow> i64) \<Rightarrow> i64 \<Rightarrow> i64 \<Rightarrow> bool" where
  "quantity_ok outside declared v \<longleftrightarrow> v = declared \<or> 0 < sint v \<or> v = outside (FNum (2 ^ 63))"

lemma whole_converted: "whole_quantity x \<Longrightarrow> quantity_ok outside d (f64_to_int64 outside x)"
proof -
  assume "whole_quantity x"
  then obtain n where n: "x = FNum (of_int n)" "0 < n" "n \<le> 2 ^ 63" unfolding whole_quantity_def by blast
  show ?thesis
  proof (cases "n = 2 ^ 63")
    case True
    then show ?thesis by (simp add: quantity_ok_def f64_to_int64_def n(1))
  next
    case False
    then have "f64_to_int64 outside x = of_int n" "sint (of_int n :: i64) = n"
      using n sint_small [of n] by (simp_all add: f64_to_int64_def)
    then show ?thesis using n(2) by (simp add: quantity_ok_def)
  qed
qed

lemma resolve_binding_Inr: "resolve_binding args field raw parse put base = Inr r \<Longrightarrow>
    r = base \<or> (\<exists>v x. argumentAtPath args (TrimSpace raw) = Some v \<and> parse v = Inr x \<and> r = put x base)"
  by (auto simp: resolve_binding_def Let_def split: if_splits option.splits sum.splits)

text \<open>
  C40: a quantity from an argument is positive. Resolving the cost of a call keeps everything but the four
  quantities; each of those is the declared one or a positive number, and a processor share is finite. The
  only exception is the conversion of \<open>2 ^ 63\<close> bytes or tasks, which the bounds let through.
\<close>
theorem cost_bounded:
  assumes "ResolveArgumentCost outside base args b = Inr r"
  shows "r = base\<lparr>rq_CPUCores := rq_CPUCores r, rq_MemoryBytes := rq_MemoryBytes r, rq_DiskBytes := rq_DiskBytes r,
      rq_Tasks := rq_Tasks r\<rparr> \<and>
    (rq_CPUCores r = rq_CPUCores base \<or> f64_finite (rq_CPUCores r) \<and> 0 < f64_val (rq_CPUCores r)) \<and>
    quantity_ok outside (rq_MemoryBytes base) (rq_MemoryBytes r) \<and>
    quantity_ok outside (rq_DiskBytes base) (rq_DiskBytes r) \<and>
    quantity_ok outside (rq_Tasks base) (rq_Tasks r)"
proof -
  obtain r1 r2 r3 where r:
    "resolve_binding args ''cpuCores'' (ca_CPUCores b) parsePositiveNumber (\<lambda>x r. r\<lparr>rq_CPUCores := x\<rparr>) base = Inr r1"
    "resolve_binding args ''memoryBytes'' (ca_MemoryBytes b) parsePositiveCapacity
       (\<lambda>x r. r\<lparr>rq_MemoryBytes := f64_to_int64 outside x\<rparr>) r1 = Inr r2"
    "resolve_binding args ''diskBytes'' (ca_DiskBytes b) parsePositiveCapacity
       (\<lambda>x r. r\<lparr>rq_DiskBytes := f64_to_int64 outside x\<rparr>) r2 = Inr r3"
    "resolve_binding args ''tasks'' (ca_Tasks b) parsePositiveInteger
       (\<lambda>x r. r\<lparr>rq_Tasks := f64_to_int64 outside x\<rparr>) r3 = Inr r"
    using assms by (auto simp: ResolveArgumentCost_def bind_ok_def split: sum.splits)
  have same: "quantity_ok outside d d" for d by (simp add: quantity_ok_def)
  have 1: "r1 = base \<or> (\<exists>x. f64_finite x \<and> 0 < f64_val x \<and> r1 = base\<lparr>rq_CPUCores := x\<rparr>)"
    using resolve_binding_Inr [OF r(1)] parsePositiveNumber_Inr by blast
  have 2: "\<exists>m. r2 = r1\<lparr>rq_MemoryBytes := m\<rparr> \<and> quantity_ok outside (rq_MemoryBytes r1) m"
    using resolve_binding_Inr [OF r(2)] parsePositiveCapacity_Inr whole_converted
    by (metis AdmissionRequest.surjective AdmissionRequest.update_convs(2) same)
  have 3: "\<exists>m. r3 = r2\<lparr>rq_DiskBytes := m\<rparr> \<and> quantity_ok outside (rq_DiskBytes r2) m"
    using resolve_binding_Inr [OF r(3)] parsePositiveCapacity_Inr whole_converted
    by (metis AdmissionRequest.surjective AdmissionRequest.update_convs(3) same)
  have 4: "\<exists>m. r = r3\<lparr>rq_Tasks := m\<rparr> \<and> quantity_ok outside (rq_Tasks r3) m"
    using resolve_binding_Inr [OF r(4)] parsePositiveInteger_Inr whole_converted
    by (metis AdmissionRequest.surjective AdmissionRequest.update_convs(4) same)
  show ?thesis using 1 2 3 4 by auto
qed

section \<open>Capacities with a unit\<close>

lemma digit_bytes: "digit c \<Longrightarrow> byte c < 58 \<and> 48 \<le> byte c"
  by (simp add: digit_def)

lemma upper_digit: "digit c \<Longrightarrow> upper_ascii c = c"
  by (simp add: digit_def upper_ascii_def)

lemma ToUpper_digits: "list_all digit ds \<Longrightarrow> ToUpper (ds @ s) = ds @ ToUpper s"
proof (induction ds)
  case (Cons c ds)
  then show ?case using digit_bytes [of c] by (cases "ds @ s") (auto simp: upper_digit)
qed simp

lemma trim_left_digit: "digit c \<Longrightarrow> trim_left (c # s) = c # s"
  by (cases s rule: trim_left.cases) (auto simp: digit_def ascii_space_def space2_def space3_def)

text \<open>A text that ends in a character below 128 that is no space is not cut at its end.\<close>

lemma trim_right_ascii: "33 \<le> byte c \<Longrightarrow> byte c < 128 \<Longrightarrow> trim_right_rev (c # s) = c # s"
  by (cases "c # s" rule: trim_right_rev.cases) (auto simp: ascii_space_def space2_def space3_def)

lemma TrimSpace_number:
  assumes "digit d" "33 \<le> byte c" "byte c < 128"
  shows "TrimSpace (d # s @ [c]) = d # s @ [c]" "TrimSpace [d] = [d]"
proof -
  have "trim_left (d # s @ [c]) = d # s @ [c]" "trim_left [d] = [d]" by (rule trim_left_digit [OF assms(1)])+
  moreover have "33 \<le> byte d" "byte d < 128" using digit_bytes [OF assms(1)] by auto
  ultimately show "TrimSpace (d # s @ [c]) = d # s @ [c]" "TrimSpace [d] = [d]"
    using trim_right_ascii [OF assms(2,3), of "rev (d # s)"] trim_right_ascii [of d "[]"] unfolding TrimSpace_def by (simp_all del: trim_left.simps trim_right_rev.simps)
qed

lemma readFloat_digits:
  assumes "list_all digit ds" "ds \<noteq> []"
  shows "readFloat ds = Some (False, of_int (digits_val ds))"
proof -
  have c: "c \<noteq> CHR ''_''" "c \<noteq> CHR ''+''" "c \<noteq> CHR ''-''" "lower_ascii c \<noteq> CHR ''x''" if "digit c" for c
    using that by (auto simp: digit_def byte_def lower_ascii_def)
  have u: "unsign ds = (False, ds)" using assms c by (cases ds) (auto simp: unsign_def)
  have h: "(case ds of a # b # _ # _ \<Rightarrow> a = CHR ''0'' \<and> lower_ascii b = CHR ''x'' | _ \<Rightarrow> False) = False"
    using assms(1) c by (auto split: list.split)
  have "CHR ''_'' \<notin> set ds" using assms(1) c(1) by (auto simp: list_all_iff)
  moreover have "scan_mantissa False False ds 0 0 False = (digits_val ds, 0, True, [])"
    using scan_digits [OF assms(1), of "[]" 0 0 False] assms(2) by (simp add: digits_val_def Let_def)
  ultimately show ?thesis
    unfolding readFloat_def u Let_def case_prod_conv h by simp
qed

lemma ParseFloat_digits:
  assumes "list_all digit ds" "ds \<noteq> []" "0 < digits_val ds" "digits_val ds < 2 ^ 53"
  shows "ParseFloat ds = Some (FNum (of_int (digits_val ds)))"
proof -
  obtain c cs where ds: "ds = c # cs" using assms(2) by (cases ds) auto
  then have "digit c" using assms(1) by simp
  then have c: "c \<noteq> CHR ''+''" "c \<noteq> CHR ''-''" "lower_ascii c \<noteq> CHR ''i''" "lower_ascii c \<noteq> CHR ''n''"
    by (auto simp: digit_def byte_def lower_ascii_def)
  then have "special_float ds = None" by (auto simp: special_float_def unsign_def ds)
  moreover have "round64 (of_int (digits_val ds)) = FNum (of_int (digits_val ds))"
    using round64_exact [OF assms(3,4), of 0] by simp
  ultimately show ?thesis using readFloat_digits [OF assms(1,2)] assms(3) by (simp add: ParseFloat_def)
qed

text \<open>The unit of a text of digits and a unit is the one that ends it.\<close>

lemma unit_found:
  assumes "list_all digit ds" "ds \<noteq> []" "(u, m) \<in> set capacityUnits"
  shows "List.find (\<lambda>(ending, _). HasSuffix (ds @ u) ending) capacityUnits = Some (u, m)"
proof -
  obtain d r where ds: "rev ds = d # r" using assms(2) by (metis neq_Nil_conv rev_is_Nil_conv)
  then have "digit d" using assms(1) by (metis in_set_conv_decomp list.set_intros(1) list_all_iff set_rev)
  then have d: "d \<noteq> CHR ''T''" "d \<noteq> CHR ''G''" "d \<noteq> CHR ''M''" "d \<noteq> CHR ''K''" "d \<noteq> CHR ''I''" "d \<noteq> CHR ''B''"
    by (auto simp: digit_def byte_def)
  have ends: "HasSuffix (ds @ v) e \<longleftrightarrow> take (length e) (rev v @ d # r) = rev e" for v e
    by (simp add: HasSuffix_def HasPrefix_def ds)
  show ?thesis
    using assms(3) unfolding capacityUnits_def list.set insert_iff empty_iff prod.inject
    by (elim disjE conjE FalseE) (simp_all add: ends d)
qed

lemma ToUpper_ascii: "list_all (\<lambda>c. byte c < 128) u \<Longrightarrow> ToUpper u = map upper_ascii u"
proof (induction u)
  case (Cons c u)
  then show ?case by (cases u) auto
qed simp

lemma unit_facts:
  assumes "(u, m) \<in> set capacityUnits"
  shows "0 < m" "m < 2 ^ 53" "u \<noteq> []" "33 \<le> byte (last u)"
  using assms by (auto simp: capacityUnits_def byte_def)

lemma upper_large: "33 \<le> byte (upper_ascii c) \<Longrightarrow> 33 \<le> byte c"
  by (auto simp: upper_ascii_def split: if_splits)

lemma float_int: "0 < n \<Longrightarrow> n < 2 ^ 53 \<Longrightarrow> f64_of_int n = FNum (of_int n)"
  using round64_exact [of n 0] by (simp add: f64_of_int_def)

lemma whole_small: "0 < n \<Longrightarrow> n < 2 ^ 53 \<Longrightarrow> \<not> not_whole_bytes (FNum (of_int n)) \<and> \<not> f64_le (FNum (of_int n)) (FZero False)"
  by (auto simp: not_whole_bytes_def float_max f64_le_def)

text \<open>
  Capacities are read exactly. A positive whole number, followed by a unit in upper or lower case, is read
  as that number times the unit, as long as the product has at most 53 bits, which is the precision the code
  computes with.
\<close>
theorem capacity_exact:
  assumes "0 < n" and "list_all (\<lambda>c. byte c < 128) u" and "(ToUpper u, m) \<in> set capacityUnits" and "n * m < 2 ^ 53"
  shows "ParseByteCapacity outside (Itoa n @ u) = Inr (of_int (n * m))"
proof -
  let ?ds = "nat_digits (nat n)"
  have ds: "list_all digit ?ds" "digits_val ?ds = n" "?ds \<noteq> []"
    using nat_digits_spec [of "nat n"] assms(1) by auto
  note facts = unit_facts [OF assms(3)]
  have n: "n < 2 ^ 53" using assms(1,4) facts(1) by (smt (verit) mult_le_cancel_left1)
  have last: "33 \<le> byte (last u)" "byte (last u) < 128" and u: "u \<noteq> []"
  proof -
    show u: "u \<noteq> []" using facts(3) by auto
    then have "last (ToUpper u) = upper_ascii (last u)" by (simp add: ToUpper_ascii [OF assms(2)] last_map)
    then show "33 \<le> byte (last u)" using facts(4) upper_large by metis
    show "byte (last u) < 128" using assms(2) u by (simp add: list_all_iff)
  qed
  obtain d r where dr: "?ds = d # r" using ds(3) by (cases ?ds) auto
  have "TrimSpace (?ds @ u) = ?ds @ u"
    using TrimSpace_number(1) [of d "last u" "r @ butlast u"] ds(1) last u by (simp add: dr)
  moreover have digits: "TrimSpace ?ds = ?ds"
  proof (cases "r = []")
    case True
    then show ?thesis using TrimSpace_number(2) [of d "last u"] ds(1) last dr by simp
  next
    case False
    then have "digit (last r)" using ds(1) dr by (simp add: list_all_iff)
    then show ?thesis
      using TrimSpace_number(1) [of d "last r" "butlast r"] digit_bytes [of "last r"] ds(1) False by (simp add: dr)
  qed
  moreover have "TrimSuffix (?ds @ ToUpper u) (ToUpper u) = ?ds"
    by (simp add: TrimSuffix_def HasSuffix_def HasPrefix_def)
  ultimately have split: "split_capacity (ToUpper (TrimSpace (?ds @ u))) = (?ds, m)"
    by (simp add: split_capacity_def ToUpper_digits [OF ds(1)] unit_found [OF ds(1,3) assms(3)])
  have nm: "0 < n * m" using assms(1) facts(1) by simp
  have mul: "f64_mul (FNum (of_int n)) (f64_of_int m) = FNum (of_int (n * m))"
    unfolding float_int [OF facts(1,2)] using float_int [OF nm assms(4)] by (simp add: f64_of_int_def)
  have pos: "\<not> f64_le (FNum (of_int n)) (FZero False)" using assms(1) by (auto simp: f64_le_def)
  have parse: "ParseFloat ?ds = Some (FNum (of_int n))"
    using ParseFloat_digits [OF ds(1,3)] ds(2) assms(1) n by simp
  have "ToUpper (TrimSpace (?ds @ u)) \<noteq> []"
    using \<open>TrimSpace (?ds @ u) = ?ds @ u\<close> ds(3) by (simp add: ToUpper_digits [OF ds(1)])
  then have "capacityStringBytes (?ds @ u) = Inr (FNum (of_int (n * m)))"
    unfolding capacityStringBytes_def Let_def split case_prod_conv parse option.case
    using whole_small [OF nm assms(4)] pos by (simp only: mul if_False f64_finite.simps simp_thms)
  moreover have "Itoa n = ?ds" using assms(1) by (simp add: Itoa_def)
  moreover have "0 \<le> n * m" "n * m < 2 ^ 63" using nm assms(4) by simp_all
  ultimately show ?thesis
    using whole_small [OF nm assms(4)]
    by (simp add: ParseByteCapacity_def parsePositiveCapacity_def f64_to_int64_def del: of_int_mult)
qed

theorem capacity_exact_witness: "ParseByteCapacity (\<lambda>_. 0) ''12GiB'' = Inr 12884901888"
proof -
  have "list_all (\<lambda>c. byte c < 128) ''GiB''" "(ToUpper ''GiB'', 2 ^ 30) \<in> set capacityUnits" "Itoa 12 = ''12''"
    by code_simp+
  then show ?thesis using capacity_exact [of 12 "''GiB''" "2 ^ 30" "\<lambda>_. 0"] by simp
qed

text \<open>Eight exbibytes pass every check, and the request then holds what the machine converts \<open>2 ^ 63\<close> to: on a
  machine that gives the smallest integer, a negative number.\<close>

lemma capacity_wraps:
  "parsePositiveCapacity (AFloat (FNum (2 ^ 63))) = Inr (FNum (2 ^ 63))" "f64_to_int64 outside (FNum (2 ^ 63)) = outside (FNum (2 ^ 63))"
  by (simp_all add: parsePositiveCapacity_def numberValue_def not_whole_bytes_def float_max f64_le_def f64_to_int64_def)

theorem cost_bounded_witness:
  "\<exists>r. ResolveArgumentCost (\<lambda>_. 0) (DefaultCostForClass ClassHeavy)
      (Some [(''spec'', AMap [(''memory'', AStr ''4GiB'')])])
      \<lparr>ca_CPUCores = [], ca_MemoryBytes = ''spec.memory'', ca_DiskBytes = ''spec.disk'', ca_Tasks = []\<rparr> = Inr r \<and>
    quantity_ok (\<lambda>_. 0) (rq_MemoryBytes (DefaultCostForClass ClassHeavy)) (rq_MemoryBytes r) \<and> rq_MemoryBytes r = 4294967296"
proof -
  let ?b = "\<lparr>ca_CPUCores = [], ca_MemoryBytes = ''spec.memory'', ca_DiskBytes = ''spec.disk'', ca_Tasks = []\<rparr>"
  let ?r = "ResolveArgumentCost (\<lambda>_. 0) (DefaultCostForClass ClassHeavy) (Some [(''spec'', AMap [(''memory'', AStr ''4GiB'')])]) ?b"
  have parts: "TrimSpace ''spec.memory'' = ''spec.memory''" "TrimSpace ''spec.disk'' = ''spec.disk''"
      "validateArgumentPath ''spec.memory'' = None" "validateArgumentPath ''spec.disk'' = None"
      "argumentAtPath (Some [(''spec'', AMap [(''memory'', AStr ''4GiB'')])]) ''spec.memory'' = Some (AStr ''4GiB'')"
      "argumentAtPath (Some [(''spec'', AMap [(''memory'', AStr ''4GiB'')])]) ''spec.disk'' = None"
      "list_all (\<lambda>c. byte c < 128) ''GiB''" "(ToUpper ''GiB'', 2 ^ 30) \<in> set capacityUnits" "Itoa 4 = ''4''"
    by code_simp+
  have "ParseByteCapacity (\<lambda>_. 0) ''4GiB'' = Inr 4294967296"
    using capacity_exact [of 4 "''GiB''" "2 ^ 30" "\<lambda>_. 0"] parts by simp
  then obtain x where "parsePositiveCapacity (AStr ''4GiB'') = Inr x" "f64_to_int64 (\<lambda>_. 0) x = 4294967296"
    by (auto simp: ParseByteCapacity_def split: sum.splits)
  then have "case ?r of Inl e \<Rightarrow> False | Inr r \<Rightarrow> rq_MemoryBytes r = 4294967296"
    by (simp add: ResolveArgumentCost_def bind_ok_def resolve_binding_def parts)
  then obtain r where r: "?r = Inr r" "rq_MemoryBytes r = 4294967296" by (auto split: sum.splits)
  then show ?thesis using cost_bounded [OF r(1)] by blast
qed

end
