(* ===== verification/Resources.thy ===== *)
theory Resources
  imports Resource_URI Json
begin

text \<open>
  The registry of resources and the resolution of identities: the interface and the shared surface of
  \<open>src/internal/hostruntime/shared.go\<close>, its implementations in memory (\<open>registry_memory.go\<close>) and in
  SQLite (\<open>src/internal/state/store.go\<close>), and what the host adopts
  (\<open>src/internal/hostagent/resource_resolver.go\<close>). A registry is its operations on a state.
\<close>

section \<open>Records and the interface\<close>

record Record =
  rr_URI :: string
  rr_ResourceType :: string
  rr_TenantID :: string
  rr_ResourceID :: string
  rr_Coordinates :: anymap
  rr_Status :: string
  rr_CreatedAt :: string
  rr_UpdatedAt :: string

datatype ResourceError =
    BadURI uri_error
  | ErrForeignTenant string
  | WrongType string string
  | NotConfigured
  | NotFound string
  | ResolveFailed string ResourceError
  | IdentityMismatch string
  | CannotEncode
  | CannotDecode
  | Driver string
  | AdoptError string

record 's ResourceRegistry =
  op_UpsertResource :: "Record \<Rightarrow> 's \<Rightarrow> ResourceError option \<times> 's"
  op_GetResource :: "string \<Rightarrow> 's \<Rightarrow> (ResourceError + Record option) \<times> 's"
  op_DeleteResource :: "string \<Rightarrow> 's \<Rightarrow> ResourceError option \<times> 's"
  op_ListResources :: "string \<Rightarrow> string \<Rightarrow> 's \<Rightarrow> (ResourceError + Record list) \<times> 's"

section \<open>In memory\<close>

type_synonym memory = "(string, Record) gomap"

definition defaulted_status :: "Record \<Rightarrow> Record" where
  "defaulted_status r = (if rr_Status r = [] then r\<lparr>rr_Status := ''active''\<rparr> else r)"

definition memory_Upsert :: "Record \<Rightarrow> memory \<Rightarrow> ResourceError option \<times> memory" where
  "memory_Upsert r m = (None, gomap_put (rr_URI r) (defaulted_status r) m)"

definition memory_Get :: "string \<Rightarrow> memory \<Rightarrow> (ResourceError + Record option) \<times> memory" where
  "memory_Get uri m = (Inr (gomap_get m uri), m)"

definition memory_Delete :: "string \<Rightarrow> memory \<Rightarrow> ResourceError option \<times> memory" where
  "memory_Delete uri m = (None, gomap_del uri m)"

definition selected :: "string \<Rightarrow> string \<Rightarrow> Record \<Rightarrow> bool" where
  "selected resourceType tenantID r \<longleftrightarrow> (resourceType = [] \<or> rr_ResourceType r = resourceType) \<and>
     (tenantID = [] \<or> rr_TenantID r = tenantID)"

definition memory_List :: "string \<Rightarrow> string \<Rightarrow> memory \<Rightarrow> (ResourceError + Record list) \<times> memory" where
  "memory_List resourceType tenantID m = (Inr (filter (selected resourceType tenantID) (map snd m)), m)"

definition memory_registry :: "memory ResourceRegistry" where
  "memory_registry = \<lparr>op_UpsertResource = memory_Upsert, op_GetResource = memory_Get,
     op_DeleteResource = memory_Delete, op_ListResources = memory_List\<rparr>"

section \<open>In SQLite\<close>

text \<open>The table, keyed by its primary key, and the number of statements so far, at which the driver may
  fail and the clock is read. The column of coordinates holds the value its text decodes to, or \<open>None\<close>
  where it does not decode.\<close>

record Row =
  rw_resource_type :: string
  rw_tenant_id :: string
  rw_resource_id :: string
  rw_coordinates_json :: "any option"
  rw_status :: string
  rw_created_at :: string
  rw_updated_at :: string

record Table =
  tb_rows :: "(string, Row) gomap"
  tb_statements :: nat

record Driver =
  dr_fault :: "nat \<Rightarrow> string option"
  dr_now :: "nat \<Rightarrow> string"

definition statement :: "Table \<Rightarrow> Table" where
  "statement t = t\<lparr>tb_statements := Suc (tb_statements t)\<rparr>"

definition text_or :: "string \<Rightarrow> string \<Rightarrow> string" where
  "text_or s fallback = (if s = [] then fallback else s)"

definition upsert_row :: "string \<Rightarrow> Row \<Rightarrow> (string, Row) gomap \<Rightarrow> (string, Row) gomap" where
  "upsert_row uri row rows = gomap_put uri
     (case gomap_get rows uri of None \<Rightarrow> row | Some old \<Rightarrow> row\<lparr>rw_created_at := rw_created_at old\<rparr>) rows"

definition store_Upsert :: "Driver \<Rightarrow> Record \<Rightarrow> Table \<Rightarrow> ResourceError option \<times> Table" where
  "store_Upsert dr r t = (case Parse (rr_URI r) of
     Inl e \<Rightarrow> (Some (BadURI e), t)
   | Inr u \<Rightarrow>
      (let tenant = text_or (rr_TenantID r) (uri_TenantID u);
           kind = text_or (rr_ResourceType r) (uri_ResourceType u);
           ident = text_or (rr_ResourceID r) (uri_ResourceID u);
           now = dr_now dr (tb_statements t) in
       if tenant \<noteq> uri_TenantID u \<or> kind \<noteq> uri_ResourceType u \<or> ident \<noteq> uri_ResourceID u
       then (Some (IdentityMismatch (uri_String u)), t)
       else if \<not> marshalable (map_any (rr_Coordinates r)) then (Some CannotEncode, t)
       else (case dr_fault dr (tb_statements t) of
           Some e \<Rightarrow> (Some (Driver e), statement t)
         | None \<Rightarrow> (None, (statement t)\<lparr>tb_rows := upsert_row (rr_URI r)
             \<lparr>rw_resource_type = kind, rw_tenant_id = tenant, rw_resource_id = ident,
              rw_coordinates_json = Some (canon (map_any (rr_Coordinates r))),
              rw_status = text_or (rr_Status r) ''active'',
              rw_created_at = text_or (rr_CreatedAt r) now, rw_updated_at = now\<rparr> (tb_rows t)\<rparr>))))"

text \<open>A text that is no object, or \<open>null\<close>, does not decode into a map.\<close>

definition decode_coordinates :: "any option \<Rightarrow> anymap option" where
  "decode_coordinates json = (case json of
     Some (AMap fs) \<Rightarrow> Some (Some fs) | Some ANil \<Rightarrow> Some None | _ \<Rightarrow> None)"

definition scan_row :: "string \<Rightarrow> Row \<Rightarrow> Record option" where
  "scan_row uri row = map_option (\<lambda>coordinates.
     \<lparr>rr_URI = uri, rr_ResourceType = rw_resource_type row, rr_TenantID = rw_tenant_id row,
      rr_ResourceID = rw_resource_id row, rr_Coordinates = coordinates, rr_Status = rw_status row,
      rr_CreatedAt = rw_created_at row, rr_UpdatedAt = rw_updated_at row\<rparr>) (decode_coordinates (rw_coordinates_json row))"

definition names_uri :: "Record \<Rightarrow> URI \<Rightarrow> bool" where
  "names_uri r u \<longleftrightarrow> rr_TenantID r = uri_TenantID u \<and> rr_ResourceType r = uri_ResourceType u \<and>
     rr_ResourceID r = uri_ResourceID u \<and> rr_URI r = uri_String u"

definition store_Get :: "Driver \<Rightarrow> string \<Rightarrow> Table \<Rightarrow> (ResourceError + Record option) \<times> Table" where
  "store_Get dr uri t = (case Parse uri of
     Inl e \<Rightarrow> (Inl (BadURI e), t)
   | Inr u \<Rightarrow>
      (case dr_fault dr (tb_statements t) of
         Some e \<Rightarrow> (Inl (Driver e), statement t)
       | None \<Rightarrow>
          ((case gomap_get (tb_rows t) (uri_String u) of
             None \<Rightarrow> Inr None
           | Some row \<Rightarrow>
              (case scan_row (uri_String u) row of
                 None \<Rightarrow> Inl CannotDecode
               | Some r \<Rightarrow> if names_uri r u then Inr (Some r) else Inl (IdentityMismatch (uri_String u)))), statement t)))"

definition store_Delete :: "Driver \<Rightarrow> string \<Rightarrow> Table \<Rightarrow> ResourceError option \<times> Table" where
  "store_Delete dr uri t = (case Parse uri of
     Inl e \<Rightarrow> (Some (BadURI e), t)
   | Inr u \<Rightarrow>
      (case dr_fault dr (tb_statements t) of
         Some e \<Rightarrow> (Some (Driver e), statement t)
       | None \<Rightarrow> (None, (statement t)\<lparr>tb_rows := gomap_del (uri_String u) (tb_rows t)\<rparr>)))"

fun scan_rows :: "(string \<times> Row) list \<Rightarrow> ResourceError + Record list" where
  "scan_rows [] = Inr []"
| "scan_rows ((uri, row) # rest) =
     (case scan_row uri row of
        None \<Rightarrow> Inl CannotDecode
      | Some r \<Rightarrow> (case scan_rows rest of Inl e \<Rightarrow> Inl e | Inr rs \<Rightarrow> Inr (r # rs)))"

definition row_selected :: "string \<Rightarrow> string \<Rightarrow> string \<times> Row \<Rightarrow> bool" where
  "row_selected resourceType tenantID entry \<longleftrightarrow> (case entry of (uri, row) \<Rightarrow>
     (resourceType = [] \<or> rw_resource_type row = resourceType) \<and> (tenantID = [] \<or> rw_tenant_id row = tenantID))"

definition store_List :: "Driver \<Rightarrow> string \<Rightarrow> string \<Rightarrow> Table \<Rightarrow> (ResourceError + Record list) \<times> Table" where
  "store_List dr resourceType tenantID t =
     (case (if resourceType = [] then None
            else case New resourceType ''local'' ''placeholder'' of Inl e \<Rightarrow> Some e | Inr _ \<Rightarrow> None) of
        Some e \<Rightarrow> (Inl (BadURI e), t)
      | None \<Rightarrow>
         (case dr_fault dr (tb_statements t) of
            Some e \<Rightarrow> (Inl (Driver e), statement t)
          | None \<Rightarrow> (scan_rows (sort_key fst (filter (row_selected resourceType tenantID) (tb_rows t))), statement t)))"

definition store_registry :: "Driver \<Rightarrow> Table ResourceRegistry" where
  "store_registry dr = \<lparr>op_UpsertResource = store_Upsert dr, op_GetResource = store_Get dr,
     op_DeleteResource = store_Delete dr, op_ListResources = store_List dr\<rparr>"

section \<open>The shared surface\<close>

record 's Shared =
  sh_TenantID :: string
  sh_InstanceID :: string
  sh_SharedHostOwnerInstance :: string
  sh_ResourceRegistry :: "'s ResourceRegistry option"

definition EffectiveTenantID :: "'s Shared option \<Rightarrow> string" where
  "EffectiveTenantID receiver = (case receiver of
     None \<Rightarrow> ''local''
   | Some s \<Rightarrow> if TrimSpace (sh_TenantID s) = [] then ''local'' else TrimSpace (sh_TenantID s))"

record SharedHostOwnershipError =
  oe_Code :: string
  oe_ExpectedInstance :: string
  oe_ActualInstance :: string
  oe_Operation :: string
  oe_Remediation :: string

definition RequireSharedHostOwner :: "'s Shared \<Rightarrow> string \<Rightarrow> SharedHostOwnershipError option" where
  "RequireSharedHostOwner s operation =
     (let expected = TrimSpace (sh_SharedHostOwnerInstance s) in
      if expected = [] \<or> TrimSpace (sh_InstanceID s) = expected then None
      else Some \<lparr>oe_Code = ''shared_host_ownership_required'', oe_ExpectedInstance = expected,
        oe_ActualInstance = sh_InstanceID s, oe_Operation = TrimSpace operation,
        oe_Remediation = ''Select the shared-host owner instance or use the approved operator workflow.''\<rparr>)"

record Coordinates =
  co_URI :: URI
  co_ResourceType :: string
  co_TenantID :: string
  co_ResourceID :: string
  co_Values :: anymap

definition parseOwnedURI :: "'s Shared \<Rightarrow> string \<Rightarrow> ResourceError + URI" where
  "parseOwnedURI s uri = (case Parse uri of
     Inl e \<Rightarrow> Inl (BadURI e)
   | Inr parsed \<Rightarrow>
      (let tenant = TrimSpace (sh_TenantID s) in
       if tenant \<noteq> [] \<and> uri_TenantID parsed \<noteq> tenant then Inl (ErrForeignTenant tenant) else Inr parsed))"

definition RegisterResource :: "'s Shared \<Rightarrow> string \<Rightarrow> anymap \<Rightarrow> 's \<Rightarrow> ResourceError option \<times> 's" where
  "RegisterResource s uri coordinates st = (case parseOwnedURI s uri of
     Inl e \<Rightarrow> (Some e, st)
   | Inr parsed \<Rightarrow>
      (case sh_ResourceRegistry s of
         None \<Rightarrow> (Some NotConfigured, st)
       | Some reg \<Rightarrow> op_UpsertResource reg
           \<lparr>rr_URI = uri_String parsed, rr_ResourceType = uri_ResourceType parsed, rr_TenantID = uri_TenantID parsed,
            rr_ResourceID = uri_ResourceID parsed, rr_Coordinates = coordinates, rr_Status = ''active'',
            rr_CreatedAt = [], rr_UpdatedAt = []\<rparr> st))"

definition DeregisterResource :: "'s Shared \<Rightarrow> string \<Rightarrow> 's \<Rightarrow> ResourceError option \<times> 's" where
  "DeregisterResource s uri st = (case parseOwnedURI s uri of
     Inl e \<Rightarrow> (Some e, st)
   | Inr parsed \<Rightarrow>
      (case sh_ResourceRegistry s of
         None \<Rightarrow> (Some NotConfigured, st)
       | Some reg \<Rightarrow> op_DeleteResource reg (uri_String parsed) st))"

definition ResourceURIForProviderName :: "'s Shared option \<Rightarrow> string \<Rightarrow> 's \<Rightarrow> string \<times> 's" where
  "ResourceURIForProviderName receiver providerName st =
     (case Option.bind receiver sh_ResourceRegistry of
        None \<Rightarrow> ([], st)
      | Some reg \<Rightarrow>
         (case op_ListResources reg [] (sh_TenantID (the receiver)) st of
            (Inl _, st') \<Rightarrow> ([], st')
          | (Inr records, st') \<Rightarrow>
             (case List.find (\<lambda>r. as_string (lookup (rr_Coordinates r) ''providerInstanceName'') = Some providerName) records of
                None \<Rightarrow> ([], st') | Some r \<Rightarrow> (rr_URI r, st'))))"

text \<open>An adopter asks a domain, which may register resources that it sees on the way; then it returns the
  coordinates, nil to leave the identity unresolved, or an error.\<close>

type_synonym adopter = "URI \<Rightarrow> (string \<times> anymap) list \<times> (ResourceError + anymap)"

definition register_seen :: "'s Shared \<Rightarrow> (string \<times> anymap) list \<Rightarrow> 's \<Rightarrow> 's" where
  "register_seen s seen st = fold (\<lambda>(uri, coordinates) st. snd (RegisterResource s uri coordinates st)) seen st"

definition active :: "Record option \<Rightarrow> bool" where
  "active found = (case found of None \<Rightarrow> False | Some r \<Rightarrow> rr_Status r = ''active'')"

definition resolved :: "URI \<Rightarrow> Record option \<Rightarrow> ResourceError + Coordinates" where
  "resolved parsed found = (case found of
     Some r \<Rightarrow> if rr_Status r = ''active''
       then Inr \<lparr>co_URI = parsed, co_ResourceType = uri_ResourceType parsed, co_TenantID = uri_TenantID parsed,
         co_ResourceID = uri_ResourceID parsed, co_Values = rr_Coordinates r\<rparr>
       else Inl (NotFound (uri_String parsed))
   | None \<Rightarrow> Inl (NotFound (uri_String parsed)))"

definition adopt_resource :: "'s Shared \<Rightarrow> 's ResourceRegistry \<Rightarrow> URI \<Rightarrow> adopter \<Rightarrow> Record option \<Rightarrow> 's \<Rightarrow>
    (ResourceError + Coordinates) \<times> 's" where
  "adopt_resource s reg parsed adopt found st =
     (case adopt parsed of (seen, answer) \<Rightarrow>
        let st1 = register_seen s seen st in
        case answer of
          Inl e \<Rightarrow> (Inl e, st1)
        | Inr None \<Rightarrow> (resolved parsed found, st1)
        | Inr (Some coordinates) \<Rightarrow>
           (case RegisterResource s (uri_String parsed) (Some coordinates) st1 of
              (Some e, st2) \<Rightarrow> (Inl e, st2)
            | (None, st2) \<Rightarrow>
               (case op_GetResource reg (uri_String parsed) st2 of
                  (Inl e, st3) \<Rightarrow> (Inl e, st3)
                | (Inr again, st3) \<Rightarrow> (resolved parsed again, st3))))"

definition ResolveResource :: "'s Shared \<Rightarrow> string \<Rightarrow> string \<Rightarrow> adopter option \<Rightarrow> 's \<Rightarrow> (ResourceError + Coordinates) \<times> 's" where
  "ResolveResource s uri wantType adopt st = (case parseOwnedURI s uri of
     Inl e \<Rightarrow> (Inl e, st)
   | Inr parsed \<Rightarrow>
      if wantType \<noteq> [] \<and> uri_ResourceType parsed \<noteq> wantType then (Inl (WrongType wantType (uri_ResourceType parsed)), st)
      else (case sh_ResourceRegistry s of
          None \<Rightarrow> (Inl NotConfigured, st)
        | Some reg \<Rightarrow>
           (case op_GetResource reg (uri_String parsed) st of
              (Inl e, st1) \<Rightarrow> (Inl (ResolveFailed (uri_String parsed) e), st1)
            | (Inr found, st1) \<Rightarrow>
               (case adopt of
                  Some ask \<Rightarrow> if active found then (resolved parsed found, st1)
                    else adopt_resource s reg parsed ask found st1
                | None \<Rightarrow> (resolved parsed found, st1)))))"

section \<open>What the host adopts\<close>

text \<open>What the domains answer, each with the resources that it registers on the way. \<open>fold_eq\<close> is
  \<open>strings.EqualFold\<close>.\<close>

record VMInfo =
  vi_Name :: string
  vi_Type :: string

record ClusterInfo =
  ci_Name :: string
  ci_VMName :: string
  ci_InstanceType :: string

type_synonym seen = "(string \<times> anymap) list"

record Domains =
  dm_GetVMInfo :: "string \<Rightarrow> seen \<times> (string + VMInfo)"
  dm_ListKubernetesClusters :: "seen \<times> (string + ClusterInfo list)"
  dm_InspectHostService :: "string \<Rightarrow> string \<Rightarrow> seen \<times> (string + anymap)"

definition instance_kind :: "(string \<Rightarrow> string \<Rightarrow> bool) \<Rightarrow> VMInfo \<Rightarrow> string" where
  "instance_kind fold_eq info = (if fold_eq (vi_Type info) ''vm'' then ''vm'' else ''container'')"

definition adopt_instance :: "(string \<Rightarrow> string \<Rightarrow> bool) \<Rightarrow> Domains \<Rightarrow> adopter" where
  "adopt_instance fold_eq dm parsed = (case dm_GetVMInfo dm (uri_ResourceID parsed) of
     (seen, Inl _) \<Rightarrow> (seen, Inr None)
   | (seen, Inr info) \<Rightarrow>
      if TrimSpace (vi_Name info) = [] then (seen, Inr None)
      else if uri_ResourceType parsed \<noteq> instance_kind fold_eq info
      then (seen, Inl (AdoptError ''resource type mismatch: %s resolves to %s''))
      else (seen, Inr (Some [(''providerInstanceName'', AStr (vi_Name info)), (''displayName'', AStr (vi_Name info)),
        (''instanceType'', AStr (vi_Type info))])))"

definition cluster_coordinates :: "ClusterInfo \<Rightarrow> fields" where
  "cluster_coordinates c =
     [(''providerInstanceName'', AStr (ci_Name c)), (''displayName'', AStr (ci_Name c)),
      (''instanceType'', AStr (ci_InstanceType c)), (''vmName'', AStr (text_or (TrimSpace (ci_VMName c)) (ci_Name c)))]"

definition adopt_cluster :: "(string \<Rightarrow> string \<Rightarrow> bool) \<Rightarrow> Domains \<Rightarrow> adopter" where
  "adopt_cluster fold_eq dm parsed = (case dm_ListKubernetesClusters dm of
     (seen, Inl _) \<Rightarrow> (seen, Inl (AdoptError ''adopt cluster %s: %w''))
   | (seen, Inr clusters) \<Rightarrow>
      (seen, Inr (map_option cluster_coordinates
        (List.find (\<lambda>c. fold_eq (TrimSpace (ci_Name c)) (uri_ResourceID parsed)) clusters))))"

definition adopt_service :: "Domains \<Rightarrow> adopter" where
  "adopt_service dm parsed = (case SplitN (uri_ResourceID parsed) (CHR ''/'') 2 of
     [scope, name] \<Rightarrow>
       if scope \<notin> {''user'', ''system''} \<or> TrimSpace name = []
       then ([], Inl (AdoptError ''host-service URI must use <scope>/<service-name>: %s''))
       else (case dm_InspectHostService dm name scope of
           (seen, Inl _) \<Rightarrow> (seen, Inl (AdoptError ''adopt host service %s: %w''))
         | (seen, Inr observed) \<Rightarrow>
            (seen, (case as_string (lookup observed ''status'') of
               Some status \<Rightarrow>
                 if status \<in> {''not-found'', ''failed'', []} then Inl (AdoptError ''host service not found: %s'')
                 else Inr (Some [(''serviceName'', AStr name), (''scope'', AStr scope)])
             | None \<Rightarrow> Inl (AdoptError ''host service not found: %s''))))
   | _ \<Rightarrow> ([], Inl (AdoptError ''host-service URI must use <scope>/<service-name>: %s'')))"

definition adoptResource :: "(string \<Rightarrow> string \<Rightarrow> bool) \<Rightarrow> Domains \<Rightarrow> adopter" where
  "adoptResource fold_eq dm parsed =
     (if uri_ResourceType parsed \<in> {''vm'', ''container''} then adopt_instance fold_eq dm parsed
      else if uri_ResourceType parsed = ''cluster'' then adopt_cluster fold_eq dm parsed
      else if uri_ResourceType parsed = ''host-service'' then adopt_service dm parsed
      else ([], Inr None))"

definition agent_ResolveResource :: "(string \<Rightarrow> string \<Rightarrow> bool) \<Rightarrow> Domains \<Rightarrow> 's Shared \<Rightarrow> string \<Rightarrow> string \<Rightarrow> 's \<Rightarrow>
    (ResourceError + Coordinates) \<times> 's" where
  "agent_ResolveResource fold_eq dm s uri wantType = ResolveResource s uri wantType (Some (adoptResource fold_eq dm))"

text \<open>The models of a probe: name and identity.\<close>

fun attach_models :: "'s Shared \<Rightarrow> string \<Rightarrow> (string \<times> string) list \<Rightarrow> 's \<Rightarrow> (string \<times> string) list \<times> 's" where
  "attach_models s runtime [] st = ([], st)"
| "attach_models s runtime ((name, uri) # rest) st =
     (case New ''model'' (sh_TenantID s) name of
        Inl _ \<Rightarrow> (case attach_models s runtime rest st of (ms, st') \<Rightarrow> ((name, uri) # ms, st'))
      | Inr u \<Rightarrow>
         (let st1 = (case sh_ResourceRegistry s of None \<Rightarrow> st
            | Some _ \<Rightarrow> snd (RegisterResource s (uri_String u) (Some [(''modelRef'', AStr name), (''runtime'', AStr runtime)]) st))
          in case attach_models s runtime rest st1 of (ms, st') \<Rightarrow> ((name, uri_String u) # ms, st')))"

definition AttachLocalLLMModelURIs :: "'s Shared option \<Rightarrow> string \<Rightarrow> (string \<times> string) list \<Rightarrow> 's \<Rightarrow>
    (string \<times> string) list \<times> 's" where
  "AttachLocalLLMModelURIs receiver runtime models st =
     (case receiver of None \<Rightarrow> (models, st) | Some s \<Rightarrow> attach_models s runtime models st)"

end
