(* ===== verification/Resource_Laws.thy ===== *)
theory Resource_Laws
  imports Resources Prelude
begin

text \<open>
  The contract of a resource registry as a locale, met by the map in memory and by the table in SQLite, and
  what the shared surface guarantees over any registry that meets it.
\<close>

section \<open>Identities in canonical form\<close>

lemma SplitN_three: "SplitN s d 3 = [a, b, c] \<Longrightarrow> s = a @ d # b @ d # c"
  by (auto simp: numeral_3_eq_3 split: option.splits dest!: cut_Some)

lemma Parse_text: "Parse v = Inr u \<Longrightarrow> uri_String u = TrimSpace v"
proof -
  assume p: "Parse v = Inr u"
  then obtain a b c where s: "SplitN (TrimSpace v) (CHR '':'') 3 = [a, b, c]"
      and u: "u = \<lparr>uri_ResourceType = a, uri_TenantID = b, uri_ResourceID = c\<rparr>"
    by (auto simp: Parse_def checked_uri_def split: list.splits option.splits)
  then show ?thesis using SplitN_three [OF s] by (simp add: uri_String_def)
qed

lemma Parse_canonical: "Parse v = Inr u \<Longrightarrow> Parse (uri_String u) = Inr u"
  using Parse_text [of v u] by (simp add: Parse_def)

definition canonical :: "string \<Rightarrow> bool" where
  "canonical uri \<longleftrightarrow> (\<exists>u. Parse uri = Inr u \<and> uri_String u = uri)"

lemma canonical_String: "Parse v = Inr u \<Longrightarrow> canonical (uri_String u)"
  using Parse_canonical unfolding canonical_def by blast

text \<open>A record that the shared surface writes.\<close>

definition registrable :: "Record \<Rightarrow> bool" where
  "registrable r \<longleftrightarrow> (\<exists>u. Parse (rr_URI r) = Inr u \<and> names_uri r u \<and> rr_Status r = ''active'')"

section \<open>The contract\<close>

locale resource_registry =
  fixes reg :: "'s ResourceRegistry"
    and content :: "'s \<Rightarrow> string \<Rightarrow> Record option"
    and sound :: "'s \<Rightarrow> bool"
    and stored :: "anymap \<Rightarrow> anymap"
  assumes upsert_ok: "sound s \<Longrightarrow> registrable r \<Longrightarrow> op_UpsertResource reg r s = (None, s') \<Longrightarrow>
      sound s' \<and> (\<exists>r'. content s' = (content s)(rr_URI r \<mapsto> r') \<and> rr_Status r' = ''active'' \<and>
        rr_Coordinates r' = stored (rr_Coordinates r))"
    and upsert_error: "sound s \<Longrightarrow> op_UpsertResource reg r s = (Some e, s') \<Longrightarrow> sound s' \<and> content s' = content s"
    and get_ok: "sound s \<Longrightarrow> canonical uri \<Longrightarrow> op_GetResource reg uri s = (Inr found, s') \<Longrightarrow>
      sound s' \<and> content s' = content s \<and> found = content s uri"
    and get_error: "sound s \<Longrightarrow> op_GetResource reg uri s = (Inl e, s') \<Longrightarrow> sound s' \<and> content s' = content s"
    and delete_ok: "sound s \<Longrightarrow> canonical uri \<Longrightarrow> op_DeleteResource reg uri s = (None, s') \<Longrightarrow>
      sound s' \<and> content s' = (content s)(uri := None)"
    and delete_error: "sound s \<Longrightarrow> op_DeleteResource reg uri s = (Some e, s') \<Longrightarrow> sound s' \<and> content s' = content s"
    and list_ok: "sound s \<Longrightarrow> op_ListResources reg kind tenant s = (records, s') \<Longrightarrow> sound s' \<and> content s' = content s \<and>
      (\<forall>rs. records = Inr rs \<longrightarrow> (\<forall>r \<in> set rs. content s (rr_URI r) = Some r \<and> (tenant = [] \<or> rr_TenantID r = tenant)))"

text \<open>Operations of a tenant leave the records of other tenants alone.\<close>

definition owned :: "'s Shared \<Rightarrow> string \<Rightarrow> bool" where
  "owned sh uri \<longleftrightarrow> (\<exists>u. parseOwnedURI sh uri = Inr u)"

definition agree_outside :: "'s Shared \<Rightarrow> (string \<Rightarrow> Record option) \<Rightarrow> (string \<Rightarrow> Record option) \<Rightarrow> bool" where
  "agree_outside sh f g \<longleftrightarrow> (\<forall>uri. \<not> owned sh uri \<longrightarrow> f uri = g uri)"

lemma agree_refl [simp]: "agree_outside sh f f"
  by (simp add: agree_outside_def)

lemma agree_trans: "agree_outside sh f g \<Longrightarrow> agree_outside sh g h \<Longrightarrow> agree_outside sh f h"
  by (simp add: agree_outside_def)

lemma agree_upd: "owned sh uri \<Longrightarrow> agree_outside sh f (f(uri := x))"
  by (auto simp: agree_outside_def)

lemma parseOwned_Parse: "parseOwnedURI sh uri = Inr u \<Longrightarrow> Parse uri = Inr u"
  by (auto simp: parseOwnedURI_def Let_def split: sum.splits if_splits)

lemma parseOwned_canonical: "parseOwnedURI sh uri = Inr u \<Longrightarrow> parseOwnedURI sh (uri_String u) = Inr u"
  using Parse_canonical [of uri u] by (auto simp: parseOwnedURI_def Let_def split: sum.splits if_splits)

lemma parseOwned_owned: "parseOwnedURI sh uri = Inr u \<Longrightarrow> owned sh (uri_String u)"
  using parseOwned_canonical owned_def by blast

lemma resolved_Inr: "resolved u found = Inr c \<longleftrightarrow> (\<exists>r. found = Some r \<and> rr_Status r = ''active'' \<and>
    c = \<lparr>co_URI = u, co_ResourceType = uri_ResourceType u, co_TenantID = uri_TenantID u,
      co_ResourceID = uri_ResourceID u, co_Values = rr_Coordinates r\<rparr>)"
  by (auto simp: resolved_def split: option.splits)

text \<open>What a resolution returns: an active record of the tenant, of the wanted kind.\<close>

definition resolution_ok :: "'s Shared \<Rightarrow> string \<Rightarrow> string \<Rightarrow> (string \<Rightarrow> Record option) \<Rightarrow> Coordinates \<Rightarrow> bool" where
  "resolution_ok sh uri wantType records c \<longleftrightarrow> (\<exists>u r. parseOwnedURI sh uri = Inr u \<and>
     (wantType = [] \<or> uri_ResourceType u = wantType) \<and> records (uri_String u) = Some r \<and> rr_Status r = ''active'' \<and>
     c = \<lparr>co_URI = u, co_ResourceType = uri_ResourceType u, co_TenantID = uri_TenantID u,
       co_ResourceID = uri_ResourceID u, co_Values = rr_Coordinates r\<rparr>)"

text \<open>Sequences of operations, with the resolutions that they returned.\<close>

datatype resource_op = Register string anymap | Deregister string | Resolve string string "adopter option" | NameLookup string

definition run_op :: "'s Shared \<Rightarrow> resource_op \<Rightarrow> 's \<Rightarrow> Coordinates list \<times> 's" where
  "run_op sh op s = (case op of
     Register uri coords \<Rightarrow> ([], snd (RegisterResource sh uri coords s))
   | Deregister uri \<Rightarrow> ([], snd (DeregisterResource sh uri s))
   | Resolve uri wantType adopt \<Rightarrow>
      (case ResolveResource sh uri wantType adopt s of (Inr c, s') \<Rightarrow> ([c], s') | (Inl _, s') \<Rightarrow> ([], s'))
   | NameLookup name \<Rightarrow> ([], snd (ResourceURIForProviderName (Some sh) name s)))"

fun run_ops :: "'s Shared \<Rightarrow> resource_op list \<Rightarrow> 's \<Rightarrow> Coordinates list \<times> 's" where
  "run_ops sh [] s = ([], s)"
| "run_ops sh (op # ops) s =
     (case run_op sh op s of (cs, s1) \<Rightarrow> case run_ops sh ops s1 of (ds, s2) \<Rightarrow> (cs @ ds, s2))"

context resource_registry
begin

lemma register_ok:
  assumes "sound s" "sh_ResourceRegistry sh = Some reg" "RegisterResource sh uri coords s = (None, s')"
  shows "sound s' \<and> (\<exists>u r. parseOwnedURI sh uri = Inr u \<and> content s' = (content s)(uri_String u \<mapsto> r) \<and>
    rr_Status r = ''active'' \<and> rr_Coordinates r = stored coords)"
proof -
  obtain u where u: "parseOwnedURI sh uri = Inr u" using assms(3) by (auto simp: RegisterResource_def split: sum.splits)
  let ?r = "\<lparr>rr_URI = uri_String u, rr_ResourceType = uri_ResourceType u, rr_TenantID = uri_TenantID u,
    rr_ResourceID = uri_ResourceID u, rr_Coordinates = coords, rr_Status = ''active'', rr_CreatedAt = [], rr_UpdatedAt = []\<rparr>"
  have "registrable ?r"
    using Parse_canonical [OF parseOwned_Parse [OF u]] by (simp add: registrable_def names_uri_def)
  moreover have "op_UpsertResource reg ?r s = (None, s')" using assms(2,3) u by (simp add: RegisterResource_def)
  ultimately show ?thesis using upsert_ok [OF assms(1)] u by fastforce
qed

lemma register_error: "sound s \<Longrightarrow> sh_ResourceRegistry sh = Some reg \<Longrightarrow> RegisterResource sh uri coords s = (Some e, s') \<Longrightarrow>
    sound s' \<and> content s' = content s"
  by (auto simp: RegisterResource_def split: sum.splits dest: upsert_error)

text \<open>An operation keeps the registry sound and other tenants' records.\<close>

definition kept :: "'s Shared \<Rightarrow> 's \<Rightarrow> 's \<Rightarrow> bool" where
  "kept sh s s' \<longleftrightarrow> sound s' \<and> agree_outside sh (content s) (content s')"

lemma kept_trans: "kept sh s s1 \<Longrightarrow> kept sh s1 s2 \<Longrightarrow> kept sh s s2"
  using agree_trans unfolding kept_def by blast

lemma kept_same: "sound s' \<and> content s' = content s \<Longrightarrow> kept sh s s'"
  by (simp add: kept_def)

lemma register_kept:
  assumes "sound s" "sh_ResourceRegistry sh = Some reg"
  shows "kept sh s (snd (RegisterResource sh uri coords s))"
proof (cases "RegisterResource sh uri coords s")
  case (Pair x s')
  show ?thesis
  proof (cases x)
    case None
    then show ?thesis
      using register_ok [OF assms] Pair parseOwned_owned agree_upd unfolding kept_def by fastforce
  next
    case (Some e)
    then show ?thesis using register_error [OF assms] Pair kept_same by simp
  qed
qed

lemma register_seen_kept:
  "sound s \<Longrightarrow> sh_ResourceRegistry sh = Some reg \<Longrightarrow> kept sh s (register_seen sh seen s)"
proof (induction seen arbitrary: s)
  case (Cons entry seen)
  obtain uri coords where e: "entry = (uri, coords)" by fastforce
  have "kept sh s (snd (RegisterResource sh uri coords s))" using Cons.prems register_kept by blast
  moreover from this have "kept sh (snd (RegisterResource sh uri coords s))
      (register_seen sh seen (snd (RegisterResource sh uri coords s)))"
    using Cons.IH Cons.prems(2) unfolding kept_def by blast
  ultimately show ?case using kept_trans by (simp add: register_seen_def e)
qed (simp add: register_seen_def kept_def)

lemma deregister_kept:
  assumes "sound s" "sh_ResourceRegistry sh = Some reg"
  shows "kept sh s (snd (DeregisterResource sh uri s))"
proof (cases "parseOwnedURI sh uri")
  case (Inl e)
  then show ?thesis using assms by (simp add: DeregisterResource_def kept_def)
next
  case (Inr u)
  obtain x s' where d: "op_DeleteResource reg (uri_String u) s = (x, s')" by fastforce
  have "kept sh s s'"
  proof (cases x)
    case None
    then have "sound s' \<and> content s' = (content s)(uri_String u := None)"
      using delete_ok [OF assms(1) canonical_String [OF parseOwned_Parse [OF Inr]]] d by simp
    then show ?thesis using agree_upd [OF parseOwned_owned [OF Inr]] by (simp add: kept_def)
  next
    case (Some e)
    then show ?thesis using delete_error [OF assms(1)] d kept_same by blast
  qed
  then show ?thesis using assms(2) Inr d by (simp add: DeregisterResource_def)
qed

lemma get_kept: "sound s \<Longrightarrow> canonical uri \<Longrightarrow> op_GetResource reg uri s = (found, s') \<Longrightarrow> sound s' \<and> content s' = content s"
  using get_ok get_error by (cases found) blast+

lemma adopt_spec:
  assumes "sound s" "sh_ResourceRegistry sh = Some reg" "parseOwnedURI sh uri = Inr u"
    and "adopt_resource sh reg u adopt found s = (res, s')" "\<not> active found"
  shows "kept sh s s' \<and> (\<forall>c. res = Inr c \<longrightarrow> resolved u (content s' (uri_String u)) = Inr c)"
proof -
  obtain seen answer where a: "adopt u = (seen, answer)" by fastforce
  let ?s1 = "register_seen sh seen s"
  have 1: "kept sh s ?s1" by (rule register_seen_kept [OF assms(1,2)])
  then have s1: "sound ?s1" by (simp add: kept_def)
  note can = canonical_String [OF parseOwned_Parse [OF assms(3)]]
  have no: "resolved u found \<noteq> Inr c" for c
    using assms(5) by (auto simp: resolved_Inr active_def)
  consider e where "answer = Inl e" | "answer = Inr None" | coords where "answer = Inr (Some coords)"
    by (cases answer) (auto split: option.splits)
  then show ?thesis
  proof cases
    case 3
    obtain x s2 where r: "RegisterResource sh (uri_String u) (Some coords) ?s1 = (x, s2)" by fastforce
    then have 2: "kept sh ?s1 s2" using register_kept [OF s1 assms(2)] by (metis snd_conv)
    then have s2: "sound s2" by (simp add: kept_def)
    obtain again s3 where g: "op_GetResource reg (uri_String u) s2 = (again, s3)" by fastforce
    have 3: "kept sh s2 s3" by (rule kept_same [OF get_kept [OF s2 can g]])
    have "res = (case x of Some e \<Rightarrow> Inl e | None \<Rightarrow> (case again of Inl e \<Rightarrow> Inl e | Inr y \<Rightarrow> resolved u y))"
        "s' = (if x = None then s3 else s2)"
      using assms(4) by (auto simp: adopt_resource_def a \<open>answer = _\<close> r g split: option.splits sum.splits)
    moreover have "y = content s3 (uri_String u)" if "again = Inr y" for y
      using get_ok [OF s2 can] g that by metis
    ultimately show ?thesis
      using kept_trans [OF 1 2] kept_trans [OF kept_trans [OF 1 2] 3] by (auto split: option.splits sum.splits)
  qed (use assms(4) a 1 no in \<open>auto simp: adopt_resource_def\<close>)
qed

lemma resolve_spec:
  assumes "sound s" "sh_ResourceRegistry sh = Some reg" "ResolveResource sh uri wantType adopt s = (res, s')"
  shows "kept sh s s' \<and> (\<forall>c. res = Inr c \<longrightarrow> resolution_ok sh uri wantType (content s') c)"
proof (cases "parseOwnedURI sh uri")
  case (Inl e)
  then show ?thesis using assms by (auto simp: ResolveResource_def kept_def)
next
  case (Inr u)
  note can = canonical_String [OF parseOwned_Parse [OF Inr]]
  show ?thesis
  proof (cases "wantType \<noteq> [] \<and> uri_ResourceType u \<noteq> wantType")
    case True
    then show ?thesis using assms Inr by (auto simp: ResolveResource_def kept_def)
  next
    case False
    obtain found s1 where g: "op_GetResource reg (uri_String u) s = (found, s1)" by fastforce
    have s1: "sound s1" "content s1 = content s" using get_kept [OF assms(1) can g] by blast+
    then have 1: "kept sh s s1" by (simp add: kept_same)
    have ok: "resolution_ok sh uri wantType f c" if "resolved u (f (uri_String u)) = Inr c" for f c
      using that Inr False unfolding resolution_ok_def resolved_Inr by blast
    show ?thesis
    proof (cases found)
      case (Inl e)
      then show ?thesis using assms(2,3) Inr False g 1 \<open>parseOwnedURI sh uri = Inr u\<close> by (auto simp: ResolveResource_def)
    next
      case (Inr x)
      then have x: "x = content s1 (uri_String u)" using get_ok [OF assms(1) can] g s1(2) by metis
      show ?thesis
      proof (cases "adopt = None \<or> active x")
        case True
        then have "(res, s') = (resolved u x, s1)"
          using assms(2,3) False g Inr \<open>parseOwnedURI sh uri = Inr u\<close> by (auto simp: ResolveResource_def split: option.splits)
        then show ?thesis using 1 ok x by simp
      next
        case ask: False
        then obtain f where f: "adopt = Some f" by auto
        have "adopt_resource sh reg u f x s1 = (res, s')"
          using assms(2,3) False g Inr f ask \<open>parseOwnedURI sh uri = Inr u\<close> by (auto simp: ResolveResource_def)
        then show ?thesis
          using adopt_spec [OF s1(1) assms(2) \<open>parseOwnedURI sh uri = Inr u\<close>] ask 1 ok kept_trans by blast
      qed
    qed
  qed
qed

text \<open>What was registered is resolved, without asking anyone, unless the registry fails.\<close>

lemma resolve_registered:
  assumes "sound s" "sh_ResourceRegistry sh = Some reg" "RegisterResource sh uri coords s = (None, s1)"
    and "Parse v = Parse uri" "ResolveResource sh v wantType adopt s1 = (res, s2)"
  shows "(\<exists>e. res = Inl (ResolveFailed (TrimSpace uri) e)) \<or>
    (\<exists>u. Parse uri = Inr u \<and> (if wantType = [] \<or> uri_ResourceType u = wantType
       then res = Inr \<lparr>co_URI = u, co_ResourceType = uri_ResourceType u, co_TenantID = uri_TenantID u,
         co_ResourceID = uri_ResourceID u, co_Values = stored coords\<rparr>
       else res = Inl (WrongType wantType (uri_ResourceType u))))"
proof -
  obtain u r where u: "parseOwnedURI sh uri = Inr u" "content s1 (uri_String u) = Some r"
      "rr_Status r = ''active''" "rr_Coordinates r = stored coords" and s1: "sound s1"
    using register_ok [OF assms(1-3)] by auto
  note parsed = parseOwned_Parse [OF u(1)]
  have v: "parseOwnedURI sh v = Inr u" using u(1) assms(4) by (simp add: parseOwnedURI_def)
  show ?thesis
  proof (cases "wantType = [] \<or> uri_ResourceType u = wantType")
    case True
    obtain found s' where g: "op_GetResource reg (uri_String u) s1 = (found, s')" by fastforce
    show ?thesis
    proof (cases found)
      case (Inl e)
      then have "res = Inl (ResolveFailed (uri_String u) e)"
        using assms(2,5) v True g by (auto simp: ResolveResource_def)
      then show ?thesis using Parse_text [OF parsed] by auto
    next
      case (Inr x)
      then have "x = Some r" using get_ok [OF s1 canonical_String [OF parsed]] g u(2) by metis
      then have "res = resolved u (Some r)"
        using assms(2,5) v True g Inr u(3) by (auto simp: ResolveResource_def active_def split: option.splits)
      then show ?thesis using True parsed u(3,4) by (auto simp: resolved_def)
    qed
  next
    case False
    then show ?thesis using assms(2,5) v parsed by (auto simp: ResolveResource_def)
  qed
qed
lemma lookup_kept: "sound s \<Longrightarrow> sh_ResourceRegistry sh = Some reg \<Longrightarrow> kept sh s (snd (ResourceURIForProviderName (Some sh) name s))"
proof -
  assume s: "sound s" "sh_ResourceRegistry sh = Some reg"
  obtain rs s' where l: "op_ListResources reg [] (sh_TenantID sh) s = (rs, s')" by fastforce
  then have "kept sh s s'" using list_ok [OF s(1)] kept_same by blast
  moreover have "snd (ResourceURIForProviderName (Some sh) name s) = s'"
    using s(2) l by (auto simp: ResourceURIForProviderName_def split: sum.splits option.splits)
  ultimately show ?thesis by simp
qed

lemma run_op_kept:
  assumes "sound s" "sh_ResourceRegistry sh = Some reg" "run_op sh op s = (cs, s')"
  shows "kept sh s s' \<and> (\<forall>c \<in> set cs. parseOwnedURI sh (uri_String (co_URI c)) = Inr (co_URI c) \<and> co_TenantID c = uri_TenantID (co_URI c))"
proof (cases op)
  case (Resolve uri wantType adopt)
  obtain res s1 where r: "ResolveResource sh uri wantType adopt s = (res, s1)" by fastforce
  note spec = resolve_spec [OF assms(1,2) r]
  have "parseOwnedURI sh (uri_String (co_URI c)) = Inr (co_URI c) \<and> co_TenantID c = uri_TenantID (co_URI c)" if "res = Inr c" for c
    using spec that parseOwned_canonical by (auto simp: resolution_ok_def)
  then show ?thesis using assms(3) Resolve r spec by (auto simp: run_op_def split: sum.splits)
qed (use assms register_kept deregister_kept lookup_kept in \<open>auto simp: run_op_def\<close>)

lemma run_ops_kept:
  assumes "sound s" "sh_ResourceRegistry sh = Some reg" "run_ops sh ops s = (cs, s')"
  shows "kept sh s s' \<and> (\<forall>c \<in> set cs. parseOwnedURI sh (uri_String (co_URI c)) = Inr (co_URI c) \<and> co_TenantID c = uri_TenantID (co_URI c))"
  using assms(1,3)
proof (induction ops arbitrary: s cs)
  case (Cons op ops)
  obtain cs1 s1 cs2 where r: "run_op sh op s = (cs1, s1)" "run_ops sh ops s1 = (cs2, s')" "cs = cs1 @ cs2"
    using Cons.prems(2) by (auto split: prod.splits)
  note 1 = run_op_kept [OF Cons.prems(1) assms(2) r(1)]
  then have "sound s1" by (simp add: kept_def)
  then show ?case using Cons.IH [OF _ r(2)] 1 kept_trans r(3) by auto
qed (simp add: kept_def)

end

section \<open>The map in memory\<close>

definition memory_sound :: "memory \<Rightarrow> bool" where
  "memory_sound m \<longleftrightarrow> wf_gomap m \<and> (\<forall>k r. gomap_get m k = Some r \<longrightarrow> rr_URI r = k)"

lemma defaulted_registrable: "registrable r \<Longrightarrow> defaulted_status r = r \<and> rr_Status r = ''active''"
  by (auto simp: registrable_def defaulted_status_def)

lemma defaulted_URI: "rr_URI (defaulted_status r) = rr_URI r"
  by (simp add: defaulted_status_def)

lemma memory_list:
  assumes "memory_sound m" "r \<in> set (filter (selected kind tenant) (map snd m))"
  shows "gomap_get m (rr_URI r) = Some r \<and> (tenant = [] \<or> rr_TenantID r = tenant)"
proof -
  obtain k where "(k, r) \<in> set m" using assms(2) by auto
  then have "gomap_get m k = Some r" using assms(1) by (simp add: memory_sound_def gomap_get_in)
  then show ?thesis using assms by (auto simp: memory_sound_def selected_def)
qed

interpretation memory: resource_registry memory_registry gomap_get memory_sound id
proof (unfold_locales, goal_cases)
  case (1 s r s')
  then have "s' = gomap_put (rr_URI r) r s" "rr_Status r = ''active''"
    using defaulted_registrable [of r] by (auto simp: memory_registry_def memory_Upsert_def)
  then show ?case using 1(1) by (auto simp: memory_sound_def fun_eq_iff)
next
  case (7 s kind tenant records s')
  then have l: "records = Inr (filter (selected kind tenant) (map snd s))" "s' = s"
    by (auto simp: memory_registry_def memory_List_def)
  show ?case using memory_list [OF 7(1)] 7(1) unfolding l by blast
qed (auto simp: memory_registry_def memory_Upsert_def memory_Get_def memory_Delete_def memory_sound_def fun_eq_iff
    split: if_splits)

section \<open>The table in SQLite\<close>

definition table_content :: "Table \<Rightarrow> string \<Rightarrow> Record option" where
  "table_content t uri = Option.bind (gomap_get (tb_rows t) uri) (scan_row uri)"

text \<open>Every row decodes and its columns are the parts of its key.\<close>

definition row_sound :: "string \<Rightarrow> Row \<Rightarrow> bool" where
  "row_sound uri row \<longleftrightarrow> (\<exists>u r. Parse uri = Inr u \<and> scan_row uri row = Some r \<and> names_uri r u)"

definition table_sound :: "Table \<Rightarrow> bool" where
  "table_sound t \<longleftrightarrow> wf_gomap (tb_rows t) \<and> (\<forall>uri row. gomap_get (tb_rows t) uri = Some row \<longrightarrow> row_sound uri row)"

definition stored_coordinates :: "anymap \<Rightarrow> anymap" where
  "stored_coordinates m = (case m of None \<Rightarrow> None | Some fs \<Rightarrow> Some (sort_key fst (canon_fields fs)))"

lemma statement_rows [simp]: "tb_rows (statement t) = tb_rows t"
  by (simp add: statement_def)

lemma statement_same [simp]: "table_content (statement t) = table_content t" "table_sound (statement t) = table_sound t"
  by (simp_all add: table_content_def table_sound_def fun_eq_iff)

lemma decode_stored: "decode_coordinates (Some (canon (map_any m))) = Some (stored_coordinates m)"
  by (cases m) (simp_all add: decode_coordinates_def stored_coordinates_def)

lemma upsert_written:
  assumes "table_sound t" "registrable r" "store_Upsert dr r t = (None, t')"
  shows "table_sound t' \<and> (\<exists>r'. table_content t' = (table_content t)(rr_URI r \<mapsto> r') \<and> rr_Status r' = ''active'' \<and>
    rr_Coordinates r' = stored_coordinates (rr_Coordinates r))"
proof -
  obtain u where u: "Parse (rr_URI r) = Inr u" "names_uri r u" "rr_Status r = ''active''"
    using assms(2) by (auto simp: registrable_def)
  then have or: "text_or (rr_TenantID r) (uri_TenantID u) = uri_TenantID u" "text_or (rr_ResourceType r) (uri_ResourceType u) = uri_ResourceType u"
      "text_or (rr_ResourceID r) (uri_ResourceID u) = uri_ResourceID u" "text_or (rr_Status r) ''active'' = ''active''"
    by (auto simp: text_or_def names_uri_def)
  obtain row where row: "tb_rows t' = gomap_put (rr_URI r) row (tb_rows t)" "rw_resource_type row = uri_ResourceType u"
      "rw_tenant_id row = uri_TenantID u" "rw_resource_id row = uri_ResourceID u" "rw_status row = ''active''"
      "rw_coordinates_json row = Some (canon (map_any (rr_Coordinates r)))"
    using assms(3) u(1) or
    by (auto simp: store_Upsert_def Let_def upsert_row_def split: if_splits option.splits)
  obtain r' where r': "scan_row (rr_URI r) row = Some r'" "names_uri r' u" "rr_Status r' = ''active''"
      "rr_Coordinates r' = stored_coordinates (rr_Coordinates r)"
    using u row by (auto simp: scan_row_def decode_stored names_uri_def)
  have "table_sound t'"
    using assms(1) row(1) r'(1,2) u(1) by (auto simp: table_sound_def row_sound_def)
  moreover have "table_content t' = (table_content t)(rr_URI r \<mapsto> r')"
    using row(1) r'(1) by (auto simp: table_content_def fun_eq_iff)
  ultimately show ?thesis using r'(3,4) by blast
qed

lemma upsert_refused: "store_Upsert dr r t = (Some e, t') \<Longrightarrow> t' = t \<or> t' = statement t"
  by (auto simp: store_Upsert_def Let_def split: sum.splits if_splits option.splits)

lemma get_found:
  assumes "table_sound t" "canonical uri" "store_Get dr uri t = (Inr found, t')"
  shows "t' = statement t \<and> found = table_content t uri"
proof -
  obtain u where u: "Parse uri = Inr u" "uri_String u = uri" using assms(2) by (auto simp: canonical_def)
  then show ?thesis
    using assms(3) by (auto simp: store_Get_def table_content_def split: option.splits if_splits)
qed

lemma get_moves: "store_Get dr uri t = (found, t') \<Longrightarrow> t' = t \<or> t' = statement t"
  by (auto simp: store_Get_def split: sum.splits option.splits)

lemma delete_done:
  assumes "table_sound t" "canonical uri" "store_Delete dr uri t = (None, t')"
  shows "table_sound t' \<and> table_content t' = (table_content t)(uri := None)"
  using assms by (auto simp: store_Delete_def canonical_def table_sound_def table_content_def fun_eq_iff
      split: sum.splits option.splits if_splits)

lemma delete_refused: "store_Delete dr uri t = (Some e, t') \<Longrightarrow> t' = t \<or> t' = statement t"
  by (auto simp: store_Delete_def split: sum.splits option.splits)

lemma scan_rows_in: "scan_rows rows = Inr rs \<Longrightarrow> r \<in> set rs \<Longrightarrow> \<exists>uri row. (uri, row) \<in> set rows \<and> scan_row uri row = Some r"
proof (induction rows arbitrary: rs)
  case (Cons entry rows)
  then show ?case by (cases entry) (fastforce split: option.splits sum.splits)
qed simp

lemma scan_row_fields: "scan_row uri row = Some r \<Longrightarrow> rr_URI r = uri \<and> rr_TenantID r = rw_tenant_id row"
  by (auto simp: scan_row_def)

lemma list_moves: "store_List dr kind tenant t = (records, t') \<Longrightarrow> t' = t \<or> t' = statement t"
  by (auto simp: store_List_def split: option.splits)

lemma list_found:
  assumes "table_sound t" "store_List dr kind tenant t = (Inr rs, t')" "r \<in> set rs"
  shows "table_content t (rr_URI r) = Some r \<and> (tenant = [] \<or> rr_TenantID r = tenant)"
proof -
  have "scan_rows (sort_key fst (filter (row_selected kind tenant) (tb_rows t))) = Inr rs"
    using assms(2) by (auto simp: store_List_def split: option.splits)
  then obtain uri row where row: "(uri, row) \<in> set (tb_rows t)" "row_selected kind tenant (uri, row)" "scan_row uri row = Some r"
    using scan_rows_in [OF _ assms(3)] by fastforce
  then have "gomap_get (tb_rows t) uri = Some row" using assms(1) by (simp add: table_sound_def gomap_get_in)
  then show ?thesis using row scan_row_fields [OF row(3)] by (auto simp: table_content_def row_selected_def)
qed

interpretation sqlite: resource_registry "store_registry dr" table_content table_sound stored_coordinates
proof (unfold_locales, goal_cases)
  case (1 s r s')
  then show ?case using upsert_written by (simp add: store_registry_def)
next
  case (2 s r e s')
  then show ?case using upsert_refused by (fastforce simp: store_registry_def)
next
  case (3 s uri found s')
  then show ?case using get_found by (fastforce simp: store_registry_def)
next
  case (4 s uri e s')
  then show ?case using get_moves by (fastforce simp: store_registry_def)
next
  case (5 s uri s')
  then show ?case using delete_done by (simp add: store_registry_def)
next
  case (6 s uri e s')
  then show ?case using delete_refused by (fastforce simp: store_registry_def)
next
  case (7 s kind tenant records s')
  then have l: "store_List dr kind tenant s = (records, s')" by (simp add: store_registry_def)
  then have "table_sound s'" "table_content s' = table_content s" using list_moves 7(1) by fastforce+
  then show ?case using list_found [OF 7(1)] l by blast
qed

section \<open>Tenants are kept apart\<close>

text \<open>
  C35: a tenant's host never touches another tenant's resources. Whatever is registered, removed, looked up and
  resolved through the shared surface of a tenant, with whatever the domains report and whenever the database
  fails, the records of other tenants stay as they are, and every resolution is of an identity of the tenant.
\<close>
theorem tenant_isolated:
  assumes "table_sound t" and "sh_ResourceRegistry sh = Some (store_registry dr)" and "TrimSpace (sh_TenantID sh) = tenant"
    and "tenant \<noteq> []" and "run_ops sh ops t = (cs, t')"
  shows "table_sound t' \<and>
    (\<forall>uri u. Parse uri = Inr u \<longrightarrow> uri_TenantID u \<noteq> tenant \<longrightarrow> table_content t' uri = table_content t uri) \<and>
    (\<forall>c \<in> set cs. co_TenantID c = tenant)"
proof -
  have foreign: "\<not> owned sh uri" if "Parse uri = Inr u" "uri_TenantID u \<noteq> tenant" for uri u
    using that assms(3,4) by (auto simp: owned_def parseOwnedURI_def)
  have own: "uri_TenantID u = tenant" if "parseOwnedURI sh uri = Inr u" for uri u
    using that assms(3,4) by (auto simp: parseOwnedURI_def Let_def split: sum.splits if_splits)
  show ?thesis
    using sqlite.run_ops_kept [OF assms(1,2,5)] foreign own
    unfolding sqlite.kept_def agree_outside_def by metis
qed

section \<open>What is registered is resolved\<close>

text \<open>
  C36: registration and resolution are inverse. After a successful registration, any text of the same identity
  resolves to exactly that identity with the registered coordinates as JSON keeps them, without asking any
  domain; only a wrong wanted kind or a failing database prevents it.
\<close>
theorem register_resolves:
  assumes "table_sound t" and "sh_ResourceRegistry sh = Some (store_registry dr)"
    and "RegisterResource sh uri coords t = (None, t1)" and "Parse v = Parse uri"
    and "ResolveResource sh v wantType adopt t1 = (res, t2)"
  shows "(\<exists>e. res = Inl (ResolveFailed (TrimSpace uri) e)) \<or>
    (\<exists>u. Parse uri = Inr u \<and> (if wantType = [] \<or> uri_ResourceType u = wantType
       then res = Inr \<lparr>co_URI = u, co_ResourceType = uri_ResourceType u, co_TenantID = uri_TenantID u,
         co_ResourceID = uri_ResourceID u, co_Values = stored_coordinates coords\<rparr>
       else res = Inl (WrongType wantType (uri_ResourceType u))))"
  by (rule sqlite.resolve_registered [OF assms])

text \<open>A host with a container that it adopts and one that another tenant left behind.\<close>

definition demo_driver :: Driver where
  "demo_driver = \<lparr>dr_fault = (\<lambda>n. if n = 1 then Some ''locked'' else None), dr_now = (\<lambda>_. ''2026-01-01'')\<rparr>"

definition demo_shared :: "Table Shared" where
  "demo_shared = \<lparr>sh_TenantID = '' acme '', sh_InstanceID = ''one'', sh_SharedHostOwnerInstance = [],
     sh_ResourceRegistry = Some (store_registry demo_driver)\<rparr>"

definition demo_row :: Row where
  "demo_row = \<lparr>rw_resource_type = ''vm'', rw_tenant_id = ''other'', rw_resource_id = ''a'', rw_coordinates_json = Some (AMap []),
     rw_status = ''active'', rw_created_at = [], rw_updated_at = []\<rparr>"

definition demo_table :: Table where
  "demo_table = \<lparr>tb_rows = [(''vm:other:a'', demo_row)], tb_statements = 0\<rparr>"

definition demo_domains :: Domains where
  "demo_domains = \<lparr>dm_GetVMInfo = (\<lambda>name. ([(''vm:other:a'', None)], Inr \<lparr>vi_Name = name, vi_Type = ''container''\<rparr>)),
     dm_ListKubernetesClusters = ([], Inr []), dm_InspectHostService = (\<lambda>_ _. ([], Inr None))\<rparr>"

definition demo_ops :: "resource_op list" where
  "demo_ops = [Register ''model:acme:qwen'' (Some []), Deregister ''vm:other:a'',
     Resolve '' container:acme:db'' ''container'' (Some (adoptResource (=) demo_domains)),
     Resolve ''container:acme:db'' [] (Some (adoptResource (=) demo_domains)),
     Resolve ''vm:other:a'' [] None, NameLookup ''db'']"

lemma demo_table_sound: "table_sound demo_table"
proof -
  have "Parse ''vm:other:a'' = Inr \<lparr>uri_ResourceType = ''vm'', uri_TenantID = ''other'', uri_ResourceID = ''a''\<rparr>"
    by code_simp
  then have "row_sound ''vm:other:a'' demo_row"
    by (simp add: row_sound_def demo_row_def scan_row_def decode_coordinates_def names_uri_def uri_String_def)
  then show ?thesis by (simp add: table_sound_def demo_table_def wf_gomap_def)
qed

lemma demo_resolves: "map co_ResourceID (fst (run_ops demo_shared demo_ops demo_table)) = [''db'']"
  by code_simp

theorem tenant_isolated_witness:
  "table_content (snd (run_ops demo_shared demo_ops demo_table)) ''vm:other:a'' = table_content demo_table ''vm:other:a'' \<and>
   co_TenantID ` set (fst (run_ops demo_shared demo_ops demo_table)) \<subseteq> {''acme''}"
proof -
  have "Parse ''vm:other:a'' = Inr \<lparr>uri_ResourceType = ''vm'', uri_TenantID = ''other'', uri_ResourceID = ''a''\<rparr>"
      "TrimSpace (sh_TenantID demo_shared) = ''acme''"
    by code_simp+
  then show ?thesis
    using tenant_isolated [OF demo_table_sound, of demo_shared demo_driver "''acme''" demo_ops]
    by (cases "run_ops demo_shared demo_ops demo_table") (auto simp: demo_shared_def)
qed

definition calm_shared :: "Table Shared" where
  "calm_shared = demo_shared\<lparr>sh_ResourceRegistry := Some (store_registry (demo_driver\<lparr>dr_fault := \<lambda>_. None\<rparr>))\<rparr>"

theorem register_resolves_witness:
  "\<exists>t1 c t2. RegisterResource calm_shared ''vm:acme:b'' (Some [(''z'', AStr ''1''), (''a'', ANilMap)]) demo_table = (None, t1) \<and>
    ResolveResource calm_shared ''vm:acme:b '' ''vm'' None t1 = (Inr c, t2) \<and>
    co_Values c = Some [(''a'', ANil), (''z'', AStr ''1'')]"
proof -
  let ?coords = "Some [(''z'', AStr ''1''), (''a'', ANilMap)]"
  let ?reg = "RegisterResource calm_shared ''vm:acme:b'' ?coords demo_table"
  have parts: "fst ?reg = None" "Parse ''vm:acme:b '' = Parse ''vm:acme:b''"
      "Parse ''vm:acme:b'' = Inr \<lparr>uri_ResourceType = ''vm'', uri_TenantID = ''acme'', uri_ResourceID = ''b''\<rparr>"
      "\<not> isl (fst (ResolveResource calm_shared ''vm:acme:b '' ''vm'' None (snd ?reg)))"
      "stored_coordinates ?coords = Some [(''a'', ANil), (''z'', AStr ''1'')]"
    by code_simp+
  obtain t1 where t1: "?reg = (None, t1)" using parts(1) by (metis prod.collapse)
  obtain res t2 where r: "ResolveResource calm_shared ''vm:acme:b '' ''vm'' None t1 = (res, t2)" by fastforce
  have "\<not> isl res" using parts(4) t1 r by simp
  then have "\<exists>c. res = Inr c \<and> co_Values c = Some [(''a'', ANil), (''z'', AStr ''1'')]"
    using register_resolves [OF demo_table_sound _ t1 parts(2) r, of "demo_driver\<lparr>dr_fault := \<lambda>_. None\<rparr>"] parts(3,5)
    by (auto simp: calm_shared_def)
  then show ?thesis using t1 r by blast
qed

end
