(* ===== verification/Dispatch.thy ===== *)
theory Dispatch
  imports Produced Redaction Resources Cost_Arguments Lease Plan_Schema
begin

text \<open>
  The execution boundary of the host (\<open>src/internal/hostmcp/server.go\<close>, \<open>DispatchTool\<close> and what it
  calls): a call is bound to resources, admitted, invoked, checked and recorded. The capability interface and
  its adapters are \<open>src/internal/capability\<close>, the results of errors \<open>src/internal/tools/dispatch.go\<close>. What a
  call acts on outside the server (the registry, the reservation service, the state of the host, the table of
  invocations) is one world of type \<open>'w\<close>, and the interfaces are operations on it.
\<close>

section \<open>Bindings, results, errors\<close>

record ExecutionBinding =
  eb_SchemaVersion :: string
  eb_TenantID :: string
  eb_Admission :: string
  eb_ReservationID :: string
  eb_ResourcePolicyRevision :: string
  eb_Resources :: "BoundResource list"
  eb_CatalogRevision :: string
  eb_GenerationID :: string
  eb_Authorization :: string

definition empty_binding :: ExecutionBinding where
  "empty_binding = \<lparr>eb_SchemaVersion = ''opute-capability-execution-binding.v1'', eb_TenantID = [], eb_Admission = ''tenant-resource-registry'',
     eb_ReservationID = [], eb_ResourcePolicyRevision = [], eb_Resources = [], eb_CatalogRevision = [],
     eb_GenerationID = [], eb_Authorization = ''admitted''\<rparr>"

definition blank_value :: "any \<Rightarrow> bool" where
  "blank_value v \<longleftrightarrow> v = ANil \<or> (case as_string v of Some s \<Rightarrow> TrimSpace s = [] | None \<Rightarrow> False)"

fun first_coordinate :: "string \<Rightarrow> BoundResource list \<Rightarrow> any option" where
  "first_coordinate name [] = None"
| "first_coordinate name (x # rest) =
     (case gomap_get (entries (br_Coordinates x)) name of
        None \<Rightarrow> first_coordinate name rest
      | Some v \<Rightarrow> if blank_value v then first_coordinate name rest else Some v)"

definition Coordinate :: "ExecutionBinding \<Rightarrow> string \<Rightarrow> any option" where
  "Coordinate b name = (if name = [] then None else first_coordinate name (eb_Resources b))"

definition StringCoordinate :: "ExecutionBinding \<Rightarrow> string \<Rightarrow> string" where
  "StringCoordinate b name = (case Option.bind (Coordinate b name) as_string of None \<Rightarrow> [] | Some s \<Rightarrow> TrimSpace s)"

definition ProviderInstanceName :: "ExecutionBinding \<Rightarrow> string" where
  "ProviderInstanceName b = StringCoordinate b ''providerInstanceName''"

record CallToolResult =
  ct_Content :: "string list"
  ct_Structured :: any
  ct_IsError :: bool

text \<open>An error: one of the reservation service, one of a capability with its owner and code, one that wraps
  another, the closed report of a compaction, or another with its format.\<close>

datatype HostError =
    ServiceError GoError
  | CapabilityError string string HostError
  | WrapError string HostError
  | CompactClosed any
  | PlainError string "any list"
  | PlanErr PlanError
  | RegistryErr ResourceError

fun error_root :: "HostError \<Rightarrow> HostError" where
  "error_root (CapabilityError owner code e) = error_root e"
| "error_root (WrapError text_format e) = error_root e"
| "error_root e = e"

definition admission_fields :: "GoError \<Rightarrow> fields option" where
  "admission_fields e = (case e of
     ErrAdmission a \<Rightarrow> Some [(''code'', AStr (ae_Code a)), (''class'', AStr (ae_Class a)), (''pressure'', AStr (ae_Pressure a)),
       (''reason'', AStr (ae_Reason a)), (''retryAfterMs'', AFloat (f64_of_int (ae_RetryAfterMs a))), (''owner'', AStr ''admission'')]
   | ErrRequest r \<Rightarrow> Some [(''code'', AStr (re_Code r)), (''field'', AStr (re_Field r)), (''reason'', AStr (re_Reason r)),
       (''owner'', AStr ''admission'')]
   | ErrReconcile r \<Rightarrow> Some [(''code'', AStr (rc_Code r)), (''reason'', AStr (rc_Reason r)), (''owner'', AStr ''admission'')]
   | _ \<Rightarrow> None)"

definition service_fields :: "HostError \<Rightarrow> fields option" where
  "service_fields e = (case error_root e of ServiceError g \<Rightarrow> admission_fields g | _ \<Rightarrow> None)"

text \<open>\<open>text_of\<close> gives the text of an error.\<close>

definition error_structure :: "(HostError \<Rightarrow> string) \<Rightarrow> HostError \<Rightarrow> any" where
  "error_structure text_of e = (case service_fields e of
     Some fs \<Rightarrow> AMap fs
   | None \<Rightarrow>
      (case e of
         CapabilityError owner code _ \<Rightarrow>
           AMap [(''code'', AStr code), (''owner'', AStr owner), (''message'', AStr (text_of e))]
       | _ \<Rightarrow> (case error_root e of CompactClosed report \<Rightarrow> report | _ \<Rightarrow> ANil)))"

text \<open>The text is that of the error, or of the compaction that it wraps.\<close>

definition error_content :: "(HostError \<Rightarrow> string) \<Rightarrow> HostError \<Rightarrow> string" where
  "error_content text_of e = ''Error: '' @ (case e of
     CapabilityError _ _ _ \<Rightarrow> text_of e
   | _ \<Rightarrow> (case error_root e of CompactClosed report \<Rightarrow> text_of (CompactClosed report) | _ \<Rightarrow> text_of e))"

definition ErrorResult :: "(HostError \<Rightarrow> string) \<Rightarrow> HostError \<Rightarrow> CallToolResult" where
  "ErrorResult text_of e =
     \<lparr>ct_Content = [error_content text_of e], ct_Structured = error_structure text_of e, ct_IsError = True\<rparr>"

section \<open>Capabilities\<close>

text \<open>Of an observation, the fields that the host reads; the others are in \<open>ob_Resources\<close>.\<close>

record Observation =
  ob_SchemaVersion :: string
  ob_OperationID :: string
  ob_CapabilityVersion :: int
  ob_Status :: string
  ob_Structured :: raw_value
  ob_Facts :: "raw_value list"
  ob_Resources :: any
  ob_Evidence :: "raw_value list"
  ob_Retryability :: string
  ob_CatalogRevision :: string
  ob_GenerationID :: string

definition zero_observation :: Observation where
  "zero_observation = \<lparr>ob_SchemaVersion = [], ob_OperationID = [], ob_CapabilityVersion = 0, ob_Status = [],
     ob_Structured = RawAbsent, ob_Facts = [], ob_Resources = ANil, ob_Evidence = [], ob_Retryability = [],
     ob_CatalogRevision = [], ob_GenerationID = []\<rparr>"

text \<open>What a request carries: the reservation it runs under and the identity of its operation and task.\<close>

record Context =
  cx_Reservation :: "Reservation option"
  cx_OperationID :: string
  cx_TaskID :: string
  cx_Lease :: "lease option"

record 'w HostCapability =
  hc_Definition :: CapabilityDescriptor
  hc_Invoke :: "Context \<Rightarrow> anymap \<Rightarrow> ExecutionBinding \<Rightarrow> 'w \<Rightarrow> (HostError + CallToolResult option) \<times> 'w"
  hc_ValidateResult :: "CallToolResult option \<Rightarrow> HostError + Observation"

definition PassThroughObservation :: "CapabilityDescriptor \<Rightarrow> CallToolResult option \<Rightarrow> HostError + Observation" where
  "PassThroughObservation d result =
     (let base = zero_observation\<lparr>ob_SchemaVersion := ''opute-capability-observation.v1'', ob_OperationID := cd_OperationID d,
        ob_CapabilityVersion := cd_Version d, ob_Status := ''success''\<rparr>
      in case result of
           None \<Rightarrow> Inr (base\<lparr>ob_Status := ''error'', ob_Retryability := ''unknown''\<rparr>)
         | Some r \<Rightarrow>
            (let o1 = (if ct_IsError r then base\<lparr>ob_Status := ''error'', ob_Retryability := ''capability''\<rparr> else base)
             in if ct_Structured r = ANil then Inr o1
                else if marshalable (ct_Structured r) then Inr (o1\<lparr>ob_Structured := Raw (canon (ct_Structured r))\<rparr>)
                else Inl (PlainError ''json: unsupported value'' [])))"

definition schemaRequires :: "anymap \<Rightarrow> string \<Rightarrow> bool" where
  "schemaRequires schema field = (case lookup schema ''required'' of
     AStrs items \<Rightarrow> field \<in> set items
   | ASlice items \<Rightarrow> AStr field \<in> set items
   | _ \<Rightarrow> False)"

definition argumentsForSchemaValidation :: "anymap \<Rightarrow> anymap \<Rightarrow> fields" where
  "argumentsForSchemaValidation schema args =
     (let cloned = entries args; text = (\<lambda>key. case as_string (lookup (Some cloned) key) of Some s \<Rightarrow> s | None \<Rightarrow> []) in
      if \<not> schemaRequires schema ''name'' \<or> schemaRequires schema ''vmName'' then cloned
      else if TrimSpace (text ''name'') \<noteq> [] then cloned
      else if TrimSpace (text ''vmName'') \<noteq> [] then gomap_put ''name'' (AStr (text ''vmName'')) cloned
      else cloned)"

text \<open>The structured part of a result against the declared output schema; \<open>who\<close> is the start of the texts.\<close>

definition check_structured :: "string \<Rightarrow> regexp \<Rightarrow> CapabilityDescriptor \<Rightarrow> CallToolResult \<Rightarrow> HostError option" where
  "check_structured who matches d r =
     (if ct_IsError r then None
      else if \<not> marshalable (ct_Structured r) then Some (PlainError (who @ ''structured result is not JSON-serializable: %w'') [])
      else (case ValidateJSON matches (cd_OutputSchema d) (canon (ct_Structured r)) of
          None \<Rightarrow> None | Some e \<Rightarrow> Some (WrapError (who @ ''structured result does not match output schema: %w'') (PlanErr e))))"

definition validated_result :: "string \<Rightarrow> regexp \<Rightarrow> CapabilityDescriptor \<Rightarrow> CallToolResult option \<Rightarrow>
    HostError + Observation" where
  "validated_result who matches d result = (case result of
     None \<Rightarrow> Inl (PlainError ''capability returned a nil result'' [])
   | Some r \<Rightarrow> (case check_structured who matches d r of Some e \<Rightarrow> Inl e | None \<Rightarrow> PassThroughObservation d (Some r)))"

type_synonym 'w invoker = "Context \<Rightarrow> anymap \<Rightarrow> ExecutionBinding \<Rightarrow> 'w \<Rightarrow> (HostError + CallToolResult option) \<times> 'w"

definition NewLegacyAdapter :: "regexp \<Rightarrow> CapabilityDescriptor \<Rightarrow> 'w invoker \<Rightarrow> 'w HostCapability" where
  "NewLegacyAdapter matches d invoke =
     \<lparr>hc_Definition = d,
      hc_Invoke = (\<lambda>ctx args binding w.
        case ValidateJSON matches (cd_InputSchema d) (AMap (argumentsForSchemaValidation (cd_InputSchema d) args)) of
          Some e \<Rightarrow> (Inl (CapabilityError ''capability'' ''invalid_arguments''
            (WrapError ''invalid capability arguments: %w'' (PlanErr e))), w)
        | None \<Rightarrow> invoke ctx args binding w),
      hc_ValidateResult = validated_result [] matches d\<rparr>"

definition NewProviderAdapter :: "regexp \<Rightarrow> CapabilityDescriptor \<Rightarrow> 'w invoker \<Rightarrow> 'w HostCapability" where
  "NewProviderAdapter matches d invoke =
     \<lparr>hc_Definition = d, hc_Invoke = invoke, hc_ValidateResult = validated_result ''provider '' matches d\<rparr>"

definition NewAdapter :: "CapabilityDescriptor \<Rightarrow> 'w invoker \<Rightarrow> (CallToolResult option \<Rightarrow> HostError + Observation) option \<Rightarrow>
    'w HostCapability" where
  "NewAdapter d invoke validate =
     \<lparr>hc_Definition = d, hc_Invoke = invoke,
      hc_ValidateResult = (\<lambda>result. if result = None then Inl (PlainError ''capability returned a nil result'' [])
        else (case validate of None \<Rightarrow> PassThroughObservation d result | Some f \<Rightarrow> f result))\<rparr>"

section \<open>The server\<close>

text \<open>The admission service as the server sees it: admitting under the reservation of the request, releasing
  (the error is dropped), and the revision of the policy in force.\<close>

record 'w HostResourceService =
  hs_Admit :: "Reservation option \<Rightarrow> AdmissionRequest \<Rightarrow> 'w \<Rightarrow> (GoError + Reservation option) \<times> 'w"
  hs_Release :: "Reservation \<Rightarrow> 'w \<Rightarrow> 'w"
  hs_PolicyRevision :: "'w \<Rightarrow> string \<times> 'w"

text \<open>A row of the table of invocations, less its fresh id and its time.\<close>

record CapabilityInvocationRecord =
  ir_OperationID :: string
  ir_CapabilityVersion :: int
  ir_CatalogRevision :: string
  ir_GenerationID :: string
  ir_Authorization :: string
  ir_Arguments :: any
  ir_Binding :: ExecutionBinding
  ir_Result :: any
  ir_Observation :: Observation
  ir_TerminalStatus :: string

text \<open>The fields of the server that a call reads. \<open>sv_Adopt\<close> is how the agent adopts an unknown identity,
  \<open>sv_Registered\<close> the class of a built-in registration, \<open>sv_Record\<close> the insert into the table of invocations
  where the server has a state store, \<open>sv_Lifecycle\<close> the handlers of the lifecycle tools, which may claim the
  lease that their context carries, and \<open>sv_Text\<close> the text of an error.\<close>

record 'w Server =
  sv_Catalog :: CapabilityCatalogSnapshot
  sv_Capabilities :: "(string, 'w HostCapability) gomap"
  sv_Agent :: "'w Shared"
  sv_AgentID :: string
  sv_Adopt :: "'w \<Rightarrow> adopter"
  sv_Admission :: "'w HostResourceService option"
  sv_Registered :: "string \<Rightarrow> string option"
  sv_Record :: "(CapabilityInvocationRecord \<Rightarrow> 'w \<Rightarrow> 'w) option"
  sv_Lifecycle :: "string \<Rightarrow> Context \<Rightarrow> anymap \<Rightarrow> 'w \<Rightarrow> (HostError + CallToolResult option) \<times> lease option \<times> 'w"
  sv_Growth :: "nat \<Rightarrow> nat"
  sv_Convert :: "float64 \<Rightarrow> i64"
  sv_Text :: "HostError \<Rightarrow> string"

definition capabilityDescriptor :: "'w Server \<Rightarrow> string \<Rightarrow> CapabilityDescriptor option" where
  "capabilityDescriptor sv name = List.find (\<lambda>d. cd_Name d = name) (sn_Tools (sv_Catalog sv))"

definition isProviderCapability :: "'w Server \<Rightarrow> string \<Rightarrow> bool" where
  "isProviderCapability sv name \<longleftrightarrow> (case gomap_get (sv_Capabilities sv) name of
     None \<Rightarrow> False | Some c \<Rightarrow> HasPrefix (TrimSpace (cd_Implementation (hc_Definition c))) ''provider:'')"

definition server_resolve :: "'w Server \<Rightarrow> string \<Rightarrow> string \<Rightarrow> 'w \<Rightarrow> (ResourceError + Coordinates) \<times> 'w" where
  "server_resolve sv uri kind w = ResolveResource (sv_Agent sv) uri kind (Some (sv_Adopt sv w)) w"

section \<open>Admission\<close>

text \<open>The text is trimmed for the comparison only.\<close>

definition admissionClass :: "string \<Rightarrow> string option" where
  "admissionClass v = (if TrimSpace v \<in> {ClassControl, ClassNormal, ClassHeavy} then Some v else None)"

definition stringArgument :: "anymap \<Rightarrow> string \<Rightarrow> string" where
  "stringArgument args key = (case as_string (lookup args key) of None \<Rightarrow> [] | Some s \<Rightarrow> TrimSpace s)"

definition firstBoundURI :: "ExecutionBinding \<Rightarrow> string" where
  "firstBoundURI b = (case List.find (\<lambda>x. TrimSpace (br_URI x) \<noteq> []) (eb_Resources b) of None \<Rightarrow> [] | Some x \<Rightarrow> br_URI x)"

definition bindings_of :: "ResourceCostArgumentBindings \<Rightarrow> CostArgumentBindings" where
  "bindings_of b = \<lparr>ca_CPUCores = ab_CPUCores b, ca_MemoryBytes = ab_MemoryBytes b, ca_DiskBytes = ab_DiskBytes b, ca_Tasks = ab_Tasks b\<rparr>"

text \<open>The declared cost of a descriptor, with quantities from the arguments.\<close>

definition declared_cost :: "(float64 \<Rightarrow> i64) \<Rightarrow> string \<Rightarrow> string \<Rightarrow> anymap \<Rightarrow> ResourceCost \<Rightarrow> HostError + AdmissionRequest" where
  "declared_cost outside name class args cost =
     (case (if rc_Class cost = [] then Some class else admissionClass (rc_Class cost)) of
        None \<Rightarrow> Inl (PlainError ''resource_declaration_invalid: capability %q declares unknown resource class %q''
          [AStr name, AStr (rc_Class cost)])
      | Some c \<Rightarrow>
         (let request = zero_request\<lparr>rq_Class := c, rq_CPUCores := rc_CPUCores cost, rq_MemoryBytes := of_int (rc_MemoryBytes cost),
            rq_DiskBytes := of_int (rc_DiskBytes cost), rq_Tasks := of_int (rc_Tasks cost)\<rparr>
          in case rc_ArgumentBindings cost of
               None \<Rightarrow> Inr request
             | Some b \<Rightarrow> (case ResolveArgumentCost outside request args (bindings_of b) of
                 Inl e \<Rightarrow> Inl (ServiceError e) | Inr r \<Rightarrow> Inr r)))"

definition admission_cost :: "'w Server \<Rightarrow> string \<Rightarrow> anymap \<Rightarrow> CapabilityDescriptor option \<Rightarrow> bool \<Rightarrow> HostError + AdmissionRequest" where
  "admission_cost sv name args descriptor provider =
     (let declared = sv_Registered sv name;
          class = (case declared of None \<Rightarrow> ClassControl | Some c \<Rightarrow> c);
          required = (\<lambda>text_format. Inl (PlainError text_format [AStr name])) in
      case descriptor of
        None \<Rightarrow> (if declared = None
          then required ''resource_declaration_required: operation %q is not registered with a typed resource cost''
          else Inr (DefaultCostForClass class))
      | Some d \<Rightarrow>
         (case cd_ResourceCost d of
            Some cost \<Rightarrow> declared_cost (sv_Convert sv) name class args cost
          | None \<Rightarrow>
             if provider \<and> cd_Effect d \<noteq> ''read''
             then required ''resource_declaration_required: provider workload capability %q must declare typed resourceCost metadata''
             else if provider then Inr (DefaultCostForClass ClassControl)
             else if cd_Effect d \<noteq> ''read'' \<and> declared = None
             then required ''resource_declaration_required: capability %q must declare typed resourceCost metadata''
             else Inr (DefaultCostForClass class)))"

definition admission_request :: "'w Server \<Rightarrow> Context \<Rightarrow> string \<Rightarrow> anymap \<Rightarrow> ExecutionBinding \<Rightarrow> AdmissionRequest \<Rightarrow> AdmissionRequest" where
  "admission_request sv ctx name args b cost =
     (let op = stringArgument args ''operationId''; task = stringArgument args ''taskId'';
          (op, task) = (if op = [] \<and> task = [] then (cx_OperationID ctx, cx_TaskID ctx) else (op, task)) in
      cost\<lparr>rq_Operation := name, rq_AgentID := sv_AgentID sv, rq_OperationID := op, rq_TaskID := task,
        rq_ResourceURI := firstBoundURI b, rq_GenerationID := eb_GenerationID b,
        rq_ParentReservationID := (case ReservationFromContext (cx_Reservation ctx) of None \<Rightarrow> rq_ParentReservationID cost | Some p \<Rightarrow> rv_ID p)\<rparr>)"

definition admitInvocationWithDescriptor :: "'w Server \<Rightarrow> 'w HostResourceService \<Rightarrow> Context \<Rightarrow> string \<Rightarrow> anymap \<Rightarrow>
    ExecutionBinding \<Rightarrow> CapabilityDescriptor option \<Rightarrow> bool \<Rightarrow> 'w \<Rightarrow> (HostError + Reservation option) \<times> 'w" where
  "admitInvocationWithDescriptor sv service ctx name args b descriptor provider w =
     (case admission_cost sv name args descriptor provider of
        Inl e \<Rightarrow> (Inl e, w)
      | Inr cost \<Rightarrow>
         (case hs_Admit service (cx_Reservation ctx) (admission_request sv ctx name args b cost) w of
            (Inl e, w') \<Rightarrow> (Inl (ServiceError e), w') | (Inr r, w') \<Rightarrow> (Inr r, w')))"

definition admitInvocation :: "'w Server \<Rightarrow> 'w HostResourceService \<Rightarrow> Context \<Rightarrow> string \<Rightarrow> anymap \<Rightarrow> ExecutionBinding \<Rightarrow> 'w \<Rightarrow>
    (HostError + Reservation option) \<times> 'w" where
  "admitInvocation sv service ctx name args b w =
     (let d = capabilityDescriptor sv name in
      admitInvocationWithDescriptor sv service ctx name args b d (d \<noteq> None \<and> isProviderCapability sv name) w)"

section \<open>Binding the arguments\<close>

definition argumentValue :: "anymap \<Rightarrow> string \<Rightarrow> any option" where
  "argumentValue args path = (if TrimSpace path = [] then None else argumentAtPath args path)"

definition bindings_for :: "CapabilityDescriptor option \<Rightarrow> string \<Rightarrow> ResourceBinding list" where
  "bindings_for d argument = (case d of None \<Rightarrow> [] | Some d \<Rightarrow>
     filter (\<lambda>b. TrimSpace (rb_Argument b) = argument) (cd_Requires d))"

definition bound_arguments :: "CapabilityDescriptor option \<Rightarrow> string list" where
  "bound_arguments d = (case d of None \<Rightarrow> [] | Some d \<Rightarrow>
     sort (remdups (filter (\<lambda>a. a \<noteq> []) (map (\<lambda>b. TrimSpace (rb_Argument b)) (cd_Requires d)))))"

text \<open>The first kind that the identity resolves to; otherwise the last error, which is nil without kinds.\<close>

fun resolve_first :: "'w Server \<Rightarrow> string \<Rightarrow> ResourceBinding list \<Rightarrow> ResourceError option \<Rightarrow> 'w \<Rightarrow>
    (ResourceError option + Coordinates) \<times> 'w" where
  "resolve_first sv uri [] lastErr w = (Inl lastErr, w)"
| "resolve_first sv uri (b # rest) lastErr w =
     (case server_resolve sv uri (rb_ResourceType b) w of
        (Inr c, w') \<Rightarrow> (Inr c, w') | (Inl e, w') \<Rightarrow> resolve_first sv uri rest (Some e) w')"

definition bound_resource :: "string \<Rightarrow> Coordinates \<Rightarrow> BoundResource" where
  "bound_resource argument c = \<lparr>br_Argument = argument, br_URI = uri_String (co_URI c), br_ResourceType = co_ResourceType c,
     br_TenantID = co_TenantID c, br_ResourceID = co_ResourceID c, br_Coordinates = co_Values c\<rparr>"

definition binding_error :: "HostError \<Rightarrow> HostError" where
  "binding_error e = CapabilityError ''admission'' ''resource_binding'' e"

definition missing_argument :: "string \<Rightarrow> string \<Rightarrow> HostError" where
  "missing_argument name argument = (if argument = ''uri'' then PlainError ''%s requires canonical resource uri'' [AStr name]
     else PlainError ''%s requires canonical resource argument %q'' [AStr name, AStr argument])"

definition last_error :: "ResourceError option \<Rightarrow> HostError" where
  "last_error e = (case e of None \<Rightarrow> PlainError ''resolve %s argument %q: %w'' []
     | Some e \<Rightarrow> WrapError ''resolve %s argument %q: %w'' (RegistryErr e))"

fun bind_arguments :: "'w Server \<Rightarrow> string \<Rightarrow> CapabilityDescriptor option \<Rightarrow> anymap \<Rightarrow> string list \<Rightarrow> 'w \<Rightarrow>
    (HostError + BoundResource list) \<times> 'w" where
  "bind_arguments sv name d args [] w = (Inr [], w)"
| "bind_arguments sv name d args (argument # rest) w =
     (let kinds = bindings_for d argument in
      case Option.bind (argumentValue args argument) as_string of
        Some uri \<Rightarrow>
          if TrimSpace uri = [] then
            (if list_ex rb_Required kinds
             then (Inl (binding_error (missing_argument name argument)), w)
             else bind_arguments sv name d args rest w)
          else (case resolve_first sv uri kinds None w of
              (Inl e, w') \<Rightarrow> (Inl (binding_error (last_error e)), w')
            | (Inr c, w') \<Rightarrow>
               (case bind_arguments sv name d args rest w' of
                  (Inl e, w'') \<Rightarrow> (Inl e, w'') | (Inr bs, w'') \<Rightarrow> (Inr (bound_resource argument c # bs), w'')))
      | None \<Rightarrow>
          if list_ex rb_Required kinds
          then (Inl (binding_error (missing_argument name argument)), w)
          else bind_arguments sv name d args rest w)"

definition resolveExecutionBinding :: "'w Server \<Rightarrow> string \<Rightarrow> anymap \<Rightarrow> 'w \<Rightarrow> (HostError + ExecutionBinding) \<times> 'w" where
  "resolveExecutionBinding sv name args w =
     (let d = capabilityDescriptor sv name in
      case bind_arguments sv name d args (bound_arguments d) w of
        (Inl e, w') \<Rightarrow> (Inl e, w')
      | (Inr bs, w') \<Rightarrow> (Inr (empty_binding\<lparr>eb_CatalogRevision := sn_Revision (sv_Catalog sv),
          eb_GenerationID := (case d of None \<Rightarrow> [] | Some d \<Rightarrow> cd_GenerationID d),
          eb_TenantID := sh_TenantID (sv_Agent sv), eb_Resources := bs\<rparr>), w'))"

section \<open>Invoking and checking\<close>

text \<open>A panic ends the request; what was deferred still runs.\<close>

datatype outcome = Returned "CallToolResult option" | Failed HostError | Panicked

text \<open>\<open>args["uri"]\<close> is accepted for a produced identity that no argument binds, after it resolved.\<close>

fun complete_bindings :: "'w Server \<Rightarrow> anymap \<Rightarrow> ResourceBinding list \<Rightarrow> ExecutionBinding \<Rightarrow> 'w \<Rightarrow> ExecutionBinding \<times> 'w" where
  "complete_bindings sv args [] b w = (b, w)"
| "complete_bindings sv args (produced # rest) b w =
     (if TrimSpace (rb_SourcePath produced) \<noteq> ''uri'' then complete_bindings sv args rest b w
      else if bound_for produced (eb_Resources b) \<noteq> None then (b, w)
      else (case as_string (lookup args ''uri'') of
          None \<Rightarrow> complete_bindings sv args rest b w
        | Some candidate \<Rightarrow>
            if TrimSpace candidate = [] then complete_bindings sv args rest b w
            else (case server_resolve sv candidate (rb_ResourceType produced) w of
                (Inl _, w') \<Rightarrow> complete_bindings sv args rest b w'
              | (Inr c, w') \<Rightarrow> complete_bindings sv args rest
                  (b\<lparr>eb_Resources := eb_Resources b @ [bound_resource ''uri'' c]\<rparr>) w')))"

definition completeProducedResourceBinding :: "'w Server \<Rightarrow> CapabilityDescriptor \<Rightarrow> anymap \<Rightarrow> ExecutionBinding \<Rightarrow> 'w \<Rightarrow>
    ExecutionBinding \<times> 'w" where
  "completeProducedResourceBinding sv d args b w = complete_bindings sv args (cd_Produces d) b w"

definition normalizeCapabilityObservation :: "'w Server \<Rightarrow> CapabilityDescriptor \<Rightarrow> Observation \<Rightarrow> string \<Rightarrow> Observation" where
  "normalizeCapabilityObservation sv d o1 revision = o1
     \<lparr>ob_SchemaVersion := text_or (ob_SchemaVersion o1) ''opute-capability-observation.v1'',
      ob_OperationID := text_or (ob_OperationID o1) (cd_OperationID d),
      ob_CapabilityVersion := (if ob_CapabilityVersion o1 = 0 then cd_Version d else ob_CapabilityVersion o1),
      ob_Status := text_or (ob_Status o1) ''unknown'',
      ob_CatalogRevision := (if TrimSpace revision = [] then sn_Revision (sv_Catalog sv) else revision),
      ob_GenerationID := text_or (ob_GenerationID o1) (cd_GenerationID d)\<rparr>"

section \<open>The record of an invocation\<close>

definition redacted_observation :: "Observation \<Rightarrow> anymap \<Rightarrow> Observation" where
  "redacted_observation o1 schema =
     (case redactCapabilityObservation (ob_Structured o1, ob_Facts o1, ob_Evidence o1) schema of
        (structured, facts, evidence) \<Rightarrow> o1\<lparr>ob_Structured := structured, ob_Facts := facts, ob_Evidence := evidence\<rparr>)"

definition error_envelope :: "HostError \<Rightarrow> any" where
  "error_envelope e = (case e of
     CapabilityError owner code _ \<Rightarrow>
       AMap [(''owner'', AStr owner), (''code'', AStr code), (''message'', AStr ''capability invocation failed'')]
   | _ \<Rightarrow> AMap [(''message'', AStr ''capability invocation failed'')])"

definition result_envelope :: "CapabilityDescriptor \<Rightarrow> CallToolResult option \<Rightarrow> HostError option \<Rightarrow> any" where
  "result_envelope d result failure = AMap
     ((case result of None \<Rightarrow> [(''isError'', ABool False)]
       | Some r \<Rightarrow> [(''isError'', ABool (ct_IsError r)),
           (''structured'', redactEvidenceBySchema (ct_Structured r) (cd_OutputSchema d)), (''content'', ASlice [])]) @
      (case failure of None \<Rightarrow> [] | Some e \<Rightarrow> [(''error'', error_envelope e)]))"

text \<open>Nothing is recorded where something of it has no encoding.\<close>

definition binding_encodes :: "ExecutionBinding \<Rightarrow> bool" where
  "binding_encodes b \<longleftrightarrow> list_all (\<lambda>x. marshalable (map_any (br_Coordinates x))) (eb_Resources b)"

definition invocation_record :: "'w Server \<Rightarrow> CapabilityDescriptor \<Rightarrow> anymap \<Rightarrow> ExecutionBinding \<Rightarrow> CallToolResult option \<Rightarrow>
    Observation \<Rightarrow> HostError option \<Rightarrow> CapabilityInvocationRecord option" where
  "invocation_record sv d args b result observation failure =
     (let result = (if result = None then map_option (ErrorResult (sv_Text sv)) failure else result);
          envelope = result_envelope d result failure in
      case redactEvidenceJSON (map_any args) (cd_InputSchema d) of
        None \<Rightarrow> None
      | Some arguments \<Rightarrow>
         if \<not> binding_encodes b \<or> \<not> marshalable envelope then None
         else Some \<lparr>ir_OperationID = cd_OperationID d, ir_CapabilityVersion = cd_Version d,
           ir_CatalogRevision = text_or (text_or (eb_CatalogRevision b) (ob_CatalogRevision observation)) (sn_Revision (sv_Catalog sv)),
           ir_GenerationID = cd_GenerationID d, ir_Authorization = text_or (eb_Authorization b) ''admitted'',
           ir_Arguments = arguments, ir_Binding = b, ir_Result = canon envelope,
           ir_Observation = redacted_observation observation (cd_OutputSchema d),
           ir_TerminalStatus = (if failure = None then ob_Status observation else ''error'')\<rparr>)"

definition recordCapabilityInvocation :: "'w Server \<Rightarrow> CapabilityDescriptor \<Rightarrow> anymap \<Rightarrow> ExecutionBinding \<Rightarrow>
    CallToolResult option \<Rightarrow> Observation \<Rightarrow> HostError option \<Rightarrow> 'w \<Rightarrow> 'w" where
  "recordCapabilityInvocation sv d args b result observation failure w = (case sv_Record sv of
     None \<Rightarrow> w
   | Some insert_row \<Rightarrow>
      (case invocation_record sv d args b result observation failure of None \<Rightarrow> w | Some row \<Rightarrow> insert_row row w))"

section \<open>Dispatch\<close>

text \<open>A result that is refused is replaced by the error, and the refusal is recorded.\<close>

definition refuse_result :: "'w Server \<Rightarrow> CapabilityDescriptor \<Rightarrow> anymap \<Rightarrow> ExecutionBinding \<Rightarrow> string \<Rightarrow> HostError \<Rightarrow> 'w \<Rightarrow>
    outcome \<times> 'w" where
  "refuse_result sv d args b code e w =
     (let typedErr = CapabilityError ''capability'' code e; errorResult = ErrorResult (sv_Text sv) typedErr in
      (Returned (Some errorResult), recordCapabilityInvocation sv d args b (Some errorResult)
        (normalizeCapabilityObservation sv d (zero_observation\<lparr>ob_Status := ''invalid_result''\<rparr>) (eb_CatalogRevision b))
        (Some typedErr) w))"

definition succeeded :: "CallToolResult option \<Rightarrow> CallToolResult option" where
  "succeeded result = (case result of None \<Rightarrow> None | Some r \<Rightarrow> if ct_IsError r then None else Some r)"

definition check_result :: "'w Server \<Rightarrow> 'w HostCapability \<Rightarrow> string \<Rightarrow> anymap \<Rightarrow> ExecutionBinding \<Rightarrow> CallToolResult option \<Rightarrow> 'w \<Rightarrow>
    outcome \<times> 'w" where
  "check_result sv c name args b result w =
     (let d = hc_Definition c in
      case hc_ValidateResult c result of
        Inl e \<Rightarrow> refuse_result sv d args b ''invalid_result'' (WrapError ''capability %q returned invalid result: %w'' e) w
      | Inr observation \<Rightarrow>
         (case Option.bind (succeeded result) (\<lambda>r. validateProducedResources (sv_Growth sv) d (ct_Structured r) (sh_TenantID (sv_Agent sv))) of
            Some e \<Rightarrow> refuse_result sv d args b ''invalid_resource_output'' (PlanErr e) w
          | None \<Rightarrow> (Returned result, recordCapabilityInvocation sv d args b result
              (normalizeCapabilityObservation sv d observation (eb_CatalogRevision b)) None w)))"

definition dispatchCapabilityValue :: "'w Server \<Rightarrow> Context \<Rightarrow> string \<Rightarrow> anymap \<Rightarrow> ExecutionBinding \<Rightarrow> 'w HostCapability \<Rightarrow> 'w \<Rightarrow>
    outcome \<times> 'w" where
  "dispatchCapabilityValue sv ctx name args binding c w =
     (let d = hc_Definition c in
      case completeProducedResourceBinding sv d args binding w of (b, w1) \<Rightarrow>
      case hc_Invoke c ctx args b w1 of
        (Inl e, w2) \<Rightarrow>
          (Returned (Some (ErrorResult (sv_Text sv) e)), recordCapabilityInvocation sv d args b None
            (normalizeCapabilityObservation sv d (zero_observation\<lparr>ob_Status := ''invoke_error''\<rparr>) (eb_CatalogRevision b))
            (Some e) w2)
      | (Inr result, w2) \<Rightarrow>
          (case succeeded result of
             None \<Rightarrow> check_result sv c name args b result w2
           | Some r \<Rightarrow>
              (case materializeBoundResourceOutputs d (ct_Structured r) (eb_Resources b) of
                 None \<Rightarrow> (Panicked, w2)
               | Some structured \<Rightarrow> check_result sv c name args b (Some (r\<lparr>ct_Structured := structured\<rparr>)) w2)))"

definition dispatchRegisteredOrBuiltIn :: "'w Server \<Rightarrow> Context \<Rightarrow> string \<Rightarrow> anymap \<Rightarrow> ExecutionBinding \<Rightarrow> 'w \<Rightarrow> outcome \<times> 'w" where
  "dispatchRegisteredOrBuiltIn sv ctx name args binding w = (case gomap_get (sv_Capabilities sv) name of
     None \<Rightarrow> (Failed (PlainError ''capability %q is not registered'' [AStr name]), w)
   | Some c \<Rightarrow> dispatchCapabilityValue sv ctx name args binding c w)"

definition WithReservation :: "Reservation \<Rightarrow> Context \<Rightarrow> Context" where
  "WithReservation r ctx = (if TrimSpace (rv_ID r) = [] then ctx else ctx\<lparr>cx_Reservation := Some r\<rparr>)"

definition lifecycleTools :: "string list" where
  "lifecycleTools =
     [''validate_host_plan'', ''run_host_plan'', ''get_host_plan_run'',
      ''validate_host_local_recipe'', ''run_host_local_recipe'',
      ''validate_runtime_recipe'', ''run_runtime_recipe'', ''get_runtime_recipe_run'',
      ''validate_tunnel_recipe'', ''run_tunnel_recipe'', ''get_tunnel_run'',
      ''opute.provider.install'', ''opute.provider.validate'', ''opute.provider.status'',
      ''opute.provider.reload'', ''opute.provider.teardown'',
      ''get_capability_catalog'', ''open_assistant_session'']"

definition isLifecycleTool :: "string \<Rightarrow> bool" where
  "isLifecycleTool name \<longleftrightarrow> name \<in> set lifecycleTools"

definition invoked :: "(HostError + CallToolResult option) \<Rightarrow> outcome" where
  "invoked r = (case r of Inl e \<Rightarrow> Failed e | Inr result \<Rightarrow> Returned result)"

text \<open>The deferred release of a lease that no run claimed.\<close>

definition releaseIfUnclaimed :: "'w HostResourceService \<Rightarrow> lease option \<Rightarrow> 'w \<Rightarrow> 'w" where
  "releaseIfUnclaimed service l w = (case l of
     None \<Rightarrow> w
   | Some l \<Rightarrow> if le_claimed l then w
      else (case finish_mark l of (_, goes_on) \<Rightarrow> if goes_on then hs_Release service (le_reservation l) w else w))"

definition dispatchLifecycleTool :: "'w Server \<Rightarrow> Context \<Rightarrow> string \<Rightarrow> anymap \<Rightarrow> 'w \<Rightarrow> outcome \<times> 'w" where
  "dispatchLifecycleTool sv ctx name args w = (case sv_Admission sv of
     None \<Rightarrow> (case sv_Lifecycle sv name ctx args w of (result, _, w') \<Rightarrow> (invoked result, w'))
   | Some service \<Rightarrow>
      (case admitInvocation sv service ctx name args empty_binding w of
         (Inl e, w1) \<Rightarrow> (Returned (Some (ErrorResult (sv_Text sv) e)), w1)
       | (Inr None, w1) \<Rightarrow> (case sv_Lifecycle sv name ctx args w1 of (result, _, w2) \<Rightarrow> (invoked result, w2))
       | (Inr (Some r), w1) \<Rightarrow>
          (case hs_PolicyRevision service w1 of (_, w2) \<Rightarrow>
           case sv_Lifecycle sv name (WithReservation r ctx\<lparr>cx_Lease := newReservationLease (Some r)\<rparr>) args w2 of
             (result, l, w3) \<Rightarrow> (invoked result, releaseIfUnclaimed service l w3))))"

definition dispatch_admitted :: "'w Server \<Rightarrow> 'w HostResourceService \<Rightarrow> Context \<Rightarrow> string \<Rightarrow> anymap \<Rightarrow> ExecutionBinding \<Rightarrow>
    Reservation \<Rightarrow> 'w \<Rightarrow> outcome \<times> 'w" where
  "dispatch_admitted sv service ctx name args binding r w =
     (case hs_PolicyRevision service w of (revision, w1) \<Rightarrow>
      case dispatchRegisteredOrBuiltIn sv (WithReservation r ctx) name args
          (binding\<lparr>eb_ReservationID := rv_ID r, eb_ResourcePolicyRevision := revision\<rparr>) w1 of
        (result, w2) \<Rightarrow> (result, hs_Release service r w2))"

definition DispatchTool :: "'w Server \<Rightarrow> Context \<Rightarrow> string \<Rightarrow> anymap \<Rightarrow> 'w \<Rightarrow> outcome \<times> 'w" where
  "DispatchTool sv ctx name args w =
     (let args = Some (entries args) in
      if isLifecycleTool name then dispatchLifecycleTool sv ctx name args w
      else (case resolveExecutionBinding sv name args w of
          (Inl e, w1) \<Rightarrow> (Returned (Some (ErrorResult (sv_Text sv) e)), w1)
        | (Inr binding, w1) \<Rightarrow>
           (case sv_Admission sv of
              None \<Rightarrow> dispatchRegisteredOrBuiltIn sv ctx name args binding w1
            | Some service \<Rightarrow>
               (case admitInvocation sv service ctx name args binding w1 of
                  (Inl e, w2) \<Rightarrow> (Returned (Some (ErrorResult (sv_Text sv) e)), w2)
                | (Inr None, w2) \<Rightarrow> dispatchRegisteredOrBuiltIn sv ctx name args binding w2
                | (Inr (Some r), w2) \<Rightarrow> dispatch_admitted sv service ctx name args binding r w2))))"

end
