(* ===== verification/Dispatch_Laws.thy ===== *)
theory Dispatch_Laws
  imports Dispatch Redaction_Laws Resource_Laws
begin

text \<open>
  What the execution boundary guarantees: work without a declared cost is refused before anything happens, a
  capability sees resources of the host's tenant only, a result that is returned as a success was accepted by
  the capability and by the host, no call leaves a reservation behind, and the record of a success does not
  tell secrets.
\<close>

declare redactEvidenceBySchema.simps [simp del]

section \<open>Declared costs\<close>

text \<open>Work that has to declare its cost and does not.\<close>

definition unpriced :: "'w Server \<Rightarrow> string \<Rightarrow> bool" where
  "unpriced sv name \<longleftrightarrow> (case capabilityDescriptor sv name of
     None \<Rightarrow> sv_Registered sv name = None
   | Some d \<Rightarrow> cd_ResourceCost d = None \<and> cd_Effect d \<noteq> ''read'' \<and>
       (isProviderCapability sv name \<or> sv_Registered sv name = None))"

lemma unpriced_cost:
  "unpriced sv name \<Longrightarrow> \<exists>e. admission_cost sv name args (capabilityDescriptor sv name)
     (capabilityDescriptor sv name \<noteq> None \<and> isProviderCapability sv name) = Inl (PlainError e [AStr name])"
  by (cases "capabilityDescriptor sv name") (auto simp: unpriced_def admission_cost_def Let_def)

text \<open>
  C16: work without a declared cost never starts. A tool that has no declared cost, and that is unknown to the
  catalog or changes something, is answered with an error, and nothing happened but the resolution of its
  arguments: no admission, no invocation, no record.
\<close>
theorem unpriced_refused:
  assumes "unpriced sv name" and "\<not> isLifecycleTool name" and "sv_Admission sv = Some service"
  shows "\<exists>e. DispatchTool sv ctx name args w =
    (Returned (Some (ErrorResult (sv_Text sv) e)), snd (resolveExecutionBinding sv name (Some (entries args)) w))"
proof (cases "resolveExecutionBinding sv name (Some (entries args)) w")
  case (Pair res w1)
  show ?thesis
  proof (cases res)
    case (Inr b)
    obtain e where "admitInvocation sv service ctx name (Some (entries args)) b w1 = (Inl e, w1)"
      using unpriced_cost [OF assms(1), of "Some (entries args)"]
      by (auto simp: admitInvocation_def admitInvocationWithDescriptor_def Let_def)
    then have "DispatchTool sv ctx name args w = (Returned (Some (ErrorResult (sv_Text sv) e)), w1)"
      using assms Pair Inr by (simp add: DispatchTool_def Let_def)
    then show ?thesis using Pair by auto
  qed (use assms Pair in \<open>auto simp: DispatchTool_def Let_def\<close>)
qed

section \<open>Bound resources\<close>

text \<open>A resource as the resolver returns it: its identity is canonical, of the host's tenant, and its fields
  are the parts of the identity.\<close>

definition owned_resource :: "'w Shared \<Rightarrow> BoundResource \<Rightarrow> bool" where
  "owned_resource sh x \<longleftrightarrow> (\<exists>u. parseOwnedURI sh (br_URI x) = Inr u \<and> uri_String u = br_URI x \<and>
     br_TenantID x = uri_TenantID u \<and> br_ResourceType x = uri_ResourceType u \<and> br_ResourceID x = uri_ResourceID u)"

lemma adopted_names: "adopt_resource sh reg u adopt found w = (Inr c, w') \<Longrightarrow> \<exists>f. resolved u f = Inr c"
  by (auto simp: adopt_resource_def Let_def split: prod.splits sum.splits option.splits)

lemma resolved_names:
  assumes "ResolveResource sh uri kind adopt w = (Inr c, w')"
  shows "\<exists>u f. parseOwnedURI sh uri = Inr u \<and> (kind = [] \<or> uri_ResourceType u = kind) \<and> resolved u f = Inr c"
proof -
  obtain u where u: "parseOwnedURI sh uri = Inr u" using assms by (auto simp: ResolveResource_def split: sum.splits)
  have kind: "kind = [] \<or> uri_ResourceType u = kind" using assms u by (auto simp: ResolveResource_def split: if_splits)
  obtain reg where reg: "sh_ResourceRegistry sh = Some reg"
    using assms u kind by (auto simp: ResolveResource_def split: option.splits if_splits)
  obtain r w1 where g: "op_GetResource reg (uri_String u) w = (r, w1)" by fastforce
  have "(case r of Inl e \<Rightarrow> (Inl (ResolveFailed (uri_String u) e), w1)
    | Inr found \<Rightarrow> (case adopt of
        Some ask \<Rightarrow> if active found then (resolved u found, w1) else adopt_resource sh reg u ask found w1
      | None \<Rightarrow> (resolved u found, w1))) = (Inr c, w')"
    using assms u kind reg g by (auto simp: ResolveResource_def)
  then obtain found where "resolved u found = Inr c \<or> (\<exists>ask. adopt_resource sh reg u ask found w1 = (Inr c, w'))"
    by (auto split: sum.splits option.splits if_splits)
  then obtain f where "resolved u f = Inr c" using adopted_names by metis
  then show ?thesis using u kind by blast
qed

lemma resolve_owned:
  assumes "server_resolve sv uri kind w = (Inr c, w')"
  shows "owned_resource (sv_Agent sv) (bound_resource argument c) \<and> (kind = [] \<or> co_ResourceType c = kind)"
proof -
  obtain u f where u: "parseOwnedURI (sv_Agent sv) uri = Inr u" "kind = [] \<or> uri_ResourceType u = kind" "resolved u f = Inr c"
    using resolved_names [OF assms [unfolded server_resolve_def]] by blast
  then have c: "co_URI c = u" "co_ResourceType c = uri_ResourceType u" "co_TenantID c = uri_TenantID u"
      "co_ResourceID c = uri_ResourceID u"
    by (auto simp: resolved_Inr)
  show ?thesis
    using parseOwned_canonical [OF u(1)] u(2) by (simp add: c owned_resource_def bound_resource_def)
qed

lemma resolve_first_owned:
  "resolve_first sv uri kinds e w = (Inr c, w') \<Longrightarrow>
    owned_resource (sv_Agent sv) (bound_resource argument c) \<and>
    (\<exists>b \<in> set kinds. rb_ResourceType b = [] \<or> co_ResourceType c = rb_ResourceType b)"
proof (induction kinds arbitrary: e w)
  case (Cons b kinds)
  show ?case
  proof (cases "server_resolve sv uri (rb_ResourceType b) w")
    case (Pair r w1)
    then show ?thesis using Cons resolve_owned [of sv uri "rb_ResourceType b" w] by (cases r) auto
  qed
qed simp

text \<open>What binds an argument was required of it.\<close>

definition required_kind :: "CapabilityDescriptor option \<Rightarrow> BoundResource \<Rightarrow> bool" where
  "required_kind d x \<longleftrightarrow> (\<exists>b \<in> set (bindings_for d (br_Argument x)). rb_ResourceType b = [] \<or> br_ResourceType x = rb_ResourceType b)"

lemma bind_arguments_owned:
  "bind_arguments sv name d args arguments w = (Inr bs, w') \<Longrightarrow> x \<in> set bs \<Longrightarrow>
    owned_resource (sv_Agent sv) x \<and> required_kind d x"
proof (induction arguments arbitrary: w bs)
  case (Cons argument arguments)
  show ?case
  proof (cases "\<exists>uri. Option.bind (argumentValue args argument) as_string = Some uri \<and> TrimSpace uri \<noteq> []")
    case True
    then obtain uri where uri: "Option.bind (argumentValue args argument) as_string = Some uri" "TrimSpace uri \<noteq> []" by blast
    obtain c w1 bs' where c: "resolve_first sv uri (bindings_for d argument) None w = (Inr c, w1)"
        "bind_arguments sv name d args arguments w1 = (Inr bs', w')" "bs = bound_resource argument c # bs'"
      using Cons.prems(1) uri by (auto simp: Let_def split: prod.splits sum.splits)
    then show ?thesis
      using Cons.IH [OF c(2)] Cons.prems(2) resolve_first_owned [OF c(1), of argument]
      by (auto simp: required_kind_def bound_resource_def)
  next
    case False
    then have "bind_arguments sv name d args arguments w = (Inr bs, w')"
      using Cons.prems(1) by (auto simp: Let_def split: option.splits if_splits)
    then show ?thesis using Cons.IH Cons.prems(2) by blast
  qed
qed simp

lemma complete_step: "complete_bindings sv args (p # ps) b w = (b', w') \<Longrightarrow> b' = b \<or>
    (\<exists>w1. complete_bindings sv args ps b w1 = (b', w')) \<or>
    (\<exists>c w1 uri. server_resolve sv uri (rb_ResourceType p) w = (Inr c, w1) \<and>
      complete_bindings sv args ps (b\<lparr>eb_Resources := eb_Resources b @ [bound_resource ''uri'' c]\<rparr>) w1 = (b', w'))"
proof (cases "TrimSpace (rb_SourcePath p) \<noteq> ''uri'' \<or> bound_for p (eb_Resources b) \<noteq> None")
  case False
  assume h: "complete_bindings sv args (p # ps) b w = (b', w')"
  show ?thesis
  proof (cases "as_string (lookup args ''uri'')")
    case (Some candidate)
    obtain r w1 where r: "server_resolve sv candidate (rb_ResourceType p) w = (r, w1)" by fastforce
    then show ?thesis using h False Some by (cases "TrimSpace candidate = []"; cases r) auto
  qed (use h False in auto)
qed (auto split: if_splits)

lemma complete_owned:
  "complete_bindings sv args ps b w = (b', w') \<Longrightarrow> \<forall>x \<in> set (eb_Resources b). owned_resource (sv_Agent sv) x \<Longrightarrow>
    (\<forall>x \<in> set (eb_Resources b'). owned_resource (sv_Agent sv) x) \<and> (\<exists>bs. b' = b\<lparr>eb_Resources := eb_Resources b @ bs\<rparr>)"
proof (induction ps arbitrary: b w)
  case Nil
  then show ?case by (auto intro: exI [of _ "[]"])
next
  case (Cons p ps)
  have same: "\<exists>bs. b = b\<lparr>eb_Resources := eb_Resources b @ bs\<rparr>" by (rule exI [of _ "[]"]) simp
  consider "b' = b" | w1 where "complete_bindings sv args ps b w1 = (b', w')"
    | c w1 uri where "server_resolve sv uri (rb_ResourceType p) w = (Inr c, w1)"
      "complete_bindings sv args ps (b\<lparr>eb_Resources := eb_Resources b @ [bound_resource ''uri'' c]\<rparr>) w1 = (b', w')"
    using complete_step [OF Cons.prems(1)] by blast
  then show ?case
  proof cases
    case 3
    let ?b = "b\<lparr>eb_Resources := eb_Resources b @ [bound_resource ''uri'' c]\<rparr>"
    have "owned_resource (sv_Agent sv) (bound_resource ''uri'' c)" using resolve_owned [OF 3(1)] by blast
    then have "\<forall>x \<in> set (eb_Resources ?b). owned_resource (sv_Agent sv) x" using Cons.prems(2) by simp
    from Cons.IH [OF 3(2) this] obtain bs where bs: "\<forall>x \<in> set (eb_Resources b'). owned_resource (sv_Agent sv) x"
        "b' = ?b\<lparr>eb_Resources := eb_Resources ?b @ bs\<rparr>" by blast
    have "b' = b\<lparr>eb_Resources := eb_Resources b @ (bound_resource ''uri'' c # bs)\<rparr>" by (simp add: bs(2))
    then show ?thesis using bs(1) by blast
  qed (use Cons.IH Cons.prems(2) same in blast)+
qed

text \<open>A capability behind a check of the resources that it is given.\<close>

definition guard :: "'w Server \<Rightarrow> 'w HostCapability \<Rightarrow> 'w HostCapability" where
  "guard sv c = c\<lparr>hc_Invoke := (\<lambda>ctx args b w.
     if list_all (owned_resource (sv_Agent sv)) (eb_Resources b) \<and> eb_TenantID b = sh_TenantID (sv_Agent sv)
     then hc_Invoke c ctx args b w else (Inl (PlainError ''foreign resource'' []), w))\<rparr>"

definition guarded :: "'w Server \<Rightarrow> 'w Server" where
  "guarded sv = sv\<lparr>sv_Capabilities := map (\<lambda>(n, c). (n, guard sv c)) (sv_Capabilities sv)\<rparr>"

lemma guarded_fields [simp]:
  "sv_Agent (guarded sv) = sv_Agent sv" "sv_Adopt (guarded sv) = sv_Adopt sv" "sv_Admission (guarded sv) = sv_Admission sv"
  "sv_Registered (guarded sv) = sv_Registered sv" "sv_Record (guarded sv) = sv_Record sv" "sv_Text (guarded sv) = sv_Text sv"
  "sv_Lifecycle (guarded sv) = sv_Lifecycle sv" "sv_Growth (guarded sv) = sv_Growth sv" "sv_Convert (guarded sv) = sv_Convert sv"
  "sv_Catalog (guarded sv) = sv_Catalog sv" "sv_AgentID (guarded sv) = sv_AgentID sv"
  by (simp_all add: guarded_def)

lemma guard_fields [simp]: "hc_Definition (guard sv c) = hc_Definition c" "hc_ValidateResult (guard sv c) = hc_ValidateResult c"
  by (simp_all add: guard_def)

lemma guarded_get: "gomap_get (sv_Capabilities (guarded sv)) name = map_option (guard sv) (gomap_get (sv_Capabilities sv) name)"
  by (simp add: guarded_def map_of_map)

lemma guarded_descriptor [simp]: "capabilityDescriptor (guarded sv) = capabilityDescriptor sv"
    "isProviderCapability (guarded sv) = isProviderCapability sv" "server_resolve (guarded sv) = server_resolve sv"
  by (auto simp: fun_eq_iff capabilityDescriptor_def isProviderCapability_def server_resolve_def guarded_get split: option.splits)

lemma guarded_admit [simp]: "admitInvocation (guarded sv) = admitInvocation sv"
  by (intro ext) (unfold admitInvocation_def admitInvocationWithDescriptor_def admission_cost_def admission_request_def
      guarded_fields guarded_descriptor, rule refl)

lemma guarded_resolve_first [simp]: "resolve_first (guarded sv) uri kinds e w = resolve_first sv uri kinds e w"
  by (induction kinds arbitrary: e w) (auto split: prod.splits sum.splits)

lemma guarded_bind [simp]: "bind_arguments (guarded sv) name d args arguments w = bind_arguments sv name d args arguments w"
  by (induction arguments arbitrary: w) (auto simp: Let_def split: option.splits prod.splits sum.splits)

lemma guarded_complete [simp]: "complete_bindings (guarded sv) args ps b w = complete_bindings sv args ps b w"
  by (induction ps arbitrary: b w) (auto split: option.splits prod.splits sum.splits)

lemma guarded_binding [simp]: "resolveExecutionBinding (guarded sv) = resolveExecutionBinding sv"
  by (intro ext) (unfold resolveExecutionBinding_def guarded_fields guarded_descriptor guarded_bind, rule refl)

lemma guarded_record [simp]: "recordCapabilityInvocation (guarded sv) = recordCapabilityInvocation sv"
  by (intro ext) (unfold recordCapabilityInvocation_def invocation_record_def guarded_fields, rule refl)

lemma guarded_normalize [simp]: "normalizeCapabilityObservation (guarded sv) = normalizeCapabilityObservation sv"
  by (intro ext) (unfold normalizeCapabilityObservation_def guarded_fields, rule refl)

lemma guarded_check [simp]: "check_result (guarded sv) (guard sv c) = check_result sv c"
  by (intro ext) (unfold check_result_def refuse_result_def guarded_fields guard_fields guarded_record guarded_normalize, rule refl)

lemma guard_invoke:
  "\<forall>x \<in> set (eb_Resources b). owned_resource (sv_Agent sv) x \<Longrightarrow> eb_TenantID b = sh_TenantID (sv_Agent sv) \<Longrightarrow>
    hc_Invoke (guard sv c) ctx args b w = hc_Invoke c ctx args b w"
  by (simp add: guard_def list_all_iff)

lemma guarded_value:
  assumes "\<forall>x \<in> set (eb_Resources b). owned_resource (sv_Agent sv) x" "eb_TenantID b = sh_TenantID (sv_Agent sv)"
  shows "dispatchCapabilityValue (guarded sv) ctx name args b (guard sv c) w = dispatchCapabilityValue sv ctx name args b c w"
proof -
  obtain b' w1 where b: "complete_bindings sv args (cd_Produces (hc_Definition c)) b w = (b', w1)" by fastforce
  have o1: "\<forall>x \<in> set (eb_Resources b'). owned_resource (sv_Agent sv) x" "eb_TenantID b' = sh_TenantID (sv_Agent sv)"
    using complete_owned [OF b assms(1)] assms(2) by auto
  show ?thesis
    unfolding dispatchCapabilityValue_def completeProducedResourceBinding_def guard_fields guarded_fields guarded_complete b
      guarded_check guarded_record guarded_normalize Let_def prod.case guard_invoke [OF o1] by (rule refl)
qed

lemma guarded_dispatch:
  assumes "\<forall>x \<in> set (eb_Resources b). owned_resource (sv_Agent sv) x" "eb_TenantID b = sh_TenantID (sv_Agent sv)"
  shows "dispatchRegisteredOrBuiltIn (guarded sv) ctx name args b w = dispatchRegisteredOrBuiltIn sv ctx name args b w"
  using guarded_value [OF assms]
  by (auto simp: dispatchRegisteredOrBuiltIn_def guarded_get split: option.splits)

lemma resolved_binding:
  assumes "resolveExecutionBinding sv name args w = (Inr b, w')"
  shows "\<forall>x \<in> set (eb_Resources b). owned_resource (sv_Agent sv) x \<and> required_kind (capabilityDescriptor sv name) x"
    "eb_TenantID b = sh_TenantID (sv_Agent sv)"
  using assms bind_arguments_owned
  by (fastforce simp: resolveExecutionBinding_def Let_def split: prod.splits sum.splits)+

lemma guarded_lifecycle: "dispatchLifecycleTool (guarded sv) = dispatchLifecycleTool sv"
  by (intro ext) (unfold dispatchLifecycleTool_def guarded_fields guarded_admit, rule refl)

text \<open>
  C15: a capability only ever sees resources of the host's own tenant. Putting every capability behind a check that
  refuses any binding with a resource that is not a canonical identity of the tenant, or of which a field differs
  from the identity, changes neither the result of any call nor anything it does.
\<close>
theorem invocations_owned: "DispatchTool (guarded sv) ctx name args w = DispatchTool sv ctx name args w"
proof (cases "isLifecycleTool name")
  case True
  then show ?thesis by (simp add: DispatchTool_def guarded_lifecycle)
next
  case False
  let ?args = "Some (entries args)"
  obtain res w1 where r: "resolveExecutionBinding sv name ?args w = (res, w1)" by fastforce
  show ?thesis
  proof (cases res)
    case (Inr b)
    have o1: "\<forall>x \<in> set (eb_Resources b). owned_resource (sv_Agent sv) x" "eb_TenantID b = sh_TenantID (sv_Agent sv)"
      using resolved_binding [OF r [unfolded Inr]] by auto
    have o2: "dispatchRegisteredOrBuiltIn (guarded sv) cx name ?args (b\<lparr>eb_ReservationID := i, eb_ResourcePolicyRevision := p\<rparr>) v =
        dispatchRegisteredOrBuiltIn sv cx name ?args (b\<lparr>eb_ReservationID := i, eb_ResourcePolicyRevision := p\<rparr>) v" for cx i p v
      by (rule guarded_dispatch) (use o1 in simp_all)
    have o3: "dispatch_admitted (guarded sv) service ctx name ?args b rv v = dispatch_admitted sv service ctx name ?args b rv v" for service rv v
      by (unfold dispatch_admitted_def o2, rule refl)
    show ?thesis
      unfolding DispatchTool_def Let_def guarded_binding guarded_lifecycle r Inr sum.case prod.case guarded_fields guarded_admit
        guarded_dispatch [OF o1] o3 by (rule refl)
  qed (use False r in \<open>simp add: DispatchTool_def\<close>)
qed

section \<open>Accepted results\<close>

lemma ErrorResult_error [simp]: "ct_IsError (ErrorResult text_of e)"
  by (simp add: ErrorResult_def)

lemma check_accepts:
  assumes "check_result sv c name args b result w = (Returned (Some r), w')" "\<not> ct_IsError r"
  shows "result = Some r \<and> (\<exists>o1. hc_ValidateResult c (Some r) = Inr o1) \<and>
    validateProducedResources (sv_Growth sv) (hc_Definition c) (ct_Structured r) (sh_TenantID (sv_Agent sv)) = None"
  using assms
  by (auto simp: check_result_def refuse_result_def Let_def succeeded_def split: sum.splits option.splits)

lemma value_accepts:
  assumes "dispatchCapabilityValue sv ctx name args b c w = (Returned (Some r), w')" "\<not> ct_IsError r"
  shows "(\<exists>o1. hc_ValidateResult c (Some r) = Inr o1) \<and>
    validateProducedResources (sv_Growth sv) (hc_Definition c) (ct_Structured r) (sh_TenantID (sv_Agent sv)) = None"
proof -
  obtain b1 w1 where b: "completeProducedResourceBinding sv (hc_Definition c) args b w = (b1, w1)" by fastforce
  obtain res w2 where i: "hc_Invoke c ctx args b1 w1 = (res, w2)" by fastforce
  show ?thesis
  proof (cases res)
    case (Inl e)
    then show ?thesis using assms b i by (auto simp: dispatchCapabilityValue_def Let_def)
  next
    case (Inr result)
    have "(case succeeded result of None \<Rightarrow> check_result sv c name args b1 result w2
      | Some r \<Rightarrow> (case materializeBoundResourceOutputs (hc_Definition c) (ct_Structured r) (eb_Resources b1) of
          None \<Rightarrow> (Panicked, w2)
        | Some structured \<Rightarrow> check_result sv c name args b1 (Some (r\<lparr>ct_Structured := structured\<rparr>)) w2)) = (Returned (Some r), w')"
      using assms(1) unfolding dispatchCapabilityValue_def Let_def b prod.case i Inr sum.case by assumption
    note eq = this
    have "\<exists>x. check_result sv c name args b1 x w2 = (Returned (Some r), w')"
    proof (cases "succeeded result")
      case None
      then show ?thesis using eq by (simp only: option.case) blast
    next
      case (Some r0)
      show ?thesis
      proof (cases "materializeBoundResourceOutputs (hc_Definition c) (ct_Structured r0) (eb_Resources b1)")
        case (Some structured)
        then show ?thesis using eq unfolding \<open>succeeded result = _\<close> Some option.case by blast
      qed (use eq Some in simp)
    qed
    then obtain x where "check_result sv c name args b1 x w2 = (Returned (Some r), w')" by (elim exE)
    from check_accepts [OF this assms(2)] show ?thesis by simp
  qed
qed

lemma registered_accepts:
  "dispatchRegisteredOrBuiltIn sv ctx name args b w = (Returned (Some r), w') \<Longrightarrow> \<not> ct_IsError r \<Longrightarrow>
    \<exists>c. gomap_get (sv_Capabilities sv) name = Some c \<and> (\<exists>o1. hc_ValidateResult c (Some r) = Inr o1) \<and>
      validateProducedResources (sv_Growth sv) (hc_Definition c) (ct_Structured r) (sh_TenantID (sv_Agent sv)) = None"
  by (cases "gomap_get (sv_Capabilities sv) name") (auto simp: dispatchRegisteredOrBuiltIn_def dest!: value_accepts)

lemma validated_schema:
  "validated_result who matches d (Some r) = Inr o1 \<Longrightarrow> \<not> ct_IsError r \<Longrightarrow>
    ValidateJSON matches (cd_OutputSchema d) (canon (ct_Structured r)) = None"
  by (auto simp: validated_result_def check_structured_def split: option.splits if_splits)

lemma success_dispatched:
  assumes "DispatchTool sv ctx name args w = (Returned (Some r), w')" and "\<not> ct_IsError r" and "\<not> isLifecycleTool name"
  shows "\<exists>cx args b v v'. dispatchRegisteredOrBuiltIn sv cx name args b v = (Returned (Some r), v')"
proof -
  let ?args = "Some (entries args)"
  obtain res w1 where r: "resolveExecutionBinding sv name ?args w = (res, w1)" by fastforce
  obtain b where b: "res = Inr b" using assms r by (cases res) (auto simp: DispatchTool_def)
  show ?thesis
  proof (cases "sv_Admission sv")
    case None
    then have "dispatchRegisteredOrBuiltIn sv ctx name ?args b w1 = (Returned (Some r), w')"
      using assms r b by (simp add: DispatchTool_def)
    then show ?thesis by blast
  next
    case (Some service)
    obtain adm w2 where a: "admitInvocation sv service ctx name ?args b w1 = (adm, w2)" by fastforce
    obtain held where h: "adm = Inr held" using assms r b Some a by (cases adm) (auto simp: DispatchTool_def)
    show ?thesis
    proof (cases held)
      case None
      then have "dispatchRegisteredOrBuiltIn sv ctx name ?args b w2 = (Returned (Some r), w')"
        using assms r b Some a h by (simp add: DispatchTool_def)
      then show ?thesis by blast
    next
      case (Some rv)
      then have "dispatch_admitted sv service ctx name ?args b rv w2 = (Returned (Some r), w')"
        using assms r b \<open>sv_Admission sv = _\<close> a h by (simp add: DispatchTool_def)
      then have "\<exists>cx b v v'. dispatchRegisteredOrBuiltIn sv cx name ?args b v = (Returned (Some r), v')"
        by (auto simp: dispatch_admitted_def split: prod.splits)
      then show ?thesis by blast
    qed
  qed
qed

text \<open>
  C19: a success is checked twice before it is returned. When a call of a capability returns a result that is no
  error, the capability's own validation accepted exactly that result, for the host's adapters its structured
  part satisfies the declared output schema, and the identities that it names passed the host's check.
\<close>
theorem success_checked:
  assumes "DispatchTool sv ctx name args w = (Returned (Some r), w')" and "\<not> ct_IsError r" and "\<not> isLifecycleTool name"
  shows "\<exists>c. gomap_get (sv_Capabilities sv) name = Some c \<and> (\<exists>o1. hc_ValidateResult c (Some r) = Inr o1) \<and>
    validateProducedResources (sv_Growth sv) (hc_Definition c) (ct_Structured r) (sh_TenantID (sv_Agent sv)) = None \<and>
    (\<forall>who matches. hc_ValidateResult c = validated_result who matches (hc_Definition c) \<longrightarrow>
      ValidateJSON matches (cd_OutputSchema (hc_Definition c)) (canon (ct_Structured r)) = None)"
proof -
  obtain cx args b v v' where d: "dispatchRegisteredOrBuiltIn sv cx name args b v = (Returned (Some r), v')"
    using success_dispatched [OF assms] by (elim exE)
  from registered_accepts [OF this assms(2)] obtain c o1 where c: "gomap_get (sv_Capabilities sv) name = Some c" "hc_ValidateResult c (Some r) = Inr o1"
      "validateProducedResources (sv_Growth sv) (hc_Definition c) (ct_Structured r) (sh_TenantID (sv_Agent sv)) = None"
    by (elim exE conjE)
  then show ?thesis using validated_schema [of _ _ "hc_Definition c" r o1] assms(2) by metis
qed

section \<open>What is recorded\<close>

text \<open>Observations and results that differ only in what the output schema marks \<open>writeOnly\<close>, in the values of
  facts and evidence, and in the text content.\<close>

definition raw_agrees :: "anymap \<Rightarrow> raw_value \<Rightarrow> raw_value \<Rightarrow> bool" where
  "raw_agrees schema x y \<longleftrightarrow> x = y \<or> (\<exists>v v'. x = Raw v \<and> y = Raw v' \<and> agree schema v v')"

definition same_presence :: "raw_value list \<Rightarrow> raw_value list \<Rightarrow> bool" where
  "same_presence xs ys \<longleftrightarrow> list_all2 (\<lambda>x y. x = RawAbsent \<longleftrightarrow> y = RawAbsent) xs ys"

definition observation_agrees :: "anymap \<Rightarrow> Observation \<Rightarrow> Observation \<Rightarrow> bool" where
  "observation_agrees schema x y \<longleftrightarrow> (\<exists>structured facts evidence.
     y = x\<lparr>ob_Structured := structured, ob_Facts := facts, ob_Evidence := evidence\<rparr> \<and>
     raw_agrees schema (ob_Structured x) structured \<and> same_presence (ob_Facts x) facts \<and> same_presence (ob_Evidence x) evidence)"

definition result_agrees :: "anymap \<Rightarrow> CallToolResult \<Rightarrow> CallToolResult \<Rightarrow> bool" where
  "result_agrees schema r r' \<longleftrightarrow> ct_IsError r = ct_IsError r' \<and> agree schema (ct_Structured r) (ct_Structured r')"

lemma blot_same: "same_presence xs ys \<Longrightarrow>
    map (\<lambda>v. if v = RawAbsent then RawAbsent else Raw redactedEvidenceValue) xs =
    map (\<lambda>v. if v = RawAbsent then RawAbsent else Raw redactedEvidenceValue) ys"
  unfolding same_presence_def by (induction rule: list_all2_induct) auto

lemma redacted_same: "observation_agrees schema x y \<Longrightarrow> redacted_observation x schema = redacted_observation y schema"
proof -
  assume "observation_agrees schema x y"
  then obtain structured facts evidence where
    y: "y = x\<lparr>ob_Structured := structured, ob_Facts := facts, ob_Evidence := evidence\<rparr>"
    and s: "raw_agrees schema (ob_Structured x) structured"
    and f: "same_presence (ob_Facts x) facts" "same_presence (ob_Evidence x) evidence"
    unfolding observation_agrees_def by blast
  show ?thesis
    using s redaction_hides blot_same [OF f(1)] blot_same [OF f(2)]
    by (auto simp: y redacted_observation_def redactCapabilityObservation_def Let_def raw_agrees_def)
qed

lemma json_same: "agree schema v w \<Longrightarrow> redactEvidenceJSON v schema = redactEvidenceJSON w schema"
  by (simp add: redactEvidenceJSON_def redaction_hides)

text \<open>
  C20: the record of a successful invocation does not tell secrets. Two successful invocations that differ only in
  arguments and results that the capability's schemas mark \<open>writeOnly\<close>, in the text of the result, and in the
  values of observed facts and evidence leave the same row in the table of invocations.
\<close>
theorem invocation_hides:
  assumes "agree (cd_InputSchema d) (map_any args) (map_any args')" and "result_agrees (cd_OutputSchema d) r r'"
    and "observation_agrees (cd_OutputSchema d) x y"
  shows "recordCapabilityInvocation sv d args b (Some r) x None w = recordCapabilityInvocation sv d args' b (Some r') y None w"
proof -
  have env: "result_envelope d (Some r') None = result_envelope d (Some r) None"
    using assms(2) redaction_hides [of "cd_OutputSchema d" "ct_Structured r" "ct_Structured r'"]
    by (simp add: result_envelope_def result_agrees_def)
  have fields: "ob_Status y = ob_Status x" "ob_CatalogRevision y = ob_CatalogRevision x"
    using assms(3) by (auto simp: observation_agrees_def)
  have "invocation_record sv d args b (Some r) x None = invocation_record sv d args' b (Some r') y None"
    unfolding invocation_record_def Let_def option.distinct [THEN eq_False [THEN iffD2]] if_False env fields
      json_same [OF assms(1)] redacted_same [OF assms(3)] by simp
  then show ?thesis unfolding recordCapabilityInvocation_def by (rule arg_cong)
qed

text \<open>The record of a failure does tell the text of a capability's error: the code replaces the message by a fixed
  text, and stores the structured part of the error's result, which holds the same message, beside it.\<close>

lemma error_text_recorded:
  assumes "invocation_record sv d args b None x (Some e) = Some row" and "e = CapabilityError owner code f"
    and "service_fields e = None" and "cd_OutputSchema d = Some []"
  shows "\<exists>fs structured. ir_Result row = AMap fs \<and> gomap_get fs ''structured'' = Some (AMap structured) \<and>
    gomap_get structured ''message'' = Some (AStr (sv_Text sv e))"
proof -
  have e: "error_structure (sv_Text sv) e = AMap [(''code'', AStr code), (''owner'', AStr owner), (''message'', AStr (sv_Text sv e))]"
    using assms(2,3) by (simp add: error_structure_def)
  have "redactEvidenceBySchema (error_structure (sv_Text sv) e) (Some []) = error_structure (sv_Text sv) e"
    by (simp add: e redactEvidenceBySchema.simps write_only_def lookup_def child_schema_def schemaMap_def sub_map_def map_or_nil_def)
  then have "result_envelope d (Some (ErrorResult (sv_Text sv) e)) (Some e) =
      AMap [(''isError'', ABool True), (''structured'', error_structure (sv_Text sv) e), (''content'', ASlice []),
        (''error'', error_envelope e)]"
    by (simp add: result_envelope_def ErrorResult_def assms(4))
  moreover have "ir_Result row = canon (result_envelope d (Some (ErrorResult (sv_Text sv) e)) (Some e))"
    using assms(1) by (auto simp: invocation_record_def Let_def split: option.splits if_splits)
  ultimately show ?thesis by (simp add: e [unfolded assms(2)] assms(2) error_envelope_def)
qed

section \<open>A server\<close>

text \<open>A server without a state store whose world is the resource registry in memory, with one built-in and one
  provider capability, both of which answer with an identity.\<close>

definition demo_descriptor :: "string \<Rightarrow> string \<Rightarrow> string \<Rightarrow> CapabilityDescriptor" where
  "demo_descriptor name effect implementation =
     \<lparr>cd_OperationID = name, cd_CapabilityID = [], cd_Version = 1, cd_Name = name, cd_InputSchema = Some [],
      cd_OutputSchema = Some [], cd_OutputType = [], cd_ResultTypes = [], cd_Effect = effect, cd_RequiresApproval = False,
      cd_Provider = [], cd_Implementation = implementation, cd_ResourceKinds = [], cd_ArgumentProducers = [],
      cd_DefaultLabels = None, cd_ResourceCost = None, cd_TaskSupport = [], cd_GenerationID = [],
      cd_Requires = [\<lparr>rb_Argument = ''vm'', rb_ResourceType = ''vm'', rb_SourcePath = [], rb_SelectorID = [], rb_Required = True\<rparr>],
      cd_Produces = [\<lparr>rb_Argument = [], rb_ResourceType = ''vm'', rb_SourcePath = ''uri'', rb_SelectorID = [], rb_Required = True\<rparr>],
      cd_InputEdges = [], cd_OutputEdges = [], cd_Texts = []\<rparr>"

definition demo_capability :: "string \<Rightarrow> string \<Rightarrow> string \<Rightarrow> memory HostCapability" where
  "demo_capability name effect implementation = NewLegacyAdapter (\<lambda>_ _. Some True) (demo_descriptor name effect implementation)
     (\<lambda>ctx args b w. (Inr (Some \<lparr>ct_Content = [], ct_Structured = AMap [], ct_IsError = False\<rparr>), w))"

definition demo_server :: "memory HostResourceService option \<Rightarrow> memory Server" where
  "demo_server service =
     \<lparr>sv_Catalog = \<lparr>sn_ProviderID = [], sn_Revision = ''r1'',
        sn_Tools = [demo_descriptor ''look'' ''read'' ''builtin'', demo_descriptor ''change'' ''mutation'' ''provider:x''], sn_Edges = []\<rparr>,
      sv_Capabilities = [(''look'', demo_capability ''look'' ''read'' ''builtin''), (''change'', demo_capability ''change'' ''mutation'' ''provider:x'')],
      sv_Agent = \<lparr>sh_TenantID = ''acme'', sh_InstanceID = [], sh_SharedHostOwnerInstance = [], sh_ResourceRegistry = Some memory_registry\<rparr>,
      sv_AgentID = [], sv_Adopt = (\<lambda>_ _. ([], Inr None)), sv_Admission = service, sv_Registered = (\<lambda>_. None), sv_Record = None,
      sv_Lifecycle = (\<lambda>_ _ _ w. (Inr None, None, w)), sv_Growth = (\<lambda>n. 2 * n), sv_Convert = (\<lambda>_. 0), sv_Text = (\<lambda>_. [])\<rparr>"

definition demo_memory :: memory where
  "demo_memory = snd (RegisterResource (sv_Agent (demo_server None)) ''vm:acme:a'' (Some []) [])"

definition open_service :: "memory HostResourceService" where
  "open_service = \<lparr>hs_Admit = (\<lambda>held request w. (Inr None, w)), hs_Release = (\<lambda>r w. w), hs_PolicyRevision = (\<lambda>w. ([], w))\<rparr>"

definition demo_context :: Context where
  "demo_context = \<lparr>cx_Reservation = None, cx_OperationID = [], cx_TaskID = [], cx_Lease = None\<rparr>"

theorem unpriced_refused_witness:
  "\<exists>e. DispatchTool (demo_server (Some open_service)) demo_context ''change'' (Some [(''vm'', AStr ''vm:acme:a'')]) demo_memory =
    (Returned (Some (ErrorResult (\<lambda>_. []) e)), demo_memory)"
proof -
  have "unpriced (demo_server (Some open_service)) ''change''" "\<not> isLifecycleTool ''change''"
      "snd (resolveExecutionBinding (demo_server (Some open_service)) ''change'' (Some [(''vm'', AStr ''vm:acme:a'')]) demo_memory) = demo_memory"
    by code_simp+
  then show ?thesis
    using unpriced_refused [of "demo_server (Some open_service)" "''change''" open_service demo_context
        "Some [(''vm'', AStr ''vm:acme:a'')]" demo_memory]
    by (simp add: demo_server_def)
qed

lemma demo_success:
  "DispatchTool (demo_server None) demo_context ''look'' (Some [(''vm'', AStr '' vm:acme:a'')]) demo_memory =
    (Returned (Some \<lparr>ct_Content = [], ct_Structured = AMap [(''uri'', AStr ''vm:acme:a'')], ct_IsError = False\<rparr>), demo_memory)"
  by code_simp

theorem success_checked_witness:
  "\<exists>c. gomap_get (sv_Capabilities (demo_server None)) ''look'' = Some c \<and>
    validateProducedResources (\<lambda>n. 2 * n) (hc_Definition c) (AMap [(''uri'', AStr ''vm:acme:a'')]) ''acme'' = None"
proof -
  have "\<not> isLifecycleTool ''look''" by code_simp
  then show ?thesis using success_checked [OF demo_success] by (auto simp: demo_server_def)
qed

text \<open>A server that keeps the records of invocations, and nothing else.\<close>

definition recording_server :: "CapabilityInvocationRecord list Server" where
  "recording_server =
     \<lparr>sv_Catalog = \<lparr>sn_ProviderID = [], sn_Revision = ''r1'', sn_Tools = [], sn_Edges = []\<rparr>, sv_Capabilities = [],
      sv_Agent = \<lparr>sh_TenantID = ''acme'', sh_InstanceID = [], sh_SharedHostOwnerInstance = [], sh_ResourceRegistry = None\<rparr>,
      sv_AgentID = [], sv_Adopt = (\<lambda>_ _. ([], Inr None)), sv_Admission = None, sv_Registered = (\<lambda>_. None),
      sv_Record = Some (\<lambda>row w. w @ [row]), sv_Lifecycle = (\<lambda>_ _ _ w. (Inr None, None, w)), sv_Growth = (\<lambda>n. 2 * n),
      sv_Convert = (\<lambda>_. 0), sv_Text = (\<lambda>_. [])\<rparr>"

definition secret_descriptor :: CapabilityDescriptor where
  "secret_descriptor = (demo_descriptor ''look'' ''read'' [])\<lparr>cd_InputSchema := Some [(''writeOnly'', ABool True)]\<rparr>"

definition recorded :: "string \<Rightarrow> CapabilityInvocationRecord list" where
  "recorded secret = recordCapabilityInvocation recording_server secret_descriptor (Some [(''token'', AStr secret)]) empty_binding
     (Some \<lparr>ct_Content = [secret], ct_Structured = ANil, ct_IsError = False\<rparr>) zero_observation None []"

lemma one_recorded: "length (recorded ''one'') = 1"
  by code_simp

theorem invocation_hides_witness: "length (recorded ''one'') = 1 \<and> recorded ''one'' = recorded ''two''"
proof -
  have "write_only (Some [(''writeOnly'', ABool True)])" by code_simp
  then have "agree (cd_InputSchema secret_descriptor)
      (map_any (Some [(''token'', AStr ''one'')])) (map_any (Some [(''token'', AStr ''two'')]))"
    by (intro agree.hidden) (simp add: secret_descriptor_def)
  then have "recorded ''one'' = recorded ''two''"
    unfolding recorded_def
    by (rule invocation_hides)
      (auto simp: result_agrees_def observation_agrees_def raw_agrees_def same_presence_def zero_observation_def intro: agree.same)
  then show ?thesis using one_recorded by simp
qed

end
