(* ===== verification/Dispatch_Release.thy ===== *)
theory Dispatch_Release
  imports Dispatch_Laws Reservation_Ownership
begin

text \<open>
  A call leaves no reservation behind, unless giving it back fails. The contract of an admission service is a
  locale, under which every dispatched call gives back what it was admitted with; the reservation service of this
  host meets it, with every fault of its file.
\<close>

section \<open>The contract\<close>

text \<open>\<open>ids\<close> are the stored reservations, \<open>releasable\<close> says that a handle owns the record of its id, if there is one, and
  \<open>failing\<close> that giving it back now fails: the error is discarded, and the record may stay.\<close>

locale admission_service =
  fixes service :: "'w HostResourceService"
    and sound :: "'w \<Rightarrow> bool"
    and ids :: "'w \<Rightarrow> string set"
    and releasable :: "'w \<Rightarrow> Reservation \<Rightarrow> bool"
    and failing :: "'w \<Rightarrow> Reservation \<Rightarrow> bool"
  assumes admit_error: "sound w \<Longrightarrow> hs_Admit service held request w = (Inl e, w') \<Longrightarrow> sound w' \<and> ids w' \<subseteq> ids w"
    and admit_none: "sound w \<Longrightarrow> hs_Admit service held request w = (Inr None, w') \<Longrightarrow> sound w' \<and> ids w' \<subseteq> ids w"
    and admit_ok: "sound w \<Longrightarrow> hs_Admit service held request w = (Inr (Some r), w') \<Longrightarrow>
      sound w' \<and> (ids w' \<subseteq> ids w \<or> ids w' \<subseteq> insert (rv_ID r) (ids w) \<and> releasable w' r)"
    and policy: "sound w \<Longrightarrow> hs_PolicyRevision service w = (revision, w') \<Longrightarrow>
      sound w' \<and> ids w' \<subseteq> ids w \<and> (releasable w r \<longrightarrow> releasable w' r)"
    and release: "sound w \<Longrightarrow> sound (hs_Release service r w) \<and> ids (hs_Release service r w) \<subseteq> ids w \<and>
      (releasable w r \<and> \<not> failing w r \<longrightarrow> rv_ID r \<notin> ids (hs_Release service r w))"

text \<open>The rest of the world leaves the reservations as they are, or fewer.\<close>

definition quieter :: "('w \<Rightarrow> bool) \<Rightarrow> ('w \<Rightarrow> string set) \<Rightarrow> ('w \<Rightarrow> Reservation \<Rightarrow> bool) \<Rightarrow> 'w \<Rightarrow> 'w \<Rightarrow> bool" where
  "quieter sound ids releasable w w' \<longleftrightarrow> (sound w \<longrightarrow> sound w' \<and> ids w' \<subseteq> ids w \<and> (\<forall>r. releasable w r \<longrightarrow> releasable w' r))"

lemma quieter_trans: "quieter s i r w w1 \<Longrightarrow> quieter s i r w1 w2 \<Longrightarrow> quieter s i r w w2"
  unfolding quieter_def by blast

lemma quieter_refl [simp]: "quieter s i r w w"
  by (simp add: quieter_def)

definition calls_quiet :: "('w \<Rightarrow> 'w \<Rightarrow> bool) \<Rightarrow> 'w Server \<Rightarrow> bool" where
  "calls_quiet q sv \<longleftrightarrow> (\<forall>uri kind w. q w (snd (server_resolve sv uri kind w))) \<and>
     (\<forall>c \<in> snd ` set (sv_Capabilities sv). \<forall>ctx args b w. q w (snd (hc_Invoke c ctx args b w))) \<and>
     (\<forall>f. sv_Record sv = Some f \<longrightarrow> (\<forall>row w. q w (f row w)))"

lemma quiet_resolve: "calls_quiet q sv \<Longrightarrow> server_resolve sv uri kind w = (r, w') \<Longrightarrow> q w w'"
  unfolding calls_quiet_def by (metis snd_conv)

lemma quiet_record: "calls_quiet q sv \<Longrightarrow> q w w \<Longrightarrow> q w (recordCapabilityInvocation sv d args b result x failure w)"
  by (auto simp: calls_quiet_def recordCapabilityInvocation_def split: option.splits)

text \<open>A preorder that the parts respect is respected by the whole.\<close>

definition respected :: "('w \<Rightarrow> 'w \<Rightarrow> bool) \<Rightarrow> 'w Server \<Rightarrow> bool" where
  "respected q sv \<longleftrightarrow> calls_quiet q sv \<and> (\<forall>w. q w w) \<and> (\<forall>w w1 w2. q w w1 \<longrightarrow> q w1 w2 \<longrightarrow> q w w2)"

lemma respected_parts:
  assumes "respected q sv"
  shows calls_of: "calls_quiet q sv" and q_refl: "q w w" and q_trans: "q w w1 \<Longrightarrow> q w1 w2 \<Longrightarrow> q w w2"
  using assms unfolding respected_def by blast+

lemma first_quiet:
  assumes rs: "respected q sv"
  shows "resolve_first sv uri kinds e w = (r, w') \<Longrightarrow> q w w'"
proof (induction kinds arbitrary: e w)
  case (Cons b kinds)
  obtain x w1 where x: "server_resolve sv uri (rb_ResourceType b) w = (x, w1)" by fastforce
  then have "q w w1" by (rule quiet_resolve [OF calls_of [OF rs]])
  then show ?case using Cons.IH q_trans [OF rs] Cons.prems x by (cases x) auto
qed (simp add: q_refl [OF rs])

lemma bind_quiet:
  assumes rs: "respected q sv"
  shows "bind_arguments sv name d args arguments w = (r, w') \<Longrightarrow> q w w'"
proof (induction arguments arbitrary: w r w')
  case (Cons a arguments)
  show ?case
  proof (cases "\<exists>uri. Option.bind (argumentValue args a) as_string = Some uri \<and> TrimSpace uri \<noteq> []")
    case True
    then obtain uri where uri: "Option.bind (argumentValue args a) as_string = Some uri" "TrimSpace uri \<noteq> []" by blast
    obtain x w1 where x: "resolve_first sv uri (bindings_for d a) None w = (x, w1)" by fastforce
    obtain y w2 where y: "bind_arguments sv name d args arguments w1 = (y, w2)" by fastforce
    have "w' = w1 \<or> w' = w2" using Cons.prems uri x y by (cases x; cases y) (auto simp: Let_def)
    then show ?thesis using first_quiet [OF rs x] Cons.IH [OF y] q_trans [OF rs] by blast
  next
    case False
    then have "w' = w \<or> bind_arguments sv name d args arguments w = (r, w')"
      using Cons.prems by (auto simp: Let_def split: option.splits if_splits)
    then show ?thesis using Cons.IH q_refl [OF rs] by blast
  qed
qed (simp add: q_refl [OF rs])

lemma binding_quiet:
  assumes rs: "respected q sv"
  shows "resolveExecutionBinding sv name args w = (r, w') \<Longrightarrow> q w w'"
proof -
  assume h: "resolveExecutionBinding sv name args w = (r, w')"
  obtain x w1 where x: "bind_arguments sv name (capabilityDescriptor sv name) args (bound_arguments (capabilityDescriptor sv name)) w = (x, w1)"
    by fastforce
  then have "w' = w1" using h by (cases x) (simp_all add: resolveExecutionBinding_def)
  then show ?thesis using bind_quiet [OF rs x] by simp
qed

lemma complete_quiet:
  assumes rs: "respected q sv"
  shows "complete_bindings sv args ps b w = (b', w') \<Longrightarrow> q w w'"
proof (induction ps arbitrary: b w)
  case (Cons p ps)
  show ?case
  proof (cases "TrimSpace (rb_SourcePath p) \<noteq> ''uri'' \<or> bound_for p (eb_Resources b) \<noteq> None \<or>
      (\<forall>v. as_string (lookup args ''uri'') = Some v \<longrightarrow> TrimSpace v = [])")
    case True
    then have "w' = w \<or> complete_bindings sv args ps b w = (b', w')"
      using Cons.prems by (auto split: if_splits option.splits)
    then show ?thesis using Cons.IH q_refl [OF rs] by blast
  next
    case False
    then obtain v where v: "as_string (lookup args ''uri'') = Some v" "TrimSpace v \<noteq> []" by blast
    obtain x w1 where x: "server_resolve sv v (rb_ResourceType p) w = (x, w1)" by fastforce
    have "\<exists>b1. complete_bindings sv args ps b1 w1 = (b', w')" using Cons.prems False v x by (cases x) auto
    then show ?thesis using Cons.IH quiet_resolve [OF calls_of [OF rs] x] q_trans [OF rs] by blast
  qed
qed (simp add: q_refl [OF rs])

lemma check_quiet:
  assumes rs: "respected q sv"
  shows "check_result sv c name args b result w = (out, w') \<Longrightarrow> q w w'"
  using quiet_record [OF calls_of [OF rs] q_refl [OF rs]]
  by (auto simp: check_result_def refuse_result_def Let_def split: sum.splits option.splits)

lemma value_quiet:
  assumes rs: "respected q sv" and "c \<in> snd ` set (sv_Capabilities sv)" and "dispatchCapabilityValue sv ctx name args b c w = (out, w')"
  shows "q w w'"
proof -
  obtain b1 w1 where b: "completeProducedResourceBinding sv (hc_Definition c) args b w = (b1, w1)" by fastforce
  then have 1: "q w w1" using complete_quiet [OF rs] by (simp add: completeProducedResourceBinding_def)
  obtain res w2 where i: "hc_Invoke c ctx args b1 w1 = (res, w2)" by fastforce
  then have 2: "q w1 w2" using calls_of [OF rs] assms(2) unfolding calls_quiet_def by (metis snd_conv)
  have "q w2 w'"
  proof (cases res)
    case (Inl e)
    then show ?thesis using assms(3) b i quiet_record [OF calls_of [OF rs] q_refl [OF rs]] by (auto simp: dispatchCapabilityValue_def Let_def)
  next
    case (Inr result)
    have eq: "(case succeeded result of None \<Rightarrow> check_result sv c name args b1 result w2
      | Some r \<Rightarrow> (case materializeBoundResourceOutputs (hc_Definition c) (ct_Structured r) (eb_Resources b1) of
          None \<Rightarrow> (Panicked, w2)
        | Some structured \<Rightarrow> check_result sv c name args b1 (Some (r\<lparr>ct_Structured := structured\<rparr>)) w2)) = (out, w')"
      using assms(3) unfolding dispatchCapabilityValue_def Let_def b prod.case i Inr sum.case by assumption
    show ?thesis
    proof (cases "succeeded result")
      case None
      then show ?thesis using eq check_quiet [OF rs] by simp
    next
      case (Some r0)
      then show ?thesis
        using eq check_quiet [OF rs] q_refl [OF rs]
        by (cases "materializeBoundResourceOutputs (hc_Definition c) (ct_Structured r0) (eb_Resources b1)") auto
    qed
  qed
  then show ?thesis using 1 2 q_trans [OF rs] by blast
qed

lemma dispatch_quiet:
  assumes rs: "respected q sv"
  shows "dispatchRegisteredOrBuiltIn sv ctx name args b w = (out, w') \<Longrightarrow> q w w'"
proof (cases "gomap_get (sv_Capabilities sv) name")
  case (Some c)
  assume h: "dispatchRegisteredOrBuiltIn sv ctx name args b w = (out, w')"
  have "c \<in> snd ` set (sv_Capabilities sv)" using map_of_SomeD [OF Some] by force
  then show ?thesis using h value_quiet [OF rs] Some by (simp add: dispatchRegisteredOrBuiltIn_def)
qed (simp add: dispatchRegisteredOrBuiltIn_def q_refl [OF rs])

context admission_service
begin

abbreviation quiet :: "'w \<Rightarrow> 'w \<Rightarrow> bool" where
  "quiet \<equiv> quieter sound ids releasable"

text \<open>A dispatched call ends with no reservation that was not there before, or with a failing release.\<close>

lemma dispatch_no_leak:
  assumes sv: "calls_quiet quiet sv" "sv_Admission sv = Some service" "\<not> isLifecycleTool name"
    and "sound w" "DispatchTool sv ctx name args w = (out, w')"
  shows "sound w' \<and> (ids w' \<subseteq> ids w \<or>
    (\<exists>r w1. hs_Release service r w1 = w' \<and> releasable w1 r \<and> failing w1 r \<and> ids w' \<subseteq> insert (rv_ID r) (ids w)))"
proof -
  have qc: "respected quiet sv" using sv(1) quieter_trans by (auto simp: respected_def)
  let ?args = "Some (entries args)"
  obtain x w1 where x: "resolveExecutionBinding sv name ?args w = (x, w1)" by fastforce
  then have 1: "sound w1" "ids w1 \<subseteq> ids w"
    using binding_quiet [OF qc x] assms(4) by (auto simp: quieter_def)
  show ?thesis
  proof (cases x)
    case (Inl e)
    then show ?thesis using assms(5) sv x 1 by (auto simp: DispatchTool_def)
  next
    case (Inr b)
    obtain y w2 where y: "admitInvocation sv service ctx name ?args b w1 = (y, w2)" by fastforce
    have out: "(case y of Inl e \<Rightarrow> (Returned (Some (ErrorResult (sv_Text sv) e)), w2)
        | Inr None \<Rightarrow> dispatchRegisteredOrBuiltIn sv ctx name ?args b w2
        | Inr (Some r) \<Rightarrow> dispatch_admitted sv service ctx name ?args b r w2) = (out, w')"
      using assms(5) sv(3) unfolding DispatchTool_def Let_def x Inr sum.case prod.case sv(2) option.case y by (simp only: if_False)
    have y': "y = Inl e \<Longrightarrow> w2 = w1 \<or> (\<exists>held request f. hs_Admit service held request w1 = (Inl f, w2))"
        "y = Inr r \<Longrightarrow> \<exists>held request. hs_Admit service held request w1 = (Inr r, w2)" for e r
      using y by (auto simp: admitInvocation_def admitInvocationWithDescriptor_def Let_def split: sum.splits prod.splits)
    show ?thesis
    proof (cases y)
      case (Inl e)
      then have "sound w2 \<and> ids w2 \<subseteq> ids w1" using y'(1) admit_error [OF 1(1)] 1(1) by blast
      then show ?thesis using out Inl 1 by auto
    next
      case (Inr held)
      then obtain h request where a: "hs_Admit service h request w1 = (Inr held, w2)" using y'(2) by blast
      show ?thesis
      proof (cases held)
        case None
        then have "sound w2 \<and> ids w2 \<subseteq> ids w1" using admit_none [OF 1(1)] a by blast
        moreover have "quiet w2 w'" using out Inr None dispatch_quiet [OF qc] by simp
        ultimately show ?thesis using 1 by (auto simp: quieter_def)
      next
        case (Some r)
        have 2: "sound w2 \<and> (ids w2 \<subseteq> ids w1 \<or> ids w2 \<subseteq> insert (rv_ID r) (ids w1) \<and> releasable w2 r)"
          using admit_ok [OF 1(1)] a Some by blast
        obtain p w3 where p: "hs_PolicyRevision service w2 = (p, w3)" by fastforce
        obtain o4 w4 where d: "dispatchRegisteredOrBuiltIn sv (WithReservation r ctx) name ?args
            (b\<lparr>eb_ReservationID := rv_ID r, eb_ResourcePolicyRevision := p\<rparr>) w3 = (o4, w4)" by fastforce
        have w': "w' = hs_Release service r w4" using out Inr Some p d by (simp add: dispatch_admitted_def)
        have 3: "sound w3 \<and> ids w3 \<subseteq> ids w2 \<and> (releasable w2 r \<longrightarrow> releasable w3 r)" using policy p 2 by blast
        then have 4: "sound w4 \<and> ids w4 \<subseteq> ids w3 \<and> (releasable w3 r \<longrightarrow> releasable w4 r)"
          using dispatch_quiet [OF qc d] by (auto simp: quieter_def)
        show ?thesis
        proof (cases "failing w4 r \<and> releasable w4 r")
          case True
          have "ids w' \<subseteq> insert (rv_ID r) (ids w)" using release [of w4 r] 1 2 3 4 w' by blast
          then show ?thesis using release [of w4 r] 4 3 2 w' True by blast
        next
          case False
          then show ?thesis using release [of w4 r] 1 2 3 4 w' by blast
        qed
      qed
    qed
  qed
qed

end

section \<open>The reservation service of this host\<close>

text \<open>The world of a server whose admission is the store of reservations: the store, the number of calls it
  answered, which selects what the environment answers next, and the rest.\<close>

record 'x ServiceWorld =
  wd_Store :: Store
  wd_Calls :: nat
  wd_Rest :: 'x

definition step_store :: "Store \<Rightarrow> 'x ServiceWorld \<Rightarrow> 'x ServiceWorld" where
  "step_store s w = w\<lparr>wd_Store := s, wd_Calls := Suc (wd_Calls w)\<rparr>"

definition store_service :: "(nat \<Rightarrow> io) \<Rightarrow> 'x ServiceWorld HostResourceService" where
  "store_service envs =
     \<lparr>hs_Admit = (\<lambda>held request w. case Admit (envs (wd_Calls w)) all_costs (wd_Store w) held request of
        (s, Inl e) \<Rightarrow> (Inl e, step_store s w) | (s, Inr r) \<Rightarrow> (Inr (Some r), step_store s w)),
      hs_Release = (\<lambda>r w. case Release (envs (wd_Calls w)) (wd_Store w) r of (s, _) \<Rightarrow> step_store s w),
      hs_PolicyRevision = (\<lambda>w. case Snapshot (envs (wd_Calls w)) (wd_Store w) of
        (s, snapshot) \<Rightarrow> (sn_PolicyRevision snapshot, step_store s w))\<rparr>"

definition sound_store :: "'x ServiceWorld \<Rightarrow> bool" where
  "sound_store w \<longleftrightarrow> store_inv (wd_Store w)"

definition stored_ids :: "'x ServiceWorld \<Rightarrow> string set" where
  "stored_ids w = fst ` set (records_of (wd_Store w))"

definition owned_by :: "'x ServiceWorld \<Rightarrow> Reservation \<Rightarrow> bool" where
  "owned_by w r \<longleftrightarrow> \<not> rv_inherited r \<and> \<not> no_record r \<and>
     (\<forall>p. gomap_get (records_of (wd_Store w)) (rv_ID r) = Some p \<longrightarrow> sameReservationOwner (pr_Request p) (rv_Request r))"

lemma step_store_simps [simp]:
  "wd_Store (step_store s w) = s" "sound_store (step_store s w) = store_inv s" "stored_ids (step_store s w) = fst ` set (records_of s)"
  "owned_by (step_store s w) r \<longleftrightarrow> \<not> rv_inherited r \<and> \<not> no_record r \<and>
     (\<forall>p. gomap_get (records_of s) (rv_ID r) = Some p \<longrightarrow> sameReservationOwner (pr_Request p) (rv_Request r))"
  by (simp_all add: step_store_def sound_store_def stored_ids_def owned_by_def)

lemma live_ids: "fst ` set (live s now) \<subseteq> fst ` set (records_of s)"
  by (auto simp: live_def)

lemma put_ids: "fst ` set (gomap_put k v m) \<subseteq> insert k (fst ` set m)"
  using image_mono [OF set_put_subset [of k v m], of fst] by simp

lemma live_get_some: "store_inv s \<Longrightarrow> gomap_get (live s now) k = Some p \<Longrightarrow> gomap_get (records_of s) k = Some p"
  by (simp add: live_get split: option.splits if_splits)

lemma store_admitted:
  assumes "store_inv s" "Admit env all_costs s held request = (s', Inr r)"
  shows "store_inv s' \<and> (fst ` set (records_of s') \<subseteq> fst ` set (records_of s) \<or>
    fst ` set (records_of s') \<subseteq> insert (rv_ID r) (fst ` set (records_of s)) \<and> \<not> rv_inherited r \<and> \<not> no_record r \<and>
    (\<forall>p. gomap_get (records_of s') (rv_ID r) = Some p \<longrightarrow> sameReservationOwner (pr_Request p) (rv_Request r)))"
  using assms(2)
proof (cases rule: Admit_cases)
  case (Fresh r')
  have ids: "fst ` set (records_of s') \<subseteq> insert (rv_ID r) (fst ` set (records_of s))"
    unfolding Fresh(5) using Fresh(1) put_ids live_ids [of s "io_now env 4"] by (metis (no_types) insert_mono order_trans Inr_inject)
  have "r = admitted_handle env s (default_class request)" using Fresh by simp
  then have "\<not> rv_inherited r" "\<not> no_record r" "rv_Request r = default_class request"
    by (simp_all add: admitted_handle_def no_record_def virtual_id_def newReservationID_def)
  then show ?thesis
    using Admit_inv [OF assms(2) refl assms(1)] ids Fresh(1,5) by (auto simp: admitted_record_def sameReservationOwner_iff)
qed (use assms(1) in auto)

lemma store_refused:
  assumes "store_inv s" "Admit env all_costs s held request = (s', Inl e)"
  shows "store_inv s' \<and> fst ` set (records_of s') \<subseteq> fst ` set (records_of s)"
  using assms(2)
proof (cases rule: Admit_cases)
  case (Refused err)
  then have "fst ` set (records_of s') \<subseteq> fst ` set (records_of s)" using live_ids [of s "io_now env 4"] by (elim disjE) simp_all
  then show ?thesis using Admit_inv [OF assms(2) refl assms(1)] by (rule conjI [rotated])
qed simp_all

lemma store_snapshot:
  assumes "store_inv s" "Snapshot env s = (s', snapshot)"
  shows "store_inv s' \<and> fst ` set (records_of s') \<subseteq> fst ` set (records_of s) \<and>
    (\<forall>k p. gomap_get (records_of s') k = Some p \<longrightarrow> gomap_get (records_of s) k = Some p)"
proof -
  have "records_of s' = records_of s \<or> records_of s' = live s (io_now env 1)" using Snapshot_cases [OF assms(2)] by (rule conjunct1)
  then have "fst ` set (records_of s') \<subseteq> fst ` set (records_of s)"
    "\<forall>k p. gomap_get (records_of s') k = Some p \<longrightarrow> gomap_get (records_of s) k = Some p"
    using live_ids [of s "io_now env 1"] live_get_some [OF assms(1)] by (elim disjE; simp)+
  then show ?thesis using Snapshot_inv [OF assms(2,1)] by simp
qed

text \<open>The release of a handle that the environment makes fail.\<close>

definition release_fails :: "(nat \<Rightarrow> io) \<Rightarrow> 'x ServiceWorld \<Rightarrow> Reservation \<Rightarrow> bool" where
  "release_fails envs w r \<longleftrightarrow> \<not> faultless (envs (wd_Calls w)) \<and> snd (Release (envs (wd_Calls w)) (wd_Store w) r) \<noteq> None"

lemma store_released:
  assumes "store_inv s" "Release env s r = (s', failed)"
  shows "store_inv s' \<and> fst ` set (records_of s') \<subseteq> fst ` set (records_of s) \<and>
    (\<not> rv_inherited r \<and> \<not> no_record r \<and>
      (\<forall>p. gomap_get (records_of s) (rv_ID r) = Some p \<longrightarrow> sameReservationOwner (pr_Request p) (rv_Request r)) \<and>
      (faultless env \<or> failed = None) \<longrightarrow> rv_ID r \<notin> fst ` set (records_of s'))"
proof -
  have fewer: "fst ` set (records_of s') \<subseteq> fst ` set (records_of s)"
    using assms(2) by (cases rule: Release_cases) (auto simp: gomap_del_filter)
  have "rv_ID r \<notin> fst ` set (records_of s')"
    if own: "\<not> rv_inherited r" "\<not> no_record r"
      "\<forall>p. gomap_get (records_of s) (rv_ID r) = Some p \<longrightarrow> sameReservationOwner (pr_Request p) (rv_Request r)"
      "faultless env \<or> failed = None"
  proof (cases "gomap_get (records_of s) (rv_ID r)")
    case None
    then show ?thesis using fewer by (auto simp: map_of_eq_None_iff)
  next
    case (Some p)
    have "records_of s' = gomap_del (rv_ID r) (records_of s)"
    proof (cases "faultless env")
      case True
      from Some have "so_file s \<noteq> FileCorrupt" by (auto simp: records_of_def split: reservation_file.splits)
      then have "\<exists>s1. Release env s r = (s1, None) \<and> records_of s1 = gomap_del (rv_ID r) (records_of s)"
        using own(3) Some store_inv_encodable [OF assms(1)] by (intro Release_own [OF True _ own(1,2) Some]) simp_all
      then show ?thesis using assms(2) by auto
    next
      case False
      then show ?thesis using assms(2) own Some
        by (auto simp: Release_def split: if_splits option.splits sum.splits dest!: readReservations_ok writeReservations_ok)
    qed
    then show ?thesis by (auto simp: gomap_del_filter)
  qed
  then show ?thesis using fewer Release_inv [OF assms(2,1)] by blast
qed

interpretation host_store: admission_service "store_service envs" sound_store stored_ids owned_by "release_fails envs"
proof (unfold_locales, goal_cases)
  case (1 w held request e w')
  then obtain s where s: "Admit (envs (wd_Calls w)) all_costs (wd_Store w) held request = (s, Inl e)" "w' = step_store s w"
    by (auto simp: store_service_def split: prod.splits sum.splits)
  then show ?case using 1(1) store_refused [OF _ s(1)] by (simp add: sound_store_def stored_ids_def)
next
  case (2 w held request w')
  then show ?case by (auto simp: store_service_def split: prod.splits sum.splits)
next
  case (3 w held request r w')
  then obtain s where s: "Admit (envs (wd_Calls w)) all_costs (wd_Store w) held request = (s, Inr r)" "w' = step_store s w"
    by (auto simp: store_service_def split: prod.splits sum.splits)
  then show ?case using 3(1) store_admitted [OF _ s(1)] by (simp add: sound_store_def stored_ids_def)
next
  case (4 w revision w' r)
  then obtain s snapshot where s: "Snapshot (envs (wd_Calls w)) (wd_Store w) = (s, snapshot)" "w' = step_store s w"
    by (auto simp: store_service_def split: prod.splits)
  then show ?case using 4(1) store_snapshot [OF _ s(1)] by (auto simp: sound_store_def stored_ids_def owned_by_def)
next
  case (5 w r)
  obtain s failed where s: "Release (envs (wd_Calls w)) (wd_Store w) r = (s, failed)" by fastforce
  then have "hs_Release (store_service envs) r w = step_store s w" by (simp add: store_service_def)
  then show ?case using 5 store_released [OF _ s] s by (auto simp: sound_store_def stored_ids_def owned_by_def release_fails_def)
qed

text \<open>
  C14: a call gives back what it was admitted with. When nothing else that the server does in the call adds to the
  store of reservations, then after \<open>DispatchTool\<close> of a tool that is not a lifecycle tool the store holds no
  reservation that was not there before the call, whether the call was refused, failed, panicked or succeeded, and
  whatever faults the environment had. The one exception is a call whose last step is the release of its own
  reservation and whose release fails in a faulty environment, an error that the code discards; then that one
  reservation is all that may be left.
\<close>

theorem call_leaves_none:
  assumes "calls_quiet (quieter sound_store stored_ids owned_by) sv" and "sv_Admission sv = Some (store_service envs)"
    and "\<not> isLifecycleTool name" and "store_inv (wd_Store w)" and "DispatchTool sv ctx name args w = (out, w')"
  shows "fst ` set (records_of (wd_Store w')) \<subseteq> fst ` set (records_of (wd_Store w)) \<or>
    (\<exists>r w1 s failure. owned_by w1 r \<and> \<not> faultless (envs (wd_Calls w1)) \<and>
      Release (envs (wd_Calls w1)) (wd_Store w1) r = (s, Some failure) \<and> w' = step_store s w1 \<and>
      fst ` set (records_of (wd_Store w')) \<subseteq> insert (rv_ID r) (fst ` set (records_of (wd_Store w))))"
proof -
  have "stored_ids w' \<subseteq> stored_ids w \<or> (\<exists>r w1. hs_Release (store_service envs) r w1 = w' \<and> owned_by w1 r \<and>
      release_fails envs w1 r \<and> stored_ids w' \<subseteq> insert (rv_ID r) (stored_ids w))"
    using host_store.dispatch_no_leak [OF assms(1,2,3) _ assms(5)] assms(4) by (simp add: sound_store_def)
  then consider "stored_ids w' \<subseteq> stored_ids w"
    | r w1 where "hs_Release (store_service envs) r w1 = w'" "owned_by w1 r" "release_fails envs w1 r"
        "stored_ids w' \<subseteq> insert (rv_ID r) (stored_ids w)"
    by blast
  then show ?thesis
  proof cases
    case 2
    obtain s failed where s: "Release (envs (wd_Calls w1)) (wd_Store w1) r = (s, failed)" by fastforce
    then have "w' = step_store s w1" using 2(1) by (simp add: store_service_def)
    moreover have "\<not> faultless (envs (wd_Calls w1))" "\<exists>failure. failed = Some failure"
      using 2(3) s by (simp_all add: release_fails_def)
    ultimately show ?thesis using 2(2,4) s unfolding stored_ids_def by blast
  qed (simp add: stored_ids_def)
qed

text \<open>A server on the store of reservations with one capability that reads.\<close>

definition store_server :: "unit ServiceWorld Server" where
  "store_server =
     \<lparr>sv_Catalog = \<lparr>sn_ProviderID = [], sn_Revision = ''r1'',
        sn_Tools = [(demo_descriptor ''look'' ''read'' ''builtin'')\<lparr>cd_Requires := [], cd_Produces := []\<rparr>], sn_Edges = []\<rparr>,
      sv_Capabilities = [(''look'', NewLegacyAdapter (\<lambda>_ _. Some True)
        ((demo_descriptor ''look'' ''read'' ''builtin'')\<lparr>cd_Requires := [], cd_Produces := []\<rparr>)
        (\<lambda>ctx args b w. (Inr (Some \<lparr>ct_Content = [], ct_Structured = AMap [], ct_IsError = False\<rparr>), w)))],
      sv_Agent = \<lparr>sh_TenantID = ''acme'', sh_InstanceID = [], sh_SharedHostOwnerInstance = [], sh_ResourceRegistry = None\<rparr>,
      sv_AgentID = ''agent-1'', sv_Adopt = (\<lambda>_ _. ([], Inr None)), sv_Admission = Some (store_service (\<lambda>_. demo_env)),
      sv_Registered = (\<lambda>_. Some ClassNormal), sv_Record = None, sv_Lifecycle = (\<lambda>_ _ _ w. (Inr None, None, w)),
      sv_Growth = (\<lambda>n. 2 * n), sv_Convert = (\<lambda>_. 0), sv_Text = (\<lambda>_. [])\<rparr>"

lemma store_server_quiet: "calls_quiet (quieter sound_store stored_ids owned_by) store_server"
proof -
  have "snd (server_resolve store_server uri kind w) = w" for uri kind w
    by (simp add: server_resolve_def store_server_def ResolveResource_def split: sum.splits)
  moreover have "snd (hc_Invoke c ctx args b w) = w" if "c \<in> snd ` set (sv_Capabilities store_server)" for c ctx args b w
    using that by (auto simp: store_server_def NewLegacyAdapter_def split: option.splits)
  moreover have "sv_Record store_server = None" by (simp add: store_server_def)
  ultimately show ?thesis by (simp add: calls_quiet_def)
qed

theorem call_leaves_none_witness:
  "fst ` set (records_of (wd_Store (snd (DispatchTool store_server demo_context ''look'' (Some [])
     \<lparr>wd_Store = demo_admitted, wd_Calls = 0, wd_Rest = ()\<rparr>)))) \<subseteq> {rv_ID demo_handle}"
proof -
  obtain out w' where d: "DispatchTool store_server demo_context ''look'' (Some [])
      \<lparr>wd_Store = demo_admitted, wd_Calls = 0, wd_Rest = ()\<rparr> = (out, w')" by fastforce
  have "sv_Admission store_server = Some (store_service (\<lambda>_. demo_env))" "\<not> isLifecycleTool ''look''"
    by (simp_all add: store_server_def isLifecycleTool_def lifecycleTools_def)
  moreover have "faultless demo_env" by (simp add: faultless_def demo_env_def)
  ultimately show ?thesis
    using call_leaves_none [OF store_server_quiet, of "\<lambda>_. demo_env", OF _ _ _ d] demo_inv(1) by (simp add: d demo_records_def)
qed

end
