(* ===== verification/Task_Starts.thy ===== *)
theory Task_Starts
  imports Dispatch Tasks "HOL-Library.Multiset"
begin

text \<open>
  The starting of detached tasks and the shutdown that waits for them (\<open>src/internal/hostmcp/server.go\<close>,
  \<open>createAsyncTask\<close> to \<open>cancelPendingAsyncTask\<close>). A task that a provider's callback creates is started only when the
  client polls its handle; until then it is pending, with a timer. Creators, polls, cancellations, timers, workers
  and the closing of the server run at the same time; what one of them does under \<open>asyncTaskStartMu\<close> is one
  function on the fields that the mutex guards, and the rest is a step relation over a multiset of threads.
\<close>

section \<open>Under the mutex\<close>

text \<open>The fields of the server that \<open>asyncTaskStartMu\<close> guards. A pending start is a pointer, here the number it
  was allocated under; \<open>ss_WaitGroup\<close> is the counter of \<open>asyncTaskStartWG\<close>.\<close>

record Starts =
  ss_Pending :: "(string, nat) gomap"
  ss_Closed :: bool
  ss_WaitGroup :: int

definition wg_add :: "int \<Rightarrow> Starts \<Rightarrow> Starts" where
  "wg_add n s = s\<lparr>ss_WaitGroup := ss_WaitGroup s + n\<rparr>"

definition beginAsyncTaskStart :: "Starts \<Rightarrow> bool \<times> Starts" where
  "beginAsyncTaskStart s = (if ss_Closed s then (False, s) else (True, wg_add 1 s))"

text \<open>Whether the start goes on; otherwise the task is cancelled.\<close>

definition startAsyncTaskIfOpen :: "Starts \<Rightarrow> bool \<times> Starts" where
  "startAsyncTaskIfOpen s = (if ss_Closed s then (False, s) else (True, wg_add 1 s))"

definition registerPendingAsyncTaskStart :: "string \<Rightarrow> nat \<Rightarrow> Starts \<Rightarrow> bool \<times> Starts" where
  "registerPendingAsyncTaskStart taskID p s =
     (if ss_Closed s then (False, s) else (True, s\<lparr>ss_Pending := gomap_put taskID p (ss_Pending s)\<rparr>))"

text \<open>A poll takes the pending start, whether or not it then goes on.\<close>

definition startPendingAsyncTask :: "string \<Rightarrow> Starts \<Rightarrow> nat option \<times> Starts" where
  "startPendingAsyncTask taskID s =
     (let taken = s\<lparr>ss_Pending := gomap_del taskID (ss_Pending s)\<rparr> in
      case gomap_get (ss_Pending s) taskID of
        None \<Rightarrow> (None, taken)
      | Some p \<Rightarrow> if ss_Closed s then (None, taken) else (Some p, wg_add 1 taken))"

definition discardPendingAsyncTaskStart :: "string \<Rightarrow> Starts \<Rightarrow> Starts" where
  "discardPendingAsyncTaskStart taskID s = s\<lparr>ss_Pending := gomap_del taskID (ss_Pending s)\<rparr>"

definition expirePendingAsyncTaskStart :: "string \<Rightarrow> nat \<Rightarrow> Starts \<Rightarrow> bool \<times> Starts" where
  "expirePendingAsyncTaskStart taskID expected s =
     (if gomap_get (ss_Pending s) taskID \<noteq> Some expected then (False, s)
      else (True, wg_add 1 (s\<lparr>ss_Pending := gomap_del taskID (ss_Pending s)\<rparr>)))"

definition closePendingAsyncTaskStarts :: "Starts \<Rightarrow> string list \<times> Starts" where
  "closePendingAsyncTaskStarts s = (map fst (ss_Pending s), s\<lparr>ss_Pending := [], ss_Closed := True\<rparr>)"

section \<open>What the threads do\<close>

text \<open>
  A creator has entered \<open>createAsyncTask\<close> (with an owner it leaves a pending start, otherwise it starts at once),
  calls \<open>start\<close> or cancels, and returns. A poll, a worker, an expiry and the closing go through the points of their
  functions; \<open>Closing\<close> has its entries in its hands, \<open>Sweeping\<close> the records that were working, \<open>Waiting\<close> is at
  \<open>Wait\<close>, \<open>Stopped\<close> has passed it.
\<close>

datatype start_thread =
    Creating string bool
  | CreatorStarts string
  | CreatorCancels string string
  | CreatorReturns
  | PollStarts string
  | Worker string
  | Expires string
  | Closing "string list"
  | Sweeping "string list"
  | Waiting
  | Stopped

text \<open>What is recorded: the start of a worker, a call of \<open>cancelPendingAsyncTask\<close> with its message, and a call of the
  registry's \<open>Cancel\<close> for a client.\<close>

datatype start_event = Started string | CancelledTask string string | ClientCancelled string

text \<open>\<open>sw_Used\<close> are the task ids given out, \<open>sw_Next\<close> the next pointer, and \<open>sw_Timers\<close> the timers that were
  armed: a timer that was stopped may have fired already.\<close>

record StartWorld =
  sw_Starts :: Starts
  sw_Threads :: "start_thread multiset"
  sw_Used :: "string set"
  sw_Next :: nat
  sw_Timers :: "(string \<times> nat) set"
  sw_Log :: "start_event list"

definition shutdown_message :: string where
  "shutdown_message = ''The Host Agent shut down before the callback task handle was acknowledged.''"

definition not_started_message :: string where
  "not_started_message = ''The Host Agent shut down before the task could start.''"

definition not_completed_message :: string where
  "not_completed_message = ''The Host Agent shut down before the task completed.''"

definition expired_message :: string where
  "expired_message = ''The callback task handle was not acknowledged before its timeout.''"

definition moves :: "StartWorld \<Rightarrow> Starts \<Rightarrow> start_thread multiset \<Rightarrow> start_event list \<Rightarrow> StartWorld" where
  "moves w s ts evs = w\<lparr>sw_Starts := s, sw_Threads := ts, sw_Log := sw_Log w @ evs\<rparr>"

text \<open>What arrives from outside: a request that creates a task under a fresh id, a poll, a cancellation, a timer,
  and the closing of the server. The method \<open>tasks/cancel\<close> first discards the pending start, under the mutex
  (\<open>cancel_discards\<close>), and then, in a step of its own, cancels the record in the registry (\<open>cancel_records\<close>), unless
  the task is a plan's run, which is cancelled with its plan. The tool \<open>cancel_operation\<close> only does the second.\<close>

inductive arrival :: "StartWorld \<Rightarrow> StartWorld \<Rightarrow> bool" where
  create_task: "beginAsyncTaskStart (sw_Starts w) = (True, s) \<Longrightarrow> taskID \<notin> sw_Used w \<Longrightarrow>
     arrival w ((moves w s (add_mset (Creating taskID owner) (sw_Threads w)) [])\<lparr>sw_Used := insert taskID (sw_Used w)\<rparr>)"
| poll_starts: "startPendingAsyncTask taskID (sw_Starts w) = (Some p, s) \<Longrightarrow>
     arrival w (moves w s (add_mset (PollStarts taskID) (sw_Threads w)) [])"
| poll_nothing: "startPendingAsyncTask taskID (sw_Starts w) = (None, s) \<Longrightarrow> arrival w (moves w s (sw_Threads w) [])"
| cancel_discards: "arrival w (moves w (discardPendingAsyncTaskStart taskID (sw_Starts w)) (sw_Threads w) [])"
| cancel_records: "arrival w (moves w (sw_Starts w) (sw_Threads w) [ClientCancelled taskID])"
| timer_expires: "(taskID, p) \<in> sw_Timers w \<Longrightarrow> expirePendingAsyncTaskStart taskID p (sw_Starts w) = (True, s) \<Longrightarrow>
     arrival w (moves w s (add_mset (Expires taskID) (sw_Threads w)) [])"
| close_server: "closePendingAsyncTaskStarts (sw_Starts w) = (ids, s) \<Longrightarrow>
     arrival w (moves w s (add_mset (Closing ids) (sw_Threads w)) [])"

text \<open>The steps of the threads that are there. The tasks that are swept are whatever the registry lists as
  working.\<close>

inductive advance :: "StartWorld \<Rightarrow> StartWorld \<Rightarrow> bool" where
  register: "sw_Threads w = add_mset (Creating taskID True) ts \<Longrightarrow>
     registerPendingAsyncTaskStart taskID (sw_Next w) (sw_Starts w) = (True, s) \<Longrightarrow>
     advance w ((moves w s (add_mset CreatorReturns ts) [])
       \<lparr>sw_Next := Suc (sw_Next w), sw_Timers := insert (taskID, sw_Next w) (sw_Timers w)\<rparr>)"
| register_late: "sw_Threads w = add_mset (Creating taskID True) ts \<Longrightarrow>
     registerPendingAsyncTaskStart taskID (sw_Next w) (sw_Starts w) = (False, s) \<Longrightarrow>
     advance w (moves w s (add_mset (CreatorCancels taskID shutdown_message) ts) [])"
| start_open: "sw_Threads w = add_mset (Creating taskID False) ts \<Longrightarrow> startAsyncTaskIfOpen (sw_Starts w) = (True, s) \<Longrightarrow>
     advance w (moves w s (add_mset (CreatorStarts taskID) ts) [])"
| start_late: "sw_Threads w = add_mset (Creating taskID False) ts \<Longrightarrow> startAsyncTaskIfOpen (sw_Starts w) = (False, s) \<Longrightarrow>
     advance w (moves w s (add_mset (CreatorCancels taskID not_started_message) ts) [])"
| creator_starts: "sw_Threads w = add_mset (CreatorStarts taskID) ts \<Longrightarrow>
     advance w (moves w (sw_Starts w) (add_mset CreatorReturns (add_mset (Worker taskID) ts)) [Started taskID])"
| creator_cancels: "sw_Threads w = add_mset (CreatorCancels taskID message) ts \<Longrightarrow>
     advance w (moves w (sw_Starts w) (add_mset CreatorReturns ts) [CancelledTask taskID message])"
| creator_returns: "sw_Threads w = add_mset CreatorReturns ts \<Longrightarrow> advance w (moves w (wg_add (- 1) (sw_Starts w)) ts [])"
| poll_runs: "sw_Threads w = add_mset (PollStarts taskID) ts \<Longrightarrow>
     advance w (moves w (sw_Starts w) (add_mset (Worker taskID) ts) [Started taskID])"
| worker_ends: "sw_Threads w = add_mset (Worker taskID) ts \<Longrightarrow> advance w (moves w (wg_add (- 1) (sw_Starts w)) ts [])"
| expiry_cancels: "sw_Threads w = add_mset (Expires taskID) ts \<Longrightarrow>
     advance w (moves w (wg_add (- 1) (sw_Starts w)) ts [CancelledTask taskID expired_message])"
| close_cancels: "sw_Threads w = add_mset (Closing (taskID # ids)) ts \<Longrightarrow>
     advance w (moves w (sw_Starts w) (add_mset (Closing ids) ts) [CancelledTask taskID shutdown_message])"
| close_lists: "sw_Threads w = add_mset (Closing []) ts \<Longrightarrow>
     advance w (moves w (sw_Starts w) (add_mset (Sweeping working) ts) [])"
| sweep_cancels: "sw_Threads w = add_mset (Sweeping (taskID # ids)) ts \<Longrightarrow>
     advance w (moves w (sw_Starts w) (add_mset (Sweeping ids) ts) [CancelledTask taskID not_completed_message])"
| sweep_done: "sw_Threads w = add_mset (Sweeping []) ts \<Longrightarrow> advance w (moves w (sw_Starts w) (add_mset Waiting ts) [])"
| wait_over: "sw_Threads w = add_mset Waiting ts \<Longrightarrow> ss_WaitGroup (sw_Starts w) = 0 \<Longrightarrow>
     advance w (moves w (sw_Starts w) (add_mset Stopped ts) [])"

inductive start_step :: "StartWorld \<Rightarrow> StartWorld \<Rightarrow> bool" where
  arrives: "arrival w w' \<Longrightarrow> start_step w w'"
| advances: "advance w w' \<Longrightarrow> start_step w w'"

definition starts_fresh :: "StartWorld \<Rightarrow> bool" where
  "starts_fresh w \<longleftrightarrow> w = \<lparr>sw_Starts = \<lparr>ss_Pending = [], ss_Closed = False, ss_WaitGroup = 0\<rparr>, sw_Threads = {#},
     sw_Used = {}, sw_Next = 0, sw_Timers = {}, sw_Log = []\<rparr>"

section \<open>The end of a worker\<close>

definition taskCapabilityDescriptor :: "'w Server \<Rightarrow> string \<Rightarrow> CapabilityDescriptor option" where
  "taskCapabilityDescriptor sv name = (case gomap_get (sv_Capabilities sv) name of
     Some c \<Rightarrow> Some (hc_Definition c)
   | None \<Rightarrow> List.find (\<lambda>d. cd_Name d = name \<or> cd_OperationID d = name) (sn_Tools (sv_Catalog sv)))"

definition redacted_mark :: fields where
  "redacted_mark = [(''redacted'', ABool True)]"

definition redactTaskArgs :: "'w Server \<Rightarrow> string \<Rightarrow> fields \<Rightarrow> fields" where
  "redactTaskArgs sv name args = (case taskCapabilityDescriptor sv name of
     None \<Rightarrow> redacted_mark
   | Some d \<Rightarrow> (case redactEvidenceBySchema (AMap args) (cd_InputSchema d) of AMap projected \<Rightarrow> projected | _ \<Rightarrow> redacted_mark))"

definition redactTaskResult :: "'w Server \<Rightarrow> string \<Rightarrow> CallToolResult \<Rightarrow> CallToolResult" where
  "redactTaskResult sv name r = (case taskCapabilityDescriptor sv name of
     None \<Rightarrow> r\<lparr>ct_Structured := AMap redacted_mark\<rparr>
   | Some d \<Rightarrow> r\<lparr>ct_Structured := redactEvidenceBySchema (ct_Structured r) (cd_OutputSchema d)\<rparr>)"

definition text_part :: "string \<Rightarrow> anymap" where
  "text_part text = Some [(''type'', AStr ''text''), (''text'', AStr text)]"

definition task_result :: "'w Server \<Rightarrow> string \<Rightarrow> CallToolResult \<Rightarrow> ToolResult" where
  "task_result sv name r =
     (let redacted = redactTaskResult sv name r in
      \<lparr>to_Content = (if ct_Content r = [] then None else Some (map text_part (ct_Content r))),
       to_StructuredContent = ct_Structured redacted, to_IsError = ct_IsError r\<rparr>)"

text \<open>What the worker does to the registry of tasks with the outcome of its call. A nil result without an error is
  a nil dereference.\<close>

definition settle_task :: "'w Server \<Rightarrow> string \<Rightarrow> string \<Rightarrow> string \<Rightarrow> outcome \<Rightarrow> Registry \<Rightarrow> Registry option" where
  "settle_task sv now name taskID out r = (case out of
     Failed e \<Rightarrow> Some (Fail_task now taskID (sv_Text sv e) r)
   | Returned (Some result) \<Rightarrow> Some (Complete now taskID (task_result sv name result) r)
   | Returned None \<Rightarrow> None
   | Panicked \<Rightarrow> None)"

end
