(* ===== verification/Task_Start_Laws.thy ===== *)
theory Task_Start_Laws
  imports Task_Starts
begin

text \<open>
  The start of a detached task happens at most once and never after the server was closed; the count of the wait
  group is exact, and the closing of the server ends.
\<close>

section \<open>The invariant\<close>

text \<open>The references to the wait group that a thread holds.\<close>

fun held_references :: "start_thread \<Rightarrow> int" where
  "held_references (CreatorStarts _) = 2"
| "held_references (Closing _) = 0"
| "held_references (Sweeping _) = 0"
| "held_references Waiting = 0"
| "held_references Stopped = 0"
| "held_references _ = 1"

text \<open>A task that was created and neither started nor given up is in the hands of one thread, or pending.\<close>

fun in_hand :: "string \<Rightarrow> start_thread \<Rightarrow> nat" where
  "in_hand i (Creating taskID _) = of_bool (taskID = i)"
| "in_hand i (CreatorStarts taskID) = of_bool (taskID = i)"
| "in_hand i (CreatorCancels taskID _) = of_bool (taskID = i)"
| "in_hand i (PollStarts taskID) = of_bool (taskID = i)"
| "in_hand i (Expires taskID) = of_bool (taskID = i)"
| "in_hand i (Closing ids) = count_list ids i"
| "in_hand i _ = 0"

definition undecided :: "string \<Rightarrow> StartWorld \<Rightarrow> nat" where
  "undecided i w = (\<Sum>t \<in># sw_Threads w. in_hand i t) + of_bool (gomap_has (ss_Pending (sw_Starts w)) i)"

text \<open>The events that decide the start of a task: it is started, or the machinery gives it up, because it came too
  late, was not acknowledged in time, or was pending when the server closed. The sweep of the closing, which cancels
  every task that still works, and a client's cancellation decide nothing: a task that was started can be cancelled.\<close>

fun decides :: "string \<Rightarrow> start_event \<Rightarrow> bool" where
  "decides i (Started taskID) \<longleftrightarrow> taskID = i"
| "decides i (CancelledTask taskID message) \<longleftrightarrow> taskID = i \<and> message \<noteq> not_completed_message"
| "decides i (ClientCancelled taskID) \<longleftrightarrow> False"

definition decided :: "string \<Rightarrow> StartWorld \<Rightarrow> nat" where
  "decided i w = length (filter (decides i) (sw_Log w))"

fun closing_thread :: "start_thread \<Rightarrow> bool" where
  "closing_thread (Closing _) = True"
| "closing_thread (Sweeping _) = True"
| "closing_thread Waiting = True"
| "closing_thread Stopped = True"
| "closing_thread _ = False"

definition references_inv :: "StartWorld \<Rightarrow> bool" where
  "references_inv w \<longleftrightarrow> ss_WaitGroup (sw_Starts w) = (\<Sum>t \<in># sw_Threads w. held_references t)"

definition closed_inv :: "StartWorld \<Rightarrow> bool" where
  "closed_inv w \<longleftrightarrow> wf_gomap (ss_Pending (sw_Starts w)) \<and>
     (ss_Closed (sw_Starts w) \<longrightarrow> ss_Pending (sw_Starts w) = []) \<and>
     (\<exists>t \<in># sw_Threads w. closing_thread t) = ss_Closed (sw_Starts w)"

definition stopped_inv :: "StartWorld \<Rightarrow> bool" where
  "stopped_inv w \<longleftrightarrow> (Stopped \<in># sw_Threads w \<longrightarrow> ss_WaitGroup (sw_Starts w) = 0)"

definition decided_inv :: "StartWorld \<Rightarrow> bool" where
  "decided_inv w \<longleftrightarrow> (\<forall>i. undecided i w + decided i w \<le> of_bool (i \<in> sw_Used w))"

definition starts_inv :: "StartWorld \<Rightarrow> bool" where
  "starts_inv w \<longleftrightarrow> references_inv w \<and> closed_inv w \<and> stopped_inv w \<and> decided_inv w"

lemmas start_ops = beginAsyncTaskStart_def startAsyncTaskIfOpen_def registerPendingAsyncTaskStart_def
  startPendingAsyncTask_def discardPendingAsyncTaskStart_def expirePendingAsyncTaskStart_def
  closePendingAsyncTaskStarts_def wg_add_def moves_def

lemma count_keys: "wf_gomap m \<Longrightarrow> count_list (map fst m) i = of_bool (gomap_has m i)"
  by (induction m) (simp, auto simp: wf_gomap_Cons)

lemma shutdown_texts [simp]: "shutdown_message \<noteq> not_completed_message" "not_started_message \<noteq> not_completed_message"
  "expired_message \<noteq> not_completed_message"
  by (simp_all add: shutdown_message_def not_started_message_def not_completed_message_def expired_message_def)

lemma starts_inv_fresh: "starts_fresh w \<Longrightarrow> starts_inv w"
  by (simp add: starts_fresh_def starts_inv_def references_inv_def closed_inv_def stopped_inv_def decided_inv_def
      undecided_def decided_def)

lemma references_arrival: "arrival w w' \<Longrightarrow> references_inv w \<Longrightarrow> references_inv w'"
  by (erule arrival.cases) (auto simp: references_inv_def start_ops Let_def split: if_splits option.splits)

lemma references_advance: "advance w w' \<Longrightarrow> references_inv w \<Longrightarrow> references_inv w'"
  by (erule advance.cases) (auto simp: references_inv_def start_ops split: if_splits)

lemma closed_arrival: "arrival w w' \<Longrightarrow> closed_inv w \<Longrightarrow> closed_inv w'"
  by (erule arrival.cases) (auto simp: closed_inv_def start_ops Let_def split: if_splits option.splits)

lemma closed_advance: "advance w w' \<Longrightarrow> closed_inv w \<Longrightarrow> closed_inv w'"
  by (erule advance.cases) (auto simp: closed_inv_def start_ops split: if_splits)

text \<open>A task stays undecided, or is decided once, or is given up.\<close>

lemma decides_arrival:
  "arrival w w' \<Longrightarrow> closed_inv w \<Longrightarrow>
   undecided i w' + decided i w' \<le> undecided i w + decided i w + of_bool (i \<in> sw_Used w' - sw_Used w)"
  by (erule arrival.cases)
    (auto simp: undecided_def decided_def start_ops closed_inv_def Let_def count_keys split: if_splits option.splits)

lemma decides_advance:
  "advance w w' \<Longrightarrow> undecided i w' + decided i w' \<le> undecided i w + decided i w"
  by (erule advance.cases) (auto simp: undecided_def decided_def start_ops split: if_splits)

lemma used_arrival: "arrival w w' \<Longrightarrow> sw_Used w \<subseteq> sw_Used w'"
  by (erule arrival.cases) (auto simp: moves_def)

lemma used_advance: "advance w w' \<Longrightarrow> sw_Used w' = sw_Used w"
  by (erule advance.cases) (auto simp: moves_def)

lemma decided_arrival: "arrival w w' \<Longrightarrow> closed_inv w \<Longrightarrow> decided_inv w \<Longrightarrow> decided_inv w'"
  using decides_arrival used_arrival unfolding decided_inv_def
  by (smt (verit, ccfv_SIG) Diff_iff add_le_mono1 le_trans of_bool_eq subset_eq add.commute add_0 le_numeral_extra(4))

lemma decided_advance: "advance w w' \<Longrightarrow> decided_inv w \<Longrightarrow> decided_inv w'"
  using decides_advance used_advance unfolding decided_inv_def by (metis le_trans)

lemma held_nonneg: "0 \<le> held_references t"
  by (cases t rule: held_references.cases) simp_all

text \<open>When the counter is zero only threads of the closing are left.\<close>

lemma held_sum: "0 \<le> (\<Sum>t \<in># ts. held_references t)"
  by (induction ts) (auto simp: held_nonneg)

lemma idle_threads: "(\<Sum>t \<in># ts. held_references t) = 0 \<Longrightarrow> t \<in># ts \<Longrightarrow> held_references t = 0"
  by (auto dest!: multi_member_split) (metis add_nonneg_eq_0_iff held_nonneg held_sum)

lemma stopped_closed: "closed_inv w \<Longrightarrow> Stopped \<in># sw_Threads w \<Longrightarrow> ss_Closed (sw_Starts w) \<and> ss_Pending (sw_Starts w) = []"
  unfolding closed_inv_def by force

text \<open>After that nothing starts, and the counter stays where it is.\<close>

definition started_events :: "StartWorld \<Rightarrow> start_event list" where
  "started_events w = filter (\<lambda>e. case e of Started _ \<Rightarrow> True | _ \<Rightarrow> False) (sw_Log w)"

lemma quiet_arrival:
  assumes "arrival w w'" and "ss_Closed (sw_Starts w)" and "ss_Pending (sw_Starts w) = []"
  shows "ss_WaitGroup (sw_Starts w') = ss_WaitGroup (sw_Starts w) \<and> started_events w' = started_events w \<and>
    sw_Threads w \<subseteq># sw_Threads w'"
  using assms(1) by cases (use assms(2,3) in \<open>auto simp: start_ops started_events_def\<close>)

lemma quiet_advance:
  assumes "advance w w'" and "references_inv w" and "ss_WaitGroup (sw_Starts w) = 0"
  shows "ss_WaitGroup (sw_Starts w') = 0 \<and> started_events w' = started_events w \<and>
    (Stopped \<in># sw_Threads w \<longrightarrow> Stopped \<in># sw_Threads w')"
proof -
  have idle: "held_references t = 0" if "sw_Threads w = add_mset t ts" for t ts
    using idle_threads [of "sw_Threads w" t] assms(2,3) that by (simp add: references_inv_def)
  show ?thesis
    using assms(1)
    by cases (use assms(3) in \<open>auto simp: start_ops started_events_def split: if_splits dest: idle\<close>)
qed

lemma stopped_arises:
  assumes "advance w w'" and "Stopped \<in># sw_Threads w'" and "Stopped \<notin># sw_Threads w"
  shows "ss_WaitGroup (sw_Starts w') = 0"
  using assms(1) by cases (use assms(2,3) in \<open>auto simp: start_ops split: if_splits\<close>)

lemma stopped_step:
  assumes "start_step w w'" and "references_inv w" and "closed_inv w" and "stopped_inv w"
  shows "stopped_inv w'"
  using assms(1)
proof cases
  case arrives
  then have "Stopped \<in># sw_Threads w' \<Longrightarrow> Stopped \<in># sw_Threads w"
    by cases (auto simp: moves_def)
  then show ?thesis using quiet_arrival [OF arrives] stopped_closed assms(3,4) by (auto simp: stopped_inv_def)
next
  case advances
  then show ?thesis
    using quiet_advance [OF advances assms(2)] stopped_arises [OF advances] assms(4) by (auto simp: stopped_inv_def)
qed

interpretation starts: invariant_system starts_fresh start_step starts_inv
proof (unfold_locales, goal_cases)
  case (1 w)
  then show ?case by (rule starts_inv_fresh)
next
  case (2 w w')
  then show ?case
    using stopped_step references_arrival references_advance closed_arrival closed_advance decided_arrival decided_advance
    unfolding starts_inv_def by (blast elim: start_step.cases)
qed

section \<open>What the starts guarantee\<close>

text \<open>What is neither in hand nor decided stays so, for a task id that was given out.\<close>

lemma settled_stays:
  assumes "rtranclp start_step w w'" and "starts_inv w" and "undecided i w + decided i w = 0" and "i \<in> sw_Used w"
  shows "undecided i w' + decided i w' = 0 \<and> i \<in> sw_Used w'"
  using assms(1)
proof (induction rule: rtranclp_induct)
  case (step w1 w2)
  have "closed_inv w1" using starts.inv_steps [OF step(1) assms(2)] by (simp add: starts_inv_def)
  from step(2) show ?case
  proof cases
    case arrives
    then have "i \<in> sw_Used w2" using used_arrival step(3) by blast
    then show ?thesis using decides_arrival [OF arrives \<open>closed_inv w1\<close>, of i] step(3) by simp
  next
    case advances
    then show ?thesis using decides_advance [OF advances, of i] used_advance [OF advances] step(3) by simp
  qed
qed (use assms in simp)

lemma pending_undecided: "i \<in> fst ` set (ss_Pending (sw_Starts w)) \<Longrightarrow> gomap_has (ss_Pending (sw_Starts w)) i"
  by (auto simp: map_of_eq_None_iff)

text \<open>
  C28: the start of a detached task is decided once. In every reachable state, for every task id, the worker was
  started or the start was given up (creation too late, handle not acknowledged in time, or pending when the server
  closed) at most once in all, however polls, cancellations, timers, late creators and the closing of the server
  interleave; while the start is pending neither has happened; and once \<open>tasks/cancel\<close> has discarded a pending
  start, the worker is never started. Cancellations of the record by a client, and the sweep of working tasks when
  the server closes, are not counted: they may hit a task that was started, and \<open>cancel_operation\<close>, which discards
  nothing, may be followed by the start.
\<close>
theorem started_once:
  assumes "reaches starts_fresh start_step w"
  shows "length (filter (decides i) (sw_Log w)) \<le> 1 \<and>
    (i \<in> fst ` set (ss_Pending (sw_Starts w)) \<longrightarrow> filter (decides i) (sw_Log w) = [] \<and>
      (\<forall>w'. rtranclp start_step (moves w (discardPendingAsyncTaskStart i (sw_Starts w)) (sw_Threads w) []) w' \<longrightarrow>
        Started i \<notin> set (sw_Log w')))"
proof -
  have inv: "starts_inv w" using starts.inv_reachable [OF assms] .
  then have sum: "undecided i w + decided i w \<le> of_bool (i \<in> sw_Used w)" by (simp add: starts_inv_def decided_inv_def)
  let ?w = "moves w (discardPendingAsyncTaskStart i (sw_Starts w)) (sw_Threads w) []"
  have "filter (decides i) (sw_Log w) = [] \<and> Started i \<notin> set (sw_Log w')"
    if pending: "gomap_has (ss_Pending (sw_Starts w)) i" and steps: "rtranclp start_step ?w w'" for w'
  proof -
    have "wf_gomap (ss_Pending (sw_Starts w))" using inv by (simp add: starts_inv_def closed_inv_def)
    then have zero: "decided i w = 0" "i \<in> sw_Used w" "undecided i ?w + decided i ?w = 0" "sw_Used ?w = sw_Used w"
      using sum pending by (cases "i \<in> sw_Used w"; force simp: undecided_def decided_def start_ops)+
    have "starts_inv ?w" using starts.inv_step [OF arrives [OF cancel_discards] inv] .
    then have "decided i w' = 0" using settled_stays [OF steps] zero by simp
    then show ?thesis using zero(1) by (auto simp: decided_def filter_empty_conv)
  qed
  then have "i \<in> fst ` set (ss_Pending (sw_Starts w)) \<longrightarrow> filter (decides i) (sw_Log w) = [] \<and>
      (\<forall>w'. rtranclp start_step ?w w' \<longrightarrow> Started i \<notin> set (sw_Log w'))"
    using pending_undecided by blast
  moreover have "decided i w \<le> 1" using sum by (cases "i \<in> sw_Used w") simp_all
  ultimately show ?thesis by (simp add: decided_def)
qed

text \<open>
  C29: after the server was closed nothing runs. When the closing has passed its wait, no creator, worker or expiry
  is left, and nothing that happens afterwards starts a task, or makes the counter of the wait group differ from
  zero.
\<close>
theorem closed_quiet:
  assumes "reaches starts_fresh start_step w" and "Stopped \<in># sw_Threads w" and "rtranclp start_step w w'"
  shows "started_events w' = started_events w \<and> ss_WaitGroup (sw_Starts w') = 0 \<and>
    filter_mset (\<lambda>t. \<not> closing_thread t) (sw_Threads w') = {#}"
proof -
  have inv: "starts_inv w1" if "rtranclp start_step w w1" for w1
    using starts.inv_steps [OF that] starts.inv_reachable [OF assms(1)] by blast
  have "started_events w' = started_events w \<and> Stopped \<in># sw_Threads w'"
    using assms(3)
  proof (induction rule: rtranclp_induct)
    case (step w1 w2)
    then have w1: "references_inv w1" "closed_inv w1" "ss_WaitGroup (sw_Starts w1) = 0"
      using inv by (auto simp: starts_inv_def stopped_inv_def)
    from step(2) show ?case
    proof cases
      case arrives
      then show ?thesis using quiet_arrival [OF arrives] stopped_closed [OF w1(2)] step(3) by (auto dest: mset_subset_eqD)
    next
      case advances
      then show ?thesis using quiet_advance [OF advances w1(1,3)] step(3) by simp
    qed
  qed (use assms(2) in simp)
  moreover then have "ss_WaitGroup (sw_Starts w') = 0" using inv [OF assms(3)] by (simp add: starts_inv_def stopped_inv_def)
  moreover then have "held_references t = 0" if "t \<in># sw_Threads w'" for t
    using that idle_threads inv [OF assms(3)] by (auto simp: starts_inv_def references_inv_def)
  then have "closing_thread t" if "t \<in># sw_Threads w'" for t using that by (cases t) fastforce+
  then have "filter_mset (\<lambda>t. \<not> closing_thread t) (sw_Threads w') = {#}" by (auto simp flip: set_mset_eq_empty_iff)
  ultimately show ?thesis by blast
qed

section \<open>The closing ends\<close>

fun phases_left :: "start_thread \<Rightarrow> nat" where
  "phases_left (Creating _ _) = 5"
| "phases_left (CreatorStarts _) = 4"
| "phases_left (CreatorCancels _ _) = 2"
| "phases_left CreatorReturns = 1"
| "phases_left (PollStarts _) = 2"
| "phases_left (Worker _) = 1"
| "phases_left (Expires _) = 1"
| "phases_left (Closing _) = 3"
| "phases_left (Sweeping _) = 2"
| "phases_left Waiting = 1"
| "phases_left Stopped = 0"

fun entries_left :: "start_thread \<Rightarrow> nat" where
  "entries_left (Closing ids) = length ids"
| "entries_left (Sweeping ids) = length ids"
| "entries_left _ = 0"

definition work_left :: "StartWorld \<Rightarrow> nat \<times> nat" where
  "work_left w = ((\<Sum>t \<in># sw_Threads w. phases_left t), \<Sum>t \<in># sw_Threads w. entries_left t)"

lemma advance_works: "advance w w' \<Longrightarrow> (work_left w', work_left w) \<in> less_than <*lex*> less_than"
  by (erule advance.cases) (auto simp: work_left_def moves_def)

lemma advance_ends: "\<not> (\<exists>f. \<forall>n. advance (f n) (f (Suc n)))"
proof
  assume "\<exists>f. \<forall>n. advance (f n) (f (Suc n))"
  then obtain f where f: "\<And>n. advance (f n) (f (Suc n))" by blast
  have "wf (less_than <*lex*> less_than)" by (rule wf_lex_prod) simp_all
  then have "\<exists>n. (work_left (f (Suc n)), work_left (f n)) \<notin> less_than <*lex*> less_than"
    unfolding wf_iff_no_infinite_down_chain by (simp only: not_ex not_all) (erule allE [of _ "\<lambda>n. work_left (f n)"])
  then show False using advance_works [OF f] by blast
qed

lemma held_runs:
  assumes "t \<in># sw_Threads w" and "t \<noteq> Stopped" and "t \<noteq> Waiting"
  shows "\<exists>w'. advance w w'"
proof -
  obtain ts where ts: "sw_Threads w = add_mset t ts" using multi_member_split [OF assms(1)] by blast
  show ?thesis
  proof (cases t)
    case (Creating i owner)
    show ?thesis
    proof (cases owner)
      case True
      obtain ok s where r: "registerPendingAsyncTaskStart i (sw_Next w) (sw_Starts w) = (ok, s)" by fastforce
      show ?thesis
        using register [of w i ts s] register_late [of w i ts s] ts Creating True r
        by (cases ok) auto
    next
      case False
      obtain ok s where r: "startAsyncTaskIfOpen (sw_Starts w) = (ok, s)" by fastforce
      show ?thesis
        using start_open [of w i ts s] start_late [of w i ts s] ts Creating False r
        by (cases ok) auto
    qed
  next
    case (Closing ids)
    then show ?thesis using ts by (cases ids) (blast intro: close_cancels close_lists)+
  next
    case (Sweeping ids)
    then show ?thesis using ts by (cases ids) (blast intro: sweep_cancels sweep_done)+
  qed (use ts assms(2,3) in \<open>blast intro: advance.intros\<close>)+
qed

text \<open>
  C27: the closing of the server returns. From any reachable state the threads that are there cannot take steps for
  ever, provided that every dispatched call returns; and where none of them can take a step, every closing has
  passed its wait: neither a lost wake-up nor a reference that is never given back can hold the shutdown.
\<close>
theorem close_returns:
  assumes "reaches starts_fresh start_step w"
  shows "\<not> (\<exists>f. f 0 = w \<and> (\<forall>n. advance (f n) (f (Suc n)))) \<and>
    ((\<exists>w'. advance w w') \<or> set_mset (sw_Threads w) \<subseteq> {Stopped})"
proof -
  have "set_mset (sw_Threads w) \<subseteq> {Stopped}" if stuck: "\<not> (\<exists>w'. advance w w')"
  proof -
    have only: "t = Stopped \<or> t = Waiting" if "t \<in># sw_Threads w" for t using held_runs stuck that by blast
    then have "ss_WaitGroup (sw_Starts w) = 0"
      using starts.inv_reachable [OF assms] by (fastforce simp: starts_inv_def references_inv_def intro!: sum_mset.neutral)
    then have "Waiting \<notin># sw_Threads w" using stuck wait_over by (metis multi_member_split)
    then show ?thesis using only by blast
  qed
  then show ?thesis using advance_ends by blast
qed

section \<open>A run\<close>

text \<open>A delegated task is created, its handle polled, its worker runs while the server is closed, and ends.\<close>

definition demo_world :: "(string, nat) gomap \<Rightarrow> bool \<Rightarrow> int \<Rightarrow> start_thread list \<Rightarrow> start_event list \<Rightarrow> StartWorld" where
  "demo_world pending shut wg ts evs =
     \<lparr>sw_Starts = \<lparr>ss_Pending = pending, ss_Closed = shut, ss_WaitGroup = wg\<rparr>, sw_Threads = mset ts,
      sw_Used = {''t1''}, sw_Next = 1, sw_Timers = {(''t1'', 0)}, sw_Log = evs\<rparr>"

definition demo_polled :: StartWorld where
  "demo_polled = demo_world [] False 1 [PollStarts ''t1''] []"

definition demo_closed :: StartWorld where
  "demo_closed = demo_world [] True 0 [Stopped] [Started ''t1'']"

lemma demo_pending: "reaches starts_fresh start_step (demo_world [(''t1'', 0)] False 0 [] [])"
proof -
  let ?w0 = "\<lparr>sw_Starts = \<lparr>ss_Pending = [], ss_Closed = False, ss_WaitGroup = 0\<rparr>, sw_Threads = {#},
     sw_Used = {}, sw_Next = 0, sw_Timers = {}, sw_Log = []\<rparr> :: StartWorld"
  let ?w1 = "?w0\<lparr>sw_Starts := \<lparr>ss_Pending = [], ss_Closed = False, ss_WaitGroup = 1\<rparr>,
     sw_Threads := {#Creating ''t1'' True#}, sw_Used := {''t1''}\<rparr>"
  have "arrival ?w0 ?w1"
    using create_task [of ?w0 "sw_Starts ?w1" "''t1''" True] by (simp add: start_ops)
  moreover have "advance ?w1 (demo_world [(''t1'', 0)] False 1 [CreatorReturns] [])"
    using register [of ?w1 "''t1''" "{#}" "\<lparr>ss_Pending = [(''t1'', 0)], ss_Closed = False, ss_WaitGroup = 1\<rparr>"]
    by (simp add: start_ops demo_world_def)
  moreover have "advance (demo_world [(''t1'', 0)] False 1 [CreatorReturns] []) (demo_world [(''t1'', 0)] False 0 [] [])"
    using creator_returns [of "demo_world [(''t1'', 0)] False 1 [CreatorReturns] []" "{#}"]
    by (simp add: start_ops demo_world_def)
  moreover have "reaches starts_fresh start_step ?w0" by (rule reaches_start) (simp add: starts_fresh_def)
  ultimately show ?thesis by (blast intro: reaches_step arrives advances)
qed

lemma demo_polled_reachable: "reaches starts_fresh start_step demo_polled"
proof -
  have "arrival (demo_world [(''t1'', 0)] False 0 [] []) demo_polled"
    using poll_starts [of "''t1''" "demo_world [(''t1'', 0)] False 0 [] []" 0 "sw_Starts demo_polled"]
    by (simp add: start_ops demo_world_def demo_polled_def)
  then show ?thesis using demo_pending by (blast intro: reaches_step arrives)
qed

lemma demo_closed_reachable: "reaches starts_fresh start_step demo_closed"
proof -
  note world = start_ops demo_world_def demo_polled_def demo_closed_def
  let ?log = "[Started ''t1'']"
  have 1: "advance demo_polled (demo_world [] False 1 [Worker ''t1''] ?log)"
    using poll_runs [of demo_polled "''t1''" "{#}"] by (simp add: world)
  have 2: "arrival (demo_world [] False 1 [Worker ''t1''] ?log) (demo_world [] True 1 [Closing [], Worker ''t1''] ?log)"
    using close_server [of "demo_world [] False 1 [Worker ''t1''] ?log" "[]"] by (simp add: world)
  have 3: "advance (demo_world [] True 1 [Closing [], Worker ''t1''] ?log) (demo_world [] True 0 [Closing []] ?log)"
    using worker_ends [of "demo_world [] True 1 [Closing [], Worker ''t1''] ?log" "''t1''" "{#Closing []#}"]
    by (simp add: world add_mset_commute)
  have 4: "advance (demo_world [] True 0 [Closing []] ?log) (demo_world [] True 0 [Sweeping []] ?log)"
    using close_lists [of "demo_world [] True 0 [Closing []] ?log" "{#}" "[]"] by (simp add: world)
  have 5: "advance (demo_world [] True 0 [Sweeping []] ?log) (demo_world [] True 0 [Waiting] ?log)"
    using sweep_done [of "demo_world [] True 0 [Sweeping []] ?log" "{#}"] by (simp add: world)
  have 6: "advance (demo_world [] True 0 [Waiting] ?log) demo_closed"
    using wait_over [of "demo_world [] True 0 [Waiting] ?log" "{#}"] by (simp add: world)
  note reaches_step [OF demo_polled_reachable, OF advances [OF 1]]
  note reaches_step [OF this, OF arrives [OF 2]]
  note reaches_step [OF this, OF advances [OF 3]]
  note reaches_step [OF this, OF advances [OF 4]]
  note reaches_step [OF this, OF advances [OF 5]]
  from reaches_step [OF this, OF advances [OF 6]] show ?thesis .
qed

text \<open>A cancellation that discards nothing: \<open>cancel_operation\<close> cancels the record of a pending task, and the next poll
  starts the task.\<close>

lemma cancelled_starts:
  "reaches starts_fresh start_step (demo_world [] False 1 [Worker ''t1''] [ClientCancelled ''t1'', Started ''t1''])"
proof -
  note world = start_ops demo_world_def
  have 1: "arrival (demo_world [(''t1'', 0)] False 0 [] []) (demo_world [(''t1'', 0)] False 0 [] [ClientCancelled ''t1''])"
    using cancel_records [of "demo_world [(''t1'', 0)] False 0 [] []" "''t1''"] by (simp add: world)
  have 2: "arrival (demo_world [(''t1'', 0)] False 0 [] [ClientCancelled ''t1''])
      (demo_world [] False 1 [PollStarts ''t1''] [ClientCancelled ''t1''])"
    using poll_starts [of "''t1''" "demo_world [(''t1'', 0)] False 0 [] [ClientCancelled ''t1'']" 0
        "\<lparr>ss_Pending = [], ss_Closed = False, ss_WaitGroup = 1\<rparr>"] by (simp add: world)
  have 3: "advance (demo_world [] False 1 [PollStarts ''t1''] [ClientCancelled ''t1''])
      (demo_world [] False 1 [Worker ''t1''] [ClientCancelled ''t1'', Started ''t1''])"
    using poll_runs [of "demo_world [] False 1 [PollStarts ''t1''] [ClientCancelled ''t1'']" "''t1''" "{#}"] by (simp add: world)
  note reaches_step [OF demo_pending, OF arrives [OF 1]]
  note reaches_step [OF this, OF arrives [OF 2]]
  from reaches_step [OF this, OF advances [OF 3]] show ?thesis .
qed

theorem started_once_witness:
  "length (filter (decides ''t1'') (sw_Log demo_closed)) \<le> 1 \<and> Started ''t1'' \<in> set (sw_Log demo_closed) \<and>
   filter (decides ''t1'') (sw_Log (demo_world [(''t1'', 0)] False 0 [] [])) = []"
  using started_once [OF demo_closed_reachable, of "''t1''"] started_once [OF demo_pending, of "''t1''"]
  by (simp add: demo_closed_def demo_world_def)

theorem closed_quiet_witness: "started_events demo_closed = [Started ''t1''] \<and> ss_WaitGroup (sw_Starts demo_closed) = 0"
proof -
  have "Stopped \<in># sw_Threads demo_closed" by (simp add: demo_closed_def demo_world_def)
  then show ?thesis
    using closed_quiet [OF demo_closed_reachable _ rtranclp.rtrancl_refl]
    by (simp add: demo_closed_def demo_world_def started_events_def)
qed

theorem close_returns_witness:
  "\<not> (\<exists>f. f 0 = demo_polled \<and> (\<forall>n. advance (f n) (f (Suc n)))) \<and> (\<exists>w'. advance demo_polled w')"
  using close_returns [OF demo_polled_reachable] by (simp add: demo_polled_def demo_world_def)

end
