(* ===== verification/Go_Hmac.thy ===== *)
theory Go_Hmac
  imports Go_Crypto
begin

text \<open>
  What the delegation of resources uses of \<open>crypto/hmac\<close> and of the decoder of \<open>encoding/base64\<close>: HMAC over
  SHA-256 (RFC 2104), and the unpadded URL alphabet read back. The decoder skips line breaks and does not look at
  the bits that the last character has to spare.
\<close>

section \<open>HMAC\<close>

definition char_bytes :: "nat list \<Rightarrow> string" where
  "char_bytes bs = map (\<lambda>b. char_of (b mod 256)) bs"

definition hmac_block :: "nat list \<Rightarrow> nat list" where
  "hmac_block key = (let k = (if length key > 64 then Sum256 (char_bytes key) else key) in k @ replicate (64 - length k) 0)"

definition pad_with :: "nat \<Rightarrow> nat list \<Rightarrow> nat list" where
  "pad_with p bs = map (\<lambda>b. b XOR p) bs"

definition hmac_sha256 :: "nat list \<Rightarrow> string \<Rightarrow> nat list" where
  "hmac_sha256 key message =
     (let k = hmac_block key in
      Sum256 (char_bytes (pad_with 92 k @ Sum256 (char_bytes (pad_with 54 k) @ message))))"

section \<open>Base64\<close>

definition b64_alphabet :: string where
  "b64_alphabet = ''ABCDEFGHIJKLMNOPQRSTUVWXYZabcdefghijklmnopqrstuvwxyz0123456789-_''"

definition b64_digit :: "char \<Rightarrow> nat option" where
  "b64_digit c = map_of (zip b64_alphabet [0..<64]) c"

fun decode_digits :: "nat list \<Rightarrow> nat list option" where
  "decode_digits (a # b # c # d # ds) =
     (let v = ((a * 64 + b) * 64 + c) * 64 + d in
      map_option (\<lambda>bs. v div 65536 # v div 256 mod 256 # v mod 256 # bs) (decode_digits ds))"
| "decode_digits [a, b, c] = (let v = (a * 64 + b) * 64 + c in Some [v div 1024, v div 4 mod 256])"
| "decode_digits [a, b] = Some [(a * 64 + b) div 16]"
| "decode_digits [a] = None"
| "decode_digits [] = Some []"

definition RawURLDecodeString :: "string \<Rightarrow> nat list option" where
  "RawURLDecodeString s =
     (let digits = map b64_digit (filter (\<lambda>c. c \<noteq> CHR 0x0A \<and> c \<noteq> CHR 0x0D) s) in
      if None \<in> set digits then None else decode_digits (map the digits))"

section \<open>Reading back\<close>

lemma b64url_alphabet: "b64url n = b64_alphabet ! (n mod 64)"
  by (simp add: b64url_def b64_alphabet_def)

lemma b64_alphabet_ok: "distinct b64_alphabet" "length b64_alphabet = 64"
    "list_all (\<lambda>c. c \<noteq> CHR 0x0A \<and> c \<noteq> CHR 0x0D \<and> c \<noteq> CHR ''.'') b64_alphabet"
  by code_simp+

lemma b64_digit_url [simp]: "b64_digit (b64url n) = Some (n mod 64)"
proof -
  have "map_of (zip b64_alphabet [0..<64]) (b64_alphabet ! (n mod 64)) = Some ([0..<64] ! (n mod 64))"
    using b64_alphabet_ok by (intro map_of_zip_nth) simp_all
  then show ?thesis by (simp add: b64_digit_def b64url_alphabet)
qed

lemma b64url_plain: "b64url n \<noteq> CHR 0x0A" "b64url n \<noteq> CHR 0x0D" "b64url n \<noteq> CHR ''.''"
  using b64_alphabet_ok by (auto simp: b64url_alphabet list_all_length)

lemma encoded_chars: "c \<in> set (RawURLEncoding bs) \<Longrightarrow> \<exists>n. c = b64url n"
  by (induction bs rule: RawURLEncoding.induct) (auto simp: Let_def)

lemma encoded_digits: "map b64_digit (RawURLEncoding bs) = map Some (map (\<lambda>c. the (b64_digit c)) (RawURLEncoding bs))"
  by (auto dest!: encoded_chars)

lemma next_digit: "x div 64 * 64 + x mod 64 = (x :: nat)"
  by (rule div_mult_mod_eq)

lemma three_bytes:
  fixes a b c :: nat
  assumes "a < 256" "b < 256" "c < 256"
  defines "v \<equiv> (a * 256 + b) * 256 + c"
  shows "((v div 262144 mod 64 * 64 + v div 4096 mod 64) * 64 + v div 64 mod 64) * 64 + v mod 64 = v"
    and "v div 65536 = a" and "v div 256 mod 256 = b" and "v mod 256 = c"
proof -
  have high: "v div 256 = a * 256 + b" using assms(3) by (simp add: v_def)
  have "v div 65536 = v div 256 div 256" by (simp flip: div_mult2_eq)
  then show top: "v div 65536 = a" using high assms(2) by simp
  show "v div 256 mod 256 = b" using high assms(2) by simp
  have "v = (a * 256 + b) * 256 + c" by (simp add: v_def)
  then show "v mod 256 = c" using assms(3) by (simp only: mod_mult_self3 mod_less)
  have "v div 262144 = v div 65536 div 4" by (simp flip: div_mult2_eq)
  then have "v div 262144 mod 64 = v div 262144" using top assms(1) by simp
  moreover have "v div 262144 = v div 4096 div 64" "v div 4096 = v div 64 div 64" by (simp_all flip: div_mult2_eq)
  ultimately show "((v div 262144 mod 64 * 64 + v div 4096 mod 64) * 64 + v div 64 mod 64) * 64 + v mod 64 = v"
    by (metis next_digit)
qed

lemma two_bytes:
  fixes a b :: nat
  assumes "a < 256" "b < 256"
  defines "v \<equiv> (a * 256 + b) * 4"
  shows "(v div 4096 mod 64 * 64 + v div 64 mod 64) * 64 + v mod 64 = v" and "v div 1024 = a" and "v div 4 mod 256 = b"
proof -
  have low: "v div 4 = a * 256 + b" by (simp add: v_def)
  have "v div 1024 = v div 4 div 256" by (simp flip: div_mult2_eq)
  then show top: "v div 1024 = a" using low assms(2) by simp
  show "v div 4 mod 256 = b" using low assms(2) by simp
  have "v div 4096 = v div 1024 div 4" by (simp flip: div_mult2_eq)
  then have "v div 4096 mod 64 = v div 4096" using top assms(1) by simp
  moreover have "v div 4096 = v div 64 div 64" by (simp flip: div_mult2_eq)
  ultimately show "(v div 4096 mod 64 * 64 + v div 64 mod 64) * 64 + v mod 64 = v" by (metis next_digit)
qed

lemma one_byte:
  fixes a :: nat
  assumes "a < 256"
  shows "a * 16 div 64 mod 64 * 64 + a * 16 mod 64 = a * 16" and "a * 16 div 16 = a"
proof -
  have "a * 16 div 64 mod 64 = a * 16 div 64" using assms by simp
  then show "a * 16 div 64 mod 64 * 64 + a * 16 mod 64 = a * 16" by (metis next_digit)
qed simp

lemma decode_encoded:
  "list_all (\<lambda>b. b < 256) bs \<Longrightarrow> decode_digits (map (\<lambda>c. the (b64_digit c)) (RawURLEncoding bs)) = Some bs"
proof (induction bs rule: RawURLEncoding.induct)
  case (1 a b c bs)
  then have "a < 256" "b < 256" "c < 256" by simp_all
  note three_bytes [OF this]
  then show ?case
    using 1 by (simp only: RawURLEncoding.simps Let_def list.map b64_digit_url option.sel decode_digits.simps
        list.pred_inject option.map)
next
  case (2 a b)
  then have "a < 256" "b < 256" by simp_all
  note two_bytes [OF this]
  then show ?case
    by (simp only: RawURLEncoding.simps Let_def list.map b64_digit_url option.sel decode_digits.simps)
next
  case (3 a)
  then have "a < 256" by simp
  note one_byte [OF this]
  then show ?case
    by (simp only: RawURLEncoding.simps Let_def list.map b64_digit_url option.sel decode_digits.simps)
qed simp

theorem base64_roundtrip: "list_all (\<lambda>b. b < 256) bs \<Longrightarrow> RawURLDecodeString (RawURLEncoding bs) = Some bs"
proof -
  assume bs: "list_all (\<lambda>b. b < 256) bs"
  have "filter (\<lambda>c. c \<noteq> CHR 0x0A \<and> c \<noteq> CHR 0x0D) (RawURLEncoding bs) = RawURLEncoding bs"
    using b64url_plain by (intro filter_True ballI conjI) (auto dest!: encoded_chars)
  then show ?thesis using decode_encoded [OF bs] by (simp add: RawURLDecodeString_def encoded_digits Let_def o_def image_iff)
qed

end
