(* ===== verification/Delegation.thy ===== *)
theory Delegation
  imports Dispatch Tasks Go_Hmac
begin

text \<open>
  The delegation of a reservation to the callbacks of a provider (\<open>src/internal/hostmcp/resource_delegation.go\<close>,
  \<open>src/internal/mcphttp/resource_delegation.go\<close>). While a provider's operation runs for a durable task, the host
  keeps a signed token for it; a tool call that brings the token back runs under the reservation and the identity
  of that task.
\<close>

section \<open>Claims\<close>

record resourceDelegationClaims =
  rd_Version :: string
  rd_ID :: string
  rd_ReservationID :: string
  rd_AgentID :: string
  rd_TaskID :: string
  rd_TaskOperation :: string
  rd_ProviderID :: string
  rd_ProviderGeneration :: string
  rd_ProviderOperation :: string
  rd_ExpiresAt :: int

definition resourceDelegationVersion :: string where
  "resourceDelegationVersion = ''host-resource-delegation.v1''"

definition resourceDelegationTTL :: int where
  "resourceDelegationTTL = 3600000000000"

definition ResourceDelegationMetaKey :: string where
  "ResourceDelegationMetaKey = ''io.opute/host-resource-delegation''"

text \<open>How \<open>encoding/json\<close> writes and reads the claims: a text that is not UTF-8 does not come back as it was, so
  nothing is assumed of the two functions.\<close>

record ClaimsCodec =
  cc_Marshal :: "resourceDelegationClaims \<Rightarrow> string"
  cc_Unmarshal :: "string \<Rightarrow> resourceDelegationClaims option"

text \<open>The fields of the server that a delegation reads; \<open>de_Tokens\<close> are the active delegations.\<close>

record Delegations =
  de_Codec :: ClaimsCodec
  de_Key :: "nat list"
  de_AgentID :: string
  de_ToolNames :: "string list"
  de_Tokens :: "(string, string) gomap"

definition delegation_mac :: "nat list \<Rightarrow> string \<Rightarrow> string" where
  "delegation_mac key payload = RawURLEncoding (hmac_sha256 key payload)"

definition encoded_payload :: "ClaimsCodec \<Rightarrow> resourceDelegationClaims \<Rightarrow> string" where
  "encoded_payload codec c = RawURLEncoding (map byte (cc_Marshal codec c))"

definition delegation_token :: "Delegations \<Rightarrow> resourceDelegationClaims \<Rightarrow> string" where
  "delegation_token s c = (let payload = encoded_payload (de_Codec s) c in
     payload @ ''.'' @ delegation_mac (de_Key s) payload)"

section \<open>Issuing\<close>

datatype DelegationError =
    OwnerInvalid string
  | TaskInactive
  | ContextInvalid
  | ScopeInvalid
  | DelegationMalformed
  | SignatureInvalid
  | DelegationExpired
  | DelegationInactive

text \<open>\<open>fresh\<close> is the new id, \<open>now\<close> the clock in nanoseconds. No error and no token is a call that delegates nothing.\<close>

definition delegation_claims :: "Delegations \<Rightarrow> Context \<Rightarrow> Reservation \<Rightarrow> string \<Rightarrow> string \<Rightarrow> string \<Rightarrow> string \<Rightarrow> int \<Rightarrow>
    resourceDelegationClaims" where
  "delegation_claims s ctx reservation providerID generationID operationID fresh now =
     \<lparr>rd_Version = resourceDelegationVersion, rd_ID = fresh, rd_ReservationID = rv_ID reservation,
      rd_AgentID = TrimSpace (de_AgentID s), rd_TaskID = cx_TaskID ctx, rd_TaskOperation = cx_OperationID ctx,
      rd_ProviderID = providerID, rd_ProviderGeneration = generationID, rd_ProviderOperation = operationID,
      rd_ExpiresAt = (now + resourceDelegationTTL) div 1000000000\<rparr>"

definition delegation_refused :: "Delegations \<Rightarrow> Registry \<Rightarrow> Context \<Rightarrow> Reservation \<Rightarrow> string \<Rightarrow> string \<Rightarrow> string \<Rightarrow>
    DelegationError option" where
  "delegation_refused s r ctx reservation providerID generationID operationID =
     (let taskOperation = cx_OperationID ctx; taskID = cx_TaskID ctx; request = rv_Request reservation;
          agentID = TrimSpace (de_AgentID s) in
      if taskID = [] \<or> rq_TaskID request \<noteq> taskID
      then Some (OwnerInvalid ''provider callback reservation is not bound to the active durable task'')
      else if taskOperation = [] \<or> rq_OperationID request \<noteq> taskOperation
      then Some (OwnerInvalid ''provider callback operation does not match its reservation owner'')
      else if agentID = [] \<or> rq_AgentID request \<noteq> agentID
      then Some (OwnerInvalid ''provider callback reservation does not belong to this Host Agent'')
      else if \<not> IsWorking taskID r then Some TaskInactive
      else if TrimSpace providerID = [] \<or> TrimSpace generationID = [] \<or> TrimSpace operationID = [] \<or> TrimSpace taskOperation = []
      then Some ContextInvalid
      else None)"

definition withProviderResourceDelegation :: "Delegations \<Rightarrow> Registry \<Rightarrow> Context \<Rightarrow> string \<Rightarrow> string \<Rightarrow> string \<Rightarrow> string \<Rightarrow> int \<Rightarrow>
    (DelegationError + resourceDelegationClaims option) \<times> Delegations" where
  "withProviderResourceDelegation s r ctx providerID generationID operationID fresh now =
     (case ReservationFromContext (cx_Reservation ctx) of
        None \<Rightarrow> (Inr None, s)
      | Some reservation \<Rightarrow>
         if no_record reservation then (Inr None, s)
         else (case delegation_refused s r ctx reservation providerID generationID operationID of
            Some e \<Rightarrow> (Inl e, s)
          | None \<Rightarrow>
             (let c = delegation_claims s ctx reservation providerID generationID operationID fresh now
              in (Inr (Some c), s\<lparr>de_Tokens := gomap_put (rd_ID c) (delegation_token s c) (de_Tokens s)\<rparr>))))"

definition release_delegation :: "resourceDelegationClaims \<Rightarrow> Delegations \<Rightarrow> Delegations" where
  "release_delegation c s = s\<lparr>de_Tokens := gomap_del (rd_ID c) (de_Tokens s)\<rparr>"

section \<open>Verifying\<close>

definition incomplete_claims :: "resourceDelegationClaims \<Rightarrow> bool" where
  "incomplete_claims c \<longleftrightarrow> rd_Version c \<noteq> resourceDelegationVersion \<or> rd_ID c = [] \<or> rd_ReservationID c = [] \<or> rd_AgentID c = [] \<or>
     rd_TaskID c = [] \<or> rd_TaskOperation c = [] \<or> rd_ProviderID c = [] \<or> rd_ProviderGeneration c = [] \<or> rd_ProviderOperation c = []"

definition verifyResourceDelegation :: "Delegations \<Rightarrow> int \<Rightarrow> string \<Rightarrow> DelegationError + resourceDelegationClaims" where
  "verifyResourceDelegation s now token =
     (case Split token (CHR ''.'') of
        [payload, signature] \<Rightarrow>
          (if de_Key s = [] then Inl DelegationMalformed
           else if RawURLDecodeString signature \<noteq> Some (hmac_sha256 (de_Key s) payload) then Inl SignatureInvalid
           else (case RawURLDecodeString payload of
               None \<Rightarrow> Inl DelegationMalformed
             | Some bytes \<Rightarrow>
                (case cc_Unmarshal (de_Codec s) (char_bytes bytes) of
                   None \<Rightarrow> Inl DelegationMalformed
                 | Some c \<Rightarrow>
                    if incomplete_claims c \<or> rd_ExpiresAt c \<le> now div 1000000000 then Inl DelegationExpired
                    else if gomap_get (de_Tokens s) (rd_ID c) \<noteq> Some token then Inl DelegationInactive
                    else Inr c)))
      | _ \<Rightarrow> Inl DelegationMalformed)"

definition ResourceDelegationFromMeta :: "anymap \<Rightarrow> string" where
  "ResourceDelegationFromMeta meta = (case as_string (lookup meta ResourceDelegationMetaKey) of
     None \<Rightarrow> [] | Some delegation \<Rightarrow> TrimSpace delegation)"

definition isHostAgentTool :: "Delegations \<Rightarrow> string \<Rightarrow> bool" where
  "isHostAgentTool s name \<longleftrightarrow> name \<in> set (de_ToolNames s)"

definition WithOperationIdentity :: "string \<Rightarrow> string \<Rightarrow> Context \<Rightarrow> Context" where
  "WithOperationIdentity operationID taskID ctx = ctx\<lparr>cx_OperationID := TrimSpace operationID, cx_TaskID := TrimSpace taskID\<rparr>"

definition delegated_reservation :: "resourceDelegationClaims \<Rightarrow> int \<Rightarrow> Reservation" where
  "delegated_reservation c now =
     \<lparr>rv_ID = rd_ReservationID c,
      rv_Request = zero_request\<lparr>rq_AgentID := rd_AgentID c, rq_TaskID := rd_TaskID c, rq_OperationID := rd_TaskOperation c\<rparr>,
      rv_CreatedAt = now, rv_ExpiresAt = rd_ExpiresAt c * 1000000000, rv_inherited = False, rv_renewed = None\<rparr>"

definition contextForProviderCallback :: "Delegations \<Rightarrow> 'w Server \<Rightarrow> Registry \<Rightarrow> int \<Rightarrow> anymap \<Rightarrow> string \<Rightarrow> Context \<Rightarrow>
    DelegationError + Context" where
  "contextForProviderCallback s sv r now meta toolName ctx =
     (let token = ResourceDelegationFromMeta meta in
      if token = [] then Inr ctx
      else (case verifyResourceDelegation s now token of
          Inl e \<Rightarrow> Inl e
        | Inr c \<Rightarrow>
           if rd_AgentID c \<noteq> TrimSpace (de_AgentID s) \<or> isLifecycleTool toolName \<or> isProviderCapability sv toolName \<or>
              \<not> isHostAgentTool s toolName then Inl ScopeInvalid
           else if \<not> IsWorking (rd_TaskID c) r then Inl TaskInactive
           else Inr (WithOperationIdentity (rd_TaskOperation c) (rd_TaskID c)
             (WithReservation (delegated_reservation c now) ctx))))"

section \<open>The owner of a detached task\<close>

definition zero_instant :: int where
  "zero_instant = - 62135596800000000000"

definition providerCallbackTaskOwnerFromContext :: "Delegations \<Rightarrow> Registry \<Rightarrow> int \<Rightarrow> Context \<Rightarrow>
    DelegationError + (Reservation \<times> string \<times> string) option" where
  "providerCallbackTaskOwnerFromContext s r now ctx =
     (case ReservationFromContext (cx_Reservation ctx) of
        None \<Rightarrow> Inr None
      | Some reservation \<Rightarrow>
         (let operation = cx_OperationID ctx; taskID = cx_TaskID ctx; request = rv_Request reservation in
          if virtual_id (rv_ID reservation) \<or> TrimSpace operation = [] \<or> TrimSpace taskID = [] \<or>
             rq_AgentID request \<noteq> TrimSpace (de_AgentID s) \<or> rq_OperationID request \<noteq> operation \<or> rq_TaskID request \<noteq> taskID
          then Inl (OwnerInvalid ''provider callback reservation and task owner do not match'')
          else if rv_ExpiresAt reservation = zero_instant \<or> rv_ExpiresAt reservation \<le> now then Inl DelegationExpired
          else if \<not> IsWorking taskID r then Inl TaskInactive
          else Inr (Some (reservation, operation, taskID))))"

definition asyncTaskExecutionContext :: "Context \<Rightarrow> string \<Rightarrow> string \<Rightarrow> (Reservation \<times> string \<times> string) option \<Rightarrow> Context" where
  "asyncTaskExecutionContext taskCtx name taskID owner = (case owner of
     None \<Rightarrow> WithOperationIdentity name taskID taskCtx
   | Some (reservation, operation, ownerTask) \<Rightarrow>
       WithOperationIdentity operation ownerTask (WithReservation reservation taskCtx))"

end
