(* ===== verification/Delegation_Laws.thy ===== *)
theory Delegation_Laws
  imports Delegation Dispatch_Laws Reservation_Ownership
begin

text \<open>
  A tool call that brings a delegation runs under exactly the reservation and the task that the delegation was
  issued for, while that is still running; and it borrows capacity, it never gets any of its own. Nothing is
  assumed about the signature: a token is compared with the one that was issued.
\<close>

section \<open>The life of a delegation\<close>

text \<open>The state of the server and the delegations whose operation runs, each with its reservation.\<close>

type_synonym delegation_world = "Delegations \<times> (Reservation \<times> resourceDelegationClaims) set"

inductive delegation_step :: "delegation_world \<Rightarrow> delegation_world \<Rightarrow> bool" where
  issue: "withProviderResourceDelegation s r ctx providerID generationID operationID fresh now = (Inr (Some c), s') \<Longrightarrow>
     cx_Reservation ctx = Some reservation \<Longrightarrow> delegation_step (s, running) (s', insert (reservation, c) running)"
| refuse: "withProviderResourceDelegation s r ctx providerID generationID operationID fresh now = (Inl e, s') \<Longrightarrow>
     delegation_step (s, running) (s', running)"
| finish_call: "(reservation, c) \<in> running \<Longrightarrow>
     delegation_step (s, running) (release_delegation c s, running - {(reservation, c)})"

definition delegation_start :: "delegation_world \<Rightarrow> bool" where
  "delegation_start w \<longleftrightarrow> de_Tokens (fst w) = [] \<and> snd w = {}"

text \<open>The claims of a delegation name the owner of its reservation.\<close>

definition owner_of :: "Reservation \<Rightarrow> string \<times> string \<times> string" where
  "owner_of r = (rq_AgentID (rv_Request r), rq_TaskID (rv_Request r), rq_OperationID (rv_Request r))"

definition issued_for :: "Delegations \<Rightarrow> Reservation \<Rightarrow> resourceDelegationClaims \<Rightarrow> bool" where
  "issued_for s r c \<longleftrightarrow> TrimSpace (rv_ID r) \<noteq> [] \<and> \<not> no_record r \<and> rd_ReservationID c = rv_ID r \<and>
     owner_of r = (rd_AgentID c, rd_TaskID c, rd_TaskOperation c) \<and> rd_AgentID c = TrimSpace (de_AgentID s)"

definition delegations_inv :: "delegation_world \<Rightarrow> bool" where
  "delegations_inv w \<longleftrightarrow> (\<forall>(r, c) \<in> snd w. issued_for (fst w) r c) \<and>
     (\<forall>i token. gomap_get (de_Tokens (fst w)) i = Some token \<longrightarrow>
       (\<exists>(r, c) \<in> snd w. rd_ID c = i \<and> token = delegation_token (fst w) c))"

lemma token_fields [simp]:
  "delegation_token (s\<lparr>de_Tokens := ts\<rparr>) = delegation_token s" "issued_for (s\<lparr>de_Tokens := ts\<rparr>) = issued_for s"
  by (auto simp: fun_eq_iff delegation_token_def issued_for_def)

lemma issued_cases:
  assumes "withProviderResourceDelegation s r ctx p g op fresh now = (res, s')"
  obtains (Issued) c reservation where "res = Inr (Some c)" "cx_Reservation ctx = Some reservation" "issued_for s reservation c"
    "s' = s\<lparr>de_Tokens := gomap_put (rd_ID c) (delegation_token s c) (de_Tokens s)\<rparr>"
  | (Kept) "s' = s" "\<nexists>c. res = Inr (Some c)"
proof (cases "ReservationFromContext (cx_Reservation ctx)")
  case None
  then show ?thesis using assms Kept by (auto simp: withProviderResourceDelegation_def)
next
  case (Some reservation)
  then have held: "cx_Reservation ctx = Some reservation" "TrimSpace (rv_ID reservation) \<noteq> []"
    by (auto simp: ReservationFromContext_def split: option.splits if_splits)
  show ?thesis
  proof (cases "no_record reservation \<or> delegation_refused s r ctx reservation p g op \<noteq> None")
    case True
    then show ?thesis using assms Some Kept by (auto simp: withProviderResourceDelegation_def split: if_splits option.splits)
  next
    case False
    let ?c = "delegation_claims s ctx reservation p g op fresh now"
    have "issued_for s reservation ?c"
      using False held(2)
      by (auto simp: issued_for_def owner_of_def delegation_claims_def delegation_refused_def Let_def split: if_splits)
    then show ?thesis
      using assms Some False held(1) by (intro Issued [of ?c reservation]) (auto simp: withProviderResourceDelegation_def Let_def)
  qed
qed

interpretation delegations: invariant_system delegation_start delegation_step delegations_inv
proof (unfold_locales, goal_cases)
  case (1 w)
  then show ?case by (simp add: delegation_start_def delegations_inv_def)
next
  case (2 w w')
  from 2 show ?case
  proof (induction rule: delegation_step.induct)
    case (issue s r ctx p g op fresh now c s' reservation running)
    from issue(1) show ?case
    proof (cases rule: issued_cases)
      case (Issued c' reservation')
      then show ?thesis using issue(2,3) by (auto simp: delegations_inv_def)
    qed simp
  next
    case (refuse s r ctx p g op fresh now e s' running)
    from refuse(1) show ?case by (cases rule: issued_cases) (use refuse(2) in auto)
  next
    case (finish_call reservation c running s)
    then show ?case by (fastforce simp: delegations_inv_def release_delegation_def)
  qed
qed

section \<open>Reading a token\<close>

lemma char_bytes_byte [simp]: "char_bytes (map byte s) = s"
  by (induction s) (simp_all add: char_bytes_def byte_def)

lemma encoded_no_dot: "CHR ''.'' \<notin> set (RawURLEncoding bs)"
  using b64url_plain(3) encoded_chars by metis

lemma token_parts: "Split (delegation_token s c) (CHR ''.'') =
    [encoded_payload (de_Codec s) c, delegation_mac (de_Key s) (encoded_payload (de_Codec s) c)]"
  using encoded_no_dot
  by (simp add: delegation_token_def Let_def Split_append_sep Split_single delegation_mac_def encoded_payload_def)

lemma verified_live:
  assumes "delegations_inv (s, running)" and "verifyResourceDelegation s now token = Inr d"
  shows "\<exists>r c. (r, c) \<in> running \<and> cc_Unmarshal (de_Codec s) (cc_Marshal (de_Codec s) c) = Some d \<and> rd_ID d = rd_ID c \<and>
    now div 1000000000 < rd_ExpiresAt d"
proof -
  obtain payload signature bytes where p: "Split token (CHR ''.'') = [payload, signature]"
      "RawURLDecodeString payload = Some bytes" "cc_Unmarshal (de_Codec s) (char_bytes bytes) = Some d"
      "now div 1000000000 < rd_ExpiresAt d" "gomap_get (de_Tokens s) (rd_ID d) = Some token"
    using assms(2) unfolding verifyResourceDelegation_def
    by (auto split: list.splits if_splits option.splits)
  have "\<exists>(r, c) \<in> running. rd_ID c = rd_ID d \<and> token = delegation_token s c"
    using assms(1) p(5) by (simp add: delegations_inv_def)
  then obtain r c where c: "(r, c) \<in> running" "rd_ID c = rd_ID d" "token = delegation_token s c" by blast
  have "list_all (\<lambda>b. b < 256) (map byte (cc_Marshal (de_Codec s) c))" by (simp add: list_all_length byte_def)
  then have "bytes = map byte (cc_Marshal (de_Codec s) c)"
    using p(1,2) c(3) token_parts [of s c] base64_roundtrip by (auto simp: encoded_payload_def)
  then show ?thesis using p c by (intro exI [of _ r] exI [of _ c]) simp
qed

text \<open>What a callback's context carries.\<close>

lemma callback_cases:
  assumes "delegations_inv (s, running)" and "contextForProviderCallback s sv r now meta tool ctx = Inr ctx'"
    and "ResourceDelegationFromMeta meta \<noteq> []"
    and "\<forall>(r, c) \<in> running. cc_Unmarshal (de_Codec s) (cc_Marshal (de_Codec s) c) = Some c"
  obtains res c where "(res, c) \<in> running" "issued_for s res c" "IsWorking (rd_TaskID c) r" "now div 1000000000 < rd_ExpiresAt c"
    "\<not> isLifecycleTool tool" "\<not> isProviderCapability sv tool" "isHostAgentTool s tool"
    "ctx' = WithOperationIdentity (rd_TaskOperation c) (rd_TaskID c) (WithReservation (delegated_reservation c now) ctx)"
proof -
  obtain d where d: "verifyResourceDelegation s now (ResourceDelegationFromMeta meta) = Inr d"
      "\<not> isLifecycleTool tool" "\<not> isProviderCapability sv tool" "isHostAgentTool s tool" "IsWorking (rd_TaskID d) r"
      "ctx' = WithOperationIdentity (rd_TaskOperation d) (rd_TaskID d) (WithReservation (delegated_reservation d now) ctx)"
    using assms(2,3) by (auto simp: contextForProviderCallback_def Let_def split: sum.splits if_splits)
  obtain res c where c: "(res, c) \<in> running" "cc_Unmarshal (de_Codec s) (cc_Marshal (de_Codec s) c) = Some d"
      "now div 1000000000 < rd_ExpiresAt d"
    using verified_live [OF assms(1) d(1)] by blast
  then have "d = c" using assms(4) by auto
  moreover have "issued_for s res c" using assms(1) c(1) by (auto simp: delegations_inv_def)
  ultimately show thesis using that [OF c(1)] c(3) d by blast
qed

text \<open>
  C8: a callback acts for the task that its delegation was issued for. A tool call whose token is accepted runs
  under the reservation and for the agent, task and operation of a provider call that is still running, whose task
  is working and whose delegation has not expired; and the tool is one of the host's own, neither a lifecycle tool
  nor one of a provider. The encoding in JSON is assumed to give back the claims of the delegations that are
  running.
\<close>
theorem callback_scoped:
  assumes "reaches delegation_start delegation_step (s, running)"
    and "\<forall>(r, c) \<in> running. cc_Unmarshal (de_Codec s) (cc_Marshal (de_Codec s) c) = Some c"
    and "contextForProviderCallback s sv r now meta tool ctx = Inr ctx'" and "ResourceDelegationFromMeta meta \<noteq> []"
  shows "\<exists>(res, c) \<in> running. IsWorking (rq_TaskID (rv_Request res)) r \<and> now div 1000000000 < rd_ExpiresAt c \<and>
    isHostAgentTool s tool \<and> \<not> isLifecycleTool tool \<and> \<not> isProviderCapability sv tool \<and>
    map_option rv_ID (cx_Reservation ctx') = Some (rv_ID res) \<and> map_option owner_of (cx_Reservation ctx') = Some (owner_of res) \<and>
    cx_OperationID ctx' = TrimSpace (rq_OperationID (rv_Request res)) \<and> cx_TaskID ctx' = TrimSpace (rq_TaskID (rv_Request res))"
  using delegations.inv_reachable [OF assms(1)] assms(3,4,2)
proof (rule callback_cases)
  fix res c
  assume c: "(res, c) \<in> running" "issued_for s res c" "IsWorking (rd_TaskID c) r" "now div 1000000000 < rd_ExpiresAt c"
    "\<not> isLifecycleTool tool" "\<not> isProviderCapability sv tool" "isHostAgentTool s tool"
    "ctx' = WithOperationIdentity (rd_TaskOperation c) (rd_TaskID c) (WithReservation (delegated_reservation c now) ctx)"
  then show ?thesis
    by (intro bexI [of _ "(res, c)"])
      (auto simp: issued_for_def owner_of_def WithOperationIdentity_def WithReservation_def delegated_reservation_def)
qed

lemma nested_only:
  assumes "Admit env order w (Some parent) request = (w', Inr r)" and "TrimSpace (rv_ID parent) \<noteq> []"
    and "rq_ParentReservationID request = rv_ID parent" and "rv_ID parent \<noteq> []"
  shows "rv_inherited r"
proof -
  have "admit_nested env w parent (default_class request) \<noteq> None"
    using assms(3,4) by (simp add: admit_nested_def default_class_def split: option.splits)
  then show ?thesis
    using assms by (auto simp: Admit_def ReservationFromContext_def admit_nested_def Let_def
        split: if_splits option.splits)
qed

text \<open>
  C9: a callback borrows capacity and never gets any of its own. When a call under an accepted delegation is
  admitted, it inherits the reservation of the provider call, the store of reservations is unchanged, and it holds
  a record of that reservation that has not expired and belongs to the same agent, task and operation.
\<close>
theorem callback_borrows:
  assumes "reaches delegation_start delegation_step (s, running)"
    and "\<forall>(r, c) \<in> running. cc_Unmarshal (de_Codec s) (cc_Marshal (de_Codec s) c) = Some c"
    and "contextForProviderCallback s sv r now meta tool ctx = Inr ctx'" and "ResourceDelegationFromMeta meta \<noteq> []"
    and "Admit env order w (cx_Reservation ctx') (admission_request sv ctx' tool args b cost) = (w', Inr h)"
  shows "w' = w \<and> rv_inherited h \<and> (\<exists>(res, c) \<in> running. rv_ID h = rv_ID res \<and>
    (\<exists>p expires. gomap_get (records_of w) (rv_ID res) = Some p \<and> pr_ExpiresAt p = Instant expires \<and>
      io_now env 1 < expires \<and> sameReservationOwner (pr_Request p) (rv_Request res)))"
  using delegations.inv_reachable [OF assms(1)] assms(3,4,2)
proof (rule callback_cases)
  fix res c
  assume c: "(res, c) \<in> running" "issued_for s res c"
    "ctx' = WithOperationIdentity (rd_TaskOperation c) (rd_TaskID c) (WithReservation (delegated_reservation c now) ctx)"
  let ?parent = "delegated_reservation c now"
  have parent: "rv_ID ?parent = rv_ID res" "TrimSpace (rv_ID res) \<noteq> []" "\<not> no_record res"
      "sameReservationOwner p (rv_Request ?parent) \<longleftrightarrow> sameReservationOwner p (rv_Request res)" for p
    using c(2) by (auto simp: issued_for_def owner_of_def delegated_reservation_def sameReservationOwner_iff)
  have held: "cx_Reservation ctx' = Some ?parent"
    using parent(1,2) c(3) by (simp add: WithOperationIdentity_def WithReservation_def)
  then have "rq_ParentReservationID (admission_request sv ctx' tool args b cost) = rv_ID ?parent"
    using parent(1,2) by (simp add: admission_request_def Let_def ReservationFromContext_def)
  moreover have "rv_ID ?parent \<noteq> []" "\<not> virtual_id (rv_ID ?parent)" using parent(1,3) by (simp_all add: no_record_def)
  ultimately have "rv_inherited h"
    using nested_only [of env order w ?parent] assms(5) held parent(1,2) by simp
  note inherit_needs_live_owner [OF assms(5) [unfolded held] this \<open>\<not> virtual_id (rv_ID ?parent)\<close>]
  then have "w' = w \<and> rv_inherited h \<and> rv_ID h = rv_ID res \<and>
    (\<exists>p expires. gomap_get (records_of w) (rv_ID res) = Some p \<and> pr_ExpiresAt p = Instant expires \<and>
      io_now env 1 < expires \<and> sameReservationOwner (pr_Request p) (rv_Request res))"
    using \<open>rv_inherited h\<close> by (simp only: parent(1,4) simp_thms)
  then show ?thesis using c(1) by blast
qed

section \<open>A delegation is accepted while it runs\<close>

lemma Sum256_bytes: "list_all (\<lambda>b. b < 256) (Sum256 s)"
  by (auto simp: Sum256_def Let_def list_all_iff be_bytes_def)

lemma plain_trim:
  assumes "list_all (\<lambda>c. 33 \<le> byte c \<and> byte c < 128) s"
  shows "TrimSpace s = s"
proof -
  have "trim_left t = t" if "list_all (\<lambda>c. 33 \<le> byte c \<and> byte c < 128) t" for t
    using that by (cases t rule: trim_left.cases) (auto simp: ascii_space_def space2_def space3_def)
  moreover have "trim_right_rev t = t" if "list_all (\<lambda>c. 33 \<le> byte c \<and> byte c < 128) t" for t
    using that by (cases t rule: trim_right_rev.cases) (auto simp: ascii_space_def space2_def space3_def)
  ultimately show ?thesis using assms by (simp add: TrimSpace_def)
qed

lemma alphabet_plain: "list_all (\<lambda>c. 33 \<le> byte c \<and> byte c < 128) b64_alphabet"
  by code_simp

lemma encoded_plain: "list_all (\<lambda>c. 33 \<le> byte c \<and> byte c < 128) (RawURLEncoding bs)"
  using alphabet_plain b64_alphabet_ok(2) by (auto simp: list_all_iff b64url_alphabet dest!: encoded_chars)

lemma token_trim [simp]: "TrimSpace (delegation_token s c) = delegation_token s c"
proof (rule plain_trim)
  have "33 \<le> byte (CHR ''.'') \<and> byte (CHR ''.'') < 128" by code_simp
  then show "list_all (\<lambda>c. 33 \<le> byte c \<and> byte c < 128) (delegation_token s c)"
    using encoded_plain by (simp add: delegation_token_def Let_def encoded_payload_def delegation_mac_def)
qed

text \<open>A token that was issued is accepted until its operation ends or its hour is over.\<close>

theorem delegation_accepted:
  assumes "withProviderResourceDelegation s r ctx p g op fresh now = (Inr (Some c), s')" and "fresh \<noteq> []" and "de_Key s \<noteq> []"
    and "cc_Unmarshal (de_Codec s) (cc_Marshal (de_Codec s) c) = Some c" and "now' div 1000000000 < rd_ExpiresAt c"
  shows "verifyResourceDelegation s' now' (delegation_token s' c) = Inr c"
proof -
  have s': "s' = s\<lparr>de_Tokens := gomap_put (rd_ID c) (delegation_token s c) (de_Tokens s)\<rparr>"
    and complete: "\<not> incomplete_claims c"
    using assms(1,2) by (auto simp: withProviderResourceDelegation_def incomplete_claims_def delegation_claims_def
        delegation_refused_def Let_def no_record_def split: option.splits if_splits)
  have "list_all (\<lambda>b. b < 256) (map byte (cc_Marshal (de_Codec s) c))" by (simp add: list_all_length byte_def)
  then have "RawURLDecodeString (encoded_payload (de_Codec s) c) = Some (map byte (cc_Marshal (de_Codec s) c))"
    by (simp add: encoded_payload_def base64_roundtrip)
  moreover have "RawURLDecodeString (delegation_mac k m) = Some (hmac_sha256 k m)" for k m
    by (simp add: delegation_mac_def hmac_sha256_def Let_def base64_roundtrip Sum256_bytes)
  ultimately show ?thesis
    using assms(3-5) complete s' by (simp add: verifyResourceDelegation_def token_parts)
qed

section \<open>A callback\<close>

text \<open>A delegation for the reservation that \<open>held_store\<close> holds, once a task owns it. \<open>demo_codec\<close> stands for the
  JSON of the one set of claims there is.\<close>

definition demo_claims :: resourceDelegationClaims where
  "demo_claims = \<lparr>rd_Version = resourceDelegationVersion, rd_ID = ''d1'', rd_ReservationID = ''r1'', rd_AgentID = ''agent-1'',
     rd_TaskID = ''t1'', rd_TaskOperation = ''run'', rd_ProviderID = ''p'', rd_ProviderGeneration = ''g'',
     rd_ProviderOperation = ''op'', rd_ExpiresAt = 3600\<rparr>"

definition demo_codec :: ClaimsCodec where
  "demo_codec = \<lparr>cc_Marshal = (\<lambda>c. ''{}''), cc_Unmarshal = (\<lambda>_. Some demo_claims)\<rparr>"

definition demo_delegations :: Delegations where
  "demo_delegations = \<lparr>de_Codec = demo_codec, de_Key = [1], de_AgentID = ''agent-1'', de_ToolNames = [''look''], de_Tokens = []\<rparr>"

definition owned_request :: AdmissionRequest where
  "owned_request = demo_request\<lparr>rq_TaskID := ''t1'', rq_OperationID := ''run''\<rparr>"

definition owned_handle :: Reservation where
  "owned_handle = held_handle\<lparr>rv_Request := owned_request\<rparr>"

definition owned_store :: Store where
  "owned_store = demo_store\<lparr>so_file := FileRecords [(''r1'', held_record\<lparr>pr_Request := owned_request\<rparr>)], so_nextCell := 1\<rparr>"

definition callback_tasks :: Registry where
  "callback_tasks = fst (Create [] ''t1'' ''run'' None 1 [] None [])"

definition callback_context :: Context where
  "callback_context = \<lparr>cx_Reservation = Some owned_handle, cx_OperationID = ''run'', cx_TaskID = ''t1'', cx_Lease = None\<rparr>"

definition demo_issued :: Delegations where
  "demo_issued = demo_delegations\<lparr>de_Tokens := [(''d1'', delegation_token demo_delegations demo_claims)]\<rparr>"

lemma demo_trim_names: "TrimSpace ''r1'' = ''r1''" "TrimSpace ''agent-1'' = ''agent-1''" "TrimSpace ''p'' = ''p''"
    "TrimSpace ''g'' = ''g''" "TrimSpace ''op'' = ''op''" "TrimSpace ''run'' = ''run''" "TrimSpace ''t1'' = ''t1''"
  by code_simp+

lemma demo_issue:
  "withProviderResourceDelegation demo_delegations callback_tasks callback_context ''p'' ''g'' ''op'' ''d1'' 0 =
     (Inr (Some demo_claims), demo_issued)"
proof -
  have "delegation_claims demo_delegations callback_context owned_handle ''p'' ''g'' ''op'' ''d1'' 0 = demo_claims"
    by (simp add: delegation_claims_def demo_delegations_def callback_context_def demo_claims_def owned_handle_def
        held_handle_def demo_trim_names resourceDelegationTTL_def)
  moreover have "delegation_refused demo_delegations callback_tasks callback_context owned_handle ''p'' ''g'' ''op'' = None"
    by (simp add: delegation_refused_def callback_context_def owned_handle_def owned_request_def demo_request_def
        demo_delegations_def demo_trim_names callback_tasks_def Create_def create_def newRecord_def IsWorking_def Let_def)
  moreover have "\<not> no_record owned_handle" by (simp add: owned_handle_def no_record_def held_handle_def virtual_id_def)
  moreover have "ReservationFromContext (cx_Reservation callback_context) = Some owned_handle"
    by (simp add: callback_context_def ReservationFromContext_def owned_handle_def held_handle_def demo_trim_names)
  moreover have "rd_ID demo_claims = ''d1''" "de_Tokens demo_delegations = []"
    by (simp_all add: demo_claims_def demo_delegations_def)
  ultimately show ?thesis by (simp add: withProviderResourceDelegation_def demo_issued_def)
qed

lemma demo_running: "reaches delegation_start delegation_step (demo_issued, {(owned_handle, demo_claims)})"
proof -
  have "reaches delegation_start delegation_step (demo_delegations, {})"
    by (rule reaches_start) (simp add: delegation_start_def demo_delegations_def)
  moreover have "delegation_step (demo_delegations, {}) (demo_issued, {(owned_handle, demo_claims)})"
    using delegation_step.issue [OF demo_issue, of owned_handle "{}"] by (simp add: callback_context_def)
  ultimately show ?thesis by (rule reaches_step)
qed

definition callback_meta :: anymap where
  "callback_meta = Some [(ResourceDelegationMetaKey, AStr (delegation_token demo_issued demo_claims))]"

lemma demo_callback:
  "ResourceDelegationFromMeta callback_meta \<noteq> []"
  "\<exists>ctx'. contextForProviderCallback demo_issued (demo_server None) callback_tasks 0 callback_meta ''look''
     demo_context = Inr ctx' \<and> cx_Reservation ctx' = Some (delegated_reservation demo_claims 0) \<and>
     cx_OperationID ctx' = ''run'' \<and> cx_TaskID ctx' = ''t1''"
proof -
  have token: "ResourceDelegationFromMeta callback_meta = delegation_token demo_issued demo_claims"
    by (simp add: ResourceDelegationFromMeta_def callback_meta_def lookup_def)
  moreover have nonempty: "delegation_token demo_issued demo_claims \<noteq> []" by (simp add: delegation_token_def Let_def)
  ultimately show "ResourceDelegationFromMeta callback_meta \<noteq> []" by simp
  have "verifyResourceDelegation demo_issued 0 (delegation_token demo_issued demo_claims) = Inr demo_claims"
    by (rule delegation_accepted [OF demo_issue]) (simp_all add: demo_delegations_def demo_codec_def demo_claims_def)
  moreover have "\<not> isLifecycleTool ''look''" "\<not> isProviderCapability (demo_server None) ''look''" by code_simp+
  moreover have "rd_AgentID demo_claims = TrimSpace (de_AgentID demo_issued)" "isHostAgentTool demo_issued ''look''"
      "IsWorking (rd_TaskID demo_claims) callback_tasks"
    by (simp_all add: demo_issued_def demo_delegations_def isHostAgentTool_def demo_claims_def demo_trim_names
        callback_tasks_def Create_def create_def newRecord_def IsWorking_def Let_def)
  moreover have "rd_ReservationID demo_claims = ''r1''" "rd_TaskOperation demo_claims = ''run''" "rd_TaskID demo_claims = ''t1''"
    by (simp_all add: demo_claims_def)
  ultimately show "\<exists>ctx'. contextForProviderCallback demo_issued (demo_server None) callback_tasks 0 callback_meta ''look''
     demo_context = Inr ctx' \<and> cx_Reservation ctx' = Some (delegated_reservation demo_claims 0) \<and>
     cx_OperationID ctx' = ''run'' \<and> cx_TaskID ctx' = ''t1''"
    using token nonempty
    by (simp add: contextForProviderCallback_def demo_trim_names Let_def WithOperationIdentity_def WithReservation_def
        delegated_reservation_def)
qed

lemma demo_codec_faithful: "\<forall>(r, c) \<in> {(owned_handle, demo_claims)}. cc_Unmarshal (de_Codec demo_issued) (cc_Marshal (de_Codec demo_issued) c) = Some c"
  by (simp add: demo_issued_def demo_delegations_def demo_codec_def)

theorem callback_scoped_witness:
  "\<exists>ctx'. contextForProviderCallback demo_issued (demo_server None) callback_tasks 0 callback_meta ''look'' demo_context = Inr ctx' \<and>
     map_option rv_ID (cx_Reservation ctx') = Some ''r1''"
proof -
  obtain ctx' where ctx: "contextForProviderCallback demo_issued (demo_server None) callback_tasks 0 callback_meta ''look''
      demo_context = Inr ctx'"
    using demo_callback(2) by blast
  then show ?thesis
    using callback_scoped [OF demo_running demo_codec_faithful ctx demo_callback(1)]
    by (simp add: owned_handle_def held_handle_def)
qed

text \<open>The nested request of the callback, at the cost that \<open>demo_request\<close> asks for, on the store that holds the
  reservation of the task.\<close>

lemma demo_borrow:
  assumes "cx_Reservation ctx' = Some (delegated_reservation demo_claims 0)" "cx_OperationID ctx' = ''run''" "cx_TaskID ctx' = ''t1''"
  shows "\<exists>h. Admit (demo_env\<lparr>io_now := \<lambda>_. 1000\<rparr>) all_costs owned_store (cx_Reservation ctx')
    (admission_request (demo_server None\<lparr>sv_AgentID := ''agent-1''\<rparr>) ctx' ''look'' None empty_binding demo_request) = (owned_store, Inr h)"
proof -
  let ?sv = "demo_server None\<lparr>sv_AgentID := ''agent-1''\<rparr>"
  let ?rq = "admission_request ?sv ctx' ''look'' None empty_binding demo_request"
  let ?parent = "delegated_reservation demo_claims 0"
  have rfc: "ReservationFromContext (Some ?parent) = Some ?parent"
    by (simp add: ReservationFromContext_def delegated_reservation_def demo_claims_def demo_trim_names)
  have rq: "?rq = demo_request\<lparr>rq_Operation := ''look'', rq_AgentID := ''agent-1'', rq_OperationID := ''run'', rq_TaskID := ''t1'',
      rq_ResourceURI := [], rq_GenerationID := [], rq_ParentReservationID := ''r1''\<rparr>"
    by (simp add: admission_request_def assms rfc Let_def stringArgument_def lookup_def firstBoundURI_def empty_binding_def)
      (simp add: delegated_reservation_def demo_claims_def)
  have "validateAdmissionRequest all_costs ?rq = None" and "default_class ?rq = ?rq"
    unfolding rq using demo_valid demo_default
    by (simp_all add: validateAdmissionRequest_def all_costs_def demo_request_def zero_request_def default_class_def ClassNormal_def)
  moreover have "validateParentReservation (demo_env\<lparr>io_now := \<lambda>_. 1000\<rparr>) owned_store ?parent = None"
    by (simp add: validateParentReservation_def virtual_id_def sameReservationOwner_iff owned_request_def demo_request_def
        readReservations_def owned_store_def delegated_reservation_def demo_claims_def)
  moreover have "1000 < expiry owned_store ?parent"
    by (simp add: expiry_def delegated_reservation_def demo_claims_def)
  moreover have "\<not> so_closed owned_store" by (simp add: owned_store_def demo_store_def)
  moreover have "reservationOwnerCanInherit (rv_Request ?parent) ?rq" "rq_ParentReservationID ?rq = rv_ID ?parent"
    unfolding rq by (simp_all add: reservationOwnerCanInherit_def delegated_reservation_def demo_claims_def)
  ultimately show ?thesis
    unfolding assms(1) by (simp add: Admit_def rfc admit_nested_def)
qed

theorem callback_borrows_witness:
  "\<exists>p. gomap_get (records_of owned_store) ''r1'' = Some p \<and> sameReservationOwner (pr_Request p) (rv_Request owned_handle)"
proof -
  let ?sv = "demo_server None\<lparr>sv_AgentID := ''agent-1''\<rparr> :: memory Server"
  obtain ctx' where ctx: "contextForProviderCallback demo_issued (demo_server None) callback_tasks 0 callback_meta ''look''
      demo_context = Inr ctx'" "cx_Reservation ctx' = Some (delegated_reservation demo_claims 0)"
      "cx_OperationID ctx' = ''run''" "cx_TaskID ctx' = ''t1''"
    using demo_callback(2) by blast
  have "isProviderCapability ?sv = isProviderCapability (demo_server None)"
    by (simp add: fun_eq_iff isProviderCapability_def)
  then have "contextForProviderCallback demo_issued ?sv callback_tasks 0 callback_meta ''look'' demo_context = Inr ctx'"
    using ctx(1) unfolding contextForProviderCallback_def by (simp only:)
  then show ?thesis
    using callback_borrows [OF demo_running demo_codec_faithful _ demo_callback(1)] demo_borrow [OF ctx(2-4)]
    by (fastforce simp: owned_handle_def held_handle_def)
qed

end
