(* ===== verification/Tool_Calls.thy ===== *)
theory Tool_Calls
  imports Delegation Task_Starts
begin

text \<open>
  The entry of a tool call over MCP (\<open>src/internal/hostmcp/server.go\<close>, \<open>handleToolCall\<close>): the revision of the
  catalog, the delegation of a callback, the gate for mutations, and which of the server's parts answers the call.
\<close>

section \<open>Requests\<close>

text \<open>The metadata of a request, and its arguments as JSON or as a text that is no JSON.\<close>

record ToolRequest =
  tq_Meta :: anymap
  tq_Arguments :: "(string + any) option"

definition requestCatalogRevision :: "ToolRequest \<Rightarrow> string" where
  "requestCatalogRevision req = (case as_string (lookup (tq_Meta req) ''catalogRevision'') of None \<Rightarrow> [] | Some v \<Rightarrow> TrimSpace v)"

definition as_object :: "any \<Rightarrow> fields option" where
  "as_object v = (case v of AMap fs \<Rightarrow> Some fs | ANilMap \<Rightarrow> Some [] | _ \<Rightarrow> None)"

text \<open>A second reading of a failed assertion finds a nil map, which has no extensions.\<close>

definition taskExtensionDeclared :: "ToolRequest \<Rightarrow> bool" where
  "taskExtensionDeclared req =
     (let capabilities = (case as_object (lookup (tq_Meta req) ''io.modelcontextprotocol/clientCapabilities'') of
            Some fs \<Rightarrow> fs
          | None \<Rightarrow> (case as_object (lookup (tq_Meta req) ''clientCapabilities'') of None \<Rightarrow> [] | Some fs \<Rightarrow> fs))
      in case as_object (lookup (Some capabilities) ''extensions'') of
           None \<Rightarrow> False
         | Some extensions \<Rightarrow> gomap_has extensions ''io.modelcontextprotocol/tasks'')"

definition decode_arguments :: "ToolRequest \<Rightarrow> HostError + anymap" where
  "decode_arguments req = (case tq_Arguments req of
     None \<Rightarrow> Inr (Some [])
   | Some (Inl message) \<Rightarrow> Inl (WrapError ''invalid arguments: %w'' (PlainError message []))
   | Some (Inr (AMap fs)) \<Rightarrow> Inr (Some fs)
   | Some (Inr ANil) \<Rightarrow> Inr None
   | Some (Inr ANilMap) \<Rightarrow> Inr None
   | Some (Inr v) \<Rightarrow> Inl (WrapError ''invalid arguments: %w'' (PlainError ''json: cannot unmarshal'' [v])))"

definition structuredResult :: "any \<Rightarrow> string \<Rightarrow> CallToolResult" where
  "structuredResult v message = \<lparr>ct_Content = (if message = [] then [] else [message]), ct_Structured = v, ct_IsError = False\<rparr>"

definition intFromAny :: "(float64 \<Rightarrow> i64) \<Rightarrow> any \<Rightarrow> int" where
  "intFromAny convert v = (case v of AFloat f \<Rightarrow> sint (convert f) | _ \<Rightarrow> 0)"

definition text_argument :: "anymap \<Rightarrow> string \<Rightarrow> string" where
  "text_argument args key = (case as_string (lookup args key) of None \<Rightarrow> [] | Some s \<Rightarrow> s)"

section \<open>The gate\<close>

definition standaloneMutationToolNames :: "string list" where
  "standaloneMutationToolNames =
     [''ensure_sqlite_database'', ''remove_sqlite_database'', ''reconcile_serving_assignment'', ''configure_agent_connection'',
      ''reconcile_postgresql_service'', ''remove_postgresql_service'', ''release_postgresql_service_relay'', ''run_host_command'',
      ''ensure_host_file'', ''remove_host_file'', ''ensure_host_artifact'', ''ensure_public_mcp_tunnel'',
      ''ensure_public_mcp_quick_tunnel'', ''remove_public_mcp_quick_tunnel'', ''extract_host_archive'', ''install_incus_stack'',
      ''uninstall_incus_stack'', ''reset_incus_stack'', ''provision_container'', ''probe_gpu_container'', ''create_vm'',
      ''provision_vm'', ''start_vm'', ''stop_vm'', ''restart_vm'', ''update_vm_resources'', ''delete_vm'', ''install_postgresql'',
      ''delete_postgresql'', ''run_sql'', ''apply_manifest'', ''put_k8s_secret'', ''delete_k8s_resource'', ''install_oci_registry'',
      ''delete_oci_registry'', ''configure_service_domain'', ''remove_service_domain'', ''install_cloudflared_connector'',
      ''delete_cloudflared_connector'', ''ensure_oci_builder'', ''configure_oci_storage'', ''cleanup_container_storage'',
      ''prune_unused_cluster_images'', ''garbage_collect_cluster_registry'', ''trim_guest_storage'', ''compact_wsl_disk'',
      ''build_and_push_oci_image'', ''stage_build_context'', ''ensure_host_tool'', ''prepare_host_agent_artifacts'',
      ''restart_host_service'', ''set_host_service_state'', ''ensure_host_service_supervisor'', ''reconcile_host_resource_policy'',
      ''cancel_operation'', ''run_host_plan'', ''run_host_local_recipe'', ''run_runtime_recipe'', ''run_tunnel_recipe'',
      ''opute.provider.install'', ''opute.provider.reload'', ''opute.provider.teardown'', ''ensure_local_llm_server_binary'',
      ''install_local_llm_model'', ''configure_local_llm_model'', ''start_local_llm_runtime'', ''configure_local_llm_runtime'',
      ''stop_local_llm_runtime'', ''remove_local_llm_model'', ''ensure_local_llm_relay'', ''remove_local_llm_relay'',
      ''ensure_local_llm_k3s_proxy'', ''remove_local_llm_k3s_proxy'']"

definition IsStandaloneMutation :: "string \<Rightarrow> bool" where
  "IsStandaloneMutation name \<longleftrightarrow> name \<in> set standaloneMutationToolNames"

definition TaskAwareTools :: "string list" where
  "TaskAwareTools =
     [''request_task_input'', ''install_cloudflared_connector'', ''delete_cloudflared_connector'', ''configure_network'',
      ''remove_vm_network_device'', ''install_host_agent'', ''run_host_plan'', ''run_host_local_recipe'', ''run_runtime_recipe'',
      ''run_tunnel_recipe'', ''opute.provider.install'', ''opute.provider.reload'', ''opute.provider.teardown'']"

definition dynamicEffect :: "'w Server \<Rightarrow> string \<Rightarrow> string" where
  "dynamicEffect sv name = (case gomap_get (sv_Capabilities sv) name of
     None \<Rightarrow> []
   | Some _ \<Rightarrow> (case capabilityDescriptor sv name of None \<Rightarrow> [] | Some d \<Rightarrow> cd_Effect d))"

section \<open>A task that waits for input\<close>

text \<open>\<open>resume\<close> names the closure that completes the task with the answer, \<open>cancel\<close> the function that cancels its context.
  The record of the task goes to the store as well.\<close>

definition input_description :: string where
  "input_description = ''Waiting for operator input...''"

definition createInputRequestTask :: "'w Server \<Rightarrow> string \<Rightarrow> string \<Rightarrow> nat \<Rightarrow> nat \<Rightarrow> anymap \<Rightarrow> Registry \<Rightarrow> CallToolResult \<times> Registry" where
  "createInputRequestTask sv now uuid cancel resume args r =
     (let prompt = text_argument args ''prompt'';
          requested = text_argument args ''responseType'';
          responseType = (if requested = [] then ''string'' else requested);
          refuse = (\<lambda>message. (ErrorResult (sv_Text sv) (PlainError message []), r)) in
      if TrimSpace prompt = [] then refuse ''request_task_input requires prompt''
      else if responseType \<notin> {''string'', ''boolean''} then refuse ''request_task_input responseType must be string or boolean''
      else
       (let requests = Some [(''response'', AMap [(''type'', AStr responseType), (''prompt'', AStr prompt)])] in
        case CreateWithInput now uuid ''request_task_input'' (Some (redactTaskArgs sv ''request_task_input'' (entries args)))
            3600000000000 input_description None (Some cancel) requests (Some resume) r of
          (r', rec) \<Rightarrow> (\<lparr>ct_Content = [input_description], ct_Structured = AMap (ToCreateTaskResult rec), ct_IsError = False\<rparr>, r')))"

text \<open>What the closure does with the answers.\<close>

definition resume_input_task :: "string \<Rightarrow> string \<Rightarrow> anymap \<Rightarrow> Registry \<Rightarrow> Registry" where
  "resume_input_task now taskID responses r =
     Complete now taskID \<lparr>to_Content = None, to_StructuredContent = AMap [(''response'', lookup responses ''response'')],
       to_IsError = False\<rparr> r"

section \<open>The call\<close>

text \<open>The parts of the server behind the call: what the world says of delegations, tasks and time, the durable
  operations, the tasks, the plans and the consoles. \<open>oc_Cancel\<close> drops its error. Where a part runs capabilities it
  is handed what it runs: \<open>th_AsyncTask\<close> the detached call, whose record it creates and whose worker it starts or
  leaves pending, and \<open>th_RunPlan\<close> the dispatch that the nodes of its plan go through.\<close>

record 'w OperationStore =
  oc_List :: "int \<Rightarrow> 'w \<Rightarrow> HostError + any"
  oc_Get :: "string \<Rightarrow> 'w \<Rightarrow> HostError + any option"
  oc_Cancel :: "string \<Rightarrow> 'w \<Rightarrow> 'w"

record 'w AsyncStart =
  as_Name :: string
  as_Args :: fields
  as_Description :: string
  as_Owner :: "(Reservation \<times> string \<times> string) option"
  as_Run :: "string \<Rightarrow> Context \<Rightarrow> 'w \<Rightarrow> outcome \<times> 'w"
  as_Settle :: "string \<Rightarrow> string \<Rightarrow> outcome \<Rightarrow> Registry \<Rightarrow> Registry option"

record 'w ToolHost =
  th_Server :: "'w Server"
  th_Delegations :: "'w \<Rightarrow> Delegations"
  th_Tasks :: "'w \<Rightarrow> Registry"
  th_Now :: "'w \<Rightarrow> int"
  th_Standalone :: bool
  th_AllowMutations :: bool
  th_State :: "'w OperationStore option"
  th_TaskAware :: "string \<Rightarrow> bool"
  th_AsyncTask :: "'w AsyncStart \<Rightarrow> 'w \<Rightarrow> outcome \<times> 'w"
  th_RunPlan :: "(Context \<Rightarrow> string \<Rightarrow> anymap \<Rightarrow> 'w \<Rightarrow> outcome \<times> 'w) \<Rightarrow> string \<Rightarrow> Context \<Rightarrow> anymap \<Rightarrow> 'w \<Rightarrow>
    (HostError + CallToolResult option) \<times> lease option \<times> 'w"
  th_InputTask :: "anymap \<Rightarrow> 'w \<Rightarrow> outcome \<times> 'w"
  th_CancelPlan :: "string \<Rightarrow> 'w \<Rightarrow> CallToolResult option \<times> 'w"
  th_CancelTask :: "string \<Rightarrow> 'w \<Rightarrow> Task option \<times> 'w"
  th_StreamConsole :: "string \<Rightarrow> string \<Rightarrow> 'w \<Rightarrow> outcome \<times> 'w"
  th_SendConsole :: "string \<Rightarrow> string \<Rightarrow> 'w \<Rightarrow> outcome \<times> 'w"
  th_ResizeConsole :: "string \<Rightarrow> int \<Rightarrow> int \<Rightarrow> 'w \<Rightarrow> outcome \<times> 'w"

definition call_error :: "'w ToolHost \<Rightarrow> HostError \<Rightarrow> outcome" where
  "call_error h e = Returned (Some (ErrorResult (sv_Text (th_Server h)) e))"

definition missingTasksCapabilityError :: HostError where
  "missingTasksCapabilityError = PlainError ''Missing required client capability'' [AFloat (f64_of_int (- 32003))]"

text \<open>The lifecycle tools that run a plan; the others only read, validate, or call a provider's adapter.\<close>

definition planTools :: "string list" where
  "planTools = [''run_host_plan'', ''run_host_local_recipe'', ''run_runtime_recipe'', ''run_tunnel_recipe'',
     ''opute.provider.install'', ''opute.provider.reload'', ''opute.provider.teardown'']"

definition invokeLifecycleTool :: "'w ToolHost \<Rightarrow> string \<Rightarrow> Context \<Rightarrow> anymap \<Rightarrow> 'w \<Rightarrow>
    (HostError + CallToolResult option) \<times> lease option \<times> 'w" where
  "invokeLifecycleTool h name ctx args w =
     (if name \<in> set planTools then th_RunPlan h (DispatchTool (th_Server h)) name ctx args w
      else sv_Lifecycle (th_Server h) name ctx args w)"

text \<open>The server that calls are dispatched on.\<close>

definition call_server :: "'w ToolHost \<Rightarrow> 'w Server" where
  "call_server h = (th_Server h)\<lparr>sv_Lifecycle := invokeLifecycleTool h\<rparr>"

definition task_description :: "string \<Rightarrow> anymap \<Rightarrow> string" where
  "task_description name args =
     (let vm = text_argument args ''vmName'' in
      if vm = [] then ''Executing '' @ name @ ''...''
      else ''Running '' @ name @ '' on '' @ [CHR 0x27] @ vm @ [CHR 0x27] @ ''...'')"

text \<open>The worker runs under a context of its own, with the identity and the reservation of the owner. What is done to
  the record, and when the worker runs, is the theory \<open>Task_Starts\<close>.\<close>

definition createAsyncTask :: "(DelegationError \<Rightarrow> HostError) \<Rightarrow> 'w ToolHost \<Rightarrow> Context \<Rightarrow> string \<Rightarrow> anymap \<Rightarrow> 'w \<Rightarrow> outcome \<times> 'w" where
  "createAsyncTask reject h ctx name args w =
     (case providerCallbackTaskOwnerFromContext (th_Delegations h w) (th_Tasks h w) (th_Now h w) ctx of
        Inl e \<Rightarrow> (call_error h (reject e), w)
      | Inr owner \<Rightarrow> th_AsyncTask h
          \<lparr>as_Name = name, as_Args = redactTaskArgs (th_Server h) name (entries args), as_Description = task_description name args,
           as_Owner = owner,
           as_Run = (\<lambda>taskID taskCtx. DispatchTool (call_server h) (asyncTaskExecutionContext taskCtx name taskID owner) name args),
           as_Settle = (\<lambda>now taskID. settle_task (th_Server h) now name taskID)\<rparr> w)"

text \<open>A record as it is encoded, which the list of operations hands out without a projection.\<close>

definition optional_field :: "string \<Rightarrow> bool \<Rightarrow> any \<Rightarrow> fields" where
  "optional_field key present v = (if present then [(key, v)] else [])"

definition task_record :: "Task \<Rightarrow> fields" where
  "task_record rec =
     [(''taskId'', AStr (tr_TaskID rec)), (''toolName'', AStr (tr_ToolName rec)), (''toolArgs'', map_any (tr_ToolArgs rec)),
      (''status'', AStr (task_status_text (tr_Status rec)))] @
     optional_field ''statusMessage'' (tr_StatusMessage rec \<noteq> []) (AStr (tr_StatusMessage rec)) @
     optional_field ''description'' (tr_Description rec \<noteq> []) (AStr (tr_Description rec)) @
     optional_field ''metadata'' (entries (tr_Metadata rec) \<noteq> []) (map_any (tr_Metadata rec)) @
     [(''createdAt'', AStr (tr_CreatedAt rec)), (''lastUpdatedAt'', AStr (tr_LastUpdatedAt rec)),
      (''ttl'', AFloat (f64_of_int (tr_TTL rec))), (''pollInterval'', AFloat (f64_of_int (tr_PollInterval rec)))] @
     optional_field ''logs'' (tr_Logs rec \<noteq> []) (AStrs (tr_Logs rec)) @
     optional_field ''inputRequests'' (entries (tr_InputRequests rec) \<noteq> []) (map_any (tr_InputRequests rec)) @
     optional_field ''inputRequest'' (entries (tr_InputRequest rec) \<noteq> []) (map_any (tr_InputRequest rec))"

definition standalone_operation :: "'w ToolHost \<Rightarrow> string \<Rightarrow> anymap \<Rightarrow> 'w \<Rightarrow> (outcome \<times> 'w) option" where
  "standalone_operation h name args w =
     (let i = text_argument args ''operationId'' in
      if name = ''list_operations'' then
        Some (case th_State h of
            Some st \<Rightarrow> (case oc_List st (intFromAny (sv_Convert (th_Server h)) (lookup args ''limit'')) w of
                Inl e \<Rightarrow> (call_error h e, w)
              | Inr operations \<Rightarrow> (Returned (Some (structuredResult (AMap [(''operations'', operations)]) [])), w))
          | None \<Rightarrow> (Returned (Some (structuredResult (AMap [(''operations'',
              ASlice (map (\<lambda>t. AMap (task_record t)) (List_tasks (th_Tasks h w))))]) [])), w))
      else if name = ''get_operation'' then
        (let from_tasks = (case Get_task i (th_Tasks h w) of
               None \<Rightarrow> (call_error h (PlainError ''operation not found: %s'' [AStr i]), w)
             | Some rec \<Rightarrow> (Returned (Some (structuredResult (AMap (ToGetTaskResult rec)) [])), w)) in
         Some (case th_State h of
            None \<Rightarrow> from_tasks
          | Some st \<Rightarrow> (case oc_Get st i w of
                Inl e \<Rightarrow> (call_error h e, w)
              | Inr (Some operation) \<Rightarrow> (Returned (Some (structuredResult operation [])), w)
              | Inr None \<Rightarrow> from_tasks)))
      else if name = ''cancel_operation'' then
        (let w1 = (case th_State h of None \<Rightarrow> w | Some st \<Rightarrow> oc_Cancel st i w) in
         Some (case th_CancelTask h i w1 of
            (None, w2) \<Rightarrow> (call_error h (PlainError ''operation cannot be cancelled: %s'' [AStr i]), w2)
          | (Some rec, w2) \<Rightarrow> (Returned (Some (structuredResult (AMap (ToGetTaskResult rec)) [])), w2)))
      else None)"

text \<open>The console runs while its reservation is held.\<close>

definition stream_console :: "'w ToolHost \<Rightarrow> Context \<Rightarrow> anymap \<Rightarrow> 'w \<Rightarrow> outcome \<times> 'w" where
  "stream_console h ctx args w =
     (let sv = th_Server h; name = ''stream_vm_console'' in
      case resolveExecutionBinding sv name args w of
        (Inl e, w1) \<Rightarrow> (call_error h e, w1)
      | (Inr b, w1) \<Rightarrow>
         (let run = th_StreamConsole h (ProviderInstanceName b) (text_argument args ''operationId'') in
          case sv_Admission sv of
            None \<Rightarrow> run w1
          | Some service \<Rightarrow>
             (case admitInvocation sv service ctx name args b w1 of
                (Inl e, w2) \<Rightarrow> (call_error h e, w2)
              | (Inr None, w2) \<Rightarrow> run w2
              | (Inr (Some r), w2) \<Rightarrow> (case run w2 of (out, w3) \<Rightarrow> (out, hs_Release service r w3)))))"

definition routed_call :: "(DelegationError \<Rightarrow> HostError) \<Rightarrow> 'w ToolHost \<Rightarrow> ToolRequest \<Rightarrow> string \<Rightarrow> Context \<Rightarrow> anymap \<Rightarrow> 'w \<Rightarrow> outcome \<times> 'w" where
  "routed_call reject h req name ctx args w =
     (if name = ''stream_vm_console'' then stream_console h ctx args w
      else if name = ''send_console_input''
      then th_SendConsole h (text_argument args ''operationId'') (text_argument args ''data'') w
      else if name = ''resize_console''
      then th_ResizeConsole h (text_argument args ''operationId'') (intFromAny (sv_Convert (th_Server h)) (lookup args ''width''))
        (intFromAny (sv_Convert (th_Server h)) (lookup args ''height'')) w
      else if name = ''request_task_input''
      then (if taskExtensionDeclared req then th_InputTask h args w else (Failed missingTasksCapabilityError, w))
      else if th_TaskAware h name \<or> name \<in> set TaskAwareTools
      then (if taskExtensionDeclared req then createAsyncTask reject h ctx name args w else (Failed missingTasksCapabilityError, w))
      else DispatchTool (call_server h) ctx name args w)"

definition admitted_call :: "(DelegationError \<Rightarrow> HostError) \<Rightarrow> 'w ToolHost \<Rightarrow> ToolRequest \<Rightarrow> string \<Rightarrow> Context \<Rightarrow> anymap \<Rightarrow> 'w \<Rightarrow> outcome \<times> 'w" where
  "admitted_call reject h req name ctx args w =
     (if isLifecycleTool name then dispatchLifecycleTool (call_server h) ctx name args w
      else if (case capabilityDescriptor (th_Server h) name of None \<Rightarrow> False | Some d \<Rightarrow> cd_TaskSupport d = ''bridged'')
      then (if taskExtensionDeclared req then createAsyncTask reject h ctx name args w else (Failed missingTasksCapabilityError, w))
      else
       (let i = text_argument args ''operationId'' in
        case (if name = ''cancel_operation'' \<and> i \<noteq> [] then th_CancelPlan h i w else (None, w)) of
          (Some result, w1) \<Rightarrow> (Returned (Some result), w1)
        | (None, w1) \<Rightarrow>
           (case (if th_Standalone h then standalone_operation h name args w1 else None) of
              Some answer \<Rightarrow> answer
            | None \<Rightarrow> routed_call reject h req name ctx args w1)))"

definition gate_closed :: "'w ToolHost \<Rightarrow> string \<Rightarrow> bool" where
  "gate_closed h name \<longleftrightarrow> th_Standalone h \<and> \<not> th_AllowMutations h \<and>
     (IsStandaloneMutation name \<or> dynamicEffect (th_Server h) name \<notin> {[], ''read''})"

text \<open>\<open>reject\<close> gives the error of a refused delegation.\<close>

definition handleToolCall :: "(DelegationError \<Rightarrow> HostError) \<Rightarrow> 'w ToolHost \<Rightarrow> Context \<Rightarrow> ToolRequest \<Rightarrow> string \<Rightarrow> 'w \<Rightarrow> outcome \<times> 'w" where
  "handleToolCall reject h ctx req name w =
     (let requested = requestCatalogRevision req; current = sn_Revision (sv_Catalog (th_Server h)) in
      if requested \<noteq> [] \<and> requested \<noteq> current
      then (call_error h (CapabilityError ''lifecycle'' ''catalog_revision_stale''
        (PlainError ''catalog revision %q is stale; current revision is %q'' [AStr requested, AStr current])), w)
      else (case decode_arguments req of
          Inl e \<Rightarrow> (call_error h e, w)
        | Inr args \<Rightarrow>
           (case contextForProviderCallback (th_Delegations h w) (th_Server h) (th_Tasks h w) (th_Now h w) (tq_Meta req) name ctx of
              Inl e \<Rightarrow> (call_error h (reject e), w)
            | Inr ctx' \<Rightarrow>
               if gate_closed h name
               then (call_error h (PlainError ''standalone mutations are disabled; set OPUTE_STANDALONE_ALLOW_MUTATIONS=true'' []), w)
               else admitted_call reject h req name ctx' args w)))"

end
