(* ===== verification/Tool_Call_Laws.thy ===== *)
theory Tool_Call_Laws
  imports Tool_Calls Dispatch_Laws
begin

text \<open>
  What the entry of a tool call guarantees: with mutations disabled the host does not depend on what its mutating
  capabilities do, and a refused request changes nothing.
\<close>

section \<open>Mutating capabilities taken out\<close>

text \<open>The server with other code behind every capability that the catalog declares to change something, and with
  other handlers for the lifecycle tools.\<close>

definition mutates :: "'w Server \<Rightarrow> string \<Rightarrow> bool" where
  "mutates sv name \<longleftrightarrow> dynamicEffect sv name \<notin> {[], ''read''}"

definition rearmed :: "(string \<Rightarrow> 'w invoker) \<Rightarrow>
    (string \<Rightarrow> Context \<Rightarrow> anymap \<Rightarrow> 'w \<Rightarrow> (HostError + CallToolResult option) \<times> lease option \<times> 'w) \<Rightarrow> 'w Server \<Rightarrow> 'w Server" where
  "rearmed code handlers sv = sv\<lparr>sv_Capabilities :=
     map (\<lambda>(n, c). (n, if mutates sv n then c\<lparr>hc_Invoke := code n\<rparr> else c)) (sv_Capabilities sv), sv_Lifecycle := handlers\<rparr>"

text \<open>On a host the handlers of the lifecycle tools stay what they are; those that run plans dispatch on the server
  with the other code.\<close>

definition rearmed_host :: "(string \<Rightarrow> 'w invoker) \<Rightarrow> 'w ToolHost \<Rightarrow> 'w ToolHost" where
  "rearmed_host code h = h\<lparr>th_Server := rearmed code (sv_Lifecycle (th_Server h)) (th_Server h)\<rparr>"

lemma rearmed_fields [simp]:
  "sv_Agent (rearmed code handlers sv) = sv_Agent sv" "sv_Adopt (rearmed code handlers sv) = sv_Adopt sv" "sv_Admission (rearmed code handlers sv) = sv_Admission sv"
  "sv_Registered (rearmed code handlers sv) = sv_Registered sv" "sv_Record (rearmed code handlers sv) = sv_Record sv" "sv_Text (rearmed code handlers sv) = sv_Text sv"
  "sv_Lifecycle (rearmed code handlers sv) = handlers" "sv_Growth (rearmed code handlers sv) = sv_Growth sv" "sv_Convert (rearmed code handlers sv) = sv_Convert sv"
  "sv_Catalog (rearmed code handlers sv) = sv_Catalog sv" "sv_AgentID (rearmed code handlers sv) = sv_AgentID sv"
  by (simp_all add: rearmed_def)

lemma rearmed_get: "gomap_get (sv_Capabilities (rearmed code handlers sv)) name =
    map_option (\<lambda>c. if mutates sv name then c\<lparr>hc_Invoke := code name\<rparr> else c) (gomap_get (sv_Capabilities sv) name)"
proof -
  have "gomap_get (map (\<lambda>(n, c). (n, f n c)) m) name = map_option (f name) (gomap_get m name)" for f and m :: "(string, 'v) gomap"
    by (induction m) auto
  from this [of "\<lambda>n c. if mutates sv n then c\<lparr>hc_Invoke := code n\<rparr> else c" "sv_Capabilities sv"]
  show ?thesis by (simp add: rearmed_def)
qed

lemma rearmed_lookups [simp]:
  "capabilityDescriptor (rearmed code handlers sv) = capabilityDescriptor sv" "isProviderCapability (rearmed code handlers sv) = isProviderCapability sv"
  "server_resolve (rearmed code handlers sv) = server_resolve sv" "dynamicEffect (rearmed code handlers sv) = dynamicEffect sv"
  by (auto simp: fun_eq_iff capabilityDescriptor_def isProviderCapability_def server_resolve_def dynamicEffect_def rearmed_get
      split: option.splits)

lemma rearmed_admit [simp]: "admitInvocation (rearmed code handlers sv) = admitInvocation sv"
  by (intro ext) (unfold admitInvocation_def admitInvocationWithDescriptor_def admission_cost_def admission_request_def
      rearmed_fields rearmed_lookups, rule refl)

lemma rearmed_first [simp]: "resolve_first (rearmed code handlers sv) uri kinds e w = resolve_first sv uri kinds e w"
  by (induction kinds arbitrary: e w) (auto split: prod.splits sum.splits)

lemma rearmed_bind [simp]: "bind_arguments (rearmed code handlers sv) name d args arguments w = bind_arguments sv name d args arguments w"
  by (induction arguments arbitrary: w) (auto simp: Let_def split: option.splits prod.splits sum.splits)

lemma rearmed_complete [simp]: "complete_bindings (rearmed code handlers sv) args ps b w = complete_bindings sv args ps b w"
  by (induction ps arbitrary: b w) (auto split: option.splits prod.splits sum.splits)

lemma rearmed_binding [simp]: "resolveExecutionBinding (rearmed code handlers sv) = resolveExecutionBinding sv"
  by (intro ext) (unfold resolveExecutionBinding_def rearmed_fields rearmed_lookups rearmed_bind, rule refl)

lemma rearmed_record [simp]: "recordCapabilityInvocation (rearmed code handlers sv) = recordCapabilityInvocation sv"
  by (intro ext) (unfold recordCapabilityInvocation_def invocation_record_def rearmed_fields, rule refl)

lemma rearmed_normalize [simp]: "normalizeCapabilityObservation (rearmed code handlers sv) = normalizeCapabilityObservation sv"
  by (intro ext) (unfold normalizeCapabilityObservation_def rearmed_fields, rule refl)

lemma rearmed_check [simp]: "check_result (rearmed code handlers sv) = check_result sv"
  by (intro ext) (unfold check_result_def refuse_result_def rearmed_fields rearmed_record rearmed_normalize, rule refl)

lemma rearmed_lifecycle:
  assumes "handlers name = sv_Lifecycle sv name"
  shows "dispatchLifecycleTool (rearmed code handlers sv) ctx name args w = dispatchLifecycleTool sv ctx name args w"
  by (unfold dispatchLifecycleTool_def rearmed_fields rearmed_admit assms, rule refl)

lemma rearmed_value: "dispatchCapabilityValue (rearmed code handlers sv) = dispatchCapabilityValue sv"
  by (intro ext) (unfold dispatchCapabilityValue_def completeProducedResourceBinding_def rearmed_fields rearmed_complete
      rearmed_check rearmed_record rearmed_normalize, rule refl)

lemma rearmed_dispatch:
  assumes "\<not> mutates sv name"
  shows "dispatchRegisteredOrBuiltIn (rearmed code handlers sv) ctx name args b w = dispatchRegisteredOrBuiltIn sv ctx name args b w"
  using assms by (simp add: dispatchRegisteredOrBuiltIn_def rearmed_get rearmed_value split: option.splits)

lemma rearmed_tool:
  assumes "\<not> mutates sv name" and "handlers name = sv_Lifecycle sv name"
  shows "DispatchTool (rearmed code handlers sv) ctx name args w = DispatchTool sv ctx name args w"
  unfolding DispatchTool_def dispatch_admitted_def rearmed_fields rearmed_lifecycle [of handlers name sv, OF assms(2)] rearmed_binding rearmed_admit
    rearmed_dispatch [OF assms(1)] by (rule refl)

section \<open>The gate\<close>

lemma rearmed_host_fields [simp]:
  "th_Server (rearmed_host code h) = rearmed code (sv_Lifecycle (th_Server h)) (th_Server h)" "th_Delegations (rearmed_host code h) = th_Delegations h"
  "th_Tasks (rearmed_host code h) = th_Tasks h" "th_Now (rearmed_host code h) = th_Now h"
  "th_Standalone (rearmed_host code h) = th_Standalone h" "th_AllowMutations (rearmed_host code h) = th_AllowMutations h"
  "th_State (rearmed_host code h) = th_State h" "th_TaskAware (rearmed_host code h) = th_TaskAware h"
  "th_AsyncTask (rearmed_host code h) = th_AsyncTask h" "th_RunPlan (rearmed_host code h) = th_RunPlan h" "th_InputTask (rearmed_host code h) = th_InputTask h"
  "th_CancelPlan (rearmed_host code h) = th_CancelPlan h" "th_CancelTask (rearmed_host code h) = th_CancelTask h"
  "th_StreamConsole (rearmed_host code h) = th_StreamConsole h" "th_SendConsole (rearmed_host code h) = th_SendConsole h"
  "th_ResizeConsole (rearmed_host code h) = th_ResizeConsole h"
  by (simp_all add: rearmed_host_def)

lemma rearmed_error [simp]: "call_error (rearmed_host code h) = call_error h"
  by (simp add: fun_eq_iff call_error_def)

lemma rearmed_operation [simp]: "standalone_operation (rearmed_host code h) = standalone_operation h"
  by (intro ext) (unfold standalone_operation_def rearmed_host_fields rearmed_fields rearmed_error, rule refl)

lemma rearmed_console [simp]: "stream_console (rearmed_host code h) = stream_console h"
  by (intro ext) (unfold stream_console_def Let_def rearmed_host_fields rearmed_fields rearmed_error rearmed_binding rearmed_admit, rule refl)

text \<open>The server that calls are dispatched on, with the other code.\<close>

lemma call_server_fields [simp]:
  "sv_Catalog (call_server h) = sv_Catalog (th_Server h)" "sv_Capabilities (call_server h) = sv_Capabilities (th_Server h)"
  "sv_Lifecycle (call_server h) = invokeLifecycleTool h"
  by (simp_all add: call_server_def)

lemma call_server_mutates [simp]: "mutates (call_server h) = mutates (th_Server h)"
  by (intro ext) (unfold mutates_def dynamicEffect_def capabilityDescriptor_def call_server_fields, rule refl)

lemma rearmed_call_server:
  "call_server (rearmed_host code h) = rearmed code (invokeLifecycleTool (rearmed_host code h)) (call_server h)"
  unfolding rearmed_def call_server_fields call_server_mutates by (simp add: call_server_def rearmed_host_def rearmed_def)

lemma plan_tools_gated: "name \<in> set planTools \<Longrightarrow> IsStandaloneMutation name"
  by (auto simp: planTools_def IsStandaloneMutation_def standaloneMutationToolNames_def)

lemma rearmed_handlers:
  assumes "\<not> IsStandaloneMutation name"
  shows "invokeLifecycleTool (rearmed_host code h) name = invokeLifecycleTool h name"
  using assms plan_tools_gated [of name] by (auto simp: fun_eq_iff invokeLifecycleTool_def)

lemma rearmed_task_descriptor [simp]: "taskCapabilityDescriptor (rearmed code handlers sv) = taskCapabilityDescriptor sv"
  by (auto simp: fun_eq_iff taskCapabilityDescriptor_def rearmed_get split: option.splits)

lemma rearmed_task_args [simp]: "redactTaskArgs (rearmed code handlers sv) = redactTaskArgs sv"
  by (intro ext) (unfold redactTaskArgs_def rearmed_task_descriptor, rule refl)

lemma rearmed_settle [simp]: "settle_task (rearmed code handlers sv) = settle_task sv"
  by (intro ext) (unfold settle_task_def task_result_def redactTaskResult_def rearmed_fields rearmed_task_descriptor, rule refl)

lemma rearmed_call:
  assumes "\<not> mutates (th_Server h) name" and "\<not> IsStandaloneMutation name"
  shows "admitted_call reject (rearmed_host code h) req name ctx args w = admitted_call reject h req name ctx args w"
proof -
  have same: "invokeLifecycleTool (rearmed_host code h) name = sv_Lifecycle (call_server h) name"
    using rearmed_handlers [OF assms(2)] by simp
  have "\<not> mutates (call_server h) name" using assms(1) by simp
  note dispatch = rearmed_tool [of "call_server h" name "invokeLifecycleTool (rearmed_host code h)" code, OF this same]
    and lifecycle = rearmed_lifecycle [of "invokeLifecycleTool (rearmed_host code h)" name "call_server h" code, OF same]
  show ?thesis
    unfolding admitted_call_def routed_call_def createAsyncTask_def rearmed_call_server dispatch lifecycle rearmed_host_fields
      rearmed_fields rearmed_lookups rearmed_operation rearmed_console rearmed_error rearmed_task_args rearmed_settle by (rule refl)
qed

lemma rearmed_gate [simp]: "gate_closed (rearmed_host code h) = gate_closed h"
  by (simp add: fun_eq_iff gate_closed_def)

lemma rearmed_callback [simp]: "contextForProviderCallback s (rearmed code handlers sv) = contextForProviderCallback s sv"
  by (intro ext) (unfold contextForProviderCallback_def rearmed_lookups, rule refl)

text \<open>
  C10: with mutations disabled no capability that mutates is run. On a standalone host that does not allow mutations,
  putting any other code behind the capabilities that the catalog declares to be anything but reading changes
  neither the answer to any tool call nor what the call does, whether it is dispatched at once, detached into a task,
  whose worker dispatches on that code, or run by a lifecycle tool that executes a plan, whose nodes do. Everything
  of the host that does not run capabilities is the same on both sides.
\<close>
theorem mutations_gated:
  assumes "th_Standalone h" and "\<not> th_AllowMutations h"
  shows "handleToolCall reject (rearmed_host code h) ctx req name w = handleToolCall reject h ctx req name w"
proof (cases "gate_closed h name")
  case True
  then show ?thesis
    unfolding handleToolCall_def rearmed_host_fields rearmed_fields rearmed_error rearmed_gate rearmed_callback
    by (simp only: True if_True)
next
  case False
  then have name: "\<not> mutates (th_Server h) name" "\<not> IsStandaloneMutation name"
    using assms by (auto simp: gate_closed_def mutates_def)
  show ?thesis
    unfolding handleToolCall_def rearmed_host_fields rearmed_fields rearmed_error rearmed_gate rearmed_callback
      rearmed_call [OF name] by (rule refl)
qed

text \<open>The gate does not see a tool that the catalog leaves out: its capability is reached whatever its effect.\<close>

lemma uncatalogued_passes:
  assumes "capabilityDescriptor (th_Server h) name = None" and "\<not> IsStandaloneMutation name"
  shows "\<not> gate_closed h name"
  using assms by (simp add: gate_closed_def dynamicEffect_def split: option.splits)

lemma internal_tools_pass:
  "list_all (\<lambda>name. \<not> IsStandaloneMutation name)
     [''exec_command'', ''ensure_sql_connector'', ''release_sql_connector'', ''install_sql_forward_sidecar'',
      ''ensure_host_firewall_rule'', ''configure_host_network'']"
  by code_simp

section \<open>Refusals\<close>

definition refused_request :: "'w ToolHost \<Rightarrow> ToolRequest \<Rightarrow> string \<Rightarrow> Context \<Rightarrow> 'w \<Rightarrow> bool" where
  "refused_request h req name ctx w \<longleftrightarrow>
     requestCatalogRevision req \<notin> {[], sn_Revision (sv_Catalog (th_Server h))} \<or> (\<exists>e. decode_arguments req = Inl e) \<or>
     (\<exists>e. contextForProviderCallback (th_Delegations h w) (th_Server h) (th_Tasks h w) (th_Now h w) (tq_Meta req) name ctx = Inl e) \<or>
     gate_closed h name"

lemma refused_inert:
  assumes "refused_request h req name ctx w"
  shows "\<exists>e. handleToolCall reject h ctx req name w = (Returned (Some (ErrorResult (sv_Text (th_Server h)) e)), w)"
  using assms by (auto simp: refused_request_def handleToolCall_def call_error_def Let_def split: sum.splits)

text \<open>A host over the demonstration server.\<close>

definition demo_host :: "bool \<Rightarrow> memory ToolHost" where
  "demo_host allow = \<lparr>th_Server = demo_server None,
     th_Delegations = (\<lambda>_. \<lparr>de_Codec = \<lparr>cc_Marshal = (\<lambda>_. []), cc_Unmarshal = (\<lambda>_. None)\<rparr>, de_Key = [1], de_AgentID = [],
       de_ToolNames = [], de_Tokens = []\<rparr>),
     th_Tasks = (\<lambda>_. []), th_Now = (\<lambda>_. 0), th_Standalone = True, th_AllowMutations = allow, th_State = None,
     th_TaskAware = (\<lambda>_. False), th_AsyncTask = (\<lambda>task. as_Run task ''task'' demo_context), th_RunPlan = (\<lambda>_ _ _ _ w. (Inr None, None, w)), th_InputTask = (\<lambda>_ w. (Panicked, w)),
     th_CancelPlan = (\<lambda>_ w. (None, w)), th_CancelTask = (\<lambda>_ w. (None, w)), th_StreamConsole = (\<lambda>_ _ w. (Panicked, w)),
     th_SendConsole = (\<lambda>_ _ w. (Panicked, w)), th_ResizeConsole = (\<lambda>_ _ _ w. (Panicked, w))\<rparr>"

lemma demo_mutates: "mutates (demo_server None) ''change''" "\<not> mutates (demo_server None) ''look''"
  by code_simp+

text \<open>With mutations allowed the other code is reached.\<close>

definition other_code :: "string \<Rightarrow> memory invoker" where
  "other_code = (\<lambda>_ ctx args b w. (Inr None, []))"

definition change_request :: ToolRequest where
  "change_request = \<lparr>tq_Meta = None, tq_Arguments = Some (Inr (AMap [(''vm'', AStr ''vm:acme:a'')]))\<rparr>"

lemma allowed_reaches:
  "snd (handleToolCall (\<lambda>_. PlainError [] []) (demo_host True) demo_context change_request ''change'' demo_memory) = demo_memory"
  "snd (handleToolCall (\<lambda>_. PlainError [] []) (rearmed_host other_code (demo_host True)) demo_context change_request ''change''
     demo_memory) = []"
  by code_simp+

theorem mutations_gated_witness:
  "mutates (th_Server (demo_host False)) ''change'' \<and>
   handleToolCall (\<lambda>_. PlainError [] []) (rearmed_host other_code (demo_host False)) demo_context change_request ''change'' demo_memory =
     handleToolCall (\<lambda>_. PlainError [] []) (demo_host False) demo_context change_request ''change'' demo_memory"
  using mutations_gated [of "demo_host False"] demo_mutates(1) by (simp add: demo_host_def)

end
