(* ===== verification/Provider_Contract.thy ===== *)
theory Provider_Contract
  imports Catalog Generations
begin

text \<open>
  The contract of a provider (\<open>src/contracts/provider/provider.go\<close>, \<open>src/contracts/provider/validate.go\<close>):
  the descriptor of its plugin and the manifest it installs from, with every check of the two, and the
  projection of an operation of a manifest to a descriptor of the capability catalog
  (\<open>src/internal/hostmcp/provider_candidate.go\<close>). Schemas are decoded JSON; \<open>parse_url\<close> is what
  \<open>url.Parse\<close> answers. A cost is the catalog's \<^typ>\<open>ResourceCost\<close> and a binding its
  \<^typ>\<open>ResourceBinding\<close>: the contract declares the same fields.
\<close>

section \<open>Data\<close>

definition PluginDescriptorVersion :: string where "PluginDescriptorVersion = ''opute-provider-plugin.v1''"
definition InstallManifestVersion :: string where "InstallManifestVersion = ''opute-provider-install-manifest.v1''"

record CapabilityRef =
  cr_ID :: string
  cr_Version :: int

record ServerDescriptor =
  sd_Transport :: string
  sd_Endpoint :: string
  sd_Executable :: string
  sd_Args :: "string list"
  sd_SHA256 :: string

record PluginDescriptor =
  pd_Schema :: string
  pd_PluginID :: string
  pd_Version :: string
  pd_Capabilities :: "CapabilityRef list"
  pd_Requires :: "CapabilityRef list"
  pd_Server :: ServerDescriptor

record RecipeSource =
  ro_URI :: string
  ro_Revision :: string
  ro_SHA256 :: string

record RecipeRef =
  re_ID :: string
  re_Source :: RecipeSource
  re_Mode :: string
  re_Inputs :: anymap

record ValidationRef =
  vr_Capability :: string
  vr_Operation :: string

record Operation =
  pv_ID :: string
  pv_Version :: int
  pv_Description :: string
  pv_InputSchema :: anymap
  pv_OutputSchema :: anymap
  pv_OutputType :: string
  pv_ResultTypes :: "ResultType list"
  pv_ValidationSchema :: string
  pv_ObservationSchema :: string
  pv_Effect :: string
  pv_ResourceKinds :: "string list"
  pv_Requires :: "ResourceBinding list"
  pv_Produces :: "ResourceBinding list"
  pv_Idempotent :: bool
  pv_SupportsReadiness :: bool
  pv_ResourceCost :: "ResourceCost option"
  pv_SupportsStreaming :: bool
  pv_TaskSupport :: string

record ServiceDefinition =
  se_ID :: string
  se_CapabilityID :: string
  se_Version :: int
  se_Operations :: "Operation list"
  se_Dependencies :: "CapabilityRef list"

record InstallManifest =
  im_Schema :: string
  im_Provider :: ProviderRef
  im_Provides :: "CapabilityRef list"
  im_Requires :: "CapabilityRef list"
  im_MinimumVersion :: string
  im_Recipes :: "RecipeRef list"
  im_Services :: "ServiceDefinition list"
  im_Teardown :: "Operation option"
  im_Validation :: ValidationRef

definition ServiceKey :: "string \<Rightarrow> string \<Rightarrow> string" where
  "ServiceKey providerID serviceID = TrimSpace providerID @ ''/'' @ TrimSpace serviceID"

section \<open>References\<close>

definition identifier_char :: "char \<Rightarrow> bool" where
  "identifier_char c \<longleftrightarrow> segment_char c \<or> c = CHR ''.''"

definition long_name :: "(char \<Rightarrow> bool) \<Rightarrow> string \<Rightarrow> bool" where
  "long_name ok s \<longleftrightarrow>
     (case s of [] \<Rightarrow> False | c # cs \<Rightarrow> lower_letter c \<and> 2 \<le> length cs \<and> length cs \<le> 127 \<and> list_all ok cs)"

text \<open>The anchored patterns \<^verbatim>\<open>^[a-z][a-z0-9.-]{2,127}$\<close> and \<^verbatim>\<open>^[a-z][a-z0-9_.-]{2,127}$\<close>.\<close>

definition identifierPattern :: "string \<Rightarrow> bool" where
  "identifierPattern s \<longleftrightarrow> long_name identifier_char s"

definition operationIdentifierPattern :: "string \<Rightarrow> bool" where
  "operationIdentifierPattern s \<longleftrightarrow> long_name name_char s"

fun validate_refs :: "string list \<Rightarrow> CapabilityRef list \<Rightarrow> PlanError option" where
  "validate_refs seen [] = None"
| "validate_refs seen (ref # refs) =
     (if \<not> identifierPattern (TrimSpace (cr_ID ref)) \<or> cr_Version ref < 1
        then Some (Errorf ''invalid capability reference'' [])
      else if cr_ID ref \<in> set seen then Some (Errorf ''duplicate capability reference %q'' [AStr (cr_ID ref)])
      else validate_refs (cr_ID ref # seen) refs)"

definition validateCapabilityRefs :: "CapabilityRef list \<Rightarrow> PlanError option" where
  "validateCapabilityRefs refs = validate_refs [] refs"

section \<open>Plugin descriptors\<close>

record ParsedURL =
  ur_Scheme :: string
  ur_Host :: string
  ur_User :: bool

type_synonym url_parser = "string \<Rightarrow> ParsedURL option"

definition validateEndpoint :: "url_parser \<Rightarrow> string \<Rightarrow> PlanError option" where
  "validateEndpoint parse_url raw = (case parse_url (TrimSpace raw) of
     None \<Rightarrow> Some (Errorf ''provider endpoint must be an absolute http(s) URL'' [])
   | Some u \<Rightarrow> checks
       [ensure (ur_Scheme u \<in> {''http'', ''https''} \<and> ur_Host u \<noteq> [])
          ''provider endpoint must be an absolute http(s) URL'' [],
        ensure (\<not> ur_User u) ''provider endpoint must not embed credentials'' []])"

definition ValidateDescriptor :: "url_parser \<Rightarrow> PluginDescriptor \<Rightarrow> PlanError option" where
  "ValidateDescriptor parse_url d = checks
     [ensure (pd_Schema d = PluginDescriptorVersion) ''unsupported provider descriptor schema %q'' [AStr (pd_Schema d)],
      ensure (identifierPattern (TrimSpace (pd_PluginID d))) ''invalid provider pluginId'' [],
      ensure (TrimSpace (pd_Version d) \<noteq> []) ''provider version is required'' [],
      ensure (sd_Transport (pd_Server d) = ''streamable_http'') ''provider transport must be streamable_http'' [],
      validateEndpoint parse_url (sd_Endpoint (pd_Server d)),
      ensure (pd_Capabilities d \<noteq> []) ''provider must declare at least one capability'' [],
      validateCapabilityRefs (pd_Capabilities d)]"

section \<open>Operations\<close>

fun provider_selectors :: "string \<Rightarrow> string list \<Rightarrow> ResultSelector list \<Rightarrow> PlanError option" where
  "provider_selectors typeID seen [] = None"
| "provider_selectors typeID seen (s # rest) =
     (if TrimSpace (sel_ID s) = [] \<or> TrimSpace (sel_SourcePath s) = [] \<or> sel_ID s \<in> set seen
        then Some (Errorf ''result type %q contains an invalid selector'' [AStr typeID])
      else if NormalizedCardinality s \<notin> {CardinalityOne, CardinalityMany}
        then Some (Errorf ''selector %q has unsupported cardinality %q'' [AStr (sel_ID s), AStr (sel_Cardinality s)])
      else provider_selectors typeID (sel_ID s # seen) rest)"

fun provider_types :: "string list \<Rightarrow> ResultType list \<Rightarrow> PlanError + string list" where
  "provider_types seen [] = Inr seen"
| "provider_types seen (t # rest) =
     (if TrimSpace (rty_ID t) = [] \<or> rty_Version t < 1 \<or> rty_ID t \<in> set seen
        then Inl (Errorf ''result types require unique ids and positive versions'' [])
      else (case provider_selectors (rty_ID t) [] (rty_Selectors t) of
        Some e \<Rightarrow> Inl e | None \<Rightarrow> provider_types (rty_ID t # seen) rest))"

definition validateResultTypes :: "Operation \<Rightarrow> PlanError option" where
  "validateResultTypes op = (case provider_types [] (pv_ResultTypes op) of
     Inl e \<Rightarrow> Some e
   | Inr seen \<Rightarrow> checks
       [ensure (pv_OutputType op = [] \<or> pv_OutputType op \<in> set seen)
          ''output type %q is not declared'' [AStr (pv_OutputType op)],
        ensure (pv_ResultTypes op = [] \<or> pv_OutputType op \<noteq> []) ''result selectors require an output type'' []])"

definition hasSelector :: "Operation \<Rightarrow> string \<Rightarrow> bool" where
  "hasSelector op selectorID \<longleftrightarrow> list_ex (\<lambda>t. rty_ID t = pv_OutputType op \<and>
     list_ex (\<lambda>s. sel_ID s = selectorID) (rty_Selectors t)) (pv_ResultTypes op)"

fun provider_walk :: "anymap \<Rightarrow> string list \<Rightarrow> anymap option" where
  "provider_walk current [] = Some current"
| "provider_walk current (segment # rest) =
     (if segment = [] then None
      else case sub_map current ''properties'' of
        None \<Rightarrow> None
      | Some properties \<Rightarrow> (case sub_map properties segment of None \<Rightarrow> None | Some child \<Rightarrow> provider_walk child rest))"

definition providerSchemaPath :: "anymap \<Rightarrow> string \<Rightarrow> anymap option" where
  "providerSchemaPath schema path = (if dotted path then None else provider_walk schema (path_of path))"

definition provider_cost_binding :: "anymap \<Rightarrow> string \<Rightarrow> string \<times> string \<times> string set \<times> bool \<Rightarrow> PlanError option" where
  "provider_cost_binding schema operationID binding = (case binding of (field, raw, allowedTypes, static) \<Rightarrow>
     let path = TrimSpace raw; name = [AStr operationID, AStr field, AStr path] in
     if path = [] then None
     else if \<not> static
     then Some (Errorf ''provider operation %q resourceCost.%s requires a positive static fallback'' [AStr operationID, AStr field])
     else (case providerSchemaPath schema path of
        None \<Rightarrow> Some (Errorf ''provider operation %q resourceCost.%s binding path %q is absent from inputSchema'' name)
      | Some property \<Rightarrow> ensure (type_name property \<in> allowedTypes)
          ''provider operation %q resourceCost.%s binding path %q has unsupported type %q'' (name @ [AStr (type_name property)])))"

text \<open>The code ranges over a map of the three sizes; the order only picks which of several errors it reports.\<close>

definition provider_cost :: "ResourceCost option \<Rightarrow> anymap \<Rightarrow> string \<Rightarrow> PlanError option" where
  "provider_cost declared schema operationID = (case declared of
     None \<Rightarrow> None
   | Some cost \<Rightarrow>
      (let op = AStr operationID in
       if \<not> f64_finite (rc_CPUCores cost) \<or> f64_lt (rc_CPUCores cost) (FZero False)
       then Some (Errorf ''provider operation %q has an invalid resourceCost.cpuCores'' [op])
       else checks
         [ensure (0 \<le> rc_MemoryBytes cost) ''provider operation %q has a negative resourceCost.memoryBytes'' [op],
          ensure (0 \<le> rc_DiskBytes cost) ''provider operation %q has a negative resourceCost.diskBytes'' [op],
          ensure (0 \<le> rc_Tasks cost) ''provider operation %q has a negative resourceCost.tasks'' [op],
          ensure (TrimSpace (rc_Class cost) \<in> {[], ''control'', ''normal'', ''heavy''})
            ''provider operation %q has unsupported resourceCost.class %q'' [op, AStr (rc_Class cost)],
          (case rc_ArgumentBindings cost of None \<Rightarrow> None
           | Some b \<Rightarrow> checks (map (provider_cost_binding schema operationID) (cost_bindings cost b)))]))"

definition effects :: "string set" where
  "effects = {''read'', ''mutation'', ''destructive'', ''credential_bearing''}"

definition check_required :: "Operation \<Rightarrow> ResourceBinding \<Rightarrow> PlanError option" where
  "check_required op b = checks
     [ensure (TrimSpace (rb_ResourceType b) \<noteq> [])
        ''provider operation %q has a resource binding without resourceType'' [AStr (pv_ID op)],
      ensure (TrimSpace (rb_Argument b) \<noteq> [] \<or> TrimSpace (rb_SourcePath b) \<noteq> [])
        ''provider operation %q has a resource binding without argument or sourcePath'' [AStr (pv_ID op)],
      ensure (rb_SelectorID b = [])
        ''provider operation %q requires bindings cannot reference result selectors'' [AStr (pv_ID op)]]"

definition check_produces :: "Operation \<Rightarrow> ResourceBinding \<Rightarrow> PlanError option" where
  "check_produces op b = checks
     [ensure (TrimSpace (rb_ResourceType b) \<noteq> [])
        ''provider operation %q has a resource binding without resourceType'' [AStr (pv_ID op)],
      ensure (TrimSpace (rb_SourcePath b) \<noteq> [])
        ''provider operation %q has a produced binding without sourcePath'' [AStr (pv_ID op)],
      ensure (rb_SelectorID b = [] \<or> pv_OutputType op \<noteq> [] \<and> hasSelector op (rb_SelectorID b))
        ''provider operation %q references unknown selector %q'' [AStr (pv_ID op), AStr (rb_SelectorID b)]]"

definition validateOperation :: "Operation \<Rightarrow> string \<Rightarrow> PlanError option" where
  "validateOperation op owner = checks
     ([ensure (operationIdentifierPattern (TrimSpace (pv_ID op)) \<and> 1 \<le> pv_Version op \<and>
          pv_InputSchema op \<noteq> None \<and> pv_OutputSchema op \<noteq> None) ''%s contains an invalid operation'' [AStr owner],
       (case validateResultTypes op of None \<Rightarrow> None | Some e \<Rightarrow> Some (Wrapf ''%s result selectors: %w'' [AStr owner] e)),
       ensure (pv_Effect op \<in> effects)
         ''provider operation %q has unsupported effect %q'' [AStr (pv_ID op), AStr (pv_Effect op)],
       ensure (pv_TaskSupport op \<in> {[], ''sync_only'', ''bridged''})
         ''provider operation %q has unsupported taskSupport %q'' [AStr (pv_ID op), AStr (pv_TaskSupport op)],
       provider_cost (pv_ResourceCost op) (pv_InputSchema op) (pv_ID op)] @
      map (check_required op) (pv_Requires op) @ map (check_produces op) (pv_Produces op))"

section \<open>Manifests\<close>

text \<open>\<open>Inl\<close> an error, \<open>Inr\<close> the operations seen so far: one map serves every service of the manifest.\<close>

fun validate_operations :: "string \<Rightarrow> string list \<Rightarrow> Operation list \<Rightarrow> PlanError + string list" where
  "validate_operations owner seen [] = Inr seen"
| "validate_operations owner seen (op # ops) =
     (case validateOperation op owner of
        Some e \<Rightarrow> Inl e
      | None \<Rightarrow>
         if pv_ID op \<in> set seen then Inl (Errorf ''duplicate provider operation %q'' [AStr (pv_ID op)])
         else if pv_Effect op \<notin> effects
         then Inl (Errorf ''provider operation %q has unsupported effect %q'' [AStr (pv_ID op), AStr (pv_Effect op)])
         else validate_operations owner (pv_ID op # seen) ops)"

definition check_dependency :: "ServiceDefinition \<Rightarrow> CapabilityRef \<Rightarrow> PlanError option" where
  "check_dependency service dep = checks
     [ensure (identifierPattern (TrimSpace (cr_ID dep)) \<and> 1 \<le> cr_Version dep)
        ''provider service %q declares an invalid dependency'' [AStr (se_ID service)],
      ensure (TrimSpace (cr_ID dep) \<noteq> TrimSpace (se_CapabilityID service))
        ''provider service %q depends on itself'' [AStr (se_ID service)]]"

definition check_service :: "string list \<Rightarrow> ServiceDefinition \<Rightarrow> PlanError option" where
  "check_service seen service = checks
     ([ensure (identifierPattern (TrimSpace (se_ID service)) \<and> 1 \<le> se_Version service)
         ''invalid provider service definition'' [],
       ensure (identifierPattern (TrimSpace (se_CapabilityID service)))
         ''provider service %q must declare a neutral capabilityId'' [AStr (se_ID service)],
       ensure (se_ID service \<notin> set seen) ''duplicate provider service %q'' [AStr (se_ID service)]] @
      map (check_dependency service) (se_Dependencies service))"

fun validate_services :: "string list \<Rightarrow> string list \<Rightarrow> ServiceDefinition list \<Rightarrow> PlanError option" where
  "validate_services seenServices seenOperations [] = None"
| "validate_services seenServices seenOperations (service # rest) =
     (case check_service seenServices service of
        Some e \<Rightarrow> Some e
      | None \<Rightarrow>
         (case validate_operations (''provider service '' @ se_ID service) seenOperations (se_Operations service) of
            Inl e \<Rightarrow> Some e
          | Inr seen \<Rightarrow> validate_services (se_ID service # seenServices) seen rest))"

definition validateServices :: "ServiceDefinition list \<Rightarrow> PlanError option" where
  "validateServices services =
     (if services = [] then Some (Errorf ''provider manifest must declare at least one service'' [])
      else validate_services [] [] services)"

definition check_recipe :: "RecipeRef \<Rightarrow> PlanError option" where
  "check_recipe r = checks
     [ensure (TrimSpace (re_ID r) \<noteq> [] \<and> TrimSpace (ro_URI (re_Source r)) \<noteq> [])
        ''install manifest recipes require id and source.uri'' [],
      ensure (TrimSpace (ro_Revision (re_Source r)) \<noteq> [] \<and> TrimSpace (ro_SHA256 (re_Source r)) \<noteq> [])
        ''install manifest recipe %q must pin revision and sha256'' [AStr (re_ID r)]]"

definition check_teardown :: "Operation \<Rightarrow> PlanError option" where
  "check_teardown op = checks
     [ensure (pv_ID op = ''opute.provider.teardown'') ''provider teardown operation must be opute.provider.teardown'' [],
      validateOperation op ''provider teardown'',
      ensure (pv_Effect op = ''destructive'') ''provider teardown operation must be destructive'' []]"

definition ValidateInstallManifest :: "InstallManifest \<Rightarrow> ProviderRef \<Rightarrow> PlanError option" where
  "ValidateInstallManifest m expected = checks
     ([ensure (im_Schema m = InstallManifestVersion)
         ''unsupported provider install manifest schema %q'' [AStr (im_Schema m)],
       ensure (im_Provider m = expected) ''install manifest provider identity does not match trusted descriptor'' [],
       ensure (im_Provides m \<noteq> []) ''install manifest must provide at least one capability'' [],
       validateCapabilityRefs (im_Provides m),
       ensure (TrimSpace (vr_Capability (im_Validation m)) \<noteq> [] \<and> TrimSpace (vr_Operation (im_Validation m)) \<noteq> [])
         ''install manifest validation capability and operation are required'' []] @
      map check_recipe (im_Recipes m) @
      [validateServices (im_Services m), (case im_Teardown m of None \<Rightarrow> None | Some op \<Rightarrow> check_teardown op)])"

section \<open>The projection to the catalog\<close>

fun firstNonEmpty :: "string list \<Rightarrow> string" where
  "firstNonEmpty [] = []"
| "firstNonEmpty (v # vs) = (if TrimSpace v \<noteq> [] then TrimSpace v else firstNonEmpty vs)"

definition ObservationSchemaVersion :: string where
  "ObservationSchemaVersion = ''opute-capability-observation.v1''"

definition requiredSchemaFields :: "anymap \<Rightarrow> string list" where
  "requiredSchemaFields schema = (case lookup schema ''required'' of
     AStrs names \<Rightarrow> names
   | ASlice vs \<Rightarrow> List.map_filter as_string vs
   | _ \<Rightarrow> [])"

text \<open>
  The slice of bindings and the costs are copied field by field. Texts the catalog only shows are in
  \<open>cd_Texts\<close>, by their names in JSON.
\<close>

definition providerBindings :: "ResourceBinding list \<Rightarrow> ResourceBinding list" where
  "providerBindings bindings = map (\<lambda>b. \<lparr>rb_Argument = rb_Argument b, rb_ResourceType = rb_ResourceType b,
     rb_SourcePath = rb_SourcePath b, rb_SelectorID = rb_SelectorID b, rb_Required = rb_Required b\<rparr>) bindings"

definition operation_description :: "ServiceDefinition \<Rightarrow> Operation \<Rightarrow> string" where
  "operation_description service op =
     (if TrimSpace (pv_Description op) = []
      then ''Provider service '' @ se_ID service @ '' operation '' @ pv_ID op else TrimSpace (pv_Description op))"

definition providerOperationDescriptor :: "InstallManifest \<Rightarrow> ServiceDefinition \<Rightarrow> Operation \<Rightarrow> string \<Rightarrow> CapabilityDescriptor" where
  "providerOperationDescriptor m service op generationID =
     \<lparr>cd_OperationID = pv_ID op, cd_CapabilityID = TrimSpace (se_CapabilityID service),
      cd_Version = (if pv_Version op = 0 then 1 else pv_Version op), cd_Name = pv_ID op,
      cd_InputSchema = pv_InputSchema op, cd_OutputSchema = pv_OutputSchema op,
      cd_OutputType = pv_OutputType op, cd_ResultTypes = pv_ResultTypes op, cd_Effect = pv_Effect op,
      cd_RequiresApproval = (pv_Effect op \<noteq> ''read''), cd_Provider = pf_ID (im_Provider m),
      cd_Implementation = ''provider:'' @ pf_ID (im_Provider m), cd_ResourceKinds = pv_ResourceKinds op,
      cd_ArgumentProducers = [], cd_DefaultLabels = None,
      cd_ResourceCost = pv_ResourceCost op, cd_TaskSupport = pv_TaskSupport op, cd_GenerationID = generationID,
      cd_Requires = providerBindings (pv_Requires op), cd_Produces = providerBindings (pv_Produces op),
      cd_InputEdges = [], cd_OutputEdges = [],
      cd_Texts = [(''description'', AStr (operation_description service op)), (''privilege'', AStr (pv_Effect op)),
        (''requiredFields'', AStrs (requiredSchemaFields (pv_InputSchema op))),
        (''validationSchema'', AStr (pv_ValidationSchema op)),
        (''observationSchema'', AStr (firstNonEmpty [pv_ObservationSchema op, ObservationSchemaVersion])),
        (''idempotent'', ABool (pv_Idempotent op)), (''supportsReadiness'', ABool (pv_SupportsReadiness op))]\<rparr>"

text \<open>The descriptors of every operation, in the order of the manifest.\<close>

definition provider_descriptors :: "InstallManifest \<Rightarrow> string \<Rightarrow> CapabilityDescriptor list" where
  "provider_descriptors m generationID = [providerOperationDescriptor m service op generationID.
     service \<leftarrow> im_Services m, op \<leftarrow> se_Operations service]"

end
