(* ===== verification/Provider_Mounts.thy ===== *)
theory Provider_Mounts
  imports Provider_Contract Cordis_Context
begin

text \<open>
  Provider services as plugins of the lifecycle kernel (\<open>src/internal/hostmcp/provider_service_plugin.go\<close>):
  each service of a provider generation is mounted as one plugin that provides the service's value under a
  key of provider, service and generation. The values are pointers: the payload of a kernel service is an
  address in \<open>mt_values\<close>. The adapter to the provider process is a number, and closing it is an argument;
  mounting and disposing are atomic, as in the kernel.
\<close>

section \<open>Values\<close>

definition providerServiceCordisKey :: "string \<Rightarrow> string \<Rightarrow> string \<Rightarrow> string" where
  "providerServiceCordisKey providerID serviceID generationID =
     ServiceKey providerID serviceID @ ''@'' @ TrimSpace generationID"

record providerServiceValue =
  ps_key :: string
  ps_providerID :: string
  ps_generationID :: string
  ps_capabilityID :: string
  ps_service :: ServiceDefinition
  ps_adapter :: nat
  ps_inject :: "string list"

definition OfferingKey :: "providerServiceValue \<Rightarrow> string" where
  "OfferingKey v = ServiceKey (ps_providerID v) (se_ID (ps_service v))"

record 'w Mounts =
  mt_context :: "'w kernel"
  mt_values :: "(nat, providerServiceValue) gomap"
  mt_fresh :: nat
  mt_lifecycle :: ProviderLifecycleManager

datatype MountError =
    Mountf string "string list"
  | MountService string MountError      \<comment> \<open>\<open>mount provider service %q: %w\<close>\<close>
  | KernelError kernel_error

definition value_at :: "'w Mounts \<Rightarrow> string \<Rightarrow> providerServiceValue option" where
  "value_at s key = (case Resolve key (mt_context s) of
     None \<Rightarrow> None | Some service \<Rightarrow> gomap_get (mt_values s) (sk_payload service))"

section \<open>Plugins\<close>

text \<open>The effect of a mount calls its \<open>dispose\<close> function, when it has one.\<close>

definition effect_of :: "'w disposable option \<Rightarrow> 'w disposable" where
  "effect_of dispose = (case dispose of None \<Rightarrow> (\<lambda>w. (None, w)) | Some d \<Rightarrow> d)"

definition service_plugin :: "providerServiceValue \<Rightarrow> nat \<Rightarrow> 'w disposable option \<Rightarrow> 'w plugin" where
  "service_plugin v address dispose = \<lparr>pg_ID = ps_key v, pg_Inject = ps_inject v,
     pg_Apply = CallProvide (Some \<lparr>sk_Key = ps_key v, sk_payload = address\<rparr>) (\<lambda>err. case err of
       Some e \<Rightarrow> Applied (Inl e) | None \<Rightarrow> Applied (Inr (Some (effect_of dispose))))\<rparr>"

section \<open>Dependencies\<close>

definition injectable :: "'w Mounts \<Rightarrow> string \<Rightarrow> providerServiceValue \<Rightarrow> bool" where
  "injectable s generationID v \<longleftrightarrow> ps_generationID v = generationID \<or>
     ps_generationID v = (case Active (mt_lifecycle s) (ps_providerID v) of None \<Rightarrow> [] | Some g \<Rightarrow> ge_ID g)"

definition injectableServiceFamilies :: "'w Mounts \<Rightarrow> string \<Rightarrow> (string, string) gomap" where
  "injectableServiceFamilies s generationID = List.map_filter (\<lambda>key. case value_at s key of
     None \<Rightarrow> None
   | Some v \<Rightarrow> if injectable s generationID v then Some (key, ps_capabilityID v) else None) (ServiceKeys (mt_context s))"

fun resolve_dependencies :: "CapabilityRef list \<Rightarrow> (string, string) gomap \<Rightarrow> MountError + string list" where
  "resolve_dependencies [] provided = Inr []"
| "resolve_dependencies (dep # deps) provided =
     (let family = TrimSpace (cr_ID dep) in
      case sort (map fst (filter (\<lambda>(_, capabilityID). capabilityID = family) provided)) of
        [] \<Rightarrow> Inl (Mountf ''capability %q is not provided by any mounted service'' [family])
      | [key] \<Rightarrow> (case resolve_dependencies deps provided of Inl e \<Rightarrow> Inl e | Inr keys \<Rightarrow> Inr (key # keys))
      | matches \<Rightarrow> Inl (Mountf ''capability %q is provided by %d mounted services; typed provenance is required''
          [family, Itoa (int (length matches))]))"

section \<open>Mounting and unmounting\<close>

text \<open>Disposal runs from the last id to the first; the errors are joined.\<close>

fun dispose_ids :: "string list \<Rightarrow> 'w kernel \<Rightarrow> 'w \<Rightarrow> 'w kernel \<times> 'w \<times> kernel_error list" where
  "dispose_ids [] c w = (c, w, [])"
| "dispose_ids (i # is) c w = (case DisposePlugin i c w of (c1, w1, err) \<Rightarrow>
     (case dispose_ids is c1 w1 of (c2, w2, errs) \<Rightarrow> (c2, w2, (case err of None \<Rightarrow> errs | Some e \<Rightarrow> e # errs))))"

definition unmountProviderPlugins :: "string list \<Rightarrow> 'w Mounts \<Rightarrow> 'w \<Rightarrow> 'w Mounts \<times> 'w \<times> kernel_error list" where
  "unmountProviderPlugins ids s w = (case dispose_ids (rev ids) (mt_context s) w of
     (c, w', errs) \<Rightarrow> (s\<lparr>mt_context := c\<rparr>, w', errs))"

definition service_value :: "InstallManifest \<Rightarrow> string \<Rightarrow> nat \<Rightarrow> ServiceDefinition \<Rightarrow> string list \<Rightarrow> providerServiceValue" where
  "service_value m generationID adapter service inject =
     \<lparr>ps_key = providerServiceCordisKey (pf_ID (im_Provider m)) (se_ID service) generationID,
      ps_providerID = pf_ID (im_Provider m), ps_generationID = generationID,
      ps_capabilityID = TrimSpace (se_CapabilityID service), ps_service = service, ps_adapter = adapter, ps_inject = inject\<rparr>"

definition store_value :: "providerServiceValue \<Rightarrow> 'w Mounts \<Rightarrow> 'w Mounts" where
  "store_value v s = s\<lparr>mt_values := gomap_put (mt_fresh s) v (mt_values s), mt_fresh := mt_fresh s + 1\<rparr>"

text \<open>\<open>mounted_ids\<close> are the keys mounted so far; the first mount owns the connection.\<close>

fun mount_services :: "(nat \<Rightarrow> 'w disposable) \<Rightarrow> InstallManifest \<Rightarrow> string \<Rightarrow> nat \<Rightarrow> string list \<Rightarrow> ServiceDefinition list \<Rightarrow>
    'w Mounts \<Rightarrow> 'w \<Rightarrow> 'w Mounts \<times> 'w \<times> MountError option" where
  "mount_services close m generationID adapter mounted_ids [] s w = (s, w, None)"
| "mount_services close m generationID adapter mounted_ids (service # rest) s w =
     (case resolve_dependencies (se_Dependencies service) (injectableServiceFamilies s generationID) of
        Inl e \<Rightarrow> (case unmountProviderPlugins mounted_ids s w of (s', w', _) \<Rightarrow> (s', w', Some (MountService (se_ID service) e)))
      | Inr inject \<Rightarrow>
         (let v = service_value m generationID adapter service inject;
              p = service_plugin v (mt_fresh s) (if mounted_ids = [] then Some (close adapter) else None)
          in case Plugin (Some p) (mt_context s) w of
               (c, w1, Inl e) \<Rightarrow> (case unmountProviderPlugins mounted_ids ((store_value v s)\<lparr>mt_context := c\<rparr>) w1 of
                  (s', w', _) \<Rightarrow> (s', w', Some (MountService (se_ID service) (KernelError e))))
             | (c, w1, Inr _) \<Rightarrow> mount_services close m generationID adapter (mounted_ids @ [ps_key v]) rest
                  ((store_value v s)\<lparr>mt_context := c\<rparr>) w1))"

definition mountProviderGeneration :: "(nat \<Rightarrow> 'w disposable) \<Rightarrow> InstallManifest \<Rightarrow> string \<Rightarrow> nat option \<Rightarrow>
    'w Mounts \<Rightarrow> 'w \<Rightarrow> 'w Mounts \<times> 'w \<times> MountError option" where
  "mountProviderGeneration close m generationID adapter s w =
     (case adapter of
        None \<Rightarrow> (s, w, Some (Mountf ''provider %q generation %q has no connected adapter'' [pf_ID (im_Provider m), generationID]))
      | Some a \<Rightarrow>
         if TrimSpace generationID = []
         then (s, w, Some (Mountf ''provider %q must be mounted against a generation'' [pf_ID (im_Provider m)]))
         else mount_services close m generationID a [] (im_Services m) s w)"

definition generation_key :: "string \<Rightarrow> string \<Rightarrow> string \<Rightarrow> bool" where
  "generation_key providerID generationID key \<longleftrightarrow>
     HasSuffix key (''@'' @ TrimSpace generationID) \<and> HasPrefix key (ServiceKey providerID [])"

definition unmountProviderGeneration :: "string \<Rightarrow> string \<Rightarrow> 'w Mounts \<Rightarrow> 'w \<Rightarrow> 'w Mounts \<times> 'w \<times> kernel_error list" where
  "unmountProviderGeneration providerID generationID s w =
     unmountProviderPlugins (filter (generation_key providerID generationID) (PluginIDs (mt_context s))) s w"

definition displaced_plugins :: "string \<Rightarrow> string list \<Rightarrow> 'w Mounts \<Rightarrow> string list" where
  "displaced_plugins owner wanted s = filter (\<lambda>i. case value_at s i of
     None \<Rightarrow> False
   | Some v \<Rightarrow> TrimSpace (ps_capabilityID v) \<in> set wanted \<and> TrimSpace (ps_providerID v) \<noteq> owner) (PluginIDs (mt_context s))"

definition displaceCordisCapabilityFamilies :: "string \<Rightarrow> string list \<Rightarrow> 'w Mounts \<Rightarrow> 'w \<Rightarrow> 'w Mounts \<times> 'w \<times> kernel_error list" where
  "displaceCordisCapabilityFamilies ownerProviderID capabilityIDs s w =
     (let wanted = filter (\<lambda>i. i \<noteq> []) (map TrimSpace capabilityIDs); owner = TrimSpace ownerProviderID in
      if owner = [] \<or> wanted = [] then (s, w, []) else unmountProviderPlugins (displaced_plugins owner wanted s) s w)"

section \<open>Lookup\<close>

definition providerServiceValueFor :: "'w Mounts \<Rightarrow> string \<Rightarrow> string \<Rightarrow> string \<Rightarrow> providerServiceValue option" where
  "providerServiceValueFor s providerID serviceID generationID =
     value_at s (providerServiceCordisKey providerID serviceID generationID)"

definition providerGenerationAdapter :: "'w Mounts \<Rightarrow> string \<Rightarrow> string \<Rightarrow> nat option" where
  "providerGenerationAdapter s providerID generationID =
     (case List.map_filter (value_at s) (filter (generation_key providerID generationID) (ServiceKeys (mt_context s))) of
        [] \<Rightarrow> None | v # _ \<Rightarrow> Some (ps_adapter v))"

end
