(* ===== verification/Provider_Contract_Laws.thy ===== *)
theory Provider_Contract_Laws
  imports Provider_Contract Catalog_Laws
begin

text \<open>
  What a validated manifest is worth to the host: the shape of the descriptors its operations project to,
  the agreement of the contract's cost check with the catalog's, and the admissibility of a declared cost.
\<close>

section \<open>The checks of the contract\<close>

lemma checks_all: "checks cs = None \<longleftrightarrow> (\<forall>c \<in> set cs. c = None)"
  by (induction cs) (auto split: option.splits)

lemma validate_operations_Inr:
  assumes "validate_operations owner seen ops = Inr seen'"
  shows "seen' = rev (map pv_ID ops) @ seen" "\<forall>op \<in> set ops. validateOperation op owner = None"
    "distinct (map pv_ID ops)" "set (map pv_ID ops) \<inter> set seen = {}"
  using assms by (induction owner seen ops rule: validate_operations.induct) (auto split: option.splits if_splits)

lemma validate_services_None:
  assumes "validate_services seenServices seen services = None"
  shows "\<forall>s \<in> set services. identifierPattern (TrimSpace (se_CapabilityID s)) \<and>
      (\<forall>op \<in> set (se_Operations s). \<exists>owner. validateOperation op owner = None)" (is ?ok)
    "distinct (map pv_ID (concat (map se_Operations services)))"
    "set (map pv_ID (concat (map se_Operations services))) \<inter> set seen = {}"
proof -
  have "?ok \<and> distinct (map pv_ID (concat (map se_Operations services))) \<and>
      set (map pv_ID (concat (map se_Operations services))) \<inter> set seen = {}"
    using assms
  proof (induction seenServices seen services rule: validate_services.induct)
    case (2 seenServices seen s rest)
    then obtain seen' where ok: "check_service seenServices s = None"
      "validate_operations (''provider service '' @ se_ID s) seen (se_Operations s) = Inr seen'"
      "validate_services (se_ID s # seenServices) seen' rest = None"
      by (auto split: option.splits sum.splits)
    note ops = validate_operations_Inr [OF ok(2)]
    show ?case
    proof (intro conjI)
      have id: "identifierPattern (TrimSpace (se_CapabilityID s))"
        using ok(1) unfolding check_service_def checks_all by simp
      note rest = 2(1) [OF ok]
      show "\<forall>s' \<in> set (s # rest). identifierPattern (TrimSpace (se_CapabilityID s')) \<and>
          (\<forall>op \<in> set (se_Operations s'). \<exists>owner. validateOperation op owner = None)"
        using id ops(2) rest by auto
      show "distinct (map pv_ID (concat (map se_Operations (s # rest))))"
        using ops(1,3) rest by (simp only: list.map concat.simps map_append distinct_append set_append set_rev) blast
      show "set (map pv_ID (concat (map se_Operations (s # rest)))) \<inter> set seen = {}"
        using ops(1,4) rest by (simp only: list.map concat.simps map_append set_append set_rev) blast
    qed
  qed simp
  then show ?ok "distinct (map pv_ID (concat (map se_Operations services)))"
    "set (map pv_ID (concat (map se_Operations services))) \<inter> set seen = {}"
    by auto
qed

lemma provider_descriptors_in: "d \<in> set (provider_descriptors m g) \<longleftrightarrow>
    (\<exists>s \<in> set (im_Services m). \<exists>op \<in> set (se_Operations s). d = providerOperationDescriptor m s op g)"
  by (auto simp: provider_descriptors_def)

lemma provider_ids: "map cd_OperationID (provider_descriptors m g) = map pv_ID (concat (map se_Operations (im_Services m)))"
  by (auto simp: provider_descriptors_def map_concat comp_def providerOperationDescriptor_def)

lemma manifest_operations:
  assumes "ValidateInstallManifest m expected = None" "d \<in> set (provider_descriptors m g)"
  obtains s op owner where "d = providerOperationDescriptor m s op g" "validateOperation op owner = None"
    "identifierPattern (TrimSpace (se_CapabilityID s))"
proof -
  have "validateServices (im_Services m) = None"
    using assms(1) unfolding ValidateInstallManifest_def checks_all by simp
  then have "validate_services [] [] (im_Services m) = None"
    by (simp add: validateServices_def split: if_splits)
  from validate_services_None(1) [OF this] show thesis
    using assms(2) that unfolding provider_descriptors_in by blast
qed

lemma hasSelector_Find: "hasSelector op i \<longleftrightarrow> FindSelector (pv_OutputType op) i (pv_ResultTypes op) \<noteq> None"
proof -
  have "list_ex (\<lambda>t. rty_ID t = out \<and> list_ex (\<lambda>s. sel_ID s = i) (rty_Selectors t)) ts \<longleftrightarrow> FindSelector out i ts \<noteq> None" for out ts
    by (induction ts) (auto split: option.splits if_splits simp: list_ex_iff find_None_iff find_Some_iff)
  then show ?thesis by (simp add: hasSelector_def)
qed

lemma check_required_None: "check_required op b = None \<Longrightarrow> rb_SelectorID b = []"
  unfolding check_required_def checks_all by auto

lemma check_produces_None: "check_produces op b = None \<Longrightarrow> rb_SelectorID b = [] \<or>
    FindSelector (pv_OutputType op) (rb_SelectorID b) (pv_ResultTypes op) \<noteq> None"
  unfolding check_produces_def checks_all hasSelector_Find by auto

lemma validateOperation_None:
  assumes "validateOperation op owner = None"
  shows "operationIdentifierPattern (TrimSpace (pv_ID op))" "1 \<le> pv_Version op"
    "pv_InputSchema op \<noteq> None" "pv_OutputSchema op \<noteq> None" "pv_Effect op \<in> effects"
    "pv_TaskSupport op \<in> {[], ''sync_only'', ''bridged''}"
    "provider_cost (pv_ResourceCost op) (pv_InputSchema op) (pv_ID op) = None"
    "b \<in> set (pv_Produces op) \<Longrightarrow> rb_SelectorID b = [] \<or>
       FindSelector (pv_OutputType op) (rb_SelectorID b) (pv_ResultTypes op) \<noteq> None"
    "b \<in> set (pv_Requires op) \<Longrightarrow> rb_SelectorID b = []"
  using assms unfolding validateOperation_def checks_all
  by (simp_all add: ball_Un check_produces_None del: not_None_eq) (blast dest: check_required_None)

lemma operation_name: "operationIdentifierPattern s \<Longrightarrow> operationNamePattern s"
  by (auto simp: operationIdentifierPattern_def long_name_def operationNamePattern_def split: list.splits)

lemma providerBindings_same [simp]: "providerBindings bs = bs"
  by (simp add: providerBindings_def map_idI)

section \<open>Descriptors\<close>

text \<open>
  C32: Every operation of a validated manifest projects to a descriptor of the catalog's shape: its name is
  its operation id, and a valid catalog name unless the manifest padded it with spaces; version, effect,
  task support, schemas and the family are in range, approval is required exactly of what does not only
  read, a produced binding names a declared selector of the output type, and no two operations of the
  manifest, whatever their services, share an id.
\<close>

theorem operations_project:
  assumes "ValidateInstallManifest m expected = None" "d \<in> set (provider_descriptors m g)"
  shows "cd_Name d = cd_OperationID d \<and> operationNamePattern (TrimSpace (cd_Name d)) \<and> 1 \<le> cd_Version d \<and>
    cd_Effect d \<in> {''read'', ''mutation'', ''destructive'', ''credential_bearing''} \<and>
    (cd_RequiresApproval d \<longleftrightarrow> cd_Effect d \<noteq> ''read'') \<and> cd_TaskSupport d \<in> {[], ''sync_only'', ''bridged''} \<and>
    cd_InputSchema d \<noteq> None \<and> cd_OutputSchema d \<noteq> None \<and> identifierPattern (cd_CapabilityID d) \<and>
    cd_Provider d = pf_ID expected \<and> cd_GenerationID d = g \<and>
    (\<forall>b. b \<in> set (cd_Requires d) \<longrightarrow> rb_SelectorID b = []) \<and>
    (\<forall>b. b \<in> set (cd_Produces d) \<longrightarrow>
       rb_SelectorID b = [] \<or> FindSelector (cd_OutputType d) (rb_SelectorID b) (cd_ResultTypes d) \<noteq> None) \<and>
    distinct (map cd_OperationID (provider_descriptors m g))"
proof -
  obtain s op owner where d: "d = providerOperationDescriptor m s op g" and ok: "validateOperation op owner = None"
    and family: "identifierPattern (TrimSpace (se_CapabilityID s))"
    using manifest_operations [OF assms] .
  have services: "validate_services [] [] (im_Services m) = None" and provider: "im_Provider m = expected"
    using assms(1) unfolding ValidateInstallManifest_def checks_all
    by (simp_all add: validateServices_def split: if_splits)
  have "distinct (map cd_OperationID (provider_descriptors m g))"
    unfolding provider_ids by (rule validate_services_None(2) [OF services])
  with validateOperation_None [OF ok] family provider show ?thesis
    unfolding d effects_def by (auto simp: providerOperationDescriptor_def operation_name simp del: not_None_eq)
qed

section \<open>Costs\<close>

text \<open>No schema on the way along a path has an \<open>items\<close> schema of its own.\<close>

fun plain_way :: "anymap \<Rightarrow> string list \<Rightarrow> bool" where
  "plain_way current [] \<longleftrightarrow> True"
| "plain_way current (segment # rest) \<longleftrightarrow>
     (case sub_map current ''properties'' of
        None \<Rightarrow> True
      | Some properties \<Rightarrow> (case sub_map properties segment of
          None \<Rightarrow> True | Some child \<Rightarrow> sub_map child ''items'' = None \<and> plain_way child rest))"

lemma walks_agree:
  assumes "provider_walk schema path = Some p" "plain_way schema path" "\<forall>s \<in> set path. CHR '']'' \<notin> set s"
  shows "schema_walk schema path = Some p"
  using assms
proof (induction schema path rule: plain_way.induct)
  case (2 schema segment rest)
  have "TrimSuffix segment ''[]'' = segment"
  proof (rule ccontr)
    assume "\<not> ?thesis"
    then obtain t where "rev segment = ''][''  @ t"
      by (auto simp: TrimSuffix_def HasSuffix_def HasPrefix_iff split: if_splits)
    then have "CHR '']'' \<in> set (rev segment)" by simp
    with 2(4) show False by simp
  qed
  with 2 show ?case by (auto split: option.splits if_splits)
qed simp

lemma Split_chars: "w \<in> set (Split s d) \<Longrightarrow> set w \<subseteq> set s"
  by (induction s d arbitrary: w rule: Split.induct) (auto split: list.splits if_splits, blast+)

definition bound_paths :: "ResourceCost \<Rightarrow> string list" where
  "bound_paths cost = (case rc_ArgumentBindings cost of None \<Rightarrow> []
     | Some b \<Rightarrow> [ab_CPUCores b, ab_MemoryBytes b, ab_DiskBytes b, ab_Tasks b])"

lemma cost_binding_agrees:
  assumes "provider_cost_binding (cd_InputSchema d) op (field, raw, types, static) = None"
    "plain_way (cd_InputSchema d) (path_of (TrimSpace raw))"
  shows "validate_cost_binding d (field, raw, types, static) = None"
proof (cases "TrimSpace raw = []")
  case False
  then obtain p where p: "\<not> dotted (TrimSpace raw)" "provider_walk (cd_InputSchema d) (path_of (TrimSpace raw)) = Some p"
    and static: static and type: "type_name p \<in> types"
    using assms(1) by (auto simp: provider_cost_binding_def Let_def providerSchemaPath_def split: option.splits if_splits)
  have "\<forall>s \<in> set (path_of (TrimSpace raw)). CHR '']'' \<notin> set s"
    using p(1) Split_chars unfolding path_of_def dotted_def list_ex_iff by fastforce
  with walks_agree [OF p(2) assms(2)] show ?thesis
    using p(1) static type by (simp add: validate_cost_binding_def Let_def schemaPath_def)
qed (simp add: validate_cost_binding_def)

text \<open>
  C33: The cost an operation of a validated manifest declares passes the catalog's check of the descriptor
  it projects to: the registration is not refused for it. The class must not be padded with spaces, which
  the contract trims and the catalog does not, and the paths of the cost must not lead through a schema
  with items, into which only the catalog descends.
\<close>

theorem cost_accepted:
  assumes "ValidateInstallManifest m expected = None" "d \<in> set (provider_descriptors m g)"
    and unpadded: "\<And>cost. cd_ResourceCost d = Some cost \<Longrightarrow> TrimSpace (rc_Class cost) = rc_Class cost"
    and plain: "\<And>cost path. cd_ResourceCost d = Some cost \<Longrightarrow> path \<in> set (bound_paths cost) \<Longrightarrow>
      plain_way (cd_InputSchema d) (path_of (TrimSpace path))"
  shows "validateResourceCost d = None"
proof (cases "cd_ResourceCost d")
  case (Some cost)
  obtain s op owner where d: "d = providerOperationDescriptor m s op g" and ok: "validateOperation op owner = None"
    using manifest_operations [OF assms(1,2)] .
  have fields: "pv_ResourceCost op = Some cost" "pv_InputSchema op = cd_InputSchema d" "cd_OperationID d = pv_ID op"
    using Some unfolding d by (simp_all add: providerOperationDescriptor_def)
  have cost: "provider_cost (Some cost) (cd_InputSchema d) (pv_ID op) = None"
    using validateOperation_None(7) [OF ok] fields by simp
  have binds: "checks (map (validate_cost_binding d) (cost_bindings cost b)) = None"
    if b: "rc_ArgumentBindings cost = Some b" for b
  proof -
    have "\<forall>x \<in> set (cost_bindings cost b). provider_cost_binding (cd_InputSchema d) (pv_ID op) x = None"
      using cost b by (simp add: provider_cost_def Let_def checks_all del: checks.simps split: if_splits)
    moreover have "plain_way (cd_InputSchema d) (path_of (TrimSpace raw))" if "(f, raw, t, st) \<in> set (cost_bindings cost b)" for f raw t st
      using that b by (intro plain [OF Some]) (auto simp: bound_paths_def cost_bindings_def)
    ultimately show ?thesis
      unfolding checks_all by (fastforce intro: cost_binding_agrees)
  qed
  have "(case rc_ArgumentBindings cost of None \<Rightarrow> None
      | Some b \<Rightarrow> checks (map (validate_cost_binding d) (cost_bindings cost b))) = None"
    using binds by (simp split: option.split)
  then show ?thesis
    using cost unpadded [OF Some] unfolding validateResourceCost_def Some provider_cost_def
    by (simp add: Let_def checks_simps del: checks.simps split: if_splits)
qed (simp add: validateResourceCost_def)

section \<open>A manifest\<close>

definition example_operation :: "string \<Rightarrow> string \<Rightarrow> ResourceCost option \<Rightarrow> Operation" where
  "example_operation name eff cost = \<lparr>pv_ID = name, pv_Version = 1, pv_Description = ''Inspect.'',
     pv_InputSchema = Some [(''type'', AStr ''object''),
       (''properties'', AMap [(''memory'', AMap [(''type'', AStr ''string'')])])],
     pv_OutputSchema = Some [(''type'', AStr ''object'')], pv_OutputType = [], pv_ResultTypes = [],
     pv_ValidationSchema = [], pv_ObservationSchema = [], pv_Effect = eff, pv_ResourceKinds = [], pv_Requires = [],
     pv_Produces = [], pv_Idempotent = True, pv_SupportsReadiness = False, pv_ResourceCost = cost,
     pv_SupportsStreaming = False, pv_TaskSupport = []\<rparr>"

definition example_cost :: "string \<Rightarrow> ResourceCost" where
  "example_cost kind = \<lparr>rc_CPUCores = FZero False, rc_MemoryBytes = 1024, rc_DiskBytes = 0, rc_Tasks = 1, rc_Class = kind,
     rc_ArgumentBindings = Some \<lparr>ab_CPUCores = [], ab_MemoryBytes = '' memory'', ab_DiskBytes = [], ab_Tasks = []\<rparr>\<rparr>"

definition example_service :: "string \<Rightarrow> Operation list \<Rightarrow> ServiceDefinition" where
  "example_service name ops = \<lparr>se_ID = name, se_CapabilityID = ''opute.capability.example.v1'', se_Version = 1,
     se_Operations = ops, se_Dependencies = []\<rparr>"

definition example_manifest :: "ServiceDefinition list \<Rightarrow> InstallManifest" where
  "example_manifest services = \<lparr>im_Schema = InstallManifestVersion,
     im_Provider = \<lparr>pf_ID = ''com.opute.example'', pf_Version = ''1.0.0''\<rparr>,
     im_Provides = [\<lparr>cr_ID = ''opute.capability.example.v1'', cr_Version = 1\<rparr>], im_Requires = [], im_MinimumVersion = [],
     im_Recipes = [], im_Services = services, im_Teardown = None,
     im_Validation = \<lparr>vr_Capability = ''opute.capability.example.v1'', vr_Operation = ''validate''\<rparr>\<rparr>"

definition one_manifest :: InstallManifest where
  "one_manifest = example_manifest [example_service ''opute.example''
     [example_operation ''example.inspect'' ''read'' None,
      example_operation ''example.create'' ''mutation'' (Some (example_cost ''heavy''))]]"

lemma one_manifest_valid: "ValidateInstallManifest one_manifest (im_Provider one_manifest) = None"
  by code_simp

abbreviation create_descriptor :: CapabilityDescriptor where
  "create_descriptor \<equiv> providerOperationDescriptor one_manifest (hd (im_Services one_manifest))
     (example_operation ''example.create'' ''mutation'' (Some (example_cost ''heavy''))) ''g1''"

lemma create_descriptor_in: "create_descriptor \<in> set (provider_descriptors one_manifest ''g1'')"
  by (simp add: provider_descriptors_def one_manifest_def example_manifest_def example_service_def)

theorem operations_project_witness:
  "map cd_Name (provider_descriptors one_manifest ''g1'') = [''example.inspect'', ''example.create''] \<and>
   operationNamePattern (TrimSpace (cd_Name create_descriptor)) \<and>
   distinct (map cd_OperationID (provider_descriptors one_manifest ''g1''))"
proof (intro conjI)
  show "map cd_Name (provider_descriptors one_manifest ''g1'') = [''example.inspect'', ''example.create'']" by code_simp
qed (use operations_project [OF one_manifest_valid create_descriptor_in] in \<open>blast+\<close>)

theorem cost_accepted_witness:
  "cd_ResourceCost create_descriptor = Some (example_cost ''heavy'') \<and> validateResourceCost create_descriptor = None"
proof
  show cost: "cd_ResourceCost create_descriptor = Some (example_cost ''heavy'')"
    by (simp add: providerOperationDescriptor_def example_operation_def)
  have one: "c = example_cost ''heavy''" if "cd_ResourceCost create_descriptor = Some c" for c
    using that cost by (simp only: option.inject)
  have "list_all (\<lambda>path. plain_way (cd_InputSchema create_descriptor) (path_of (TrimSpace path)))
      (bound_paths (example_cost ''heavy''))" by code_simp
  then have plain: "path \<in> set (bound_paths c) \<Longrightarrow> plain_way (cd_InputSchema create_descriptor) (path_of (TrimSpace path))"
    if "cd_ResourceCost create_descriptor = Some c" for c path
    unfolding one [OF that] list_all_iff by blast
  have "TrimSpace (rc_Class (example_cost ''heavy'')) = rc_Class (example_cost ''heavy'')" by code_simp
  with one have trimmed: "TrimSpace (rc_Class c) = rc_Class c" if "cd_ResourceCost create_descriptor = Some c" for c
    using that by blast
  show "validateResourceCost create_descriptor = None"
    by (rule cost_accepted [OF one_manifest_valid create_descriptor_in trimmed plain])
qed

text \<open>What the contract accepts and the host then refuses or confuses.\<close>

theorem padded_class_refused:
  "let m = example_manifest [example_service ''opute.example''
       [example_operation ''example.create'' ''mutation'' (Some (example_cost '' heavy''))]] in
   ValidateInstallManifest m (im_Provider m) = None \<and>
   (\<forall>d. d \<in> set (provider_descriptors m ''g1'') \<longrightarrow> validateResourceCost d \<noteq> None)"
proof -
  let ?m = "example_manifest [example_service ''opute.example''
     [example_operation ''example.create'' ''mutation'' (Some (example_cost '' heavy''))]]"
  have "ValidateInstallManifest ?m (im_Provider ?m) = None" by code_simp
  moreover have "list_all (\<lambda>d. validateResourceCost d \<noteq> None) (provider_descriptors ?m ''g1'')" by code_simp
  ultimately show ?thesis by (simp add: Let_def list_all_iff)
qed

theorem padded_services_share_a_key:
  "let m = example_manifest [example_service ''opute.example'' [], example_service '' opute.example'' []];
       keys = map (\<lambda>s. ServiceKey (pf_ID (im_Provider m)) (se_ID s)) (im_Services m)
   in ValidateInstallManifest m (im_Provider m) = None \<and> \<not> distinct keys"
  by code_simp

end
