(* ===== verification/Provider_Mount_Laws.thy ===== *)
theory Provider_Mount_Laws
  imports Provider_Mounts Cordis_Laws Provider_Contract_Laws
begin

text \<open>
  Mounting a provider generation is all or nothing, makes each of its services addressable by provider,
  service and generation, and is undone by unmounting the generation. The argument is a chain of plugins
  each of which the kernel can take away again, in reverse.
\<close>

section \<open>Undoing a chain of mounts\<close>

lemma same_refl: "cx_current c = None \<Longrightarrow> same_registrations c c"
  by (simp add: same_registrations_def)

lemma same_trans: "same_registrations a b \<Longrightarrow> same_registrations b c \<Longrightarrow> same_registrations a c"
  by (simp add: same_registrations_def)

lemma dispose_same:
  assumes "kernel_inv c" "kernel_inv c'" "same_registrations c c'"
  shows "same_registrations (fst (fiber_Dispose f c w)) (fst (fiber_Dispose f c' w'))"
proof -
  let ?d = "\<lambda>c. let c1 = fold stopListener (rev (fb_listeners f)) c; c2 = fold (release_service (fb_id f)) (fb_services f) c1
    in c2\<lparr>cx_plugins := gomap_del (fb_id f) (cx_plugins c2)\<rparr>"
  have same: "gomap_get (cx_services c') = gomap_get (cx_services c)" "gomap_get (cx_serviceOwner c') = gomap_get (cx_serviceOwner c)"
    "gomap_get (cx_plugins c') = gomap_get (cx_plugins c)" "listeners_of c' = listeners_of c" "cx_current c' = None"
    using assms(3) by (simp_all add: same_registrations_def)
  have ls: "listeners_of (?d c) = (\<lambda>ev. filter (\<lambda>l. (ev, lr_id l) \<notin> set (fb_listeners f)) (listeners_of c ev))" if "kernel_inv c" for c
  proof
    fix ev
    have "listeners_of (?d c) ev = listeners_of (fold stopListener (rev (fb_listeners f)) c) ev"
      by (rule listeners_of_cong) (simp add: Let_def)
    then show "listeners_of (?d c) ev = filter (\<lambda>l. (ev, lr_id l) \<notin> set (fb_listeners f)) (listeners_of c ev)"
      using stop_all_listeners [OF inv_parts(2) [OF that], of "rev (fb_listeners f)" ev] by simp
  qed
  show ?thesis
    unfolding dispose_fields same_registrations_def ls [OF assms(1)] ls [OF assms(2)]
    by (auto simp: Let_def release_all_get fun_eq_iff same)
qed

lemma DisposePlugin_same:
  assumes "kernel_inv c" "kernel_inv c'" "same_registrations c c'"
  shows "same_registrations (fst (DisposePlugin i c w)) (fst (DisposePlugin i c' w'))"
proof -
  have "gomap_get (cx_plugins c') i = gomap_get (cx_plugins c) i" using assms(3) by (simp add: same_registrations_def)
  then show ?thesis
    using assms dispose_same [OF assms] by (auto simp: DisposePlugin_def split: option.split)
qed

lemma dispose_ids_Cons: "fst (dispose_ids (i # is) c w) =
    fst (dispose_ids is (fst (DisposePlugin i c w)) (fst (snd (DisposePlugin i c w))))"
  by (auto split: prod.splits)

lemma dispose_ids_inv: "kernel_inv c \<Longrightarrow> kernel_inv (fst (dispose_ids is c w))"
  by (induction "is" arbitrary: c w) (auto simp: dispose_ids_Cons DisposePlugin_inv simp del: dispose_ids.simps(2))

lemma dispose_ids_same:
  "kernel_inv c \<Longrightarrow> kernel_inv c' \<Longrightarrow> same_registrations c c' \<Longrightarrow>
    same_registrations (fst (dispose_ids is c w)) (fst (dispose_ids is c' w'))"
proof (induction "is" arbitrary: c c' w w')
  case (Cons i "is")
  show ?case unfolding dispose_ids_Cons
    by (intro Cons.IH DisposePlugin_inv Cons.prems DisposePlugin_same)
qed (simp add: same_refl)

definition undoes :: "'w kernel \<Rightarrow> string list \<Rightarrow> 'w kernel \<Rightarrow> bool" where
  "undoes c0 ids c \<longleftrightarrow> kernel_inv c \<and> (\<forall>w. same_registrations c0 (fst (dispose_ids (rev ids) c w)))"

lemma undoes_start: "kernel_inv c \<Longrightarrow> undoes c [] c"
  by (simp add: undoes_def same_refl inv_parts(6))

lemma undoes_same:
  assumes "undoes c0 ids c" "kernel_inv c'" "same_registrations c c'"
  shows "undoes c0 ids c'"
  unfolding undoes_def
proof (intro conjI allI assms(2))
  fix w
  have "same_registrations (fst (dispose_ids (rev ids) c w)) (fst (dispose_ids (rev ids) c' w))"
    using assms by (intro dispose_ids_same) (auto simp: undoes_def)
  then show "same_registrations c0 (fst (dispose_ids (rev ids) c' w))"
    using assms(1) same_trans by (auto simp: undoes_def)
qed

lemma undoes_mount:
  assumes "undoes c0 ids c" "Plugin (Some p) c w = (c1, w1, Inr f)" "fb_id f = i"
  shows "undoes c0 (ids @ [i]) c1"
  unfolding undoes_def
proof (intro conjI allI)
  have inv: "kernel_inv c" using assms(1) by (simp add: undoes_def)
  show inv1: "kernel_inv c1" by (rule Plugin_inv [OF inv assms(2)])
  fix u
  let ?c2 = "fst (DisposePlugin i c1 u)"
  have "same_registrations c ?c2"
    using Plugin_undone [OF inv assms(2), of u] assms(3) by simp
  then have "undoes c0 ids ?c2"
    by (rule undoes_same [OF assms(1) DisposePlugin_inv [OF inv1]])
  then show "same_registrations c0 (fst (dispose_ids (rev (ids @ [i])) c1 u))"
    by (simp add: dispose_ids_Cons undoes_def del: dispose_ids.simps(2))
qed

section \<open>Mounting one service\<close>

definition mounted_fiber :: "providerServiceValue \<Rightarrow> 'w disposable option \<Rightarrow> 'w kernel \<Rightarrow> 'w fiber" where
  "mounted_fiber v dispose c = \<lparr>fb_id = ps_key v, fb_seq = cx_nextFiberSeq c + 1, fb_effects = [effect_of dispose],
     fb_listeners = [], fb_services = [ps_key v]\<rparr>"

definition with_service :: "providerServiceValue \<Rightarrow> nat \<Rightarrow> 'w disposable option \<Rightarrow> 'w kernel \<Rightarrow> 'w kernel" where
  "with_service v a dispose c = c\<lparr>cx_services := gomap_put (ps_key v) \<lparr>sk_Key = ps_key v, sk_payload = a\<rparr> (cx_services c),
     cx_serviceOwner := gomap_put (ps_key v) (ps_key v) (cx_serviceOwner c),
     cx_plugins := gomap_put (ps_key v) (mounted_fiber v dispose c) (cx_plugins c),
     cx_current := None, cx_nextFiberSeq := cx_nextFiberSeq c + 1\<rparr>"

lemma service_plugin_Inr:
  assumes "Plugin (Some (service_plugin v a dispose)) c w = (c', w', Inr f)" "cx_current c = None"
  shows "c' = with_service v a dispose c" "w' = w" "f = mounted_fiber v dispose c"
    "gomap_get (cx_plugins c) (ps_key v) = None" "gomap_get (cx_services c) (ps_key v) = None"
  using assms
  by (auto simp: Plugin_def service_plugin_def Provide_def Let_def with_service_def mounted_fiber_def
      split: if_splits option.splits prod.splits)

lemma service_plugin_Inl:
  assumes "Plugin (Some (service_plugin v a dispose)) c w = (c', w', Inl e)"
  shows "w' = w"
  using assms
  by (auto simp: Plugin_def service_plugin_def Provide_def Let_def fiber_Dispose_def
      split: if_splits option.splits prod.splits)


section \<open>The order of mounts\<close>

definition seq_inv :: "'w kernel \<Rightarrow> bool" where
  "seq_inv c \<longleftrightarrow> (\<forall>i f. gomap_get (cx_plugins c) i = Some f \<longrightarrow> fb_seq f \<le> cx_nextFiberSeq c)"

lemma run_apply_seq:
  assumes "kernel_inv c" "run_apply p (c\<lparr>cx_nextFiberSeq := n, cx_current :=
      Some \<lparr>fb_id = i, fb_seq = n, fb_effects = [], fb_listeners = [], fb_services = []\<rparr>\<rparr>) = (c1, out)"
  shows "cx_nextFiberSeq c1 = n" "cx_plugins c1 = cx_plugins c" "\<exists>f. cx_current c1 = Some f \<and> fb_seq f = n"
proof -
  let ?c0 = "c\<lparr>cx_nextFiberSeq := n, cx_current := Some \<lparr>fb_id = i, fb_seq = n, fb_effects = [], fb_listeners = [], fb_services = []\<rparr>\<rparr>"
  have "applying c i n ?c0" by (auto simp: applying_def grew_def listeners_of_def)
  from applying_run [OF this inv_parts(1) [OF assms(1)], of p]
  have "applying c i n c1" unfolding assms(2) fst_conv .
  then show "cx_nextFiberSeq c1 = n" "cx_plugins c1 = cx_plugins c" "\<exists>f. cx_current c1 = Some f \<and> fb_seq f = n"
    by (auto simp: applying_def grew_def)
qed

lemma dispose_seq: "seq_inv c \<Longrightarrow> seq_inv (fst (fiber_Dispose f c w))"
  by (auto simp: dispose_fields Let_def seq_inv_def)

lemma Plugin_seq:
  assumes "kernel_inv c" "seq_inv c" "Plugin p c w = (c', w', r)"
  shows "seq_inv c'"
proof (cases p)
  case (Some q)
  let ?n = "cx_nextFiberSeq c + 1"
  let ?c0 = "c\<lparr>cx_nextFiberSeq := ?n, cx_current :=
      Some \<lparr>fb_id = pg_ID q, fb_seq = ?n, fb_effects = [], fb_listeners = [], fb_services = []\<rparr>\<rparr>"
  obtain c1 out where run: "run_apply (pg_Apply q) ?c0 = (c1, out)" by fastforce
  note seq = run_apply_seq [OF assms(1) run]
  obtain f where f: "cx_current c1 = Some f" "fb_seq f = ?n" using seq(3) by blast
  have old: "seq_inv (c1\<lparr>cx_current := None\<rparr>)" using assms(2) seq(1,2) by (fastforce simp: seq_inv_def)
  have new: "seq_inv (c1\<lparr>cx_current := None, cx_plugins := gomap_put (pg_ID q) g (cx_plugins c1)\<rparr>)" if "fb_seq g = ?n" for g
    using assms(2) seq(1,2) that by (fastforce simp: seq_inv_def)
  show ?thesis
  proof (cases "c' = c")
    case False
    then have "c' = (case out of Inl e \<Rightarrow> fst (fiber_Dispose f (c1\<lparr>cx_current := None\<rparr>) w)
      | Inr eff \<Rightarrow> (let g = (case eff of None \<Rightarrow> f | Some e \<Rightarrow> f\<lparr>fb_effects := fb_effects f @ [e]\<rparr>) in
          c1\<lparr>cx_current := None, cx_plugins := gomap_put (pg_ID q) g (cx_plugins c1)\<rparr>))"
      using assms(3) Some run f(1) by (auto simp: Plugin_def Let_def split: prod.splits if_splits option.splits sum.splits)
    then show ?thesis using dispose_seq [OF old] new f(2) by (auto simp: Let_def split: sum.splits option.splits)
  qed (use assms(2) in simp)
qed (use assms in \<open>simp add: Plugin_def\<close>)

lemma seq_inv_step: "kernel_step c c' \<Longrightarrow> kernel_inv c \<Longrightarrow> seq_inv c \<Longrightarrow> seq_inv c'"
proof (induction rule: kernel_step.induct)
  case (mount c p w)
  then show ?case using Plugin_seq by (cases "Plugin p c w") auto
next
  case (unmount c i w)
  then show ?case by (auto simp: DisposePlugin_def dispose_seq split: option.split)
next
  case (define_event c nm m)
  then show ?case by (cases m) (auto simp: DefineEvent_def seq_inv_def)
next
  case (provide c s)
  then show ?case using inv_parts(6) [OF provide(1)] by (auto simp: Provide_def split: option.splits)
next
  case (effect c e)
  then show ?case using inv_parts(6) [OF effect(1)] by (auto simp: Effect_def split: option.splits)
next
  case (listen c ev l)
  then show ?case using inv_parts(6) [OF listen(1)] by (auto simp: On_def split: option.splits)
qed (auto simp: seq_inv_def)

interpretation ordered_kernels: invariant_system new_kernel kernel_step "\<lambda>c. kernel_inv c \<and> seq_inv c"
proof unfold_locales
  show "kernel_inv s \<and> seq_inv s" if "new_kernel s" for s :: "'a kernel"
    using kernels.inv_reachable [OF reaches_start [of new_kernel, OF that]] that
    by (auto simp: new_kernel_def NewContext_def seq_inv_def)
  show "kernel_inv s' \<and> seq_inv s'" if "kernel_inv s \<and> seq_inv s" "kernel_step s s'" for s s' :: "'a kernel"
    using that kernel_inv_step seq_inv_step by blast
qed

lemma insort_key_snoc: "f a \<le> f x \<Longrightarrow> insort_key f a (ys @ [x]) = insort_key f a ys @ [x]"
  by (induction ys) auto

lemma sort_key_snoc: "\<forall>y \<in> set xs. f y \<le> f x \<Longrightarrow> sort_key f (xs @ [x]) = sort_key f xs @ [x]"
  by (induction xs) (auto simp: insort_key_snoc)

lemma PluginIDs_with_service:
  assumes "kernel_inv c" "seq_inv c" "gomap_get (cx_plugins c) (ps_key v) = None"
  shows "PluginIDs (with_service v a d c) = PluginIDs c @ [ps_key v]"
proof -
  have "\<forall>f \<in> set (map snd (cx_plugins c)). fb_seq f \<le> fb_seq (mounted_fiber v d c)"
    using assms(2) inv_parts(5) [OF assms(1)] by (auto simp: seq_inv_def mounted_fiber_def gomap_get_in le_Suc_eq)
  from sort_key_snoc [OF this] show ?thesis
    by (simp add: PluginIDs_def mounted_def with_service_def gomap_put_fresh [OF assms(3)]) (simp add: mounted_fiber_def)
qed


section \<open>The connection\<close>

definition owns :: "'w disposable \<Rightarrow> string list \<Rightarrow> 'w kernel \<Rightarrow> bool" where
  "owns d ids c \<longleftrightarrow> distinct ids \<and> (\<forall>i. i \<in> set ids \<longrightarrow> (\<exists>f. gomap_get (cx_plugins c) i = Some f \<and> fb_id f = i \<and>
     fb_effects f = [if i = hd ids then d else effect_of None]))"

lemma owns_Nil: "owns d [] c"
  by (simp add: owns_def)

lemma owns_same: "owns d ids c \<Longrightarrow> same_registrations c c' \<Longrightarrow> owns d ids c'"
  by (simp add: owns_def same_registrations_def)

lemma owns_snoc:
  assumes "owns d ids c" "gomap_get (cx_plugins c) (ps_key v) = None"
  shows "owns d (ids @ [ps_key v]) (with_service v a (if ids = [] then Some d else None) c)"
proof -
  have "ps_key v \<notin> set ids" using assms by (auto simp: owns_def)
  then show ?thesis
    using assms(1) by (cases ids) (auto simp: owns_def with_service_def mounted_fiber_def effect_of_def)
qed

lemma dispose_ids_snd:
  "DisposePlugin i c w = (c1, w1, err) \<Longrightarrow> snd (dispose_ids is c1 w1) = (w2, errs) \<Longrightarrow>
    snd (dispose_ids (i # is) c w) = (w2, (case err of None \<Rightarrow> errs | Some e \<Rightarrow> e # errs))"
  by (cases "dispose_ids is c1 w1") simp

lemma dispose_owned:
  "owns d ids c \<Longrightarrow> snd (dispose_ids (rev ids) c w) =
    (if ids = [] then (w, []) else (snd (d w), (case fst (d w) of None \<Rightarrow> [] | Some e \<Rightarrow> [e])))"
proof (induction ids arbitrary: c w rule: rev_induct)
  case (snoc i js)
  obtain f where f: "gomap_get (cx_plugins c) i = Some f" "fb_id f = i"
      "fb_effects f = [if js = [] then d else effect_of None]"
    using snoc.prems by (cases js) (auto simp: owns_def)
  have step: "DisposePlugin i c w = (fst (DisposePlugin i c w), snd ((if js = [] then d else effect_of None) w),
      fst ((if js = [] then d else effect_of None) w))"
    by (simp add: DisposePlugin_def f fiber_Dispose_def Let_def split: prod.splits option.split)
  have "owns d js (fst (DisposePlugin i c w))"
    using snoc.prems f by (cases js) (auto simp: owns_def DisposePlugin_def dispose_fields Let_def)
  note IH = snoc.IH [OF this]
  show ?case
    using dispose_ids_snd [OF step, of "rev js"] IH by (cases js) (auto simp: effect_of_def split: option.split)
qed simp

section \<open>Mounting a generation\<close>

definition service_keys :: "InstallManifest \<Rightarrow> string \<Rightarrow> ServiceDefinition list \<Rightarrow> string list" where
  "service_keys m g services = map (\<lambda>x. providerServiceCordisKey (pf_ID (im_Provider m)) (se_ID x) g) services"

lemma unmount_undoes:
  assumes "undoes c0 ids (mt_context s)" "owns d ids (mt_context s)" "unmountProviderPlugins ids s w = (s', w', errs)"
  shows "same_registrations c0 (mt_context s')" "w' = (if ids = [] then w else snd (d w))"
    "errs = (if ids = [] then [] else (case fst (d w) of None \<Rightarrow> [] | Some e \<Rightarrow> [e]))"
    "mt_values s' = mt_values s" "mt_lifecycle s' = mt_lifecycle s"
proof -
  have same: "same_registrations c0 (fst (dispose_ids (rev ids) (mt_context s) w))"
    using assms(1) by (simp add: undoes_def)
  have s': "s' = s\<lparr>mt_context := fst (dispose_ids (rev ids) (mt_context s) w)\<rparr>" "(w', errs) = snd (dispose_ids (rev ids) (mt_context s) w)"
    using assms(3) by (auto simp: unmountProviderPlugins_def split: prod.splits)
  show "same_registrations c0 (mt_context s')" using same s'(1) by simp
  show "w' = (if ids = [] then w else snd (d w))" "errs = (if ids = [] then [] else (case fst (d w) of None \<Rightarrow> [] | Some e \<Rightarrow> [e]))"
    using s'(2) dispose_owned [OF assms(2), of w] by (auto split: if_splits)
  show "mt_values s' = mt_values s" "mt_lifecycle s' = mt_lifecycle s" using s'(1) by simp_all
qed


lemma mount_services_cases:
  assumes "mount_services close m g a ids services s w = (s', w', err)"
    and "undoes c0 ids (mt_context s)" "owns (close a) ids (mt_context s)" "seq_inv (mt_context s)"
  obtains (refused) e where "err = Some e" "same_registrations c0 (mt_context s')" "w' = w \<or> w' = snd (close a w)"
  | (mounted) "err = None" "w' = w" "undoes c0 (ids @ service_keys m g services) (mt_context s')"
      "owns (close a) (ids @ service_keys m g services) (mt_context s')"
      "PluginIDs (mt_context s') = PluginIDs (mt_context s) @ service_keys m g services"
      "mt_lifecycle s' = mt_lifecycle s"
proof -
  have "(\<exists>e. err = Some e \<and> same_registrations c0 (mt_context s') \<and> (w' = w \<or> w' = snd (close a w))) \<or>
    (err = None \<and> w' = w \<and> undoes c0 (ids @ service_keys m g services) (mt_context s') \<and>
      owns (close a) (ids @ service_keys m g services) (mt_context s') \<and>
      PluginIDs (mt_context s') = PluginIDs (mt_context s) @ service_keys m g services \<and> mt_lifecycle s' = mt_lifecycle s)"
    using assms
  proof (induction services arbitrary: ids s w)
    case (Cons x rest)
    note inv = Cons.prems(2) [unfolded undoes_def, THEN conjunct1]
    show ?case
    proof (cases "resolve_dependencies (se_Dependencies x) (injectableServiceFamilies s g)")
      case (Inl e)
      obtain s1 w1 errs where u: "unmountProviderPlugins ids s w = (s1, w1, errs)" by (metis prod_cases3)
      with Inl Cons.prems(1) have "s' = s1" "w' = w1" "err = Some (MountService (se_ID x) e)" by auto
      then show ?thesis using unmount_undoes(1,2) [OF Cons.prems(2,3) u] by simp
    next
      case (Inr inject)
      let ?v = "service_value m g a x inject"
      let ?own = "if ids = [] then Some (close a) else None"
      obtain c w1 r where p: "Plugin (Some (service_plugin ?v (mt_fresh s) ?own)) (mt_context s) w = (c, w1, r)" by (metis prod_cases3)
      show ?thesis
      proof (cases r)
        case (Inl e)
        let ?t = "(store_value ?v s)\<lparr>mt_context := c\<rparr>"
        have same: "same_registrations (mt_context s) c" "kernel_inv c"
          using Plugin_undone [OF inv p] Plugin_inv [OF inv p] Inl by simp_all
        have t: "undoes c0 ids (mt_context ?t)" "owns (close a) ids (mt_context ?t)"
          using undoes_same [OF Cons.prems(2) same(2,1)] owns_same [OF Cons.prems(3) same(1)] by simp_all
        obtain s1 w2 errs where u: "unmountProviderPlugins ids ?t w1 = (s1, w2, errs)" by (metis prod_cases3)
        have "w1 = w" using service_plugin_Inl p Inl by metis
        moreover have "s' = s1" "w' = w2" "err = Some (MountService (se_ID x) (KernelError e))"
          using Cons.prems(1) \<open>resolve_dependencies _ _ = Inr inject\<close> p Inl u by (simp_all add: Let_def)
        ultimately show ?thesis using unmount_undoes(1,2) [OF t u] by simp
      next
        case (Inr f)
        let ?t = "(store_value ?v s)\<lparr>mt_context := c\<rparr>"
        note svc = service_plugin_Inr [OF p [unfolded Inr] inv_parts(6) [OF inv]]
        have key: "ps_key ?v = providerServiceCordisKey (pf_ID (im_Provider m)) (se_ID x) g" by (simp add: service_value_def)
        have "fb_id f = ps_key ?v" using svc(3) by (simp add: mounted_fiber_def)
        from undoes_mount [OF Cons.prems(2) p [unfolded Inr] this]
        have "undoes c0 (ids @ [ps_key ?v]) (mt_context ?t)" by simp
        moreover have "owns (close a) (ids @ [ps_key ?v]) (mt_context ?t)"
          using owns_snoc [OF Cons.prems(3) svc(4)] svc(1) by simp
        moreover have "seq_inv (mt_context ?t)" using Plugin_seq [OF inv Cons.prems(4) p] by simp
        moreover have "mount_services close m g a (ids @ [ps_key ?v]) rest ?t w = (s', w', err)"
          using Cons.prems(1) \<open>resolve_dependencies _ _ = Inr inject\<close> p Inr svc(2) by (simp add: Let_def)
        moreover have "PluginIDs (mt_context ?t) = PluginIDs (mt_context s) @ [ps_key ?v]"
          using PluginIDs_with_service [OF inv Cons.prems(4) svc(4)] svc(1) by simp
        ultimately show ?thesis
          using Cons.IH [of "ids @ [ps_key ?v]" ?t w] unfolding key service_keys_def
          by (simp add: store_value_def)
      qed
    qed
  qed (simp add: service_keys_def)
  then show thesis using refused mounted by blast
qed


section \<open>Lookup\<close>

definition found :: "'w Mounts \<Rightarrow> string \<Rightarrow> providerServiceValue \<Rightarrow> bool" where
  "found s key v \<longleftrightarrow> (\<exists>ad. gomap_get (cx_services (mt_context s)) key = Some \<lparr>sk_Key = key, sk_payload = ad\<rparr> \<and>
     ad < mt_fresh s \<and> gomap_get (mt_values s) ad = Some v)"

lemma found_value: "found s key v \<Longrightarrow> value_at s key = Some v"
  by (auto simp: found_def value_at_def Resolve_def)

lemma found_mounted:
  assumes "gomap_get (cx_services (mt_context s)) (ps_key v) = None"
  shows "found ((store_value v s)\<lparr>mt_context := with_service v (mt_fresh s) d (mt_context s)\<rparr>) (ps_key v) v"
    "found s key u \<Longrightarrow> found ((store_value v s)\<lparr>mt_context := with_service v (mt_fresh s) d (mt_context s)\<rparr>) key u"
proof -
  show "found ((store_value v s)\<lparr>mt_context := with_service v (mt_fresh s) d (mt_context s)\<rparr>) (ps_key v) v"
    by (simp add: found_def store_value_def with_service_def)
  assume "found s key u"
  then obtain ad where "gomap_get (cx_services (mt_context s)) key = Some \<lparr>sk_Key = key, sk_payload = ad\<rparr>"
      "ad < mt_fresh s" "gomap_get (mt_values s) ad = Some u" by (auto simp: found_def)
  with assms show "found ((store_value v s)\<lparr>mt_context := with_service v (mt_fresh s) d (mt_context s)\<rparr>) key u"
    unfolding found_def by (intro exI [of _ ad]) (auto simp: store_value_def with_service_def)
qed

lemma mount_services_found:
  assumes "mount_services close m g a ids services s w = (s', w', None)" "kernel_inv (mt_context s)"
  shows "(\<forall>x \<in> set services. \<exists>inject. found s' (providerServiceCordisKey (pf_ID (im_Provider m)) (se_ID x) g)
      (service_value m g a x inject)) \<and> (\<forall>key v. found s key v \<longrightarrow> found s' key v)"
  using assms
proof (induction services arbitrary: ids s w)
  case (Cons x rest)
  obtain inject where inject: "resolve_dependencies (se_Dependencies x) (injectableServiceFamilies s g) = Inr inject"
    using Cons.prems(1) by (auto split: sum.splits prod.splits)
  let ?v = "service_value m g a x inject"
  let ?own = "if ids = [] then Some (close a) else None"
  obtain c w1 r where p: "Plugin (Some (service_plugin ?v (mt_fresh s) ?own)) (mt_context s) w = (c, w1, r)" by (metis prod_cases3)
  obtain f where r: "r = Inr f" using Cons.prems(1) inject p by (cases r) (auto simp: Let_def split: prod.splits)
  note svc = service_plugin_Inr [OF p [unfolded r] inv_parts(6) [OF Cons.prems(2)]]
  let ?t = "(store_value ?v s)\<lparr>mt_context := c\<rparr>"
  have "kernel_inv (mt_context ?t)" using Plugin_inv [OF Cons.prems(2) p] by simp
  moreover have "mount_services close m g a (ids @ [ps_key ?v]) rest ?t w1 = (s', w', None)"
    using Cons.prems(1) inject p r by (simp add: Let_def)
  ultimately have rest: "(\<forall>x \<in> set rest. \<exists>inject. found s' (providerServiceCordisKey (pf_ID (im_Provider m)) (se_ID x) g)
      (service_value m g a x inject)) \<and> (\<forall>key v. found ?t key v \<longrightarrow> found s' key v)"
    using Cons.IH by blast
  have key: "ps_key ?v = providerServiceCordisKey (pf_ID (im_Provider m)) (se_ID x) g" by (simp add: service_value_def)
  note here = found_mounted [OF svc(5), where d = ?own]
  have "found s' (ps_key ?v) ?v" using rest here(1) svc(1) by simp
  moreover have "\<forall>key v. found s key v \<longrightarrow> found s' key v" using rest here(2) svc(1) by simp
  ultimately show ?case using rest unfolding key by auto
qed simp

lemma service_key_generation: "generation_key p g (providerServiceCordisKey p x g)"
  by (simp add: generation_key_def providerServiceCordisKey_def ServiceKey_def HasSuffix_def HasPrefix_iff)

lemma service_keys_generation: "filter (generation_key (pf_ID (im_Provider m)) g) (service_keys m g services) = service_keys m g services"
  by (rule filter_True) (auto simp: service_keys_def service_key_generation)

section \<open>Claims\<close>

text \<open>
  C30: Mounting a generation is all or nothing. When it fails, at whatever service and for whatever reason,
  the services, their owners, the plugins and the listeners of the kernel are what they were, so nothing of
  the generation can be looked up; and of the outside world at most the adapter was closed, once.
\<close>

theorem mount_all_or_nothing:
  assumes "reaches new_kernel kernel_step (mt_context s)"
    and "mountProviderGeneration close m g adapter s w = (s', w', Some e)"
  shows "same_registrations (mt_context s) (mt_context s') \<and>
    (w' = w \<or> (\<exists>a. adapter = Some a \<and> w' = snd (close a w)))"
proof -
  have inv: "kernel_inv (mt_context s)" "seq_inv (mt_context s)"
    using ordered_kernels.inv_reachable [OF assms(1)] by auto
  note same = same_refl [OF inv_parts(6) [OF inv(1)]]
  show ?thesis
  proof (cases adapter)
    case (Some a)
    show ?thesis
    proof (cases "TrimSpace g = []")
      case False
      with assms(2) Some have "mount_services close m g a [] (im_Services m) s w = (s', w', Some e)"
        by (simp add: mountProviderGeneration_def)
      from mount_services_cases [OF this undoes_start [OF inv(1)] owns_Nil inv(2)]
      have "same_registrations (mt_context s) (mt_context s') \<and> (w' = w \<or> w' = snd (close a w))" by auto
      with Some show ?thesis by blast
    qed (use assms(2) Some same in \<open>auto simp: mountProviderGeneration_def\<close>)
  qed (use assms(2) same in \<open>auto simp: mountProviderGeneration_def\<close>)
qed

text \<open>
  C31: Mounting a generation and unmounting it is a round trip. Once mounted, each service of the manifest
  is found under its provider, service and generation with its own definition and the generation's adapter.
  When nothing else was mounted under the generation's keys, unmounting it restores the services, owners,
  plugins and listeners from before and closes the adapter exactly once, after every other effect.
\<close>

theorem generation_roundtrip:
  assumes "reaches new_kernel kernel_step (mt_context s)"
    and "mountProviderGeneration close m g (Some a) s w = (s', w', None)"
    and "filter (generation_key (pf_ID (im_Provider m)) g) (PluginIDs (mt_context s)) = []"
    and "unmountProviderGeneration (pf_ID (im_Provider m)) g s' u = (s'', u', errs)"
  shows "w' = w \<and> same_registrations (mt_context s) (mt_context s'') \<and>
    (\<forall>x \<in> set (im_Services m). \<exists>v. providerServiceValueFor s' (pf_ID (im_Provider m)) (se_ID x) g = Some v \<and>
       ps_service v = x \<and> ps_adapter v = a \<and> ps_generationID v = g \<and> ps_capabilityID v = TrimSpace (se_CapabilityID x)) \<and>
    (u', errs) = (if im_Services m = [] then (u, []) else (snd (close a u), (case fst (close a u) of None \<Rightarrow> [] | Some e \<Rightarrow> [e])))"
proof -
  have inv: "kernel_inv (mt_context s)" "seq_inv (mt_context s)"
    using ordered_kernels.inv_reachable [OF assms(1)] by auto
  have run: "mount_services close m g a [] (im_Services m) s w = (s', w', None)"
    using assms(2) by (simp add: mountProviderGeneration_def split: if_splits)
  from mount_services_cases [OF run undoes_start [OF inv(1)] owns_Nil inv(2)]
  have m: "w' = w" "undoes (mt_context s) (service_keys m g (im_Services m)) (mt_context s')"
      "owns (close a) (service_keys m g (im_Services m)) (mt_context s')"
      "PluginIDs (mt_context s') = PluginIDs (mt_context s) @ service_keys m g (im_Services m)" by auto
  have "unmountProviderPlugins (service_keys m g (im_Services m)) s' u = (s'', u', errs)"
    using assms(4) by (simp add: unmountProviderGeneration_def m(4) assms(3) service_keys_generation)
  note u = unmount_undoes(1-3) [OF m(2,3) this]
  have empty: "service_keys m g (im_Services m) = [] \<longleftrightarrow> im_Services m = []" by (simp add: service_keys_def)
  have "\<exists>v. providerServiceValueFor s' (pf_ID (im_Provider m)) (se_ID x) g = Some v \<and>
       ps_service v = x \<and> ps_adapter v = a \<and> ps_generationID v = g \<and> ps_capabilityID v = TrimSpace (se_CapabilityID x)"
    if "x \<in> set (im_Services m)" for x
    using mount_services_found [OF run inv(1)] that found_value
    unfolding providerServiceValueFor_def by (fastforce simp: service_value_def)
  with m(1) u show ?thesis by (simp add: empty)
qed


section \<open>A mounted provider\<close>

text \<open>Closing an adapter leaves a mark in the world, which is a list of marks.\<close>

definition mark_close :: "nat \<Rightarrow> string list disposable" where
  "mark_close a w = (None, w @ [''closed''])"

definition no_mounts :: "string list Mounts" where
  "no_mounts = \<lparr>mt_context = NewContext, mt_values = [], mt_fresh = 0,
     mt_lifecycle = NewProviderLifecycleManager \<lparr>dp_Timeout = 0, dp_CancelOnTimeout = False\<rparr>\<rparr>"

definition two_services :: "string \<Rightarrow> InstallManifest" where
  "two_services needed = example_manifest [example_service ''first'' [],
     (example_service ''second'' [])\<lparr>se_CapabilityID := ''opute.second'',
       se_Dependencies := [\<lparr>cr_ID = needed, cr_Version = 1\<rparr>]\<rparr>]"

lemma no_mounts_reached: "reaches new_kernel kernel_step (mt_context no_mounts)"
  by (rule reaches_start) (simp add: new_kernel_def no_mounts_def)

theorem mount_all_or_nothing_witness:
  "\<exists>s' e. mountProviderGeneration mark_close (two_services ''opute.missing'') ''g1'' (Some 7) no_mounts [] =
       (s', [''closed''], Some e) \<and> same_registrations NewContext (mt_context s')"
proof -
  obtain s' w' err where r: "mountProviderGeneration mark_close (two_services ''opute.missing'') ''g1'' (Some 7) no_mounts [] = (s', w', err)"
    by (metis prod_cases3)
  have "fst (snd (mountProviderGeneration mark_close (two_services ''opute.missing'') ''g1'' (Some 7) no_mounts [])) = [''closed'']"
    "snd (snd (mountProviderGeneration mark_close (two_services ''opute.missing'') ''g1'' (Some 7) no_mounts [])) \<noteq> None"
    by code_simp+
  then obtain e where "w' = [''closed'']" "err = Some e" by (auto simp: r)
  with mount_all_or_nothing [OF no_mounts_reached] r show ?thesis by (fastforce simp: no_mounts_def)
qed

theorem generation_roundtrip_witness:
  "\<exists>s' s''. mountProviderGeneration mark_close (two_services ''opute.capability.example.v1'') ''g1'' (Some 7) no_mounts [] = (s', [], None) \<and>
     unmountProviderGeneration ''com.opute.example'' ''g1'' s' [] = (s'', [''closed''], []) \<and>
     PluginIDs (mt_context s') = [''com.opute.example/first@g1'', ''com.opute.example/second@g1''] \<and>
     same_registrations NewContext (mt_context s'')"
proof -
  let ?m = "two_services ''opute.capability.example.v1''"
  obtain s' w' err where r: "mountProviderGeneration mark_close ?m ''g1'' (Some 7) no_mounts [] = (s', w', err)"
    by (metis prod_cases3)
  have "snd (snd (mountProviderGeneration mark_close ?m ''g1'' (Some 7) no_mounts [])) = None"
    "PluginIDs (mt_context (fst (mountProviderGeneration mark_close ?m ''g1'' (Some 7) no_mounts []))) =
       [''com.opute.example/first@g1'', ''com.opute.example/second@g1'']"
    by code_simp+
  then have ok: "err = None" and ids: "PluginIDs (mt_context s') = [''com.opute.example/first@g1'', ''com.opute.example/second@g1'']"
    by (simp_all add: r)
  have id: "pf_ID (im_Provider ?m) = ''com.opute.example''" and some: "im_Services ?m \<noteq> []"
    by (simp_all add: two_services_def example_manifest_def)
  have none: "filter (generation_key (pf_ID (im_Provider ?m)) ''g1'') (PluginIDs (mt_context no_mounts)) = []"
    by (simp add: no_mounts_def NewContext_def PluginIDs_def mounted_def)
  obtain s'' u errs where u: "unmountProviderGeneration (pf_ID (im_Provider ?m)) ''g1'' s' [] = (s'', u, errs)" by (metis prod_cases3)
  from generation_roundtrip [OF no_mounts_reached r [unfolded ok] none u] some
  have "w' = []" "same_registrations (mt_context no_mounts) (mt_context s'')" "u = [''closed'']" "errs = []"
    by (simp_all add: mark_close_def)
  then show ?thesis using r ok ids u id by (simp add: no_mounts_def)
qed

end
