(* ===== verification/Spec2Isabelle.thy ===== *)
theory Spec2Isabelle
  imports Permits Lease Resource_URI Plan_Values Generation_Laws Authz_Safety Task_Laws Cordis_Laws Redaction_Laws Produced Cost_Laws Resource_Laws
    Dispatch_Release Task_Start_Laws Delegation_Laws Tool_Call_Laws Provider_Mount_Laws
begin

text \<open>
  A verification library for the host agent, the daemon that runs on a machine and lets an operator's
  control plane act on it through MCP tools. This theory imports all others and documents them.

  \<^bold>\<open>The program's parts.\<close> A tool call enters over HTTP and passes the bearer check
  (\<open>internal/authz\<close>). A tool that costs memory or disk asks the host reservation service and the
  permit coordinator for capacity first (\<open>internal/resource\<close>). A long running call gets a task handle
  (\<open>internal/tasks\<close>). A plan document names many tool calls with dependencies, assertions, waits and
  compensations; the plan engine validates and runs it (\<open>internal/plan\<close>), and a durable run keeps its
  reservation through a lease (\<open>internal/hostmcp/reservation_lease.go\<close>). Provider processes come and go
  in generations (\<open>internal/cordis/generation.go\<close>). Resources carry printable identities
  (\<open>internal/resourceid\<close>).

  \<^bold>\<open>Conventions.\<close> A Go struct is a \<open>record\<close>, its field names prefixed with two letters; a Go map is
  the association list \<open>gomap\<close> with distinct keys, its order that of the range loop, over which every
  theorem is general. A method takes its receiver as an argument and returns it updated; a method that
  holds its mutex throughout is one atomic function, and code that gives up its lock is a step relation.
  A \<open>string\<close> is a list of bytes. An \<open>int64\<close> that can overflow is a 64 bit word, other integers are \<open>int\<close>;
  \<open>float64\<close> is the type of that name in \<open>Go_Float\<close>, with IEEE rounding on exact rationals. An error is
  a value on the left of a sum. What the code asks of the world outside the process (telemetry, SQLite,
  the files, the clock, random bytes, the resolver, the answers of tools) is an argument, so each theorem
  holds for every behaviour of it.

  \<^bold>\<open>Foundations.\<close> \<open>Prelude\<close>: words as integers, maps, counting, and the locale \<open>invariant_system\<close> for
  reachable states. \<open>Go_Strings\<close>, \<open>Go_Float\<close>, \<open>Go_Net\<close>, \<open>Go_Crypto\<close>: what the code uses of Go's
  standard library, with the laws the proofs need (for instance that joining a split text gives it back).
  \<open>Go_Number\<close> reads and multiplies decimal numbers. \<open>Json\<close>: the values of type \<open>any\<close>.

  \<^bold>\<open>Capacity.\<close> \<open>Telemetry\<close> chooses and reads the disk of \<open>internal/heartbeat\<close>. \<open>Admission\<close> holds the
  permit coordinator of \<open>resource/admission.go\<close> (state, limits, queue, wake-ups); in \<open>Permits\<close> any number of
  callers run \<open>AcquireClass\<close> in single steps, and heavy and normal permits exclude each other, none leaks,
  and a release wakes every waiter it can serve. \<open>Reservations\<close> is \<open>resource/service.go\<close> with its file of
  records; \<open>Reservation_Laws\<close> gives one case rule per operation and the invariant of the records,
  \<open>Reservation_System\<close> runs the service beside the coordinator and bounds the reserved memory, and
  \<open>Reservation_Ownership\<close> says who may release, renew, bind and inherit. \<open>Lease\<close> is the lease of a durable
  run, released at most once and never renewed afterwards. \<open>Cost_Arguments\<close> is \<open>resource/cost_arguments.go\<close>,
  which takes the cost of a call from its arguments; \<open>Cost_Laws\<close> proves that the result is positive and that
  capacities with a unit are read exactly.

  \<^bold>\<open>Identities.\<close> \<open>Resource_URI\<close> parses and prints resource identities. \<open>Resources\<close> is the
  registry behind them: the interface of \<open>hostruntime/shared.go\<close>, its implementations in memory and in SQLite, and
  the resolution of an identity, which may adopt what a domain reports. \<open>Resource_Laws\<close> states the contract of a
  registry as the locale \<open>resource_registry\<close>, proves both implementations to meet it, and concludes that tenants
  are kept apart and that what is registered is resolved.

  \<^bold>\<open>Calls.\<close> \<open>Dispatch\<close> is the execution boundary of \<open>hostmcp/server.go\<close>: \<open>DispatchTool\<close> resolves the
  arguments of a call to identities, has the call admitted at its declared cost, invokes the capability, validates
  and records the result and gives the reservation back; the capability interface and its adapters are
  \<open>internal/capability\<close>. The world that a call acts on is a type parameter and what lies behind an interface an
  operation on it. \<open>Dispatch_Laws\<close> proves that work without a declared cost never starts, that capabilities see
  identities of the own tenant only, that a success was checked and that records tell no secrets.
  \<open>Dispatch_Release\<close> states what a call needs of an admission service as the locale \<open>admission_service\<close>, proves the
  reservation service of the host to meet it with all faults of its file, and concludes that a call leaves no
  reservation behind, unless the release at its end, whose error the code drops, fails.
  \<open>Task_Starts\<close> is the start of detached tasks: what is done under \<open>asyncTaskStartMu\<close> as functions, and
  creators, polls, timers, workers and the closing of the server as a step relation over a multiset of threads;
  \<open>Task_Start_Laws\<close> proves that the start of a task is decided at most once, and never after \<open>tasks/cancel\<close>
  discarded it, that nothing runs after the closing and that the closing returns. The cancellation of a record in the
  registry is a step of its own, which \<open>tasks/cancel\<close> takes after the discard and \<open>cancel_operation\<close> without it.
  \<open>Delegation\<close> is \<open>hostmcp/resource_delegation.go\<close>, the signed tokens with which a provider calls tools of the host
  while it works for a task (\<open>Go_Hmac\<close> has HMAC and base64); \<open>Delegation_Laws\<close> proves that such a call runs for
  exactly the task of a provider call that is still running, and that it borrows its reservation and reserves
  nothing of its own.
  \<open>Tool_Calls\<close> is \<open>handleToolCall\<close>, the entry of a call over MCP: stale revisions, delegations, the gate for
  mutations and the part of the server that answers. The parts that run capabilities later, the detached task and the
  plan, are arguments that are handed the dispatch on this server; \<open>Tool_Call_Laws\<close> proves that a host that does not
  allow mutations does not depend on what its mutating capabilities do, on any of these paths.

  \<^bold>\<open>Plans.\<close> \<open>Plan_Types\<close> has the documents, the run state and the monad of the runner: it threads a log of
  every effect (a tool call, an emitted state, a pause) and reads the answers of the world by the position
  in the log at which they are asked for. \<open>Plan_Graph\<close> is \<open>plan/graph.go\<close>; \<open>Plan_Graph_Laws\<close> and
  \<open>Plan_Schedule\<close> prove that validation accepts exactly the acyclic documents, and that levels and reverse
  order are schedules of the dependency relation. \<open>Plan_Assert\<close>, \<open>Plan_Interpolate\<close>, \<open>Plan_Schema\<close> are
  assertions, interpolation and the JSON schema subset; \<open>Plan_References\<close> and \<open>Plan_Validate\<close> the checks of
  \<open>Validate\<close>; \<open>Plan_Guards\<close> and \<open>Plan_Values\<close> what they guarantee. \<open>Plan_Engine\<close>, \<open>Plan_Runner\<close>,
  \<open>Plan_Run\<close> and \<open>Plan_Passes\<close> are \<open>plan/runner.go\<close>: one node with its retries, a level, a pass, waiting,
  resuming and compensation. The nodes of a level run as goroutines in the code; here they run one after
  the other in the level's order, which is one of the code's interleavings, since a node writes only its
  own entries. \<open>Plan_Logic\<close> states triples over logs as the locales \<open>node_law\<close> and \<open>event_law\<close>, so that a
  property of every effect is proved once through all the loops; \<open>Plan_Safety\<close> interprets them for secrets
  and for schemas, \<open>Plan_Outcome\<close>, \<open>Plan_Compensation\<close> and \<open>Plan_Resume\<close> treat the results of a run;
  compensation runs against the dependencies.
  \<open>Plan_Demo\<close> has the documents that the witnesses run. Loops that the code bounds itself (attempts,
  revisions, the queue of the graph) recurse on that bound.

  \<^bold>\<open>Providers.\<close> \<open>Generations\<close> is \<open>cordis/generation.go\<close>; \<open>Generation_Laws\<close> proves that at most one
  generation of a provider is active, that session counts are exact and that a rollback restores the
  predecessor. \<open>Cordis_Context\<close> is \<open>cordis/context.go\<close>, the kernel on which plugins register services,
  listeners and effects; \<open>Cordis_Laws\<close> proves that disposal releases every registration and runs the
  effects backwards, and that unmounting restores the kernel. In \<open>Generations\<close>, \<open>Drain\<close> takes its polls as a list, each with what other callers did before it.
  \<open>Provider_Contract\<close> is \<open>contracts/provider\<close>, the checks of what a provider declares, and the projection of its
  operations to the catalog; \<open>Provider_Contract_Laws\<close> proves what a validated manifest is worth there.
  \<open>Provider_Mounts\<close> is \<open>hostmcp/provider_service_plugin.go\<close>: the services of a generation as plugins of the kernel;
  \<open>Provider_Mount_Laws\<close> proves that mounting is all or nothing and that unmounting undoes it.

  \<^bold>\<open>Authorization.\<close> \<open>Authz_Store\<close> has the tables of \<open>authz/store.go\<close> and the type \<open>prog\<close> of request
  handlers: a handler asks one question at a time, and between two questions other handlers may run.
  \<open>Authz\<close> has the handlers. \<open>Authz_Laws\<close> serves any number of requests in every interleaving and relates
  the tables to the log of questions; \<open>Authz_Grants\<close> reads a handler's history; \<open>Authz_Safety\<close> concludes
  that a code is redeemed once and that every admission goes back to a grant.

  \<^bold>\<open>Capabilities.\<close> \<open>Selectors\<close> is the selector package: paths into a result and the positions they lead to,
  which the code keeps in slices that may share an array. \<open>Selector_Laws\<close> proves that a selector lists exactly
  what is on its path up to three nested arrays, and that four lose positions. \<open>Catalog\<close> is the registry of
  dynamic capabilities and the published snapshot; \<open>Catalog_Laws\<close> proves that only checked capabilities get
  in, that a replacement is all or nothing, and that the edges of a snapshot are its typed relations.
  \<open>Produced\<close> checks the identities that a result names: an accepted result names only the tenant's.
  \<open>Redaction\<close> is the projection of evidence before it is stored; \<open>Redaction_Laws\<close> proves that it does not
  tell apart runs that differ in secrets, where the schemas declare them; the state of a node whose tool has no
  schema is shown in full.

  \<^bold>\<open>Tasks.\<close> \<open>Tasks\<close> is the registry of \<open>tasks/registry.go\<close>; \<open>Task_Laws\<close> proves that it refines an abstract
  machine of statuses and outstanding inputs, that a finished task is final, and that a task resumes once
  for each wait.

  \<^bold>\<open>Not modelled.\<close> The domains that drive other software (Kubernetes, Incus, PostgreSQL, model servers,
  containers) and the provider plugins are effects outside the process. The MCP protocol layer and SQLite
  are third-party code. Go's regular expressions and its URL parser are arguments of the definitions that
  use them. Timestamps are compared as given, without their textual format. The candidate numbers of
  generations are followed below their 64 bit bound.
\<close>

end
